(* ===== verification/Prelude.thy ===== *)
theory Prelude
  imports Complex_Main "HOL-Library.Product_Lexorder"
begin

text \<open>
  Shared vocabulary of the development: the scalar types of the two databases, the
  errors the Python code raises, a relational table as a list of rows with the three
  statements the code issues against it (select by key, insert, update), and the
  \<open>ORDER BY ... LIMIT 1\<close> query. The locale \<open>row_update\<close> is the interface between a
  component and the table it mutates: an in-place change of one row that leaves the
  primary key alone.
\<close>

named_theorems row_simps \<open>what a row update leaves unchanged\<close>
named_theorems outcome_simps \<open>unfolding of result-valued steps\<close>

section \<open>Scalars and errors\<close>

text \<open>
  A \<open>UUID\<close> is its 128-bit integer value (\<open>UUID.int\<close>), which is also its order in
  PostgreSQL. A timezone-aware \<open>datetime\<close> and a \<open>timedelta\<close> are counts of
  microseconds.
\<close>

type_synonym uuid = nat
type_synonym datetime = int
type_synonym timedelta = int

datatype error =
    ValueError string
  | KeyError string
  | TypeError string
  | LookupError string
  | PermissionError string
  | OverflowError string
  | RuntimeError string
  | OSError string
  | IntegrityError string
  | HTTPException nat string
  | AttributeError string
  | DeliveryFailure string string bool
  | TransportError string
  | MediaStorageUnavailable string
  | MediaStorageOperationError string nat string
  | MediaStagingError string string

type_synonym 'a outcome = "error + 'a"

definition outcome_bind :: "'a outcome \<Rightarrow> ('a \<Rightarrow> 'b outcome) \<Rightarrow> 'b outcome" where
  "outcome_bind r f = (case r of Inl e \<Rightarrow> Inl e | Inr x \<Rightarrow> f x)"

definition require :: "bool \<Rightarrow> error \<Rightarrow> unit outcome" where
  "require b e = (if b then Inr () else Inl e)"

lemma outcome_bind_simps [simp, outcome_simps]:
  "outcome_bind (Inl e) f = Inl e"
  "outcome_bind (Inr x) f = f x"
  by (simp_all add: outcome_bind_def)

lemma outcome_bind_Inr_conv [outcome_simps]:
  "outcome_bind r f = Inr y \<longleftrightarrow> (\<exists>x. r = Inr x \<and> f x = Inr y)"
  by (cases r) simp_all

lemma outcome_bind_Inl_conv [outcome_simps]:
  "outcome_bind r f = Inl e \<longleftrightarrow> r = Inl e \<or> (\<exists>x. r = Inr x \<and> f x = Inl e)"
  by (cases r) simp_all

lemma require_conv [simp, outcome_simps]:
  "require b e = Inr u \<longleftrightarrow> b"
  "require b e = Inl e' \<longleftrightarrow> \<not> b \<and> e' = e"
  by (auto simp: require_def)

section \<open>Tables\<close>

lemma find_SomeD: "find P xs = Some x \<Longrightarrow> P x \<and> x \<in> set xs"
  by (induction xs) (auto split: if_splits)

definition row_get :: "('r \<Rightarrow> 'k) \<Rightarrow> 'r list \<Rightarrow> 'k \<Rightarrow> 'r option" where
  "row_get key rows k = find (\<lambda>r. key r = k) rows"

definition row_put :: "('r \<Rightarrow> 'k) \<Rightarrow> 'k \<Rightarrow> ('r \<Rightarrow> 'r) \<Rightarrow> 'r list \<Rightarrow> 'r list" where
  "row_put key k f rows = map (\<lambda>r. if key r = k then f r else r) rows"

definition keyed :: "('r \<Rightarrow> 'k) \<Rightarrow> 'r list \<Rightarrow> bool" where
  "keyed key rows \<longleftrightarrow> distinct (map key rows)"

lemma row_get_Nil [simp]: "row_get key [] k = None"
  by (simp add: row_get_def)

lemma row_get_Cons [simp]:
  "row_get key (r # rows) k = (if key r = k then Some r else row_get key rows k)"
  by (simp add: row_get_def)

lemma row_put_Nil [simp]: "row_put key k f [] = []"
  by (simp add: row_put_def)

lemma row_put_Cons [simp]:
  "row_put key k f (r # rows) = (if key r = k then f r else r) # row_put key k f rows"
  by (simp add: row_put_def)

lemma keyed_simps [simp]:
  "keyed key []"
  "keyed key (r # rows) \<longleftrightarrow> key r \<notin> key ` set rows \<and> keyed key rows"
  by (simp_all add: keyed_def)

lemma row_get_append:
  "row_get key (xs @ ys) k =
     (case row_get key xs k of None \<Rightarrow> row_get key ys k | Some r \<Rightarrow> Some r)"
  by (induction xs) auto

lemma row_get_SomeD: "row_get key rows k = Some r \<Longrightarrow> r \<in> set rows \<and> key r = k"
  by (induction rows) (auto split: if_splits)

lemma row_get_None_iff: "row_get key rows k = None \<longleftrightarrow> k \<notin> key ` set rows"
  by (induction rows) auto

lemma row_get_mem: "keyed key rows \<Longrightarrow> r \<in> set rows \<Longrightarrow> row_get key rows (key r) = Some r"
  by (induction rows) auto

lemma keyed_snoc [simp]:
  "keyed key (rows @ [r]) \<longleftrightarrow> key r \<notin> key ` set rows \<and> keyed key rows"
  by (auto simp: keyed_def)

lemma length_row_put [simp]: "length (row_put key k f rows) = length rows"
  by (simp add: row_put_def)

text \<open>
  An update of one row, as the ORM issues it at flush time. Its only obligation is that
  the primary key stays; the locale then gives the select-after-update laws every
  component uses.
\<close>

locale row_update =
  fixes key :: "'r \<Rightarrow> 'k"
    and f :: "'r \<Rightarrow> 'r"
  assumes key_kept: "key (f r) = key r"
begin

lemma get_same: "row_get key (row_put key k f rows) k = map_option f (row_get key rows k)"
  by (induction rows) (auto simp: key_kept)

lemma get_other: "k' \<noteq> k \<Longrightarrow> row_get key (row_put key k f rows) k' = row_get key rows k'"
  by (induction rows) (auto simp: key_kept)

lemma map_key: "map key (row_put key k f rows) = map key rows"
  by (induction rows) (auto simp: key_kept)

lemma keyed_put: "keyed key (row_put key k f rows) = keyed key rows"
  by (simp add: keyed_def map_key)

lemma mem_put:
  "r' \<in> set (row_put key k f rows) \<Longrightarrow>
     (\<exists>r \<in> set rows. key r = k \<and> r' = f r) \<or> (r' \<in> set rows \<and> key r' \<noteq> k)"
  by (induction rows) (auto split: if_splits)

lemma all_put:
  assumes "\<And>r. r \<in> set rows \<Longrightarrow> P r"
    and "\<And>r. r \<in> set rows \<Longrightarrow> key r = k \<Longrightarrow> P (f r)"
    and "r' \<in> set (row_put key k f rows)"
  shows "P r'"
  using mem_put [OF assms(3)] assms(1,2) by auto

end

section \<open>Ordered selection\<close>

text \<open>\<open>SELECT ... ORDER BY key LIMIT 1\<close>: the first row in key order, the earlier of two equal ones.\<close>

fun first_by :: "('r \<Rightarrow> 'k::linorder) \<Rightarrow> 'r list \<Rightarrow> 'r option" where
  "first_by key [] = None"
| "first_by key (r # rows) =
     (case first_by key rows of
        None \<Rightarrow> Some r
      | Some best \<Rightarrow> if key r \<le> key best then Some r else Some best)"

lemma first_by_None_iff [simp]: "first_by key rows = None \<longleftrightarrow> rows = []"
  by (cases rows) (auto split: option.splits)

lemma first_by_Some:
  "first_by key rows = Some r \<Longrightarrow> r \<in> set rows \<and> (\<forall>r' \<in> set rows. key r \<le> key r')"
proof (induction rows arbitrary: r)
  case Nil
  then show ?case by simp
next
  case (Cons a rows)
  show ?case
  proof (cases "first_by key rows")
    case None
    with Cons.prems show ?thesis by simp
  next
    case (Some best)
    from Cons.IH [OF Some] have best: "best \<in> set rows" "\<forall>r' \<in> set rows. key best \<le> key r'"
      by auto
    from Cons.prems Some have "r = (if key a \<le> key best then a else best)"
      by (auto split: if_splits)
    with best show ?thesis by (auto intro: order_trans split: if_splits)
  qed
qed

lemma first_by_exists: "r \<in> set rows \<Longrightarrow> \<exists>best. first_by key rows = Some best"
  by (metis first_by_None_iff list.set_cases list.distinct(1) not_None_eq)

section \<open>Rounding of a \<open>timedelta\<close>\<close>

text \<open>
  \<open>timedelta(seconds=x)\<close> rounds to whole microseconds, ties to even. Floating-point
  seconds are exact rationals here.
\<close>

definition round_half_even :: "rat \<Rightarrow> int" where
  "round_half_even x =
     (let f = \<lfloor>x\<rfloor>; d = x - of_int f
      in if d < 1/2 then f else if 1/2 < d then f + 1 else if even f then f else f + 1)"

definition timedelta_seconds :: "rat \<Rightarrow> timedelta" where
  "timedelta_seconds s = round_half_even (s * 1000000)"

lemma round_half_even_ge_floor: "\<lfloor>x\<rfloor> \<le> round_half_even x"
  by (simp add: round_half_even_def Let_def)

lemma round_half_even_of_int [simp]: "round_half_even (of_int n) = n"
  by (simp add: round_half_even_def)

lemma round_half_even_mono: "x \<le> y \<Longrightarrow> round_half_even x \<le> round_half_even y"
proof -
  assume xy: "x \<le> y"
  show ?thesis
  proof (cases "\<lfloor>x\<rfloor> = \<lfloor>y\<rfloor>")
    case True
    with xy show ?thesis by (auto simp: round_half_even_def Let_def)
  next
    case False
    with xy have "\<lfloor>x\<rfloor> + 1 \<le> \<lfloor>y\<rfloor>" using floor_mono [OF xy] by simp
    moreover have "round_half_even x \<le> \<lfloor>x\<rfloor> + 1"
      by (simp add: round_half_even_def Let_def)
    ultimately show ?thesis using round_half_even_ge_floor [of y] by linarith
  qed
qed

end
