(* ===== verification/Enums.thy ===== *)
theory Enums
  imports Prelude
begin

text \<open>
  The status and role vocabularies of \<open>upm_shared/enums.py\<close>, one \<open>datatype\<close> per
  \<open>StrEnum\<close> class with the class's members in source order, and the string each member
  is stored as. \<open>enum_of_value\<close> is the lookup \<open>Class(value)\<close>, which raises
  \<open>ValueError\<close> on an unknown string. The locale \<open>str_enum\<close> is the contract the
  persistence layer relies on when it keeps an enum in a VARCHAR column; every class is
  an interpretation of it.
\<close>

definition enum_of_value :: "'e list \<Rightarrow> ('e \<Rightarrow> string) \<Rightarrow> string \<Rightarrow> 'e outcome" where
  "enum_of_value members val s =
     (case find (\<lambda>m. val m = s) members of
        None \<Rightarrow> Inl (ValueError s)
      | Some m \<Rightarrow> Inr m)"

text \<open>
  \<open>enum_values\<close> is what \<open>domain_enum\<close> and \<open>enum_check\<close> of the two
  \<open>persistence/models.py\<close> files store and accept.
\<close>

definition enum_values :: "'e list \<Rightarrow> ('e \<Rightarrow> string) \<Rightarrow> string list" where
  "enum_values members val = map val members"

definition enum_check :: "'e list \<Rightarrow> ('e \<Rightarrow> string) \<Rightarrow> string \<Rightarrow> bool" where
  "enum_check members val stored \<longleftrightarrow> stored \<in> set (enum_values members val)"

locale str_enum =
  fixes members :: "'e list"
    and val :: "'e \<Rightarrow> string"
  assumes complete: "m \<in> set members"
    and values_distinct: "distinct (map val members)"
begin

lemma val_inj: "val a = val b \<longleftrightarrow> a = b"
  using values_distinct complete by (auto simp: distinct_map inj_on_def)

lemma find_val: "find (\<lambda>x. val x = val m) members = Some m"
proof -
  have "find (\<lambda>x. val x = val m) members \<noteq> None"
    using complete [of m] by (auto simp: find_None_iff)
  then obtain x where x: "find (\<lambda>x. val x = val m) members = Some x" by blast
  then have "val x = val m" by (auto simp: find_Some_iff)
  with x val_inj show ?thesis by simp
qed

lemma of_value_val: "enum_of_value members val (val m) = Inr m"
  by (simp add: enum_of_value_def find_val)

lemma of_value_iff: "enum_of_value members val s = Inr m \<longleftrightarrow> val m = s"
  using of_value_val [of m]
  by (auto simp: enum_of_value_def dest: find_SomeD split: option.splits)

lemma of_value_error_iff:
  "enum_of_value members val s = Inl (ValueError s) \<longleftrightarrow> \<not> enum_check members val s"
  by (auto simp: enum_of_value_def enum_check_def enum_values_def find_None_iff
      dest: find_SomeD split: option.splits)

end

section \<open>\<open>SourceSystem\<close>\<close>

datatype source_system =
    Src_CENTRAL
  | Src_SITE
  | Src_IMPORT
  | Src_EXTERNAL

fun source_system_value :: "source_system \<Rightarrow> string" where
  "source_system_value Src_CENTRAL = ''central''"
| "source_system_value Src_SITE = ''site''"
| "source_system_value Src_IMPORT = ''import''"
| "source_system_value Src_EXTERNAL = ''external''"

definition source_system_members :: "source_system list" where
  "source_system_members = [Src_CENTRAL, Src_SITE, Src_IMPORT, Src_EXTERNAL]"

interpretation source_system_enum: str_enum source_system_members source_system_value
  by unfold_locales (rename_tac m, case_tac m, simp_all add: source_system_members_def)

section \<open>\<open>SyncState\<close>\<close>

datatype sync_state =
    Sync_LOCAL
  | Sync_PENDING
  | Sync_SYNCHRONIZING
  | Sync_SYNCHRONIZED
  | Sync_CONFLICT
  | Sync_FAILED

fun sync_state_value :: "sync_state \<Rightarrow> string" where
  "sync_state_value Sync_LOCAL = ''local''"
| "sync_state_value Sync_PENDING = ''pending''"
| "sync_state_value Sync_SYNCHRONIZING = ''synchronizing''"
| "sync_state_value Sync_SYNCHRONIZED = ''synchronized''"
| "sync_state_value Sync_CONFLICT = ''conflict''"
| "sync_state_value Sync_FAILED = ''failed''"

definition sync_state_members :: "sync_state list" where
  "sync_state_members =
     [Sync_LOCAL,
      Sync_PENDING,
      Sync_SYNCHRONIZING,
      Sync_SYNCHRONIZED,
      Sync_CONFLICT,
      Sync_FAILED]"

interpretation sync_state_enum: str_enum sync_state_members sync_state_value
  by unfold_locales (rename_tac m, case_tac m, simp_all add: sync_state_members_def)

section \<open>\<open>PresentationIdentifierSource\<close>\<close>

datatype presentation_identifier_source =
    PidSource_IMPORTED
  | PidSource_GENERATED

fun presentation_identifier_source_value :: "presentation_identifier_source \<Rightarrow> string" where
  "presentation_identifier_source_value PidSource_IMPORTED = ''imported''"
| "presentation_identifier_source_value PidSource_GENERATED = ''generated''"

definition presentation_identifier_source_members :: "presentation_identifier_source list" where
  "presentation_identifier_source_members = [PidSource_IMPORTED, PidSource_GENERATED]"

interpretation presentation_identifier_source_enum: str_enum presentation_identifier_source_members presentation_identifier_source_value
  by unfold_locales (rename_tac m, case_tac m, simp_all add: presentation_identifier_source_members_def)

section \<open>\<open>MediaMatchState\<close>\<close>

datatype media_match_state =
    Match_SUGGESTED
  | Match_CONFIRMED
  | Match_EXACT
  | Match_HIGH_CONFIDENCE
  | Match_AMBIGUOUS
  | Match_UNMATCHED
  | Match_MANUAL

fun media_match_state_value :: "media_match_state \<Rightarrow> string" where
  "media_match_state_value Match_SUGGESTED = ''suggested''"
| "media_match_state_value Match_CONFIRMED = ''confirmed''"
| "media_match_state_value Match_EXACT = ''exact''"
| "media_match_state_value Match_HIGH_CONFIDENCE = ''high_confidence''"
| "media_match_state_value Match_AMBIGUOUS = ''ambiguous''"
| "media_match_state_value Match_UNMATCHED = ''unmatched''"
| "media_match_state_value Match_MANUAL = ''manual''"

definition media_match_state_members :: "media_match_state list" where
  "media_match_state_members =
     [Match_SUGGESTED,
      Match_CONFIRMED,
      Match_EXACT,
      Match_HIGH_CONFIDENCE,
      Match_AMBIGUOUS,
      Match_UNMATCHED,
      Match_MANUAL]"

interpretation media_match_state_enum: str_enum media_match_state_members media_match_state_value
  by unfold_locales (rename_tac m, case_tac m, simp_all add: media_match_state_members_def)

section \<open>\<open>MediaImportState\<close>\<close>

datatype media_import_state =
    Media_UPLOADING
  | Media_STAGED
  | Media_NEEDS_REVIEW
  | Media_ASSIGNED
  | Media_TRANSFER_QUEUED
  | Media_TRANSFERRING
  | Media_SITE_READY
  | Media_RETRY_WAIT
  | Media_FAILED
  | Media_CANCELLED

fun media_import_state_value :: "media_import_state \<Rightarrow> string" where
  "media_import_state_value Media_UPLOADING = ''uploading''"
| "media_import_state_value Media_STAGED = ''staged''"
| "media_import_state_value Media_NEEDS_REVIEW = ''needs_review''"
| "media_import_state_value Media_ASSIGNED = ''assigned''"
| "media_import_state_value Media_TRANSFER_QUEUED = ''transfer_queued''"
| "media_import_state_value Media_TRANSFERRING = ''transferring''"
| "media_import_state_value Media_SITE_READY = ''site_ready''"
| "media_import_state_value Media_RETRY_WAIT = ''retry_wait''"
| "media_import_state_value Media_FAILED = ''failed''"
| "media_import_state_value Media_CANCELLED = ''cancelled''"

definition media_import_state_members :: "media_import_state list" where
  "media_import_state_members =
     [Media_UPLOADING,
      Media_STAGED,
      Media_NEEDS_REVIEW,
      Media_ASSIGNED,
      Media_TRANSFER_QUEUED,
      Media_TRANSFERRING,
      Media_SITE_READY,
      Media_RETRY_WAIT,
      Media_FAILED,
      Media_CANCELLED]"

interpretation media_import_state_enum: str_enum media_import_state_members media_import_state_value
  by unfold_locales (rename_tac m, case_tac m, simp_all add: media_import_state_members_def)

section \<open>\<open>MediaTransferState\<close>\<close>

datatype media_transfer_state =
    Xfer_QUEUED
  | Xfer_AVAILABLE
  | Xfer_TRANSFERRING
  | Xfer_RETRY_WAIT
  | Xfer_VERIFYING
  | Xfer_COMPLETED
  | Xfer_FAILED
  | Xfer_CANCELLED
  | Xfer_EXPIRED

fun media_transfer_state_value :: "media_transfer_state \<Rightarrow> string" where
  "media_transfer_state_value Xfer_QUEUED = ''queued''"
| "media_transfer_state_value Xfer_AVAILABLE = ''available''"
| "media_transfer_state_value Xfer_TRANSFERRING = ''transferring''"
| "media_transfer_state_value Xfer_RETRY_WAIT = ''retry_wait''"
| "media_transfer_state_value Xfer_VERIFYING = ''verifying''"
| "media_transfer_state_value Xfer_COMPLETED = ''completed''"
| "media_transfer_state_value Xfer_FAILED = ''failed''"
| "media_transfer_state_value Xfer_CANCELLED = ''cancelled''"
| "media_transfer_state_value Xfer_EXPIRED = ''expired''"

definition media_transfer_state_members :: "media_transfer_state list" where
  "media_transfer_state_members =
     [Xfer_QUEUED,
      Xfer_AVAILABLE,
      Xfer_TRANSFERRING,
      Xfer_RETRY_WAIT,
      Xfer_VERIFYING,
      Xfer_COMPLETED,
      Xfer_FAILED,
      Xfer_CANCELLED,
      Xfer_EXPIRED]"

interpretation media_transfer_state_enum: str_enum media_transfer_state_members media_transfer_state_value
  by unfold_locales (rename_tac m, case_tac m, simp_all add: media_transfer_state_members_def)

section \<open>\<open>MediaReplicationState\<close>\<close>

datatype media_replication_state =
    Repl_LOCAL_ONLY
  | Repl_QUEUED
  | Repl_SYNCING
  | Repl_SYNCED
  | Repl_RETRY_WAIT
  | Repl_FAILED
  | Repl_CONFLICT

fun media_replication_state_value :: "media_replication_state \<Rightarrow> string" where
  "media_replication_state_value Repl_LOCAL_ONLY = ''local_only''"
| "media_replication_state_value Repl_QUEUED = ''queued''"
| "media_replication_state_value Repl_SYNCING = ''syncing''"
| "media_replication_state_value Repl_SYNCED = ''synced''"
| "media_replication_state_value Repl_RETRY_WAIT = ''retry_wait''"
| "media_replication_state_value Repl_FAILED = ''failed''"
| "media_replication_state_value Repl_CONFLICT = ''conflict''"

definition media_replication_state_members :: "media_replication_state list" where
  "media_replication_state_members =
     [Repl_LOCAL_ONLY,
      Repl_QUEUED,
      Repl_SYNCING,
      Repl_SYNCED,
      Repl_RETRY_WAIT,
      Repl_FAILED,
      Repl_CONFLICT]"

interpretation media_replication_state_enum: str_enum media_replication_state_members media_replication_state_value
  by unfold_locales (rename_tac m, case_tac m, simp_all add: media_replication_state_members_def)

section \<open>\<open>EnrollmentState\<close>\<close>

datatype enrollment_state =
    Enroll_UNREGISTERED
  | Enroll_PENDING
  | Enroll_ACTIVE
  | Enroll_REJECTED
  | Enroll_REVOKED
  | Enroll_DISABLED

fun enrollment_state_value :: "enrollment_state \<Rightarrow> string" where
  "enrollment_state_value Enroll_UNREGISTERED = ''unregistered''"
| "enrollment_state_value Enroll_PENDING = ''pending''"
| "enrollment_state_value Enroll_ACTIVE = ''active''"
| "enrollment_state_value Enroll_REJECTED = ''rejected''"
| "enrollment_state_value Enroll_REVOKED = ''revoked''"
| "enrollment_state_value Enroll_DISABLED = ''disabled''"

definition enrollment_state_members :: "enrollment_state list" where
  "enrollment_state_members =
     [Enroll_UNREGISTERED,
      Enroll_PENDING,
      Enroll_ACTIVE,
      Enroll_REJECTED,
      Enroll_REVOKED,
      Enroll_DISABLED]"

interpretation enrollment_state_enum: str_enum enrollment_state_members enrollment_state_value
  by unfold_locales (rename_tac m, case_tac m, simp_all add: enrollment_state_members_def)

section \<open>\<open>EventDeploymentStatus\<close>\<close>

datatype event_deployment_status =
    Dep_DRAFT
  | Dep_PENDING
  | Dep_DEPLOYING
  | Dep_DEPLOYED
  | Dep_UPDATE_PENDING
  | Dep_FAILED
  | Dep_REVOKED
  | Dep_ARCHIVED

fun event_deployment_status_value :: "event_deployment_status \<Rightarrow> string" where
  "event_deployment_status_value Dep_DRAFT = ''draft''"
| "event_deployment_status_value Dep_PENDING = ''pending''"
| "event_deployment_status_value Dep_DEPLOYING = ''deploying''"
| "event_deployment_status_value Dep_DEPLOYED = ''deployed''"
| "event_deployment_status_value Dep_UPDATE_PENDING = ''update_pending''"
| "event_deployment_status_value Dep_FAILED = ''failed''"
| "event_deployment_status_value Dep_REVOKED = ''revoked''"
| "event_deployment_status_value Dep_ARCHIVED = ''archived''"

definition event_deployment_status_members :: "event_deployment_status list" where
  "event_deployment_status_members =
     [Dep_DRAFT,
      Dep_PENDING,
      Dep_DEPLOYING,
      Dep_DEPLOYED,
      Dep_UPDATE_PENDING,
      Dep_FAILED,
      Dep_REVOKED,
      Dep_ARCHIVED]"

interpretation event_deployment_status_enum: str_enum event_deployment_status_members event_deployment_status_value
  by unfold_locales (rename_tac m, case_tac m, simp_all add: event_deployment_status_members_def)

section \<open>\<open>SyncDirection\<close>\<close>

datatype sync_direction =
    Dir_SITE_TO_CENTRAL
  | Dir_CENTRAL_TO_SITE

fun sync_direction_value :: "sync_direction \<Rightarrow> string" where
  "sync_direction_value Dir_SITE_TO_CENTRAL = ''site_to_central''"
| "sync_direction_value Dir_CENTRAL_TO_SITE = ''central_to_site''"

definition sync_direction_members :: "sync_direction list" where
  "sync_direction_members = [Dir_SITE_TO_CENTRAL, Dir_CENTRAL_TO_SITE]"

interpretation sync_direction_enum: str_enum sync_direction_members sync_direction_value
  by unfold_locales (rename_tac m, case_tac m, simp_all add: sync_direction_members_def)

section \<open>\<open>AuthorityScope\<close>\<close>

datatype authority_scope =
    Auth_CENTRAL
  | Auth_SITE

fun authority_scope_value :: "authority_scope \<Rightarrow> string" where
  "authority_scope_value Auth_CENTRAL = ''central''"
| "authority_scope_value Auth_SITE = ''site''"

definition authority_scope_members :: "authority_scope list" where
  "authority_scope_members = [Auth_CENTRAL, Auth_SITE]"

interpretation authority_scope_enum: str_enum authority_scope_members authority_scope_value
  by unfold_locales (rename_tac m, case_tac m, simp_all add: authority_scope_members_def)

section \<open>\<open>JobStatus\<close>\<close>

datatype job_status =
    Job_PENDING
  | Job_RUNNING
  | Job_SUCCEEDED
  | Job_FAILED
  | Job_RETRY_WAIT
  | Job_CANCELLED
  | Job_EXHAUSTED

fun job_status_value :: "job_status \<Rightarrow> string" where
  "job_status_value Job_PENDING = ''pending''"
| "job_status_value Job_RUNNING = ''running''"
| "job_status_value Job_SUCCEEDED = ''succeeded''"
| "job_status_value Job_FAILED = ''failed''"
| "job_status_value Job_RETRY_WAIT = ''retry_wait''"
| "job_status_value Job_CANCELLED = ''cancelled''"
| "job_status_value Job_EXHAUSTED = ''exhausted''"

definition job_status_members :: "job_status list" where
  "job_status_members =
     [Job_PENDING,
      Job_RUNNING,
      Job_SUCCEEDED,
      Job_FAILED,
      Job_RETRY_WAIT,
      Job_CANCELLED,
      Job_EXHAUSTED]"

interpretation job_status_enum: str_enum job_status_members job_status_value
  by unfold_locales (rename_tac m, case_tac m, simp_all add: job_status_members_def)

section \<open>\<open>JobPriority\<close>\<close>

datatype job_priority =
    Prio_CRITICAL
  | Prio_HIGH
  | Prio_NORMAL
  | Prio_LOW
  | Prio_OPTIONAL

fun job_priority_value :: "job_priority \<Rightarrow> string" where
  "job_priority_value Prio_CRITICAL = ''critical''"
| "job_priority_value Prio_HIGH = ''high''"
| "job_priority_value Prio_NORMAL = ''normal''"
| "job_priority_value Prio_LOW = ''low''"
| "job_priority_value Prio_OPTIONAL = ''optional''"

definition job_priority_members :: "job_priority list" where
  "job_priority_members =
     [Prio_CRITICAL,
      Prio_HIGH,
      Prio_NORMAL,
      Prio_LOW,
      Prio_OPTIONAL]"

interpretation job_priority_enum: str_enum job_priority_members job_priority_value
  by unfold_locales (rename_tac m, case_tac m, simp_all add: job_priority_members_def)

section \<open>\<open>StorageHealth\<close>\<close>

datatype storage_health =
    Health_UNKNOWN
  | Health_HEALTHY
  | Health_WARNING
  | Health_CRITICAL
  | Health_UNAVAILABLE
  | Health_READ_ONLY
  | Health_WRITE_FAILURE

fun storage_health_value :: "storage_health \<Rightarrow> string" where
  "storage_health_value Health_UNKNOWN = ''unknown''"
| "storage_health_value Health_HEALTHY = ''healthy''"
| "storage_health_value Health_WARNING = ''warning''"
| "storage_health_value Health_CRITICAL = ''critical''"
| "storage_health_value Health_UNAVAILABLE = ''unavailable''"
| "storage_health_value Health_READ_ONLY = ''read_only''"
| "storage_health_value Health_WRITE_FAILURE = ''write_failure''"

definition storage_health_members :: "storage_health list" where
  "storage_health_members =
     [Health_UNKNOWN,
      Health_HEALTHY,
      Health_WARNING,
      Health_CRITICAL,
      Health_UNAVAILABLE,
      Health_READ_ONLY,
      Health_WRITE_FAILURE]"

interpretation storage_health_enum: str_enum storage_health_members storage_health_value
  by unfold_locales (rename_tac m, case_tac m, simp_all add: storage_health_members_def)

section \<open>\<open>StorageType\<close>\<close>

datatype storage_type =
    Storage_LOCAL_FILESYSTEM
  | Storage_MOUNTED_FILESYSTEM
  | Storage_ARCHIVE

fun storage_type_value :: "storage_type \<Rightarrow> string" where
  "storage_type_value Storage_LOCAL_FILESYSTEM = ''local_filesystem''"
| "storage_type_value Storage_MOUNTED_FILESYSTEM = ''mounted_filesystem''"
| "storage_type_value Storage_ARCHIVE = ''archive''"

definition storage_type_members :: "storage_type list" where
  "storage_type_members = [Storage_LOCAL_FILESYSTEM, Storage_MOUNTED_FILESYSTEM, Storage_ARCHIVE]"

interpretation storage_type_enum: str_enum storage_type_members storage_type_value
  by unfold_locales (rename_tac m, case_tac m, simp_all add: storage_type_members_def)

section \<open>\<open>DeviceRole\<close>\<close>

datatype device_role =
    Device_PRIMARY
  | Device_BACKUP
  | Device_AUXILIARY

fun device_role_value :: "device_role \<Rightarrow> string" where
  "device_role_value Device_PRIMARY = ''primary''"
| "device_role_value Device_BACKUP = ''backup''"
| "device_role_value Device_AUXILIARY = ''auxiliary''"

definition device_role_members :: "device_role list" where
  "device_role_members = [Device_PRIMARY, Device_BACKUP, Device_AUXILIARY]"

interpretation device_role_enum: str_enum device_role_members device_role_value
  by unfold_locales (rename_tac m, case_tac m, simp_all add: device_role_members_def)

section \<open>\<open>AssignmentRole\<close>\<close>

datatype assignment_role =
    Role_PRESENTER
  | Role_MODERATOR
  | Role_PANELIST
  | Role_HOST
  | Role_CHAIR
  | Role_CO_PRESENTER
  | Role_OTHER
  | Role_OPERATOR

fun assignment_role_value :: "assignment_role \<Rightarrow> string" where
  "assignment_role_value Role_PRESENTER = ''presenter''"
| "assignment_role_value Role_MODERATOR = ''moderator''"
| "assignment_role_value Role_PANELIST = ''panelist''"
| "assignment_role_value Role_HOST = ''host''"
| "assignment_role_value Role_CHAIR = ''chair''"
| "assignment_role_value Role_CO_PRESENTER = ''co_presenter''"
| "assignment_role_value Role_OTHER = ''other''"
| "assignment_role_value Role_OPERATOR = ''operator''"

definition assignment_role_members :: "assignment_role list" where
  "assignment_role_members =
     [Role_PRESENTER,
      Role_MODERATOR,
      Role_PANELIST,
      Role_HOST,
      Role_CHAIR,
      Role_CO_PRESENTER,
      Role_OTHER,
      Role_OPERATOR]"

interpretation assignment_role_enum: str_enum assignment_role_members assignment_role_value
  by unfold_locales (rename_tac m, case_tac m, simp_all add: assignment_role_members_def)

section \<open>\<open>IdentitySignalType\<close>\<close>

datatype identity_signal_type =
    Signal_PRIMARY_EMAIL
  | Signal_ALTERNATE_EMAIL
  | Signal_PHONE
  | Signal_ORGANIZATION
  | Signal_EXTERNAL_ID
  | Signal_IMPORT_ID

fun identity_signal_type_value :: "identity_signal_type \<Rightarrow> string" where
  "identity_signal_type_value Signal_PRIMARY_EMAIL = ''primary_email''"
| "identity_signal_type_value Signal_ALTERNATE_EMAIL = ''alternate_email''"
| "identity_signal_type_value Signal_PHONE = ''phone''"
| "identity_signal_type_value Signal_ORGANIZATION = ''organization''"
| "identity_signal_type_value Signal_EXTERNAL_ID = ''external_id''"
| "identity_signal_type_value Signal_IMPORT_ID = ''import_id''"

definition identity_signal_type_members :: "identity_signal_type list" where
  "identity_signal_type_members =
     [Signal_PRIMARY_EMAIL,
      Signal_ALTERNATE_EMAIL,
      Signal_PHONE,
      Signal_ORGANIZATION,
      Signal_EXTERNAL_ID,
      Signal_IMPORT_ID]"

interpretation identity_signal_type_enum: str_enum identity_signal_type_members identity_signal_type_value
  by unfold_locales (rename_tac m, case_tac m, simp_all add: identity_signal_type_members_def)

section \<open>\<open>IdentityMatchOutcome\<close>\<close>

datatype identity_match_outcome =
    Ident_EXACT
  | Ident_STRONG_CANDIDATE
  | Ident_NO_MATCH
  | Ident_AMBIGUOUS
  | Ident_CONFLICT

fun identity_match_outcome_value :: "identity_match_outcome \<Rightarrow> string" where
  "identity_match_outcome_value Ident_EXACT = ''exact''"
| "identity_match_outcome_value Ident_STRONG_CANDIDATE = ''strong_candidate''"
| "identity_match_outcome_value Ident_NO_MATCH = ''no_match''"
| "identity_match_outcome_value Ident_AMBIGUOUS = ''ambiguous''"
| "identity_match_outcome_value Ident_CONFLICT = ''conflict''"

definition identity_match_outcome_members :: "identity_match_outcome list" where
  "identity_match_outcome_members =
     [Ident_EXACT,
      Ident_STRONG_CANDIDATE,
      Ident_NO_MATCH,
      Ident_AMBIGUOUS,
      Ident_CONFLICT]"

interpretation identity_match_outcome_enum: str_enum identity_match_outcome_members identity_match_outcome_value
  by unfold_locales (rename_tac m, case_tac m, simp_all add: identity_match_outcome_members_def)

section \<open>\<open>ParticipantStatus\<close>\<close>

datatype participant_status =
    Part_PENDING
  | Part_ACTIVE
  | Part_INACTIVE
  | Part_CANCELLED

fun participant_status_value :: "participant_status \<Rightarrow> string" where
  "participant_status_value Part_PENDING = ''pending''"
| "participant_status_value Part_ACTIVE = ''active''"
| "participant_status_value Part_INACTIVE = ''inactive''"
| "participant_status_value Part_CANCELLED = ''cancelled''"

definition participant_status_members :: "participant_status list" where
  "participant_status_members = [Part_PENDING, Part_ACTIVE, Part_INACTIVE, Part_CANCELLED]"

interpretation participant_status_enum: str_enum participant_status_members participant_status_value
  by unfold_locales (rename_tac m, case_tac m, simp_all add: participant_status_members_def)

section \<open>\<open>SessionStatus\<close>\<close>

datatype session_status =
    Sess_DRAFT
  | Sess_SCHEDULED
  | Sess_IN_PROGRESS
  | Sess_COMPLETED
  | Sess_CANCELLED
  | Sess_ARCHIVED

fun session_status_value :: "session_status \<Rightarrow> string" where
  "session_status_value Sess_DRAFT = ''draft''"
| "session_status_value Sess_SCHEDULED = ''scheduled''"
| "session_status_value Sess_IN_PROGRESS = ''in_progress''"
| "session_status_value Sess_COMPLETED = ''completed''"
| "session_status_value Sess_CANCELLED = ''cancelled''"
| "session_status_value Sess_ARCHIVED = ''archived''"

definition session_status_members :: "session_status list" where
  "session_status_members =
     [Sess_DRAFT,
      Sess_SCHEDULED,
      Sess_IN_PROGRESS,
      Sess_COMPLETED,
      Sess_CANCELLED,
      Sess_ARCHIVED]"

interpretation session_status_enum: str_enum session_status_members session_status_value
  by unfold_locales (rename_tac m, case_tac m, simp_all add: session_status_members_def)

section \<open>\<open>PresentationWorkflowStatus\<close>\<close>

datatype presentation_workflow_status =
    Flow_EXPECTED
  | Flow_RECEIVED
  | Flow_UPDATED
  | Flow_NEEDS_VALIDATION
  | Flow_APPROVED
  | Flow_READY
  | Flow_DEPLOYED
  | Flow_PROBLEM
  | Flow_ARCHIVED
  | Flow_CANCELLED

fun presentation_workflow_status_value :: "presentation_workflow_status \<Rightarrow> string" where
  "presentation_workflow_status_value Flow_EXPECTED = ''expected''"
| "presentation_workflow_status_value Flow_RECEIVED = ''received''"
| "presentation_workflow_status_value Flow_UPDATED = ''updated''"
| "presentation_workflow_status_value Flow_NEEDS_VALIDATION = ''needs_validation''"
| "presentation_workflow_status_value Flow_APPROVED = ''approved''"
| "presentation_workflow_status_value Flow_READY = ''ready''"
| "presentation_workflow_status_value Flow_DEPLOYED = ''deployed''"
| "presentation_workflow_status_value Flow_PROBLEM = ''problem''"
| "presentation_workflow_status_value Flow_ARCHIVED = ''archived''"
| "presentation_workflow_status_value Flow_CANCELLED = ''cancelled''"

definition presentation_workflow_status_members :: "presentation_workflow_status list" where
  "presentation_workflow_status_members =
     [Flow_EXPECTED,
      Flow_RECEIVED,
      Flow_UPDATED,
      Flow_NEEDS_VALIDATION,
      Flow_APPROVED,
      Flow_READY,
      Flow_DEPLOYED,
      Flow_PROBLEM,
      Flow_ARCHIVED,
      Flow_CANCELLED]"

interpretation presentation_workflow_status_enum: str_enum presentation_workflow_status_members presentation_workflow_status_value
  by unfold_locales (rename_tac m, case_tac m, simp_all add: presentation_workflow_status_members_def)

section \<open>\<open>PresentationProcessingStatus\<close>\<close>

datatype presentation_processing_status =
    Proc_NOT_STARTED
  | Proc_QUEUED
  | Proc_PROCESSING
  | Proc_SUCCEEDED
  | Proc_FAILED

fun presentation_processing_status_value :: "presentation_processing_status \<Rightarrow> string" where
  "presentation_processing_status_value Proc_NOT_STARTED = ''not_started''"
| "presentation_processing_status_value Proc_QUEUED = ''queued''"
| "presentation_processing_status_value Proc_PROCESSING = ''processing''"
| "presentation_processing_status_value Proc_SUCCEEDED = ''succeeded''"
| "presentation_processing_status_value Proc_FAILED = ''failed''"

definition presentation_processing_status_members :: "presentation_processing_status list" where
  "presentation_processing_status_members =
     [Proc_NOT_STARTED,
      Proc_QUEUED,
      Proc_PROCESSING,
      Proc_SUCCEEDED,
      Proc_FAILED]"

interpretation presentation_processing_status_enum: str_enum presentation_processing_status_members presentation_processing_status_value
  by unfold_locales (rename_tac m, case_tac m, simp_all add: presentation_processing_status_members_def)

section \<open>\<open>ExternalEntityType\<close>\<close>

datatype external_entity_type =
    Ext_PERSON
  | Ext_EVENT_PARTICIPATION
  | Ext_SESSION
  | Ext_SESSION_PRESENTER
  | Ext_PRESENTATION
  | Ext_PRESENTATION_SESSION
  | Ext_PRESENTATION_PRESENTER

fun external_entity_type_value :: "external_entity_type \<Rightarrow> string" where
  "external_entity_type_value Ext_PERSON = ''person''"
| "external_entity_type_value Ext_EVENT_PARTICIPATION = ''event_participation''"
| "external_entity_type_value Ext_SESSION = ''session''"
| "external_entity_type_value Ext_SESSION_PRESENTER = ''session_presenter''"
| "external_entity_type_value Ext_PRESENTATION = ''presentation''"
| "external_entity_type_value Ext_PRESENTATION_SESSION = ''presentation_session''"
| "external_entity_type_value Ext_PRESENTATION_PRESENTER = ''presentation_presenter''"

definition external_entity_type_members :: "external_entity_type list" where
  "external_entity_type_members =
     [Ext_PERSON,
      Ext_EVENT_PARTICIPATION,
      Ext_SESSION,
      Ext_SESSION_PRESENTER,
      Ext_PRESENTATION,
      Ext_PRESENTATION_SESSION,
      Ext_PRESENTATION_PRESENTER]"

interpretation external_entity_type_enum: str_enum external_entity_type_members external_entity_type_value
  by unfold_locales (rename_tac m, case_tac m, simp_all add: external_entity_type_members_def)

section \<open>\<open>ExternalIdentifierScope\<close>\<close>

datatype external_identifier_scope =
    Scope_GLOBAL
  | Scope_EVENT

fun external_identifier_scope_value :: "external_identifier_scope \<Rightarrow> string" where
  "external_identifier_scope_value Scope_GLOBAL = ''global''"
| "external_identifier_scope_value Scope_EVENT = ''event''"

definition external_identifier_scope_members :: "external_identifier_scope list" where
  "external_identifier_scope_members = [Scope_GLOBAL, Scope_EVENT]"

interpretation external_identifier_scope_enum: str_enum external_identifier_scope_members external_identifier_scope_value
  by unfold_locales (rename_tac m, case_tac m, simp_all add: external_identifier_scope_members_def)

section \<open>\<open>ImportSourceType\<close>\<close>

datatype import_source_type =
    ImpSource_CSV
  | ImpSource_XLSX

fun import_source_type_value :: "import_source_type \<Rightarrow> string" where
  "import_source_type_value ImpSource_CSV = ''csv''"
| "import_source_type_value ImpSource_XLSX = ''xlsx''"

definition import_source_type_members :: "import_source_type list" where
  "import_source_type_members = [ImpSource_CSV, ImpSource_XLSX]"

interpretation import_source_type_enum: str_enum import_source_type_members import_source_type_value
  by unfold_locales (rename_tac m, case_tac m, simp_all add: import_source_type_members_def)

section \<open>\<open>ImportStatus\<close>\<close>

datatype import_status =
    Imp_UPLOADED
  | Imp_PARSING
  | Imp_STAGED
  | Imp_REVIEW
  | Imp_READY
  | Imp_COMMITTING
  | Imp_COMMITTED
  | Imp_FAILED
  | Imp_CANCELLED

fun import_status_value :: "import_status \<Rightarrow> string" where
  "import_status_value Imp_UPLOADED = ''uploaded''"
| "import_status_value Imp_PARSING = ''parsing''"
| "import_status_value Imp_STAGED = ''staged''"
| "import_status_value Imp_REVIEW = ''review''"
| "import_status_value Imp_READY = ''ready''"
| "import_status_value Imp_COMMITTING = ''committing''"
| "import_status_value Imp_COMMITTED = ''committed''"
| "import_status_value Imp_FAILED = ''failed''"
| "import_status_value Imp_CANCELLED = ''cancelled''"

definition import_status_members :: "import_status list" where
  "import_status_members =
     [Imp_UPLOADED,
      Imp_PARSING,
      Imp_STAGED,
      Imp_REVIEW,
      Imp_READY,
      Imp_COMMITTING,
      Imp_COMMITTED,
      Imp_FAILED,
      Imp_CANCELLED]"

interpretation import_status_enum: str_enum import_status_members import_status_value
  by unfold_locales (rename_tac m, case_tac m, simp_all add: import_status_members_def)

section \<open>\<open>ImportEntityType\<close>\<close>

datatype import_entity_type =
    Entity_PERSON
  | Entity_PARTICIPANT
  | Entity_SESSION
  | Entity_PRESENTATION
  | Entity_RELATIONSHIP
  | Entity_UNKNOWN

fun import_entity_type_value :: "import_entity_type \<Rightarrow> string" where
  "import_entity_type_value Entity_PERSON = ''person''"
| "import_entity_type_value Entity_PARTICIPANT = ''participant''"
| "import_entity_type_value Entity_SESSION = ''session''"
| "import_entity_type_value Entity_PRESENTATION = ''presentation''"
| "import_entity_type_value Entity_RELATIONSHIP = ''relationship''"
| "import_entity_type_value Entity_UNKNOWN = ''unknown''"

definition import_entity_type_members :: "import_entity_type list" where
  "import_entity_type_members =
     [Entity_PERSON,
      Entity_PARTICIPANT,
      Entity_SESSION,
      Entity_PRESENTATION,
      Entity_RELATIONSHIP,
      Entity_UNKNOWN]"

interpretation import_entity_type_enum: str_enum import_entity_type_members import_entity_type_value
  by unfold_locales (rename_tac m, case_tac m, simp_all add: import_entity_type_members_def)

section \<open>\<open>ImportValidationState\<close>\<close>

datatype import_validation_state =
    Valid_PENDING
  | Valid_VALID
  | Valid_WARNING
  | Valid_ERROR

fun import_validation_state_value :: "import_validation_state \<Rightarrow> string" where
  "import_validation_state_value Valid_PENDING = ''pending''"
| "import_validation_state_value Valid_VALID = ''valid''"
| "import_validation_state_value Valid_WARNING = ''warning''"
| "import_validation_state_value Valid_ERROR = ''error''"

definition import_validation_state_members :: "import_validation_state list" where
  "import_validation_state_members = [Valid_PENDING, Valid_VALID, Valid_WARNING, Valid_ERROR]"

interpretation import_validation_state_enum: str_enum import_validation_state_members import_validation_state_value
  by unfold_locales (rename_tac m, case_tac m, simp_all add: import_validation_state_members_def)

section \<open>\<open>ValidationSeverity\<close>\<close>

datatype validation_severity =
    Sev_WARNING
  | Sev_ERROR

fun validation_severity_value :: "validation_severity \<Rightarrow> string" where
  "validation_severity_value Sev_WARNING = ''warning''"
| "validation_severity_value Sev_ERROR = ''error''"

definition validation_severity_members :: "validation_severity list" where
  "validation_severity_members = [Sev_WARNING, Sev_ERROR]"

interpretation validation_severity_enum: str_enum validation_severity_members validation_severity_value
  by unfold_locales (rename_tac m, case_tac m, simp_all add: validation_severity_members_def)

section \<open>\<open>ImportProposedAction\<close>\<close>

datatype import_proposed_action =
    Propose_MATCH_EXISTING
  | Propose_CREATE_NEW
  | Propose_CREATE_OR_UPDATE
  | Propose_LINK
  | Propose_IGNORE
  | Propose_REJECT

fun import_proposed_action_value :: "import_proposed_action \<Rightarrow> string" where
  "import_proposed_action_value Propose_MATCH_EXISTING = ''match_existing''"
| "import_proposed_action_value Propose_CREATE_NEW = ''create_new''"
| "import_proposed_action_value Propose_CREATE_OR_UPDATE = ''create_or_update''"
| "import_proposed_action_value Propose_LINK = ''link''"
| "import_proposed_action_value Propose_IGNORE = ''ignore''"
| "import_proposed_action_value Propose_REJECT = ''reject''"

definition import_proposed_action_members :: "import_proposed_action list" where
  "import_proposed_action_members =
     [Propose_MATCH_EXISTING,
      Propose_CREATE_NEW,
      Propose_CREATE_OR_UPDATE,
      Propose_LINK,
      Propose_IGNORE,
      Propose_REJECT]"

interpretation import_proposed_action_enum: str_enum import_proposed_action_members import_proposed_action_value
  by unfold_locales (rename_tac m, case_tac m, simp_all add: import_proposed_action_members_def)

section \<open>\<open>ReconciliationAction\<close>\<close>

datatype reconciliation_action =
    Recon_ACCEPT_MATCH
  | Recon_CHOOSE_PERSON
  | Recon_CREATE_PERSON
  | Recon_CORRECT_VALUES
  | Recon_IGNORE
  | Recon_REJECT

fun reconciliation_action_value :: "reconciliation_action \<Rightarrow> string" where
  "reconciliation_action_value Recon_ACCEPT_MATCH = ''accept_match''"
| "reconciliation_action_value Recon_CHOOSE_PERSON = ''choose_person''"
| "reconciliation_action_value Recon_CREATE_PERSON = ''create_person''"
| "reconciliation_action_value Recon_CORRECT_VALUES = ''correct_values''"
| "reconciliation_action_value Recon_IGNORE = ''ignore''"
| "reconciliation_action_value Recon_REJECT = ''reject''"

definition reconciliation_action_members :: "reconciliation_action list" where
  "reconciliation_action_members =
     [Recon_ACCEPT_MATCH,
      Recon_CHOOSE_PERSON,
      Recon_CREATE_PERSON,
      Recon_CORRECT_VALUES,
      Recon_IGNORE,
      Recon_REJECT]"

interpretation reconciliation_action_enum: str_enum reconciliation_action_members reconciliation_action_value
  by unfold_locales (rename_tac m, case_tac m, simp_all add: reconciliation_action_members_def)

section \<open>\<open>MediaCategory\<close>\<close>

datatype media_category =
    Cat_PRESENTATION
  | Cat_PRESENTATION_VERSION
  | Cat_OPEN_FILE
  | Cat_DERIVATIVE
  | Cat_PDF_DERIVATIVE
  | Cat_PREVIEW
  | Cat_THUMBNAIL
  | Cat_SIGNAGE
  | Cat_INGESTION_STAGING
  | Cat_TEMPORARY_PROCESSING
  | Cat_ARCHIVE

fun media_category_value :: "media_category \<Rightarrow> string" where
  "media_category_value Cat_PRESENTATION = ''presentation''"
| "media_category_value Cat_PRESENTATION_VERSION = ''presentation_version''"
| "media_category_value Cat_OPEN_FILE = ''open_file''"
| "media_category_value Cat_DERIVATIVE = ''derivative''"
| "media_category_value Cat_PDF_DERIVATIVE = ''pdf_derivative''"
| "media_category_value Cat_PREVIEW = ''preview''"
| "media_category_value Cat_THUMBNAIL = ''thumbnail''"
| "media_category_value Cat_SIGNAGE = ''signage''"
| "media_category_value Cat_INGESTION_STAGING = ''ingestion_staging''"
| "media_category_value Cat_TEMPORARY_PROCESSING = ''temporary_processing''"
| "media_category_value Cat_ARCHIVE = ''archive''"

definition media_category_members :: "media_category list" where
  "media_category_members =
     [Cat_PRESENTATION,
      Cat_PRESENTATION_VERSION,
      Cat_OPEN_FILE,
      Cat_DERIVATIVE,
      Cat_PDF_DERIVATIVE,
      Cat_PREVIEW,
      Cat_THUMBNAIL,
      Cat_SIGNAGE,
      Cat_INGESTION_STAGING,
      Cat_TEMPORARY_PROCESSING,
      Cat_ARCHIVE]"

interpretation media_category_enum: str_enum media_category_members media_category_value
  by unfold_locales (rename_tac m, case_tac m, simp_all add: media_category_members_def)

section \<open>\<open>MediaAvailability\<close>\<close>

datatype media_availability =
    Avail_STAGING
  | Avail_FINALIZING
  | Avail_AVAILABLE
  | Avail_FAILED
  | Avail_QUARANTINED

fun media_availability_value :: "media_availability \<Rightarrow> string" where
  "media_availability_value Avail_STAGING = ''staging''"
| "media_availability_value Avail_FINALIZING = ''finalizing''"
| "media_availability_value Avail_AVAILABLE = ''available''"
| "media_availability_value Avail_FAILED = ''failed''"
| "media_availability_value Avail_QUARANTINED = ''quarantined''"

definition media_availability_members :: "media_availability list" where
  "media_availability_members =
     [Avail_STAGING,
      Avail_FINALIZING,
      Avail_AVAILABLE,
      Avail_FAILED,
      Avail_QUARANTINED]"

interpretation media_availability_enum: str_enum media_availability_members media_availability_value
  by unfold_locales (rename_tac m, case_tac m, simp_all add: media_availability_members_def)

section \<open>\<open>AssetKind\<close>\<close>

datatype asset_kind =
    Asset_ORIGINAL
  | Asset_DERIVATIVE

fun asset_kind_value :: "asset_kind \<Rightarrow> string" where
  "asset_kind_value Asset_ORIGINAL = ''original''"
| "asset_kind_value Asset_DERIVATIVE = ''derivative''"

definition asset_kind_members :: "asset_kind list" where
  "asset_kind_members = [Asset_ORIGINAL, Asset_DERIVATIVE]"

interpretation asset_kind_enum: str_enum asset_kind_members asset_kind_value
  by unfold_locales (rename_tac m, case_tac m, simp_all add: asset_kind_members_def)

end
