(* ===== verification/Py_Text.thy ===== *)
theory Py_Text
  imports Prelude
begin

text \<open>
  The pieces of Python's \<open>str\<close> and \<open>pathlib.PurePosixPath\<close> the program is written
  with, as total functions on \<open>string\<close>. Case mapping acts on ASCII letters; Unicode
  normalisation (\<open>unicodedata.normalize\<close>) is not here: the functions that call it take
  it as an argument. \<open>split_on\<close> and \<open>join_with\<close> are \<open>str.split(sep)\<close> and
  \<open>sep.join\<close>; a path is its root (empty, \<open>/\<close> or \<open>//\<close>) and its tail of
  segments, parsed as \<open>pathlib\<close> parses it (empty and \<open>.\<close> segments vanish, \<open>..\<close>
  stays).
\<close>

section \<open>Characters\<close>

definition char_code :: "char \<Rightarrow> nat" where
  "char_code c = of_char c"

definition is_digit_char :: "char \<Rightarrow> bool" where
  "is_digit_char c \<longleftrightarrow> 48 \<le> char_code c \<and> char_code c \<le> 57"

definition is_upper_char :: "char \<Rightarrow> bool" where
  "is_upper_char c \<longleftrightarrow> 65 \<le> char_code c \<and> char_code c \<le> 90"

definition is_lower_char :: "char \<Rightarrow> bool" where
  "is_lower_char c \<longleftrightarrow> 97 \<le> char_code c \<and> char_code c \<le> 122"

definition is_upper_alnum :: "char \<Rightarrow> bool" where
  "is_upper_alnum c \<longleftrightarrow> is_upper_char c \<or> is_digit_char c"

text \<open>What \<open>str.strip()\<close> removes and \<open>\s\<close> matches.\<close>

definition is_space_char :: "char \<Rightarrow> bool" where
  "is_space_char c \<longleftrightarrow>
     (let n = char_code c in (9 \<le> n \<and> n \<le> 13) \<or> (28 \<le> n \<and> n \<le> 32) \<or> n = 133 \<or> n = 160)"

definition upper_char :: "char \<Rightarrow> char" where
  "upper_char c = (if is_lower_char c then char_of (char_code c - 32) else c)"

definition lower_char :: "char \<Rightarrow> char" where
  "lower_char c = (if is_upper_char c then char_of (char_code c + 32) else c)"

definition py_upper :: "string \<Rightarrow> string" where
  "py_upper s = map upper_char s"

definition py_lower :: "string \<Rightarrow> string" where
  "py_lower s = map lower_char s"

lemma length_case_map [simp]: "length (py_upper s) = length s" "length (py_lower s) = length s"
  by (simp_all add: py_upper_def py_lower_def)

lemma py_upper_Nil_iff [simp]: "py_upper s = [] \<longleftrightarrow> s = []"
  by (simp add: py_upper_def)

lemma upper_char_not_lower: "\<not> is_lower_char (upper_char c)"
  by (auto simp: upper_char_def is_lower_char_def char_code_def)

lemma upper_char_idem: "upper_char (upper_char c) = upper_char c"
  by (metis upper_char_def upper_char_not_lower)

lemma py_upper_idem: "py_upper (py_upper s) = py_upper s"
  by (simp add: py_upper_def upper_char_idem)

section \<open>Stripping, splitting, joining\<close>

definition lstrip_by :: "(char \<Rightarrow> bool) \<Rightarrow> string \<Rightarrow> string" where
  "lstrip_by P s = dropWhile P s"

definition rstrip_by :: "(char \<Rightarrow> bool) \<Rightarrow> string \<Rightarrow> string" where
  "rstrip_by P s = rev (dropWhile P (rev s))"

definition strip_by :: "(char \<Rightarrow> bool) \<Rightarrow> string \<Rightarrow> string" where
  "strip_by P s = rstrip_by P (lstrip_by P s)"

definition py_strip :: "string \<Rightarrow> string" where
  "py_strip s = strip_by is_space_char s"

fun split_on :: "char \<Rightarrow> string \<Rightarrow> string list" where
  "split_on c [] = [[]]"
| "split_on c (x # xs) =
     (if x = c then [] # split_on c xs
      else (case split_on c xs of p # ps \<Rightarrow> (x # p) # ps | [] \<Rightarrow> [[x]]))"

fun join_with :: "string \<Rightarrow> string list \<Rightarrow> string" where
  "join_with sep [] = []"
| "join_with sep [p] = p"
| "join_with sep (p # q # ps) = p @ sep @ join_with sep (q # ps)"

definition starts_with :: "string \<Rightarrow> string \<Rightarrow> bool" where
  "starts_with s p \<longleftrightarrow> take (length p) s = p"

definition ends_with :: "string \<Rightarrow> string \<Rightarrow> bool" where
  "ends_with s p \<longleftrightarrow> length p \<le> length s \<and> drop (length s - length p) s = p"

fun contains_sub :: "string \<Rightarrow> string \<Rightarrow> bool" where
  "contains_sub [] p \<longleftrightarrow> p = []"
| "contains_sub (x # xs) p \<longleftrightarrow> starts_with (x # xs) p \<or> contains_sub xs p"

lemma starts_with_Cons [simp]: "starts_with s [c] \<longleftrightarrow> (\<exists>t. s = c # t)"
  by (cases s) (auto simp: starts_with_def)

lemma starts_with_prefix: "starts_with s (c # p) \<Longrightarrow> \<exists>t. s = c # t"
  by (cases s) (auto simp: starts_with_def)

lemma split_on_not_Nil [simp]: "split_on c s \<noteq> []"
  by (induction s) (auto split: list.splits)

lemma split_on_Cons_other:
  "x \<noteq> c \<Longrightarrow> split_on c (x # xs) = (x # hd (split_on c xs)) # tl (split_on c xs)"
  by (cases "split_on c xs") auto

lemma split_on_no_sep: "p \<in> set (split_on c s) \<Longrightarrow> c \<notin> set p"
  by (induction s arbitrary: p) (auto split: list.splits if_splits)

lemma join_split [simp]: "join_with [c] (split_on c s) = s"
proof (induction s)
  case Nil
  then show ?case by simp
next
  case (Cons x xs)
  obtain p ps where eq: "split_on c xs = p # ps"
    using split_on_not_Nil [of c xs] by (cases "split_on c xs") auto
  with Cons.IH show ?case by (cases ps) auto
qed

lemma split_on_fresh: "c \<notin> set s \<Longrightarrow> split_on c s = [s]"
  by (induction s) auto

lemma split_on_append_sep: "c \<notin> set p \<Longrightarrow> split_on c (p @ c # s) = p # split_on c s"
  by (induction p) auto

lemma split_join:
  "ps \<noteq> [] \<Longrightarrow> (\<And>p. p \<in> set ps \<Longrightarrow> c \<notin> set p) \<Longrightarrow> split_on c (join_with [c] ps) = ps"
  by (induction "[c]" ps rule: join_with.induct) (auto simp: split_on_fresh split_on_append_sep)

lemma join_with_Cons: "join_with sep (p # ps) = p @ (if ps = [] then [] else sep @ join_with sep ps)"
  by (cases ps) auto

lemma set_join_with: "set (join_with sep ps) \<subseteq> \<Union> (set ` set ps) \<union> set sep"
  by (induction sep ps rule: join_with.induct) auto

lemma rstrip_by_prefix: "\<exists>t. s = rstrip_by P s @ t"
proof -
  have "s = rev (takeWhile P (rev s) @ dropWhile P (rev s))" by simp
  also have "\<dots> = rstrip_by P s @ rev (takeWhile P (rev s))"
    by (simp only: rev_append rstrip_by_def)
  finally show ?thesis by blast
qed

lemma set_strips:
  "set (lstrip_by P s) \<subseteq> set s"
  "set (rstrip_by P s) \<subseteq> set s"
  "set (strip_by P s) \<subseteq> set s"
  by (auto simp: lstrip_by_def rstrip_by_def strip_by_def dest!: set_dropWhileD)

lemma length_rstrip_by: "length (rstrip_by P s) \<le> length s"
  by (simp add: rstrip_by_def length_dropWhile_le [of P "rev s", simplified])

lemma last_rstrip_by: "rstrip_by P s \<noteq> [] \<Longrightarrow> \<not> P (last (rstrip_by P s))"
  by (simp add: rstrip_by_def last_rev hd_dropWhile)

lemma rstrip_by_id: "s = [] \<or> \<not> P (last s) \<Longrightarrow> rstrip_by P s = s"
  by (cases s rule: rev_cases) (auto simp: rstrip_by_def)

lemma rstrip_by_Nil_iff: "rstrip_by P s = [] \<longleftrightarrow> (\<forall>c \<in> set s. P c)"
  by (simp add: rstrip_by_def dropWhile_eq_Nil_conv)

section \<open>Runs of a character class\<close>

text \<open>
  \<open>re.sub("[...]+", r, s)\<close>: every maximal run of characters of the class becomes one
  \<open>r\<close>. The flag says that the previous character belonged to a run.
\<close>

fun sub_runs_from :: "bool \<Rightarrow> (char \<Rightarrow> bool) \<Rightarrow> string \<Rightarrow> string \<Rightarrow> string" where
  "sub_runs_from inrun P r [] = []"
| "sub_runs_from inrun P r (x # xs) =
     (if P x then (if inrun then [] else r) @ sub_runs_from True P r xs
      else x # sub_runs_from False P r xs)"

definition sub_runs :: "(char \<Rightarrow> bool) \<Rightarrow> string \<Rightarrow> string \<Rightarrow> string" where
  "sub_runs P r s = sub_runs_from False P r s"

text \<open>\<open>re.sub("[...]", r, s)\<close> without the plus: each character of the class by itself.\<close>

definition sub_each :: "(char \<Rightarrow> bool) \<Rightarrow> char \<Rightarrow> string \<Rightarrow> string" where
  "sub_each P r s = map (\<lambda>c. if P c then r else c) s"

text \<open>\<open>re.split("[...]+", s)\<close>, with the empty pieces dropped as the callers drop them.\<close>

fun tokens_from :: "(char \<Rightarrow> bool) \<Rightarrow> string \<Rightarrow> string \<Rightarrow> string list" where
  "tokens_from P cur [] = (if cur = [] then [] else [rev cur])"
| "tokens_from P cur (x # xs) =
     (if P x then (if cur = [] then [] else [rev cur]) @ tokens_from P [] xs
      else tokens_from P (x # cur) xs)"

definition tokens :: "(char \<Rightarrow> bool) \<Rightarrow> string \<Rightarrow> string list" where
  "tokens P s = tokens_from P [] s"

lemma set_sub_runs_from:
  "c \<in> set (sub_runs_from b P r s) \<Longrightarrow> c \<in> set r \<or> (c \<in> set s \<and> \<not> P c)"
  by (induction b P r s rule: sub_runs_from.induct) (auto split: if_splits)

lemma set_sub_runs: "c \<in> set (sub_runs P r s) \<Longrightarrow> c \<in> set r \<or> (c \<in> set s \<and> \<not> P c)"
  by (simp add: sub_runs_def set_sub_runs_from)

lemma set_sub_each: "c \<in> set (sub_each P r s) \<Longrightarrow> c = r \<or> (c \<in> set s \<and> \<not> P c)"
  by (auto simp: sub_each_def split: if_splits)

lemma tokens_from_clean:
  "t \<in> set (tokens_from P cur s) \<Longrightarrow> (\<forall>c \<in> set cur. \<not> P c) \<Longrightarrow> t \<noteq> [] \<and> (\<forall>c \<in> set t. \<not> P c)"
  by (induction P cur s rule: tokens_from.induct) (auto split: if_splits)

lemma tokens_clean: "t \<in> set (tokens P s) \<Longrightarrow> t \<noteq> [] \<and> (\<forall>c \<in> set t. \<not> P c)"
  by (rule tokens_from_clean [of t P "[]" s]) (simp_all add: tokens_def)

section \<open>\<open>PurePosixPath\<close>\<close>

record posix_path =
  pp_root :: string
  pp_tail :: "string list"

definition parse_path :: "string \<Rightarrow> posix_path" where
  "parse_path s =
     \<lparr>pp_root =
        (if starts_with s ''//'' \<and> \<not> starts_with s ''///'' then ''//''
         else if starts_with s ''/'' then ''/'' else []),
      pp_tail = filter (\<lambda>p. p \<noteq> [] \<and> p \<noteq> ''.'') (split_on (CHR ''/'') s)\<rparr>"

definition path_is_absolute :: "posix_path \<Rightarrow> bool" where
  "path_is_absolute p \<longleftrightarrow> pp_root p \<noteq> []"

definition path_parts :: "posix_path \<Rightarrow> string list" where
  "path_parts p = (if pp_root p = [] then [] else [pp_root p]) @ pp_tail p"

definition path_str :: "posix_path \<Rightarrow> string" where
  "path_str p =
     (if pp_root p = [] \<and> pp_tail p = [] then ''.'' else pp_root p @ join_with ''/'' (pp_tail p))"

definition path_name :: "posix_path \<Rightarrow> string" where
  "path_name p = (if pp_tail p = [] then [] else last (pp_tail p))"

text \<open>\<open>name.rfind('.')\<close> with the bounds \<open>0 < i < len(name) - 1\<close> of \<open>suffix\<close> and \<open>stem\<close>.\<close>

definition suffix_index :: "string \<Rightarrow> nat option" where
  "suffix_index name =
     (let after = takeWhile (\<lambda>c. c \<noteq> CHR ''.'') (rev name); i = length name - length after - 1
      in if length after < length name \<and> 0 < i \<and> after \<noteq> [] then Some i else None)"

definition name_suffix :: "string \<Rightarrow> string" where
  "name_suffix name = (case suffix_index name of None \<Rightarrow> [] | Some i \<Rightarrow> drop i name)"

definition name_stem :: "string \<Rightarrow> string" where
  "name_stem name = (case suffix_index name of None \<Rightarrow> name | Some i \<Rightarrow> take i name)"

definition path_suffix :: "posix_path \<Rightarrow> string" where
  "path_suffix p = name_suffix (path_name p)"

definition path_stem :: "posix_path \<Rightarrow> string" where
  "path_stem p = name_stem (path_name p)"

lemma stem_append_suffix: "name_stem n @ name_suffix n = n"
  by (simp add: name_stem_def name_suffix_def split: option.splits)

lemma path_tail_clean:
  "p \<in> set (pp_tail (parse_path s)) \<Longrightarrow> p \<noteq> [] \<and> p \<noteq> ''.'' \<and> CHR ''/'' \<notin> set p"
  by (auto simp: parse_path_def dest: split_on_no_sep)

lemma parse_path_relative_iff: "pp_root (parse_path s) = [] \<longleftrightarrow> \<not> starts_with s ''/''"
  by (auto simp: parse_path_def dest: starts_with_prefix)

text \<open>A relative path whose segments are already clean is parsed into exactly them.\<close>

lemma parse_join_clean:
  assumes "ps \<noteq> []"
    and "\<And>p. p \<in> set ps \<Longrightarrow> p \<noteq> [] \<and> p \<noteq> ''.'' \<and> CHR ''/'' \<notin> set p"
  shows "parse_path (join_with ''/'' ps) = \<lparr>pp_root = [], pp_tail = ps\<rparr>"
proof -
  have split: "split_on (CHR ''/'') (join_with ''/'' ps) = ps"
    using assms by (intro split_join) auto
  have no_root: "\<not> starts_with (join_with ''/'' ps) ''/''"
  proof (cases ps)
    case Nil
    with assms(1) show ?thesis by simp
  next
    case (Cons p qs)
    with assms(2) [of p] have "p \<noteq> []" "CHR ''/'' \<notin> set p" by auto
    with Cons show ?thesis by (cases p) (auto simp: join_with_Cons)
  qed
  have "filter (\<lambda>p. p \<noteq> [] \<and> p \<noteq> ''.'') ps = ps"
    using assms(2) by (intro filter_True) auto
  moreover have "\<not> starts_with (join_with ''/'' ps) ''//''"
    using no_root by (auto dest: starts_with_prefix)
  ultimately show ?thesis using no_root by (simp add: parse_path_def split)
qed

lemma path_str_relative:
  "pp_root p = [] \<Longrightarrow> pp_tail p \<noteq> [] \<Longrightarrow> path_str p = join_with ''/'' (pp_tail p)"
  by (simp add: path_str_def)

text \<open>Printing a relative path and parsing it again is the identity.\<close>

lemma parse_path_str_relative:
  assumes "pp_root (parse_path s) = []"
  shows "parse_path (path_str (parse_path s)) = parse_path s"
proof (cases "pp_tail (parse_path s) = []")
  case True
  with assms show ?thesis
    by (cases "parse_path s") (auto simp: path_str_def, simp add: parse_path_def starts_with_def)
next
  case False
  with assms have "path_str (parse_path s) = join_with ''/'' (pp_tail (parse_path s))"
    by (simp add: path_str_relative)
  moreover have "parse_path (join_with ''/'' (pp_tail (parse_path s)))
      = \<lparr>pp_root = [], pp_tail = pp_tail (parse_path s)\<rparr>"
    using False path_tail_clean by (intro parse_join_clean) auto
  ultimately show ?thesis using assms by (cases "parse_path s") simp
qed

end
