(* ===== verification/Json.thy ===== *)
theory Json
  imports Py_Text
begin

text \<open>
  The values a JSONB column or a request body holds once Python has decoded it, and the
  three conversions the program applies to them: \<open>str(x)\<close>, \<open>int(x)\<close> and
  \<open>UUID(str(x))\<close>. A float carries its \<open>repr\<close> and its truncation, which is all the
  program reads of one. Objects are association lists in insertion order, as Python
  dicts are.
\<close>

datatype json =
    JNull
  | JBool bool
  | JInt int
  | JFloat string int
  | JStr string
  | JList "json list"
  | JObj "(string \<times> json) list"

text \<open>The truth value of an optional string: neither \<open>None\<close> nor empty.\<close>

definition given :: "string option \<Rightarrow> string option" where
  "given v = (case v of None \<Rightarrow> None | Some s \<Rightarrow> if s = [] then None else Some s)"

section \<open>Decimal and hexadecimal digits\<close>

definition digit_char :: "nat \<Rightarrow> char" where
  "digit_char n = char_of (if n < 10 then 48 + n else 87 + n)"

fun digits_in :: "nat \<Rightarrow> nat \<Rightarrow> string" where
  "digits_in b n = (if b < 2 \<or> n < b then [digit_char n] else digits_in b (n div b) @ [digit_char (n mod b)])"

declare digits_in.simps [simp del]

definition str_int :: "int \<Rightarrow> string" where
  "str_int i = (if i < 0 then CHR ''-'' # digits_in 10 (nat (- i)) else digits_in 10 (nat i))"

text \<open>\<open>f"{n:02d}"\<close>\<close>

definition str_02d :: "int \<Rightarrow> string" where
  "str_02d n = (if 0 \<le> n \<and> n < 10 then CHR ''0'' # str_int n else str_int n)"

definition digit_value :: "char \<Rightarrow> nat option" where
  "digit_value c =
     (if is_digit_char c then Some (char_code c - 48)
      else if 97 \<le> char_code c \<and> char_code c \<le> 102 then Some (char_code c - 87)
      else if 65 \<le> char_code c \<and> char_code c \<le> 70 then Some (char_code c - 55)
      else None)"

text \<open>The value of a digit string in base \<open>b\<close>; \<open>None\<close> when a character is no digit of it.\<close>

fun number_in :: "nat \<Rightarrow> nat \<Rightarrow> string \<Rightarrow> nat option" where
  "number_in b acc [] = Some acc"
| "number_in b acc (c # cs) =
     (case digit_value c of
        None \<Rightarrow> None
      | Some d \<Rightarrow> if d < b then number_in b (acc * b + d) cs else None)"

text \<open>
  \<open>int(s, b)\<close> on a string: surrounding whitespace, one sign, an optional \<open>0x\<close> in base
  16, then digits with single underscores between them.
\<close>

definition int_literal :: "nat \<Rightarrow> string \<Rightarrow> int option" where
  "int_literal b s =
     (let t = py_strip s;
          neg = starts_with t ''-'';
          u = (if neg \<or> starts_with t ''+'' then tl t else t);
          v = (if b = 16 \<and> (starts_with u ''0x'' \<or> starts_with u ''0X'')
               then (if starts_with (drop 2 u) ''_'' then drop 3 u else drop 2 u) else u);
          ps = split_on (CHR ''_'') v
      in if [] \<in> set ps then None
         else map_option (\<lambda>n. if neg then - int n else int n) (number_in b 0 (concat ps)))"

section \<open>\<open>UUID\<close>\<close>

text \<open>A fixed-width hexadecimal rendering: \<open>%032x\<close> for a UUID.\<close>

fun hex_width :: "nat \<Rightarrow> nat \<Rightarrow> string" where
  "hex_width 0 n = []"
| "hex_width (Suc w) n = hex_width w (n div 16) @ [digit_char (n mod 16)]"

definition uuid_hex :: "uuid \<Rightarrow> string" where
  "uuid_hex u = hex_width 32 u"

text \<open>For evaluation: the test keeps the digits of an open argument folded.\<close>

lemma uuid_hex_code [code]: "uuid_hex u = (if u = 0 then hex_width 32 0 else hex_width 32 u)"
  by (simp add: uuid_hex_def)

definition uuid_str :: "uuid \<Rightarrow> string" where
  "uuid_str u =
     (let h = uuid_hex u
      in take 8 h @ ''-'' @ take 4 (drop 8 h) @ ''-'' @ take 4 (drop 12 h) @ ''-''
         @ take 4 (drop 16 h) @ ''-'' @ drop 20 h)"

text \<open>
  \<open>UUID(hex)\<close>: remove \<open>urn:\<close> and \<open>uuid:\<close>, strip braces, remove hyphens, demand 32
  characters, read them in base 16.
\<close>

fun remove_all :: "string \<Rightarrow> string \<Rightarrow> string" where
  "remove_all p [] = []"
| "remove_all p (c # cs) =
     (if p \<noteq> [] \<and> starts_with (c # cs) p then remove_all p (drop (length p - 1) cs)
      else c # remove_all p cs)"

definition parse_uuid :: "string \<Rightarrow> uuid outcome" where
  "parse_uuid s =
     (let h = filter (\<lambda>c. c \<noteq> CHR ''-'')
                (strip_by (\<lambda>c. c = CHR ''{'' \<or> c = CHR ''}'') (remove_all ''uuid:'' (remove_all ''urn:'' s)))
      in if length h \<noteq> 32 then Inl (ValueError ''badly formed hexadecimal UUID string'')
         else case int_literal 16 h of
                None \<Rightarrow> Inl (ValueError ''invalid literal for int() with base 16'')
              | Some i \<Rightarrow>
                  if 0 \<le> i \<and> i < 2 ^ 128 then Inr (nat i)
                  else Inl (ValueError ''int is out of range (need a 128-bit value)''))"

section \<open>Conversions of decoded values\<close>

text \<open>
  \<open>str(x)\<close>. The \<open>repr\<close> of a container is an argument: no conversion below succeeds on
  one, so its exact text only reaches error details.
\<close>

definition py_str :: "(json \<Rightarrow> string) \<Rightarrow> json \<Rightarrow> string" where
  "py_str rp v =
     (case v of
        JNull \<Rightarrow> ''None''
      | JBool b \<Rightarrow> (if b then ''True'' else ''False'')
      | JInt i \<Rightarrow> str_int i
      | JFloat r t \<Rightarrow> r
      | JStr s \<Rightarrow> s
      | JList xs \<Rightarrow> rp v
      | JObj kvs \<Rightarrow> rp v)"

definition parse_int :: "string \<Rightarrow> int outcome" where
  "parse_int s =
     (case int_literal 10 s of
        None \<Rightarrow> Inl (ValueError ''invalid literal for int() with base 10'')
      | Some i \<Rightarrow> Inr i)"

definition py_int :: "json \<Rightarrow> int outcome" where
  "py_int v =
     (case v of
        JNull \<Rightarrow> Inl (TypeError ''int() argument'')
      | JBool b \<Rightarrow> Inr (if b then 1 else 0)
      | JInt i \<Rightarrow> Inr i
      | JFloat r t \<Rightarrow> Inr t
      | JStr s \<Rightarrow> parse_int s
      | JList xs \<Rightarrow> Inl (TypeError ''int() argument'')
      | JObj kvs \<Rightarrow> Inl (TypeError ''int() argument''))"

text \<open>Truth value of an object.\<close>

definition py_true :: "json \<Rightarrow> bool" where
  "py_true v =
     (case v of
        JNull \<Rightarrow> False
      | JBool b \<Rightarrow> b
      | JInt i \<Rightarrow> i \<noteq> 0
      | JFloat r t \<Rightarrow> r \<noteq> ''0.0'' \<and> r \<noteq> ''-0.0''
      | JStr s \<Rightarrow> s \<noteq> []
      | JList xs \<Rightarrow> xs \<noteq> []
      | JObj kvs \<Rightarrow> kvs \<noteq> [])"

definition dict_get :: "(string \<times> json) list \<Rightarrow> string \<Rightarrow> json option" where
  "dict_get kvs k = map_of kvs k"

definition dict_item :: "(string \<times> json) list \<Rightarrow> string \<Rightarrow> json outcome" where
  "dict_item kvs k = (case map_of kvs k of None \<Rightarrow> Inl (KeyError k) | Some v \<Rightarrow> Inr v)"

text \<open>\<open>{**d, k: v}\<close>: an existing key keeps its place.\<close>

fun dict_set :: "string \<Rightarrow> json \<Rightarrow> (string \<times> json) list \<Rightarrow> (string \<times> json) list" where
  "dict_set k v [] = [(k, v)]"
| "dict_set k v ((k', v') # kvs) = (if k' = k then (k, v) # kvs else (k', v') # dict_set k v kvs)"

text \<open>\<open>list(x)\<close> of a decoded value, and a loop over one.\<close>

fun py_list :: "json \<Rightarrow> json list outcome" where
  "py_list (JList xs) = Inr xs"
| "py_list (JStr s) = Inr (map (\<lambda>c. JStr [c]) s)"
| "py_list (JObj kvs) = Inr (map (\<lambda>(k, v). JStr k) kvs)"
| "py_list v = Inl (TypeError ''object is not iterable'')"

definition uuid_of :: "(json \<Rightarrow> string) \<Rightarrow> json \<Rightarrow> uuid outcome" where
  "uuid_of rp v = parse_uuid (py_str rp v)"

section \<open>Lemmas\<close>

lemma map_of_dict_set: "map_of (dict_set k v kvs) = (map_of kvs)(k \<mapsto> v)"
  by (induction k v kvs rule: dict_set.induct) (auto simp: fun_eq_iff)

lemma dict_get_set [simp]:
  "dict_get (dict_set k v kvs) k' = (if k' = k then Some v else dict_get kvs k')"
  by (simp add: dict_get_def map_of_dict_set)

lemma digit_value_char: "d < 16 \<Longrightarrow> digit_value (digit_char d) = Some d"
  by (auto simp: digit_value_def digit_char_def is_digit_char_def char_code_def)

lemma digit_chars_plain_all:
  "list_all (\<lambda>d. digit_char d \<notin> set (CHR 0x5C # ''-+{}:u/._xX'') \<and> \<not> is_space_char (digit_char d)) [0..<16]"
  by code_simp

lemma digit_char_plain:
  assumes "d < 16"
  shows "digit_char d \<notin> set (CHR 0x5C # ''-+{}:u/._xX'')" "\<not> is_space_char (digit_char d)"
  using digit_chars_plain_all assms by (auto simp: list_all_iff)

lemma number_in_append:
  "number_in b acc (xs @ ys) =
     (case number_in b acc xs of None \<Rightarrow> None | Some n \<Rightarrow> number_in b n ys)"
  by (induction b acc xs rule: number_in.induct) (auto split: option.splits)

lemma length_hex_width [simp]: "length (hex_width w n) = w"
  by (induction w arbitrary: n) auto

lemma set_hex_width: "c \<in> set (hex_width w n) \<Longrightarrow> \<exists>d < 16. c = digit_char d"
  by (induction w arbitrary: n) (auto intro: exI [where x = "n mod 16" for n])

lemma uuid_hex_plain:
  "c \<in> set (uuid_hex u) \<Longrightarrow> c \<notin> set ''-+{}:u/._xX'' \<and> \<not> is_space_char c"
  using digit_char_plain set_hex_width [of c 32 u] by (auto simp: uuid_hex_def)

lemma number_hex_width: "number_in 16 acc (hex_width w n) = Some (acc * 16 ^ w + n mod 16 ^ w)"
proof (induction w arbitrary: n)
  case 0
  then show ?case by simp
next
  case (Suc w)
  have "n mod 16 ^ Suc w = 16 * (n div 16 mod 16 ^ w) + n mod 16"
    by (simp add: mod_mult2_eq mult.commute)
  with Suc show ?case by (simp add: number_in_append digit_value_char algebra_simps)
qed

lemma remove_all_absent: "p \<noteq> [] \<Longrightarrow> hd p \<notin> set s \<Longrightarrow> remove_all p s = s"
  by (induction p s rule: remove_all.induct) (auto simp: starts_with_def neq_Nil_conv)

lemma strip_by_absent: "(\<And>c. c \<in> set s \<Longrightarrow> \<not> P c) \<Longrightarrow> strip_by P s = s"
  by (cases s) (auto simp: strip_by_def lstrip_by_def intro!: rstrip_by_id)

lemma uuid_str_chars:
  "c \<in> set (uuid_str u) \<Longrightarrow> c = CHR ''-'' \<or> (\<exists>d < 16. c = digit_char d)"
  by (auto simp: uuid_str_def uuid_hex_def Let_def dest!: in_set_takeD in_set_dropD set_hex_width)

lemma filter_uuid_str: "filter (\<lambda>c. c \<noteq> CHR ''-'') (uuid_str u) = uuid_hex u"
proof -
  have keep: "filter (\<lambda>c. c \<noteq> CHR ''-'') xs = xs" if "set xs \<subseteq> set (uuid_hex u)" for xs
    using that uuid_hex_plain [of _ u] by (intro filter_True) auto
  have "uuid_hex u = take 8 (uuid_hex u) @ take 4 (drop 8 (uuid_hex u)) @ take 4 (drop 12 (uuid_hex u))
      @ take 4 (drop 16 (uuid_hex u)) @ drop 20 (uuid_hex u)"
    using append_take_drop_id [of 4 "drop 16 (uuid_hex u)"]
      append_take_drop_id [of 4 "drop 12 (uuid_hex u)"]
      append_take_drop_id [of 4 "drop 8 (uuid_hex u)"]
      append_take_drop_id [of 8 "uuid_hex u"] by simp
  then show ?thesis
    by (simp add: uuid_str_def Let_def keep set_take_subset set_drop_subset
        subset_trans [OF set_take_subset set_drop_subset])
qed

lemma length_uuid_str [simp]: "length (uuid_str u) = 36"
  by (simp add: uuid_str_def uuid_hex_def Let_def)

lemma int_literal_hex: "u < 2 ^ 128 \<Longrightarrow> int_literal 16 (uuid_hex u) = Some (int u)"
proof -
  assume u: "u < 2 ^ 128"
  note plain = uuid_hex_plain [of _ u]
  have strip: "py_strip (uuid_hex u) = uuid_hex u"
    unfolding py_strip_def using plain by (intro strip_by_absent) auto
  have sign: "\<not> starts_with (uuid_hex u) ''-''" "\<not> starts_with (uuid_hex u) ''+''"
    using plain [of "CHR ''-''"] plain [of "CHR ''+''"] by auto
  have "\<not> starts_with (uuid_hex u) [CHR ''0'', x]" if "x \<in> set ''xX''" for x
  proof
    assume "starts_with (uuid_hex u) [CHR ''0'', x]"
    then have "x \<in> set (take 2 (uuid_hex u))" by (simp add: starts_with_def numeral_2_eq_2)
    then have "x \<in> set (uuid_hex u)" by (rule in_set_takeD)
    from plain [OF this] that show False by auto
  qed
  then have prefix: "\<not> starts_with (uuid_hex u) ''0x''" "\<not> starts_with (uuid_hex u) ''0X''"
    by simp_all
  have "CHR ''_'' \<notin> set (uuid_hex u)" using plain [of "CHR ''_''"] by auto
  then have "split_on (CHR ''_'') (uuid_hex u) = [uuid_hex u]" by (rule split_on_fresh)
  moreover have "uuid_hex u \<noteq> []" by (simp add: uuid_hex_def flip: length_0_conv)
  moreover have "number_in 16 0 (uuid_hex u) = Some u"
    using u by (simp add: uuid_hex_def number_hex_width)
  ultimately show ?thesis by (simp add: int_literal_def strip sign prefix del: starts_with_Cons)
qed

text \<open>Printing a UUID and parsing it back gives the UUID.\<close>

lemma parse_uuid_str: "u < 2 ^ 128 \<Longrightarrow> parse_uuid (uuid_str u) = Inr u"
proof -
  assume u: "u < 2 ^ 128"
  have clean: "c \<notin> set ''u{}''" if "c \<in> set (uuid_str u)" for c
    using uuid_str_chars [OF that] digit_char_plain(1) by auto
  have "CHR ''u'' \<notin> set (uuid_str u)" using clean [of "CHR ''u''"] by auto
  then have "remove_all ''urn:'' (uuid_str u) = uuid_str u"
    and "remove_all ''uuid:'' (uuid_str u) = uuid_str u"
    by (simp_all add: remove_all_absent)
  moreover have "strip_by (\<lambda>c. c = CHR ''{'' \<or> c = CHR ''}'') (uuid_str u) = uuid_str u"
    using clean by (intro strip_by_absent) auto
  moreover have "length (uuid_hex u) = 32"
    by (simp add: uuid_hex_def)
  ultimately show ?thesis
    using u by (simp add: parse_uuid_def filter_uuid_str int_literal_hex)
qed

end
