(* ===== verification/Jobs.thy ===== *)
theory Jobs
  imports Enums Json
begin

text \<open>
  The values the two durable queues share: the retry policy and payload models of
  \<open>upm_shared/jobs.py\<close>, and the rows of the \<open>processing_jobs\<close>, \<open>transfer_jobs\<close>,
  \<open>outbox_events\<close> and \<open>worker_identities\<close> tables. The processing and transfer tables
  have the same columns (\<open>j_type\<close> is \<open>job_type\<close> in one and \<open>transfer_type\<close> in the
  other), so one record models a row of either; \<open>j_site_id\<close> is Central's
  \<open>owning_site_id\<close> and the Site's \<open>site_id\<close>. The ORM's \<open>updated_at\<close> stamp and the
  row \<open>revision\<close> are left out. Columns with a default are given it by \<open>new_job\<close>
  and \<open>new_outbox_event\<close>; the declared CHECK and UNIQUE constraints are enforced by
  the insert functions, whose failure is the database's \<open>IntegrityError\<close>.
\<close>

section \<open>Priorities, payload models, retry policy\<close>

fun priority_value :: "job_priority \<Rightarrow> int" where
  "priority_value Prio_CRITICAL = 400"
| "priority_value Prio_HIGH = 300"
| "priority_value Prio_NORMAL = 200"
| "priority_value Prio_LOW = 100"
| "priority_value Prio_OPTIONAL = 0"

datatype payload_model = JobPayload | LifecycleDeletionJobPayload | BulkPeopleDeletionJobPayload

record outbox_payload =
  op_schema_version :: int
  op_source_system :: source_system
  op_data :: "(string \<times> json) list"

definition outbox_payload_valid :: "outbox_payload \<Rightarrow> bool" where
  "outbox_payload_valid p \<longleftrightarrow> 1 \<le> op_schema_version p"

text \<open>Bounded exponential backoff with symmetric jitter; the seconds are exact rationals.\<close>

definition retry_delay :: "int \<Rightarrow> rat \<Rightarrow> rat \<Rightarrow> rat \<Rightarrow> rat \<Rightarrow> timedelta outcome" where
  "retry_delay attempt_count base_delay maximum_delay jitter_fraction jitter_sample =
     (if attempt_count < 1 then Inl (ValueError ''attempt_count must be at least 1'')
      else if base_delay \<le> 0 \<or> maximum_delay \<le> 0 then Inl (ValueError ''retry delays must be positive'')
      else if \<not> (0 \<le> jitter_fraction \<and> jitter_fraction \<le> 1)
            \<or> \<not> (0 \<le> jitter_sample \<and> jitter_sample \<le> 1)
           then Inl (ValueError ''jitter values must be between 0 and 1'')
      else let delay = min (base_delay * 2 ^ nat (attempt_count - 1)) maximum_delay;
               jitter_multiplier = 1 + (jitter_sample * 2 - 1) * jitter_fraction
           in Inr (timedelta_seconds (delay * jitter_multiplier)))"

section \<open>Rows\<close>

record job =
  j_id :: uuid
  j_site_id :: "uuid option"
  j_media_object_id :: "uuid option"
  j_type :: string
  j_payload :: json
  j_payload_schema_version :: int
  j_status :: job_status
  j_priority :: int
  j_required_capabilities :: "string list"
  j_progress :: rat
  j_idempotency_key :: "string option"
  j_attempt_count :: int
  j_max_attempts :: int
  j_next_attempt_at :: datetime
  j_claimed_by :: "string option"
  j_lease_expires_at :: "datetime option"
  j_heartbeat_at :: "datetime option"
  j_started_at :: "datetime option"
  j_completed_at :: "datetime option"
  j_error_code :: "string option"
  j_last_error :: "string option"
  j_error_metadata :: "json option"
  j_created_at :: datetime

record outbox_event =
  o_id :: uuid
  o_event_type :: string
  o_aggregate_type :: string
  o_aggregate_id :: uuid
  o_site_id :: "uuid option"
  o_event_id :: "uuid option"
  o_source_system :: source_system
  o_payload :: "(string \<times> json) list"
  o_payload_schema_version :: int
  o_protocol_version :: int
  o_source_sequence :: "int option"
  o_correlation_id :: "uuid option"
  o_causation_id :: "uuid option"
  o_idempotency_key :: string
  o_status :: job_status
  o_priority :: int
  o_created_at :: datetime
  o_available_at :: datetime
  o_claimed_by :: "string option"
  o_lease_expires_at :: "datetime option"
  o_heartbeat_at :: "datetime option"
  o_attempt_count :: int
  o_max_attempts :: int
  o_processed_at :: "datetime option"
  o_error_code :: "string option"
  o_last_error :: "string option"
  o_error_metadata :: "json option"

record worker_identity =
  w_id :: string
  w_type :: string
  w_hostname :: string
  w_service_role :: string
  w_capabilities :: "string list"
  w_started_at :: datetime
  w_last_heartbeat :: datetime

record queue_db =
  q_processing :: "job list"
  q_transfer :: "job list"
  q_outbox :: "outbox_event list"
  q_workers :: "worker_identity list"

text \<open>The keyword arguments of an enqueue call; \<open>None\<close> leaves the column's default.\<close>

record job_values =
  jv_id :: "uuid option"
  jv_site_id :: "uuid option"
  jv_media_object_id :: "uuid option"
  jv_type :: string
  jv_payload :: "json option"
  jv_priority :: "int option"
  jv_required_capabilities :: "string list option"
  jv_idempotency_key :: "string option"
  jv_max_attempts :: "int option"
  jv_next_attempt_at :: "datetime option"

definition default_to :: "'a \<Rightarrow> 'a option \<Rightarrow> 'a" where
  "default_to d x = (case x of None \<Rightarrow> d | Some v \<Rightarrow> v)"

lemma default_to_simps [simp]: "default_to d None = d" "default_to d (Some v) = v"
  by (simp_all add: default_to_def)

definition new_job :: "uuid \<Rightarrow> datetime \<Rightarrow> json \<Rightarrow> job_values \<Rightarrow> job" where
  "new_job fresh now payload v =
     \<lparr>j_id = default_to fresh (jv_id v),
      j_site_id = jv_site_id v,
      j_media_object_id = jv_media_object_id v,
      j_type = jv_type v,
      j_payload = payload,
      j_payload_schema_version = 1,
      j_status = Job_PENDING,
      j_priority = default_to (priority_value Prio_NORMAL) (jv_priority v),
      j_required_capabilities = default_to [] (jv_required_capabilities v),
      j_progress = 0,
      j_idempotency_key = jv_idempotency_key v,
      j_attempt_count = 0,
      j_max_attempts = default_to 3 (jv_max_attempts v),
      j_next_attempt_at = default_to now (jv_next_attempt_at v),
      j_claimed_by = None,
      j_lease_expires_at = None,
      j_heartbeat_at = None,
      j_started_at = None,
      j_completed_at = None,
      j_error_code = None,
      j_last_error = None,
      j_error_metadata = None,
      j_created_at = now\<rparr>"

definition job_checks :: "job \<Rightarrow> bool" where
  "job_checks j \<longleftrightarrow>
     0 \<le> j_progress j \<and> j_progress j \<le> 100 \<and> 0 \<le> j_attempt_count j \<and> 1 \<le> j_max_attempts j"

definition insert_job :: "job \<Rightarrow> job list \<Rightarrow> job list outcome" where
  "insert_job j rows =
     (if \<not> job_checks j then Inl (IntegrityError ''check constraint'')
      else if \<exists>r \<in> set rows. j_id r = j_id j then Inl (IntegrityError ''primary key'')
      else if j_idempotency_key j \<noteq> None
            \<and> (\<exists>r \<in> set rows. j_type r = j_type j \<and> j_idempotency_key r = j_idempotency_key j)
           then Inl (IntegrityError ''unique (type, idempotency_key)'')
      else Inr (rows @ [j]))"

record outbox_values =
  ov_event_type :: string
  ov_aggregate_type :: string
  ov_aggregate_id :: uuid
  ov_site_id :: "uuid option"
  ov_event_id :: "uuid option"
  ov_source_sequence :: "int option"
  ov_correlation_id :: "uuid option"
  ov_causation_id :: "uuid option"
  ov_protocol_version :: "int option"
  ov_idempotency_key :: string
  ov_payload :: outbox_payload

definition new_outbox_event :: "uuid \<Rightarrow> datetime \<Rightarrow> outbox_values \<Rightarrow> outbox_event" where
  "new_outbox_event fresh now v =
     \<lparr>o_id = fresh,
      o_event_type = ov_event_type v,
      o_aggregate_type = ov_aggregate_type v,
      o_aggregate_id = ov_aggregate_id v,
      o_site_id = ov_site_id v,
      o_event_id = ov_event_id v,
      o_source_system = op_source_system (ov_payload v),
      o_payload = op_data (ov_payload v),
      o_payload_schema_version = op_schema_version (ov_payload v),
      o_protocol_version = default_to 1 (ov_protocol_version v),
      o_source_sequence = ov_source_sequence v,
      o_correlation_id = ov_correlation_id v,
      o_causation_id = ov_causation_id v,
      o_idempotency_key = ov_idempotency_key v,
      o_status = Job_PENDING,
      o_priority = priority_value Prio_NORMAL,
      o_created_at = now,
      o_available_at = now,
      o_claimed_by = None,
      o_lease_expires_at = None,
      o_heartbeat_at = None,
      o_attempt_count = 0,
      o_max_attempts = 10,
      o_processed_at = None,
      o_error_code = None,
      o_last_error = None,
      o_error_metadata = None\<rparr>"

definition insert_outbox :: "outbox_event \<Rightarrow> outbox_event list \<Rightarrow> outbox_event list outcome" where
  "insert_outbox e rows =
     (if \<exists>r \<in> set rows. o_id r = o_id e then Inl (IntegrityError ''primary key'')
      else if \<exists>r \<in> set rows. o_source_system r = o_source_system e
                            \<and> o_idempotency_key r = o_idempotency_key e
           then Inl (IntegrityError ''unique (source_system, idempotency_key)'')
      else Inr (rows @ [e]))"

section \<open>The retry policy\<close>

lemma retry_delay_ok_iff:
  "(\<exists>d. retry_delay n b m jf js = Inr d) \<longleftrightarrow>
     1 \<le> n \<and> 0 < b \<and> 0 < m \<and> 0 \<le> jf \<and> jf \<le> 1 \<and> 0 \<le> js \<and> js \<le> 1"
  by (auto simp: retry_delay_def Let_def)

lemma jitter_multiplier_bounds:
  fixes jf js :: rat
  assumes "0 \<le> jf" "jf \<le> 1" "0 \<le> js" "js \<le> 1"
  shows "1 - jf \<le> 1 + (js * 2 - 1) * jf" "1 + (js * 2 - 1) * jf \<le> 1 + jf"
proof -
  have "0 \<le> js * jf" using assms by simp
  moreover have "js * jf \<le> 1 * jf" using assms by (intro mult_right_mono) auto
  ultimately show "1 - jf \<le> 1 + (js * 2 - 1) * jf" "1 + (js * 2 - 1) * jf \<le> 1 + jf"
    by (simp_all add: algebra_simps)
qed

lemma timedelta_seconds_mono: "x \<le> y \<Longrightarrow> timedelta_seconds x \<le> timedelta_seconds y"
  by (simp add: timedelta_seconds_def round_half_even_mono)

lemma timedelta_seconds_zero [simp]: "timedelta_seconds 0 = 0"
  using round_half_even_of_int [of 0] by (simp add: timedelta_seconds_def)

lemma retry_delay_range:
  assumes "retry_delay n b m jf js = Inr d"
  shows "0 \<le> d" "d \<le> timedelta_seconds (m * (1 + jf))"
proof -
  let ?mult = "1 + (js * 2 - 1) * jf" and ?delay = "min (b * 2 ^ nat (n - 1)) m"
  have ok: "1 \<le> n" "0 < b" "0 < m" "0 \<le> jf" "jf \<le> 1" "0 \<le> js" "js \<le> 1"
    using assms retry_delay_ok_iff by blast+
  have d: "d = timedelta_seconds (?delay * ?mult)"
    using assms by (auto simp: retry_delay_def Let_def split: if_splits)
  have mult: "0 \<le> ?mult" "?mult \<le> 1 + jf"
    using jitter_multiplier_bounds [of jf js] ok by auto
  have delay: "0 \<le> ?delay" "?delay \<le> m" using ok by auto
  have "timedelta_seconds 0 \<le> d"
    unfolding d using mult delay by (intro timedelta_seconds_mono) simp
  then show "0 \<le> d" by simp
  have "?delay * ?mult \<le> m * (1 + jf)"
    using mult delay by (intro mult_mono) auto
  then show "d \<le> timedelta_seconds (m * (1 + jf))"
    unfolding d by (rule timedelta_seconds_mono)
qed

text \<open>Without jitter the delay doubles with every attempt until the cap, never shrinking.\<close>

lemma retry_delay_nojitter:
  assumes "1 \<le> n" "0 < b" "0 < m"
  shows "retry_delay n b m 0 (1/2) = Inr (timedelta_seconds (min (b * 2 ^ nat (n - 1)) m))"
  using assms by (simp add: retry_delay_def Let_def)

lemma retry_delay_monotone:
  assumes "retry_delay n b m 0 (1/2) = Inr d" "retry_delay n' b m 0 (1/2) = Inr d'" "n \<le> n'"
  shows "d \<le> d'"
proof -
  have ok: "1 \<le> n" "0 < b" "0 < m"
    using assms(1) retry_delay_ok_iff by blast+
  have "(2::rat) ^ nat (n - 1) \<le> 2 ^ nat (n' - 1)"
    using assms(3) by (intro power_increasing) auto
  then have "b * 2 ^ nat (n - 1) \<le> b * 2 ^ nat (n' - 1)" using ok by simp
  then have "min (b * 2 ^ nat (n - 1)) m \<le> min (b * 2 ^ nat (n' - 1)) m"
    by (intro min.mono) auto
  from timedelta_seconds_mono [OF this] show ?thesis
    using assms ok by (simp add: retry_delay_nojitter)
qed

section \<open>Inserts\<close>

lemma new_job_simps [simp]:
  "j_id (new_job fresh now p v) = default_to fresh (jv_id v)"
  "j_type (new_job fresh now p v) = jv_type v"
  "j_idempotency_key (new_job fresh now p v) = jv_idempotency_key v"
  "j_status (new_job fresh now p v) = Job_PENDING"
  by (simp_all add: new_job_def)

lemma insert_job_Inr_iff:
  "insert_job j rows = Inr rows' \<longleftrightarrow>
     job_checks j \<and> (\<forall>r \<in> set rows. j_id r \<noteq> j_id j)
     \<and> (j_idempotency_key j = None
        \<or> (\<forall>r \<in> set rows. j_type r = j_type j \<longrightarrow> j_idempotency_key r \<noteq> j_idempotency_key j))
     \<and> rows' = rows @ [j]"
  by (auto simp: insert_job_def)

lemma insert_outbox_Inr_iff:
  "insert_outbox e rows = Inr rows' \<longleftrightarrow>
     (\<forall>r \<in> set rows. o_id r \<noteq> o_id e)
     \<and> (\<forall>r \<in> set rows. o_source_system r = o_source_system e
          \<longrightarrow> o_idempotency_key r \<noteq> o_idempotency_key e)
     \<and> rows' = rows @ [e]"
  by (auto simp: insert_outbox_def)

end
