(* ===== verification/Site_Tables.thy ===== *)
theory Site_Tables
  imports Jobs
begin

text \<open>
  The rows of a Site's database, one record per ORM class of
  \<open>upm_site/persistence/models.py\<close> the development reads or writes, in the form of
  \<open>Central_Tables\<close>.
\<close>

record site_user =
  sus_user_id :: uuid
  sus_central_user_id :: "uuid option"
  sus_user_type :: string
  sus_username :: string
  sus_normalized_username :: string
  sus_display_name :: string
  sus_email :: "string option"
  sus_web_password_hash :: "string option"
  sus_roles :: "string list"
  sus_permissions :: "string list"
  sus_active :: bool
  sus_web_access :: bool
  sus_smb_enabled :: bool
  sus_smb_credential_revision :: int
  sus_last_login_at :: "datetime option"
  sus_smb_last_activity_at :: "datetime option"
  sus_failed_login_count :: int
  sus_locked_until :: "datetime option"
  sus_created_at :: datetime
  sus_revision :: int

definition default_site_user :: "datetime \<Rightarrow> site_user" where
  "default_site_user now =
     \<lparr>sus_user_id = 0,
      sus_central_user_id = None,
      sus_user_type = ''site_local'',
      sus_username = [],
      sus_normalized_username = [],
      sus_display_name = [],
      sus_email = None,
      sus_web_password_hash = None,
      sus_roles = [],
      sus_permissions = [],
      sus_active = True,
      sus_web_access = True,
      sus_smb_enabled = False,
      sus_smb_credential_revision = 0,
      sus_last_login_at = None,
      sus_smb_last_activity_at = None,
      sus_failed_login_count = 0,
      sus_locked_until = None,
      sus_created_at = now,
      sus_revision = 1\<rparr>"

record site_user_session =
  suss_user_session_id :: uuid
  suss_user_id :: uuid
  suss_token_hash :: string
  suss_csrf_token_hash :: string
  suss_created_at :: datetime
  suss_expires_at :: datetime
  suss_last_seen_at :: datetime
  suss_revoked_at :: "datetime option"

definition default_site_user_session :: "datetime \<Rightarrow> site_user_session" where
  "default_site_user_session now =
     \<lparr>suss_user_session_id = 0,
      suss_user_id = 0,
      suss_token_hash = [],
      suss_csrf_token_hash = [],
      suss_created_at = now,
      suss_expires_at = 0,
      suss_last_seen_at = now,
      suss_revoked_at = None\<rparr>"

record site_site =
  sst_site_id :: uuid
  sst_display_name :: string
  sst_central_revision :: "int option"
  sst_created_at :: datetime
  sst_revision :: int

definition default_site_site :: "datetime \<Rightarrow> site_site" where
  "default_site_site now =
     \<lparr>sst_site_id = 0,
      sst_display_name = [],
      sst_central_revision = None,
      sst_created_at = now,
      sst_revision = 1\<rparr>"

record site_local_site_identity =
  sli_site_id :: uuid
  sli_singleton_key :: int
  sli_display_name :: string
  sli_installation_version :: string
  sli_created_at :: datetime

definition default_site_local_site_identity :: "datetime \<Rightarrow> site_local_site_identity" where
  "default_site_local_site_identity now =
     \<lparr>sli_site_id = 0,
      sli_singleton_key = 1,
      sli_display_name = [],
      sli_installation_version = ''0.1.0'',
      sli_created_at = now\<rparr>"

record site_central_registration =
  scg_site_id :: uuid
  scg_central_url :: "string option"
  scg_state :: enrollment_state
  scg_claim_secret_encrypted :: "string option"
  scg_poll_token_encrypted :: "string option"
  scg_credential_encrypted :: "string option"
  scg_last_heartbeat_at :: "datetime option"
  scg_last_successful_sync_at :: "datetime option"
  scg_last_connection_at :: "datetime option"
  scg_protocol_compatible :: "bool option"
  scg_last_error :: "string option"

definition default_site_central_registration :: "site_central_registration" where
  "default_site_central_registration =
     \<lparr>scg_site_id = 0,
      scg_central_url = None,
      scg_state = Enroll_UNREGISTERED,
      scg_claim_secret_encrypted = None,
      scg_poll_token_encrypted = None,
      scg_credential_encrypted = None,
      scg_last_heartbeat_at = None,
      scg_last_successful_sync_at = None,
      scg_last_connection_at = None,
      scg_protocol_compatible = None,
      scg_last_error = None\<rparr>"

record site_sync_receipt =
  src_receipt_id :: uuid
  src_event_id :: uuid
  src_source_sequence :: int
  src_event_type :: string
  src_received_at :: datetime

definition default_site_sync_receipt :: "datetime \<Rightarrow> site_sync_receipt" where
  "default_site_sync_receipt now =
     \<lparr>src_receipt_id = 0,
      src_event_id = 0,
      src_source_sequence = 0,
      src_event_type = [],
      src_received_at = now\<rparr>"

record site_sync_cursor =
  scu_direction :: string
  scu_last_sequence :: int
  scu_last_event_id :: "uuid option"

definition default_site_sync_cursor :: "site_sync_cursor" where
  "default_site_sync_cursor =
     \<lparr>scu_direction = [],
      scu_last_sequence = 0,
      scu_last_event_id = None\<rparr>"

record site_sync_sequence =
  ssq_singleton_key :: int
  ssq_next_value :: int

definition default_site_sync_sequence :: "site_sync_sequence" where
  "default_site_sync_sequence =
     \<lparr>ssq_singleton_key = 1,
      ssq_next_value = 1\<rparr>"

record site_managed_setting =
  smg_setting_key :: string
  smg_value :: "(string \<times> json) list"
  smg_central_revision :: int
  smg_created_at :: datetime
  smg_revision :: int

definition default_site_managed_setting :: "datetime \<Rightarrow> site_managed_setting" where
  "default_site_managed_setting now =
     \<lparr>smg_setting_key = [],
      smg_value = [],
      smg_central_revision = 0,
      smg_created_at = now,
      smg_revision = 1\<rparr>"

record site_person_projection =
  spj_person_id :: uuid
  spj_display_name :: string
  spj_given_name :: "string option"
  spj_family_name :: "string option"
  spj_primary_email :: "string option"
  spj_organization :: "string option"
  spj_central_revision :: int
  spj_sync_state :: sync_state
  spj_created_at :: datetime
  spj_revision :: int

definition default_site_person_projection :: "datetime \<Rightarrow> site_person_projection" where
  "default_site_person_projection now =
     \<lparr>spj_person_id = 0,
      spj_display_name = [],
      spj_given_name = None,
      spj_family_name = None,
      spj_primary_email = None,
      spj_organization = None,
      spj_central_revision = 0,
      spj_sync_state = Sync_LOCAL,
      spj_created_at = now,
      spj_revision = 1\<rparr>"

record site_event =
  sev_event_id :: uuid
  sev_site_id :: uuid
  sev_name :: string
  sev_description :: "string option"
  sev_timezone :: string
  sev_starts_at :: "datetime option"
  sev_ends_at :: "datetime option"
  sev_archived_at :: "datetime option"
  sev_sync_state :: sync_state
  sev_created_at :: datetime
  sev_revision :: int

definition default_site_event :: "datetime \<Rightarrow> site_event" where
  "default_site_event now =
     \<lparr>sev_event_id = 0,
      sev_site_id = 0,
      sev_name = [],
      sev_description = None,
      sev_timezone = ''UTC'',
      sev_starts_at = None,
      sev_ends_at = None,
      sev_archived_at = None,
      sev_sync_state = Sync_LOCAL,
      sev_created_at = now,
      sev_revision = 1\<rparr>"

record site_event_deployment_projection =
  sed_deployment_id :: uuid
  sed_central_event_id :: uuid
  sed_site_id :: uuid
  sed_status :: event_deployment_status
  sed_desired_revision :: int
  sed_applied_revision :: int
  sed_last_central_synchronization_at :: "datetime option"
  sed_applied_at :: "datetime option"
  sed_revoked_at :: "datetime option"
  sed_failure_at :: "datetime option"
  sed_failure_reason :: "string option"
  sed_current_snapshot :: "(string \<times> json) list"
  sed_summary_counts :: "(string \<times> json) list"
  sed_created_at :: datetime
  sed_revision :: int

definition default_site_event_deployment_projection :: "datetime \<Rightarrow> site_event_deployment_projection" where
  "default_site_event_deployment_projection now =
     \<lparr>sed_deployment_id = 0,
      sed_central_event_id = 0,
      sed_site_id = 0,
      sed_status = Dep_DRAFT,
      sed_desired_revision = 0,
      sed_applied_revision = 0,
      sed_last_central_synchronization_at = None,
      sed_applied_at = None,
      sed_revoked_at = None,
      sed_failure_at = None,
      sed_failure_reason = None,
      sed_current_snapshot = [],
      sed_summary_counts = [],
      sed_created_at = now,
      sed_revision = 1\<rparr>"

record site_event_deployment_revision_projection =
  sdr_deployment_revision_id :: uuid
  sdr_deployment_id :: uuid
  sdr_deployment_revision :: int
  sdr_event_type :: string
  sdr_schema_version :: int
  sdr_snapshot :: "(string \<times> json) list"
  sdr_applied_at :: datetime

definition default_site_event_deployment_revision_projection :: "datetime \<Rightarrow> site_event_deployment_revision_projection" where
  "default_site_event_deployment_revision_projection now =
     \<lparr>sdr_deployment_revision_id = 0,
      sdr_deployment_id = 0,
      sdr_deployment_revision = 0,
      sdr_event_type = [],
      sdr_schema_version = 0,
      sdr_snapshot = [],
      sdr_applied_at = now\<rparr>"

record site_event_participation =
  sep_event_participation_id :: uuid
  sep_event_id :: uuid
  sep_person_id :: uuid
  sep_role :: "string option"
  sep_display_name :: "string option"
  sep_professional_title :: "string option"
  sep_organization :: "string option"
  sep_participant_status :: participant_status
  sep_is_presenter :: bool
  sep_active :: bool
  sep_sync_state :: sync_state
  sep_created_at :: datetime
  sep_revision :: int

definition default_site_event_participation :: "datetime \<Rightarrow> site_event_participation" where
  "default_site_event_participation now =
     \<lparr>sep_event_participation_id = 0,
      sep_event_id = 0,
      sep_person_id = 0,
      sep_role = None,
      sep_display_name = None,
      sep_professional_title = None,
      sep_organization = None,
      sep_participant_status = Part_ACTIVE,
      sep_is_presenter = False,
      sep_active = True,
      sep_sync_state = Sync_LOCAL,
      sep_created_at = now,
      sep_revision = 1\<rparr>"

record site_session =
  sss_session_id :: uuid
  sss_event_id :: uuid
  sss_title :: string
  sss_subtitle :: "string option"
  sss_description :: "string option"
  sss_session_code :: "string option"
  sss_session_type :: "string option"
  sss_starts_at :: "datetime option"
  sss_ends_at :: "datetime option"
  sss_location_name :: "string option"
  sss_status :: session_status
  sss_sort_order :: int
  sss_active :: bool
  sss_sync_state :: sync_state
  sss_created_at :: datetime
  sss_revision :: int

definition default_site_session :: "datetime \<Rightarrow> site_session" where
  "default_site_session now =
     \<lparr>sss_session_id = 0,
      sss_event_id = 0,
      sss_title = [],
      sss_subtitle = None,
      sss_description = None,
      sss_session_code = None,
      sss_session_type = None,
      sss_starts_at = None,
      sss_ends_at = None,
      sss_location_name = None,
      sss_status = Sess_DRAFT,
      sss_sort_order = 0,
      sss_active = True,
      sss_sync_state = Sync_LOCAL,
      sss_created_at = now,
      sss_revision = 1\<rparr>"

record site_session_participant =
  ssp_session_participant_id :: uuid
  ssp_session_id :: uuid
  ssp_event_participation_id :: uuid
  ssp_role :: string
  ssp_presenter_order :: int
  ssp_primary_presenter :: bool
  ssp_active :: bool
  ssp_sync_state :: sync_state
  ssp_created_at :: datetime
  ssp_revision :: int

definition default_site_session_participant :: "datetime \<Rightarrow> site_session_participant" where
  "default_site_session_participant now =
     \<lparr>ssp_session_participant_id = 0,
      ssp_session_id = 0,
      ssp_event_participation_id = 0,
      ssp_role = [],
      ssp_presenter_order = 0,
      ssp_primary_presenter = False,
      ssp_active = True,
      ssp_sync_state = Sync_LOCAL,
      ssp_created_at = now,
      ssp_revision = 1\<rparr>"

record site_presentation =
  spr_presentation_id :: uuid
  spr_event_id :: uuid
  spr_session_id :: "uuid option"
  spr_title :: string
  spr_description :: "string option"
  spr_presentation_code :: "string option"
  spr_presentation_identifier :: string
  spr_presentation_identifier_source :: presentation_identifier_source
  spr_external_presentation_id :: "string option"
  spr_workflow_status :: presentation_workflow_status
  spr_processing_status :: presentation_processing_status
  spr_scheduled_at :: "datetime option"
  spr_active :: bool
  spr_sync_state :: sync_state
  spr_created_at :: datetime
  spr_revision :: int

definition default_site_presentation :: "datetime \<Rightarrow> site_presentation" where
  "default_site_presentation now =
     \<lparr>spr_presentation_id = 0,
      spr_event_id = 0,
      spr_session_id = None,
      spr_title = [],
      spr_description = None,
      spr_presentation_code = None,
      spr_presentation_identifier = [],
      spr_presentation_identifier_source = PidSource_GENERATED,
      spr_external_presentation_id = None,
      spr_workflow_status = Flow_EXPECTED,
      spr_processing_status = Proc_NOT_STARTED,
      spr_scheduled_at = None,
      spr_active = True,
      spr_sync_state = Sync_LOCAL,
      spr_created_at = now,
      spr_revision = 1\<rparr>"

record site_presentation_session =
  sps_presentation_session_id :: uuid
  sps_presentation_id :: uuid
  sps_session_id :: uuid
  sps_association_type :: string
  sps_sort_order :: int
  sps_primary_session :: bool
  sps_active :: bool
  sps_created_at :: datetime
  sps_revision :: int

definition default_site_presentation_session :: "datetime \<Rightarrow> site_presentation_session" where
  "default_site_presentation_session now =
     \<lparr>sps_presentation_session_id = 0,
      sps_presentation_id = 0,
      sps_session_id = 0,
      sps_association_type = [],
      sps_sort_order = 0,
      sps_primary_session = False,
      sps_active = True,
      sps_created_at = now,
      sps_revision = 1\<rparr>"

record site_presentation_presenter =
  spp_presentation_presenter_id :: uuid
  spp_presentation_id :: uuid
  spp_event_participation_id :: uuid
  spp_role :: string
  spp_presenter_order :: int
  spp_primary_presenter :: bool
  spp_active :: bool
  spp_created_at :: datetime
  spp_revision :: int

definition default_site_presentation_presenter :: "datetime \<Rightarrow> site_presentation_presenter" where
  "default_site_presentation_presenter now =
     \<lparr>spp_presentation_presenter_id = 0,
      spp_presentation_id = 0,
      spp_event_participation_id = 0,
      spp_role = [],
      spp_presenter_order = 0,
      spp_primary_presenter = False,
      spp_active = True,
      spp_created_at = now,
      spp_revision = 1\<rparr>"

record site_external_identifier_projection =
  sxi_external_identifier_id :: uuid
  sxi_event_id :: uuid
  sxi_entity_type :: external_entity_type
  sxi_entity_id :: uuid
  sxi_namespace :: string
  sxi_external_id :: string
  sxi_active :: bool
  sxi_created_at :: datetime
  sxi_revision :: int

definition default_site_external_identifier_projection :: "datetime \<Rightarrow> site_external_identifier_projection" where
  "default_site_external_identifier_projection now =
     \<lparr>sxi_external_identifier_id = 0,
      sxi_event_id = 0,
      sxi_entity_type = Ext_PERSON,
      sxi_entity_id = 0,
      sxi_namespace = [],
      sxi_external_id = [],
      sxi_active = True,
      sxi_created_at = now,
      sxi_revision = 1\<rparr>"

record site_presentation_version =
  spv_presentation_version_id :: uuid
  spv_presentation_id :: uuid
  spv_version_number :: int
  spv_sync_state :: sync_state
  spv_created_at :: datetime
  spv_revision :: int

definition default_site_presentation_version :: "datetime \<Rightarrow> site_presentation_version" where
  "default_site_presentation_version now =
     \<lparr>spv_presentation_version_id = 0,
      spv_presentation_id = 0,
      spv_version_number = 0,
      spv_sync_state = Sync_LOCAL,
      spv_created_at = now,
      spv_revision = 1\<rparr>"

record site_room =
  sro_room_id :: uuid
  sro_site_id :: uuid
  sro_event_id :: "uuid option"
  sro_label :: string
  sro_enabled :: bool
  sro_archived_at :: "datetime option"
  sro_sync_state :: sync_state
  sro_created_at :: datetime
  sro_revision :: int

definition default_site_room :: "datetime \<Rightarrow> site_room" where
  "default_site_room now =
     \<lparr>sro_room_id = 0,
      sro_site_id = 0,
      sro_event_id = None,
      sro_label = [],
      sro_enabled = True,
      sro_archived_at = None,
      sro_sync_state = Sync_LOCAL,
      sro_created_at = now,
      sro_revision = 1\<rparr>"

record site_program_room_mapping =
  srm_program_room_mapping_id :: uuid
  srm_site_id :: uuid
  srm_event_id :: uuid
  srm_imported_label :: string
  srm_normalized_imported_label :: string
  srm_room_id :: "uuid option"
  srm_confirmed_by :: string
  srm_created_at :: datetime
  srm_revision :: int

definition default_site_program_room_mapping :: "datetime \<Rightarrow> site_program_room_mapping" where
  "default_site_program_room_mapping now =
     \<lparr>srm_program_room_mapping_id = 0,
      srm_site_id = 0,
      srm_event_id = 0,
      srm_imported_label = [],
      srm_normalized_imported_label = [],
      srm_room_id = None,
      srm_confirmed_by = ''site-operator'',
      srm_created_at = now,
      srm_revision = 1\<rparr>"

record site_room_assignment =
  sra_room_assignment_id :: uuid
  sra_room_id :: uuid
  sra_session_id :: uuid
  sra_program_room_mapping_id :: "uuid option"
  sra_starts_at :: "datetime option"
  sra_ends_at :: "datetime option"
  sra_active :: bool
  sra_created_at :: datetime
  sra_revision :: int

definition default_site_room_assignment :: "datetime \<Rightarrow> site_room_assignment" where
  "default_site_room_assignment now =
     \<lparr>sra_room_assignment_id = 0,
      sra_room_id = 0,
      sra_session_id = 0,
      sra_program_room_mapping_id = None,
      sra_starts_at = None,
      sra_ends_at = None,
      sra_active = True,
      sra_created_at = now,
      sra_revision = 1\<rparr>"

record site_device =
  sdv_device_id :: uuid
  sdv_site_id :: uuid
  sdv_display_name :: string
  sdv_enrolled_at :: "datetime option"
  sdv_revoked_at :: "datetime option"
  sdv_created_at :: datetime
  sdv_revision :: int

definition default_site_device :: "datetime \<Rightarrow> site_device" where
  "default_site_device now =
     \<lparr>sdv_device_id = 0,
      sdv_site_id = 0,
      sdv_display_name = [],
      sdv_enrolled_at = None,
      sdv_revoked_at = None,
      sdv_created_at = now,
      sdv_revision = 1\<rparr>"

record site_device_assignment =
  sda_device_assignment_id :: uuid
  sda_device_id :: uuid
  sda_room_id :: uuid
  sda_role :: device_role
  sda_starts_at :: "datetime option"
  sda_ends_at :: "datetime option"
  sda_active :: bool
  sda_created_at :: datetime
  sda_revision :: int

definition default_site_device_assignment :: "datetime \<Rightarrow> site_device_assignment" where
  "default_site_device_assignment now =
     \<lparr>sda_device_assignment_id = 0,
      sda_device_id = 0,
      sda_room_id = 0,
      sda_role = Device_PRIMARY,
      sda_starts_at = None,
      sda_ends_at = None,
      sda_active = True,
      sda_created_at = now,
      sda_revision = 1\<rparr>"

record site_storage_target =
  stg_storage_target_id :: uuid
  stg_site_id :: uuid
  stg_display_name :: string
  stg_storage_type :: storage_type
  stg_root_path :: string
  stg_enabled :: bool
  stg_primary_media :: bool
  stg_health :: storage_health
  stg_warning_free_bytes :: "int option"
  stg_critical_free_bytes :: "int option"
  stg_safety_reserve_bytes :: int
  stg_created_at :: datetime
  stg_revision :: int

definition default_site_storage_target :: "datetime \<Rightarrow> site_storage_target" where
  "default_site_storage_target now =
     \<lparr>stg_storage_target_id = 0,
      stg_site_id = 0,
      stg_display_name = [],
      stg_storage_type = Storage_LOCAL_FILESYSTEM,
      stg_root_path = [],
      stg_enabled = True,
      stg_primary_media = False,
      stg_health = Health_UNKNOWN,
      stg_warning_free_bytes = None,
      stg_critical_free_bytes = None,
      stg_safety_reserve_bytes = 1073741824,
      stg_created_at = now,
      stg_revision = 1\<rparr>"

record site_media_object =
  smo_media_object_id :: uuid
  smo_site_id :: uuid
  smo_event_id :: "uuid option"
  smo_storage_target_id :: uuid
  smo_object_key :: string
  smo_category :: media_category
  smo_original_filename :: string
  smo_source_relative_path :: "string option"
  smo_intake_origin :: string
  smo_source_actor :: "string option"
  smo_source_share :: "string option"
  smo_canonical_filename :: "string option"
  smo_content_hash :: "string option"
  smo_hash_algorithm :: "string option"
  smo_size_bytes :: "int option"
  smo_mime_type :: "string option"
  smo_availability :: media_availability
  smo_ingestion_idempotency_key :: "string option"
  smo_failure_reason :: "string option"
  smo_source_media_object_id :: "uuid option"
  smo_deleted_at :: "datetime option"
  smo_created_at :: datetime
  smo_revision :: int

definition default_site_media_object :: "datetime \<Rightarrow> site_media_object" where
  "default_site_media_object now =
     \<lparr>smo_media_object_id = 0,
      smo_site_id = 0,
      smo_event_id = None,
      smo_storage_target_id = 0,
      smo_object_key = [],
      smo_category = Cat_PRESENTATION,
      smo_original_filename = [],
      smo_source_relative_path = None,
      smo_intake_origin = ''browser'',
      smo_source_actor = None,
      smo_source_share = None,
      smo_canonical_filename = None,
      smo_content_hash = None,
      smo_hash_algorithm = None,
      smo_size_bytes = None,
      smo_mime_type = None,
      smo_availability = Avail_STAGING,
      smo_ingestion_idempotency_key = None,
      smo_failure_reason = None,
      smo_source_media_object_id = None,
      smo_deleted_at = None,
      smo_created_at = now,
      smo_revision = 1\<rparr>"

record site_presentation_asset =
  spa_presentation_asset_id :: uuid
  spa_presentation_version_id :: uuid
  spa_media_object_id :: uuid
  spa_original_filename :: "string option"
  spa_kind :: asset_kind
  spa_source_asset_id :: "uuid option"
  spa_created_at :: datetime
  spa_revision :: int

definition default_site_presentation_asset :: "datetime \<Rightarrow> site_presentation_asset" where
  "default_site_presentation_asset now =
     \<lparr>spa_presentation_asset_id = 0,
      spa_presentation_version_id = 0,
      spa_media_object_id = 0,
      spa_original_filename = None,
      spa_kind = Asset_ORIGINAL,
      spa_source_asset_id = None,
      spa_created_at = now,
      spa_revision = 1\<rparr>"

record site_media_transfer_session =
  smt_transfer_session_id :: uuid
  smt_site_id :: uuid
  smt_event_id :: uuid
  smt_presentation_id :: uuid
  smt_presentation_version_id :: uuid
  smt_original_filename :: string
  smt_canonical_filename :: string
  smt_expected_size :: int
  smt_sha256 :: string
  smt_media_type :: "string option"
  smt_partial_key :: string
  smt_storage_target_id :: "uuid option"
  smt_confirmed_offset :: int
  smt_state :: media_transfer_state
  smt_retry_count :: int
  smt_last_progress_at :: "datetime option"
  smt_error_detail :: "string option"
  smt_media_object_id :: "uuid option"
  smt_created_at :: datetime
  smt_revision :: int

definition default_site_media_transfer_session :: "datetime \<Rightarrow> site_media_transfer_session" where
  "default_site_media_transfer_session now =
     \<lparr>smt_transfer_session_id = 0,
      smt_site_id = 0,
      smt_event_id = 0,
      smt_presentation_id = 0,
      smt_presentation_version_id = 0,
      smt_original_filename = [],
      smt_canonical_filename = [],
      smt_expected_size = 0,
      smt_sha256 = [],
      smt_media_type = None,
      smt_partial_key = [],
      smt_storage_target_id = None,
      smt_confirmed_offset = 0,
      smt_state = Xfer_QUEUED,
      smt_retry_count = 0,
      smt_last_progress_at = None,
      smt_error_detail = None,
      smt_media_object_id = None,
      smt_created_at = now,
      smt_revision = 1\<rparr>"

record site_media_replication_session =
  smr_replication_session_id :: uuid
  smr_site_id :: uuid
  smr_event_id :: uuid
  smr_presentation_id :: uuid
  smr_presentation_version_id :: uuid
  smr_media_object_id :: uuid
  smr_expected_size :: int
  smr_sha256 :: string
  smr_original_filename :: string
  smr_canonical_filename :: "string option"
  smr_media_type :: "string option"
  smr_confirmed_offset :: int
  smr_state :: media_replication_state
  smr_retry_count :: int
  smr_last_progress_at :: "datetime option"
  smr_last_error :: "string option"
  smr_central_media_object_id :: "uuid option"
  smr_created_at :: datetime
  smr_revision :: int

definition default_site_media_replication_session :: "datetime \<Rightarrow> site_media_replication_session" where
  "default_site_media_replication_session now =
     \<lparr>smr_replication_session_id = 0,
      smr_site_id = 0,
      smr_event_id = 0,
      smr_presentation_id = 0,
      smr_presentation_version_id = 0,
      smr_media_object_id = 0,
      smr_expected_size = 0,
      smr_sha256 = [],
      smr_original_filename = [],
      smr_canonical_filename = None,
      smr_media_type = None,
      smr_confirmed_offset = 0,
      smr_state = Repl_QUEUED,
      smr_retry_count = 0,
      smr_last_progress_at = None,
      smr_last_error = None,
      smr_central_media_object_id = None,
      smr_created_at = now,
      smr_revision = 1\<rparr>"

record site_sync_event =
  sse_sync_event_id :: uuid
  sse_site_id :: uuid
  sse_event_id :: "uuid option"
  sse_source_system :: source_system
  sse_aggregate_type :: string
  sse_aggregate_id :: uuid
  sse_event_type :: string
  sse_idempotency_key :: string
  sse_sequence :: int
  sse_payload :: "(string \<times> json) list"
  sse_sync_state :: sync_state
  sse_attempt_count :: int
  sse_next_attempt_at :: "datetime option"
  sse_last_error :: "string option"
  sse_created_at :: datetime
  sse_revision :: int

definition default_site_sync_event :: "datetime \<Rightarrow> site_sync_event" where
  "default_site_sync_event now =
     \<lparr>sse_sync_event_id = 0,
      sse_site_id = 0,
      sse_event_id = None,
      sse_source_system = Src_CENTRAL,
      sse_aggregate_type = [],
      sse_aggregate_id = 0,
      sse_event_type = [],
      sse_idempotency_key = [],
      sse_sequence = 0,
      sse_payload = [],
      sse_sync_state = Sync_PENDING,
      sse_attempt_count = 0,
      sse_next_attempt_at = None,
      sse_last_error = None,
      sse_created_at = now,
      sse_revision = 1\<rparr>"

record site_audit_record =
  sar_audit_record_id :: uuid
  sar_actor_id :: "string option"
  sar_action :: string
  sar_target_type :: string
  sar_target_id :: "uuid option"
  sar_site_id :: uuid
  sar_event_id :: "uuid option"
  sar_occurred_at :: datetime
  sar_before_context :: "(string \<times> json) list option"
  sar_after_context :: "(string \<times> json) list option"

definition default_site_audit_record :: "datetime \<Rightarrow> site_audit_record" where
  "default_site_audit_record now =
     \<lparr>sar_audit_record_id = 0,
      sar_actor_id = None,
      sar_action = [],
      sar_target_type = [],
      sar_target_id = None,
      sar_site_id = 0,
      sar_event_id = None,
      sar_occurred_at = now,
      sar_before_context = None,
      sar_after_context = None\<rparr>"

end
