(* ===== verification/Contracts.thy ===== *)
theory Contracts
  imports Jobs
begin

text \<open>
  The versioned messages of \<open>upm_shared/contracts\<close>: one record per pydantic model the
  synchronisation code builds or validates, and \<open>..._fields\<close>, the conjunction of the
  bounds its fields declare (\<open>ge\<close>, \<open>min_length\<close>, \<open>max_length\<close>, \<open>pattern\<close>, \<open>Literal\<close>).
  The validators the repository writes itself (references of a snapshot, offsets of a
  transfer) are definitions. What pydantic does around them, decoding a JSON object into
  the typed fields and back, is the record \<open>codec\<close>, an argument of the code that calls
  \<open>model_validate\<close> or \<open>model_dump(mode="json")\<close>.
\<close>

text \<open>\<open>^[0-9a-f]{64}$\<close>\<close>

definition sha256_text :: "string \<Rightarrow> bool" where
  "sha256_text s \<longleftrightarrow> length s = 64 \<and> list_all (\<lambda>c. is_digit_char c \<or> c \<in> set ''abcdef'') s"

record sync_event_envelope =
  env_event_id :: uuid
  env_event_type :: string
  env_protocol_version :: int
  env_source :: string
  env_source_site_id :: "uuid option"
  env_source_sequence :: int
  env_authority :: authority_scope
  env_entity_type :: string
  env_entity_id :: "uuid option"
  env_occurred_at :: datetime
  env_payload :: "(string \<times> json) list"
  env_payload_schema_version :: int
  env_correlation_id :: "uuid option"
  env_causation_id :: "uuid option"

definition sync_event_envelope_fields :: "sync_event_envelope \<Rightarrow> bool" where
  "sync_event_envelope_fields m \<longleftrightarrow>
     1 \<le> length (env_event_type m)
     \<and> length (env_event_type m) \<le> 100
     \<and> 1 \<le> (env_protocol_version m)
     \<and> (env_source m) \<in> {''central'', ''site''}
     \<and> 1 \<le> (env_source_sequence m)
     \<and> 1 \<le> length (env_entity_type m)
     \<and> length (env_entity_type m) \<le> 100
     \<and> 1 \<le> (env_payload_schema_version m)"

record event_acknowledgement =
  ack_event_id :: uuid
  ack_accepted :: bool
  ack_duplicate :: bool
  ack_error_code :: "string option"
  ack_detail :: "string option"

record enrollment_request =
  enr_site_id :: uuid
  enr_display_name :: string
  enr_application_version :: string
  enr_protocol_version :: int
  enr_claim_secret :: string
  enr_reported_hostname :: "string option"
  enr_capabilities :: "string list"

definition enrollment_request_fields :: "enrollment_request \<Rightarrow> bool" where
  "enrollment_request_fields m \<longleftrightarrow>
     1 \<le> length (enr_display_name m)
     \<and> length (enr_display_name m) \<le> 255
     \<and> 1 \<le> length (enr_application_version m)
     \<and> length (enr_application_version m) \<le> 64
     \<and> 1 \<le> (enr_protocol_version m)
     \<and> 32 \<le> length (enr_claim_secret m)
     \<and> length (enr_claim_secret m) \<le> 512
     \<and> (case (enr_reported_hostname m) of None \<Rightarrow> True | Some x \<Rightarrow> length x \<le> 255)
     \<and> length (enr_capabilities m) \<le> 100"

record event_ack_request =
  ear_protocol_version :: int
  ear_event_ids :: "uuid list"
  ear_checkpoint_sequence :: int

definition event_ack_request_fields :: "event_ack_request \<Rightarrow> bool" where
  "event_ack_request_fields m \<longleftrightarrow>
     1 \<le> (ear_protocol_version m)
     \<and> 1 \<le> length (ear_event_ids m)
     \<and> length (ear_event_ids m) \<le> 100
     \<and> 0 \<le> (ear_checkpoint_sequence m)"

record enrollment_request_response =
  erp_site_id :: uuid
  erp_state :: enrollment_state
  erp_poll_token :: "string option"

record enrollment_status_response =
  esr_site_id :: uuid
  esr_state :: enrollment_state
  esr_protocol_version :: int
  esr_credential :: "string option"
  esr_reason :: "string option"

record sync_batch_request =
  sbq_protocol_version :: int
  sbq_events :: "sync_event_envelope list"

definition sync_batch_request_fields :: "sync_batch_request \<Rightarrow> bool" where
  "sync_batch_request_fields m \<longleftrightarrow>
     1 \<le> (sbq_protocol_version m)
     \<and> list_all (\<lambda>x. sync_event_envelope_fields x) (sbq_events m)
     \<and> length (sbq_events m) \<le> 100"

record sync_batch_response =
  sbr_protocol_version :: int
  sbr_acknowledgements :: "event_acknowledgement list"
  sbr_checkpoint_sequence :: int

record outbound_sync_response =
  osr_protocol_version :: int
  osr_events :: "sync_event_envelope list"

definition outbound_sync_response_fields :: "outbound_sync_response \<Rightarrow> bool" where
  "outbound_sync_response_fields m \<longleftrightarrow>
     list_all (\<lambda>x. sync_event_envelope_fields x) (osr_events m)"

record person_profile =
  snpe_person_id :: uuid
  snpe_display_name :: string
  snpe_given_name :: "string option"
  snpe_family_name :: "string option"
  snpe_primary_email :: "string option"
  snpe_organization :: "string option"
  snpe_central_revision :: int

definition person_profile_fields :: "person_profile \<Rightarrow> bool" where
  "person_profile_fields m \<longleftrightarrow>
     1 \<le> length (snpe_display_name m)
     \<and> length (snpe_display_name m) \<le> 255
     \<and> (case (snpe_given_name m) of None \<Rightarrow> True | Some x \<Rightarrow> length x \<le> 255)
     \<and> (case (snpe_family_name m) of None \<Rightarrow> True | Some x \<Rightarrow> length x \<le> 255)
     \<and> (case (snpe_primary_email m) of None \<Rightarrow> True | Some x \<Rightarrow> length x \<le> 320)
     \<and> (case (snpe_organization m) of None \<Rightarrow> True | Some x \<Rightarrow> length x \<le> 255)
     \<and> 1 \<le> (snpe_central_revision m)"

record site_user_snapshot =
  snus_user_id :: uuid
  snus_username :: string
  snus_display_name :: string
  snus_email :: "string option"
  snus_enabled :: bool
  snus_web_access :: bool
  snus_role :: string
  snus_permissions :: "string list"
  snus_smb_enabled :: bool
  snus_password_verifier :: string
  snus_central_revision :: int

definition site_user_snapshot_fields :: "site_user_snapshot \<Rightarrow> bool" where
  "site_user_snapshot_fields m \<longleftrightarrow>
     1 \<le> length (snus_username m)
     \<and> length (snus_username m) \<le> 255
     \<and> 1 \<le> length (snus_display_name m)
     \<and> length (snus_display_name m) \<le> 255
     \<and> (case (snus_email m) of None \<Rightarrow> True | Some x \<Rightarrow> length x \<le> 320)
     \<and> 1 \<le> (snus_central_revision m)"

record participation_snapshot =
  snpa_event_participation_id :: uuid
  snpa_person_id :: uuid
  snpa_role :: "string option"
  snpa_display_name :: "string option"
  snpa_professional_title :: "string option"
  snpa_organization :: "string option"
  snpa_participant_status :: participant_status
  snpa_is_presenter :: bool
  snpa_central_revision :: int

definition participation_snapshot_fields :: "participation_snapshot \<Rightarrow> bool" where
  "participation_snapshot_fields m \<longleftrightarrow>
     (case (snpa_role m) of None \<Rightarrow> True | Some x \<Rightarrow> length x \<le> 100)
     \<and> (case (snpa_display_name m) of None \<Rightarrow> True | Some x \<Rightarrow> length x \<le> 255)
     \<and> (case (snpa_professional_title m) of None \<Rightarrow> True | Some x \<Rightarrow> length x \<le> 255)
     \<and> (case (snpa_organization m) of None \<Rightarrow> True | Some x \<Rightarrow> length x \<le> 255)
     \<and> 1 \<le> (snpa_central_revision m)"

record session_participant_snapshot =
  snsp_session_participant_id :: uuid
  snsp_event_participation_id :: uuid
  snsp_role :: string
  snsp_presenter_order :: int
  snsp_primary_presenter :: bool
  snsp_central_revision :: int

definition session_participant_snapshot_fields :: "session_participant_snapshot \<Rightarrow> bool" where
  "session_participant_snapshot_fields m \<longleftrightarrow>
     1 \<le> length (snsp_role m)
     \<and> length (snsp_role m) \<le> 64
     \<and> 1 \<le> (snsp_central_revision m)"

record session_snapshot =
  snss_session_id :: uuid
  snss_title :: string
  snss_subtitle :: "string option"
  snss_description :: "string option"
  snss_session_code :: "string option"
  snss_session_type :: "string option"
  snss_starts_at :: "datetime option"
  snss_ends_at :: "datetime option"
  snss_location_name :: "string option"
  snss_status :: session_status
  snss_sort_order :: int
  snss_central_revision :: int
  snss_participants :: "session_participant_snapshot list"

definition session_snapshot_fields :: "session_snapshot \<Rightarrow> bool" where
  "session_snapshot_fields m \<longleftrightarrow>
     1 \<le> length (snss_title m)
     \<and> length (snss_title m) \<le> 255
     \<and> (case (snss_subtitle m) of None \<Rightarrow> True | Some x \<Rightarrow> length x \<le> 255)
     \<and> (case (snss_session_code m) of None \<Rightarrow> True | Some x \<Rightarrow> length x \<le> 255)
     \<and> (case (snss_session_type m) of None \<Rightarrow> True | Some x \<Rightarrow> length x \<le> 100)
     \<and> (case (snss_location_name m) of None \<Rightarrow> True | Some x \<Rightarrow> length x \<le> 255)
     \<and> 1 \<le> (snss_central_revision m)
     \<and> list_all (\<lambda>x. session_participant_snapshot_fields x) (snss_participants m)"

record presentation_session_snapshot =
  snps_presentation_session_id :: uuid
  snps_session_id :: uuid
  snps_association_type :: string
  snps_sort_order :: int
  snps_primary_session :: bool
  snps_central_revision :: int

definition presentation_session_snapshot_fields :: "presentation_session_snapshot \<Rightarrow> bool" where
  "presentation_session_snapshot_fields m \<longleftrightarrow>
     1 \<le> length (snps_association_type m)
     \<and> length (snps_association_type m) \<le> 64
     \<and> 1 \<le> (snps_central_revision m)"

record presentation_presenter_snapshot =
  snpp_presentation_presenter_id :: uuid
  snpp_event_participation_id :: uuid
  snpp_role :: string
  snpp_presenter_order :: int
  snpp_primary_presenter :: bool
  snpp_central_revision :: int

definition presentation_presenter_snapshot_fields :: "presentation_presenter_snapshot \<Rightarrow> bool" where
  "presentation_presenter_snapshot_fields m \<longleftrightarrow>
     1 \<le> length (snpp_role m)
     \<and> length (snpp_role m) \<le> 64
     \<and> 1 \<le> (snpp_central_revision m)"

record external_identifier_snapshot =
  snxi_external_identifier_id :: uuid
  snxi_entity_type :: external_entity_type
  snxi_entity_id :: uuid
  snxi_namespace :: string
  snxi_external_id :: string
  snxi_central_revision :: int

definition external_identifier_snapshot_fields :: "external_identifier_snapshot \<Rightarrow> bool" where
  "external_identifier_snapshot_fields m \<longleftrightarrow>
     1 \<le> length (snxi_namespace m)
     \<and> length (snxi_namespace m) \<le> 255
     \<and> 1 \<le> length (snxi_external_id m)
     \<and> length (snxi_external_id m) \<le> 512
     \<and> 1 \<le> (snxi_central_revision m)"

record presentation_snapshot =
  snpr_presentation_id :: uuid
  snpr_session_id :: "uuid option"
  snpr_title :: string
  snpr_description :: "string option"
  snpr_presentation_code :: "string option"
  snpr_presentation_identifier :: "string option"
  snpr_presentation_identifier_source :: "presentation_identifier_source option"
  snpr_external_presentation_id :: "string option"
  snpr_workflow_status :: presentation_workflow_status
  snpr_processing_status :: presentation_processing_status
  snpr_scheduled_at :: "datetime option"
  snpr_central_revision :: int
  snpr_version_numbers :: "int list"
  snpr_sessions :: "presentation_session_snapshot list"
  snpr_presenters :: "presentation_presenter_snapshot list"
  snpr_metadata :: "(string \<times> json) list"

definition presentation_snapshot_fields :: "presentation_snapshot \<Rightarrow> bool" where
  "presentation_snapshot_fields m \<longleftrightarrow>
     1 \<le> length (snpr_title m)
     \<and> length (snpr_title m) \<le> 255
     \<and> (case (snpr_presentation_code m) of None \<Rightarrow> True | Some x \<Rightarrow> length x \<le> 255)
     \<and> (case (snpr_presentation_identifier m) of None \<Rightarrow> True | Some x \<Rightarrow> length x \<le> 128)
     \<and> (case (snpr_external_presentation_id m) of None \<Rightarrow> True | Some x \<Rightarrow> length x \<le> 512)
     \<and> 1 \<le> (snpr_central_revision m)
     \<and> list_all (\<lambda>x. 1 \<le> x) (snpr_version_numbers m)
     \<and> list_all (\<lambda>x. presentation_session_snapshot_fields x) (snpr_sessions m)
     \<and> list_all (\<lambda>x. presentation_presenter_snapshot_fields x) (snpr_presenters m)"

record event_deployment_snapshot =
  snap_schema_version :: int
  snap_deployment_id :: uuid
  snap_deployment_revision :: int
  snap_central_event_revision :: int
  snap_event_id :: uuid
  snap_site_id :: uuid
  snap_event_name :: string
  snap_starts_at :: "datetime option"
  snap_ends_at :: "datetime option"
  snap_timezone :: "string option"
  snap_event_description :: "string option"
  snap_organization_reference :: "(string \<times> json) list option"
  snap_event_configuration :: "(string \<times> json) list"
  snap_people :: "person_profile list"
  snap_users :: "site_user_snapshot list"
  snap_participations :: "participation_snapshot list"
  snap_sessions :: "session_snapshot list"
  snap_presentations :: "presentation_snapshot list"
  snap_external_identifiers :: "external_identifier_snapshot list"
  snap_room_configuration :: "(string \<times> json) list"
  snap_signage_configuration :: "(string \<times> json) list"
  snap_branding_configuration :: "(string \<times> json) list"
  snap_workflow_configuration :: "(string \<times> json) list"
  snap_extensions :: "(string \<times> json) list"

definition event_deployment_snapshot_fields :: "event_deployment_snapshot \<Rightarrow> bool" where
  "event_deployment_snapshot_fields m \<longleftrightarrow>
     (snap_schema_version m) = 1
     \<and> 1 \<le> (snap_deployment_revision m)
     \<and> 1 \<le> (snap_central_event_revision m)
     \<and> 1 \<le> length (snap_event_name m)
     \<and> length (snap_event_name m) \<le> 255
     \<and> (case (snap_timezone m) of None \<Rightarrow> True | Some x \<Rightarrow> length x \<le> 100)
     \<and> list_all (\<lambda>x. person_profile_fields x) (snap_people m)
     \<and> list_all (\<lambda>x. site_user_snapshot_fields x) (snap_users m)
     \<and> list_all (\<lambda>x. participation_snapshot_fields x) (snap_participations m)
     \<and> list_all (\<lambda>x. session_snapshot_fields x) (snap_sessions m)
     \<and> list_all (\<lambda>x. presentation_snapshot_fields x) (snap_presentations m)
     \<and> list_all (\<lambda>x. external_identifier_snapshot_fields x) (snap_external_identifiers m)"

record deployment_revocation =
  rev_schema_version :: int
  rev_deployment_id :: uuid
  rev_deployment_revision :: int
  rev_event_id :: uuid
  rev_site_id :: uuid
  rev_reason :: "string option"

definition deployment_revocation_fields :: "deployment_revocation \<Rightarrow> bool" where
  "deployment_revocation_fields m \<longleftrightarrow>
     (rev_schema_version m) = 1
     \<and> 1 \<le> (rev_deployment_revision m)
     \<and> (case (rev_reason m) of None \<Rightarrow> True | Some x \<Rightarrow> length x \<le> 2048)"

record site_deployment_status =
  sds_schema_version :: int
  sds_deployment_id :: uuid
  sds_event_id :: uuid
  sds_site_id :: uuid
  sds_desired_revision :: int
  sds_applied_revision :: int
  sds_status :: string
  sds_failure_reason :: "string option"
  sds_summary_counts :: "(string \<times> int) list"
  sds_observed_at :: datetime

definition site_deployment_status_fields :: "site_deployment_status \<Rightarrow> bool" where
  "site_deployment_status_fields m \<longleftrightarrow>
     (sds_schema_version m) = 1
     \<and> 1 \<le> (sds_desired_revision m)
     \<and> 0 \<le> (sds_applied_revision m)
     \<and> (sds_status m) \<in> {''received'', ''applied'', ''failed'', ''stale'', ''revoked''}
     \<and> (case (sds_failure_reason m) of None \<Rightarrow> True | Some x \<Rightarrow> length x \<le> 2048)
     \<and> list_all (\<lambda>(k, x). 0 \<le> x) (sds_summary_counts m)"

record media_transfer_manifest =
  man_transfer_session_id :: uuid
  man_origin_system :: source_system
  man_origin_site_id :: "uuid option"
  man_destination_site_id :: "uuid option"
  man_event_id :: uuid
  man_presentation_id :: uuid
  man_presentation_version_id :: uuid
  man_presentation_identifier :: string
  man_original_filename :: string
  man_canonical_filename :: string
  man_expected_size :: int
  man_sha256 :: string
  man_media_type :: "string option"
  man_created_at :: datetime
  man_state :: media_transfer_state
  man_retry_count :: int

definition media_transfer_manifest_fields :: "media_transfer_manifest \<Rightarrow> bool" where
  "media_transfer_manifest_fields m \<longleftrightarrow>
     1 \<le> length (man_presentation_identifier m)
     \<and> length (man_presentation_identifier m) \<le> 128
     \<and> 1 \<le> length (man_original_filename m)
     \<and> length (man_original_filename m) \<le> 1024
     \<and> 1 \<le> length (man_canonical_filename m)
     \<and> length (man_canonical_filename m) \<le> 1024
     \<and> 0 \<le> (man_expected_size m)
     \<and> sha256_text (man_sha256 m)
     \<and> (case (man_media_type m) of None \<Rightarrow> True | Some x \<Rightarrow> length x \<le> 255)
     \<and> 0 \<le> (man_retry_count m)"

record media_transfer_progress =
  prg_transfer_session_id :: uuid
  prg_site_id :: uuid
  prg_expected_size :: int
  prg_confirmed_offset :: int
  prg_state :: media_transfer_state
  prg_retry_count :: int
  prg_last_progress_at :: datetime
  prg_event_id :: "uuid option"
  prg_presentation_id :: "uuid option"
  prg_presentation_version_id :: "uuid option"
  prg_media_object_id :: "uuid option"
  prg_local_media_ready :: bool
  prg_error_detail :: "string option"

definition media_transfer_progress_fields :: "media_transfer_progress \<Rightarrow> bool" where
  "media_transfer_progress_fields m \<longleftrightarrow>
     0 \<le> (prg_expected_size m)
     \<and> 0 \<le> (prg_confirmed_offset m)
     \<and> 0 \<le> (prg_retry_count m)
     \<and> (case (prg_error_detail m) of None \<Rightarrow> True | Some x \<Rightarrow> length x \<le> 2048)"

record media_transfer_finalize_result =
  fin_transfer_session_id :: uuid
  fin_site_id :: uuid
  fin_expected_size :: int
  fin_confirmed_offset :: int
  fin_sha256 :: string
  fin_state :: media_transfer_state
  fin_media_object_id :: "uuid option"
  fin_replication_state :: media_replication_state

definition media_transfer_finalize_result_fields :: "media_transfer_finalize_result \<Rightarrow> bool" where
  "media_transfer_finalize_result_fields m \<longleftrightarrow>
     0 \<le> (fin_expected_size m)
     \<and> 0 \<le> (fin_confirmed_offset m)
     \<and> sha256_text (fin_sha256 m)"

section \<open>Validators of the repository\<close>

definition site_source_has_id :: "sync_event_envelope \<Rightarrow> bool" where
  "site_source_has_id e \<longleftrightarrow> env_source e = ''site'' \<longrightarrow> env_source_site_id e \<noteq> None"

definition references_are_consistent :: "event_deployment_snapshot \<Rightarrow> unit outcome" where
  "references_are_consistent s =
     (let people = map snpe_person_id (snap_people s);
          participations = map snpa_event_participation_id (snap_participations s);
          sessions = map snss_session_id (snap_sessions s)
      in if list_ex (\<lambda>item. snpa_person_id item \<notin> set people) (snap_participations s)
         then Inl (ValueError ''participation references an undeployed person'')
         else if list_ex (\<lambda>item. list_ex (\<lambda>p. snsp_event_participation_id p \<notin> set participations)
                                    (snss_participants item)) (snap_sessions s)
         then Inl (ValueError ''session participant references an undeployed participation'')
         else if list_ex (\<lambda>item. case snpr_session_id item of None \<Rightarrow> False
                                   | Some i \<Rightarrow> i \<notin> set sessions) (snap_presentations s)
         then Inl (ValueError ''presentation references an undeployed session'')
         else if list_ex (\<lambda>item. list_ex (\<lambda>l. snps_session_id l \<notin> set sessions) (snpr_sessions item))
                   (snap_presentations s)
         then Inl (ValueError ''presentation-session link references an undeployed session'')
         else if list_ex (\<lambda>item. list_ex (\<lambda>l. snpp_event_participation_id l \<notin> set participations)
                                    (snpr_presenters item)) (snap_presentations s)
         then Inl (ValueError ''presentation presenter references an undeployed participation'')
         else Inr ())"

definition direction_has_required_site :: "media_transfer_manifest \<Rightarrow> unit outcome" where
  "direction_has_required_site m =
     (if man_origin_system m = Src_CENTRAL \<and> man_destination_site_id m = None
      then Inl (ValueError ''Central-originated transfers require destination_site_id'')
      else if man_origin_system m = Src_SITE \<and> man_origin_site_id m = None
      then Inl (ValueError ''Site-originated transfers require origin_site_id'')
      else Inr ())"

definition offset_is_within_expected_size :: "media_transfer_progress \<Rightarrow> unit outcome" where
  "offset_is_within_expected_size p =
     (if prg_confirmed_offset p > prg_expected_size p
      then Inl (ValueError ''confirmed_offset cannot exceed expected_size'')
      else if prg_state p = Xfer_COMPLETED \<and> prg_confirmed_offset p \<noteq> prg_expected_size p
      then Inl (ValueError ''completed transfer requires the full expected byte range'')
      else Inr ())"

definition completion_is_verified :: "media_transfer_finalize_result \<Rightarrow> unit outcome" where
  "completion_is_verified r =
     (if fin_confirmed_offset r > fin_expected_size r
      then Inl (ValueError ''confirmed_offset cannot exceed expected_size'')
      else if fin_state r = Xfer_COMPLETED \<and> fin_confirmed_offset r \<noteq> fin_expected_size r
      then Inl (ValueError ''completed transfer requires the full expected byte range'')
      else if fin_state r = Xfer_COMPLETED \<and> fin_media_object_id r = None
      then Inl (ValueError ''completed transfer requires media_object_id'')
      else Inr ())"

section \<open>Validation\<close>

type_synonym payload = "(string \<times> json) list"

text \<open>
  \<open>decode_*\<close> is pydantic's reading of a payload into typed fields, \<open>dump_*\<close> its
  \<open>model_dump(mode="json")\<close>, \<open>json_repr\<close> Python's \<open>repr\<close> of a decoded container,
  \<open>show_datetime\<close> its \<open>isoformat\<close>, \<open>mint_uuid n\<close> the \<open>n\<close>-th result of \<open>new_uuid7\<close>,
  \<open>validate_job\<close> the validation and dump of a job payload, and \<open>unicode_nfkd\<close> the
  compatibility decomposition of the Unicode database.
\<close>

record codec =
  decode_status :: "payload \<Rightarrow> site_deployment_status outcome"
  decode_snapshot :: "payload \<Rightarrow> event_deployment_snapshot outcome"
  decode_revocation :: "payload \<Rightarrow> deployment_revocation outcome"
  decode_manifest :: "payload \<Rightarrow> media_transfer_manifest outcome"
  decode_progress :: "payload \<Rightarrow> media_transfer_progress outcome"
  dump_status :: "site_deployment_status \<Rightarrow> payload"
  dump_snapshot :: "event_deployment_snapshot \<Rightarrow> payload"
  dump_revocation :: "deployment_revocation \<Rightarrow> payload"
  dump_manifest :: "media_transfer_manifest \<Rightarrow> payload"
  json_repr :: "json \<Rightarrow> string"
  show_datetime :: "datetime \<Rightarrow> string"
  mint_uuid :: "nat \<Rightarrow> uuid"
  validate_job :: "payload_model \<Rightarrow> json \<Rightarrow> json outcome"
  unicode_nfkd :: "string \<Rightarrow> string"

text \<open>\<open>str(exc)\<close>\<close>

fun exc_text :: "error \<Rightarrow> string" where
  "exc_text (ValueError s) = s"
| "exc_text (KeyError s) = CHR 0x27 # s @ [CHR 0x27]"
| "exc_text (TypeError s) = s"
| "exc_text (LookupError s) = s"
| "exc_text (PermissionError s) = s"
| "exc_text (OverflowError s) = s"
| "exc_text (RuntimeError s) = s"
| "exc_text (OSError s) = s"
| "exc_text (IntegrityError s) = s"
| "exc_text (HTTPException n s) = str_int (int n) @ '': '' @ s"
| "exc_text (AttributeError s) = s"
| "exc_text (DeliveryFailure code detail retryable) = detail"
| "exc_text (TransportError s) = s"

definition validation_error :: error where
  "validation_error = ValueError ''validation error''"

text \<open>A decoding failure of any kind is pydantic's \<open>ValidationError\<close>, a \<open>ValueError\<close>.\<close>

definition model_validate ::
  "(payload \<Rightarrow> 'm outcome) \<Rightarrow> ('m \<Rightarrow> bool) \<Rightarrow> ('m \<Rightarrow> unit outcome) \<Rightarrow> payload \<Rightarrow> 'm outcome" where
  "model_validate decode bounds validator p =
     (case decode p of
        Inl e \<Rightarrow> Inl validation_error
      | Inr m \<Rightarrow> if \<not> bounds m then Inl validation_error
                else (case validator m of Inl e \<Rightarrow> Inl e | Inr u \<Rightarrow> Inr m))"

definition validate_status :: "codec \<Rightarrow> payload \<Rightarrow> site_deployment_status outcome" where
  "validate_status cx = model_validate (decode_status cx) site_deployment_status_fields (\<lambda>m. Inr ())"

definition validate_snapshot :: "codec \<Rightarrow> payload \<Rightarrow> event_deployment_snapshot outcome" where
  "validate_snapshot cx =
     model_validate (decode_snapshot cx) event_deployment_snapshot_fields references_are_consistent"

definition validate_revocation :: "codec \<Rightarrow> payload \<Rightarrow> deployment_revocation outcome" where
  "validate_revocation cx = model_validate (decode_revocation cx) deployment_revocation_fields (\<lambda>m. Inr ())"

definition validate_manifest :: "codec \<Rightarrow> payload \<Rightarrow> media_transfer_manifest outcome" where
  "validate_manifest cx =
     model_validate (decode_manifest cx) media_transfer_manifest_fields direction_has_required_site"

definition validate_progress :: "codec \<Rightarrow> payload \<Rightarrow> media_transfer_progress outcome" where
  "validate_progress cx =
     model_validate (decode_progress cx) media_transfer_progress_fields offset_is_within_expected_size"

lemma model_validate_Inr:
  "model_validate decode bounds validator p = Inr m \<longleftrightarrow>
     decode p = Inr m \<and> bounds m \<and> validator m = Inr ()"
  by (auto simp: model_validate_def split: sum.splits)

lemma model_validate_Inl:
  "model_validate decode bounds validator p = Inl e \<Longrightarrow>
     e = validation_error \<or> (\<exists>m. validator m = Inl e)"
  by (auto simp: model_validate_def split: sum.splits if_splits)

lemmas validate_defs = validate_status_def validate_snapshot_def validate_revocation_def
  validate_manifest_def validate_progress_def

text \<open>What a validated message satisfies, whatever pydantic decoded.\<close>

lemma validated_snapshot_references:
  assumes "validate_snapshot cx p = Inr s"
  shows "1 \<le> snap_deployment_revision s"
    and "\<And>item. item \<in> set (snap_participations s) \<Longrightarrow> snpa_person_id item \<in> snpe_person_id ` set (snap_people s)"
    and "\<And>item i. item \<in> set (snap_presentations s) \<Longrightarrow> snpr_session_id item = Some i \<Longrightarrow>
           i \<in> snss_session_id ` set (snap_sessions s)"
proof -
  have f: "event_deployment_snapshot_fields s" and r: "references_are_consistent s = Inr ()"
    using assms by (auto simp: validate_snapshot_def model_validate_Inr)
  show "1 \<le> snap_deployment_revision s" using f by (simp add: event_deployment_snapshot_fields_def)
  show "\<And>item. item \<in> set (snap_participations s) \<Longrightarrow> snpa_person_id item \<in> snpe_person_id ` set (snap_people s)"
    using r by (auto simp: references_are_consistent_def Let_def list_ex_iff split: if_splits)
  show "\<And>item i. item \<in> set (snap_presentations s) \<Longrightarrow> snpr_session_id item = Some i \<Longrightarrow>
           i \<in> snss_session_id ` set (snap_sessions s)"
    using r by (fastforce simp: references_are_consistent_def Let_def list_ex_iff split: if_splits option.splits)
qed

lemma validated_progress:
  assumes "validate_progress cx p = Inr m"
  shows "0 \<le> prg_confirmed_offset m" and "prg_confirmed_offset m \<le> prg_expected_size m"
    and "prg_state m = Xfer_COMPLETED \<Longrightarrow> prg_confirmed_offset m = prg_expected_size m"
  using assms
  by (auto simp: validate_progress_def model_validate_Inr media_transfer_progress_fields_def
      offset_is_within_expected_size_def split: if_splits)

lemma validated_status:
  assumes "validate_status cx p = Inr m"
  shows "1 \<le> sds_desired_revision m" and "0 \<le> sds_applied_revision m"
    and "sds_status m \<in> {''received'', ''applied'', ''failed'', ''stale'', ''revoked''}"
  using assms by (auto simp: validate_status_def model_validate_Inr site_deployment_status_fields_def)

text \<open>A codec for evaluating examples: it decodes no payload, except as an example overrides it.\<close>

definition demo_codec :: codec where
  "demo_codec =
     \<lparr>decode_status = (\<lambda>p. Inl validation_error), decode_snapshot = (\<lambda>p. Inl validation_error),
      decode_revocation = (\<lambda>p. Inl validation_error), decode_manifest = (\<lambda>p. Inl validation_error),
      decode_progress = (\<lambda>p. Inl validation_error), dump_status = (\<lambda>m. []), dump_snapshot = (\<lambda>m. []),
      dump_revocation = (\<lambda>m. []), dump_manifest = (\<lambda>m. []), json_repr = (\<lambda>v. ''...''),
      show_datetime = str_int, mint_uuid = (\<lambda>n. n),
      validate_job = (\<lambda>m v. Inr v), unicode_nfkd = (\<lambda>s. s)\<rparr>"

end
