(* ===== verification/Lease_Queue.thy ===== *)
theory Lease_Queue
  imports Jobs
begin

text \<open>
  What a lease-based job queue promises, independent of which deployment runs it. A run
  of the queue is a sequence of steps of many workers against one table: the clock
  advances, a job is enqueued, a worker claims, heartbeats, completes or fails. The
  locale \<open>lease_queue\<close> fixes the four worker operations and assumes their contract; its
  lemmas are the guarantees handlers rely on: rows stay well formed, a finished row never
  changes, and nobody but the holder touches a row while its lease is live.
\<close>

section \<open>Vocabulary\<close>

definition holds :: "job \<Rightarrow> string \<Rightarrow> bool" where
  "holds j w \<longleftrightarrow> j_status j = Job_RUNNING \<and> j_claimed_by j = Some w"

definition terminal :: "job_status \<Rightarrow> bool" where
  "terminal s \<longleftrightarrow> s \<in> {Job_SUCCEEDED, Job_FAILED, Job_CANCELLED, Job_EXHAUSTED}"

definition due :: "datetime \<Rightarrow> job \<Rightarrow> bool" where
  "due now j \<longleftrightarrow> j_status j \<in> {Job_PENDING, Job_RETRY_WAIT} \<and> j_next_attempt_at j \<le> now"

definition lease_expired :: "datetime \<Rightarrow> job \<Rightarrow> bool" where
  "lease_expired now j \<longleftrightarrow>
     j_status j = Job_RUNNING
     \<and> (case j_lease_expires_at j of None \<Rightarrow> False | Some t \<Rightarrow> t < now)"

definition claimable :: "datetime \<Rightarrow> string list \<Rightarrow> job \<Rightarrow> bool" where
  "claimable now caps j \<longleftrightarrow>
     (due now j \<or> lease_expired now j) \<and> set (j_required_capabilities j) \<subseteq> set caps"

definition claim_order :: "job \<Rightarrow> int \<times> datetime \<times> uuid" where
  "claim_order j = (- j_priority j, j_created_at j, j_id j)"

definition lease_to :: "string \<Rightarrow> timedelta \<Rightarrow> datetime \<Rightarrow> job \<Rightarrow> job" where
  "lease_to w lease now j =
     j\<lparr>j_status := Job_RUNNING,
       j_claimed_by := Some w,
       j_lease_expires_at := Some (now + lease),
       j_heartbeat_at := Some now,
       j_started_at := Some (default_to now (j_started_at j)),
       j_attempt_count := j_attempt_count j + 1\<rparr>"

record failure =
  f_error_code :: string
  f_message :: string
  f_retryable :: bool
  f_base_delay :: rat
  f_jitter :: rat
  f_metadata :: "json option"

text \<open>Well-formedness of a row: each status says which of the lease columns are set.\<close>

definition job_wf :: "job \<Rightarrow> bool" where
  "job_wf j \<longleftrightarrow>
     0 \<le> j_attempt_count j \<and> 1 \<le> j_max_attempts j
     \<and> (j_status j = Job_PENDING \<longrightarrow>
          j_attempt_count j = 0 \<and> j_claimed_by j = None \<and> j_lease_expires_at j = None)
     \<and> (j_status j = Job_RUNNING \<longrightarrow>
          1 \<le> j_attempt_count j \<and> j_claimed_by j \<noteq> None \<and> j_lease_expires_at j \<noteq> None
          \<and> j_heartbeat_at j \<noteq> None \<and> j_started_at j \<noteq> None)
     \<and> (j_status j = Job_RETRY_WAIT \<longrightarrow>
          1 \<le> j_attempt_count j \<and> j_attempt_count j < j_max_attempts j
          \<and> j_claimed_by j = None \<and> j_lease_expires_at j = None)
     \<and> (j_status j = Job_SUCCEEDED \<longrightarrow>
          j_progress j = 100 \<and> j_completed_at j \<noteq> None \<and> j_lease_expires_at j = None)
     \<and> (j_status j = Job_EXHAUSTED \<longrightarrow>
          j_max_attempts j \<le> j_attempt_count j \<and> j_completed_at j \<noteq> None
          \<and> j_claimed_by j = None \<and> j_lease_expires_at j = None)
     \<and> (j_status j = Job_FAILED \<longrightarrow>
          j_completed_at j \<noteq> None \<and> j_claimed_by j = None \<and> j_lease_expires_at j = None)"

section \<open>Runs of a queue\<close>

type_synonym claim_op =
  "(uuid \<Rightarrow> bool) \<Rightarrow> string \<Rightarrow> string list \<Rightarrow> timedelta \<Rightarrow> datetime \<Rightarrow> job list
   \<Rightarrow> job option \<times> job list"
type_synonym heartbeat_op = "job \<Rightarrow> string \<Rightarrow> timedelta \<Rightarrow> datetime \<Rightarrow> job outcome"
type_synonym complete_op = "job \<Rightarrow> string \<Rightarrow> datetime \<Rightarrow> job outcome"
type_synonym fail_op = "job \<Rightarrow> string \<Rightarrow> failure \<Rightarrow> datetime \<Rightarrow> job outcome"

datatype action =
    Tick
  | Enqueue uuid
  | Claim string
  | Heartbeat uuid string
  | Complete uuid string
  | Fail uuid string

definition acts_on :: "action \<Rightarrow> uuid \<Rightarrow> string \<Rightarrow> bool" where
  "acts_on a i w \<longleftrightarrow> a \<in> {Heartbeat i w, Complete i w, Fail i w}"

type_synonym queue_state = "datetime \<times> job list"

inductive queue_step ::
  "claim_op \<Rightarrow> heartbeat_op \<Rightarrow> complete_op \<Rightarrow> fail_op
   \<Rightarrow> queue_state \<Rightarrow> action \<Rightarrow> queue_state \<Rightarrow> bool"
  for cl hb co fa where
  tick: "now \<le> now' \<Longrightarrow> queue_step cl hb co fa (now, rows) Tick (now', rows)"
| enqueue: "insert_job (new_job fresh now payload v) rows = Inr rows' \<Longrightarrow>
    queue_step cl hb co fa (now, rows) (Enqueue (default_to fresh (jv_id v))) (now, rows')"
| claim: "cl lk w caps lease now rows = (r, rows') \<Longrightarrow>
    queue_step cl hb co fa (now, rows) (Claim w) (now, rows')"
| heartbeat: "row_get j_id rows i = Some j \<Longrightarrow> hb j w lease now = Inr j' \<Longrightarrow>
    queue_step cl hb co fa (now, rows) (Heartbeat i w) (now, row_put j_id i (\<lambda>_. j') rows)"
| complete: "row_get j_id rows i = Some j \<Longrightarrow> co j w now = Inr j' \<Longrightarrow>
    queue_step cl hb co fa (now, rows) (Complete i w) (now, row_put j_id i (\<lambda>_. j') rows)"
| fail: "row_get j_id rows i = Some j \<Longrightarrow> fa j w f now = Inr j' \<Longrightarrow>
    queue_step cl hb co fa (now, rows) (Fail i w) (now, row_put j_id i (\<lambda>_. j') rows)"

inductive queue_run ::
  "claim_op \<Rightarrow> heartbeat_op \<Rightarrow> complete_op \<Rightarrow> fail_op
   \<Rightarrow> queue_state \<Rightarrow> action list \<Rightarrow> queue_state \<Rightarrow> bool"
  for cl hb co fa where
  stop: "queue_run cl hb co fa s [] s"
| more: "queue_step cl hb co fa s a s' \<Longrightarrow> queue_run cl hb co fa s' as s'' \<Longrightarrow>
    queue_run cl hb co fa s (a # as) s''"

inductive_cases queue_step_caseE [consumes 1, case_names tick enqueue claim heartbeat complete fail]:
  "queue_step cl hb co fa (now, rows) a (now', rows')"

text \<open>A concrete row for the examples: a pending transfer with default columns.\<close>

definition demo_values :: job_values where
  "demo_values = \<lparr>jv_id = None, jv_site_id = None, jv_media_object_id = None,
     jv_type = ''presentation_media.process'', jv_payload = None, jv_priority = None,
     jv_required_capabilities = Some [''cpu''], jv_idempotency_key = Some ''media:1'',
     jv_max_attempts = None, jv_next_attempt_at = None\<rparr>"

definition demo_job :: "uuid \<Rightarrow> job" where
  "demo_job i = new_job i 0 (JObj []) demo_values"

section \<open>The contract\<close>

lemma lease_to_simps [simp, row_simps]:
  "j_id (lease_to w l now j) = j_id j"
  "j_status (lease_to w l now j) = Job_RUNNING"
  "j_claimed_by (lease_to w l now j) = Some w"
  "j_lease_expires_at (lease_to w l now j) = Some (now + l)"
  "j_attempt_count (lease_to w l now j) = j_attempt_count j + 1"
  "j_max_attempts (lease_to w l now j) = j_max_attempts j"
  by (simp_all add: lease_to_def)

lemma claimable_not_terminal: "claimable now caps j \<Longrightarrow> \<not> terminal (j_status j)"
  by (auto simp: claimable_def due_def lease_expired_def terminal_def)

lemma holds_not_terminal: "holds j w \<Longrightarrow> \<not> terminal (j_status j)"
  by (simp add: holds_def terminal_def)

lemma holds_unique: "holds j w \<Longrightarrow> holds j w' \<Longrightarrow> w = w'"
  by (simp add: holds_def)

lemma job_wf_lease_to: "job_wf j \<Longrightarrow> job_wf (lease_to w l now j)"
  by (simp add: job_wf_def lease_to_def)

lemma job_wf_new: "job_checks (new_job fresh now p v) \<Longrightarrow> job_wf (new_job fresh now p v)"
  by (simp add: job_wf_def job_checks_def new_job_def)

lemma claim_needs_expiry:
  "claimable now caps j \<Longrightarrow> holds j w \<Longrightarrow> j_lease_expires_at j = Some t \<Longrightarrow> t < now"
  by (auto simp: claimable_def due_def lease_expired_def holds_def)

interpretation lease_row: row_update j_id "lease_to w l now" for w l now
  by unfold_locales simp

text \<open>Replacing the row selected by key: the operations of the ORM on one loaded instance.\<close>

lemma replace_row:
  assumes "row_get j_id rows i = Some j" "j_id j' = j_id j"
  shows "row_get j_id (row_put j_id i (\<lambda>_. j') rows) i = Some j'"
    and "k \<noteq> i \<Longrightarrow> row_get j_id (row_put j_id i (\<lambda>_. j') rows) k = row_get j_id rows k"
    and "map j_id (row_put j_id i (\<lambda>_. j') rows) = map j_id rows"
proof -
  from assms have i: "j_id j' = i" by (auto dest: row_get_SomeD)
  show "row_get j_id (row_put j_id i (\<lambda>_. j') rows) i = Some j'"
    using assms(1) i by (induction rows) (auto split: if_splits)
  show "row_get j_id (row_put j_id i (\<lambda>_. j') rows) k = row_get j_id rows k" if "k \<noteq> i"
    using that i by (induction rows) auto
  show "map j_id (row_put j_id i (\<lambda>_. j') rows) = map j_id rows"
    using i by (induction rows) auto
qed

lemma replace_row_set:
  "r \<in> set (row_put key i (\<lambda>_. j') rows) \<Longrightarrow> r = j' \<or> r \<in> set rows"
  by (induction rows) (auto split: if_splits)

locale lease_queue =
  fixes cl :: claim_op
    and hb :: heartbeat_op
    and co :: complete_op
    and fa :: fail_op
  assumes claim_idle:
      "cl lk w caps l now rows = (None, rows') \<Longrightarrow>
         rows' = rows \<and> (\<forall>j \<in> set rows. claimable now caps j \<longrightarrow> lk (j_id j))"
    and claim_took:
      "cl lk w caps l now rows = (Some r, rows') \<Longrightarrow>
         \<exists>j \<in> set rows. claimable now caps j \<and> \<not> lk (j_id j)
           \<and> (\<forall>k \<in> set rows. claimable now caps k \<and> \<not> lk (j_id k) \<longrightarrow> claim_order j \<le> claim_order k)
           \<and> r = lease_to w l now j \<and> rows' = row_put j_id (j_id j) (lease_to w l now) rows"
    and fenced:
      "hb j w l now = Inr j1 \<Longrightarrow> holds j w"
      "co j w now = Inr j2 \<Longrightarrow> holds j w"
      "fa j w f now = Inr j3 \<Longrightarrow> holds j w"
    and id_kept:
      "hb j w l now = Inr j1 \<Longrightarrow> j_id j1 = j_id j"
      "co j w now = Inr j2 \<Longrightarrow> j_id j2 = j_id j"
      "fa j w f now = Inr j3 \<Longrightarrow> j_id j3 = j_id j"
    and wf_kept:
      "hb j w l now = Inr j1 \<Longrightarrow> job_wf j \<Longrightarrow> job_wf j1"
      "co j w now = Inr j2 \<Longrightarrow> job_wf j \<Longrightarrow> job_wf j2"
      "fa j w f now = Inr j3 \<Longrightarrow> job_wf j \<Longrightarrow> job_wf j3"
begin

lemma claim_rows:
  assumes "cl lk w caps l now rows = (r, rows')"
  obtains "rows' = rows" | j where "j \<in> set rows" "claimable now caps j"
    "rows' = row_put j_id (j_id j) (lease_to w l now) rows"
  using assms claim_idle claim_took by (cases r) blast+

text \<open>Every step leaves the table alone, appends a row, leases a claimable one, or lets a holder
  replace its own.\<close>

lemma step_shape [consumes 1, case_names same added leased replaced]:
  assumes "queue_step cl hb co fa (now, rows) a (now', rows')"
  obtains "rows' = rows"
  | j where "rows' = rows @ [j]" "\<forall>r \<in> set rows. j_id r \<noteq> j_id j" "job_wf j"
  | j w l caps where "j \<in> set rows" "claimable now caps j"
      "rows' = row_put j_id (j_id j) (lease_to w l now) rows"
  | i j j' w where "row_get j_id rows i = Some j" "holds j w" "j_id j' = j_id j"
      "job_wf j \<Longrightarrow> job_wf j'" "acts_on a i w" "rows' = row_put j_id i (\<lambda>_. j') rows"
  using assms
proof (cases rule: queue_step_caseE)
  case (enqueue fresh payload v)
  then show ?thesis using that(2) by (auto simp: insert_job_Inr_iff job_wf_new)
next
  case (claim lk w caps lease r)
  then show ?thesis by (metis claim_rows that(1,3))
next
  case (heartbeat i j w lease j')
  then show ?thesis
    using that(4) [of i j w j'] fenced(1) id_kept(1) wf_kept(1) by (auto simp: acts_on_def)
next
  case (complete i j w j')
  then show ?thesis
    using that(4) [of i j w j'] fenced(2) id_kept(2) wf_kept(2) by (auto simp: acts_on_def)
next
  case (fail i j w f j')
  then show ?thesis
    using that(4) [of i j w j'] fenced(3) id_kept(3) wf_kept(3) by (auto simp: acts_on_def)
qed (use that(1) in simp)

lemma step_keyed:
  assumes "queue_step cl hb co fa (now, rows) a (now', rows')" "keyed j_id rows"
  shows "keyed j_id rows'"
  using assms(1)
proof (cases rule: step_shape)
  case (replaced i j j' w)
  then show ?thesis using assms(2) replace_row(3) [OF replaced(1,3)] by (simp add: keyed_def)
qed (use assms(2) in \<open>auto simp: lease_row.keyed_put\<close>)

lemma step_wf:
  assumes "queue_step cl hb co fa (now, rows) a (now', rows')" "\<forall>j \<in> set rows. job_wf j"
  shows "\<forall>j \<in> set rows'. job_wf j"
  using assms(1)
proof (cases rule: step_shape)
  case (leased j w l caps)
  then show ?thesis using assms(2) by (auto dest!: lease_row.mem_put intro: job_wf_lease_to)
next
  case (replaced i j j' w)
  then show ?thesis using assms(2) by (auto dest!: replace_row_set row_get_SomeD)
qed (use assms(2) in auto)

lemma step_time: "queue_step cl hb co fa (now, rows) a (now', rows') \<Longrightarrow> now \<le> now'"
  by (elim queue_step_caseE) simp_all

text \<open>A row changes in a step only if it was claimable, or its holder acted on it.\<close>

lemma step_frame:
  assumes "queue_step cl hb co fa (now, rows) a (now', rows')"
    and "keyed j_id rows" "row_get j_id rows i = Some j"
    and "\<And>caps. \<not> claimable now caps j"
    and "\<And>w. holds j w \<Longrightarrow> \<not> acts_on a i w"
  shows "row_get j_id rows' i = Some j"
  using assms(1)
proof (cases rule: step_shape)
  case (leased k w l caps)
  with row_get_mem [OF assms(2) leased(1)] assms(3,4) have "j_id k \<noteq> i" by auto
  with leased show ?thesis using assms(3) by (simp add: lease_row.get_other)
next
  case (replaced k j0 j' w)
  with assms(3,5) have "k \<noteq> i" by auto
  with replaced show ?thesis using assms(3) replace_row(2) [OF replaced(1,3)] by simp
qed (use assms(3) in \<open>simp_all add: row_get_append\<close>)

lemma terminal_stable_step:
  assumes "queue_step cl hb co fa (now, rows) a (now', rows')" "keyed j_id rows"
    and "row_get j_id rows i = Some j" "terminal (j_status j)"
  shows "row_get j_id rows' i = Some j"
  using assms claimable_not_terminal holds_not_terminal by (intro step_frame [OF assms(1,2,3)]) blast+

lemma run_time: "queue_run cl hb co fa s as s' \<Longrightarrow> fst s \<le> fst s'"
proof (induction rule: queue_run.induct)
  case (more s a s' as s'')
  then have "queue_step cl hb co fa (fst s, snd s) a (fst s', snd s')" by simp
  from step_time [OF this] more.IH show ?case by simp
qed simp

lemma run_inv:
  "queue_run cl hb co fa s as s' \<Longrightarrow> keyed j_id (snd s) \<Longrightarrow> \<forall>j \<in> set (snd s). job_wf j \<Longrightarrow>
     keyed j_id (snd s') \<and> (\<forall>j \<in> set (snd s'). job_wf j)"
proof (induction rule: queue_run.induct)
  case (stop s)
  then show ?case by simp
next
  case (more s a s' as s'')
  then have step: "queue_step cl hb co fa (fst s, snd s) a (fst s', snd s')" by simp
  from more.IH [OF step_keyed [OF step more.prems(1)] step_wf [OF step more.prems(2)]]
  show ?case .
qed

lemma run_terminal:
  "queue_run cl hb co fa s as s' \<Longrightarrow> keyed j_id (snd s) \<Longrightarrow> row_get j_id (snd s) i = Some j \<Longrightarrow>
     terminal (j_status j) \<Longrightarrow> row_get j_id (snd s') i = Some j"
proof (induction rule: queue_run.induct)
  case (stop s)
  then show ?case by simp
next
  case (more s a s' as s'')
  then have step: "queue_step cl hb co fa (fst s, snd s) a (fst s', snd s')" by simp
  from more.IH [OF step_keyed [OF step more.prems(1)]]
    terminal_stable_step [OF step more.prems(1,2,3)] more.prems(3)
  show ?case by blast
qed

text \<open>The lease is exclusive: until it runs out, only its holder can change the row.\<close>

lemma run_lease_exclusive:
  "queue_run cl hb co fa s as s' \<Longrightarrow> keyed j_id (snd s) \<Longrightarrow> row_get j_id (snd s) i = Some j \<Longrightarrow>
     holds j w \<Longrightarrow> j_lease_expires_at j = Some t \<Longrightarrow> fst s' \<le> t \<Longrightarrow>
     \<forall>a \<in> set as. \<not> acts_on a i w \<Longrightarrow> row_get j_id (snd s') i = Some j"
proof (induction rule: queue_run.induct)
  case (stop s)
  then show ?case by simp
next
  case (more s a s' as s'')
  then have step: "queue_step cl hb co fa (fst s, snd s) a (fst s', snd s')" by simp
  have "fst s \<le> fst s''" using step_time [OF step] run_time [OF more.hyps(2)] by simp
  then have "\<And>caps. \<not> claimable (fst s) caps j"
    using claim_needs_expiry more.prems(3,4,5) by fastforce
  then have "row_get j_id (snd s') i = Some j"
    using step_frame [OF step more.prems(1,2)] more.prems(3,6) holds_unique by fastforce
  with more.IH [OF step_keyed [OF step more.prems(1)]] more.prems show ?case by simp
qed

end

end
