(* ===== verification/Central_Queue.thy ===== *)
theory Central_Queue
  imports Lease_Queue "HOL-Library.List_Lexorder" "HOL-Library.Char_ord"
begin

text \<open>
  \<open>CentralQueue\<close> of \<open>upm_central/persistence/queue.py\<close>. The \<open>utc_now()\<close> a method
  reads is its \<open>now\<close> argument; the rows another transaction has locked, which
  \<open>SKIP LOCKED\<close> passes over, are the predicate \<open>lk\<close>; a generated primary key is
  \<open>fresh\<close>. Pydantic's \<open>model_validate(...).model_dump()\<close> is the argument
  \<open>validate\<close>. The methods that work on a loaded instance take and return the row; an
  exception leaves the transaction's rows as they were, so it carries no state.
\<close>

section \<open>Jobs\<close>

definition central_payload_model :: "string \<Rightarrow> payload_model" where
  "central_payload_model job_type =
     (if job_type = ''lifecycle.delete_event'' then LifecycleDeletionJobPayload
      else if job_type = ''lifecycle.delete_person'' then LifecycleDeletionJobPayload
      else if job_type = ''lifecycle.delete_people_bulk'' then BulkPeopleDeletionJobPayload
      else JobPayload)"

definition central_enqueue_processing ::
  "(payload_model \<Rightarrow> json \<Rightarrow> json outcome) \<Rightarrow> uuid \<Rightarrow> datetime \<Rightarrow> job_values \<Rightarrow> queue_db
   \<Rightarrow> (job \<times> queue_db) outcome" where
  "central_enqueue_processing validate fresh now v db =
     outcome_bind (validate (central_payload_model (jv_type v)) (default_to (JObj []) (jv_payload v)))
       (\<lambda>payload. let job = new_job fresh now payload v in
          outcome_bind (insert_job job (q_processing db))
            (\<lambda>rows. Inr (job, db\<lparr>q_processing := rows\<rparr>)))"

definition central_enqueue_transfer ::
  "(payload_model \<Rightarrow> json \<Rightarrow> json outcome) \<Rightarrow> uuid \<Rightarrow> datetime \<Rightarrow> job_values \<Rightarrow> queue_db
   \<Rightarrow> (job \<times> queue_db) outcome" where
  "central_enqueue_transfer validate fresh now v db =
     outcome_bind (validate JobPayload (default_to (JObj []) (jv_payload v)))
       (\<lambda>payload. let job = new_job fresh now payload v in
          outcome_bind (insert_job job (q_transfer db))
            (\<lambda>rows. Inr (job, db\<lparr>q_transfer := rows\<rparr>)))"

definition central_claim :: claim_op where
  "central_claim lk worker_id capabilities lease now rows =
     (let available = (\<lambda>j. j_status j \<in> {Job_PENDING, Job_RETRY_WAIT} \<and> j_next_attempt_at j \<le> now);
          expired = (\<lambda>j. j_status j = Job_RUNNING
                       \<and> (case j_lease_expires_at j of None \<Rightarrow> False | Some t \<Rightarrow> t < now));
          selected = filter (\<lambda>j. (available j \<or> expired j)
                       \<and> set (j_required_capabilities j) \<subseteq> set capabilities \<and> \<not> lk (j_id j)) rows
      in case first_by (\<lambda>j. (- j_priority j, j_created_at j, j_id j)) selected of
           None \<Rightarrow> (None, rows)
         | Some job \<Rightarrow>
             let take_lease = (\<lambda>j. j\<lparr>j_status := Job_RUNNING,
                   j_claimed_by := Some worker_id,
                   j_lease_expires_at := Some (now + lease),
                   j_heartbeat_at := Some now,
                   j_started_at := (case j_started_at j of None \<Rightarrow> Some now | Some t \<Rightarrow> Some t),
                   j_attempt_count := j_attempt_count j + 1\<rparr>)
             in (Some (take_lease job), row_put j_id (j_id job) take_lease rows))"

definition central_claim_processing ::
  "(uuid \<Rightarrow> bool) \<Rightarrow> string \<Rightarrow> string list \<Rightarrow> timedelta \<Rightarrow> datetime \<Rightarrow> queue_db
   \<Rightarrow> job option \<times> queue_db" where
  "central_claim_processing lk worker_id capabilities lease now db =
     (case central_claim lk worker_id capabilities lease now (q_processing db) of
        (job, rows) \<Rightarrow> (job, db\<lparr>q_processing := rows\<rparr>))"

definition central_claim_transfer ::
  "(uuid \<Rightarrow> bool) \<Rightarrow> string \<Rightarrow> string list \<Rightarrow> timedelta \<Rightarrow> datetime \<Rightarrow> queue_db
   \<Rightarrow> job option \<times> queue_db" where
  "central_claim_transfer lk worker_id capabilities lease now db =
     (case central_claim lk worker_id capabilities lease now (q_transfer db) of
        (job, rows) \<Rightarrow> (job, db\<lparr>q_transfer := rows\<rparr>))"

definition central_require_claim :: "job \<Rightarrow> string \<Rightarrow> unit outcome" where
  "central_require_claim job worker_id =
     (if j_status job \<noteq> Job_RUNNING \<or> j_claimed_by job \<noteq> Some worker_id
      then Inl (ValueError ''job is not claimed by this worker'') else Inr ())"

definition central_heartbeat :: heartbeat_op where
  "central_heartbeat job worker_id lease now =
     outcome_bind (central_require_claim job worker_id)
       (\<lambda>_. Inr (job\<lparr>j_heartbeat_at := Some now, j_lease_expires_at := Some (now + lease)\<rparr>))"

definition central_complete :: complete_op where
  "central_complete job worker_id now =
     outcome_bind (central_require_claim job worker_id)
       (\<lambda>_. Inr (job\<lparr>j_status := Job_SUCCEEDED, j_progress := 100, j_completed_at := Some now,
                     j_lease_expires_at := None\<rparr>))"

definition central_fail :: fail_op where
  "central_fail job worker_id f now =
     outcome_bind (central_require_claim job worker_id)
       (\<lambda>_. let failed = job\<lparr>j_error_code := Some (take 100 (f_error_code f)),
                  j_last_error := Some (take 2048 (f_message f)),
                  j_error_metadata := f_metadata f,
                  j_claimed_by := None,
                  j_lease_expires_at := None\<rparr>
            in if f_retryable f \<and> j_attempt_count job < j_max_attempts job
               then outcome_bind (retry_delay (j_attempt_count job) (f_base_delay f) 3600 (f_jitter f) (1/2))
                      (\<lambda>delay. Inr (failed\<lparr>j_status := Job_RETRY_WAIT, j_next_attempt_at := now + delay\<rparr>))
               else Inr (failed\<lparr>j_status := (if f_retryable f then Job_EXHAUSTED else Job_FAILED),
                               j_completed_at := Some now\<rparr>))"

section \<open>Outbox\<close>

definition central_enqueue_outbox ::
  "uuid \<Rightarrow> datetime \<Rightarrow> outbox_values \<Rightarrow> outbox_event list \<Rightarrow> (outbox_event \<times> outbox_event list) outcome" where
  "central_enqueue_outbox fresh now v rows =
     (if \<not> outbox_payload_valid (ov_payload v) then Inl (ValueError ''schema_version'')
      else let event = new_outbox_event fresh now v in
           outcome_bind (insert_outbox event rows) (\<lambda>rows'. Inr (event, rows')))"

definition central_claim_outbox ::
  "(uuid \<Rightarrow> bool) \<Rightarrow> string \<Rightarrow> timedelta \<Rightarrow> datetime \<Rightarrow> outbox_event list
   \<Rightarrow> outbox_event option \<times> outbox_event list" where
  "central_claim_outbox lk worker_id lease now rows =
     (let selected = filter (\<lambda>e.
            ((o_status e \<in> {Job_PENDING, Job_RETRY_WAIT} \<and> o_available_at e \<le> now)
             \<or> (o_status e = Job_RUNNING
                 \<and> (case o_lease_expires_at e of None \<Rightarrow> False | Some t \<Rightarrow> t < now)))
            \<and> \<not> lk (o_id e)) rows
      in case first_by (\<lambda>e. (- o_priority e, o_created_at e, o_id e)) selected of
           None \<Rightarrow> (None, rows)
         | Some event \<Rightarrow>
             let take_lease = (\<lambda>e. e\<lparr>o_status := Job_RUNNING,
                   o_claimed_by := Some worker_id,
                   o_lease_expires_at := Some (now + lease),
                   o_heartbeat_at := Some now,
                   o_attempt_count := o_attempt_count e + 1\<rparr>)
             in (Some (take_lease event), row_put o_id (o_id event) take_lease rows))"

definition central_require_outbox_claim :: "outbox_event \<Rightarrow> string \<Rightarrow> unit outcome" where
  "central_require_outbox_claim event worker_id =
     (if o_status event \<noteq> Job_RUNNING \<or> o_claimed_by event \<noteq> Some worker_id
      then Inl (ValueError ''outbox event is not claimed by this worker'') else Inr ())"

definition central_process_outbox :: "outbox_event \<Rightarrow> string \<Rightarrow> datetime \<Rightarrow> outbox_event outcome" where
  "central_process_outbox event worker_id now =
     outcome_bind (central_require_outbox_claim event worker_id)
       (\<lambda>_. Inr (event\<lparr>o_status := Job_SUCCEEDED, o_processed_at := Some now,
                       o_lease_expires_at := None\<rparr>))"

definition central_fail_outbox ::
  "outbox_event \<Rightarrow> string \<Rightarrow> string \<Rightarrow> string \<Rightarrow> bool \<Rightarrow> rat \<Rightarrow> datetime \<Rightarrow> outbox_event outcome" where
  "central_fail_outbox event worker_id error_code message retryable base_delay now =
     outcome_bind (central_require_outbox_claim event worker_id)
       (\<lambda>_. let failed = event\<lparr>o_error_code := Some (take 100 error_code),
                  o_last_error := Some (take 2048 message),
                  o_claimed_by := None,
                  o_lease_expires_at := None\<rparr>
            in if retryable \<and> o_attempt_count event < o_max_attempts event
               then outcome_bind (retry_delay (o_attempt_count event) base_delay 3600 0 (1/2))
                      (\<lambda>delay. Inr (failed\<lparr>o_status := Job_RETRY_WAIT, o_available_at := now + delay\<rparr>))
               else Inr (failed\<lparr>o_status := (if retryable then Job_EXHAUSTED else Job_FAILED)\<rparr>))"

section \<open>Workers\<close>

definition central_register_worker ::
  "string \<Rightarrow> string \<Rightarrow> string \<Rightarrow> string \<Rightarrow> string list \<Rightarrow> datetime \<Rightarrow> worker_identity list
   \<Rightarrow> worker_identity list" where
  "central_register_worker worker_id worker_type hostname service_role capabilities now rows =
     (case row_get w_id rows worker_id of
        None \<Rightarrow> rows @ [\<lparr>w_id = worker_id, w_type = worker_type, w_hostname = hostname,
                         w_service_role = service_role, w_capabilities = sort (remdups capabilities),
                         w_started_at = now, w_last_heartbeat = now\<rparr>]
      | Some worker \<Rightarrow>
          row_put w_id worker_id
            (\<lambda>w. w\<lparr>w_capabilities := sort (remdups capabilities), w_last_heartbeat := now\<rparr>) rows)"

section \<open>The contract holds\<close>

lemma central_claim_eq:
  "central_claim lk w caps l now rows =
     (case first_by claim_order (filter (\<lambda>j. claimable now caps j \<and> \<not> lk (j_id j)) rows) of
        None \<Rightarrow> (None, rows)
      | Some j \<Rightarrow> (Some (lease_to w l now j), row_put j_id (j_id j) (lease_to w l now) rows))"
proof -
  have lease: "(\<lambda>j. j\<lparr>j_status := Job_RUNNING, j_claimed_by := Some w, j_lease_expires_at := Some (now + l),
        j_heartbeat_at := Some now,
        j_started_at := (case j_started_at j of None \<Rightarrow> Some now | Some t \<Rightarrow> Some t),
        j_attempt_count := j_attempt_count j + 1\<rparr>) = lease_to w l now"
    by (auto simp: lease_to_def fun_eq_iff split: option.splits)
  have order: "(\<lambda>j. (- j_priority j, j_created_at j, j_id j)) = claim_order"
    by (simp add: claim_order_def fun_eq_iff)
  have "(\<lambda>j. (j_status j \<in> {Job_PENDING, Job_RETRY_WAIT} \<and> j_next_attempt_at j \<le> now
        \<or> j_status j = Job_RUNNING \<and> (case j_lease_expires_at j of None \<Rightarrow> False | Some t \<Rightarrow> t < now))
        \<and> set (j_required_capabilities j) \<subseteq> set caps \<and> \<not> lk (j_id j))
      = (\<lambda>j. claimable now caps j \<and> \<not> lk (j_id j))"
    by (auto simp: claimable_def due_def lease_expired_def fun_eq_iff)
  then show ?thesis
    by (simp only: central_claim_def Let_def lease order)
qed

lemma central_require_claim_eq [simp]:
  "central_require_claim j w =
     (if holds j w then Inr () else Inl (ValueError ''job is not claimed by this worker''))"
  by (simp add: central_require_claim_def holds_def)

lemmas central_ops = central_heartbeat_def central_complete_def central_fail_def

lemma central_fail_Inr:
  assumes "central_fail j w f now = Inr j'"
  shows "holds j w" "j_id j' = j_id j" "j_claimed_by j' = None" "j_lease_expires_at j' = None"
    "j_attempt_count j' = j_attempt_count j" "j_max_attempts j' = j_max_attempts j"
    "if f_retryable f \<and> j_attempt_count j < j_max_attempts j
     then j_status j' = Job_RETRY_WAIT \<and> now \<le> j_next_attempt_at j'
     else j_status j' = (if f_retryable f then Job_EXHAUSTED else Job_FAILED) \<and> j_completed_at j' = Some now"
  using assms
  by (auto simp: central_fail_def outcome_bind_Inr_conv Let_def retry_delay_range split: if_splits)

interpretation central_lease: lease_queue central_claim central_heartbeat central_complete central_fail
proof
  fix lk w caps l now rows rows'
  assume "central_claim lk w caps l now rows = (None, rows')"
  then show "rows' = rows \<and> (\<forall>j \<in> set rows. claimable now caps j \<longrightarrow> lk (j_id j))"
    by (auto simp: central_claim_eq filter_empty_conv split: option.splits)
next
  fix lk w caps l now rows r rows'
  assume "central_claim lk w caps l now rows = (Some r, rows')"
  then show "\<exists>j \<in> set rows. claimable now caps j \<and> \<not> lk (j_id j)
      \<and> (\<forall>k \<in> set rows. claimable now caps k \<and> \<not> lk (j_id k) \<longrightarrow> claim_order j \<le> claim_order k)
      \<and> r = lease_to w l now j \<and> rows' = row_put j_id (j_id j) (lease_to w l now) rows"
    by (auto simp: central_claim_eq dest!: first_by_Some split: option.splits)
next
  fix j w f now j3 assume "central_fail j w f now = Inr j3"
  from central_fail_Inr [OF this] show "holds j w" "j_id j3 = j_id j" by simp_all
next
  fix j w f now j3 assume f: "central_fail j w f now = Inr j3" and wf: "job_wf j"
  from central_fail_Inr [OF f] wf show "job_wf j3"
    by (auto simp: job_wf_def holds_def split: if_splits)
qed (auto simp: central_ops outcome_bind_Inr_conv job_wf_def holds_def split: if_splits)

section \<open>Properties\<close>

lemmas demo_simps = demo_job_def demo_values_def new_job_def

text \<open>C1: while a worker's lease on a job is live, no interleaving of other workers' claims,
  heartbeats, completions and failures, of enqueues and of the clock changes the job's row: only
  the holder itself can. Claims are allowed to be anyone's, including a second claim by the
  holder.\<close>

theorem central_lease_exclusive:
  assumes "queue_run central_claim central_heartbeat central_complete central_fail
             (now, rows) acts (now', rows')"
    and "keyed j_id rows" "row_get j_id rows i = Some j"
    and "holds j w" "j_lease_expires_at j = Some t" "now' \<le> t"
    and "\<forall>a \<in> set acts. \<not> acts_on a i w"
  shows "row_get j_id rows' i = Some j"
  using central_lease.run_lease_exclusive [OF assms(1)] assms(2-7) by simp

theorem central_lease_exclusive_witness:
  "row_get j_id
     (row_put j_id 2 (lease_to ''w2'' 60 20) [lease_to ''w1'' 60 10 (demo_job 1), demo_job 2]) 1
   = Some (lease_to ''w1'' 60 10 (demo_job 1))"
proof -
  let ?rows = "[lease_to ''w1'' 60 10 (demo_job 1), demo_job 2]"
  let ?rows' = "row_put j_id 2 (lease_to ''w2'' 60 20) ?rows"
  let ?run = "queue_run central_claim central_heartbeat central_complete central_fail"
  have claim: "central_claim (\<lambda>_. False) ''w2'' [''cpu''] 60 20 ?rows
      = (Some (lease_to ''w2'' 60 20 (demo_job 2)), ?rows')"
    by (simp add: central_claim_eq claimable_def due_def lease_expired_def lease_to_def demo_simps)
  have "?run (20, ?rows') [] (20, ?rows')" by (rule queue_run.stop)
  with queue_step.claim [where cl = central_claim, OF claim] have "?run (20, ?rows) [Claim ''w2''] (20, ?rows')"
    by (blast intro: queue_run.more)
  from central_lease_exclusive [OF this, of 1 _ "''w1''" 70] show ?thesis
    by (simp add: holds_def acts_on_def lease_to_def demo_simps)
qed

text \<open>C2: every row any run of the Central queue produces from an empty table is well formed (the
  status says which lease, attempt and completion columns are set; a retry wait is always below
  its attempt limit; only an exhausted row has reached it) and primary keys stay unique.\<close>

theorem central_runs_well_formed:
  assumes "queue_run central_claim central_heartbeat central_complete central_fail
             (now, []) acts (now', rows')"
  shows "keyed j_id rows' \<and> (\<forall>j \<in> set rows'. job_wf j)"
  using central_lease.run_inv [OF assms] by simp

theorem central_runs_well_formed_witness: "keyed j_id [demo_job 1] \<and> job_wf (demo_job 1)"
proof -
  let ?run = "queue_run central_claim central_heartbeat central_complete central_fail"
  have "insert_job (new_job 1 0 (JObj []) demo_values) [] = Inr [demo_job 1]"
    by (simp add: insert_job_def job_checks_def demo_simps)
  from queue_step.enqueue [OF this] queue_run.stop
  have "?run (0, []) [Enqueue (default_to 1 (jv_id demo_values))] (0, [demo_job 1])"
    by (blast intro: queue_run.more)
  from central_runs_well_formed [OF this] show ?thesis by simp
qed

text \<open>C3: a claim hands out a job exactly when one is claimable and not locked by another
  transaction; the job it hands out is the first such row by descending priority, then creation
  time, then key; it comes back running, leased to the caller with one more attempt, and every
  other row of the table is untouched.\<close>

theorem central_claim_correct:
  assumes "keyed j_id rows"
  shows "case central_claim lk w caps lease now rows of
           (None, rows') \<Rightarrow> rows' = rows \<and> (\<forall>j \<in> set rows. claimable now caps j \<longrightarrow> lk (j_id j))
         | (Some r, rows') \<Rightarrow>
             \<exists>j \<in> set rows. claimable now caps j \<and> \<not> lk (j_id j)
               \<and> (\<forall>k \<in> set rows. claimable now caps k \<and> \<not> lk (j_id k) \<longrightarrow> claim_order j \<le> claim_order k)
               \<and> r = lease_to w lease now j
               \<and> row_get j_id rows' (j_id j) = Some r
               \<and> (\<forall>i. i \<noteq> j_id j \<longrightarrow> row_get j_id rows' i = row_get j_id rows i)"
proof (cases "central_claim lk w caps lease now rows")
  case (Pair r rows')
  show ?thesis
  proof (cases r)
    case None
    with Pair have "central_claim lk w caps lease now rows = (None, rows')" by simp
    from central_lease.claim_idle [OF this] Pair None show ?thesis by simp
  next
    case (Some j')
    with Pair have "central_claim lk w caps lease now rows = (Some j', rows')" by simp
    from central_lease.claim_took [OF this] obtain j where j: "j \<in> set rows" "claimable now caps j"
      "\<not> lk (j_id j)" "j' = lease_to w lease now j"
      "rows' = row_put j_id (j_id j) (lease_to w lease now) rows"
      "\<forall>k \<in> set rows. claimable now caps k \<and> \<not> lk (j_id k) \<longrightarrow> claim_order j \<le> claim_order k"
      by blast
    then have "row_get j_id rows' (j_id j) = Some j'"
      using row_get_mem [OF assms j(1)] by (simp add: lease_row.get_same)
    with j Pair Some show ?thesis by (auto simp: lease_row.get_other)
  qed
qed

theorem central_claim_correct_witness:
  "fst (central_claim (\<lambda>i. i = 1) ''w'' [''cpu''] 60 5 [demo_job 1, demo_job 3, demo_job 2])
     = Some (lease_to ''w'' 60 5 (demo_job 2))"
proof -
  have "keyed j_id [demo_job 1, demo_job 3, demo_job 2]" by (simp add: demo_simps)
  from central_claim_correct [OF this, where lk = "\<lambda>i. i = 1" and w = "''w''" and caps = "[''cpu'']" and lease = 60 and now = 5] show ?thesis
    by (auto simp: claimable_def due_def claim_order_def less_eq_prod_def demo_simps
        split: prod.splits option.splits)
qed

text \<open>C4: recording a failure. A worker that does not hold the job is refused and changes nothing.
  For the holder, a retryable failure below the attempt limit goes to retry wait, due no earlier
  than now and at most the capped and jittered backoff later; a retryable one at the limit is
  exhausted, any other failed. In every case the lease is released, the attempt count stays and
  the error text is cut to its column.\<close>

theorem central_fail_outcomes:
  assumes "0 < f_base_delay f" "0 \<le> f_jitter f" "f_jitter f \<le> 1" "1 \<le> j_attempt_count j"
  shows "if \<not> holds j w
         then central_fail j w f now = Inl (ValueError ''job is not claimed by this worker'')
         else \<exists>j'. central_fail j w f now = Inr j'
           \<and> j_claimed_by j' = None \<and> j_lease_expires_at j' = None
           \<and> j_attempt_count j' = j_attempt_count j
           \<and> j_last_error j' = Some (take 2048 (f_message f))
           \<and> (if f_retryable f \<and> j_attempt_count j < j_max_attempts j
              then j_status j' = Job_RETRY_WAIT \<and> now \<le> j_next_attempt_at j'
                   \<and> j_next_attempt_at j' \<le> now + timedelta_seconds (3600 * (1 + f_jitter f))
              else j_status j' = (if f_retryable f then Job_EXHAUSTED else Job_FAILED)
                   \<and> j_completed_at j' = Some now)"
proof (cases "holds j w")
  case False
  then show ?thesis by (simp add: central_fail_def)
next
  case True
  obtain d where d: "retry_delay (j_attempt_count j) (f_base_delay f) 3600 (f_jitter f) (1/2) = Inr d"
    using assms retry_delay_ok_iff [of "j_attempt_count j" "f_base_delay f" 3600 "f_jitter f" "1/2"] by auto
  with True retry_delay_range [OF d] show ?thesis by (simp add: central_fail_def Let_def)
qed

theorem central_fail_outcomes_witness:
  "central_fail (demo_job 1) ''w'' \<lparr>f_error_code = ''e'', f_message = ''m'', f_retryable = True,
       f_base_delay = 5, f_jitter = 0, f_metadata = None\<rparr> 0
     = Inl (ValueError ''job is not claimed by this worker'')
   \<and> (\<exists>j'. central_fail (lease_to ''w'' 60 0 (demo_job 1)) ''w''
        \<lparr>f_error_code = ''e'', f_message = ''m'', f_retryable = True,
         f_base_delay = 5, f_jitter = 0, f_metadata = None\<rparr> 7 = Inr j'
        \<and> j_status j' = Job_RETRY_WAIT)"
proof
  let ?f = "\<lparr>f_error_code = ''e'', f_message = ''m'', f_retryable = True,
       f_base_delay = 5, f_jitter = 0, f_metadata = None\<rparr>"
  show "\<exists>j'. central_fail (lease_to ''w'' 60 0 (demo_job 1)) ''w'' ?f 7 = Inr j'
      \<and> j_status j' = Job_RETRY_WAIT"
    using central_fail_outcomes [of ?f "lease_to ''w'' 60 0 (demo_job 1)" "''w''" 7]
    by (auto simp: holds_def lease_to_def demo_simps)
  show "central_fail (demo_job 1) ''w'' ?f 0 = Inl (ValueError ''job is not claimed by this worker'')"
    by (simp add: central_fail_def holds_def demo_simps)
qed

text \<open>Enqueueing is idempotent per key: once a processing job with an idempotency key is in the
  table, a second enqueue of the same type and key, whatever its other arguments, is refused by
  the database and adds nothing. The first enqueue appended exactly one well-formed row.\<close>

theorem central_enqueue_idempotent:
  assumes "central_enqueue_processing validate fresh now v db = Inr (job, db')"
    and "jv_idempotency_key v = Some k"
    and "jv_type v' = jv_type v" "jv_idempotency_key v' = Some k"
  shows "\<exists>e. central_enqueue_processing validate' fresh' now' v' db' = Inl e
         \<and> q_processing db' = q_processing db @ [job] \<and> job_wf job"
proof -
  from assms(1) obtain payload where
    job: "job = new_job fresh now payload v" and
    ins: "insert_job job (q_processing db) = Inr (q_processing db')"
    by (auto simp: central_enqueue_processing_def outcome_bind_Inr_conv Let_def)
  then have mem: "job \<in> set (q_processing db')" and db': "q_processing db' = q_processing db @ [job]"
    and checks: "job_checks job"
    by (auto simp: insert_job_Inr_iff)
  have "insert_job (new_job fresh' now' p v') (q_processing db') \<noteq> Inr rows" for p rows
    using mem assms(2-4) unfolding insert_job_Inr_iff job by force
  then have "central_enqueue_processing validate' fresh' now' v' db' \<noteq> Inr r" for r
    by (auto simp: central_enqueue_processing_def outcome_bind_Inr_conv Let_def)
  then show ?thesis using db' checks job
    by (metis sum.exhaust_sel sum.collapse job_wf_new)
qed

theorem central_enqueue_idempotent_witness:
  "\<exists>e. central_enqueue_processing (\<lambda>_ p. Inr p) 2 9 demo_values
      \<lparr>q_processing = [demo_job 1], q_transfer = [], q_outbox = [], q_workers = []\<rparr> = Inl e"
proof -
  let ?db = "\<lparr>q_processing = [], q_transfer = [], q_outbox = [], q_workers = []\<rparr>"
  have "central_enqueue_processing (\<lambda>_ p. Inr p) 1 0 demo_values ?db
      = Inr (demo_job 1, ?db\<lparr>q_processing := [demo_job 1]\<rparr>)"
    by (simp add: central_enqueue_processing_def central_payload_model_def insert_job_def
        job_checks_def demo_simps Let_def)
  from central_enqueue_idempotent [OF this, of "''media:1''" demo_values] show ?thesis
    by (auto simp: demo_values_def)
qed

end
