(* ===== verification/Site_Queue.thy ===== *)
theory Site_Queue
  imports Central_Queue
begin

text \<open>
  \<open>SiteQueue\<close> of \<open>upm_site/persistence/queue.py\<close>, translated from its own source: the
  Site runs a second copy of the queue against its own database. It differs from
  Central's in the payload model an enqueue validates against and in the
  \<open>synchronization_only\<close> filter of the outbox claim; the lemmas at the end show that
  everything else is the same policy, and the Site queue meets the same contract.
\<close>

section \<open>Jobs\<close>

definition site_enqueue_processing ::
  "(payload_model \<Rightarrow> json \<Rightarrow> json outcome) \<Rightarrow> uuid \<Rightarrow> datetime \<Rightarrow> job_values \<Rightarrow> queue_db
   \<Rightarrow> (job \<times> queue_db) outcome" where
  "site_enqueue_processing validate fresh now v db =
     outcome_bind (validate JobPayload (default_to (JObj []) (jv_payload v)))
       (\<lambda>payload. let job = new_job fresh now payload v in
          outcome_bind (insert_job job (q_processing db))
            (\<lambda>rows. Inr (job, db\<lparr>q_processing := rows\<rparr>)))"

definition site_enqueue_transfer ::
  "(payload_model \<Rightarrow> json \<Rightarrow> json outcome) \<Rightarrow> uuid \<Rightarrow> datetime \<Rightarrow> job_values \<Rightarrow> queue_db
   \<Rightarrow> (job \<times> queue_db) outcome" where
  "site_enqueue_transfer validate fresh now v db =
     outcome_bind (validate JobPayload (default_to (JObj []) (jv_payload v)))
       (\<lambda>payload. let job = new_job fresh now payload v in
          outcome_bind (insert_job job (q_transfer db))
            (\<lambda>rows. Inr (job, db\<lparr>q_transfer := rows\<rparr>)))"

definition site_claim :: claim_op where
  "site_claim lk worker_id capabilities lease now rows =
     (case first_by (\<lambda>j. (- j_priority j, j_created_at j, j_id j))
             (filter (\<lambda>j.
                ((j_status j \<in> {Job_PENDING, Job_RETRY_WAIT} \<and> j_next_attempt_at j \<le> now)
                 \<or> (j_status j = Job_RUNNING
                     \<and> (case j_lease_expires_at j of None \<Rightarrow> False | Some t \<Rightarrow> t < now)))
                \<and> set (j_required_capabilities j) \<subseteq> set capabilities
                \<and> \<not> lk (j_id j)) rows) of
        None \<Rightarrow> (None, rows)
      | Some job \<Rightarrow>
          let leased = job\<lparr>j_status := Job_RUNNING,
                j_claimed_by := Some worker_id,
                j_lease_expires_at := Some (now + lease),
                j_heartbeat_at := Some now,
                j_started_at := (case j_started_at job of None \<Rightarrow> Some now | Some t \<Rightarrow> Some t),
                j_attempt_count := j_attempt_count job + 1\<rparr>
          in (Some leased, row_put j_id (j_id job)
                (\<lambda>j. j\<lparr>j_status := Job_RUNNING,
                       j_claimed_by := Some worker_id,
                       j_lease_expires_at := Some (now + lease),
                       j_heartbeat_at := Some now,
                       j_started_at := (case j_started_at j of None \<Rightarrow> Some now | Some t \<Rightarrow> Some t),
                       j_attempt_count := j_attempt_count j + 1\<rparr>) rows))"

definition site_claim_processing ::
  "(uuid \<Rightarrow> bool) \<Rightarrow> string \<Rightarrow> string list \<Rightarrow> timedelta \<Rightarrow> datetime \<Rightarrow> queue_db
   \<Rightarrow> job option \<times> queue_db" where
  "site_claim_processing lk worker_id capabilities lease now db =
     (case site_claim lk worker_id capabilities lease now (q_processing db) of
        (job, rows) \<Rightarrow> (job, db\<lparr>q_processing := rows\<rparr>))"

definition site_claim_transfer ::
  "(uuid \<Rightarrow> bool) \<Rightarrow> string \<Rightarrow> string list \<Rightarrow> timedelta \<Rightarrow> datetime \<Rightarrow> queue_db
   \<Rightarrow> job option \<times> queue_db" where
  "site_claim_transfer lk worker_id capabilities lease now db =
     (case site_claim lk worker_id capabilities lease now (q_transfer db) of
        (job, rows) \<Rightarrow> (job, db\<lparr>q_transfer := rows\<rparr>))"

definition site_require_claim :: "job \<Rightarrow> string \<Rightarrow> unit outcome" where
  "site_require_claim job worker_id =
     (if j_status job \<noteq> Job_RUNNING \<or> j_claimed_by job \<noteq> Some worker_id
      then Inl (ValueError ''job is not claimed by this worker'') else Inr ())"

definition site_heartbeat :: heartbeat_op where
  "site_heartbeat job worker_id lease now =
     outcome_bind (site_require_claim job worker_id)
       (\<lambda>_. Inr (job\<lparr>j_heartbeat_at := Some now, j_lease_expires_at := Some (now + lease)\<rparr>))"

definition site_complete :: complete_op where
  "site_complete job worker_id now =
     outcome_bind (site_require_claim job worker_id)
       (\<lambda>_. Inr (job\<lparr>j_status := Job_SUCCEEDED, j_progress := 100, j_completed_at := Some now,
                     j_lease_expires_at := None\<rparr>))"

definition site_fail :: fail_op where
  "site_fail job worker_id f now =
     outcome_bind (site_require_claim job worker_id)
       (\<lambda>_. let failed = job\<lparr>j_error_code := Some (take 100 (f_error_code f)),
                  j_last_error := Some (take 2048 (f_message f)),
                  j_error_metadata := f_metadata f,
                  j_claimed_by := None,
                  j_lease_expires_at := None\<rparr>
            in if f_retryable f \<and> j_attempt_count job < j_max_attempts job
               then outcome_bind (retry_delay (j_attempt_count job) (f_base_delay f) 3600 (f_jitter f) (1/2))
                      (\<lambda>delay. Inr (failed\<lparr>j_status := Job_RETRY_WAIT, j_next_attempt_at := now + delay\<rparr>))
               else Inr (failed\<lparr>j_status := (if f_retryable f then Job_EXHAUSTED else Job_FAILED),
                               j_completed_at := Some now\<rparr>))"

section \<open>Outbox\<close>

definition site_enqueue_outbox ::
  "uuid \<Rightarrow> datetime \<Rightarrow> outbox_values \<Rightarrow> outbox_event list \<Rightarrow> (outbox_event \<times> outbox_event list) outcome" where
  "site_enqueue_outbox fresh now v rows =
     (if \<not> outbox_payload_valid (ov_payload v) then Inl (ValueError ''schema_version'')
      else let event = new_outbox_event fresh now v in
           outcome_bind (insert_outbox event rows) (\<lambda>rows'. Inr (event, rows')))"

definition site_claim_outbox ::
  "bool \<Rightarrow> (uuid \<Rightarrow> bool) \<Rightarrow> string \<Rightarrow> timedelta \<Rightarrow> datetime \<Rightarrow> outbox_event list
   \<Rightarrow> outbox_event option \<times> outbox_event list" where
  "site_claim_outbox synchronization_only lk worker_id lease now rows =
     (let selected = filter (\<lambda>e.
            (synchronization_only \<longrightarrow> o_source_sequence e \<noteq> None)
            \<and> ((o_status e \<in> {Job_PENDING, Job_RETRY_WAIT} \<and> o_available_at e \<le> now)
             \<or> (o_status e = Job_RUNNING
                 \<and> (case o_lease_expires_at e of None \<Rightarrow> False | Some t \<Rightarrow> t < now)))
            \<and> \<not> lk (o_id e)) rows
      in case first_by (\<lambda>e. (- o_priority e, o_created_at e, o_id e)) selected of
           None \<Rightarrow> (None, rows)
         | Some event \<Rightarrow>
             let take_lease = (\<lambda>e. e\<lparr>o_status := Job_RUNNING,
                   o_claimed_by := Some worker_id,
                   o_lease_expires_at := Some (now + lease),
                   o_heartbeat_at := Some now,
                   o_attempt_count := o_attempt_count e + 1\<rparr>)
             in (Some (take_lease event), row_put o_id (o_id event) take_lease rows))"

definition site_require_outbox_claim :: "outbox_event \<Rightarrow> string \<Rightarrow> unit outcome" where
  "site_require_outbox_claim event worker_id =
     (if o_status event \<noteq> Job_RUNNING \<or> o_claimed_by event \<noteq> Some worker_id
      then Inl (ValueError ''outbox event is not claimed by this worker'') else Inr ())"

definition site_process_outbox :: "outbox_event \<Rightarrow> string \<Rightarrow> datetime \<Rightarrow> outbox_event outcome" where
  "site_process_outbox event worker_id now =
     outcome_bind (site_require_outbox_claim event worker_id)
       (\<lambda>_. Inr (event\<lparr>o_status := Job_SUCCEEDED, o_processed_at := Some now,
                       o_lease_expires_at := None\<rparr>))"

definition site_fail_outbox ::
  "outbox_event \<Rightarrow> string \<Rightarrow> string \<Rightarrow> string \<Rightarrow> bool \<Rightarrow> rat \<Rightarrow> datetime \<Rightarrow> outbox_event outcome" where
  "site_fail_outbox event worker_id error_code message retryable base_delay now =
     outcome_bind (site_require_outbox_claim event worker_id)
       (\<lambda>_. let failed = event\<lparr>o_error_code := Some (take 100 error_code),
                  o_last_error := Some (take 2048 message),
                  o_claimed_by := None,
                  o_lease_expires_at := None\<rparr>
            in if retryable \<and> o_attempt_count event < o_max_attempts event
               then outcome_bind (retry_delay (o_attempt_count event) base_delay 3600 0 (1/2))
                      (\<lambda>delay. Inr (failed\<lparr>o_status := Job_RETRY_WAIT, o_available_at := now + delay\<rparr>))
               else Inr (failed\<lparr>o_status := (if retryable then Job_EXHAUSTED else Job_FAILED)\<rparr>))"

section \<open>Workers\<close>

definition site_register_worker ::
  "string \<Rightarrow> string \<Rightarrow> string \<Rightarrow> string \<Rightarrow> string list \<Rightarrow> datetime \<Rightarrow> worker_identity list
   \<Rightarrow> worker_identity list" where
  "site_register_worker worker_id worker_type hostname service_role capabilities now rows =
     (case row_get w_id rows worker_id of
        None \<Rightarrow> rows @ [\<lparr>w_id = worker_id, w_type = worker_type, w_hostname = hostname,
                         w_service_role = service_role, w_capabilities = sort (remdups capabilities),
                         w_started_at = now, w_last_heartbeat = now\<rparr>]
      | Some worker \<Rightarrow>
          row_put w_id worker_id
            (\<lambda>w. w\<lparr>w_capabilities := sort (remdups capabilities), w_last_heartbeat := now\<rparr>) rows)"

section \<open>The two queues run one policy\<close>

lemma site_claim_eq_central: "site_claim = central_claim"
  by (intro ext) (simp add: site_claim_def central_claim_def Let_def split: option.splits)

lemma site_job_ops_eq_central:
  "site_heartbeat = central_heartbeat" "site_complete = central_complete" "site_fail = central_fail"
proof -
  have "site_require_claim = central_require_claim"
    by (simp add: fun_eq_iff site_require_claim_def holds_def)
  then show "site_heartbeat = central_heartbeat" "site_complete = central_complete" "site_fail = central_fail"
    by (simp_all add: fun_eq_iff site_heartbeat_def site_complete_def site_fail_def central_ops)
qed

lemma site_outbox_ops_eq_central:
  "site_claim_outbox False = central_claim_outbox"
  "site_process_outbox = central_process_outbox"
  "site_fail_outbox = central_fail_outbox"
proof -
  show "site_claim_outbox False = central_claim_outbox"
    by (simp add: fun_eq_iff site_claim_outbox_def central_claim_outbox_def)
  have "site_require_outbox_claim = central_require_outbox_claim"
    by (simp add: fun_eq_iff site_require_outbox_claim_def central_require_outbox_claim_def)
  then show "site_process_outbox = central_process_outbox" "site_fail_outbox = central_fail_outbox"
    by (simp_all add: fun_eq_iff site_process_outbox_def site_fail_outbox_def
        central_process_outbox_def central_fail_outbox_def)
qed

interpretation site_lease: lease_queue site_claim site_heartbeat site_complete site_fail
  unfolding site_claim_eq_central site_job_ops_eq_central by (rule central_lease.lease_queue_axioms)

section \<open>Properties\<close>


text \<open>At a Site, a job that has succeeded, failed, been cancelled or been exhausted keeps its row
  bit for bit through every later run of the queue.\<close>

lemma site_finished_jobs_stay:
  assumes "queue_run site_claim site_heartbeat site_complete site_fail (now, rows) acts (now', rows')"
    and "keyed j_id rows" "row_get j_id rows i = Some j" "terminal (j_status j)"
  shows "row_get j_id rows' i = Some j"
  using site_lease.run_terminal [OF assms(1)] assms(2-4) by simp

end
