(* ===== verification/Transaction.thy ===== *)
theory Transaction
  imports Prelude
begin

text \<open>
  Code that writes to a database session and may raise in the middle. The Site catches
  some exceptions after part of the work is done and commits what has been written, so a
  step returns its state with an error as well as with a value. The locale
  \<open>tx_relation\<close> is the interface for frame properties: a reflexive and transitive
  relation between the state before and after is kept by a composite step when every part
  keeps it, whether the step ends normally or with an exception.
\<close>

type_synonym ('s, 'a) tx = "'s \<Rightarrow> 'a outcome \<times> 's"

definition tx_return :: "'a \<Rightarrow> ('s, 'a) tx" where
  "tx_return x s = (Inr x, s)"

definition tx_raise :: "error \<Rightarrow> ('s, 'a) tx" where
  "tx_raise e s = (Inl e, s)"

definition tx_lift :: "'a outcome \<Rightarrow> ('s, 'a) tx" where
  "tx_lift r s = (r, s)"

definition tx_read :: "('s \<Rightarrow> 'a) \<Rightarrow> ('s, 'a) tx" where
  "tx_read f s = (Inr (f s), s)"

definition tx_write :: "('s \<Rightarrow> 's) \<Rightarrow> ('s, unit) tx" where
  "tx_write f s = (Inr (), f s)"

definition tx_bind :: "('s, 'a) tx \<Rightarrow> ('a \<Rightarrow> ('s, 'b) tx) \<Rightarrow> ('s, 'b) tx" where
  "tx_bind m f s = (case m s of (Inl e, s') \<Rightarrow> (Inl e, s') | (Inr x, s') \<Rightarrow> f x s')"

definition tx_then :: "('s, 'a) tx \<Rightarrow> ('s, 'b) tx \<Rightarrow> ('s, 'b) tx" where
  "tx_then m k = tx_bind m (\<lambda>_. k)"

text \<open>\<open>for x in xs: body(x)\<close>\<close>

fun tx_for :: "('a \<Rightarrow> ('s, 'b) tx) \<Rightarrow> 'a list \<Rightarrow> ('s, unit) tx" where
  "tx_for body [] = tx_return ()"
| "tx_for body (x # xs) = tx_then (body x) (tx_for body xs)"

text \<open>A loop that carries a value, such as counters.\<close>

fun tx_fold :: "('a \<Rightarrow> 'c \<Rightarrow> ('s, 'c) tx) \<Rightarrow> 'a list \<Rightarrow> 'c \<Rightarrow> ('s, 'c) tx" where
  "tx_fold body [] c = tx_return c"
| "tx_fold body (x # xs) c = tx_bind (body x c) (tx_fold body xs)"

text \<open>\<open>[body(x) for x in xs]\<close>\<close>

fun tx_map :: "('a \<Rightarrow> ('s, 'b) tx) \<Rightarrow> 'a list \<Rightarrow> ('s, 'b list) tx" where
  "tx_map body [] = tx_return []"
| "tx_map body (x # xs) = tx_bind (body x) (\<lambda>y. tx_bind (tx_map body xs) (\<lambda>ys. tx_return (y # ys)))"

text \<open>\<open>try: m except ...\<close>: the handler sees the result and the state \<open>m\<close> left.\<close>

definition tx_try :: "('s, 'a) tx \<Rightarrow> ('a outcome \<Rightarrow> ('s, 'b) tx) \<Rightarrow> ('s, 'b) tx" where
  "tx_try m handler s = (case m s of (r, s') \<Rightarrow> handler r s')"

text \<open>\<open>with factory.begin() as session\<close>: an exception that leaves the block undoes it.\<close>

definition tx_commit :: "('s, 'a) tx \<Rightarrow> 's \<Rightarrow> ('a \<times> 's) outcome" where
  "tx_commit m s = (case m s of (Inl e, s') \<Rightarrow> Inl e | (Inr x, s') \<Rightarrow> Inr (x, s'))"

lemma tx_run_simps [simp]:
  "tx_return x s = (Inr x, s)" "tx_raise e s = (Inl e, s)" "tx_lift r s = (r, s)"
  "tx_read f s = (Inr (f s), s)" "tx_write h s = (Inr (), h s)"
  by (simp_all add: tx_return_def tx_raise_def tx_lift_def tx_read_def tx_write_def)

lemma tx_bind_Inr: "m s = (Inr x, s') \<Longrightarrow> tx_bind m f s = f x s'"
  by (simp add: tx_bind_def)

lemma tx_bind_Inl: "m s = (Inl e, s') \<Longrightarrow> tx_bind m f s = (Inl e, s')"
  by (simp add: tx_bind_def)

lemma tx_bind_eq_Inr:
  "tx_bind m f s = (Inr y, s2) \<longleftrightarrow> (\<exists>x s1. m s = (Inr x, s1) \<and> f x s1 = (Inr y, s2))"
  by (auto simp: tx_bind_def split: prod.splits sum.splits)

lemma tx_then_eq_Inr:
  "tx_then m k s = (Inr y, s2) \<longleftrightarrow> (\<exists>x s1. m s = (Inr x, s1) \<and> k s1 = (Inr y, s2))"
  by (simp add: tx_then_def tx_bind_eq_Inr)

lemma tx_for_append: "tx_for body (xs @ ys) = tx_then (tx_for body xs) (tx_for body ys)"
  by (induction xs) (auto simp: tx_then_def tx_bind_def fun_eq_iff split: prod.splits sum.splits)

lemma succeeds: "\<not> isl (fst p) \<Longrightarrow> \<exists>x s. p = (Inr x, s)"
  by (cases p, cases "fst p") simp_all

lemma tx_commit_Inr: "tx_commit m s = Inr (x, s') \<longleftrightarrow> m s = (Inr x, s')"
  by (auto simp: tx_commit_def split: prod.splits sum.splits)

lemma tx_commit_Inl: "tx_commit m s = Inl e \<longleftrightarrow> fst (m s) = Inl e"
  by (auto simp: tx_commit_def split: prod.splits sum.splits)

text \<open>A property of every value a step returns normally.\<close>

definition tx_results :: "('a \<Rightarrow> bool) \<Rightarrow> ('s, 'a) tx \<Rightarrow> bool" where
  "tx_results P m \<longleftrightarrow> (\<forall>s x s'. m s = (Inr x, s') \<longrightarrow> P x)"

lemma results_return: "P x \<Longrightarrow> tx_results P (tx_return x)" and results_raise: "tx_results P (tx_raise e)"
  by (simp_all add: tx_results_def)

lemma results_bind: "(\<And>x. tx_results P (f x)) \<Longrightarrow> tx_results P (tx_bind m f)"
  unfolding tx_results_def tx_bind_eq_Inr by blast

lemma results_then: "tx_results P k \<Longrightarrow> tx_results P (tx_then m k)"
  by (simp add: tx_then_def results_bind)

lemma results_try:
  assumes "tx_results Q m" "\<And>x. Q x \<Longrightarrow> tx_results P (handler (Inr x))" "\<And>e. tx_results P (handler (Inl e))"
  shows "tx_results P (tx_try m handler)"
  unfolding tx_results_def
proof (intro allI impI)
  fix s y s2 assume run: "tx_try m handler s = (Inr y, s2)"
  obtain r s1 where m: "m s = (r, s1)" by (cases "m s")
  with run have h: "handler r s1 = (Inr y, s2)" by (simp add: tx_try_def)
  with m assms show "P y" unfolding tx_results_def by (cases r) blast+
qed

lemma results_if: "tx_results P m \<Longrightarrow> tx_results P k \<Longrightarrow> tx_results P (if b then m else k)"
  and results_case_option: "tx_results P m \<Longrightarrow> (\<And>x. tx_results P (f x)) \<Longrightarrow>
    tx_results P (case v of None \<Rightarrow> m | Some x \<Rightarrow> f x)"
  by (simp_all split: option.split)

lemmas results_rules = results_return results_raise results_bind results_then results_if results_case_option

definition tx_keeps :: "('s \<Rightarrow> 's \<Rightarrow> bool) \<Rightarrow> ('s, 'a) tx \<Rightarrow> bool" where
  "tx_keeps R m \<longleftrightarrow> (\<forall>s. R s (snd (m s)))"

locale tx_relation =
  fixes R :: "'s \<Rightarrow> 's \<Rightarrow> bool"
  assumes refl: "R s s"
    and trans: "R s t \<Longrightarrow> R t u \<Longrightarrow> R s u"
begin

lemma keepsI: "(\<And>s. R s (snd (m s))) \<Longrightarrow> tx_keeps R m"
  by (simp add: tx_keeps_def)

lemma keepsD: "tx_keeps R m \<Longrightarrow> R s (snd (m s))"
  by (simp add: tx_keeps_def)

lemma keeps_run: "tx_keeps R m \<Longrightarrow> m s = (r, s') \<Longrightarrow> R s s'"
  using keepsD [of m s] by simp

lemma keeps_return: "tx_keeps R (tx_return x)" and keeps_raise: "tx_keeps R (tx_raise e)"
  and keeps_lift: "tx_keeps R (tx_lift r)" and keeps_read: "tx_keeps R (tx_read f)"
  by (simp_all add: tx_keeps_def refl)

lemma keeps_write: "(\<And>s. R s (h s)) \<Longrightarrow> tx_keeps R (tx_write h)"
  by (simp add: tx_keeps_def)

lemma keeps_bind: "tx_keeps R m \<Longrightarrow> (\<And>x. tx_keeps R (f x)) \<Longrightarrow> tx_keeps R (tx_bind m f)"
  by (auto simp: tx_keeps_def tx_bind_def split: prod.splits sum.splits intro: refl)
    (metis snd_conv, metis snd_conv trans)

lemma keeps_then: "tx_keeps R m \<Longrightarrow> tx_keeps R k \<Longrightarrow> tx_keeps R (tx_then m k)"
  by (simp add: tx_then_def keeps_bind)

lemma keeps_try: "tx_keeps R m \<Longrightarrow> (\<And>r. tx_keeps R (handler r)) \<Longrightarrow> tx_keeps R (tx_try m handler)"
  unfolding tx_keeps_def tx_try_def by (metis (mono_tags, lifting) split_beta trans)

lemma keeps_for: "(\<And>x. x \<in> set xs \<Longrightarrow> tx_keeps R (body x)) \<Longrightarrow> tx_keeps R (tx_for body xs)"
  by (induction xs) (auto intro: keeps_return keeps_then)

lemma keeps_fold: "(\<And>x c. x \<in> set xs \<Longrightarrow> tx_keeps R (body x c)) \<Longrightarrow> tx_keeps R (tx_fold body xs c)"
  by (induction xs arbitrary: c) (auto intro: keeps_return keeps_bind)

lemma keeps_map: "(\<And>x. x \<in> set xs \<Longrightarrow> tx_keeps R (body x)) \<Longrightarrow> tx_keeps R (tx_map body xs)"
  by (induction xs) (auto intro: keeps_return keeps_bind)

lemma keeps_if: "tx_keeps R m \<Longrightarrow> tx_keeps R k \<Longrightarrow> tx_keeps R (if b then m else k)"
  by simp

lemma keeps_case_option: "tx_keeps R m \<Longrightarrow> (\<And>x. tx_keeps R (f x)) \<Longrightarrow> tx_keeps R (case v of None \<Rightarrow> m | Some x \<Rightarrow> f x)"
  by (cases v) simp_all

lemma keeps_case_sum: "(\<And>x. tx_keeps R (f x)) \<Longrightarrow> (\<And>y. tx_keeps R (g y)) \<Longrightarrow> tx_keeps R (case v of Inl x \<Rightarrow> f x | Inr y \<Rightarrow> g y)"
  by (cases v) simp_all

lemma keeps_case_prod: "(\<And>x y. tx_keeps R (f x y)) \<Longrightarrow> tx_keeps R (case v of (x, y) \<Rightarrow> f x y)"
  by (cases v) simp

lemma keeps_case_list:
  "tx_keeps R m \<Longrightarrow> (\<And>x xs. tx_keeps R (f x xs)) \<Longrightarrow> tx_keeps R (case v of [] \<Rightarrow> m | x # xs \<Rightarrow> f x xs)"
  by (cases v) simp_all

lemmas keeps_rules = keeps_case_list keeps_try keeps_return keeps_raise keeps_lift keeps_read keeps_write keeps_bind keeps_then
  keeps_for keeps_map keeps_fold keeps_if keeps_case_option keeps_case_sum keeps_case_prod

lemma keeps_commit: "tx_keeps R m \<Longrightarrow> tx_commit m s = Inr (x, s') \<Longrightarrow> R s s'"
  by (auto simp: tx_commit_Inr intro: keeps_run)

end

end
