(* ===== verification/Site_Db.thy ===== *)
theory Site_Db
  imports Site_Tables Contracts Site_Queue Transaction
begin

text \<open>
  A Site's database as one transaction sees it, in the form of \<open>Central_Db\<close>: a list of
  rows per table, the durable queue's tables, and the number of UUIDs minted so far.
  Operations write the tables freely, as the ORM does in memory; \<open>site_flush\<close> is the
  point where the pending writes reach PostgreSQL and its uniqueness and CHECK
  constraints are enforced.
\<close>

record site_db =
  sd_users :: "site_user list"
  sd_sites :: "site_site list"
  sd_identities :: "site_local_site_identity list"
  sd_registrations :: "site_central_registration list"
  sd_receipts :: "site_sync_receipt list"
  sd_cursors :: "site_sync_cursor list"
  sd_sequences :: "site_sync_sequence list"
  sd_settings :: "site_managed_setting list"
  sd_people :: "site_person_projection list"
  sd_events :: "site_event list"
  sd_deployments :: "site_event_deployment_projection list"
  sd_deployment_revisions :: "site_event_deployment_revision_projection list"
  sd_participations :: "site_event_participation list"
  sd_program_sessions :: "site_session list"
  sd_session_participants :: "site_session_participant list"
  sd_presentations :: "site_presentation list"
  sd_presentation_sessions :: "site_presentation_session list"
  sd_presentation_presenters :: "site_presentation_presenter list"
  sd_external_identifiers :: "site_external_identifier_projection list"
  sd_versions :: "site_presentation_version list"
  sd_rooms :: "site_room list"
  sd_room_mappings :: "site_program_room_mapping list"
  sd_room_assignments :: "site_room_assignment list"
  sd_device_assignments :: "site_device_assignment list"
  sd_media_objects :: "site_media_object list"
  sd_assets :: "site_presentation_asset list"
  sd_transfer_sessions :: "site_media_transfer_session list"
  sd_replication_sessions :: "site_media_replication_session list"
  sd_sync_events :: "site_sync_event list"
  sd_audit :: "site_audit_record list"
  sd_queue :: queue_db
  sd_minted :: nat

definition empty_site_db :: site_db where
  "empty_site_db =
     \<lparr>sd_users = [], sd_sites = [], sd_identities = [], sd_registrations = [], sd_receipts = [],
      sd_cursors = [], sd_sequences = [], sd_settings = [], sd_people = [], sd_events = [],
      sd_deployments = [], sd_deployment_revisions = [], sd_participations = [],
      sd_program_sessions = [], sd_session_participants = [], sd_presentations = [],
      sd_presentation_sessions = [], sd_presentation_presenters = [], sd_external_identifiers = [],
      sd_versions = [], sd_rooms = [], sd_room_mappings = [], sd_room_assignments = [],
      sd_device_assignments = [], sd_media_objects = [], sd_assets = [], sd_transfer_sessions = [],
      sd_replication_sessions = [], sd_sync_events = [], sd_audit = [],
      sd_queue = \<lparr>q_processing = [], q_transfer = [], q_outbox = [], q_workers = []\<rparr>,
      sd_minted = 0\<rparr>"

text \<open>\<open>new_uuid7()\<close>\<close>

definition site_fresh :: "codec \<Rightarrow> site_db \<Rightarrow> uuid" where
  "site_fresh cx db = mint_uuid cx (sd_minted db)"

definition site_minted :: "site_db \<Rightarrow> site_db" where
  "site_minted db = db\<lparr>sd_minted := Suc (sd_minted db)\<rparr>"

section \<open>Constraints\<close>

text \<open>The constraints of the tables a deployment writes.\<close>

definition valid_time_range :: "site_room_assignment \<Rightarrow> bool" where
  "valid_time_range a =
     (case (sra_starts_at a, sra_ends_at a) of (Some s, Some e) \<Rightarrow> s < e | _ \<Rightarrow> True)"

definition one_active_assignment :: "site_room_assignment list \<Rightarrow> bool" where
  "one_active_assignment rows \<longleftrightarrow> distinct (map sra_session_id (filter sra_active rows))"

text \<open>\<open>NULL\<close> never equals \<open>NULL\<close> in a unique index.\<close>

definition unique_optional :: "('r \<Rightarrow> 'k) \<Rightarrow> ('r \<Rightarrow> 'v option) \<Rightarrow> 'r list \<Rightarrow> bool" where
  "unique_optional key col rows \<longleftrightarrow>
     distinct (map (\<lambda>r. (key r, col r)) (filter (\<lambda>r. col r \<noteq> None) rows))"

definition room_constraints :: "site_db \<Rightarrow> bool" where
  "room_constraints db \<longleftrightarrow>
     keyed (\<lambda>r. (sro_site_id r, sro_label r)) (sd_rooms db)
     \<and> keyed (\<lambda>m. (srm_event_id m, srm_normalized_imported_label m)) (sd_room_mappings db)
     \<and> one_active_assignment (sd_room_assignments db)
     \<and> list_all valid_time_range (sd_room_assignments db)"

definition user_constraints :: "site_db \<Rightarrow> bool" where
  "user_constraints db \<longleftrightarrow>
     keyed sus_normalized_username (sd_users db)
     \<and> unique_optional (\<lambda>u. ()) sus_central_user_id (sd_users db)"

definition program_constraints :: "site_db \<Rightarrow> bool" where
  "program_constraints db \<longleftrightarrow>
     keyed (\<lambda>p. (sep_event_id p, sep_person_id p)) (sd_participations db)
     \<and> unique_optional sss_event_id sss_session_code (sd_program_sessions db)
     \<and> keyed (\<lambda>p. (ssp_session_id p, ssp_event_participation_id p, ssp_role p)) (sd_session_participants db)
     \<and> unique_optional spr_event_id spr_presentation_code (sd_presentations db)
     \<and> keyed (\<lambda>p. (spr_event_id p, spr_presentation_identifier p)) (sd_presentations db)
     \<and> keyed (\<lambda>l. (sps_presentation_id l, sps_session_id l)) (sd_presentation_sessions db)
     \<and> keyed (\<lambda>l. (spp_presentation_id l, spp_event_participation_id l, spp_role l))
         (sd_presentation_presenters db)
     \<and> keyed (\<lambda>x. (sxi_namespace x, sxi_external_id x, sxi_event_id x)) (sd_external_identifiers db)
     \<and> keyed (\<lambda>v. (spv_presentation_id v, spv_version_number v)) (sd_versions db)
     \<and> list_all (\<lambda>v. 1 \<le> spv_version_number v) (sd_versions db)"

definition deployment_checks :: "site_event_deployment_projection \<Rightarrow> bool" where
  "deployment_checks d \<longleftrightarrow>
     1 \<le> sed_desired_revision d \<and> 0 \<le> sed_applied_revision d \<and> sed_applied_revision d \<le> sed_desired_revision d"

definition deployment_constraints :: "site_db \<Rightarrow> bool" where
  "deployment_constraints db \<longleftrightarrow>
     list_all deployment_checks (sd_deployments db)
     \<and> keyed (\<lambda>r. (sdr_deployment_id r, sdr_deployment_revision r)) (sd_deployment_revisions db)
     \<and> list_all (\<lambda>r. 1 \<le> sdr_deployment_revision r) (sd_deployment_revisions db)"

definition site_constraints :: "site_db \<Rightarrow> bool" where
  "site_constraints db \<longleftrightarrow>
     user_constraints db \<and> program_constraints db \<and> room_constraints db \<and> deployment_constraints db"

section \<open>Statements\<close>

type_synonym 'a site_tx = "(site_db, 'a) tx"

text \<open>
  \<open>session.flush()\<close>. The constraints are checked on the state the flush leaves, not
  between its statements.
\<close>

definition site_flush :: "unit site_tx" where
  "site_flush db =
     (if site_constraints db then (Inr (), db) else (Inl (IntegrityError ''constraint''), db))"

text \<open>\<open>new_uuid7()\<close> as a column default.\<close>

definition site_new_id :: "codec \<Rightarrow> uuid site_tx" where
  "site_new_id cx db = (Inr (site_fresh cx db), site_minted db)"

text \<open>\<open>SiteQueue(session).enqueue_processing(...)\<close> and \<open>enqueue_outbox(...)\<close>\<close>

definition site_schedule :: "codec \<Rightarrow> datetime \<Rightarrow> job_values \<Rightarrow> job site_tx" where
  "site_schedule cx now v db =
     (case site_enqueue_processing (validate_job cx) (site_fresh cx db) now v (sd_queue db) of
        Inl e \<Rightarrow> (Inl e, db)
      | Inr (job, queue) \<Rightarrow> (Inr job, (site_minted db)\<lparr>sd_queue := queue\<rparr>))"

definition site_publish :: "codec \<Rightarrow> datetime \<Rightarrow> outbox_values \<Rightarrow> outbox_event site_tx" where
  "site_publish cx now v db =
     (case site_enqueue_outbox (site_fresh cx db) now v (q_outbox (sd_queue db)) of
        Inl e \<Rightarrow> (Inl e, db)
      | Inr (event, rows) \<Rightarrow> (Inr event, (site_minted db)\<lparr>sd_queue := (sd_queue db)\<lparr>q_outbox := rows\<rparr>\<rparr>))"

end
