(* ===== verification/Site_Rooms.thy ===== *)
theory Site_Rooms
  imports Site_Db
begin

text \<open>
  The writing half of \<open>upm_site/room_operations.py\<close>: default rooms and mappings for newly
  deployed program locations, and the assignment of program sessions to rooms that follows
  from the mappings. Loops over a query without an order see rows in insertion order.
\<close>

section \<open>Labels\<close>

definition normalize_program_location :: "string \<Rightarrow> string" where
  "normalize_program_location v = join_with '' '' (tokens is_space_char (py_lower (py_strip v)))"

definition session_label :: "site_session \<Rightarrow> string option" where
  "session_label s = map_option normalize_program_location (given (sss_location_name s))"

section \<open>Default rooms and mappings\<close>

record materialize_counts =
  mc_created_rooms :: nat
  mc_reused_rooms :: nat
  mc_created_mappings :: nat
  mc_ambiguous_labels :: nat

text \<open>\<open>labels.setdefault(normalized, imported_label.strip())\<close> over the event's active sessions.\<close>

definition setdefault :: "'k \<Rightarrow> 'v \<Rightarrow> ('k \<times> 'v) list \<Rightarrow> ('k \<times> 'v) list" where
  "setdefault k v kvs = (if k \<in> fst ` set kvs then kvs else kvs @ [(k, v)])"

definition add_label :: "site_session \<Rightarrow> (string \<times> string) list \<Rightarrow> (string \<times> string) list" where
  "add_label s labels =
     (case given (sss_location_name s) of
        None \<Rightarrow> labels
      | Some l \<Rightarrow> setdefault (normalize_program_location l) (py_strip l) labels)"

definition program_labels :: "uuid \<Rightarrow> site_db \<Rightarrow> (string \<times> string) list" where
  "program_labels event_id db =
     fold add_label
       (sort_key sss_session_id
          (filter (\<lambda>s. sss_event_id s = event_id \<and> sss_active s) (sd_program_sessions db))) []"

text \<open>
  \<open>rooms_by_exact_label\<close> and \<open>rooms_by_normalized_label\<close> in one list: a room with the
  normalized label it is filed under. A later room of the same label replaces an earlier
  one in the first dictionary.
\<close>

type_synonym room_index = "(site_room \<times> string) list"

definition room_index_of :: "uuid \<Rightarrow> site_db \<Rightarrow> room_index" where
  "room_index_of site_id db =
     map (\<lambda>r. (r, normalize_program_location (sro_label r)))
       (filter (\<lambda>r. sro_site_id r = site_id) (sd_rooms db))"

definition exact_room :: "string \<Rightarrow> room_index \<Rightarrow> site_room option" where
  "exact_room label idx = map_option fst (find (\<lambda>(r, n). sro_label r = label) (rev idx))"

definition candidate_rooms :: "string \<Rightarrow> room_index \<Rightarrow> site_room list" where
  "candidate_rooms normalized idx = map fst (filter (\<lambda>(r, n). n = normalized) idx)"

definition mapped_labels :: "uuid \<Rightarrow> site_db \<Rightarrow> string list" where
  "mapped_labels event_id db =
     map srm_normalized_imported_label (filter (\<lambda>m. srm_event_id m = event_id) (sd_room_mappings db))"

definition create_room :: "codec \<Rightarrow> datetime \<Rightarrow> site_event \<Rightarrow> string \<Rightarrow> site_room site_tx" where
  "create_room cx now event label =
     tx_bind (site_new_id cx) (\<lambda>i.
       let room = (default_site_room now)\<lparr>sro_room_id := i, sro_site_id := sev_site_id event,
                    sro_event_id := Some (sev_event_id event), sro_label := label\<rparr>
       in tx_then (tx_write (\<lambda>db. db\<lparr>sd_rooms := sd_rooms db @ [room]\<rparr>))
            (tx_then site_flush (tx_return room)))"

definition create_mapping ::
  "codec \<Rightarrow> datetime \<Rightarrow> site_event \<Rightarrow> string \<Rightarrow> string \<Rightarrow> uuid \<Rightarrow> unit site_tx" where
  "create_mapping cx now event normalized label room_id =
     tx_bind (site_new_id cx) (\<lambda>i. tx_write (\<lambda>db. db\<lparr>sd_room_mappings := sd_room_mappings db @
       [(default_site_program_room_mapping now)\<lparr>srm_program_room_mapping_id := i,
          srm_site_id := sev_site_id event, srm_event_id := sev_event_id event,
          srm_imported_label := label, srm_normalized_imported_label := normalized,
          srm_room_id := Some room_id, srm_confirmed_by := ''deployment-auto-materialization''\<rparr>]\<rparr>))"

definition materialize_label ::
  "codec \<Rightarrow> datetime \<Rightarrow> site_event \<Rightarrow> string list \<Rightarrow> string \<times> string
   \<Rightarrow> room_index \<times> materialize_counts \<Rightarrow> (room_index \<times> materialize_counts) site_tx" where
  "materialize_label cx now event excluded entry carry =
     (case (entry, carry) of ((normalized, label), (idx, n)) \<Rightarrow>
      tx_bind (tx_read (mapped_labels (sev_event_id event))) (\<lambda>existing.
      if normalized \<in> set existing \<or> normalized \<in> set excluded then tx_return (idx, n)
      else
        (case (exact_room label idx, candidate_rooms normalized idx) of
           (Some room, _) \<Rightarrow>
             tx_then (create_mapping cx now event normalized label (sro_room_id room))
               (tx_return (idx, n\<lparr>mc_reused_rooms := mc_reused_rooms n + 1,
                                  mc_created_mappings := mc_created_mappings n + 1\<rparr>))
         | (None, [room]) \<Rightarrow>
             tx_then (create_mapping cx now event normalized label (sro_room_id room))
               (tx_return (idx, n\<lparr>mc_reused_rooms := mc_reused_rooms n + 1,
                                  mc_created_mappings := mc_created_mappings n + 1\<rparr>))
         | (None, []) \<Rightarrow>
             tx_bind (create_room cx now event label) (\<lambda>room.
             tx_then (create_mapping cx now event normalized label (sro_room_id room))
               (tx_return (idx @ [(room, normalized)],
                  n\<lparr>mc_created_rooms := mc_created_rooms n + 1,
                    mc_created_mappings := mc_created_mappings n + 1\<rparr>)))
         | (None, _) \<Rightarrow> tx_return (idx, n\<lparr>mc_ambiguous_labels := mc_ambiguous_labels n + 1\<rparr>))))"

definition no_materialize_counts :: materialize_counts where
  "no_materialize_counts = \<lparr>mc_created_rooms = 0, mc_reused_rooms = 0, mc_created_mappings = 0,
                            mc_ambiguous_labels = 0\<rparr>"

definition require_event :: "uuid \<Rightarrow> site_event site_tx" where
  "require_event event_id =
     tx_bind (tx_read (\<lambda>db. row_get sev_event_id (sd_events db) event_id)) (\<lambda>e.
       case e of None \<Rightarrow> tx_raise (ValueError ''event not found'') | Some event \<Rightarrow> tx_return event)"

definition materialize_program_room_mappings ::
  "codec \<Rightarrow> datetime \<Rightarrow> string list \<Rightarrow> uuid \<Rightarrow> materialize_counts site_tx" where
  "materialize_program_room_mappings cx now excluded event_id =
     tx_bind (require_event event_id) (\<lambda>event.
     tx_bind (tx_read (room_index_of (sev_site_id event))) (\<lambda>idx.
     tx_bind (tx_read (program_labels event_id)) (\<lambda>labels.
     tx_bind (tx_fold (materialize_label cx now event excluded) labels (idx, no_materialize_counts))
       (\<lambda>(idx', counts). tx_then site_flush (tx_return counts)))))"

section \<open>Assignments\<close>

definition assignment_desired ::
  "site_program_room_mapping list \<Rightarrow> site_session list \<Rightarrow> site_room_assignment \<Rightarrow> bool" where
  "assignment_desired mappings sessions a =
     (case sra_program_room_mapping_id a of
        None \<Rightarrow> False
      | Some i \<Rightarrow>
          (case (row_get srm_program_room_mapping_id mappings i,
                 row_get sss_session_id sessions (sra_session_id a)) of
             (Some m, Some s) \<Rightarrow> srm_room_id m \<noteq> None \<and> sss_active s
                \<and> session_label s = Some (srm_normalized_imported_label m)
           | _ \<Rightarrow> False))"

definition end_assignment :: "datetime \<Rightarrow> site_room_assignment \<Rightarrow> site_room_assignment" where
  "end_assignment now a =
     a\<lparr>sra_active := False, sra_ends_at := Some now, sra_revision := sra_revision a + 1\<rparr>"

definition retire_undesired ::
  "datetime \<Rightarrow> site_program_room_mapping list \<Rightarrow> site_session list
   \<Rightarrow> site_room_assignment list \<Rightarrow> site_room_assignment list" where
  "retire_undesired now mappings sessions =
     map (\<lambda>a. if sra_session_id a \<in> sss_session_id ` set sessions \<and> sra_active a
                \<and> \<not> assignment_desired mappings sessions a \<and> sra_program_room_mapping_id a \<noteq> None
              then end_assignment now a else a)"

text \<open>\<open>sessions_by_label\<close>: groups in the order their label first appears.\<close>

fun group_add :: "'k \<Rightarrow> 'v \<Rightarrow> ('k \<times> 'v list) list \<Rightarrow> ('k \<times> 'v list) list" where
  "group_add k v [] = [(k, [v])]"
| "group_add k v ((k', vs) # gs) = (if k' = k then (k', vs @ [v]) # gs else (k', vs) # group_add k v gs)"

definition file_session ::
  "site_session \<Rightarrow> (string \<times> site_session list) list \<Rightarrow> (string \<times> site_session list) list" where
  "file_session s groups =
     (if sss_active s
      then case session_label s of None \<Rightarrow> groups | Some label \<Rightarrow> group_add label s groups
      else groups)"

definition sessions_by_label :: "site_session list \<Rightarrow> (string \<times> site_session list) list" where
  "sessions_by_label sessions = fold file_session sessions []"

text \<open>A change to the one object a generator expression found.\<close>

fun update_first :: "('r \<Rightarrow> bool) \<Rightarrow> ('r \<Rightarrow> 'r) \<Rightarrow> 'r list \<Rightarrow> 'r list" where
  "update_first P f [] = []"
| "update_first P f (r # rows) = (if P r then f r # rows else r # update_first P f rows)"

definition active_for :: "uuid \<Rightarrow> site_room_assignment \<Rightarrow> bool" where
  "active_for session_id a \<longleftrightarrow> sra_session_id a = session_id \<and> sra_active a"

record reconcile_counts =
  rc_mapped_sessions :: nat
  rc_unmapped_sessions :: nat

definition count_mapped :: "reconcile_counts \<Rightarrow> reconcile_counts" where
  "count_mapped n = n\<lparr>rc_mapped_sessions := rc_mapped_sessions n + 1\<rparr>"

definition count_unmapped :: "reconcile_counts \<Rightarrow> reconcile_counts" where
  "count_unmapped n = n\<lparr>rc_unmapped_sessions := rc_unmapped_sessions n + 1\<rparr>"

definition new_assignment ::
  "datetime \<Rightarrow> uuid \<Rightarrow> uuid \<Rightarrow> uuid \<Rightarrow> site_session \<Rightarrow> site_room_assignment" where
  "new_assignment now i room_id mapping_id s =
     (default_site_room_assignment now)\<lparr>sra_room_assignment_id := i, sra_room_id := room_id,
        sra_session_id := sss_session_id s, sra_program_room_mapping_id := Some mapping_id,
        sra_starts_at := sss_starts_at s, sra_ends_at := sss_ends_at s, sra_active := True\<rparr>"

definition move_assignment ::
  "uuid \<Rightarrow> uuid \<Rightarrow> site_session \<Rightarrow> site_room_assignment \<Rightarrow> site_room_assignment" where
  "move_assignment room_id mapping_id s a =
     a\<lparr>sra_room_id := room_id, sra_program_room_mapping_id := Some mapping_id,
       sra_starts_at := sss_starts_at s, sra_ends_at := sss_ends_at s, sra_revision := sra_revision a + 1\<rparr>"

definition change_assignment ::
  "uuid \<Rightarrow> (site_room_assignment \<Rightarrow> site_room_assignment) \<Rightarrow> site_db \<Rightarrow> site_db" where
  "change_assignment session_id f db =
     db\<lparr>sd_room_assignments := update_first (active_for session_id) f (sd_room_assignments db)\<rparr>"

definition place_session ::
  "codec \<Rightarrow> datetime \<Rightarrow> site_event \<Rightarrow> site_program_room_mapping list \<Rightarrow> string \<times> site_session
   \<Rightarrow> reconcile_counts \<Rightarrow> reconcile_counts site_tx" where
  "place_session cx now event mappings entry n =
     (case entry of (label, s) \<Rightarrow>
      tx_bind (tx_read (\<lambda>db. find (active_for (sss_session_id s)) (sd_room_assignments db))) (\<lambda>current.
      case find (\<lambda>m. srm_normalized_imported_label m = label) (rev mappings) of
        None \<Rightarrow> tx_return (if current = None then count_unmapped n else count_mapped n)
      | Some m \<Rightarrow>
          (case srm_room_id m of
             None \<Rightarrow>
               tx_then (tx_write (change_assignment (sss_session_id s)
                          (\<lambda>a. (end_assignment now a)\<lparr>sra_program_room_mapping_id :=
                                  Some (srm_program_room_mapping_id m)\<rparr>)))
                 (tx_return (count_unmapped n))
           | Some room_id \<Rightarrow>
               tx_bind (tx_read (\<lambda>db. row_get sro_room_id (sd_rooms db) room_id)) (\<lambda>room.
               if (case room of None \<Rightarrow> True | Some r \<Rightarrow> sro_site_id r \<noteq> sev_site_id event)
               then tx_return (count_unmapped n)
               else tx_then
                 (case current of
                    None \<Rightarrow> tx_bind (site_new_id cx) (\<lambda>i. tx_write (\<lambda>db. db\<lparr>sd_room_assignments :=
                        sd_room_assignments db
                        @ [new_assignment now i room_id (srm_program_room_mapping_id m) s]\<rparr>))
                  | Some a \<Rightarrow> tx_write (change_assignment (sss_session_id s)
                        (move_assignment room_id (srm_program_room_mapping_id m) s)))
                 (tx_return (count_mapped n))))))"

definition label_entries :: "(string \<times> site_session list) list \<Rightarrow> (string \<times> site_session) list" where
  "label_entries groups = concat (map (\<lambda>(label, ss). map (\<lambda>s. (label, s)) ss) groups)"

definition reconcile_program_room_assignments ::
  "codec \<Rightarrow> datetime \<Rightarrow> uuid \<Rightarrow> reconcile_counts site_tx" where
  "reconcile_program_room_assignments cx now event_id =
     tx_bind (require_event event_id) (\<lambda>event.
     tx_bind (tx_read (\<lambda>db. filter (\<lambda>m. srm_event_id m = event_id) (sd_room_mappings db))) (\<lambda>mappings.
     tx_bind (tx_read (\<lambda>db. filter (\<lambda>s. sss_event_id s = event_id) (sd_program_sessions db))) (\<lambda>sessions.
     tx_then (tx_write (\<lambda>db. db\<lparr>sd_room_assignments :=
                retire_undesired now mappings sessions (sd_room_assignments db)\<rparr>))
       (tx_fold (place_session cx now event mappings) (label_entries (sessions_by_label sessions))
          \<lparr>rc_mapped_sessions = 0, rc_unmapped_sessions = 0\<rparr>))))"

section \<open>What a mapping asks for\<close>

text \<open>
  The specification of an assignment run: a label is without a rule, deliberately unmapped,
  or bound to a room of the Site.
\<close>

datatype placement = Keep | Clear | Put uuid uuid

definition label_placement ::
  "site_event \<Rightarrow> site_program_room_mapping list \<Rightarrow> site_room list \<Rightarrow> string \<Rightarrow> placement" where
  "label_placement event mappings rooms label =
     (case find (\<lambda>m. srm_normalized_imported_label m = label) (rev mappings) of
        None \<Rightarrow> Keep
      | Some m \<Rightarrow>
          (case srm_room_id m of
             None \<Rightarrow> Clear
           | Some room_id \<Rightarrow>
               (case row_get sro_room_id rooms room_id of
                  None \<Rightarrow> Keep
                | Some r \<Rightarrow> if sro_site_id r \<noteq> sev_site_id event then Keep
                            else Put room_id (srm_program_room_mapping_id m))))"

definition assignment_for :: "uuid \<Rightarrow> uuid \<Rightarrow> site_session \<Rightarrow> site_room_assignment \<Rightarrow> bool" where
  "assignment_for room_id mapping_id s a \<longleftrightarrow>
     sra_session_id a = sss_session_id s \<and> sra_active a \<and> sra_room_id a = room_id
     \<and> sra_program_room_mapping_id a = Some mapping_id
     \<and> sra_starts_at a = sss_starts_at s \<and> sra_ends_at a = sss_ends_at s"

text \<open>The active assignments of one session before and after it has been placed.\<close>

definition placement_done ::
  "placement \<Rightarrow> site_session \<Rightarrow> site_room_assignment list \<Rightarrow> site_room_assignment list \<Rightarrow> bool" where
  "placement_done p s before after =
     (case p of
        Keep \<Rightarrow> after = before
      | Clear \<Rightarrow> after = tl before
      | Put r m \<Rightarrow> (\<exists>a. after = a # tl before \<and> assignment_for r m s a))"

section \<open>Assignment lists\<close>

lemma distinct_filter_iff:
  "distinct (map f (filter P xs)) \<longleftrightarrow> (\<forall>k. length (filter (\<lambda>x. f x = k \<and> P x) xs) \<le> 1)"
proof (induction xs)
  case (Cons a xs)
  have mem: "f a \<in> f ` set (filter P xs) \<longleftrightarrow> filter (\<lambda>x. f x = f a \<and> P x) xs \<noteq> []"
    by (simp add: filter_empty_conv image_iff) metis
  show ?case
  proof (cases "P a")
    case True
    have "distinct (map f (filter P (a # xs))) \<longleftrightarrow>
        filter (\<lambda>x. f x = f a \<and> P x) xs = [] \<and> (\<forall>k. length (filter (\<lambda>x. f x = k \<and> P x) xs) \<le> 1)"
      using True mem Cons.IH by simp
    also have "\<dots> \<longleftrightarrow> (\<forall>k. length (filter (\<lambda>x. f x = k \<and> P x) (a # xs)) \<le> 1)"
    proof -
      have len: "length (filter (\<lambda>x. f x = k \<and> P x) (a # xs))
          = (if k = f a then 1 else 0) + length (filter (\<lambda>x. f x = k \<and> P x) xs)" for k
        using True by simp
      show ?thesis
        unfolding len
      proof (intro iffI allI conjI; (elim conjE)?)
        fix k assume "filter (\<lambda>x. f x = f a \<and> P x) xs = []"
          and "\<forall>k. length (filter (\<lambda>x. f x = k \<and> P x) xs) \<le> 1"
        then show "(if k = f a then 1 else 0) + length (filter (\<lambda>x. f x = k \<and> P x) xs) \<le> 1"
          by (cases "k = f a") simp_all
      next
        assume *: "\<forall>k. (if k = f a then 1 else 0) + length (filter (\<lambda>x. f x = k \<and> P x) xs) \<le> 1"
        from * [rule_format, of "f a"] show "filter (\<lambda>x. f x = f a \<and> P x) xs = []" by simp
        fix k from * [rule_format, of k] show "length (filter (\<lambda>x. f x = k \<and> P x) xs) \<le> 1" by linarith
      qed
    qed
    finally show ?thesis .
  qed (simp add: Cons.IH)
qed simp

lemma one_active_iff:
  "one_active_assignment rows \<longleftrightarrow> (\<forall>i. length (filter (active_for i) rows) \<le> 1)"
  by (simp add: one_active_assignment_def distinct_filter_iff active_for_def [abs_def])

lemma filter_update_first_other:
  "(\<And>r. P r \<Longrightarrow> \<not> Q r \<and> \<not> Q (f r)) \<Longrightarrow> filter Q (update_first P f rows) = filter Q rows"
  by (induction rows) auto

lemma filter_update_first_out:
  "(\<And>r. P r \<Longrightarrow> \<not> P (f r)) \<Longrightarrow> filter P (update_first P f rows) = tl (filter P rows)"
  by (induction rows) auto

lemma filter_update_first_in:
  "(\<And>r. P r \<Longrightarrow> P (f r)) \<Longrightarrow>
     filter P (update_first P f rows) = (case filter P rows of [] \<Rightarrow> [] | r # rs \<Rightarrow> f r # rs)"
  by (induction rows) auto

lemma find_filter: "find P rows = (case filter P rows of [] \<Rightarrow> None | r # rs \<Rightarrow> Some r)"
  by (induction rows) auto

lemma end_assignment_simps [simp]:
  "sra_session_id (end_assignment now a) = sra_session_id a" "\<not> sra_active (end_assignment now a)"
  "sra_ends_at (end_assignment now a) = Some now" "sra_starts_at (end_assignment now a) = sra_starts_at a"
  by (simp_all add: end_assignment_def)

lemma new_assignment_for: "assignment_for r m s (new_assignment now i r m s)"
  by (simp add: assignment_for_def new_assignment_def default_site_room_assignment_def)

lemma move_assignment_for:
  "active_for (sss_session_id s) a \<Longrightarrow> assignment_for r m s (move_assignment r m s a)"
  by (simp add: assignment_for_def move_assignment_def active_for_def)

lemma assignment_for_active: "assignment_for r m s a \<Longrightarrow> active_for (sss_session_id s) a"
  by (simp add: assignment_for_def active_for_def)

lemma count_sums [simp]:
  "rc_mapped_sessions (count_mapped n) + rc_unmapped_sessions (count_mapped n)
     = Suc (rc_mapped_sessions n + rc_unmapped_sessions n)"
  "rc_mapped_sessions (count_unmapped n) + rc_unmapped_sessions (count_unmapped n)
     = Suc (rc_mapped_sessions n + rc_unmapped_sessions n)"
  by (simp_all add: count_mapped_def count_unmapped_def)

text \<open>One session: its own active assignments become what its label asks for, all others stay.\<close>

definition only_assignments :: "site_db \<Rightarrow> site_db \<Rightarrow> bool" where
  "only_assignments db db' \<longleftrightarrow> (\<exists>rows k. db' = db\<lparr>sd_room_assignments := rows, sd_minted := k\<rparr>)"

interpretation only_assignments: tx_relation only_assignments
proof
  show "only_assignments s s" for s
    unfolding only_assignments_def by (intro exI [of _ "sd_room_assignments s"] exI [of _ "sd_minted s"]) simp
  show "only_assignments s u" if "only_assignments s t" "only_assignments t u" for s t u
    using that unfolding only_assignments_def by (elim exE) (simp, blast)
qed

lemma only_assignments_tables:
  assumes "only_assignments db db'"
  shows "sd_rooms db' = sd_rooms db" "sd_room_mappings db' = sd_room_mappings db"
    "sd_program_sessions db' = sd_program_sessions db" "sd_events db' = sd_events db"
  using assms by (auto simp: only_assignments_def)

lemma only_assignments_writes [simp, intro]:
  "only_assignments db (db\<lparr>sd_room_assignments := rows\<rparr>)"
  "only_assignments db (change_assignment i f db)" "only_assignments db (site_minted db)"
proof -
  show *: "only_assignments db (db\<lparr>sd_room_assignments := rows\<rparr>)" for rows
    unfolding only_assignments_def by (intro exI [of _ rows] exI [of _ "sd_minted db"]) simp
  show "only_assignments db (change_assignment i f db)"
    by (simp add: change_assignment_def *)
  show "only_assignments db (site_minted db)"
    unfolding only_assignments_def site_minted_def
    by (intro exI [of _ "sd_room_assignments db"] exI [of _ "Suc (sd_minted db)"]) simp
qed

lemma place_session_effect:
  obtains n' db' where "place_session cx now event mappings (label, s) n db = (Inr n', db')"
    and "only_assignments db db'"
    and "rc_mapped_sessions n' + rc_unmapped_sessions n' = Suc (rc_mapped_sessions n + rc_unmapped_sessions n)"
    and "\<And>i. i \<noteq> sss_session_id s \<Longrightarrow> filter (active_for i) (sd_room_assignments db')
           = filter (active_for i) (sd_room_assignments db)"
    and "placement_done (label_placement event mappings (sd_rooms db) label) s
           (filter (active_for (sss_session_id s)) (sd_room_assignments db))
           (filter (active_for (sss_session_id s)) (sd_room_assignments db'))"
proof -
  let ?i = "sss_session_id s" and ?A = "sd_room_assignments db"
  have other: "filter (active_for i) (update_first (active_for ?i) f ?A) = filter (active_for i) ?A"
    if "i \<noteq> ?i" "\<And>a. sra_session_id (f a) = sra_session_id a" for i f
    using that by (intro filter_update_first_other) (auto simp: active_for_def)
  consider (none) "find (\<lambda>m. srm_normalized_imported_label m = label) (rev mappings) = None"
    | (clear) m where "find (\<lambda>m. srm_normalized_imported_label m = label) (rev mappings) = Some m"
        "srm_room_id m = None"
    | (bad) m r where "find (\<lambda>m. srm_normalized_imported_label m = label) (rev mappings) = Some m"
        "srm_room_id m = Some r"
        "case row_get sro_room_id (sd_rooms db) r of None \<Rightarrow> True | Some x \<Rightarrow> sro_site_id x \<noteq> sev_site_id event"
    | (good) m r x where "find (\<lambda>m. srm_normalized_imported_label m = label) (rev mappings) = Some m"
        "srm_room_id m = Some r" "row_get sro_room_id (sd_rooms db) r = Some x" "sro_site_id x = sev_site_id event"
  proof (cases "find (\<lambda>m. srm_normalized_imported_label m = label) (rev mappings)")
    case None
    then show thesis by (rule none)
  next
    case (Some m)
    show thesis
    proof (cases "srm_room_id m")
      case None
      with Some show thesis by (rule clear)
    next
      case r: (Some r)
      show thesis
        by (cases "row_get sro_room_id (sd_rooms db) r"; use Some r bad good in fastforce)
    qed
  qed
  then show thesis
  proof cases
    case none
    show thesis
      by (rule that [of "if find (active_for ?i) ?A = None then count_unmapped n else count_mapped n" db])
        (use none in \<open>auto simp: place_session_def tx_bind_def label_placement_def placement_done_def
            intro: only_assignments.refl\<close>)
  next
    case clear
    let ?f = "\<lambda>a. (end_assignment now a)\<lparr>sra_program_room_mapping_id := Some (srm_program_room_mapping_id m)\<rparr>"
    have out: "filter (active_for ?i) (update_first (active_for ?i) ?f ?A) = tl (filter (active_for ?i) ?A)"
      by (rule filter_update_first_out) (simp add: active_for_def)
    show thesis
      by (rule that [of "count_unmapped n" "change_assignment ?i ?f db"])
        (use clear other [of _ ?f] in \<open>auto simp: place_session_def tx_bind_def tx_then_def label_placement_def
            placement_done_def change_assignment_def out\<close>)
  next
    case bad
    show thesis
      by (rule that [of "count_unmapped n" db])
        (use bad in \<open>auto simp: place_session_def tx_bind_def label_placement_def placement_done_def
            intro: only_assignments.refl split: option.splits\<close>)
  next
    case good
    then have target: "label_placement event mappings (sd_rooms db) label = Put r (srm_program_room_mapping_id m)"
      by (simp add: label_placement_def)
    show thesis
    proof (cases "filter (active_for ?i) ?A")
      case Nil
      let ?new = "new_assignment now (site_fresh cx db) r (srm_program_room_mapping_id m) s"
      let ?db = "(site_minted db)\<lparr>sd_room_assignments := ?A @ [?new]\<rparr>"
      have new: "active_for ?i ?new" "i \<noteq> ?i \<Longrightarrow> \<not> active_for i ?new" for i
        using new_assignment_for by (auto simp: assignment_for_def active_for_def)
      have frame: "only_assignments db ?db"
        unfolding only_assignments_def site_minted_def
        by (intro exI [of _ "?A @ [?new]"] exI [of _ "Suc (sd_minted db)"]) simp
      have run: "place_session cx now event mappings (label, s) n db = (Inr (count_mapped n), ?db)"
        using Nil good by (simp add: place_session_def tx_bind_def tx_then_def find_filter site_new_id_def
            site_minted_def)
      show thesis
        by (rule that [OF run frame]) (use Nil new in \<open>simp_all add: target placement_done_def new_assignment_for\<close>)
    next
      case (Cons a as)
      let ?f = "move_assignment r (srm_program_room_mapping_id m) s"
      have act: "active_for ?i a" using Cons by (metis Cons_eq_filter_iff)
      have inn: "filter (active_for ?i) (update_first (active_for ?i) ?f ?A) = ?f a # as"
        using Cons by (subst filter_update_first_in) (auto simp: move_assignment_def active_for_def)
      have "sra_session_id (?f b) = sra_session_id b" for b by (simp add: move_assignment_def)
      with Cons good target other [of _ ?f] inn act show thesis
        by (intro that [of "count_mapped n" "change_assignment ?i ?f db"])
          (auto simp: place_session_def tx_bind_def tx_then_def find_filter change_assignment_def
            placement_done_def move_assignment_for)
    qed
  qed
qed

text \<open>The whole loop, over sessions with distinct keys.\<close>

lemma place_sessions_effect:
  assumes "distinct (map (\<lambda>(l, s). sss_session_id s) entries)"
  obtains n' db' where "tx_fold (place_session cx now event mappings) entries n db = (Inr n', db')"
    and "only_assignments db db'"
    and "rc_mapped_sessions n' + rc_unmapped_sessions n'
           = length entries + (rc_mapped_sessions n + rc_unmapped_sessions n)"
    and "\<And>i. i \<notin> (\<lambda>(l, s). sss_session_id s) ` set entries \<Longrightarrow>
           filter (active_for i) (sd_room_assignments db') = filter (active_for i) (sd_room_assignments db)"
    and "\<And>l s. (l, s) \<in> set entries \<Longrightarrow>
           placement_done (label_placement event mappings (sd_rooms db) l) s
             (filter (active_for (sss_session_id s)) (sd_room_assignments db))
             (filter (active_for (sss_session_id s)) (sd_room_assignments db'))"
  using assms
proof (induction entries arbitrary: n db thesis)
  case Nil
  show ?case by (rule Nil.prems(1) [of n db]) (simp_all add: only_assignments.refl)
next
  case (Cons entry entries)
  obtain l s where entry: "entry = (l, s)" by (cases entry)
  let ?i = "sss_session_id s"
  from Cons.prems(2) have fresh: "?i \<notin> (\<lambda>(l, s). sss_session_id s) ` set entries"
    and dist: "distinct (map (\<lambda>(l, s). sss_session_id s) entries)" by (auto simp: entry)
  obtain n1 db1 where one: "place_session cx now event mappings (l, s) n db = (Inr n1, db1)"
    "only_assignments db db1"
    "rc_mapped_sessions n1 + rc_unmapped_sessions n1 = Suc (rc_mapped_sessions n + rc_unmapped_sessions n)"
    "\<And>i. i \<noteq> ?i \<Longrightarrow> filter (active_for i) (sd_room_assignments db1) = filter (active_for i) (sd_room_assignments db)"
    "placement_done (label_placement event mappings (sd_rooms db) l) s
       (filter (active_for ?i) (sd_room_assignments db)) (filter (active_for ?i) (sd_room_assignments db1))"
    by (rule place_session_effect [of cx now event mappings l s n db], rule that, assumption+)
  obtain n2 db2 where rest: "tx_fold (place_session cx now event mappings) entries n1 db1 = (Inr n2, db2)"
    "only_assignments db1 db2"
    "rc_mapped_sessions n2 + rc_unmapped_sessions n2
       = length entries + (rc_mapped_sessions n1 + rc_unmapped_sessions n1)"
    "\<And>i. i \<notin> (\<lambda>(l, s). sss_session_id s) ` set entries \<Longrightarrow>
       filter (active_for i) (sd_room_assignments db2) = filter (active_for i) (sd_room_assignments db1)"
    "\<And>l s. (l, s) \<in> set entries \<Longrightarrow>
       placement_done (label_placement event mappings (sd_rooms db1) l) s
         (filter (active_for (sss_session_id s)) (sd_room_assignments db1))
         (filter (active_for (sss_session_id s)) (sd_room_assignments db2))"
    using Cons.IH [OF _ dist] by blast
  note rooms = only_assignments_tables(1) [OF one(2)]
  show ?case
  proof (rule Cons.prems(1) [of n2 db2])
    show "tx_fold (place_session cx now event mappings) (entry # entries) n db = (Inr n2, db2)"
      using one(1) rest(1) by (simp add: entry tx_bind_Inr)
    show "only_assignments db db2" using one(2) rest(2) by (rule only_assignments.trans)
    show "rc_mapped_sessions n2 + rc_unmapped_sessions n2
        = length (entry # entries) + (rc_mapped_sessions n + rc_unmapped_sessions n)"
      using one(3) rest(3) by simp
    show "filter (active_for i) (sd_room_assignments db2) = filter (active_for i) (sd_room_assignments db)"
      if "i \<notin> (\<lambda>(l, s). sss_session_id s) ` set (entry # entries)" for i
      using that one(4) rest(4) by (simp add: entry)
    show "placement_done (label_placement event mappings (sd_rooms db) l') s'
         (filter (active_for (sss_session_id s')) (sd_room_assignments db))
         (filter (active_for (sss_session_id s')) (sd_room_assignments db2))"
      if "(l', s') \<in> set (entry # entries)" for l' s'
    proof (cases "(l', s') = entry")
      case True
      with one(5) rest(4) [OF fresh] show ?thesis by (simp add: entry)
    next
      case False
      with that have mem: "(l', s') \<in> set entries" by simp
      with fresh have "sss_session_id s' \<noteq> ?i" by force
      with rest(5) [OF mem] one(4) show ?thesis by (simp add: rooms)
    qed
  qed
qed

lemma label_entries_group_add:
  "set (label_entries (group_add k v gs)) = insert (k, v) (set (label_entries gs))"
  "length (label_entries (group_add k v gs)) = Suc (length (label_entries gs))"
  "distinct (map f (label_entries (group_add k v gs))) \<longleftrightarrow> distinct (map f ((k, v) # label_entries gs))"
proof -
  show sets: "set (label_entries (group_add k v gs)) = insert (k, v) (set (label_entries gs))"
    for k v gs
    by (induction k v gs rule: group_add.induct) (auto simp: label_entries_def)
  show "length (label_entries (group_add k v gs)) = Suc (length (label_entries gs))"
    by (induction k v gs rule: group_add.induct) (auto simp: label_entries_def)
  show "distinct (map f (label_entries (group_add k v gs))) \<longleftrightarrow> distinct (map f ((k, v) # label_entries gs))"
  proof (induction k v gs rule: group_add.induct)
    case (2 k v k' vs gs)
    have "label_entries ((k', vs) # gs) = map (Pair k') vs @ label_entries gs" for vs gs
      by (simp add: label_entries_def)
    with 2 show ?case by (cases "k' = k") (auto simp: sets)
  qed (simp add: label_entries_def)
qed

definition labelled_sessions :: "site_session list \<Rightarrow> site_session list" where
  "labelled_sessions ss = filter (\<lambda>s. sss_active s \<and> session_label s \<noteq> None) ss"

lemma sessions_by_label_entries:
  "set (label_entries (sessions_by_label ss))
     = {(l, s). s \<in> set ss \<and> sss_active s \<and> session_label s = Some l}"
  "length (label_entries (sessions_by_label ss)) = length (labelled_sessions ss)"
  "distinct (map sss_session_id ss) \<Longrightarrow>
     distinct (map (\<lambda>(l, s). sss_session_id s) (label_entries (sessions_by_label ss)))"
proof (induction ss rule: rev_induct)
  case Nil
  { case 1 then show ?case by (simp add: sessions_by_label_def label_entries_def) }
  { case 2 then show ?case by (simp add: sessions_by_label_def label_entries_def labelled_sessions_def) }
  { case 3 then show ?case by (simp add: sessions_by_label_def label_entries_def) }
next
  case (snoc s ss)
  have step: "sessions_by_label (ss @ [s]) = file_session s (sessions_by_label ss)"
    by (simp add: sessions_by_label_def)
  { case 1 show ?case
      using snoc(1) by (auto simp: step file_session_def label_entries_group_add split: option.splits) }
  { case 2 show ?case
      using snoc(2) by (auto simp: step file_session_def label_entries_group_add labelled_sessions_def split: option.splits) }
  { case 3 then show ?case
      using snoc(1,3) by (force simp: step file_session_def label_entries_group_add split: option.splits) }
qed

definition event_mappings :: "uuid \<Rightarrow> site_db \<Rightarrow> site_program_room_mapping list" where
  "event_mappings event_id db = filter (\<lambda>m. srm_event_id m = event_id) (sd_room_mappings db)"

definition event_program :: "uuid \<Rightarrow> site_db \<Rightarrow> site_session list" where
  "event_program event_id db = filter (\<lambda>s. sss_event_id s = event_id) (sd_program_sessions db)"

lemma filter_retire:
  "filter (active_for i) (retire_undesired now ms ss rows) =
     filter (\<lambda>a. active_for i a \<and> (i \<in> sss_session_id ` set ss
        \<longrightarrow> assignment_desired ms ss a \<or> sra_program_room_mapping_id a = None)) rows"
proof (induction rows)
  case (Cons a rows)
  have "retire_undesired now ms ss (a # rows) = retire_undesired now ms ss [a] @ retire_undesired now ms ss rows"
    by (simp add: retire_undesired_def)
  moreover have "filter (active_for i) (retire_undesired now ms ss [a]) =
     filter (\<lambda>a. active_for i a \<and> (i \<in> sss_session_id ` set ss
        \<longrightarrow> assignment_desired ms ss a \<or> sra_program_room_mapping_id a = None)) [a]"
    by (auto simp: retire_undesired_def active_for_def)
  ultimately show ?case using Cons by simp
qed (simp add: retire_undesired_def)

lemma length_filter_conj: "length (filter (\<lambda>x. P x \<and> Q x) xs) \<le> length (filter P xs)"
  by (induction xs) simp_all

lemma retire_one_active:
  assumes "one_active_assignment rows"
  shows "one_active_assignment (retire_undesired now ms ss rows)"
  unfolding one_active_iff filter_retire
proof
  fix i show "length (filter (\<lambda>a. active_for i a \<and> (i \<in> sss_session_id ` set ss
      \<longrightarrow> assignment_desired ms ss a \<or> sra_program_room_mapping_id a = None)) rows) \<le> 1"
    using assms length_filter_conj [of "active_for i"] by (meson le_trans one_active_iff)
qed

lemma desired_session:
  assumes "assignment_desired ms ss a" "keyed sss_session_id ss" "s \<in> set ss" "sra_session_id a = sss_session_id s"
  shows "sss_active s \<and> session_label s \<noteq> None"
  using assms row_get_mem [OF assms(2,3)]
  by (auto simp: assignment_desired_def split: option.splits)

lemma placement_done_length:
  "placement_done p s before after \<Longrightarrow> length before \<le> 1 \<Longrightarrow> length after \<le> 1"
  by (auto simp: placement_done_def split: placement.splits)

definition session_settled ::
  "placement \<Rightarrow> site_session \<Rightarrow> site_room_assignment list \<Rightarrow> site_room_assignment list \<Rightarrow> bool" where
  "session_settled p s before after =
     (case p of
        Keep \<Rightarrow> after = before
      | Clear \<Rightarrow> after = []
      | Put r m \<Rightarrow> (\<exists>a. after = [a] \<and> assignment_for r m s a))"

lemma placement_settled:
  "placement_done p s before after \<Longrightarrow> length before \<le> 1 \<Longrightarrow> session_settled p s before after"
  by (cases before) (auto simp: placement_done_def session_settled_def split: placement.splits)

text \<open>The run of the reconciliation, split into the retirement and the loop over the sessions.\<close>

lemma reconcile_effect:
  assumes "row_get sev_event_id (sd_events db) event_id = Some event"
    and "keyed sss_session_id (event_program event_id db)"
  obtains counts db' where
    "reconcile_program_room_assignments cx now event_id db = (Inr counts, db')" "only_assignments db db'"
    "rc_mapped_sessions counts + rc_unmapped_sessions counts = length (labelled_sessions (event_program event_id db))"
    "\<And>i. i \<notin> {sss_session_id s |s. s \<in> set (event_program event_id db) \<and> sss_active s \<and> session_label s \<noteq> None} \<Longrightarrow>
       filter (active_for i) (sd_room_assignments db')
         = filter (active_for i) (retire_undesired now (event_mappings event_id db) (event_program event_id db)
             (sd_room_assignments db))"
    "\<And>l s. s \<in> set (event_program event_id db) \<Longrightarrow> sss_active s \<Longrightarrow> session_label s = Some l \<Longrightarrow>
       placement_done (label_placement event (event_mappings event_id db) (sd_rooms db) l) s
        (filter (active_for (sss_session_id s)) (retire_undesired now (event_mappings event_id db)
           (event_program event_id db) (sd_room_assignments db)))
        (filter (active_for (sss_session_id s)) (sd_room_assignments db'))"
proof -
  let ?ms = "event_mappings event_id db" and ?ss = "event_program event_id db"
  let ?entries = "label_entries (sessions_by_label ?ss)"
  let ?zero = "\<lparr>rc_mapped_sessions = 0, rc_unmapped_sessions = 0\<rparr>"
  define db1 where "db1 = db\<lparr>sd_room_assignments := retire_undesired now ?ms ?ss (sd_room_assignments db)\<rparr>"
  have dist: "distinct (map (\<lambda>(l, s). sss_session_id s) ?entries)"
    using assms(2) sessions_by_label_entries(3) by (simp add: keyed_def)
  obtain counts db' where run: "tx_fold (place_session cx now event ?ms) ?entries ?zero db1 = (Inr counts, db')"
    "only_assignments db1 db'"
    "rc_mapped_sessions counts + rc_unmapped_sessions counts
       = length ?entries + (rc_mapped_sessions ?zero + rc_unmapped_sessions ?zero)"
    "\<And>i. i \<notin> (\<lambda>(l, s). sss_session_id s) ` set ?entries \<Longrightarrow>
        filter (active_for i) (sd_room_assignments db') = filter (active_for i) (sd_room_assignments db1)"
    "\<And>l s. (l, s) \<in> set ?entries \<Longrightarrow> placement_done (label_placement event ?ms (sd_rooms db1) l) s
        (filter (active_for (sss_session_id s)) (sd_room_assignments db1))
        (filter (active_for (sss_session_id s)) (sd_room_assignments db'))"
    by (rule place_sessions_effect [OF dist, of cx now event ?ms ?zero db1], rule that, assumption+)
  have result: "reconcile_program_room_assignments cx now event_id db = (Inr counts, db')"
    using run(1) assms(1)
    by (simp add: reconcile_program_room_assignments_def require_event_def tx_bind_def tx_then_def
        event_mappings_def event_program_def db1_def)
  have mem: "(l, s) \<in> set ?entries \<longleftrightarrow> s \<in> set ?ss \<and> sss_active s \<and> session_label s = Some l" for l s
    by (simp add: sessions_by_label_entries(1))
  have frame: "only_assignments db db'"
    using only_assignments.trans [OF _ run(2)] by (simp add: db1_def)
  show thesis
  proof (rule that [OF result frame])
    show "rc_mapped_sessions counts + rc_unmapped_sessions counts = length (labelled_sessions ?ss)"
      using run(3) by (simp add: sessions_by_label_entries(2))
  next
    fix i assume "i \<notin> {sss_session_id s |s. s \<in> set ?ss \<and> sss_active s \<and> session_label s \<noteq> None}"
    then have "i \<notin> (\<lambda>(l, s). sss_session_id s) ` set ?entries" by (auto simp: mem)
    from run(4) [OF this] show "filter (active_for i) (sd_room_assignments db')
        = filter (active_for i) (retire_undesired now ?ms ?ss (sd_room_assignments db))"
      by (simp add: db1_def)
  next
    fix l s assume "s \<in> set ?ss" "sss_active s" "session_label s = Some l"
    then have "(l, s) \<in> set ?entries" by (simp add: mem)
    from run(5) [OF this] show "placement_done (label_placement event ?ms (sd_rooms db) l) s
        (filter (active_for (sss_session_id s)) (retire_undesired now ?ms ?ss (sd_room_assignments db)))
        (filter (active_for (sss_session_id s)) (sd_room_assignments db'))"
      by (simp add: db1_def)
  qed
qed

text \<open>An ended assignment is never touched again.\<close>

definition ended_kept :: "site_db \<Rightarrow> site_db \<Rightarrow> bool" where
  "ended_kept db db' \<longleftrightarrow>
     (\<forall>a \<in> set (sd_room_assignments db). \<not> sra_active a \<longrightarrow> a \<in> set (sd_room_assignments db'))"

interpretation ended_kept: tx_relation ended_kept
  by standard (auto simp: ended_kept_def)

lemma update_first_mem: "r \<in> set rows \<Longrightarrow> \<not> P r \<Longrightarrow> r \<in> set (update_first P f rows)"
  by (induction rows) auto

lemma ended_kept_writes:
  "ended_kept db (change_assignment i f db)" "ended_kept db (site_minted db)"
  "ended_kept db (db\<lparr>sd_room_assignments := sd_room_assignments db @ rows\<rparr>)"
  by (auto simp: ended_kept_def change_assignment_def active_for_def site_minted_def intro: update_first_mem)

lemma ended_kept_new_id: "tx_keeps ended_kept (site_new_id cx)"
  by (rule ended_kept.keepsI) (simp add: site_new_id_def ended_kept_writes)

lemma place_session_ended: "tx_keeps ended_kept (place_session cx now event ms entry n)"
  unfolding place_session_def
  by (intro ended_kept.keeps_rules ended_kept_writes ended_kept_new_id)

lemma reconcile_ended:
  assumes "reconcile_program_room_assignments cx now event_id db = (Inr counts, db')"
    and "a \<in> set (sd_room_assignments db)" "sra_active a" "sra_program_room_mapping_id a \<noteq> None"
    and "sra_session_id a \<in> sss_session_id ` set (event_program event_id db)"
    and "\<not> assignment_desired (event_mappings event_id db) (event_program event_id db) a"
  shows "end_assignment now a \<in> set (sd_room_assignments db')"
proof -
  let ?ms = "event_mappings event_id db" and ?ss = "event_program event_id db"
  let ?db1 = "db\<lparr>sd_room_assignments := retire_undesired now ?ms ?ss (sd_room_assignments db)\<rparr>"
  obtain event n where "tx_fold (place_session cx now event ?ms) (label_entries (sessions_by_label ?ss)) n ?db1
      = (Inr counts, db')"
    using assms(1) by (auto simp: reconcile_program_room_assignments_def require_event_def tx_bind_eq_Inr
        tx_then_eq_Inr event_mappings_def event_program_def split: option.splits)
  moreover have "tx_keeps ended_kept (tx_fold (place_session cx now event ?ms) es n)" for event es n
    by (intro ended_kept.keeps_fold place_session_ended)
  ultimately have kept: "ended_kept ?db1 db'" by (blast intro: ended_kept.keeps_run)
  have "end_assignment now a \<in> set (sd_room_assignments ?db1)"
    using assms(2-6) by (auto simp: retire_undesired_def image_iff intro!: bexI [of _ a])
  with kept show ?thesis by (simp add: ended_kept_def)
qed

section \<open>Properties\<close>

text \<open>C25: bringing the room assignments of an event in line with its location mappings never fails on a
  known event and touches nothing but assignments. It keeps at most one active assignment per session.
  Every active session with a location ends as its mapping asks: in the mapped room with the session's own
  times, or without any assignment when the operator unmapped the location, or as it was when there is no
  usable mapping. A session that is no longer active, or has no location, keeps no assignment made by a
  mapping; sessions of other events keep theirs; and every active session with a location is counted
  once.\<close>

theorem reconcile_assigns_rooms:
  assumes "row_get sev_event_id (sd_events db) event_id = Some event"
    and "keyed sss_session_id (sd_program_sessions db)"
    and "one_active_assignment (sd_room_assignments db)"
  shows "\<exists>counts db'. reconcile_program_room_assignments cx now event_id db = (Inr counts, db')
    \<and> only_assignments db db' \<and> one_active_assignment (sd_room_assignments db')
    \<and> rc_mapped_sessions counts + rc_unmapped_sessions counts = length (labelled_sessions (event_program event_id db))
    \<and> (\<forall>s l. s \<in> set (event_program event_id db) \<and> sss_active s \<and> session_label s = Some l \<longrightarrow>
         session_settled (label_placement event (event_mappings event_id db) (sd_rooms db) l) s
           (filter (active_for (sss_session_id s)) (retire_undesired now (event_mappings event_id db)
              (event_program event_id db) (sd_room_assignments db)))
           (filter (active_for (sss_session_id s)) (sd_room_assignments db')))
    \<and> (\<forall>s a. s \<in> set (event_program event_id db) \<and> \<not> (sss_active s \<and> session_label s \<noteq> None)
         \<and> a \<in> set (sd_room_assignments db') \<and> active_for (sss_session_id s) a
         \<longrightarrow> sra_program_room_mapping_id a = None)
    \<and> (\<forall>i. i \<notin> sss_session_id ` set (event_program event_id db) \<longrightarrow>
         filter (active_for i) (sd_room_assignments db') = filter (active_for i) (sd_room_assignments db))"
proof -
  let ?ms = "event_mappings event_id db" and ?ss = "event_program event_id db"
  let ?retired = "retire_undesired now ?ms ?ss (sd_room_assignments db)"
  have keyed: "keyed sss_session_id ?ss"
    using assms(2) by (simp add: keyed_def event_program_def distinct_map_filter)
  have one1: "\<And>i. length (filter (active_for i) ?retired) \<le> 1"
    using retire_one_active [OF assms(3)] unfolding one_active_iff by simp
  obtain counts db' where result: "reconcile_program_room_assignments cx now event_id db = (Inr counts, db')"
    and frame: "only_assignments db db'"
    and sums: "rc_mapped_sessions counts + rc_unmapped_sessions counts = length (labelled_sessions ?ss)"
    and other: "\<And>i. i \<notin> {sss_session_id s |s. s \<in> set ?ss \<and> sss_active s \<and> session_label s \<noteq> None} \<Longrightarrow>
        filter (active_for i) (sd_room_assignments db') = filter (active_for i) ?retired"
    and own: "\<And>l s. s \<in> set ?ss \<Longrightarrow> sss_active s \<Longrightarrow> session_label s = Some l \<Longrightarrow>
        placement_done (label_placement event ?ms (sd_rooms db) l) s
        (filter (active_for (sss_session_id s)) ?retired)
        (filter (active_for (sss_session_id s)) (sd_room_assignments db'))"
    by (rule reconcile_effect [OF assms(1) keyed, of cx now], rule that, assumption+)
  have unlabelled: "sra_program_room_mapping_id a = None"
    if s: "s \<in> set ?ss" "\<not> (sss_active s \<and> session_label s \<noteq> None)"
      and a: "a \<in> set (sd_room_assignments db')" "active_for (sss_session_id s) a" for s a
  proof -
    have "sss_session_id s \<notin> {sss_session_id s |s. s \<in> set ?ss \<and> sss_active s \<and> session_label s \<noteq> None}"
      using s keyed by (auto simp: keyed_def distinct_map dest: inj_onD)
    from other [OF this] have "set (filter (active_for (sss_session_id s)) (sd_room_assignments db'))
        = set (filter (active_for (sss_session_id s)) ?retired)" by simp
    with a have "a \<in> set (filter (active_for (sss_session_id s)) ?retired)" by auto
    then show ?thesis
      using s desired_session [OF _ keyed s(1), of ?ms a] by (auto simp: filter_retire active_for_def)
  qed
  have "length (filter (active_for i) (sd_room_assignments db')) \<le> 1" for i
    using own other [of i] one1 [of i] placement_done_length by (cases "i \<in> {sss_session_id s |s. s \<in> set ?ss
        \<and> sss_active s \<and> session_label s \<noteq> None}") (auto, blast)
  then have one: "one_active_assignment (sd_room_assignments db')" by (simp add: one_active_iff)
  have outside: "filter (active_for i) (sd_room_assignments db') = filter (active_for i) (sd_room_assignments db)"
    if "i \<notin> sss_session_id ` set ?ss" for i
    using that other [of i] by (auto simp: filter_retire)
  show ?thesis
    using result frame one sums unlabelled outside placement_settled [OF own one1] by blast
qed

definition demo_room_db :: site_db where
  "demo_room_db = empty_site_db\<lparr>
     sd_events := [(default_site_event 0)\<lparr>sev_event_id := 1, sev_site_id := 7\<rparr>],
     sd_program_sessions := [(default_site_session 0)\<lparr>sss_session_id := 3, sss_event_id := 1,
        sss_starts_at := Some 100, sss_ends_at := Some 200, sss_location_name := Some '' Hall  A ''\<rparr>],
     sd_rooms := [(default_site_room 0)\<lparr>sro_room_id := 5, sro_site_id := 7, sro_label := ''Hall A''\<rparr>],
     sd_room_mappings := [(default_site_program_room_mapping 0)\<lparr>srm_program_room_mapping_id := 6,
        srm_site_id := 7, srm_event_id := 1, srm_normalized_imported_label := ''hall a'', srm_room_id := Some 5\<rparr>]\<rparr>"

lemma demo_room_facts:
  "row_get sev_event_id (sd_events demo_room_db) 1 = Some ((default_site_event 0)\<lparr>sev_event_id := 1, sev_site_id := 7\<rparr>)"
  "keyed sss_session_id (sd_program_sessions demo_room_db)"
  "one_active_assignment (sd_room_assignments demo_room_db)"
  by (simp_all add: demo_room_db_def empty_site_db_def default_site_event_def one_active_assignment_def)

lemma demo_room_label:
  "map session_label (event_program 1 demo_room_db) = [Some ''hall a'']"
  "label_placement ((default_site_event 0)\<lparr>sev_event_id := 1, sev_site_id := 7\<rparr>)
     (event_mappings 1 demo_room_db) (sd_rooms demo_room_db) ''hall a'' = Put 5 6"
  by code_simp+

theorem reconcile_assigns_rooms_witness:
  "\<exists>counts (db' :: site_db) s a. reconcile_program_room_assignments demo_codec 50 1 demo_room_db = (Inr counts, db')
     \<and> event_program 1 demo_room_db = [s]
     \<and> filter (active_for (sss_session_id s)) (sd_room_assignments db') = [a] \<and> assignment_for 5 6 s a"
proof -
  obtain s where s: "event_program 1 demo_room_db = [s]" "session_label s = Some ''hall a''"
    using demo_room_label(1) by (cases "event_program 1 demo_room_db") auto
  moreover have "sss_active s"
    using s(1) by (auto simp: event_program_def demo_room_db_def default_site_session_def)
  ultimately show ?thesis
    using reconcile_assigns_rooms [OF demo_room_facts, of demo_codec 50] demo_room_label(2)
    by (fastforce simp: session_settled_def)
qed

text \<open>C26: ending an assignment stamps \<open>ends_at\<close> with the current time. When a mapping's assignment is ended
  because its session left the program, and that session was to start now or later, the row violates the
  CHECK \<open>ends_at > starts_at\<close>: the reconciliation itself succeeds and the next flush fails.\<close>

theorem ending_future_assignment_breaks_flush:
  assumes "row_get sev_event_id (sd_events db) event_id = Some event"
    and "keyed sss_session_id (sd_program_sessions db)"
    and "one_active_assignment (sd_room_assignments db)"
    and "s \<in> set (event_program event_id db)" "\<not> sss_active s"
    and "a \<in> set (sd_room_assignments db)" "sra_active a" "sra_session_id a = sss_session_id s"
    and "sra_program_room_mapping_id a \<noteq> None" "sra_starts_at a = Some t" "now \<le> t"
  shows "\<exists>counts db'. reconcile_program_room_assignments cx now event_id db = (Inr counts, db')
    \<and> site_flush db' = (Inl (IntegrityError ''constraint''), db')"
proof -
  have keyed: "keyed sss_session_id (event_program event_id db)"
    using assms(2) by (simp add: keyed_def event_program_def distinct_map_filter)
  obtain counts db' where run: "reconcile_program_room_assignments cx now event_id db = (Inr counts, db')"
    by (rule reconcile_effect [OF assms(1) keyed, of cx now])
  have "\<not> assignment_desired (event_mappings event_id db) (event_program event_id db) a"
    using desired_session [OF _ keyed assms(4,8)] assms(5) by blast
  then have "end_assignment now a \<in> set (sd_room_assignments db')"
    using assms by (intro reconcile_ended [OF run]) auto
  moreover have "\<not> valid_time_range (end_assignment now a)"
    using assms(10,11) by (simp add: valid_time_range_def)
  ultimately have "\<not> site_constraints db'"
    by (auto simp: site_constraints_def room_constraints_def list_all_iff)
  with run show ?thesis by (simp add: site_flush_def)
qed

definition demo_left_db :: site_db where
  "demo_left_db = demo_room_db\<lparr>
     sd_program_sessions := [(default_site_session 0)\<lparr>sss_session_id := 3, sss_event_id := 1, sss_active := False\<rparr>],
     sd_room_assignments := [(default_site_room_assignment 0)\<lparr>sra_room_id := 5, sra_session_id := 3,
        sra_program_room_mapping_id := Some 6, sra_starts_at := Some 100, sra_ends_at := Some 200\<rparr>]\<rparr>"

theorem ending_future_assignment_breaks_flush_witness:
  "\<exists>counts (db' :: site_db). reconcile_program_room_assignments demo_codec 50 1 demo_left_db = (Inr counts, db')
     \<and> site_flush db' = (Inl (IntegrityError ''constraint''), db')"
  by (rule ending_future_assignment_breaks_flush
      [of _ 1 "(default_site_event 0)\<lparr>sev_event_id := 1, sev_site_id := 7\<rparr>" "hd (sd_program_sessions demo_left_db)"
        "hd (sd_room_assignments demo_left_db)" 100])
    (simp_all add: demo_left_db_def demo_room_db_def empty_site_db_def default_site_event_def
      one_active_assignment_def event_program_def default_site_session_def default_site_room_assignment_def)

section \<open>Default rooms\<close>

definition mapping_made ::
  "site_event \<Rightarrow> site_db \<Rightarrow> (string \<times> string) list \<Rightarrow> site_room list \<Rightarrow> site_program_room_mapping \<Rightarrow> bool" where
  "mapping_made event db0 labels rooms m \<longleftrightarrow>
     srm_event_id m = sev_event_id event \<and> srm_site_id m = sev_site_id event
     \<and> (srm_normalized_imported_label m, srm_imported_label m) \<in> set labels
     \<and> (\<exists>r \<in> set rooms. srm_room_id m = Some (sro_room_id r) \<and> sro_site_id r = sev_site_id event
          \<and> (sro_label r = srm_imported_label m
             \<or> candidate_rooms (srm_normalized_imported_label m) (room_index_of (sev_site_id event) db0) = [r]))"

text \<open>What the loop has achieved after the labels given.\<close>

definition materialized ::
  "site_event \<Rightarrow> string list \<Rightarrow> site_db \<Rightarrow> (string \<times> string) list \<Rightarrow> room_index \<times> materialize_counts \<Rightarrow> site_db \<Rightarrow> bool" where
  "materialized event excluded db0 labels carry db \<longleftrightarrow>
     (\<exists>added maps k. fst carry = room_index_of (sev_site_id event) db0 @ added
        \<and> db = db0\<lparr>sd_rooms := sd_rooms db0 @ map fst added, sd_room_mappings := sd_room_mappings db0 @ maps,
                   sd_minted := k\<rparr>
        \<and> site_constraints db
        \<and> (\<forall>e \<in> set added. sro_site_id (fst e) = sev_site_id event \<and> snd e \<in> fst ` set labels)
        \<and> (\<forall>m \<in> set maps. mapping_made event db0 labels (sd_rooms db) m
             \<and> srm_normalized_imported_label m \<notin> set (mapped_labels (sev_event_id event) db0)
             \<and> srm_normalized_imported_label m \<notin> set excluded)
        \<and> (\<forall>x \<in> fst ` set labels. x \<in> set excluded \<or> x \<in> set (mapped_labels (sev_event_id event) db)
             \<or> 2 \<le> length (candidate_rooms x (room_index_of (sev_site_id event) db0)))
        \<and> mc_created_rooms (snd carry) = length added \<and> mc_created_mappings (snd carry) = length maps)"

lemma constraints_rooms:
  "site_constraints (db\<lparr>sd_rooms := rooms, sd_room_mappings := maps, sd_minted := k\<rparr>) \<longleftrightarrow>
     user_constraints db \<and> program_constraints db \<and> deployment_constraints db
     \<and> one_active_assignment (sd_room_assignments db) \<and> list_all valid_time_range (sd_room_assignments db)
     \<and> keyed (\<lambda>r. (sro_site_id r, sro_label r)) rooms
     \<and> keyed (\<lambda>m. (srm_event_id m, srm_normalized_imported_label m)) maps"
  by (auto simp: site_constraints_def user_constraints_def program_constraints_def deployment_constraints_def
      room_constraints_def)

lemma create_mapping_run:
  "create_mapping cx now event x l i db =
     (Inr (), db\<lparr>sd_room_mappings := sd_room_mappings db @
       [(default_site_program_room_mapping now)\<lparr>srm_program_room_mapping_id := site_fresh cx db,
          srm_site_id := sev_site_id event, srm_event_id := sev_event_id event,
          srm_imported_label := l, srm_normalized_imported_label := x,
          srm_room_id := Some i, srm_confirmed_by := ''deployment-auto-materialization''\<rparr>],
       sd_minted := Suc (sd_minted db)\<rparr>)"
  by (simp add: create_mapping_def tx_bind_def site_new_id_def site_minted_def)

lemma candidate_append: "candidate_rooms x (idx @ idx') = candidate_rooms x idx @ candidate_rooms x idx'"
  by (simp add: candidate_rooms_def)

lemma candidate_none: "x \<notin> snd ` set idx \<Longrightarrow> candidate_rooms x idx = []"
  by (force simp: candidate_rooms_def filter_empty_conv)

lemma exact_room_Some: "exact_room l idx = Some r \<Longrightarrow> r \<in> fst ` set idx \<and> sro_label r = l"
  by (auto simp: exact_room_def dest!: find_SomeD split: prod.splits) force

lemma exact_room_None: "exact_room l idx = None \<Longrightarrow> r \<in> fst ` set idx \<Longrightarrow> sro_label r \<noteq> l"
  by (auto simp: exact_room_def find_None_iff)

lemma index_rooms: "fst ` set (room_index_of i db) = {r \<in> set (sd_rooms db). sro_site_id r = i}"
  by (force simp: room_index_of_def)

lemma mapped_labels_append:
  "mapped_labels i (db\<lparr>sd_rooms := rs, sd_room_mappings := sd_room_mappings db @ ms, sd_minted := k\<rparr>)
     = mapped_labels i db @ map srm_normalized_imported_label (filter (\<lambda>m. srm_event_id m = i) ms)"
  by (simp add: mapped_labels_def)

lemma mapping_made_mono:
  "mapping_made event db0 labels rooms m \<Longrightarrow> set labels \<subseteq> set labels' \<Longrightarrow> set rooms \<subseteq> set rooms' \<Longrightarrow>
     mapping_made event db0 labels' rooms' m"
  by (auto simp: mapping_made_def)

lemma materialized_skip:
  assumes "materialized event excluded db0 labels (idx, n) db"
    and "x \<in> set excluded \<or> x \<in> set (mapped_labels (sev_event_id event) db)
      \<or> 2 \<le> length (candidate_rooms x (room_index_of (sev_site_id event) db0))"
    and "mc_created_rooms n' = mc_created_rooms n" "mc_created_mappings n' = mc_created_mappings n"
  shows "materialized event excluded db0 (labels @ [(x, l)]) (idx, n') db"
proof -
  obtain added maps k where *: "idx = room_index_of (sev_site_id event) db0 @ added"
    "db = db0\<lparr>sd_rooms := sd_rooms db0 @ map fst added, sd_room_mappings := sd_room_mappings db0 @ maps, sd_minted := k\<rparr>"
    "site_constraints db"
    "\<forall>e \<in> set added. sro_site_id (fst e) = sev_site_id event \<and> snd e \<in> fst ` set labels"
    "\<forall>m \<in> set maps. mapping_made event db0 labels (sd_rooms db) m
       \<and> srm_normalized_imported_label m \<notin> set (mapped_labels (sev_event_id event) db0)
       \<and> srm_normalized_imported_label m \<notin> set excluded"
    "\<forall>x \<in> fst ` set labels. x \<in> set excluded \<or> x \<in> set (mapped_labels (sev_event_id event) db)
       \<or> 2 \<le> length (candidate_rooms x (room_index_of (sev_site_id event) db0))"
    "mc_created_rooms n = length added" "mc_created_mappings n = length maps"
    using assms(1) unfolding materialized_def fst_conv snd_conv by - (elim exE conjE, rule that, assumption+)
  show ?thesis
    unfolding materialized_def fst_conv snd_conv
  proof (intro exI [of _ added] exI [of _ maps] exI [of _ k] conjI)
    show "\<forall>m \<in> set maps. mapping_made event db0 (labels @ [(x, l)]) (sd_rooms db) m
       \<and> srm_normalized_imported_label m \<notin> set (mapped_labels (sev_event_id event) db0)
       \<and> srm_normalized_imported_label m \<notin> set excluded"
      using *(5) by (auto intro: mapping_made_mono [of event db0 labels "sd_rooms db"])
    show "\<forall>y \<in> fst ` set (labels @ [(x, l)]). y \<in> set excluded \<or> y \<in> set (mapped_labels (sev_event_id event) db)
       \<or> 2 \<le> length (candidate_rooms y (room_index_of (sev_site_id event) db0))"
      using *(6) assms(2) by auto
    show "\<forall>e \<in> set added. sro_site_id (fst e) = sev_site_id event \<and> snd e \<in> fst ` set (labels @ [(x, l)])"
      using *(4) by auto
  qed (use * assms(3,4) in \<open>assumption | simp\<close>)+
qed

lemma materialized_extend:
  assumes "materialized event excluded db0 labels (idx, n) db"
    and "x \<notin> set excluded" "x \<notin> set (mapped_labels (sev_event_id event) db)"
    and "\<forall>e \<in> set new. sro_site_id (fst e) = sev_site_id event \<and> snd e = x"
    and "keyed (\<lambda>r. (sro_site_id r, sro_label r)) (sd_rooms db @ map fst new)"
    and m: "srm_event_id m = sev_event_id event" "srm_normalized_imported_label m = x"
    and "mapping_made event db0 (labels @ [(x, l)]) (sd_rooms db @ map fst new) m"
    and "mc_created_rooms n' = mc_created_rooms n + length new" "mc_created_mappings n' = mc_created_mappings n + 1"
  shows "materialized event excluded db0 (labels @ [(x, l)]) (idx @ new, n')
    (db\<lparr>sd_rooms := sd_rooms db @ map fst new, sd_room_mappings := sd_room_mappings db @ [m], sd_minted := k'\<rparr>)"
proof -
  obtain added maps k where *: "idx = room_index_of (sev_site_id event) db0 @ added"
    and db: "db = db0\<lparr>sd_rooms := sd_rooms db0 @ map fst added, sd_room_mappings := sd_room_mappings db0 @ maps, sd_minted := k\<rparr>"
    and con: "site_constraints db"
    and adds: "\<forall>e \<in> set added. sro_site_id (fst e) = sev_site_id event \<and> snd e \<in> fst ` set labels"
    and ok: "\<forall>m \<in> set maps. mapping_made event db0 labels (sd_rooms db) m
       \<and> srm_normalized_imported_label m \<notin> set (mapped_labels (sev_event_id event) db0)
       \<and> srm_normalized_imported_label m \<notin> set excluded"
    and cover: "\<forall>x \<in> fst ` set labels. x \<in> set excluded \<or> x \<in> set (mapped_labels (sev_event_id event) db)
       \<or> 2 \<le> length (candidate_rooms x (room_index_of (sev_site_id event) db0))"
    and counts: "mc_created_rooms n = length added" "mc_created_mappings n = length maps"
    using assms(1) unfolding materialized_def fst_conv snd_conv by - (elim exE conjE, rule that, assumption+)
  let ?db = "db\<lparr>sd_rooms := sd_rooms db @ map fst new, sd_room_mappings := sd_room_mappings db @ [m], sd_minted := k'\<rparr>"
  have labels: "set (mapped_labels (sev_event_id event) ?db) = insert x (set (mapped_labels (sev_event_id event) db))"
    using m by (simp add: mapped_labels_def)
  have old: "set (mapped_labels (sev_event_id event) db0) \<subseteq> set (mapped_labels (sev_event_id event) db)"
    by (simp add: db mapped_labels_append)
  have "keyed (\<lambda>m. (srm_event_id m, srm_normalized_imported_label m)) (sd_room_mappings db @ [m])"
    using con assms(3) m by (auto simp: site_constraints_def room_constraints_def mapped_labels_def)
  then have con': "site_constraints ?db"
    using con assms(5) by (simp add: constraints_rooms)
      (simp add: site_constraints_def room_constraints_def)
  show ?thesis
    unfolding materialized_def fst_conv snd_conv
  proof (intro exI [of _ "added @ new"] exI [of _ "maps @ [m]"] exI [of _ k'] conjI)
    show "\<forall>m' \<in> set (maps @ [m]). mapping_made event db0 (labels @ [(x, l)]) (sd_rooms ?db) m'
       \<and> srm_normalized_imported_label m' \<notin> set (mapped_labels (sev_event_id event) db0)
       \<and> srm_normalized_imported_label m' \<notin> set excluded"
      using ok assms(2,3,8) m old
      by (auto intro: mapping_made_mono [of event db0 labels "sd_rooms db"])
    show "\<forall>y \<in> fst ` set (labels @ [(x, l)]). y \<in> set excluded \<or> y \<in> set (mapped_labels (sev_event_id event) ?db)
       \<or> 2 \<le> length (candidate_rooms y (room_index_of (sev_site_id event) db0))"
      using cover by (auto simp: labels)
    show "\<forall>e \<in> set (added @ new). sro_site_id (fst e) = sev_site_id event \<and> snd e \<in> fst ` set (labels @ [(x, l)])"
      using adds assms(4) by auto
    show "site_constraints ?db" by (rule con')
    show "?db = db0\<lparr>sd_rooms := sd_rooms db0 @ map fst (added @ new),
        sd_room_mappings := sd_room_mappings db0 @ maps @ [m], sd_minted := k'\<rparr>"
      by (simp add: db)
  qed (simp_all add: * counts assms(9,10))
qed

lemma materialized_state:
  assumes "materialized event excluded db0 labels (idx, n) db"
  shows "site_constraints db" "fst ` set idx = {r \<in> set (sd_rooms db). sro_site_id r = sev_site_id event}"
    "x \<notin> fst ` set labels \<Longrightarrow>
       candidate_rooms x idx = candidate_rooms x (room_index_of (sev_site_id event) db0)"
proof -
  obtain added maps k where idx: "idx = room_index_of (sev_site_id event) db0 @ added"
    and db: "db = db0\<lparr>sd_rooms := sd_rooms db0 @ map fst added, sd_room_mappings := sd_room_mappings db0 @ maps, sd_minted := k\<rparr>"
    and con: "site_constraints db"
    and adds: "\<forall>e \<in> set added. sro_site_id (fst e) = sev_site_id event \<and> snd e \<in> fst ` set labels"
    using assms unfolding materialized_def fst_conv snd_conv by blast
  show "site_constraints db" by (rule con)
  show "fst ` set idx = {r \<in> set (sd_rooms db). sro_site_id r = sev_site_id event}"
    using adds by (auto simp: idx db image_Un index_rooms)
  assume "x \<notin> fst ` set labels"
  with adds have "x \<notin> snd ` set added" by auto
  then show "candidate_rooms x idx = candidate_rooms x (room_index_of (sev_site_id event) db0)"
    by (simp add: idx candidate_append candidate_none)
qed

lemma create_room_run:
  assumes "site_constraints db" "\<And>r. r \<in> set (sd_rooms db) \<Longrightarrow> sro_site_id r = sev_site_id event \<Longrightarrow> sro_label r \<noteq> l"
  obtains room where "create_room cx now event l db =
      (Inr room, db\<lparr>sd_rooms := sd_rooms db @ [room], sd_minted := Suc (sd_minted db)\<rparr>)"
    and "sro_site_id room = sev_site_id event" "sro_label room = l"
    and "keyed (\<lambda>r. (sro_site_id r, sro_label r)) (sd_rooms db @ [room])"
proof -
  let ?room = "(default_site_room now)\<lparr>sro_room_id := site_fresh cx db, sro_site_id := sev_site_id event,
      sro_event_id := Some (sev_event_id event), sro_label := l\<rparr>"
  let ?db = "db\<lparr>sd_rooms := sd_rooms db @ [?room], sd_minted := Suc (sd_minted db)\<rparr>"
  have keyed: "keyed (\<lambda>r. (sro_site_id r, sro_label r)) (sd_rooms db @ [?room])"
    using assms by (fastforce simp: site_constraints_def room_constraints_def)
  have "site_constraints (db\<lparr>sd_rooms := sd_rooms db @ [?room], sd_room_mappings := sd_room_mappings db,
      sd_minted := Suc (sd_minted db)\<rparr>)"
    unfolding constraints_rooms using assms(1) keyed by (simp add: site_constraints_def room_constraints_def)
  then have con: "site_constraints ?db" by simp
  have order: "db\<lparr>sd_minted := k, sd_rooms := rs\<rparr> = db\<lparr>sd_rooms := rs, sd_minted := k\<rparr>" for k rs
    by (cases db) simp
  have "create_room cx now event l db = (Inr ?room, ?db)"
    by (simp add: create_room_def tx_bind_def tx_then_def site_new_id_def site_minted_def site_flush_def Let_def
        order con)
  with keyed show thesis by (intro that [of ?room]) simp_all
qed

lemma materialize_label_step:
  assumes inv: "materialized event excluded db0 labels (idx, n) db" and new: "x \<notin> fst ` set labels"
  obtains carry db' where "materialize_label cx now event excluded (x, l) (idx, n) db = (Inr carry, db')"
    and "materialized event excluded db0 (labels @ [(x, l)]) carry db'"
proof -
  note finish = that
  note state = materialized_state [OF inv]
  note cands = state(3) [OF new]
  let ?map = "\<lambda>db i. (default_site_program_room_mapping now)\<lparr>srm_program_room_mapping_id := site_fresh cx db,
      srm_site_id := sev_site_id event, srm_event_id := sev_event_id event, srm_imported_label := l,
      srm_normalized_imported_label := x, srm_room_id := Some i,
      srm_confirmed_by := ''deployment-auto-materialization''\<rparr>"
  let ?n1 = "n\<lparr>mc_reused_rooms := mc_reused_rooms n + 1, mc_created_mappings := mc_created_mappings n + 1\<rparr>"
  let ?n2 = "n\<lparr>mc_created_rooms := mc_created_rooms n + 1, mc_created_mappings := mc_created_mappings n + 1\<rparr>"
  let ?skip = "x \<in> set (mapped_labels (sev_event_id event) db) \<or> x \<in> set excluded"
  have keyed: "keyed (\<lambda>r. (sro_site_id r, sro_label r)) (sd_rooms db)"
    using state(1) by (simp add: site_constraints_def room_constraints_def)
  have reuse: thesis
    if "\<not> ?skip" and r: "r \<in> fst ` set idx" "sro_label r = l \<or> candidate_rooms x idx = [r]"
      and run: "materialize_label cx now event excluded (x, l) (idx, n) db =
        tx_then (create_mapping cx now event x l (sro_room_id r)) (tx_return (idx, ?n1)) db" for r
  proof -
    have "mapping_made event db0 (labels @ [(x, l)]) (sd_rooms db @ map fst ([] :: room_index)) (?map db (sro_room_id r))"
      using r cands state(2) by (auto simp: mapping_made_def)
    then have "materialized event excluded db0 (labels @ [(x, l)]) (idx @ [], ?n1) (db\<lparr>sd_rooms := sd_rooms db @ map fst ([] :: room_index),
        sd_room_mappings := sd_room_mappings db @ [?map db (sro_room_id r)], sd_minted := Suc (sd_minted db)\<rparr>)"
      using that(1) keyed by - (rule materialized_extend [OF inv], simp_all)
    then show thesis
      using run by (intro finish) (simp_all add: tx_then_def tx_bind_def create_mapping_run)
  qed
  consider (skip) ?skip | (exact) r where "\<not> ?skip" "exact_room l idx = Some r"
    | (one) r where "\<not> ?skip" "exact_room l idx = None" "candidate_rooms x idx = [r]"
    | (none) "\<not> ?skip" "exact_room l idx = None" "candidate_rooms x idx = []"
    | (many) "\<not> ?skip" "exact_room l idx = None" "2 \<le> length (candidate_rooms x idx)"
    by (cases "candidate_rooms x idx"; cases "tl (candidate_rooms x idx)"; cases "exact_room l idx") fastforce+
  then show thesis
  proof cases
    case skip
    then show thesis
      using materialized_skip [OF inv, of x n l]
      by (intro that [of "(idx, n)" db]) (auto simp: materialize_label_def tx_bind_def)
  next
    case exact
    then show thesis
      using exact_room_Some [of l idx r]
      by (intro reuse [of r]) (auto simp: materialize_label_def tx_bind_def)
  next
    case one
    then have "r \<in> fst ` set idx" by (force simp: candidate_rooms_def map_eq_Cons_conv filter_eq_Cons_iff)
    with one show thesis by (intro reuse [of r]) (auto simp: materialize_label_def tx_bind_def)
  next
    case many
    then show thesis
      using materialized_skip [OF inv, of x "n\<lparr>mc_ambiguous_labels := mc_ambiguous_labels n + 1\<rparr>" l] cands
      by (intro that [of "(idx, n\<lparr>mc_ambiguous_labels := mc_ambiguous_labels n + 1\<rparr>)" db])
        (auto simp: materialize_label_def tx_bind_def split: list.splits)
  next
    case none
    obtain room where room: "create_room cx now event l db =
        (Inr room, db\<lparr>sd_rooms := sd_rooms db @ [room], sd_minted := Suc (sd_minted db)\<rparr>)"
      "sro_site_id room = sev_site_id event" "sro_label room = l"
      "keyed (\<lambda>r. (sro_site_id r, sro_label r)) (sd_rooms db @ [room])"
      using create_room_run [OF state(1), of event l cx now] exact_room_None [OF none(2)] state(2) by blast
    let ?db = "db\<lparr>sd_rooms := sd_rooms db @ [room], sd_minted := Suc (sd_minted db)\<rparr>"
    have "mapping_made event db0 (labels @ [(x, l)]) (sd_rooms db @ map fst [(room, x)]) (?map ?db (sro_room_id room))"
      using room by (simp add: mapping_made_def)
    then have "materialized event excluded db0 (labels @ [(x, l)]) (idx @ [(room, x)], ?n2)
       (db\<lparr>sd_rooms := sd_rooms db @ map fst [(room, x)],
        sd_room_mappings := sd_room_mappings db @ [?map ?db (sro_room_id room)], sd_minted := Suc (Suc (sd_minted db))\<rparr>)"
      using none(1) room by - (rule materialized_extend [OF inv], simp_all)
    then show thesis
      using none room(1)
      by (intro that) (simp_all add: materialize_label_def tx_bind_def tx_then_def create_mapping_run)
  qed
qed

lemma materialize_labels_loop:
  assumes "materialized event excluded db0 seen carry db" "distinct (map fst (seen @ labels))"
  obtains carry' db' where "tx_fold (materialize_label cx now event excluded) labels carry db = (Inr carry', db')"
    and "materialized event excluded db0 (seen @ labels) carry' db'"
  using assms
proof (induction labels arbitrary: seen carry db thesis)
  case Nil
  then show ?case by simp
next
  case (Cons entry labels)
  obtain x l where entry: "entry = (x, l)" by (cases entry)
  obtain idx n where carry: "carry = (idx, n)" by (cases carry)
  have "x \<notin> fst ` set seen" using Cons.prems(3) by (auto simp: entry)
  then obtain carry1 db1 where one: "materialize_label cx now event excluded (x, l) (idx, n) db = (Inr carry1, db1)"
    "materialized event excluded db0 (seen @ [(x, l)]) carry1 db1"
    using materialize_label_step Cons.prems(2) unfolding carry by blast
  have "distinct (map fst ((seen @ [(x, l)]) @ labels))" using Cons.prems(3) by (simp add: entry)
  then obtain carry2 db2 where "tx_fold (materialize_label cx now event excluded) labels carry1 db1 = (Inr carry2, db2)"
    "materialized event excluded db0 ((seen @ [(x, l)]) @ labels) carry2 db2"
    using Cons.IH [OF _ one(2)] by blast
  with one(1) show ?case by (intro Cons.prems(1)) (simp_all add: entry carry tx_bind_Inr)
qed

lemma program_labels_distinct: "distinct (map fst (program_labels event_id db))"
proof -
  have "distinct (map fst ls) \<Longrightarrow> distinct (map fst (fold add_label ss ls))" for ss ls
    by (induction ss arbitrary: ls) (auto simp: add_label_def setdefault_def image_iff split: option.splits)
  then show ?thesis by (simp add: program_labels_def)
qed

lemma program_labels_cover:
  assumes "s \<in> set (event_program event_id db)" "sss_active s" "session_label s = Some x"
  shows "x \<in> fst ` set (program_labels event_id db)"
proof -
  have grow: "x \<in> fst ` set ls \<Longrightarrow> x \<in> fst ` set (fold add_label ss ls)" for ss ls
    by (induction ss arbitrary: ls) (auto simp: add_label_def setdefault_def image_iff split: option.splits)
  have "s \<in> set ss \<Longrightarrow> x \<in> fst ` set (fold add_label ss ls)" for ss ls
  proof (induction ss arbitrary: ls)
    case (Cons a ss)
    show ?case
    proof (cases "s = a")
      case True
      have "x \<in> fst ` set (add_label a ls)"
        using assms(3) True by (auto simp: session_label_def add_label_def setdefault_def)
      then show ?thesis by (simp add: grow)
    next
      case False
      with Cons show ?thesis by simp
    qed
  qed simp
  with assms(1,2) show ?thesis by (simp add: program_labels_def event_program_def)
qed

text \<open>C27: giving the program locations of an event default rooms always succeeds on a consistent database
  and leaves it consistent. Every existing room and every existing mapping, a deliberate unmapping included,
  stays as it is; each added mapping is for a location of the active program that had no mapping and was not
  excluded, and leads to a room of the event's Site that carries the label or is the only one whose normalised
  label agrees. Afterwards every location of the active program has a mapping, is excluded, or is ambiguous
  between several rooms.\<close>

theorem materialize_keeps_operator_mappings:
  assumes "row_get sev_event_id (sd_events db) event_id = Some event" and "site_constraints db"
  shows "\<exists>counts rooms maps k db'. materialize_program_room_mappings cx now excluded event_id db = (Inr counts, db')
    \<and> db' = db\<lparr>sd_rooms := sd_rooms db @ rooms, sd_room_mappings := sd_room_mappings db @ maps, sd_minted := k\<rparr>
    \<and> site_constraints db'
    \<and> (\<forall>m \<in> set maps. mapping_made event db (program_labels event_id db) (sd_rooms db') m
         \<and> srm_normalized_imported_label m \<notin> set (mapped_labels event_id db)
         \<and> srm_normalized_imported_label m \<notin> set excluded)
    \<and> (\<forall>s \<in> set (event_program event_id db). \<forall>x. sss_active s \<and> session_label s = Some x \<longrightarrow>
         x \<in> set excluded \<or> x \<in> set (mapped_labels event_id db')
         \<or> 2 \<le> length (candidate_rooms x (room_index_of (sev_site_id event) db)))
    \<and> mc_created_rooms counts = length rooms \<and> mc_created_mappings counts = length maps"
proof -
  let ?idx = "room_index_of (sev_site_id event) db" and ?labels = "program_labels event_id db"
  have id: "sev_event_id event = event_id" using row_get_SomeD [OF assms(1)] by simp
  have "materialized event excluded db [] (?idx, no_materialize_counts) db"
    unfolding materialized_def using assms(2)
    by (intro exI [of _ "[] :: room_index"] exI [of _ "[] :: site_program_room_mapping list"] exI [of _ "sd_minted db"])
      (simp add: no_materialize_counts_def)
  then obtain carry db' where loop: "tx_fold (materialize_label cx now event excluded) ?labels (?idx, no_materialize_counts) db
      = (Inr carry, db')" and inv: "materialized event excluded db ?labels carry db'"
    using materialize_labels_loop [of event excluded db "[]"] program_labels_distinct by (metis append_Nil)
  obtain added :: room_index and maps k where db': "db' = db\<lparr>sd_rooms := sd_rooms db @ map fst added,
        sd_room_mappings := sd_room_mappings db @ maps, sd_minted := k\<rparr>"
    and con: "site_constraints db'"
    and made: "\<forall>m \<in> set maps. mapping_made event db ?labels (sd_rooms db') m
       \<and> srm_normalized_imported_label m \<notin> set (mapped_labels (sev_event_id event) db)
       \<and> srm_normalized_imported_label m \<notin> set excluded"
    and cover: "\<forall>x \<in> fst ` set ?labels. x \<in> set excluded \<or> x \<in> set (mapped_labels (sev_event_id event) db')
       \<or> 2 \<le> length (candidate_rooms x ?idx)"
    and counts: "mc_created_rooms (snd carry) = length added" "mc_created_mappings (snd carry) = length maps"
    using inv unfolding materialized_def by - (elim exE conjE, rule that, assumption+)
  have run: "materialize_program_room_mappings cx now excluded event_id db = (Inr (snd carry), db')"
    using assms(1) loop con
    by (simp add: materialize_program_room_mappings_def require_event_def tx_bind_def tx_then_def site_flush_def
        split: prod.split)
  have "\<forall>s \<in> set (event_program event_id db). \<forall>x. sss_active s \<and> session_label s = Some x \<longrightarrow>
         x \<in> set excluded \<or> x \<in> set (mapped_labels event_id db') \<or> 2 \<le> length (candidate_rooms x ?idx)"
    using cover program_labels_cover unfolding id by blast
  moreover note run db' con made [unfolded id] counts
  moreover have "length (map fst added) = length added" by simp
  ultimately show ?thesis by metis
qed

definition demo_new_db :: site_db where
  "demo_new_db = demo_room_db\<lparr>sd_room_mappings := []\<rparr>"

theorem materialize_keeps_operator_mappings_witness:
  "\<exists>counts rooms maps k (db' :: site_db).
     materialize_program_room_mappings demo_codec 50 [] 1 demo_new_db = (Inr counts, db')
     \<and> db' = demo_new_db\<lparr>sd_rooms := sd_rooms demo_new_db @ rooms,
          sd_room_mappings := sd_room_mappings demo_new_db @ maps, sd_minted := k\<rparr>
     \<and> ''hall a'' \<in> set (mapped_labels 1 db')"
proof -
  have facts: "row_get sev_event_id (sd_events demo_new_db) 1 = Some ((default_site_event 0)\<lparr>sev_event_id := 1, sev_site_id := 7\<rparr>)"
    using demo_room_facts(1) by (simp add: demo_new_db_def)
  have con: "site_constraints demo_new_db" by code_simp
  have prog: "event_program 1 demo_new_db = event_program 1 demo_room_db"
    by (simp add: demo_new_db_def event_program_def)
  obtain s where s: "event_program 1 demo_new_db = [s]" "session_label s = Some ''hall a''"
    using demo_room_label(1) prog by (cases "event_program 1 demo_room_db") auto
  moreover have "sss_active s"
    using s(1) by (auto simp: demo_new_db_def event_program_def demo_room_db_def default_site_session_def)
  moreover have "length (candidate_rooms ''hall a'' (room_index_of 7 demo_new_db)) = 1" by code_simp
  ultimately show ?thesis
    using materialize_keeps_operator_mappings [OF facts con, of demo_codec 50 "[]"] by fastforce
qed

end
