(* ===== verification/Py_Time.thy ===== *)
theory Py_Time
  imports Json
begin

text \<open>
  Calendar fields of a \<open>datetime\<close> and the \<open>strftime\<close> formats the program prints. A
  local time is a count of microseconds since 1970-01-01 00:00 on the wall clock of its
  zone; the offset of a named zone at an instant comes from the time-zone database, an
  argument of the functions that convert.
\<close>

definition microseconds_per_day :: int where
  "microseconds_per_day = 86400000000"

text \<open>Proleptic Gregorian year, month and day of a day number.\<close>

definition civil_from_days :: "int \<Rightarrow> int \<times> int \<times> int" where
  "civil_from_days days =
     (let z = days + 719468;
          era = z div 146097;
          doe = z mod 146097;
          yoe = (doe - doe div 1460 + doe div 36524 - doe div 146096) div 365;
          doy = doe - (365 * yoe + yoe div 4 - yoe div 100);
          mp = (5 * doy + 2) div 153;
          d = doy - (153 * mp + 2) div 5 + 1;
          m = (if mp < 10 then mp + 3 else mp - 9);
          y = yoe + era * 400 + (if m \<le> 2 then 1 else 0)
      in (y, m, d))"

definition day_number :: "datetime \<Rightarrow> int" where
  "day_number t = t div microseconds_per_day"

definition hour_of :: "datetime \<Rightarrow> int" where
  "hour_of t = t mod microseconds_per_day div 3600000000"

definition minute_of :: "datetime \<Rightarrow> int" where
  "minute_of t = t mod 3600000000 div 60000000"

text \<open>The formats \<open>%Y-%m-%d\<close>, \<open>%Y/%m\<close>, \<open>%H%M\<close> and \<open>%I-%M %p\<close>.\<close>

definition format_date :: "datetime \<Rightarrow> string" where
  "format_date t =
     (case civil_from_days (day_number t) of
        (y, m, d) \<Rightarrow> str_int y @ ''-'' @ str_02d m @ ''-'' @ str_02d d)"

definition format_year_month :: "datetime \<Rightarrow> string" where
  "format_year_month t =
     (case civil_from_days (day_number t) of (y, m, d) \<Rightarrow> str_int y @ ''/'' @ str_02d m)"

definition format_hour_minute :: "datetime \<Rightarrow> string" where
  "format_hour_minute t = str_02d (hour_of t) @ str_02d (minute_of t)"

definition format_clock12 :: "datetime \<Rightarrow> string" where
  "format_clock12 t =
     (let h = hour_of t; h12 = (if h mod 12 = 0 then 12 else h mod 12)
      in str_02d h12 @ ''-'' @ str_02d (minute_of t) @ (if h < 12 then '' AM'' else '' PM''))"

section \<open>The characters a number prints as\<close>

lemma digits_in_chars:
  "2 \<le> b \<Longrightarrow> b \<le> 16 \<Longrightarrow> c \<in> set (digits_in b n) \<Longrightarrow> \<exists>d < b. c = digit_char d"
proof (induction b n rule: digits_in.induct)
  case (1 b n)
  show ?case
  proof (cases "b < 2 \<or> n < b")
    case True
    with 1 show ?thesis by (auto simp: digits_in.simps [of b n])
  next
    case False
    with 1 have "c \<in> set (digits_in b (n div b)) \<or> c = digit_char (n mod b)"
      by (auto simp: digits_in.simps [of b n])
    then show ?thesis
    proof
      assume "c \<in> set (digits_in b (n div b))"
      with 1 False show ?thesis by blast
    next
      assume "c = digit_char (n mod b)"
      moreover have "n mod b < b" using 1(2) by simp
      ultimately show ?thesis by blast
    qed
  qed
qed

lemma digits_in_not_Nil [simp]: "digits_in b n \<noteq> []"
  by (subst digits_in.simps) simp

lemma str_int_chars: "c \<in> set (str_int i) \<Longrightarrow> c = CHR ''-'' \<or> (\<exists>d < 10. c = digit_char d)"
  by (auto simp: str_int_def split: if_splits dest: digits_in_chars [rotated 2])

lemma digit_char_zero: "digit_char 0 = CHR ''0''"
  by code_simp

lemma str_02d_chars: "c \<in> set (str_02d i) \<Longrightarrow> c = CHR ''-'' \<or> (\<exists>d < 10. c = digit_char d)"
  using digit_char_zero by (force simp: str_02d_def split: if_splits dest!: str_int_chars)

lemma number_not_Nil [simp]: "str_int i \<noteq> []" "str_02d i \<noteq> []"
  by (simp_all add: str_02d_def str_int_def)

text \<open>No slash, backslash, dot or space in a printed number.\<close>

lemma number_plain:
  "c \<in> set (str_int i) \<Longrightarrow> c \<notin> set (CHR 0x5C # ''/.{}:u_xX'')"
  "c \<in> set (str_02d i) \<Longrightarrow> c \<notin> set (CHR 0x5C # ''/.{}:u_xX'')"
proof -
  have d: "digit_char d \<notin> set (CHR 0x5C # ''/.{}:u_xX'')" if "d < 10" for d
    using digit_char_plain(1) [of d] that by auto
  show "c \<in> set (str_int i) \<Longrightarrow> c \<notin> set (CHR 0x5C # ''/.{}:u_xX'')"
    using d by (auto dest!: str_int_chars)
  show "c \<in> set (str_02d i) \<Longrightarrow> c \<notin> set (CHR 0x5C # ''/.{}:u_xX'')"
    using d by (auto dest!: str_02d_chars)
qed

end
