(* ===== verification/Media_Paths.thy ===== *)
theory Media_Paths
  imports Enums Py_Time
begin

text \<open>
  The rules that keep untrusted names inside a storage root: logical object keys
  (\<open>upm_shared/domain/media.py\<close>), upload provenance paths
  (\<open>upm_shared/presentation_media.py\<close>), display filenames and generated keys
  (\<open>upm_site/media/storage.py\<close>), the storage service's key check
  (\<open>upm_media_storage/service.py\<close>) and the SMB intake filter
  (\<open>upm_shared/smb_intake.py\<close>). \<open>nfc\<close> is \<open>unicodedata.normalize("NFC", .)\<close> and
  \<open>sha256\<close> the hex digest, both arguments.
\<close>

section \<open>Object keys\<close>

definition bad_segments :: "string list" where
  "bad_segments = [[], ''.'', ''..'']"

definition validate_object_key :: "string \<Rightarrow> string outcome" where
  "validate_object_key value =
     (if value = [] \<or> starts_with value ''/'' \<or> starts_with value [CHR 0x5C]
      then Inl (ValueError ''object_key must be a non-empty relative path'')
      else if CHR 0x5C \<in> set value
      then Inl (ValueError ''object_key must use forward slashes'')
      else let path = parse_path value in
        if \<exists>part \<in> set (path_parts path). part \<in> set bad_segments
        then Inl (ValueError ''object_key cannot contain empty, current, or parent segments'')
        else if path_str path \<noteq> value
        then Inl (ValueError ''object_key must be in canonical relative form'')
        else Inr value)"

record media_location =
  ml_storage_target_id :: uuid
  ml_object_key :: string

definition logical_media_location :: "uuid \<Rightarrow> string \<Rightarrow> media_location outcome" where
  "logical_media_location target key =
     outcome_bind (validate_object_key key)
       (\<lambda>_. Inr \<lparr>ml_storage_target_id = target, ml_object_key = key\<rparr>)"

definition safe_key :: "string \<Rightarrow> posix_path outcome" where
  "safe_key key =
     (let parsed = parse_path key in
      if key = [] \<or> path_is_absolute parsed \<or> ''..'' \<in> set (path_parts parsed)
         \<or> ''.'' \<in> set (path_parts parsed)
      then Inl (RuntimeError ''Invalid storage key.'') else Inr parsed)"

section \<open>Filenames and provenance\<close>

definition validate_original_filename :: "string \<Rightarrow> string outcome" where
  "validate_original_filename value =
     (if value = [] \<or> 1024 < length value
      then Inl (ValueError ''original filename must contain between 1 and 1024 characters'')
      else if value \<in> {''.'', ''..''} \<or> CHR ''/'' \<in> set value \<or> CHR 0x5C \<in> set value
      then Inl (ValueError ''original filename must not contain path components'')
      else if path_is_absolute (parse_path value) \<or> (\<exists>c \<in> set value. char_code c < 32)
      then Inl (ValueError ''original filename contains unsafe characters'')
      else Inr value)"

definition is_letter_char :: "char \<Rightarrow> bool" where
  "is_letter_char c \<longleftrightarrow> is_upper_char c \<or> is_lower_char c"

definition normalize_source_relative_path ::
  "(string \<Rightarrow> string) \<Rightarrow> string option \<Rightarrow> string \<Rightarrow> string option outcome" where
  "normalize_source_relative_path nfc value original_filename =
     (case value of
        None \<Rightarrow> Inr None
      | Some v \<Rightarrow>
          if py_strip v = [] then Inr None
          else let raw = map (\<lambda>c. if c = CHR 0x5C then CHR ''/'' else c) (nfc (py_strip v)) in
            if CHR 0x00 \<in> set raw \<or> starts_with raw ''/'' \<or> starts_with raw ''//''
               \<or> (2 \<le> length raw \<and> is_letter_char (raw ! 0) \<and> raw ! 1 = CHR '':'')
            then Inl (ValueError ''invalid source relative path'')
            else let parts = path_parts (parse_path raw) in
              if parts = [] \<or> (\<exists>part \<in> set parts. part \<in> set bad_segments)
              then Inl (ValueError ''invalid source relative path'')
              else let relative = parse_path (join_with ''/'' parts) in
                if path_name relative \<noteq> original_filename \<or> 2048 < length (path_str relative)
                then Inl (ValueError ''source relative path does not match original filename'')
                else Inr (Some (path_str relative)))"

section \<open>Generated keys\<close>

fun category_directory :: "media_category \<Rightarrow> string" where
  "category_directory Cat_PRESENTATION = ''presentations''"
| "category_directory Cat_PRESENTATION_VERSION = ''presentation-versions''"
| "category_directory Cat_OPEN_FILE = ''open-files''"
| "category_directory Cat_DERIVATIVE = ''derivatives''"
| "category_directory Cat_PDF_DERIVATIVE = ''pdf-derivatives''"
| "category_directory Cat_PREVIEW = ''previews''"
| "category_directory Cat_THUMBNAIL = ''thumbnails''"
| "category_directory Cat_SIGNAGE = ''signage''"
| "category_directory Cat_INGESTION_STAGING = ''.ingestion-staging''"
| "category_directory Cat_TEMPORARY_PROCESSING = ''.temporary-processing''"
| "category_directory Cat_ARCHIVE = ''archive''"

definition generate_object_key :: "media_category \<Rightarrow> uuid \<Rightarrow> datetime \<Rightarrow> string outcome" where
  "generate_object_key category media_object_id now =
     (let directory = category_directory category in
      if starts_with directory ''.''
      then Inl (ValueError ''temporary categories cannot be authoritative object locations'')
      else Inr (directory @ ''/'' @ format_year_month now @ ''/'' @ uuid_str media_object_id))"

section \<open>SMB intake\<close>

definition temp_prefixes :: "string list" where
  "temp_prefixes = [''.'', ''~$'', ''~'', ''._'']"

definition temp_suffixes :: "string list" where
  "temp_suffixes = [''.tmp'', ''.temp'', ''.partial'', ''.part'', ''.crdownload'', ''.download'']"

definition system_names :: "string list" where
  "system_names = [''desktop.ini'', ''thumbs.db'', ''.ds_store'']"

definition supported_suffixes :: "string list" where
  "supported_suffixes = [''.ppt'', ''.pptx'', ''.pdf'', ''.mp4'', ''.mov'', ''.avi'', ''.mkv'']"

definition intake_candidate :: "string \<Rightarrow> bool" where
  "intake_candidate relative_path =
     (let path = parse_path relative_path in
      if path_is_absolute path \<or> ''..'' \<in> set (path_parts path) \<or> path_parts path = [] then False
      else let name = py_lower (path_name path) in
        if name \<in> set system_names \<or> (\<exists>p \<in> set temp_prefixes. starts_with name p)
           \<or> (\<exists>x \<in> set temp_suffixes. ends_with name x) then False
        else py_lower (path_suffix path) \<in> set supported_suffixes)"

definition event_and_filename :: "string \<Rightarrow> (uuid \<times> string) outcome" where
  "event_and_filename relative_path =
     (let path = parse_path relative_path in
      case path_parts path of
        [] \<Rightarrow> Inl (LookupError ''tuple index out of range'')
      | first # _ \<Rightarrow> outcome_bind (parse_uuid first) (\<lambda>u. Inr (u, path_name path)))"

definition incoming_identity :: "(string \<Rightarrow> string) \<Rightarrow> string \<Rightarrow> int \<Rightarrow> int \<Rightarrow> string" where
  "incoming_identity sha256 relative_path size_bytes modified_ns =
     ''smb:'' @ sha256 (relative_path @ [CHR 0x00] @ str_int size_bytes @ [CHR 0x00] @ str_int modified_ns)"

section \<open>What an accepted key is\<close>

text \<open>A canonical relative path: clean segments joined by slashes.\<close>

definition clean_segments :: "string list \<Rightarrow> bool" where
  "clean_segments segs \<longleftrightarrow>
     segs \<noteq> [] \<and> (\<forall>s \<in> set segs. s \<notin> set bad_segments \<and> CHR ''/'' \<notin> set s)"

lemma relative_parts: "pp_root p = [] \<Longrightarrow> path_parts p = pp_tail p"
  by (simp add: path_parts_def)

lemma parse_clean_segments:
  "clean_segments segs \<Longrightarrow> parse_path (join_with ''/'' segs) = \<lparr>pp_root = [], pp_tail = segs\<rparr>"
  by (rule parse_join_clean) (auto simp: clean_segments_def bad_segments_def)

lemma tail_clean_segments:
  assumes "pp_tail (parse_path s) \<noteq> []" "''..'' \<notin> set (pp_tail (parse_path s))"
  shows "clean_segments (pp_tail (parse_path s))"
  using assms path_tail_clean by (auto simp: clean_segments_def bad_segments_def)

lemma path_parts_clean_iff:
  assumes "pp_root (parse_path s) = []"
  shows "(\<exists>part \<in> set (path_parts (parse_path s)). part \<in> set bad_segments)
      \<longleftrightarrow> ''..'' \<in> set (pp_tail (parse_path s))"
  using assms by (auto simp: relative_parts bad_segments_def dest: path_tail_clean)

lemma set_join_clean: "s \<in> set segs \<Longrightarrow> c \<in> set s \<Longrightarrow> c \<in> set (join_with sep segs)"
  by (induction sep segs rule: join_with.induct) auto

lemma join_clean_not_Nil: "clean_segments segs \<Longrightarrow> join_with ''/'' segs \<noteq> []"
  by (cases segs) (auto simp: clean_segments_def bad_segments_def join_with_Cons)

lemma join_clean_relative: "clean_segments segs \<Longrightarrow> \<not> starts_with (join_with ''/'' segs) ''/''"
  using parse_clean_segments parse_path_relative_iff by (metis posix_path.select_convs(1))

lemma join_clean_not_dot: "clean_segments segs \<Longrightarrow> join_with ''/'' segs \<noteq> ''.''"
proof
  assume "clean_segments segs" "join_with ''/'' segs = ''.''"
  then have "parse_path ''.'' = \<lparr>pp_root = [], pp_tail = segs\<rparr>"
    by (metis parse_clean_segments)
  with \<open>clean_segments segs\<close> show False
    by (simp add: parse_path_def starts_with_def clean_segments_def)
qed

lemma validate_accepts:
  "validate_object_key v = Inr k \<longleftrightarrow>
     k = v \<and> (v = ''.'' \<or> (\<exists>segs. clean_segments segs \<and> v = join_with ''/'' segs \<and> CHR 0x5C \<notin> set v))"
proof
  assume acc: "validate_object_key v = Inr k"
  let ?p = "parse_path v"
  from acc have v: "k = v" "v \<noteq> []" "\<not> starts_with v ''/''" "CHR 0x5C \<notin> set v"
    "\<not> (\<exists>part \<in> set (path_parts ?p). part \<in> set bad_segments)" "path_str ?p = v"
    by (auto simp: validate_object_key_def Let_def split: if_splits)
  then have root: "pp_root ?p = []" by (simp add: parse_path_relative_iff)
  show "k = v \<and> (v = ''.'' \<or> (\<exists>segs. clean_segments segs \<and> v = join_with ''/'' segs \<and> CHR 0x5C \<notin> set v))"
  proof (cases "pp_tail ?p = []")
    case True
    with root v show ?thesis by (simp add: path_str_def)
  next
    case False
    with v root have "clean_segments (pp_tail ?p)"
      by (intro tail_clean_segments) (auto simp: path_parts_clean_iff)
    with False root v show ?thesis by (metis path_str_relative)
  qed
next
  assume rhs: "k = v \<and> (v = ''.'' \<or> (\<exists>segs. clean_segments segs \<and> v = join_with ''/'' segs \<and> CHR 0x5C \<notin> set v))"
  show "validate_object_key v = Inr k"
  proof (cases "v = ''.''")
    case True
    with rhs show ?thesis
      by (simp add: validate_object_key_def parse_path_def path_parts_def path_str_def starts_with_def Let_def)
  next
    case False
    with rhs obtain segs where segs: "clean_segments segs" "v = join_with ''/'' segs" "CHR 0x5C \<notin> set v"
      by blast
    moreover have "v \<noteq> []" "\<not> starts_with v ''/''" "\<not> starts_with v [CHR 0x5C]"
      using segs join_clean_not_Nil join_clean_relative by (auto dest: starts_with_prefix)
    moreover have "segs \<noteq> []" "\<forall>s \<in> set segs. s \<notin> set bad_segments"
      using segs(1) by (auto simp: clean_segments_def)
    ultimately show ?thesis
      using rhs parse_clean_segments [OF segs(1)]
      by (auto simp: validate_object_key_def path_parts_def path_str_def)
  qed
qed

text \<open>C21: which object keys are accepted. Apart from the single key \<open>.\<close>, exactly the canonical
  relative paths: one or more segments joined by single slashes, none of them empty, \<open>.\<close> or
  \<open>..\<close>, no backslash anywhere. An accepted key comes back unchanged.\<close>

theorem validate_object_key_accepts:
  "validate_object_key v = Inr k \<longleftrightarrow>
     k = v \<and> (v = ''.'' \<or> (\<exists>segs. clean_segments segs \<and> v = join_with ''/'' segs \<and> CHR 0x5C \<notin> set v))"
  by (rule validate_accepts)

lemma safe_key_tail:
  assumes "safe_key key = Inr p"
  shows "p = parse_path key" "pp_root p = []" "''..'' \<notin> set (pp_tail p)"
  using assms by (auto simp: safe_key_def Let_def path_is_absolute_def path_parts_def split: if_splits)

lemma generated_key_segments:
  assumes "generate_object_key c u now = Inr k"
  obtains y m where "k = join_with ''/'' [category_directory c, str_int y, str_02d m, uuid_str u]"
    "\<not> starts_with (category_directory c) ''.''"
proof -
  obtain y m d where ymd: "civil_from_days (day_number now) = (y, m, d)" by (cases "civil_from_days (day_number now)")
  with assms have "k = join_with ''/'' [category_directory c, str_int y, str_02d m, uuid_str u]"
    "\<not> starts_with (category_directory c) ''.''"
    by (auto simp: generate_object_key_def format_year_month_def Let_def split: if_splits)
  then show ?thesis by (rule that)
qed

lemma plain_segment:
  assumes "s \<noteq> []" "CHR ''.'' \<notin> set s"
  shows "s \<notin> set bad_segments"
  using assms by (auto simp: bad_segments_def)

lemma uuid_str_plain: "c \<in> set (uuid_str u) \<Longrightarrow> c \<notin> set (CHR 0x5C # ''/.u_x'')"
  using digit_char_plain(1) by (auto dest!: uuid_str_chars)

lemma category_directory_plain:
  "CHR ''/'' \<notin> set (category_directory c)" "CHR 0x5C \<notin> set (category_directory c)"
  "category_directory c \<notin> set bad_segments"
  by (cases c; simp add: bad_segments_def)+

lemma number_segment:
  "str_int i \<notin> set bad_segments" "str_02d i \<notin> set bad_segments" "uuid_str u \<notin> set bad_segments"
proof -
  have "uuid_str u \<noteq> []" by (simp flip: length_0_conv)
  with uuid_str_plain show "uuid_str u \<notin> set bad_segments" by (intro plain_segment) auto
  show "str_int i \<notin> set bad_segments"
    by (rule plain_segment) (use number_plain(1) [of "CHR ''.''"] in auto)
  show "str_02d i \<notin> set bad_segments"
    by (rule plain_segment) (use number_plain(2) [of "CHR ''.''"] in auto)
qed

lemma generated_key_clean:
  assumes "generate_object_key c u now = Inr k"
  obtains segs where "clean_segments segs" "k = join_with ''/'' segs" "last segs = uuid_str u"
    "CHR 0x5C \<notin> set k"
proof -
  obtain y m where k: "k = join_with ''/'' [category_directory c, str_int y, str_02d m, uuid_str u]"
    using generated_key_segments [OF assms] by blast
  let ?segs = "[category_directory c, str_int y, str_02d m, uuid_str u]"
  have slash: "CHR ''/'' \<notin> set (str_int y)" "CHR ''/'' \<notin> set (str_02d m)" "CHR ''/'' \<notin> set (uuid_str u)"
    using number_plain [of "CHR ''/''"] uuid_str_plain [of "CHR ''/''"] by auto
  have bslash: "CHR 0x5C \<notin> set (str_int y)" "CHR 0x5C \<notin> set (str_02d m)" "CHR 0x5C \<notin> set (uuid_str u)"
    using number_plain [of "CHR 0x5C"] uuid_str_plain [of "CHR 0x5C"] by auto
  show ?thesis
  proof
    show "clean_segments ?segs"
      using slash number_segment category_directory_plain by (simp add: clean_segments_def)
    show "k = join_with ''/'' ?segs" by (rule k)
    show "last ?segs = uuid_str u" by simp
    show "CHR 0x5C \<notin> set k"
      using set_join_with [of "''/''" ?segs] bslash category_directory_plain(2) k by auto
  qed
qed

lemma clean_join_inj:
  "clean_segments a \<Longrightarrow> clean_segments b \<Longrightarrow> join_with ''/'' a = join_with ''/'' b \<Longrightarrow> a = b"
  using parse_clean_segments by (metis posix_path.select_convs(2))

text \<open>A generated object key is always an accepted key, and keys generated for different media
  objects differ whatever their categories and months, because the last segment is the object's
  identifier. Only the two temporary categories are refused.\<close>

lemma generated_keys_valid_and_distinct:
  assumes "generate_object_key c u now = Inr k" "generate_object_key c' u' now' = Inr k'"
    and "u < 2 ^ 128" "u' < 2 ^ 128" "u \<noteq> u'"
  shows "validate_object_key k = Inr k \<and> validate_object_key k' = Inr k' \<and> k \<noteq> k'
    \<and> c \<notin> {Cat_INGESTION_STAGING, Cat_TEMPORARY_PROCESSING}"
proof -
  obtain a where a: "clean_segments a" "k = join_with ''/'' a" "last a = uuid_str u" "CHR 0x5C \<notin> set k"
    using generated_key_clean [OF assms(1)] by blast
  obtain b where b: "clean_segments b" "k' = join_with ''/'' b" "last b = uuid_str u'" "CHR 0x5C \<notin> set k'"
    using generated_key_clean [OF assms(2)] by blast
  have "k \<noteq> k'"
  proof
    assume "k = k'"
    with a b clean_join_inj have "uuid_str u = uuid_str u'" by metis
    with assms(3-5) parse_uuid_str show False by (metis Inr_inject)
  qed
  moreover have "validate_object_key k = Inr k" "validate_object_key k' = Inr k'"
    using a b validate_accepts by blast+
  moreover have "c \<notin> {Cat_INGESTION_STAGING, Cat_TEMPORARY_PROCESSING}"
    using assms(1) by (auto simp: generate_object_key_def)
  ultimately show ?thesis by blast
qed

section \<open>Provenance paths\<close>

lemma split_on_chars: "p \<in> set (split_on c s) \<Longrightarrow> set p \<subseteq> set s"
  by (induction s arbitrary: p) (fastforce split: list.splits if_splits)+

lemma source_path_cases:
  assumes "normalize_source_relative_path nfc src original_filename = Inr (Some p)"
  obtains raw where "CHR 0x00 \<notin> set raw" "CHR 0x5C \<notin> set raw" "pp_root (parse_path raw) = []"
    "clean_segments (pp_tail (parse_path raw))" "p = join_with ''/'' (pp_tail (parse_path raw))"
    "last (pp_tail (parse_path raw)) = original_filename" "length p \<le> 2048"
proof -
  from assms obtain v where v: "src = Some v"
    by (cases src) (auto simp: normalize_source_relative_path_def)
  define raw where "raw = map (\<lambda>c. if c = CHR 0x5C then CHR ''/'' else c) (nfc (py_strip v))"
  let ?tail = "pp_tail (parse_path raw)"
  from assms have c: "CHR 0x00 \<notin> set raw" "\<not> starts_with raw ''/''" "path_parts (parse_path raw) \<noteq> []"
    "\<not> (\<exists>part \<in> set (path_parts (parse_path raw)). part \<in> set bad_segments)"
    "path_name (parse_path (join_with ''/'' (path_parts (parse_path raw)))) = original_filename"
    "length (path_str (parse_path (join_with ''/'' (path_parts (parse_path raw))))) \<le> 2048"
    "p = path_str (parse_path (join_with ''/'' (path_parts (parse_path raw))))"
    by (auto simp: normalize_source_relative_path_def v Let_def simp flip: raw_def
        simp del: starts_with_Cons split: if_splits)
  from c(2) have root: "pp_root (parse_path raw) = []" by (simp add: parse_path_relative_iff del: starts_with_Cons)
  then have parts: "path_parts (parse_path raw) = ?tail" by (rule relative_parts)
  have clean: "clean_segments ?tail"
    using c(3,4) parts path_parts_clean_iff [OF root] by (intro tail_clean_segments) simp_all
  have "CHR 0x5C \<notin> set raw" by (auto simp: raw_def)
  with that [of raw] c(1,5,6,7) root clean parse_clean_segments [OF clean] show ?thesis
    by (auto simp: parts path_name_def path_str_def clean_segments_def)
qed

text \<open>C22: an accepted upload path is a canonical relative path: slash-separated clean segments (none
  empty, \<open>.\<close> or \<open>..\<close>), no NUL, no backslash, at most 2048 characters, and its last
  segment is the uploaded file's own name. This holds for every Unicode normalisation
  function.\<close>

theorem source_relative_path_is_clean:
  assumes "normalize_source_relative_path nfc src original_filename = Inr (Some p)"
  shows "\<exists>segs. clean_segments segs \<and> p = join_with ''/'' segs \<and> last segs = original_filename
    \<and> length p \<le> 2048 \<and> CHR 0x00 \<notin> set p \<and> CHR 0x5C \<notin> set p"
proof -
  obtain raw where raw: "CHR 0x00 \<notin> set raw" "CHR 0x5C \<notin> set raw"
    "clean_segments (pp_tail (parse_path raw))" "p = join_with ''/'' (pp_tail (parse_path raw))"
    "last (pp_tail (parse_path raw)) = original_filename" "length p \<le> 2048"
    using source_path_cases [OF assms] by metis
  have "set s \<subseteq> set raw" if "s \<in> set (pp_tail (parse_path raw))" for s
    using that by (auto simp: parse_path_def dest: split_on_chars)
  then have "set p \<subseteq> set raw \<union> {CHR ''/''}"
    using set_join_with [of "''/''" "pp_tail (parse_path raw)"] raw(4) by auto
  with raw show ?thesis by fastforce
qed

theorem source_relative_path_is_clean_witness:
  "\<exists>segs. clean_segments segs \<and> ''day1/talk.pdf'' = join_with ''/'' segs \<and> last segs = ''talk.pdf''"
proof -
  have "normalize_source_relative_path id (Some '' day1//./talk.pdf '') ''talk.pdf'' = Inr (Some ''day1/talk.pdf'')"
    by code_simp
  from source_relative_path_is_clean [OF this] show ?thesis by blast
qed


section \<open>The storage service and the SMB intake\<close>

text \<open>C24: a key the storage service accepts has no parent segment and no root, so joined to a target
  directory it names something at or below it: its segments, if any, are clean. The key \<open>.\<close>
  is accepted and names the target directory itself, although the check lists \<open>.\<close> among the
  forbidden parts.\<close>

theorem safe_key_stays_below_root:
  "(safe_key key = Inr p \<longrightarrow>
      p = parse_path key \<and> pp_root p = [] \<and> (pp_tail p = [] \<or> clean_segments (pp_tail p)))
   \<and> safe_key ''.'' = Inr \<lparr>pp_root = [], pp_tail = []\<rparr>"
proof
  show "safe_key key = Inr p \<longrightarrow>
      p = parse_path key \<and> pp_root p = [] \<and> (pp_tail p = [] \<or> clean_segments (pp_tail p))"
    using safe_key_tail tail_clean_segments by metis
  show "safe_key ''.'' = Inr \<lparr>pp_root = [], pp_tail = []\<rparr>"
    by code_simp
qed

theorem safe_key_stays_below_root_witness:
  "clean_segments [''presentations'', ''a.pdf'']"
proof -
  have "safe_key ''presentations/a.pdf'' = Inr \<lparr>pp_root = [], pp_tail = [''presentations'', ''a.pdf'']\<rparr>"
    by code_simp
  with safe_key_stays_below_root [of "''presentations/a.pdf''"
      "\<lparr>pp_root = [], pp_tail = [''presentations'', ''a.pdf'']\<rparr>"] show ?thesis by simp
qed

text \<open>An intake candidate names a visible presentation or video file below the share: the path
  is relative without parent segments, its name does not start with a dot or a tilde and does not
  end like a partial download, and its suffix, ignoring case, is a supported one.\<close>

theorem intake_candidate_is_visible_media:
  assumes "intake_candidate s"
  shows "pp_root (parse_path s) = [] \<and> clean_segments (pp_tail (parse_path s))
    \<and> \<not> starts_with (path_name (parse_path s)) ''.'' \<and> \<not> starts_with (path_name (parse_path s)) ''~''
    \<and> \<not> ends_with (py_lower (path_name (parse_path s))) ''.part''
    \<and> py_lower (path_suffix (parse_path s)) \<in> set supported_suffixes"
proof -
  let ?p = "parse_path s" and ?name = "py_lower (path_name (parse_path s))"
  from assms have c: "pp_root ?p = []" "''..'' \<notin> set (path_parts ?p)" "path_parts ?p \<noteq> []"
    "\<not> (\<exists>p \<in> set temp_prefixes. starts_with ?name p)" "\<not> (\<exists>x \<in> set temp_suffixes. ends_with ?name x)"
    "py_lower (path_suffix ?p) \<in> set supported_suffixes"
    by (auto simp: intake_candidate_def path_is_absolute_def Let_def split: if_splits)
  have dot: "lower_char (CHR ''.'') = CHR ''.''" "lower_char (CHR ''~'') = CHR ''~''"
    by code_simp+
  have "\<not> starts_with (path_name ?p) ''.''" "\<not> starts_with (path_name ?p) ''~''"
    using c(4) dot by (auto simp: temp_prefixes_def py_lower_def)
  moreover have "clean_segments (pp_tail ?p)"
    using c(1-3) by (intro tail_clean_segments) (simp_all add: relative_parts)
  ultimately show ?thesis using c by (simp add: temp_suffixes_def)
qed

theorem intake_candidate_is_visible_media_witness:
  "py_lower (path_suffix (parse_path ''e/Deck.PPTX'')) \<in> set supported_suffixes"
proof -
  have "intake_candidate ''e/Deck.PPTX''" by code_simp
  from intake_candidate_is_visible_media [OF this] show ?thesis by blast
qed

end
