(* ===== verification/Presentation_Naming.thy ===== *)
theory Presentation_Naming
  imports Media_Paths
begin

text \<open>
  Identifiers and filenames of presentation media: the first half of
  \<open>upm_shared/presentation_media.py\<close>. \<open>nfkc\<close> and \<open>nfkd\<close> are Python's
  \<open>unicodedata.normalize\<close>; \<open>tz\<close> gives a zone's offset from UTC at an instant, in
  microseconds, and \<open>None\<close> for a zone the time-zone database does not have.
\<close>

section \<open>Character classes\<close>

definition is_unsafe_char :: "char \<Rightarrow> bool" where
  "is_unsafe_char c \<longleftrightarrow>
     c \<in> set (CHR 0x5C # CHR 0x22 # ''/:*?<>|'') \<or> char_code c < 32 \<or> char_code c = 127"

definition is_separator_char :: "char \<Rightarrow> bool" where
  "is_separator_char c \<longleftrightarrow> is_space_char c \<or> c \<in> set ''._-''"

definition is_trim_char :: "char \<Rightarrow> bool" where
  "is_trim_char c \<longleftrightarrow> c \<in> set '' .-''"

definition windows_reserved :: "string list" where
  "windows_reserved =
     [''CON'', ''PRN'', ''AUX'', ''NUL'',
      ''COM1'', ''COM2'', ''COM3'', ''COM4'', ''COM5'', ''COM6'', ''COM7'', ''COM8'', ''COM9'',
      ''LPT1'', ''LPT2'', ''LPT3'', ''LPT4'', ''LPT5'', ''LPT6'', ''LPT7'', ''LPT8'', ''LPT9'']"

definition supported_presentation_extensions :: "string list" where
  "supported_presentation_extensions = [''.ppt'', ''.pptx'', ''.pdf'']"

section \<open>Identifiers\<close>

definition origin_component :: "(string \<Rightarrow> string) \<Rightarrow> string \<Rightarrow> string" where
  "origin_component nfkd origin_code =
     (let v = take 12 (filter is_upper_alnum (py_upper (nfkd origin_code)))
      in if v = [] then ''LOCAL'' else v)"

definition generate_presentation_identifier :: "(string \<Rightarrow> string) \<Rightarrow> string \<Rightarrow> uuid \<Rightarrow> string" where
  "generate_presentation_identifier nfkd origin_code identity =
     ''UPM-'' @ origin_component nfkd origin_code @ ''-'' @ py_upper (drop 16 (uuid_hex identity))"

definition allocate_presentation_identifier ::
  "(string \<Rightarrow> string) \<Rightarrow> string option \<Rightarrow> string \<Rightarrow> uuid \<Rightarrow> string \<times> presentation_identifier_source" where
  "allocate_presentation_identifier nfkd source_identifier origin_code identity =
     (case source_identifier of
        Some s \<Rightarrow>
          if py_strip s \<noteq> [] then (py_strip s, PidSource_IMPORTED)
          else (generate_presentation_identifier nfkd origin_code identity, PidSource_GENERATED)
      | None \<Rightarrow> (generate_presentation_identifier nfkd origin_code identity, PidSource_GENERATED))"

section \<open>Safe components\<close>

definition or_empty :: "string option \<Rightarrow> string" where
  "or_empty v = (case v of None \<Rightarrow> [] | Some s \<Rightarrow> s)"

definition before_first_dot :: "string \<Rightarrow> string" where
  "before_first_dot s = takeWhile (\<lambda>c. c \<noteq> CHR ''.'') s"

definition safe_filename_component ::
  "(string \<Rightarrow> string) \<Rightarrow> string option \<Rightarrow> string \<Rightarrow> nat \<Rightarrow> string" where
  "safe_filename_component nfkc value fallback max_length =
     (let n1 = py_strip (nfkc (or_empty value));
          n2 = sub_runs is_unsafe_char ''-'' n1;
          n3 = strip_by is_trim_char (sub_runs is_separator_char ''-'' n2);
          n4 = (if n3 \<in> {[], ''.'', ''..''} then fallback else n3);
          n5 = (if before_first_dot (py_upper n4) \<in> set windows_reserved then CHR ''_'' # n4 else n4);
          n6 = rstrip_by is_trim_char (take max_length n5)
      in if n6 = [] then fallback else n6)"

section \<open>The canonical filename\<close>

record presentation_metadata =
  cm_presentation_identifier :: string
  cm_event_timezone :: string
  cm_starts_at :: "(datetime \<times> bool) option" \<comment> \<open>the instant, and whether it carries a timezone\<close>
  cm_room_label :: "string option"
  cm_presenter_family_name :: "string option"
  cm_presenter_given_name :: "string option"
  cm_title :: "string option"
  cm_version_number :: int
  cm_original_filename :: string

definition canonical_local ::
  "(string \<Rightarrow> datetime \<Rightarrow> int option) \<Rightarrow> presentation_metadata \<Rightarrow> (string \<times> string) outcome" where
  "canonical_local tz m =
     (case cm_starts_at m of
           None \<Rightarrow> Inr (''No-Date'', ''No-Time'')
         | Some (instant, aware) \<Rightarrow>
             if \<not> aware then Inl (ValueError ''starts_at must include a timezone'')
             else case tz (cm_event_timezone m) instant of
                    None \<Rightarrow> Inl (KeyError (cm_event_timezone m))
                  | Some offset \<Rightarrow> Inr (format_date (instant + offset), format_hour_minute (instant + offset)))"

definition canonical_extension :: "presentation_metadata \<Rightarrow> string" where
  "canonical_extension m = py_lower (path_suffix (parse_path (cm_original_filename m)))"

definition canonical_presenter :: "(string \<Rightarrow> string) \<Rightarrow> presentation_metadata \<Rightarrow> string" where
  "canonical_presenter nfkc m =
     (if or_empty (cm_presenter_family_name m) \<noteq> [] \<or> or_empty (cm_presenter_given_name m) \<noteq> []
      then join_with ''-''
        [safe_filename_component nfkc (cm_presenter_family_name m) ''No-LastName'' 40,
         safe_filename_component nfkc (cm_presenter_given_name m) ''No-FirstName'' 40]
      else ''No-Presenter'')"

definition canonical_components ::
  "(string \<Rightarrow> string) \<Rightarrow> presentation_metadata \<Rightarrow> string \<Rightarrow> string \<Rightarrow> string list" where
  "canonical_components nfkc m local_date local_time =
     [safe_filename_component nfkc (Some (cm_presentation_identifier m)) ''Missing-Identifier'' 64,
      local_date,
      safe_filename_component nfkc (cm_room_label m) ''Unassigned-Room'' 64,
      local_time,
      canonical_presenter nfkc m,
      safe_filename_component nfkc (cm_title m) ''Untitled'' 80,
      CHR ''v'' # str_02d (cm_version_number m)]"

definition canonical_presentation_filename ::
  "(string \<Rightarrow> string) \<Rightarrow> (string \<Rightarrow> datetime \<Rightarrow> int option) \<Rightarrow> presentation_metadata \<Rightarrow> string outcome" where
  "canonical_presentation_filename nfkc tz m =
     (if cm_version_number m < 1 then Inl (ValueError ''version_number must be positive'')
      else let extension = canonical_extension m in
      if extension \<notin> set supported_presentation_extensions
      then Inl (ValueError ''unsupported presentation media extension'')
      else outcome_bind (canonical_local tz m)
        (\<lambda>(local_date, local_time).
           Inr (rstrip_by is_trim_char
                  (take (240 - length extension)
                    (join_with ''_'' (canonical_components nfkc m local_date local_time)))
                @ extension)))"

section \<open>Collapsed separators\<close>

text \<open>After the two substitutions no two neighbouring characters are separators.\<close>

abbreviation apart :: "string \<Rightarrow> bool" where
  "apart s \<equiv> successively (\<lambda>x y. \<not> (is_separator_char x \<and> is_separator_char y)) s"

lemma successively_sublist: "successively P (a @ b @ c) \<Longrightarrow> successively P b"
  by (simp add: successively_append_iff)

lemma successively_take: "successively P s \<Longrightarrow> successively P (take n s)"
  using successively_sublist [of P "[]" "take n s" "drop n s"] by simp

lemma successively_dropWhile: "successively P s \<Longrightarrow> successively P (dropWhile Q s)"
  using successively_sublist [of P "takeWhile Q s" "dropWhile Q s" "[]"] by simp

lemma successively_rstrip: "successively P s \<Longrightarrow> successively P (rstrip_by Q s)"
proof -
  assume "successively P s"
  moreover obtain t where "s = rstrip_by Q s @ t" using rstrip_by_prefix by blast
  ultimately show ?thesis by (metis append_Nil successively_sublist)
qed

lemma sub_runs_from_apart:
  assumes "is_separator_char r"
  shows "apart (sub_runs_from b is_separator_char [r] s)
    \<and> (b \<longrightarrow> (sub_runs_from b is_separator_char [r] s = []
            \<or> \<not> is_separator_char (hd (sub_runs_from b is_separator_char [r] s))))"
  using assms
  by (induction b is_separator_char "[r]" s rule: sub_runs_from.induct)
    (auto simp: successively_Cons)

lemma sub_runs_apart: "apart (sub_runs is_separator_char ''-'' s)"
  using sub_runs_from_apart [of "CHR ''-''" False s]
  by (simp add: sub_runs_def is_separator_char_def)

lemma strip_apart: "apart s \<Longrightarrow> apart (strip_by P s)"
  by (simp add: strip_by_def lstrip_by_def successively_rstrip successively_dropWhile)

lemma trim_is_separator: "is_trim_char c \<Longrightarrow> is_separator_char c"
  by (auto simp: is_trim_char_def is_separator_char_def is_space_char_def char_code_def)

text \<open>So trimming a truncated component removes at most one character.\<close>

lemma rstrip_apart_length:
  assumes "apart s"
  shows "length s \<le> Suc (length (rstrip_by is_trim_char s))"
proof (cases s rule: rev_cases)
  case Nil
  then show ?thesis by simp
next
  case (snoc t c)
  show ?thesis
  proof (cases "is_trim_char c")
    case False
    with snoc show ?thesis by (simp add: rstrip_by_def)
  next
    case True
    have "t = [] \<or> \<not> is_trim_char (last t)"
      using assms snoc True trim_is_separator
      by (cases t rule: rev_cases) (auto simp: successively_append_iff)
    then have "rstrip_by is_trim_char t = t" by (rule rstrip_by_id)
    with snoc True show ?thesis by (simp add: rstrip_by_def)
  qed
qed

section \<open>A component is a safe name\<close>

text \<open>What a caller's fallback has to satisfy, and what every component then satisfies.\<close>

definition component_ok :: "nat \<Rightarrow> string \<Rightarrow> bool" where
  "component_ok max_length s \<longleftrightarrow>
     s \<noteq> [] \<and> length s \<le> max_length \<and> list_all (\<lambda>c. \<not> is_unsafe_char c) s \<and> \<not> is_trim_char (last s)
     \<and> before_first_dot (py_upper s) \<notin> set windows_reserved"

lemma reserved_facts:
  assumes "w \<in> set windows_reserved"
  shows "length w \<le> 4" and "w \<noteq> []" and "hd w \<noteq> CHR ''_''"
  using assms by (auto simp: windows_reserved_def)

lemma before_first_dot_id: "CHR ''.'' \<notin> set s \<Longrightarrow> before_first_dot s = s"
  unfolding before_first_dot_def by (subst takeWhile_eq_all_conv) auto

lemma upper_char_dot: "upper_char c = CHR ''.'' \<longleftrightarrow> c = CHR ''.''"
proof (cases "is_lower_char c")
  case True
  then have "char_code (upper_char c) \<ge> 65"
    by (auto simp: upper_char_def is_lower_char_def char_code_def)
  moreover have "char_code (CHR ''.'') = 46" by code_simp
  moreover have "char_code c \<ge> 97" using True by (simp add: is_lower_char_def)
  ultimately show ?thesis by auto
qed (simp add: upper_char_def)

lemma before_first_dot_upper: "CHR ''.'' \<notin> set s \<Longrightarrow> before_first_dot (py_upper s) = py_upper s"
  by (rule before_first_dot_id) (auto simp: py_upper_def upper_char_dot dest: sym)

lemma dash_safe: "\<not> is_unsafe_char (CHR ''-'')" "\<not> is_unsafe_char (CHR ''_'')"
  by code_simp+

lemma collapsed_chars:
  assumes "c \<in> set (strip_by is_trim_char (sub_runs is_separator_char ''-'' (sub_runs is_unsafe_char ''-'' s)))"
  shows "\<not> is_unsafe_char c" and "c = CHR ''-'' \<or> \<not> is_separator_char c"
proof -
  have c: "c \<in> set (sub_runs is_separator_char ''-'' (sub_runs is_unsafe_char ''-'' s))"
    using assms set_strips(3) by blast
  then show "c = CHR ''-'' \<or> \<not> is_separator_char c" by (auto dest!: set_sub_runs)
  from c show "\<not> is_unsafe_char c" using dash_safe by (auto dest!: set_sub_runs)
qed

lemma truncated_component_ok:
  assumes "apart s" "s \<noteq> []" "6 \<le> k" "\<not> is_trim_char (last s)"
    and safe: "\<And>c. c \<in> set s \<Longrightarrow> \<not> is_unsafe_char c" and nodot: "CHR ''.'' \<notin> set s"
    and reserved: "py_upper s \<notin> set windows_reserved"
  shows "component_ok k (rstrip_by is_trim_char (take k s))"
proof -
  let ?r = "rstrip_by is_trim_char (take k s)"
  have sub: "set ?r \<subseteq> set s" using set_strips(2) set_take_subset by fastforce
  have "length (take k s) \<le> Suc (length ?r)"
    by (rule rstrip_apart_length) (rule successively_take [OF assms(1)])
  moreover have "?r = s" if "length s \<le> k" using that assms(4) by (simp add: rstrip_by_id)
  ultimately have long: "?r = s \<or> 5 \<le> length ?r" using \<open>6 \<le> k\<close> by (cases "length s \<le> k") auto
  then have ne: "?r \<noteq> []" using assms(2) by auto
  have "before_first_dot (py_upper ?r) = py_upper ?r"
    by (rule before_first_dot_upper) (use sub nodot in auto)
  moreover have "py_upper ?r \<notin> set windows_reserved"
    using long reserved reserved_facts(1) [of "py_upper ?r"] by auto
  moreover have "length ?r \<le> k" using length_rstrip_by [of is_trim_char "take k s"] by simp
  ultimately show ?thesis
    using ne sub safe last_rstrip_by [OF ne] by (auto simp: component_ok_def list_all_iff)
qed

lemma component_ok_of_fallback:
  "component_ok k fb \<Longrightarrow> fb \<noteq> [] \<and> take k fb = fb \<and> rstrip_by is_trim_char fb = fb
     \<and> before_first_dot (py_upper fb) \<notin> set windows_reserved"
  by (auto simp: component_ok_def rstrip_by_id)

lemma underscore_apart: "apart s \<Longrightarrow> s = [] \<or> \<not> is_separator_char (hd s) \<Longrightarrow> apart (CHR ''_'' # s)"
  by (simp add: successively_Cons)

lemma strip_hd: "strip_by P s \<noteq> [] \<Longrightarrow> \<not> P (hd (strip_by P s))"
proof -
  assume ne: "strip_by P s \<noteq> []"
  obtain t where t: "lstrip_by P s = strip_by P s @ t"
    unfolding strip_by_def using rstrip_by_prefix by blast
  then have "hd (strip_by P s) = hd (dropWhile P s)" using ne by (simp add: lstrip_by_def)
  moreover have "dropWhile P s \<noteq> []" using t ne by (auto simp: lstrip_by_def)
  ultimately show ?thesis using hd_dropWhile by metis
qed

lemma collapsed_component_ok:
  assumes n: "n = strip_by is_trim_char (sub_runs is_separator_char ''-'' (sub_runs is_unsafe_char ''-'' s))"
    and ne: "n \<noteq> []" and k: "6 \<le> k"
  shows "component_ok k (rstrip_by is_trim_char
    (take k (if before_first_dot (py_upper n) \<in> set windows_reserved then CHR ''_'' # n else n)))"
proof -
  have ap: "apart n" unfolding n by (rule strip_apart) (rule sub_runs_apart)
  have chars: "\<not> is_unsafe_char c" "c = CHR ''-'' \<or> \<not> is_separator_char c" if "c \<in> set n" for c
    using collapsed_chars [of c s] that n by auto
  have trims: "is_trim_char (CHR ''-'')" "is_separator_char (CHR ''.'')" by code_simp+
  have lst: "\<not> is_trim_char (last n)"
    using ne unfolding n strip_by_def by (rule last_rstrip_by)
  have "\<not> is_trim_char (hd n)" using ne unfolding n by (rule strip_hd)
  then have hd: "\<not> is_separator_char (hd n)" using chars(2) [of "hd n"] ne trims by auto
  have nodot: "CHR ''.'' \<notin> set n" using chars(2) [of "CHR ''.''"] trims by auto
  show ?thesis
  proof (cases "before_first_dot (py_upper n) \<in> set windows_reserved")
    case True
    have "upper_char (CHR ''_'') = CHR ''_''" by code_simp
    then have "py_upper (CHR ''_'' # n) \<notin> set windows_reserved"
      using reserved_facts(3) [of "py_upper (CHR ''_'' # n)"] by (auto simp: py_upper_def)
    moreover have "apart (CHR ''_'' # n)" using ap hd by (intro underscore_apart) blast+
    ultimately have "component_ok k (rstrip_by is_trim_char (take k (CHR ''_'' # n)))"
      using k ne lst chars(1) nodot dash_safe by (intro truncated_component_ok) (auto simp del: successively.simps)
    then show ?thesis using True by simp
  next
    case False
    then have "component_ok k (rstrip_by is_trim_char (take k n))"
      using before_first_dot_upper [OF nodot] by (intro truncated_component_ok ap ne k lst chars(1) nodot) auto
    then show ?thesis using False by simp
  qed
qed

lemma safe_component_ok:
  assumes "6 \<le> k" and fb: "component_ok k fb"
  shows "component_ok k (safe_filename_component nfkc v fb k)"
proof -
  define n where "n = strip_by is_trim_char
    (sub_runs is_separator_char ''-'' (sub_runs is_unsafe_char ''-'' (py_strip (nfkc (or_empty v)))))"
  let ?five = "\<lambda>n. if before_first_dot (py_upper n) \<in> set windows_reserved then CHR ''_'' # n else n"
  have trims: "is_separator_char (CHR ''.'')" by code_simp
  have nodot: "CHR ''.'' \<notin> set n"
    using collapsed_chars(2) [of "CHR ''.''"] trims unfolding n_def by auto
  have eq: "safe_filename_component nfkc v fb k =
      (let m = (if n = [] then fb else n); r = rstrip_by is_trim_char (take k (?five m))
       in if r = [] then fb else r)"
    using nodot unfolding safe_filename_component_def n_def Let_def by auto
  show ?thesis
  proof (cases "n = []")
    case True
    have "safe_filename_component nfkc v fb k = fb"
      unfolding eq using True component_ok_of_fallback [OF fb] by (simp add: Let_def)
    with fb show ?thesis by simp
  next
    case False
    then have "component_ok k (rstrip_by is_trim_char (take k (?five n)))"
      using collapsed_component_ok [OF n_def False assms(1)] by simp
    then show ?thesis unfolding eq using False by (auto simp: Let_def component_ok_def)
  qed
qed

text \<open>
  Whatever Unicode normalisation returns, a filename component built with a limit of
  at least six characters and a well-formed fallback within it is a well-formed name:
  not empty, within the limit, free of path separators, wildcards and control
  characters, not ending in a space, dot or hyphen, and not a device name Windows
  reserves (\<open>CON\<close>, \<open>LPT1\<close>, ...), also after truncation.
\<close>

lemma safe_filename_component_safe:
  assumes "6 \<le> max_length" and "component_ok max_length fallback"
  shows "component_ok max_length (safe_filename_component nfkc component fallback max_length)"
  using assms by (rule safe_component_ok)

section \<open>The canonical filename is safe and bounded\<close>

lemma fallbacks_ok:
  "component_ok 40 ''No-LastName''" "component_ok 40 ''No-FirstName''"
  "component_ok 64 ''Missing-Identifier''" "component_ok 64 ''Unassigned-Room''"
  "component_ok 80 ''Untitled''"
  by code_simp+

lemma component_chars:
  "c \<in> set (safe_filename_component nfkc v ''No-LastName'' 40) \<Longrightarrow> \<not> is_unsafe_char c"
  "c \<in> set (safe_filename_component nfkc v ''No-FirstName'' 40) \<Longrightarrow> \<not> is_unsafe_char c"
  "c \<in> set (safe_filename_component nfkc v ''Missing-Identifier'' 64) \<Longrightarrow> \<not> is_unsafe_char c"
  "c \<in> set (safe_filename_component nfkc v ''Unassigned-Room'' 64) \<Longrightarrow> \<not> is_unsafe_char c"
  "c \<in> set (safe_filename_component nfkc v ''Untitled'' 80) \<Longrightarrow> \<not> is_unsafe_char c"
  using fallbacks_ok [THEN safe_component_ok [rotated], of nfkc v]
  by (auto simp: component_ok_def list_all_iff)

lemma digit_char_safe: "d < 10 \<Longrightarrow> \<not> is_unsafe_char (digit_char d)"
proof -
  have "\<forall>d \<in> set [0..<10]. \<not> is_unsafe_char (digit_char d)" by code_simp
  then show "d < 10 \<Longrightarrow> ?thesis" by auto
qed

lemma number_safe:
  "c \<in> set (str_int i) \<Longrightarrow> \<not> is_unsafe_char c" "c \<in> set (str_02d i) \<Longrightarrow> \<not> is_unsafe_char c"
  using dash_safe digit_char_safe by (auto dest!: str_int_chars str_02d_chars)

lemma format_safe:
  "c \<in> set (format_date t) \<Longrightarrow> \<not> is_unsafe_char c"
  "c \<in> set (format_hour_minute t) \<Longrightarrow> \<not> is_unsafe_char c"
  using dash_safe number_safe
  by (auto simp: format_date_def format_hour_minute_def split: prod.splits)

lemma last_digits: "last (digits_in 10 n) = digit_char (n mod 10)"
  by (subst digits_in.simps) (simp add: mod_less)

lemma number_last_not_trim: "\<not> is_trim_char (last (str_02d i))"
proof -
  have "\<forall>d \<in> set [0..<10]. \<not> is_trim_char (digit_char d)" by code_simp
  then have "\<not> is_trim_char (digit_char (n mod 10))" for n by auto
  then show ?thesis by (simp add: str_02d_def str_int_def last_digits)
qed

lemma canonical_local_safe:
  assumes "canonical_local tz m = Inr (d, t)"
  shows "c \<in> set d \<Longrightarrow> \<not> is_unsafe_char c" and "c \<in> set t \<Longrightarrow> \<not> is_unsafe_char c"
proof -
  have none: "list_all (\<lambda>c. \<not> is_unsafe_char c) (''No-Date'' @ ''No-Time'')" by code_simp
  show "c \<in> set d \<Longrightarrow> \<not> is_unsafe_char c" and "c \<in> set t \<Longrightarrow> \<not> is_unsafe_char c"
    using assms none format_safe
    by (auto simp: canonical_local_def list_all_iff split: option.splits if_splits)
qed

lemma canonical_presenter_safe: "c \<in> set (canonical_presenter nfkc m) \<Longrightarrow> \<not> is_unsafe_char c"
proof -
  have "list_all (\<lambda>c. \<not> is_unsafe_char c) ''No-Presenter''" by code_simp
  then show "c \<in> set (canonical_presenter nfkc m) \<Longrightarrow> \<not> is_unsafe_char c"
    using component_chars(1,2) dash_safe by (auto simp: canonical_presenter_def list_all_iff split: if_splits)
qed

lemma canonical_stem_safe:
  assumes "canonical_local tz m = Inr (d, t)"
    and "c \<in> set (join_with ''_'' (canonical_components nfkc m d t))"
  shows "\<not> is_unsafe_char c"
proof -
  have "\<not> is_unsafe_char (CHR ''v'')" by code_simp
  then show ?thesis
    using assms(2) canonical_local_safe [OF assms(1)] canonical_presenter_safe component_chars
      dash_safe number_safe(2)
    by (auto simp: canonical_components_def)
qed

lemma extension_facts:
  "e \<in> set supported_presentation_extensions \<Longrightarrow> length e \<le> 5 \<and> (\<forall>c \<in> set e. \<not> is_unsafe_char c)"
proof -
  have "list_all (\<lambda>e. length e \<le> 5 \<and> list_all (\<lambda>c. \<not> is_unsafe_char c) e) supported_presentation_extensions"
    by code_simp
  then show "e \<in> set supported_presentation_extensions \<Longrightarrow> length e \<le> 5 \<and> (\<forall>c \<in> set e. \<not> is_unsafe_char c)"
    by (auto simp: list_all_iff)
qed

text \<open>
  C20: The canonical filename of a presentation version. It is refused exactly for a
  version below one, an unsupported extension, a start without a timezone and an unknown
  zone. When it is built, it has at most 240 characters, ends in the lower-cased
  supported extension of the uploaded file, contains no character that is unsafe on
  Linux, Windows or SMB, and its stem is the join of the seven components wherever these
  fit the limit, so that the version number then shows.
\<close>

theorem canonical_filename_safe_and_bounded:
  "case canonical_presentation_filename nfkc tz m of
      Inl e \<Rightarrow> cm_version_number m < 1 \<or> canonical_extension m \<notin> set supported_presentation_extensions
        \<or> (\<exists>instant aware. cm_starts_at m = Some (instant, aware)
             \<and> (aware = False \<or> tz (cm_event_timezone m) instant = None))
    | Inr name \<Rightarrow> cm_version_number m \<ge> 1 \<and> canonical_extension m \<in> set supported_presentation_extensions
        \<and> length name \<le> 240 \<and> list_all (\<lambda>c. \<not> is_unsafe_char c) name
        \<and> (\<exists>stem d t. name = stem @ canonical_extension m \<and> canonical_local tz m = Inr (d, t)
             \<and> (stem = join_with ''_'' (canonical_components nfkc m d t)
                \<or> length (join_with ''_'' (canonical_components nfkc m d t)) + length (canonical_extension m) > 240))"
proof (cases "canonical_presentation_filename nfkc tz m")
  case (Inl e)
  then show ?thesis
    by (auto simp: canonical_presentation_filename_def canonical_local_def Let_def
        outcome_bind_Inl_conv split: if_splits option.splits)
next
  case (Inr name)
  define ext where "ext = canonical_extension m"
  from Inr obtain d t where v: "cm_version_number m \<ge> 1" and x: "ext \<in> set supported_presentation_extensions"
    and l: "canonical_local tz m = Inr (d, t)"
    and n: "name = rstrip_by is_trim_char (take (240 - length ext)
      (join_with ''_'' (canonical_components nfkc m d t))) @ ext"
    by (auto simp: canonical_presentation_filename_def Let_def ext_def
        outcome_bind_Inr_conv split: if_splits)
  let ?j = "join_with ''_'' (canonical_components nfkc m d t)"
  let ?s = "rstrip_by is_trim_char (take (240 - length ext) ?j)"
  have "length ?s \<le> 240 - length ext"
    using length_rstrip_by [of is_trim_char "take (240 - length ext) ?j"] by simp
  moreover have "length ext \<le> 240" using extension_facts [OF x] by simp
  ultimately have len: "length name \<le> 240" unfolding n by simp
  have "c \<in> set ?j" if "c \<in> set ?s" for c using that set_strips(2) set_take_subset by fastforce
  then have safe: "list_all (\<lambda>c. \<not> is_unsafe_char c) name"
    using canonical_stem_safe [OF l] extension_facts [OF x] unfolding n by (auto simp: list_all_iff)
  have "?s = ?j \<or> length ?j + length ext > 240"
  proof (cases "length ?j + length ext > 240")
    case False
    have "\<not> is_trim_char (last ?j)" using number_last_not_trim by (simp add: canonical_components_def)
    with False show ?thesis by (simp add: rstrip_by_id)
  qed simp
  with v x l n len safe Inr show ?thesis unfolding ext_def by auto
qed

definition demo_metadata :: presentation_metadata where
  "demo_metadata =
     \<lparr>cm_presentation_identifier = ''P-1'', cm_event_timezone = ''UTC'',
      cm_starts_at = Some (0, True), cm_room_label = Some ''Room: A'',
      cm_presenter_family_name = Some ''Doe'', cm_presenter_given_name = None,
      cm_title = Some ''Intro'', cm_version_number = 3, cm_original_filename = ''x.PPTX''\<rparr>"

theorem canonical_filename_safe_and_bounded_witness:
  "canonical_presentation_filename (\<lambda>s. s) (\<lambda>z t. Some 0) demo_metadata
     = Inr ''P-1_1970-01-01_Room-A_0000_Doe-No-FirstName_Intro_v03.pptx''
   \<and> length ''P-1_1970-01-01_Room-A_0000_Doe-No-FirstName_Intro_v03.pptx'' \<le> 240"
proof -
  have name: "canonical_presentation_filename (\<lambda>s. s) (\<lambda>z t. Some 0) demo_metadata
     = Inr ''P-1_1970-01-01_Room-A_0000_Doe-No-FirstName_Intro_v03.pptx''"
    by code_simp
  then show ?thesis
    using canonical_filename_safe_and_bounded
      [where nfkc = "\<lambda>s. s" and tz = "\<lambda>z t. Some 0" and m = demo_metadata]
    by (simp only: sum.case)
qed

section \<open>Generated identifiers\<close>

lemma hex_width_add: "hex_width (w + k) n = hex_width w (n div 16 ^ k) @ hex_width k n"
  by (induction k arbitrary: n) (simp_all add: div_mult2_eq)

lemma hex_width_mod: "hex_width k (n mod 16 ^ k) = hex_width k n"
proof (induction k arbitrary: n)
  case (Suc k)
  have "n mod 16 ^ Suc k = 16 * (n div 16 mod 16 ^ k) + n mod 16"
    by (simp add: mod_mult2_eq mult.commute)
  then have "n mod 16 ^ Suc k div 16 = n div 16 mod 16 ^ k" "n mod 16 ^ Suc k mod 16 = n mod 16"
    by simp_all
  with Suc.IH show ?case by simp
qed simp

lemma drop_uuid_hex: "drop 16 (uuid_hex u) = hex_width 16 u"
proof -
  have "hex_width 32 u = hex_width 16 (u div 16 ^ 16) @ hex_width 16 u"
    using hex_width_add [of 16 16 u] by (simp del: hex_width.simps)
  then show ?thesis by (simp add: uuid_hex_def del: hex_width.simps)
qed

lemma digit_value_upper: "d < 16 \<Longrightarrow> digit_value (upper_char (digit_char d)) = Some d"
  by (auto simp: digit_value_def digit_char_def is_digit_char_def upper_char_def is_lower_char_def
      char_code_def)

lemma number_in_upper:
  "(\<And>c. c \<in> set s \<Longrightarrow> \<exists>d < 16. c = digit_char d) \<Longrightarrow> number_in 16 acc (py_upper s) = number_in 16 acc s"
proof (induction s arbitrary: acc)
  case (Cons c s)
  then obtain d where "d < 16" "c = digit_char d" by auto
  with Cons show ?case by (simp add: py_upper_def digit_value_upper digit_value_char)
qed (simp add: py_upper_def)

text \<open>
  Identifiers generated at one origin for two UUIDs are equal exactly when the UUIDs
  agree in their low 64 bits, they have at most 33 characters, and an imported
  identifier is kept as it came (trimmed) and marked as imported.
\<close>

lemma presentation_identifiers_distinct:
  "(generate_presentation_identifier nfkd origin u = generate_presentation_identifier nfkd origin v
      \<longleftrightarrow> u mod 2 ^ 64 = v mod 2 ^ 64)
   \<and> length (generate_presentation_identifier nfkd origin u) \<le> 33
   \<and> allocate_presentation_identifier nfkd src origin u =
       (if py_strip (or_empty src) = []
        then (generate_presentation_identifier nfkd origin u, PidSource_GENERATED)
        else (py_strip (or_empty src), PidSource_IMPORTED))"
proof -
  have num: "number_in 16 0 (py_upper (hex_width 16 w)) = Some (w mod 2 ^ 64)" for w :: nat
    using set_hex_width [of _ 16 w] by (subst number_in_upper) (auto simp: number_hex_width)
  have "py_upper (hex_width 16 u) = py_upper (hex_width 16 v) \<longleftrightarrow> u mod 2 ^ 64 = v mod 2 ^ 64"
  proof
    assume "py_upper (hex_width 16 u) = py_upper (hex_width 16 v)"
    then show "u mod 2 ^ 64 = v mod 2 ^ 64" using num [of u] num [of v] by simp
  next
    assume eq: "u mod 2 ^ 64 = v mod 2 ^ 64"
    have "(16::nat) ^ 16 = 2 ^ 64" by simp
    with eq have "hex_width 16 u = hex_width 16 v" by (metis hex_width_mod)
    then show "py_upper (hex_width 16 u) = py_upper (hex_width 16 v)" by simp
  qed
  moreover have "length (origin_component nfkd origin) \<le> 12"
    by (simp add: origin_component_def Let_def)
  moreover have "py_strip [] = []" by code_simp
  moreover have "length (py_upper (hex_width 16 u)) = 16" by simp
  ultimately show ?thesis
    unfolding generate_presentation_identifier_def drop_uuid_hex allocate_presentation_identifier_def
      or_empty_def
    by (cases src) (simp_all only: option.case append_same_eq same_append_eq length_append list.size
        if_True if_False, auto)
qed

end
