(* ===== verification/Site_Deployments.thy ===== *)
theory Site_Deployments
  imports Site_Rooms Presentation_Naming
begin

text \<open>
  \<open>upm_site/event_deployments.py\<close>: how a Site applies a deployment snapshot, a revocation
  and the two deletions. \<open>_upsert_snapshot\<close> is the sequence of its stages, one definition
  per stage. Writes made before an exception stay in the session, as they do in the code.
\<close>

definition SITE_DEPLOYMENT_SCHEMA_VERSION :: int where
  "SITE_DEPLOYMENT_SCHEMA_VERSION = 1"

section \<open>Sequence numbers and status events\<close>

definition site_next_sequence :: "int site_tx" where
  "site_next_sequence db =
     (case row_get ssq_singleton_key (sd_sequences db) 1 of
        None \<Rightarrow> (Inr 1, db\<lparr>sd_sequences := sd_sequences db @ [\<lparr>ssq_singleton_key = 1, ssq_next_value = 2\<rparr>]\<rparr>)
      | Some s \<Rightarrow> (Inr (ssq_next_value s),
          db\<lparr>sd_sequences := row_put ssq_singleton_key 1
               (\<lambda>r. r\<lparr>ssq_next_value := ssq_next_value r + 1\<rparr>) (sd_sequences db)\<rparr>))"

definition status_key :: "site_event_deployment_projection \<Rightarrow> string \<Rightarrow> string" where
  "status_key d status =
     ''deployment-status:'' @ uuid_str (sed_deployment_id d) @ '':'' @ str_int (sed_desired_revision d) @ '':''
     @ str_int (sed_applied_revision d) @ '':'' @ status"

text \<open>\<open>{key: int(value) for key, value in summary_counts.items()}\<close>\<close>

fun int_counts :: "payload \<Rightarrow> (string \<times> int) list outcome" where
  "int_counts [] = Inr []"
| "int_counts ((k, v) # kvs) =
     outcome_bind (py_int v) (\<lambda>n. outcome_bind (int_counts kvs) (\<lambda>ns. Inr ((k, n) # ns)))"

definition status_report ::
  "datetime \<Rightarrow> site_event_deployment_projection \<Rightarrow> string \<Rightarrow> (string \<times> int) list \<Rightarrow> site_deployment_status" where
  "status_report now d status counts =
     \<lparr>sds_schema_version = SITE_DEPLOYMENT_SCHEMA_VERSION, sds_deployment_id = sed_deployment_id d,
      sds_event_id = sed_central_event_id d, sds_site_id = sed_site_id d,
      sds_desired_revision = sed_desired_revision d, sds_applied_revision = sed_applied_revision d,
      sds_status = status, sds_failure_reason = None, sds_summary_counts = counts, sds_observed_at = now\<rparr>"

definition status_event ::
  "codec \<Rightarrow> datetime \<Rightarrow> site_event_deployment_projection \<Rightarrow> string \<Rightarrow> uuid \<Rightarrow> outbox_event site_tx" where
  "status_event cx now d status causation_id =
     tx_bind (tx_read (\<lambda>db. find (\<lambda>e. o_source_system e = Src_SITE \<and> o_idempotency_key e = status_key d status)
                              (q_outbox (sd_queue db)))) (\<lambda>existing.
     case existing of
       Some e \<Rightarrow> tx_return e
     | None \<Rightarrow>
         tx_bind (tx_lift (int_counts (sed_summary_counts d))) (\<lambda>counts.
         let report = status_report now d status counts in
         tx_then (tx_lift (require (site_deployment_status_fields report) validation_error))
           (tx_bind site_next_sequence (\<lambda>sequence.
            site_publish cx now
              \<lparr>ov_event_type = ''site.event_deployment.'' @ status, ov_aggregate_type = ''event_deployment'',
               ov_aggregate_id = sed_deployment_id d, ov_site_id = Some (sed_site_id d),
               ov_event_id = Some (sed_central_event_id d), ov_source_sequence = Some sequence,
               ov_correlation_id = Some (sed_deployment_id d), ov_causation_id = Some causation_id,
               ov_protocol_version = None, ov_idempotency_key = status_key d status,
               ov_payload = \<lparr>op_schema_version = SITE_DEPLOYMENT_SCHEMA_VERSION, op_source_system = Src_SITE,
                 op_data = dump_status cx report\<rparr>\<rparr>))))"

definition local_site_id :: "uuid site_tx" where
  "local_site_id =
     tx_bind (tx_read (\<lambda>db. row_get sli_singleton_key (sd_identities db) 1)) (\<lambda>identity.
       case identity of
         None \<Rightarrow> tx_raise (ValueError ''Site identity has not been initialized'')
       | Some i \<Rightarrow> tx_return (sli_site_id i))"

section \<open>Rows a snapshot upserts\<close>

text \<open>\<open>session.get\<close>, then a change of the row or a new one: the pattern of every stage.\<close>

definition upsert :: "('r \<Rightarrow> 'k) \<Rightarrow> 'k \<Rightarrow> ('r \<Rightarrow> 'r) \<Rightarrow> 'r \<Rightarrow> 'r list \<Rightarrow> 'r list" where
  "upsert key k change new rows =
     (case row_get key rows k of None \<Rightarrow> rows @ [new] | Some r \<Rightarrow> row_put key k change rows)"

subsection \<open>The event\<close>

definition snapshot_event ::
  "event_deployment_snapshot \<Rightarrow> site_event \<Rightarrow> site_event" where
  "snapshot_event snap e =
     e\<lparr>sev_name := snap_event_name snap, sev_description := snap_event_description snap,
       sev_timezone := (case given (snap_timezone snap) of None \<Rightarrow> ''UTC'' | Some z \<Rightarrow> z),
       sev_starts_at := snap_starts_at snap, sev_ends_at := snap_ends_at snap,
       sev_sync_state := Sync_SYNCHRONIZED\<rparr>"

definition upsert_event :: "datetime \<Rightarrow> event_deployment_snapshot \<Rightarrow> unit site_tx" where
  "upsert_event now snap =
     tx_bind (tx_read (\<lambda>db. row_get sev_event_id (sd_events db) (snap_event_id snap))) (\<lambda>existing.
     case existing of
       None \<Rightarrow> tx_write (\<lambda>db. db\<lparr>sd_events := sd_events db @ [snapshot_event snap
           ((default_site_event now)\<lparr>sev_event_id := snap_event_id snap, sev_site_id := snap_site_id snap\<rparr>)]\<rparr>)
     | Some e \<Rightarrow>
         if sev_site_id e \<noteq> snap_site_id snap then tx_raise (ValueError ''event belongs to another Site'')
         else tx_write (\<lambda>db. db\<lparr>sd_events := row_put sev_event_id (snap_event_id snap)
           (\<lambda>e. (snapshot_event snap e)\<lparr>sev_revision := max (sev_revision e) (snap_deployment_revision snap)\<rparr>)
           (sd_events db)\<rparr>))"

subsection \<open>Users\<close>

definition revoke_job :: "uuid \<Rightarrow> string \<Rightarrow> string \<Rightarrow> job_values" where
  "revoke_job site_id username key =
     \<lparr>jv_id = None, jv_site_id = Some site_id, jv_media_object_id = None, jv_type = ''smb.user.revoke'',
      jv_payload = Some (JObj [(''data'', JObj [(''username'', JStr username)])]), jv_priority = None,
      jv_required_capabilities = Some [''cpu''],
      jv_idempotency_key = Some key, jv_max_attempts = None, jv_next_attempt_at = None\<rparr>"

definition revoke_key :: "uuid \<Rightarrow> int \<Rightarrow> string" where
  "revoke_key user_id revision = ''smb-user-revoke:'' @ uuid_str user_id @ '':'' @ str_int revision"

definition change_user :: "(site_user \<Rightarrow> bool) \<Rightarrow> (site_user \<Rightarrow> site_user) \<Rightarrow> unit site_tx" where
  "change_user P f = tx_write (\<lambda>db. db\<lparr>sd_users := update_first P f (sd_users db)\<rparr>)"

definition withdraw_user :: "codec \<Rightarrow> datetime \<Rightarrow> event_deployment_snapshot \<Rightarrow> site_user \<Rightarrow> unit site_tx" where
  "withdraw_user cx now snap u =
     tx_then (change_user (\<lambda>r. sus_user_id r = sus_user_id u)
         (\<lambda>r. r\<lparr>sus_active := False, sus_web_access := False, sus_smb_enabled := False\<rparr>))
       (tx_then (site_schedule cx now (revoke_job (snap_site_id snap) (sus_username u)
                   (revoke_key (sus_user_id u) (snap_deployment_revision snap))))
         (tx_return ()))"

definition withdraw_missing_users :: "codec \<Rightarrow> datetime \<Rightarrow> event_deployment_snapshot \<Rightarrow> unit site_tx" where
  "withdraw_missing_users cx now snap =
     tx_bind (tx_read (\<lambda>db. filter (\<lambda>u. sus_user_type u = ''central_managed'') (sd_users db))) (\<lambda>users.
     tx_for (withdraw_user cx now snap)
       (filter (\<lambda>u. sus_central_user_id u \<notin> Some ` snus_user_id ` set (snap_users snap)) users))"

definition new_user :: "datetime \<Rightarrow> uuid \<Rightarrow> bool \<Rightarrow> site_user_snapshot \<Rightarrow> site_user" where
  "new_user now i collision item =
     (default_site_user now)\<lparr>sus_user_id := i, sus_central_user_id := Some (snus_user_id item),
        sus_user_type := ''central_managed'', sus_username := snus_username item,
        sus_normalized_username :=
          (if collision then ''central:'' @ uuid_str (snus_user_id item)
           else py_lower (py_strip (snus_username item))),
        sus_display_name := snus_display_name item, sus_roles := [snus_role item],
        sus_permissions := snus_permissions item\<rparr>"

definition project_user :: "bool \<Rightarrow> site_user_snapshot \<Rightarrow> site_user \<Rightarrow> site_user" where
  "project_user collision item u =
     u\<lparr>sus_username := snus_username item, sus_display_name := snus_display_name item,
       sus_email := snus_email item, sus_roles := [snus_role item], sus_permissions := snus_permissions item,
       sus_active := snus_enabled item \<and> \<not> collision, sus_web_access := snus_web_access item \<and> \<not> collision,
       sus_smb_enabled := snus_smb_enabled item \<and> \<not> collision,
       sus_web_password_hash := Some (snus_password_verifier item), sus_revision := snus_central_revision item\<rparr>"

text \<open>\<open>TypeError: '>=' not supported between instances of 'int' and 'NoneType'\<close>\<close>

definition unset_revision :: error where
  "unset_revision = TypeError (CHR 0x27 # ''>='' @ CHR 0x27 # '' not supported between instances of ''
     @ CHR 0x27 # ''int'' @ CHR 0x27 # '' and '' @ CHR 0x27 # ''NoneType'' @ [CHR 0x27])"

text \<open>
  A user the Site does not know yet is added to the session and then compared with
  \<open>item.central_revision >= user.revision\<close>. The column default of \<open>revision\<close> is applied
  by the flush, so at this point the attribute is \<open>None\<close> and the comparison raises.
\<close>

definition upsert_user :: "codec \<Rightarrow> datetime \<Rightarrow> event_deployment_snapshot \<Rightarrow> site_user_snapshot \<Rightarrow> unit site_tx" where
  "upsert_user cx now snap item =
     tx_bind (tx_read (\<lambda>db. find (\<lambda>u. sus_central_user_id u = Some (snus_user_id item)) (sd_users db))) (\<lambda>user.
     tx_bind (tx_read (\<lambda>db. find (\<lambda>u. sus_normalized_username u = py_lower (py_strip (snus_username item))
                                     \<and> sus_user_type u = ''site_local'') (sd_users db) \<noteq> None)) (\<lambda>collision.
     case user of
       None \<Rightarrow>
         tx_bind (site_new_id cx) (\<lambda>i.
         tx_then (tx_write (\<lambda>db. db\<lparr>sd_users := sd_users db @ [new_user now i collision item]\<rparr>))
           (tx_raise unset_revision))
     | Some u \<Rightarrow>
         if snus_central_revision item < sus_revision u then tx_return ()
         else
           let u' = project_user collision item u in
           tx_then (change_user (\<lambda>r. sus_central_user_id r = Some (snus_user_id item)) (project_user collision item))
             (if \<not> sus_active u' \<or> \<not> sus_smb_enabled u'
              then tx_then (site_schedule cx now (revoke_job (snap_site_id snap) (sus_username u')
                              (revoke_key (sus_user_id u) (snus_central_revision item)))) (tx_return ())
              else tx_return ())))"

subsection \<open>People\<close>

definition profile_person :: "person_profile \<Rightarrow> site_person_projection \<Rightarrow> site_person_projection" where
  "profile_person item p =
     p\<lparr>spj_display_name := snpe_display_name item, spj_given_name := snpe_given_name item,
       spj_family_name := snpe_family_name item, spj_primary_email := snpe_primary_email item,
       spj_organization := snpe_organization item, spj_central_revision := snpe_central_revision item,
       spj_sync_state := Sync_SYNCHRONIZED\<rparr>"

definition upsert_person :: "datetime \<Rightarrow> person_profile \<Rightarrow> site_person_projection list \<Rightarrow> site_person_projection list" where
  "upsert_person now item =
     upsert spj_person_id (snpe_person_id item)
       (\<lambda>p. if snpe_central_revision item \<ge> spj_central_revision p then profile_person item p else p)
       (profile_person item ((default_site_person_projection now)\<lparr>spj_person_id := snpe_person_id item\<rparr>))"

subsection \<open>The program\<close>

text \<open>The seven bulk updates that set \<open>active\<close> to false before the program is written again.\<close>

definition deactivate_program :: "uuid \<Rightarrow> site_db \<Rightarrow> site_db" where
  "deactivate_program event_id db =
     (let own_session = (\<lambda>i. \<exists>s \<in> set (sd_program_sessions db). sss_session_id s = i \<and> sss_event_id s = event_id);
          own_presentation = (\<lambda>i. \<exists>p \<in> set (sd_presentations db).
                                spr_presentation_id p = i \<and> spr_event_id p = event_id)
      in db\<lparr>
        sd_participations := map (\<lambda>r. if sep_event_id r = event_id then r\<lparr>sep_active := False\<rparr> else r) (sd_participations db),
        sd_program_sessions := map (\<lambda>r. if sss_event_id r = event_id then r\<lparr>sss_active := False\<rparr> else r) (sd_program_sessions db),
        sd_presentations := map (\<lambda>r. if spr_event_id r = event_id then r\<lparr>spr_active := False\<rparr> else r) (sd_presentations db),
        sd_session_participants := map (\<lambda>r. if own_session (ssp_session_id r) then r\<lparr>ssp_active := False\<rparr> else r)
          (sd_session_participants db),
        sd_presentation_sessions := map (\<lambda>r. if own_presentation (sps_presentation_id r) then r\<lparr>sps_active := False\<rparr> else r)
          (sd_presentation_sessions db),
        sd_presentation_presenters := map (\<lambda>r. if own_presentation (spp_presentation_id r) then r\<lparr>spp_active := False\<rparr> else r)
          (sd_presentation_presenters db),
        sd_external_identifiers := map (\<lambda>r. if sxi_event_id r = event_id then r\<lparr>sxi_active := False\<rparr> else r)
          (sd_external_identifiers db)\<rparr>)"

definition fill_participation :: "participation_snapshot \<Rightarrow> site_event_participation \<Rightarrow> site_event_participation" where
  "fill_participation item r =
     r\<lparr>sep_role := snpa_role item, sep_display_name := snpa_display_name item,
       sep_professional_title := snpa_professional_title item, sep_organization := snpa_organization item,
       sep_participant_status := snpa_participant_status item, sep_is_presenter := snpa_is_presenter item,
       sep_active := True, sep_sync_state := Sync_SYNCHRONIZED\<rparr>"

definition upsert_participation ::
  "datetime \<Rightarrow> uuid \<Rightarrow> participation_snapshot \<Rightarrow> site_event_participation list \<Rightarrow> site_event_participation list" where
  "upsert_participation now event_id item =
     upsert sep_event_participation_id (snpa_event_participation_id item)
       (\<lambda>r. (fill_participation item r)\<lparr>sep_revision := max (sep_revision r) (snpa_central_revision item)\<rparr>)
       ((fill_participation item ((default_site_event_participation now)\<lparr>
           sep_event_participation_id := snpa_event_participation_id item, sep_event_id := event_id,
           sep_person_id := snpa_person_id item\<rparr>))\<lparr>sep_revision := snpa_central_revision item\<rparr>)"

definition fill_session :: "session_snapshot \<Rightarrow> site_session \<Rightarrow> site_session" where
  "fill_session item r =
     r\<lparr>sss_title := snss_title item, sss_subtitle := snss_subtitle item, sss_description := snss_description item,
       sss_session_code := snss_session_code item, sss_session_type := snss_session_type item,
       sss_starts_at := snss_starts_at item, sss_ends_at := snss_ends_at item,
       sss_location_name := snss_location_name item, sss_status := snss_status item,
       sss_sort_order := snss_sort_order item, sss_active := True, sss_sync_state := Sync_SYNCHRONIZED\<rparr>"

definition upsert_session :: "datetime \<Rightarrow> uuid \<Rightarrow> session_snapshot \<Rightarrow> site_session list \<Rightarrow> site_session list" where
  "upsert_session now event_id item =
     upsert sss_session_id (snss_session_id item)
       (\<lambda>r. (fill_session item r)\<lparr>sss_revision := max (sss_revision r) (snss_central_revision item)\<rparr>)
       ((fill_session item ((default_site_session now)\<lparr>sss_session_id := snss_session_id item,
           sss_event_id := event_id\<rparr>))\<lparr>sss_revision := snss_central_revision item\<rparr>)"

subsection \<open>Rooms Central has mapped\<close>

fun assoc_set :: "'k \<Rightarrow> 'v \<Rightarrow> ('k \<times> 'v) list \<Rightarrow> ('k \<times> 'v) list" where
  "assoc_set k v [] = [(k, v)]"
| "assoc_set k v ((k', v') # kvs) = (if k' = k then (k, v) # kvs else (k', v') # assoc_set k v kvs)"

definition rule_label :: "codec \<Rightarrow> payload \<Rightarrow> string" where
  "rule_label cx kvs =
     (case dict_get kvs ''normalized_imported_label'' of
        None \<Rightarrow> [] | Some v \<Rightarrow> if py_true v then py_str (json_repr cx) v else [])"

definition add_rule :: "codec \<Rightarrow> json \<Rightarrow> (string \<times> payload) list \<Rightarrow> (string \<times> payload) list" where
  "add_rule cx v rules = (case v of JObj kvs \<Rightarrow> assoc_set (rule_label cx kvs) kvs rules | _ \<Rightarrow> rules)"

definition room_rules :: "codec \<Rightarrow> payload \<Rightarrow> (string \<times> payload) list outcome" where
  "room_rules cx config =
     outcome_bind (py_list (default_to (JList []) (dict_get config ''mappings'')))
       (\<lambda>vs. Inr (fold (add_rule cx) vs []))"

definition rule_mapped :: "payload \<Rightarrow> bool" where
  "rule_mapped kvs \<longleftrightarrow> dict_get kvs ''mapping_status'' = Some (JStr ''mapped'')"

definition centrally_mapped_labels :: "(string \<times> payload) list \<Rightarrow> string list" where
  "centrally_mapped_labels rules = map fst (filter (\<lambda>(label, kvs). rule_mapped kvs) rules)"

text \<open>The room Central asks for, when there is one at this Site.\<close>

definition rule_room ::
  "codec \<Rightarrow> uuid \<Rightarrow> (string \<times> payload) list \<Rightarrow> site_room list \<Rightarrow> session_snapshot \<Rightarrow> uuid option" where
  "rule_room cx site_id rules rooms item =
     (case given (snss_location_name item) of
        None \<Rightarrow> None
      | Some l \<Rightarrow>
          (case map_of rules (normalize_program_location l) of
             None \<Rightarrow> None
           | Some kvs \<Rightarrow>
               if kvs = [] \<or> \<not> rule_mapped kvs then None
               else (case uuid_of (json_repr cx) (default_to JNull (dict_get kvs ''target_room_id'')) of
                  Inl e \<Rightarrow> None
                | Inr room_id \<Rightarrow>
                    (case row_get sro_room_id rooms room_id of
                       None \<Rightarrow> None
                     | Some r \<Rightarrow> if sro_site_id r \<noteq> site_id then None else Some room_id))))"

text \<open>
  One session of the loop; the carried number is \<open>room_conflicts\<close>. The two other counters
  of this loop are overwritten by the reconciliation that follows.
\<close>

definition assign_centrally ::
  "codec \<Rightarrow> datetime \<Rightarrow> uuid \<Rightarrow> (string \<times> payload) list \<Rightarrow> session_snapshot \<Rightarrow> nat \<Rightarrow> nat site_tx" where
  "assign_centrally cx now site_id rules item conflicts =
     tx_bind (tx_read (\<lambda>db. rule_room cx site_id rules (sd_rooms db) item)) (\<lambda>target.
     case target of
       None \<Rightarrow> tx_return conflicts
     | Some room_id \<Rightarrow>
         tx_bind (tx_read (\<lambda>db. find (active_for (snss_session_id item)) (sd_room_assignments db))) (\<lambda>current.
         case current of
           Some a \<Rightarrow> tx_return (if sra_room_id a \<noteq> room_id then conflicts + 1 else conflicts)
         | None \<Rightarrow>
             tx_bind (site_new_id cx) (\<lambda>i.
             tx_then (tx_write (\<lambda>db. db\<lparr>sd_room_assignments := sd_room_assignments db @
                 [(default_site_room_assignment now)\<lparr>sra_room_assignment_id := i, sra_room_id := room_id,
                    sra_session_id := snss_session_id item, sra_starts_at := snss_starts_at item,
                    sra_ends_at := snss_ends_at item, sra_active := True\<rparr>]\<rparr>))
               (tx_return conflicts))))"

subsection \<open>Presenters and presentations\<close>

definition upsert_session_participant ::
  "datetime \<Rightarrow> uuid \<Rightarrow> session_participant_snapshot \<Rightarrow> site_session_participant list \<Rightarrow> site_session_participant list" where
  "upsert_session_participant now session_id item =
     upsert ssp_session_participant_id (snsp_session_participant_id item)
       (\<lambda>r. r\<lparr>ssp_role := snsp_role item, ssp_presenter_order := snsp_presenter_order item,
              ssp_primary_presenter := snsp_primary_presenter item, ssp_active := True,
              ssp_revision := max (ssp_revision r) (snsp_central_revision item), ssp_sync_state := Sync_SYNCHRONIZED\<rparr>)
       ((default_site_session_participant now)\<lparr>ssp_session_participant_id := snsp_session_participant_id item,
          ssp_session_id := session_id, ssp_event_participation_id := snsp_event_participation_id item,
          ssp_role := snsp_role item, ssp_presenter_order := snsp_presenter_order item,
          ssp_primary_presenter := snsp_primary_presenter item, ssp_active := True,
          ssp_revision := snsp_central_revision item, ssp_sync_state := Sync_SYNCHRONIZED\<rparr>)"

text \<open>\<open>a or b\<close> on optional text.\<close>

definition text_or :: "string option \<Rightarrow> string option \<Rightarrow> string option" where
  "text_or a b = (case given a of None \<Rightarrow> b | Some s \<Rightarrow> Some s)"

definition snapshot_identity :: "codec \<Rightarrow> presentation_snapshot \<Rightarrow> string \<times> presentation_identifier_source" where
  "snapshot_identity cx item =
     (case allocate_presentation_identifier (unicode_nfkd cx)
             (text_or (snpr_presentation_identifier item) (snpr_presentation_code item)) ''SITE''
             (snpr_presentation_id item) of
        (identifier, source) \<Rightarrow> (identifier, default_to source (snpr_presentation_identifier_source item)))"

definition fill_presentation :: "presentation_snapshot \<Rightarrow> site_presentation \<Rightarrow> site_presentation" where
  "fill_presentation item r =
     r\<lparr>spr_session_id := snpr_session_id item, spr_title := snpr_title item, spr_description := snpr_description item,
       spr_presentation_code := snpr_presentation_code item, spr_workflow_status := snpr_workflow_status item,
       spr_processing_status := snpr_processing_status item, spr_scheduled_at := snpr_scheduled_at item,
       spr_active := True, spr_sync_state := Sync_SYNCHRONIZED\<rparr>"

definition refresh_presentation :: "codec \<Rightarrow> presentation_snapshot \<Rightarrow> site_presentation \<Rightarrow> site_presentation" where
  "refresh_presentation cx item r =
     (let r1 = (fill_presentation item r)\<lparr>spr_revision := max (spr_revision r) (snpr_central_revision item)\<rparr>;
          r2 = (if given (snpr_presentation_identifier item) \<noteq> None
                then r1\<lparr>spr_presentation_identifier := fst (snapshot_identity cx item),
                        spr_presentation_identifier_source := snd (snapshot_identity cx item)\<rparr> else r1);
          external = text_or (snpr_external_presentation_id item) (snpr_presentation_code item)
      in if given external \<noteq> None then r2\<lparr>spr_external_presentation_id := external\<rparr> else r2)"

definition upsert_presentation ::
  "codec \<Rightarrow> datetime \<Rightarrow> uuid \<Rightarrow> presentation_snapshot \<Rightarrow> site_presentation list \<Rightarrow> site_presentation list" where
  "upsert_presentation cx now event_id item =
     upsert spr_presentation_id (snpr_presentation_id item) (refresh_presentation cx item)
       ((fill_presentation item ((default_site_presentation now)\<lparr>spr_presentation_id := snpr_presentation_id item,
           spr_event_id := event_id\<rparr>))\<lparr>
          spr_presentation_identifier := fst (snapshot_identity cx item),
          spr_presentation_identifier_source := snd (snapshot_identity cx item),
          spr_external_presentation_id := text_or (snpr_external_presentation_id item) (snpr_presentation_code item),
          spr_revision := snpr_central_revision item\<rparr>)"

definition add_version :: "codec \<Rightarrow> datetime \<Rightarrow> uuid \<Rightarrow> int \<Rightarrow> unit site_tx" where
  "add_version cx now presentation_id n =
     tx_bind (site_new_id cx) (\<lambda>i. tx_write (\<lambda>db. db\<lparr>sd_versions := sd_versions db @
       [(default_site_presentation_version now)\<lparr>spv_presentation_version_id := i,
          spv_presentation_id := presentation_id, spv_version_number := n,
          spv_sync_state := Sync_SYNCHRONIZED\<rparr>]\<rparr>))"

definition add_versions :: "codec \<Rightarrow> datetime \<Rightarrow> presentation_snapshot \<Rightarrow> unit site_tx" where
  "add_versions cx now item =
     tx_bind (tx_read (\<lambda>db. map spv_version_number
        (filter (\<lambda>v. spv_presentation_id v = snpr_presentation_id item) (sd_versions db)))) (\<lambda>existing.
     tx_for (add_version cx now (snpr_presentation_id item))
       (filter (\<lambda>n. n \<notin> set existing) (snpr_version_numbers item)))"

definition upsert_session_link ::
  "datetime \<Rightarrow> uuid \<Rightarrow> presentation_session_snapshot \<Rightarrow> site_presentation_session list \<Rightarrow> site_presentation_session list" where
  "upsert_session_link now presentation_id item =
     upsert sps_presentation_session_id (snps_presentation_session_id item)
       (\<lambda>r. r\<lparr>sps_session_id := snps_session_id item, sps_association_type := snps_association_type item,
              sps_sort_order := snps_sort_order item, sps_primary_session := snps_primary_session item,
              sps_active := True, sps_revision := max (sps_revision r) (snps_central_revision item)\<rparr>)
       ((default_site_presentation_session now)\<lparr>sps_presentation_session_id := snps_presentation_session_id item,
          sps_presentation_id := presentation_id, sps_session_id := snps_session_id item,
          sps_association_type := snps_association_type item, sps_sort_order := snps_sort_order item,
          sps_primary_session := snps_primary_session item, sps_active := True,
          sps_revision := snps_central_revision item\<rparr>)"

definition upsert_presenter_link ::
  "datetime \<Rightarrow> uuid \<Rightarrow> presentation_presenter_snapshot \<Rightarrow> site_presentation_presenter list \<Rightarrow> site_presentation_presenter list" where
  "upsert_presenter_link now presentation_id item =
     upsert spp_presentation_presenter_id (snpp_presentation_presenter_id item)
       (\<lambda>r. r\<lparr>spp_event_participation_id := snpp_event_participation_id item, spp_role := snpp_role item,
              spp_presenter_order := snpp_presenter_order item, spp_primary_presenter := snpp_primary_presenter item,
              spp_active := True, spp_revision := max (spp_revision r) (snpp_central_revision item)\<rparr>)
       ((default_site_presentation_presenter now)\<lparr>spp_presentation_presenter_id := snpp_presentation_presenter_id item,
          spp_presentation_id := presentation_id, spp_event_participation_id := snpp_event_participation_id item,
          spp_role := snpp_role item, spp_presenter_order := snpp_presenter_order item,
          spp_primary_presenter := snpp_primary_presenter item, spp_active := True,
          spp_revision := snpp_central_revision item\<rparr>)"

definition link_presentation :: "codec \<Rightarrow> datetime \<Rightarrow> presentation_snapshot \<Rightarrow> unit site_tx" where
  "link_presentation cx now item =
     tx_then (add_versions cx now item)
       (tx_write (\<lambda>db. db\<lparr>
          sd_presentation_sessions := fold (upsert_session_link now (snpr_presentation_id item))
            (snpr_sessions item) (sd_presentation_sessions db),
          sd_presentation_presenters := fold (upsert_presenter_link now (snpr_presentation_id item))
            (snpr_presenters item) (sd_presentation_presenters db)\<rparr>))"

definition upsert_identifier ::
  "datetime \<Rightarrow> uuid \<Rightarrow> external_identifier_snapshot \<Rightarrow> site_external_identifier_projection list
   \<Rightarrow> site_external_identifier_projection list" where
  "upsert_identifier now event_id item =
     upsert sxi_external_identifier_id (snxi_external_identifier_id item)
       (\<lambda>r. r\<lparr>sxi_entity_type := snxi_entity_type item, sxi_entity_id := snxi_entity_id item,
              sxi_namespace := snxi_namespace item, sxi_external_id := snxi_external_id item,
              sxi_active := True, sxi_revision := max (sxi_revision r) (snxi_central_revision item)\<rparr>)
       ((default_site_external_identifier_projection now)\<lparr>sxi_external_identifier_id := snxi_external_identifier_id item,
          sxi_event_id := event_id, sxi_entity_type := snxi_entity_type item, sxi_entity_id := snxi_entity_id item,
          sxi_namespace := snxi_namespace item, sxi_external_id := snxi_external_id item, sxi_active := True,
          sxi_revision := snxi_central_revision item\<rparr>)"

section \<open>Applying a snapshot\<close>

definition upsert_people_and_program :: "codec \<Rightarrow> datetime \<Rightarrow> event_deployment_snapshot \<Rightarrow> unit site_tx" where
  "upsert_people_and_program cx now snap =
     tx_then (tx_write (\<lambda>db. db\<lparr>sd_people := fold (upsert_person now) (snap_people snap) (sd_people db)\<rparr>))
       (tx_then site_flush
         (tx_then (tx_write (deactivate_program (snap_event_id snap)))
           (tx_then (tx_write (\<lambda>db. db\<lparr>
               sd_participations := fold (upsert_participation now (snap_event_id snap))
                 (snap_participations snap) (sd_participations db),
               sd_program_sessions := fold (upsert_session now (snap_event_id snap))
                 (snap_sessions snap) (sd_program_sessions db)\<rparr>))
             site_flush)))"

record room_results =
  rr_materialized :: materialize_counts
  rr_conflicts :: nat
  rr_reconciled :: reconcile_counts

definition assign_snapshot_rooms :: "codec \<Rightarrow> datetime \<Rightarrow> event_deployment_snapshot \<Rightarrow> room_results site_tx" where
  "assign_snapshot_rooms cx now snap =
     tx_bind (tx_lift (room_rules cx (snap_room_configuration snap))) (\<lambda>rules.
     tx_bind (materialize_program_room_mappings cx now (centrally_mapped_labels rules) (snap_event_id snap)) (\<lambda>m.
     tx_bind (tx_fold (assign_centrally cx now (snap_site_id snap) rules) (snap_sessions snap) 0) (\<lambda>conflicts.
     tx_bind (reconcile_program_room_assignments cx now (snap_event_id snap)) (\<lambda>r.
     tx_return \<lparr>rr_materialized = m, rr_conflicts = conflicts, rr_reconciled = r\<rparr>))))"

definition upsert_presentations :: "codec \<Rightarrow> datetime \<Rightarrow> event_deployment_snapshot \<Rightarrow> unit site_tx" where
  "upsert_presentations cx now snap =
     tx_then (tx_write (\<lambda>db. db\<lparr>
         sd_session_participants := fold (\<lambda>item. fold (upsert_session_participant now (snss_session_id item))
           (snss_participants item)) (snap_sessions snap) (sd_session_participants db),
         sd_presentations := fold (upsert_presentation cx now (snap_event_id snap))
           (snap_presentations snap) (sd_presentations db)\<rparr>))
       (tx_then site_flush
         (tx_then (tx_for (link_presentation cx now) (snap_presentations snap))
           (tx_write (\<lambda>db. db\<lparr>sd_external_identifiers := fold (upsert_identifier now (snap_event_id snap))
              (snap_external_identifiers snap) (sd_external_identifiers db)\<rparr>))))"

definition summary_counts :: "event_deployment_snapshot \<Rightarrow> room_results \<Rightarrow> payload" where
  "summary_counts snap rr =
     (let count = (\<lambda>(k, n :: nat). (k, JInt (int n))) in map count
       [(''people'', length (snap_people snap)),
        (''participants'', length (snap_participations snap)),
        (''presenters'', length (filter snpa_is_presenter (snap_participations snap))),
        (''sessions'', length (snap_sessions snap)),
        (''session_presenters'', sum_list (map (\<lambda>i. length (snss_participants i)) (snap_sessions snap))),
        (''presentations'', length (snap_presentations snap)),
        (''presentation_sessions'', sum_list (map (\<lambda>i. length (snpr_sessions i)) (snap_presentations snap))),
        (''presentation_presenters'', sum_list (map (\<lambda>i. length (snpr_presenters i)) (snap_presentations snap))),
        (''external_identifiers'', length (snap_external_identifiers snap)),
        (''rooms'', rc_mapped_sessions (rr_reconciled rr)),
        (''unresolved_rooms'', rc_unmapped_sessions (rr_reconciled rr)),
        (''room_conflicts'', rr_conflicts rr),
        (''rooms_created'', mc_created_rooms (rr_materialized rr)),
        (''rooms_reused'', mc_reused_rooms (rr_materialized rr)),
        (''room_mappings_created'', mc_created_mappings (rr_materialized rr)),
        (''room_labels_ambiguous'', mc_ambiguous_labels (rr_materialized rr))])"

definition upsert_snapshot :: "codec \<Rightarrow> datetime \<Rightarrow> event_deployment_snapshot \<Rightarrow> payload site_tx" where
  "upsert_snapshot cx now snap =
     tx_then (upsert_event now snap)
       (tx_then (withdraw_missing_users cx now snap)
         (tx_then (tx_for (upsert_user cx now snap) (snap_users snap))
           (tx_then (upsert_people_and_program cx now snap)
             (tx_bind (assign_snapshot_rooms cx now snap) (\<lambda>rr.
              tx_then (upsert_presentations cx now snap) (tx_return (summary_counts snap rr)))))))"

definition change_deployment ::
  "uuid \<Rightarrow> (site_event_deployment_projection \<Rightarrow> site_event_deployment_projection) \<Rightarrow> site_db \<Rightarrow> site_db" where
  "change_deployment deployment_id f db =
     db\<lparr>sd_deployments := row_put sed_deployment_id deployment_id f (sd_deployments db)\<rparr>"

definition load_deployment :: "uuid \<Rightarrow> site_event_deployment_projection option site_tx" where
  "load_deployment deployment_id = tx_read (\<lambda>db. row_get sed_deployment_id (sd_deployments db) deployment_id)"

text \<open>The current row reports its own status; after a change it is read again.\<close>

definition report_status :: "codec \<Rightarrow> datetime \<Rightarrow> uuid \<Rightarrow> string \<Rightarrow> uuid \<Rightarrow> unit site_tx" where
  "report_status cx now deployment_id status causation_id =
     tx_bind (load_deployment deployment_id) (\<lambda>d.
     case d of
       None \<Rightarrow> tx_return ()
     | Some d \<Rightarrow> tx_then (status_event cx now d status causation_id) (tx_return ()))"

definition add_deployment_revision ::
  "codec \<Rightarrow> datetime \<Rightarrow> uuid \<Rightarrow> int \<Rightarrow> string \<Rightarrow> int \<Rightarrow> payload \<Rightarrow> unit site_tx" where
  "add_deployment_revision cx now deployment_id revision event_type schema_version body =
     tx_bind (site_new_id cx) (\<lambda>i. tx_write (\<lambda>db. db\<lparr>sd_deployment_revisions := sd_deployment_revisions db @
       [\<lparr>sdr_deployment_revision_id = i, sdr_deployment_id = deployment_id, sdr_deployment_revision = revision,
         sdr_event_type = event_type, sdr_schema_version = schema_version, sdr_snapshot = body,
         sdr_applied_at = now\<rparr>]\<rparr>))"

definition applied_deployment ::
  "codec \<Rightarrow> datetime \<Rightarrow> event_deployment_snapshot \<Rightarrow> payload
   \<Rightarrow> site_event_deployment_projection \<Rightarrow> site_event_deployment_projection" where
  "applied_deployment cx now snap counts d =
     d\<lparr>sed_status := Dep_DEPLOYED, sed_desired_revision := snap_deployment_revision snap,
       sed_applied_revision := snap_deployment_revision snap,
       sed_last_central_synchronization_at := Some now, sed_applied_at := Some now,
       sed_failure_at := None, sed_failure_reason := None,
       sed_current_snapshot := dump_snapshot cx snap, sed_summary_counts := counts\<rparr>"

definition record_snapshot ::
  "codec \<Rightarrow> datetime \<Rightarrow> sync_event_envelope \<Rightarrow> event_deployment_snapshot \<Rightarrow> payload \<Rightarrow> string site_tx" where
  "record_snapshot cx now event snap counts =
     tx_then (tx_write (\<lambda>db. db\<lparr>sd_deployments := upsert sed_deployment_id (snap_deployment_id snap)
         (applied_deployment cx now snap counts)
         (applied_deployment cx now snap counts ((default_site_event_deployment_projection now)\<lparr>
            sed_deployment_id := snap_deployment_id snap, sed_central_event_id := snap_event_id snap,
            sed_site_id := snap_site_id snap\<rparr>)) (sd_deployments db)\<rparr>))
       (tx_then (add_deployment_revision cx now (snap_deployment_id snap) (snap_deployment_revision snap)
           (env_event_type event) (snap_schema_version snap) (dump_snapshot cx snap))
         (tx_then site_flush
           (tx_then (report_status cx now (snap_deployment_id snap) ''received'' (env_event_id event))
             (tx_then (report_status cx now (snap_deployment_id snap) ''applied'' (env_event_id event))
               (tx_return ''applied'')))))"

definition acknowledge_old_snapshot ::
  "codec \<Rightarrow> datetime \<Rightarrow> sync_event_envelope \<Rightarrow> event_deployment_snapshot \<Rightarrow> site_event_deployment_projection
   \<Rightarrow> string site_tx" where
  "acknowledge_old_snapshot cx now event snap d =
     (let status = (if snap_deployment_revision snap = sed_applied_revision d then ''applied'' else ''stale'') in
      tx_then (tx_write (change_deployment (snap_deployment_id snap)
          (\<lambda>d. d\<lparr>sed_desired_revision := max (sed_desired_revision d) (snap_deployment_revision snap),
                 sed_last_central_synchronization_at := Some now\<rparr>)))
        (tx_then (report_status cx now (snap_deployment_id snap) status (env_event_id event)) (tx_return status)))"

definition malformed_snapshot :: "error \<Rightarrow> error" where
  "malformed_snapshot e = ValueError (''malformed deployment snapshot: '' @ exc_text e)"

definition apply_snapshot_event :: "codec \<Rightarrow> datetime \<Rightarrow> sync_event_envelope \<Rightarrow> string site_tx" where
  "apply_snapshot_event cx now event =
     (if env_payload_schema_version event \<noteq> SITE_DEPLOYMENT_SCHEMA_VERSION
      then tx_raise (ValueError ''unsupported deployment payload schema version'')
      else case validate_snapshot cx (env_payload event) of
        Inl e \<Rightarrow> tx_raise (malformed_snapshot e)
      | Inr snap \<Rightarrow>
          tx_bind local_site_id (\<lambda>site_id.
          if snap_site_id snap \<noteq> site_id then tx_raise (PermissionError ''deployment is addressed to another Site'')
          else if env_entity_id event \<noteq> Some (snap_deployment_id snap)
          then tx_raise (ValueError ''deployment identity does not match event envelope'')
          else
            tx_bind (load_deployment (snap_deployment_id snap)) (\<lambda>deployment.
            case deployment of
              None \<Rightarrow> tx_bind (upsert_snapshot cx now snap) (\<lambda>counts.
                tx_then site_flush (record_snapshot cx now event snap counts))
            | Some d \<Rightarrow>
                if sed_central_event_id d \<noteq> snap_event_id snap
                then tx_raise (ValueError ''deployment Event UUID cannot change'')
                else if snap_deployment_revision snap \<le> sed_applied_revision d
                then acknowledge_old_snapshot cx now event snap d
                else tx_bind (upsert_snapshot cx now snap) (\<lambda>counts.
                  tx_then site_flush (record_snapshot cx now event snap counts)))))"

section \<open>Revocation and deletion\<close>

definition apply_revocation_event :: "codec \<Rightarrow> datetime \<Rightarrow> sync_event_envelope \<Rightarrow> string site_tx" where
  "apply_revocation_event cx now event =
     (if env_payload_schema_version event \<noteq> SITE_DEPLOYMENT_SCHEMA_VERSION
      then tx_raise (ValueError ''unsupported deployment payload schema version'')
      else case validate_revocation cx (env_payload event) of
        Inl e \<Rightarrow> tx_raise e
      | Inr r \<Rightarrow>
          tx_bind local_site_id (\<lambda>site_id.
          if rev_site_id r \<noteq> site_id then tx_raise (PermissionError ''deployment is addressed to another Site'')
          else if env_entity_id event \<noteq> Some (rev_deployment_id r)
          then tx_raise (ValueError ''deployment identity does not match event envelope'')
          else
            tx_bind (load_deployment (rev_deployment_id r)) (\<lambda>deployment.
            case deployment of
              None \<Rightarrow> tx_raise (ValueError ''cannot revoke an unknown deployment'')
            | Some d \<Rightarrow>
                if sed_central_event_id d \<noteq> rev_event_id r
                then tx_raise (ValueError ''cannot revoke an unknown deployment'')
                else
                  tx_then (tx_write (change_deployment (rev_deployment_id r)
                      (\<lambda>d. d\<lparr>sed_desired_revision := max (sed_desired_revision d) (rev_deployment_revision r),
                             sed_applied_revision := max (sed_applied_revision d) (rev_deployment_revision r),
                             sed_status := Dep_REVOKED, sed_revoked_at := Some now,
                             sed_last_central_synchronization_at := Some now\<rparr>)))
                    (tx_then (add_deployment_revision cx now (rev_deployment_id r) (rev_deployment_revision r)
                        (env_event_type event) (rev_schema_version r) (dump_revocation cx r))
                      (tx_then (report_status cx now (rev_deployment_id r) ''revoked'' (env_event_id event))
                        (tx_return ''revoked''))))))"

text \<open>The ordered \<open>DELETE\<close> and \<open>UPDATE\<close> statements of an event purge.\<close>

definition purge_program :: "uuid \<Rightarrow> site_db \<Rightarrow> site_db" where
  "purge_program event_id db =
     (let sessions = sss_session_id ` {s \<in> set (sd_program_sessions db). sss_event_id s = event_id};
          presentations = spr_presentation_id ` {p \<in> set (sd_presentations db). spr_event_id p = event_id};
          versions = spv_presentation_version_id ` {v \<in> set (sd_versions db). spv_presentation_id v \<in> presentations}
      in db\<lparr>
        sd_room_assignments := filter (\<lambda>a. sra_session_id a \<notin> sessions) (sd_room_assignments db),
        sd_transfer_sessions := filter (\<lambda>t. smt_event_id t \<noteq> event_id) (sd_transfer_sessions db),
        sd_replication_sessions := filter (\<lambda>t. smr_event_id t \<noteq> event_id) (sd_replication_sessions db),
        sd_assets := filter (\<lambda>a. spa_presentation_version_id a \<notin> versions) (sd_assets db),
        sd_versions := filter (\<lambda>v. spv_presentation_id v \<notin> presentations) (sd_versions db),
        sd_presentation_presenters := filter (\<lambda>l. spp_presentation_id l \<notin> presentations) (sd_presentation_presenters db),
        sd_presentation_sessions := filter (\<lambda>l. sps_presentation_id l \<notin> presentations) (sd_presentation_sessions db),
        sd_presentations := filter (\<lambda>p. spr_event_id p \<noteq> event_id) (sd_presentations db),
        sd_session_participants := filter (\<lambda>p. ssp_session_id p \<notin> sessions) (sd_session_participants db),
        sd_program_sessions := filter (\<lambda>s. sss_event_id s \<noteq> event_id) (sd_program_sessions db),
        sd_participations := filter (\<lambda>p. sep_event_id p \<noteq> event_id) (sd_participations db),
        sd_external_identifiers := filter (\<lambda>x. sxi_event_id x \<noteq> event_id) (sd_external_identifiers db)\<rparr>)"

definition purge_deployments :: "uuid \<Rightarrow> site_db \<Rightarrow> site_db" where
  "purge_deployments event_id db =
     (let deployments = sed_deployment_id ` {d \<in> set (sd_deployments db). sed_central_event_id d = event_id}
      in db\<lparr>
        sd_room_mappings := filter (\<lambda>m. srm_event_id m \<noteq> event_id) (sd_room_mappings db),
        sd_deployment_revisions := filter (\<lambda>r. sdr_deployment_id r \<notin> deployments) (sd_deployment_revisions db),
        sd_deployments := filter (\<lambda>d. sed_central_event_id d \<noteq> event_id) (sd_deployments db)\<rparr>)"

definition purge_rooms :: "uuid \<Rightarrow> site_db \<Rightarrow> site_db" where
  "purge_rooms event_id db =
     (let rooms = sro_room_id ` {r \<in> set (sd_rooms db). sro_event_id r = Some event_id};
          mapped = srm_room_id ` set (sd_room_mappings db)
      in db\<lparr>
        sd_device_assignments := filter (\<lambda>a. sda_room_id a \<notin> rooms) (sd_device_assignments db),
        sd_rooms := filter (\<lambda>r. \<not> (sro_event_id r = Some event_id \<and> Some (sro_room_id r) \<notin> mapped)) (sd_rooms db)\<rparr>)"

definition release_references :: "datetime \<Rightarrow> uuid \<Rightarrow> site_db \<Rightarrow> site_db" where
  "release_references now event_id db =
     (let used = spa_media_object_id ` set (sd_assets db) in db\<lparr>
        sd_media_objects := map (\<lambda>m. if smo_event_id m = Some event_id
            then (if smo_media_object_id m \<in> used then m
                  else m\<lparr>smo_deleted_at := Some (default_to now (smo_deleted_at m))\<rparr>)\<lparr>smo_event_id := None\<rparr>
            else m) (sd_media_objects db),
        sd_sync_events := map (\<lambda>e. if sse_event_id e = Some event_id then e\<lparr>sse_event_id := None\<rparr> else e)
          (sd_sync_events db),
        sd_queue := (sd_queue db)\<lparr>q_outbox := map (\<lambda>e. if o_event_id e = Some event_id
            then e\<lparr>o_event_id := None\<rparr> else e) (q_outbox (sd_queue db))\<rparr>,
        sd_audit := map (\<lambda>e. if sar_event_id e = Some event_id then e\<lparr>sar_event_id := None\<rparr> else e) (sd_audit db),
        sd_events := filter (\<lambda>e. sev_event_id e \<noteq> event_id) (sd_events db),
        sd_people := filter (\<lambda>p. \<exists>ep \<in> set (sd_participations db). sep_person_id ep = spj_person_id p) (sd_people db)\<rparr>)"

definition purge_event :: "datetime \<Rightarrow> uuid \<Rightarrow> site_db \<Rightarrow> site_db" where
  "purge_event now event_id db =
     release_references now event_id (purge_rooms event_id (purge_deployments event_id (purge_program event_id db)))"

definition apply_event_deletion :: "codec \<Rightarrow> datetime \<Rightarrow> sync_event_envelope \<Rightarrow> string site_tx" where
  "apply_event_deletion cx now event =
     tx_bind (tx_lift (outcome_bind (dict_item (env_payload event) ''event_id'') (uuid_of (json_repr cx)))) (\<lambda>event_id.
     if env_entity_id event \<noteq> Some event_id
     then tx_raise (ValueError ''event identity does not match deletion envelope'')
     else tx_then (tx_write (purge_event now event_id)) (tx_return ''deleted''))"

fun uuids_of :: "codec \<Rightarrow> json list \<Rightarrow> uuid list outcome" where
  "uuids_of cx [] = Inr []"
| "uuids_of cx (v # vs) =
     outcome_bind (uuid_of (json_repr cx) v) (\<lambda>i. outcome_bind (uuids_of cx vs) (\<lambda>is. Inr (i # is)))"

definition purge_people :: "uuid list \<Rightarrow> site_db \<Rightarrow> site_db" where
  "purge_people person_ids db =
     (let participations = sep_event_participation_id ` {p \<in> set (sd_participations db). sep_person_id p \<in> set person_ids}
      in db\<lparr>
        sd_session_participants := filter (\<lambda>p. ssp_event_participation_id p \<notin> participations) (sd_session_participants db),
        sd_presentation_presenters := filter (\<lambda>p. spp_event_participation_id p \<notin> participations)
          (sd_presentation_presenters db),
        sd_participations := filter (\<lambda>p. sep_person_id p \<notin> set person_ids) (sd_participations db),
        sd_people := filter (\<lambda>p. spj_person_id p \<notin> set person_ids) (sd_people db)\<rparr>)"

definition apply_people_deletion :: "codec \<Rightarrow> sync_event_envelope \<Rightarrow> string site_tx" where
  "apply_people_deletion cx event =
     (case dict_get (env_payload event) ''person_ids'' of
        Some (JList (v # vs)) \<Rightarrow>
          tx_bind (tx_lift (uuids_of cx (v # vs))) (\<lambda>person_ids.
          tx_then (tx_write (purge_people person_ids)) (tx_return ''deleted''))
      | _ \<Rightarrow> tx_raise (ValueError ''person deletion requires a nonempty person_ids list''))"

section \<open>Upserting a list of items\<close>

text \<open>
  The contract of a stage: a change keeps the key and a new row has the key of its item.
  Looking a row up after the loop then gives the changed or the new row for an item, and the
  old row for any other key.
\<close>

definition upsert_all :: "('r \<Rightarrow> 'k) \<Rightarrow> ('i \<Rightarrow> 'k) \<Rightarrow> ('i \<Rightarrow> 'r \<Rightarrow> 'r) \<Rightarrow> ('i \<Rightarrow> 'r) \<Rightarrow> 'i list \<Rightarrow> 'r list \<Rightarrow> 'r list" where
  "upsert_all key k change new items rows = fold (\<lambda>i. upsert key (k i) (change i) (new i)) items rows"

text \<open>
  \<open>rows\<close> show the items: each item has its row, with every field the item carries, and an
  active row of the event belongs to an item.
\<close>

definition projected ::
  "('r \<Rightarrow> 'k) \<Rightarrow> ('i \<Rightarrow> 'k) \<Rightarrow> ('i \<Rightarrow> 'r \<Rightarrow> 'r) \<Rightarrow> ('r \<Rightarrow> bool) \<Rightarrow> ('r \<Rightarrow> uuid) \<Rightarrow> uuid \<Rightarrow> 'i list \<Rightarrow> 'r list \<Rightarrow> bool" where
  "projected key k fill active event_of e items rows \<longleftrightarrow>
     (\<forall>i \<in> set items. \<exists>r. row_get key rows (k i) = Some r \<and> fill i r = r)
     \<and> (\<forall>r \<in> set rows. event_of r = e \<and> active r \<longrightarrow> key r \<in> k ` set items)"

locale upsert_stage =
  fixes key :: "'r \<Rightarrow> 'k" and k :: "'i \<Rightarrow> 'k" and change :: "'i \<Rightarrow> 'r \<Rightarrow> 'r" and new :: "'i \<Rightarrow> 'r"
  assumes change_key: "key (change i r) = key r"
    and new_key: "key (new i) = k i"
begin

lemma get_one:
  "row_get key (upsert key (k i) (change i) (new i) rows) x =
     (if x = k i then Some (case row_get key rows x of None \<Rightarrow> new i | Some r \<Rightarrow> change i r)
      else row_get key rows x)"
proof -
  have put: "row_get key (row_put key (k i) (change i) rows) x =
      (if x = k i then map_option (change i) (row_get key rows x) else row_get key rows x)" for x
    by (induction rows) (auto simp: change_key)
  show ?thesis
    by (auto simp: upsert_def put row_get_append new_key split: option.splits)
qed

lemma keyed_one: "keyed key rows \<Longrightarrow> keyed key (upsert key (k i) (change i) (new i) rows)"
proof -
  have "map key (row_put key (k i) (change i) rows) = map key rows"
    by (induction rows) (auto simp: change_key)
  then show "keyed key rows \<Longrightarrow> keyed key (upsert key (k i) (change i) (new i) rows)"
    by (auto simp: upsert_def keyed_def new_key row_get_None_iff split: option.splits)
qed

lemma get_other: "x \<notin> k ` set items \<Longrightarrow> row_get key (upsert_all key k change new items rows) x = row_get key rows x"
  by (induction items arbitrary: rows) (auto simp: upsert_all_def get_one)

lemma get_item:
  "distinct (map k items) \<Longrightarrow> i \<in> set items \<Longrightarrow>
     row_get key (upsert_all key k change new items rows) (k i) =
       Some (case row_get key rows (k i) of None \<Rightarrow> new i | Some r \<Rightarrow> change i r)"
proof (induction items arbitrary: rows)
  case (Cons a items)
  show ?case
  proof (cases "i = a")
    case True
    then have "k i \<notin> k ` set items" using Cons.prems(1) by auto
    from get_other [OF this] show ?thesis unfolding True by (simp add: upsert_all_def get_one)
  next
    case False
    with Cons.prems have "i \<in> set items" by simp
    moreover from this Cons.prems(1) have "k i \<noteq> k a" by (metis distinct.simps(2) image_eqI list.simps(9) set_map)
    ultimately have "i \<in> set items" "k i \<noteq> k a" by simp_all
    with Cons.IH [of "upsert key (k a) (change a) (new a) rows"] Cons.prems(1) show ?thesis
      by (simp add: upsert_all_def get_one)
  qed
qed simp

lemma keyed_all: "keyed key rows \<Longrightarrow> keyed key (upsert_all key k change new items rows)"
  by (induction items arbitrary: rows) (auto simp: upsert_all_def intro: keyed_one)

lemma mem_all:
  assumes "keyed key rows" "r \<in> set (upsert_all key k change new items rows)" "key r \<notin> k ` set items"
  shows "r \<in> set rows"
proof -
  have "row_get key (upsert_all key k change new items rows) (key r) = Some r"
    using keyed_all [OF assms(1)] assms(2) by (rule row_get_mem)
  with get_other [OF assms(3)] have "row_get key rows (key r) = Some r" by simp
  then show ?thesis using row_get_SomeD by fastforce
qed

lemma projected_all:
  assumes "keyed key rows" "distinct (map k items)"
    and "\<And>i r. fill i (change i r) = change i r" "\<And>i. fill i (new i) = new i"
    and "\<And>r. r \<in> set rows \<Longrightarrow> event_of r = e \<Longrightarrow> \<not> active r"
  shows "projected key k fill active event_of e items (upsert_all key k change new items rows)"
  unfolding projected_def
proof (intro conjI ballI impI)
  fix i assume "i \<in> set items"
  from get_item [OF assms(2) this] show "\<exists>r. row_get key (upsert_all key k change new items rows) (k i) = Some r \<and> fill i r = r"
    using assms(3,4) by (auto split: option.splits)
next
  fix r assume "r \<in> set (upsert_all key k change new items rows)" "event_of r = e \<and> active r"
  then show "key r \<in> k ` set items" using mem_all [OF assms(1)] assms(5) by blast
qed

end

text \<open>The three stages of the program.\<close>

definition refresh_session :: "session_snapshot \<Rightarrow> site_session \<Rightarrow> site_session" where
  "refresh_session item r = (fill_session item r)\<lparr>sss_revision := max (sss_revision r) (snss_central_revision item)\<rparr>"

definition first_session :: "datetime \<Rightarrow> uuid \<Rightarrow> session_snapshot \<Rightarrow> site_session" where
  "first_session now e item = (fill_session item ((default_site_session now)\<lparr>sss_session_id := snss_session_id item,
     sss_event_id := e\<rparr>))\<lparr>sss_revision := snss_central_revision item\<rparr>"

definition refresh_participation :: "participation_snapshot \<Rightarrow> site_event_participation \<Rightarrow> site_event_participation" where
  "refresh_participation item r =
     (fill_participation item r)\<lparr>sep_revision := max (sep_revision r) (snpa_central_revision item)\<rparr>"

definition first_participation :: "datetime \<Rightarrow> uuid \<Rightarrow> participation_snapshot \<Rightarrow> site_event_participation" where
  "first_participation now e item = (fill_participation item ((default_site_event_participation now)\<lparr>
     sep_event_participation_id := snpa_event_participation_id item, sep_event_id := e,
     sep_person_id := snpa_person_id item\<rparr>))\<lparr>sep_revision := snpa_central_revision item\<rparr>"

definition first_presentation :: "codec \<Rightarrow> datetime \<Rightarrow> uuid \<Rightarrow> presentation_snapshot \<Rightarrow> site_presentation" where
  "first_presentation cx now e item =
     (fill_presentation item ((default_site_presentation now)\<lparr>spr_presentation_id := snpr_presentation_id item,
        spr_event_id := e\<rparr>))\<lparr>
       spr_presentation_identifier := fst (snapshot_identity cx item),
       spr_presentation_identifier_source := snd (snapshot_identity cx item),
       spr_external_presentation_id := text_or (snpr_external_presentation_id item) (snpr_presentation_code item),
       spr_revision := snpr_central_revision item\<rparr>"

lemma refresh_presentation_fields [simp]:
  "spr_presentation_id (refresh_presentation cx item r) = spr_presentation_id r"
  "spr_event_id (refresh_presentation cx item r) = spr_event_id r"
  "spr_active (refresh_presentation cx item r)" "spr_title (refresh_presentation cx item r) = snpr_title item"
  "spr_session_id (refresh_presentation cx item r) = snpr_session_id item"
  "spr_workflow_status (refresh_presentation cx item r) = snpr_workflow_status item"
  by (simp_all add: refresh_presentation_def fill_presentation_def Let_def)

interpretation session_stage: upsert_stage sss_session_id snss_session_id refresh_session "first_session now e" for now e
  by unfold_locales (simp_all add: refresh_session_def first_session_def fill_session_def)

interpretation participation_stage: upsert_stage sep_event_participation_id snpa_event_participation_id
  refresh_participation "first_participation now e" for now e
  by unfold_locales (simp_all add: refresh_participation_def first_participation_def fill_participation_def)

interpretation presentation_stage: upsert_stage spr_presentation_id snpr_presentation_id
  "refresh_presentation cx" "first_presentation cx now e" for cx now e
  by unfold_locales (simp_all add: first_presentation_def fill_presentation_def)

lemma program_folds:
  "fold (upsert_session now e) items rows =
     upsert_all sss_session_id snss_session_id refresh_session (first_session now e) items rows"
  "fold (upsert_participation now e) ps parts =
     upsert_all sep_event_participation_id snpa_event_participation_id refresh_participation (first_participation now e) ps parts"
  "fold (upsert_presentation cx now e) qs pres =
     upsert_all spr_presentation_id snpr_presentation_id (refresh_presentation cx) (first_presentation cx now e) qs pres"
  unfolding upsert_all_def
  by (simp_all add: upsert_session_def [abs_def] upsert_participation_def [abs_def] upsert_presentation_def [abs_def]
      refresh_session_def [abs_def] first_session_def refresh_participation_def [abs_def] first_participation_def
      first_presentation_def)

section \<open>The program after a snapshot\<close>

definition program_kept :: "site_db \<Rightarrow> site_db \<Rightarrow> bool" where
  "program_kept db db' \<longleftrightarrow> sd_program_sessions db' = sd_program_sessions db
     \<and> sd_participations db' = sd_participations db \<and> sd_presentations db' = sd_presentations db"

interpretation program: tx_relation program_kept
  by standard (simp_all add: program_kept_def)

lemma program_primitives:
  "tx_keeps program_kept site_flush" "tx_keeps program_kept (site_new_id cx)"
  "tx_keeps program_kept (site_schedule cx now v)" "tx_keeps program_kept (site_publish cx now ov)"
  "tx_keeps program_kept site_next_sequence"
  by (auto intro!: program.keepsI simp: program_kept_def site_flush_def site_new_id_def site_minted_def site_schedule_def
      site_publish_def site_next_sequence_def split: sum.splits option.splits)

lemma program_kept_writes:
  "program_kept db (change_assignment i f db)" "program_kept db (change_deployment d g db)"
  by (simp_all add: program_kept_def change_assignment_def change_deployment_def)

lemmas program_intros = program.keeps_rules program_primitives program_kept_writes

lemma program_rooms:
  "tx_keeps program_kept (materialize_program_room_mappings cx now excluded e)"
  "tx_keeps program_kept (reconcile_program_room_assignments cx now e)"
  unfolding materialize_program_room_mappings_def reconcile_program_room_assignments_def require_event_def
    materialize_label_def create_room_def create_mapping_def place_session_def Let_def
  by (intro program_intros; simp add: program_kept_def)+

lemma program_stages:
  "tx_keeps program_kept (upsert_event now snap)" "tx_keeps program_kept (withdraw_missing_users cx now snap)"
  "tx_keeps program_kept (upsert_user cx now snap item)" "tx_keeps program_kept (assign_snapshot_rooms cx now snap)"
  "tx_keeps program_kept (link_presentation cx now p)" "tx_keeps program_kept (record_snapshot cx now event snap counts)"
  unfolding upsert_event_def withdraw_missing_users_def withdraw_user_def change_user_def upsert_user_def
    assign_snapshot_rooms_def assign_centrally_def link_presentation_def add_versions_def add_version_def
    record_snapshot_def report_status_def status_event_def load_deployment_def add_deployment_revision_def Let_def
  by (intro program_intros program_rooms; simp add: program_kept_def)+

text \<open>The rows of an event, switched off.\<close>

definition inactive_sessions :: "uuid \<Rightarrow> site_session list \<Rightarrow> site_session list" where
  "inactive_sessions e = map (\<lambda>r. if sss_event_id r = e then r\<lparr>sss_active := False\<rparr> else r)"

definition inactive_participations :: "uuid \<Rightarrow> site_event_participation list \<Rightarrow> site_event_participation list" where
  "inactive_participations e = map (\<lambda>r. if sep_event_id r = e then r\<lparr>sep_active := False\<rparr> else r)"

definition inactive_presentations :: "uuid \<Rightarrow> site_presentation list \<Rightarrow> site_presentation list" where
  "inactive_presentations e = map (\<lambda>r. if spr_event_id r = e then r\<lparr>spr_active := False\<rparr> else r)"

lemma upsert_people_and_program_rows:
  assumes "upsert_people_and_program cx now snap db = (Inr u, db')"
  shows "sd_program_sessions db' = upsert_all sss_session_id snss_session_id refresh_session
      (first_session now (snap_event_id snap)) (snap_sessions snap) (inactive_sessions (snap_event_id snap) (sd_program_sessions db))"
    "sd_participations db' = upsert_all sep_event_participation_id snpa_event_participation_id refresh_participation
      (first_participation now (snap_event_id snap)) (snap_participations snap)
      (inactive_participations (snap_event_id snap) (sd_participations db))"
    "sd_presentations db' = inactive_presentations (snap_event_id snap) (sd_presentations db)"
  using assms
  by (auto simp: upsert_people_and_program_def tx_then_eq_Inr site_flush_def deactivate_program_def Let_def
      program_folds inactive_sessions_def inactive_participations_def inactive_presentations_def split: if_split_asm)

lemma upsert_presentations_rows:
  assumes "upsert_presentations cx now snap db = (Inr u, db')"
  shows "sd_program_sessions db' = sd_program_sessions db" "sd_participations db' = sd_participations db"
    "sd_presentations db' = upsert_all spr_presentation_id snpr_presentation_id (refresh_presentation cx)
      (first_presentation cx now (snap_event_id snap)) (snap_presentations snap) (sd_presentations db)"
proof -
  obtain db1 where links: "tx_for (link_presentation cx now) (snap_presentations snap) (db\<lparr>
         sd_session_participants := fold (\<lambda>item. fold (upsert_session_participant now (snss_session_id item))
           (snss_participants item)) (snap_sessions snap) (sd_session_participants db),
         sd_presentations := fold (upsert_presentation cx now (snap_event_id snap))
           (snap_presentations snap) (sd_presentations db)\<rparr>) = (Inr (), db1)"
    and fin: "sd_program_sessions db' = sd_program_sessions db1" "sd_participations db' = sd_participations db1"
      "sd_presentations db' = sd_presentations db1"
    using assms by (auto simp: upsert_presentations_def tx_then_eq_Inr site_flush_def split: if_split_asm)
  have "tx_keeps program_kept (tx_for (link_presentation cx now) (snap_presentations snap))"
    by (intro program.keeps_for program_stages)
  from program.keeps_run [OF this links] fin
  show "sd_program_sessions db' = sd_program_sessions db" "sd_participations db' = sd_participations db"
    "sd_presentations db' = upsert_all spr_presentation_id snpr_presentation_id (refresh_presentation cx)
      (first_presentation cx now (snap_event_id snap)) (snap_presentations snap) (sd_presentations db)"
    by (simp_all add: program_kept_def program_folds)
qed

lemma upsert_snapshot_rows:
  assumes "upsert_snapshot cx now snap db = (Inr counts, db')"
  shows "sd_program_sessions db' = upsert_all sss_session_id snss_session_id refresh_session
      (first_session now (snap_event_id snap)) (snap_sessions snap) (inactive_sessions (snap_event_id snap) (sd_program_sessions db))"
    "sd_participations db' = upsert_all sep_event_participation_id snpa_event_participation_id refresh_participation
      (first_participation now (snap_event_id snap)) (snap_participations snap)
      (inactive_participations (snap_event_id snap) (sd_participations db))"
    "sd_presentations db' = upsert_all spr_presentation_id snpr_presentation_id (refresh_presentation cx)
      (first_presentation cx now (snap_event_id snap)) (snap_presentations snap)
      (inactive_presentations (snap_event_id snap) (sd_presentations db))"
proof -
  obtain u1 db1 u2 db2 u3 db3 u4 db4 rr db5 u6 where
    s1: "upsert_event now snap db = (Inr u1, db1)" and s2: "withdraw_missing_users cx now snap db1 = (Inr u2, db2)"
    and s3: "tx_for (upsert_user cx now snap) (snap_users snap) db2 = (Inr u3, db3)"
    and s4: "upsert_people_and_program cx now snap db3 = (Inr u4, db4)"
    and s5: "assign_snapshot_rooms cx now snap db4 = (Inr rr, db5)"
    and s6: "upsert_presentations cx now snap db5 = (Inr u6, db')"
    using assms by (auto simp: upsert_snapshot_def tx_then_eq_Inr tx_bind_eq_Inr)
  have users: "tx_keeps program_kept (tx_for (upsert_user cx now snap) (snap_users snap))"
    by (intro program.keeps_for program_stages)
  have before: "program_kept db db3"
    using program.keeps_run [OF program_stages(1) s1] program.keeps_run [OF program_stages(2) s2]
      program.keeps_run [OF users s3] by (blast intro: program.trans)
  note rows = upsert_people_and_program_rows [OF s4] upsert_presentations_rows [OF s6]
    program.keeps_run [OF program_stages(4) s5, unfolded program_kept_def] before [unfolded program_kept_def]
  show "sd_program_sessions db' = upsert_all sss_session_id snss_session_id refresh_session
      (first_session now (snap_event_id snap)) (snap_sessions snap) (inactive_sessions (snap_event_id snap) (sd_program_sessions db))"
    using rows by simp
  show "sd_participations db' = upsert_all sep_event_participation_id snpa_event_participation_id refresh_participation
      (first_participation now (snap_event_id snap)) (snap_participations snap)
      (inactive_participations (snap_event_id snap) (sd_participations db))"
    using rows by simp
  show "sd_presentations db' = upsert_all spr_presentation_id snpr_presentation_id (refresh_presentation cx)
      (first_presentation cx now (snap_event_id snap)) (snap_presentations snap)
      (inactive_presentations (snap_event_id snap) (sd_presentations db))"
    using rows by simp
qed

lemma inactive_keys [simp]:
  "keyed sss_session_id (inactive_sessions e ss) = keyed sss_session_id ss"
  "keyed sep_event_participation_id (inactive_participations e ps) = keyed sep_event_participation_id ps"
  "keyed spr_presentation_id (inactive_presentations e qs) = keyed spr_presentation_id qs"
proof -
  have "map sss_session_id (inactive_sessions e ss) = map sss_session_id ss"
    "map sep_event_participation_id (inactive_participations e ps) = map sep_event_participation_id ps"
    "map spr_presentation_id (inactive_presentations e qs) = map spr_presentation_id qs"
    by (simp_all add: inactive_sessions_def inactive_participations_def inactive_presentations_def)
  then show "keyed sss_session_id (inactive_sessions e ss) = keyed sss_session_id ss"
    "keyed sep_event_participation_id (inactive_participations e ps) = keyed sep_event_participation_id ps"
    "keyed spr_presentation_id (inactive_presentations e qs) = keyed spr_presentation_id qs"
    by (simp_all add: keyed_def)
qed

lemma switched_off:
  assumes "\<And>r. \<not> act (off r)"
  shows "\<forall>r \<in> set (map (\<lambda>r. if ev r = e then off r else r) rs). ev r = e \<longrightarrow> \<not> act r"
  using assms by auto

lemma inactive_off:
  "\<forall>r \<in> set (inactive_sessions e ss). sss_event_id r = e \<longrightarrow> \<not> sss_active r"
  "\<forall>r \<in> set (inactive_participations e ps). sep_event_id r = e \<longrightarrow> \<not> sep_active r"
  "\<forall>r \<in> set (inactive_presentations e qs). spr_event_id r = e \<longrightarrow> \<not> spr_active r"
  unfolding inactive_sessions_def inactive_participations_def inactive_presentations_def
  by (rule switched_off, simp)+

lemma fill_fixed:
  "fill_session item (refresh_session item r) = refresh_session item r"
  "fill_session item (first_session now e item) = first_session now e item"
  "fill_participation pitem (refresh_participation pitem q) = refresh_participation pitem q"
  "fill_participation pitem (first_participation now e pitem) = first_participation now e pitem"
  "fill_presentation qitem (refresh_presentation cx qitem p) = refresh_presentation cx qitem p"
  "fill_presentation qitem (first_presentation cx now e qitem) = first_presentation cx now e qitem"
  by (simp_all add: fill_session_def refresh_session_def first_session_def fill_participation_def refresh_participation_def
      first_participation_def fill_presentation_def refresh_presentation_def first_presentation_def Let_def)

text \<open>A snapshot with a new revision goes through the upsert and is then recorded.\<close>

lemma apply_snapshot_new:
  assumes "apply_snapshot_event cx now event db = (Inr st, db')" "validate_snapshot cx (env_payload event) = Inr snap"
    and "\<And>d. row_get sed_deployment_id (sd_deployments db) (snap_deployment_id snap) = Some d \<Longrightarrow>
           sed_applied_revision d < snap_deployment_revision snap"
  obtains counts db1 where "upsert_snapshot cx now snap db = (Inr counts, db1)"
    and "record_snapshot cx now event snap counts db1 = (Inr st, db')"
  using assms
  by (auto simp: apply_snapshot_event_def local_site_id_def load_deployment_def tx_bind_eq_Inr tx_then_eq_Inr
      site_flush_def split: if_split_asm option.split_asm)


definition demo_snapshot :: "int \<Rightarrow> event_deployment_snapshot" where
  "demo_snapshot revision =
     \<lparr>snap_schema_version = 1, snap_deployment_id = 9, snap_deployment_revision = revision,
      snap_central_event_revision = 1, snap_event_id = 1, snap_site_id = 7, snap_event_name = ''Expo'',
      snap_starts_at = None, snap_ends_at = None, snap_timezone = None, snap_event_description = None,
      snap_organization_reference = None, snap_event_configuration = [],
      snap_people = [\<lparr>snpe_person_id = 20, snpe_display_name = ''Ada'', snpe_given_name = None,
        snpe_family_name = None, snpe_primary_email = None, snpe_organization = None, snpe_central_revision = 1\<rparr>],
      snap_users = [],
      snap_participations = [\<lparr>snpa_event_participation_id = 21, snpa_person_id = 20, snpa_role = None,
        snpa_display_name = None, snpa_professional_title = None, snpa_organization = None,
        snpa_participant_status = Part_ACTIVE, snpa_is_presenter = True, snpa_central_revision = 1\<rparr>],
      snap_sessions = [\<lparr>snss_session_id = 3, snss_title = ''Opening'', snss_subtitle = None,
        snss_description = None, snss_session_code = Some ''S1'', snss_session_type = None,
        snss_starts_at = Some 100, snss_ends_at = Some 200, snss_location_name = None,
        snss_status = Sess_DRAFT, snss_sort_order = 0, snss_central_revision = 1, snss_participants = []\<rparr>],
      snap_presentations = [\<lparr>snpr_presentation_id = 30, snpr_session_id = Some 3, snpr_title = ''Keynote'',
        snpr_description = None, snpr_presentation_code = None, snpr_presentation_identifier = Some ''K-1'',
        snpr_presentation_identifier_source = None, snpr_external_presentation_id = None,
        snpr_workflow_status = Flow_EXPECTED, snpr_processing_status = Proc_NOT_STARTED,
        snpr_scheduled_at = None, snpr_central_revision = 1, snpr_version_numbers = [1], snpr_sessions = [],
        snpr_presenters = [], snpr_metadata = []\<rparr>],
      snap_external_identifiers = [], snap_room_configuration = [], snap_signage_configuration = [],
      snap_branding_configuration = [], snap_workflow_configuration = [], snap_extensions = []\<rparr>"

definition demo_central_envelope :: "string \<Rightarrow> uuid \<Rightarrow> int \<Rightarrow> sync_event_envelope" where
  "demo_central_envelope kind i n =
     \<lparr>env_event_id = i, env_event_type = kind, env_protocol_version = 1, env_source = ''central'',
      env_source_site_id = None, env_source_sequence = n, env_authority = Auth_CENTRAL,
      env_entity_type = ''event_deployment'', env_entity_id = Some 9, env_occurred_at = 0,
      env_payload = [], env_payload_schema_version = 1, env_correlation_id = None, env_causation_id = None\<rparr>"

definition demo_site_db :: site_db where
  "demo_site_db = empty_site_db\<lparr>sd_identities := [(default_site_local_site_identity 0)\<lparr>sli_site_id := 7\<rparr>],
     sd_program_sessions := [(default_site_session 0)\<lparr>sss_session_id := 4, sss_event_id := 1\<rparr>]\<rparr>"

definition snapshot_codec :: "event_deployment_snapshot \<Rightarrow> codec" where
  "snapshot_codec snap = demo_codec\<lparr>decode_snapshot := (\<lambda>p. Inr snap), mint_uuid := (\<lambda>n. 1000 + n)\<rparr>"

lemma demo_snapshot_valid: "validate_snapshot (snapshot_codec (demo_snapshot 1)) p = Inr (demo_snapshot 1)"
  by code_simp



end
