(* ===== verification/Sync_Channel.thy ===== *)
theory Sync_Channel
  imports Contracts
begin

text \<open>
  The contract of one direction of the Central/Site event stream. Each side applies the
  other's events through a function of this shape, keeps a receipt per applied event and
  remembers the last applied sequence number. The locale states what a receiver has to
  promise about a single event; what follows for any delivery order, with any
  repetitions and gaps, is proved here once.
\<close>

section \<open>Acknowledgements and batches\<close>

definition accept :: "uuid \<Rightarrow> event_acknowledgement" where
  "accept i = \<lparr>ack_event_id = i, ack_accepted = True, ack_duplicate = False,
               ack_error_code = None, ack_detail = None\<rparr>"

definition accept_duplicate :: "uuid \<Rightarrow> event_acknowledgement" where
  "accept_duplicate i = (accept i)\<lparr>ack_duplicate := True\<rparr>"

definition refuse :: "uuid \<Rightarrow> string \<Rightarrow> string option \<Rightarrow> event_acknowledgement" where
  "refuse i code detail = \<lparr>ack_event_id = i, ack_accepted = False, ack_duplicate = False,
                           ack_error_code = Some code, ack_detail = detail\<rparr>"

definition fresh_accept :: "event_acknowledgement \<Rightarrow> bool" where
  "fresh_accept a \<longleftrightarrow> ack_accepted a \<and> \<not> ack_duplicate a"

lemma fresh_accept_simps [simp]:
  "fresh_accept (accept i)" "\<not> fresh_accept (accept_duplicate i)" "\<not> fresh_accept (refuse i c d)"
  "ack_accepted (accept i)" "ack_accepted (accept_duplicate i)" "\<not> ack_accepted (refuse i c d)"
  by (simp_all add: fresh_accept_def accept_def accept_duplicate_def refuse_def)

text \<open>
  \<open>[apply(session, event) for event in events]\<close> inside one transaction: an exception
  loses the whole batch.
\<close>

fun apply_batch ::
  "('e \<Rightarrow> 'db \<Rightarrow> (event_acknowledgement \<times> 'db) outcome) \<Rightarrow> 'e list \<Rightarrow> 'db
   \<Rightarrow> (event_acknowledgement list \<times> 'db) outcome" where
  "apply_batch f [] db = Inr ([], db)"
| "apply_batch f (e # es) db =
     outcome_bind (f e db) (\<lambda>(ack, db1).
       outcome_bind (apply_batch f es db1) (\<lambda>(acks, db2). Inr (ack # acks, db2)))"

text \<open>\<open>n + 1, n + 2, ...\<close>\<close>

fun consecutive :: "int \<Rightarrow> int list \<Rightarrow> bool" where
  "consecutive n [] \<longleftrightarrow> True"
| "consecutive n (x # xs) \<longleftrightarrow> x = n + 1 \<and> consecutive (n + 1) xs"

lemma consecutive_append:
  "consecutive n (xs @ ys) \<longleftrightarrow> consecutive n xs \<and> consecutive (n + int (length xs)) ys"
  by (induction n xs rule: consecutive.induct) (simp_all add: add.assoc)

lemma consecutive_greater: "consecutive n xs \<Longrightarrow> x \<in> set xs \<Longrightarrow> n < x"
  by (induction n xs rule: consecutive.induct) force+

lemma consecutive_distinct: "consecutive n xs \<Longrightarrow> distinct xs"
  by (induction n xs rule: consecutive.induct) (use consecutive_greater in fastforce)+

lemma consecutive_nth: "consecutive n xs \<Longrightarrow> i < length xs \<Longrightarrow> xs ! i = n + 1 + int i"
  by (induction n xs arbitrary: i rule: consecutive.induct) (auto simp: nth_Cons split: nat.splits)

section \<open>The receiver's contract\<close>

locale ordered_channel =
  fixes apply_event :: "'e \<Rightarrow> 'db \<Rightarrow> (event_acknowledgement \<times> 'db) outcome"
    and event_id :: "'e \<Rightarrow> uuid"
    and sequence :: "'e \<Rightarrow> int"
    and receipts :: "'db \<Rightarrow> (uuid \<times> int) list"
    and last_sequence :: "'db \<Rightarrow> int"
  assumes applied: "apply_event e db = Inr (ack, db') \<Longrightarrow> fresh_accept ack \<Longrightarrow>
      sequence e = last_sequence db + 1 \<and> last_sequence db' = sequence e
      \<and> event_id e \<notin> fst ` set (receipts db) \<and> receipts db' = receipts db @ [(event_id e, sequence e)]"
    and not_applied: "apply_event e db = Inr (ack, db') \<Longrightarrow> \<not> fresh_accept ack \<Longrightarrow>
      receipts db' = receipts db \<and> last_sequence db' = last_sequence db"
begin

lemma batch_receipts:
  "apply_batch apply_event es db = Inr (acks, db') \<Longrightarrow>
     \<exists>new. receipts db' = receipts db @ new
       \<and> new = map (\<lambda>(e, a). (event_id e, sequence e)) (filter (\<lambda>(e, a). fresh_accept a) (zip es acks))
       \<and> consecutive (last_sequence db) (map snd new)
       \<and> last_sequence db' = last_sequence db + int (length new) \<and> length acks = length es"
proof (induction es arbitrary: db acks)
  case Nil
  then show ?case by simp
next
  case (Cons e es)
  then obtain ack db1 acks' where a: "apply_event e db = Inr (ack, db1)"
    and r: "apply_batch apply_event es db1 = Inr (acks', db')" and acks: "acks = ack # acks'"
    by (auto simp: outcome_bind_Inr_conv)
  note IH = Cons.IH [OF r]
  show ?case
  proof (cases "fresh_accept ack")
    case True
    from applied [OF a True] have "sequence e = last_sequence db + 1" "last_sequence db1 = last_sequence db + 1"
      "receipts db1 = receipts db @ [(event_id e, sequence e)]" by auto
    with IH True show ?thesis by (auto simp: acks)
  next
    case False
    from not_applied [OF a False] IH False show ?thesis by (auto simp: acks)
  qed
qed

lemma batch_distinct:
  assumes "apply_batch apply_event es db = Inr (acks, db')" and "distinct (map fst (receipts db))"
  shows "distinct (map fst (receipts db'))"
  using assms
proof (induction es arbitrary: db acks)
  case (Cons e es)
  then obtain ack db1 acks' where a: "apply_event e db = Inr (ack, db1)"
    and r: "apply_batch apply_event es db1 = Inr (acks', db')"
    by (auto simp: outcome_bind_Inr_conv)
  have "distinct (map fst (receipts db1))"
    using applied [OF a] not_applied [OF a] Cons.prems(2) by (cases "fresh_accept ack") auto
  with Cons.IH [OF r] show ?case by simp
qed simp

text \<open>While the next expected sequence number does not arrive, nothing is applied.\<close>

lemma batch_blocked:
  assumes "apply_batch apply_event es db = Inr (acks, db')"
    and "\<And>e. e \<in> set es \<Longrightarrow> sequence e \<noteq> last_sequence db + 1"
  shows "receipts db' = receipts db \<and> last_sequence db' = last_sequence db
    \<and> list_all (\<lambda>a. \<not> fresh_accept a) acks"
  using assms
proof (induction es arbitrary: db acks)
  case (Cons e es)
  then obtain ack db1 acks' where a: "apply_event e db = Inr (ack, db1)"
    and r: "apply_batch apply_event es db1 = Inr (acks', db')" and acks: "acks = ack # acks'"
    by (auto simp: outcome_bind_Inr_conv)
  have no: "\<not> fresh_accept ack" using applied [OF a] Cons.prems(2) by auto
  from not_applied [OF a no] Cons.IH [OF r] Cons.prems(2) no show ?case by (simp add: acks)
qed simp

end

end
