(* ===== verification/Site_Sync.thy ===== *)
theory Site_Sync
  imports Site_Deployments Sync_Channel
begin

text \<open>
  \<open>upm_site/sync.py\<close>: the Site's identity, its outgoing sequence numbers, and the handler
  for the events Central sends. A branch of the handler refuses the event with an
  acknowledgement, or falls through to the receipt with the text of an exception it caught;
  what had been written before the exception stays. An exception the handler does not catch
  leaves it and undoes the transaction.
\<close>

definition SITE_PROTOCOL_VERSION :: int where
  "SITE_PROTOCOL_VERSION = 1"

section \<open>Identity\<close>

record site_settings =
  set_default_display_name :: string
  set_application_version :: string
  set_central_url :: "string option"
  set_worker_lease_seconds :: int
  set_worker_retry_base_seconds :: rat
  set_sync_batch_count :: nat
  set_heartbeat_interval_seconds :: rat

definition create_identity :: "codec \<Rightarrow> datetime \<Rightarrow> site_settings \<Rightarrow> site_site site_tx" where
  "create_identity cx now settings =
     tx_bind (site_new_id cx) (\<lambda>i.
       let site = (default_site_site now)\<lparr>sst_site_id := i, sst_display_name := set_default_display_name settings\<rparr>
       in tx_then (tx_write (\<lambda>db. db\<lparr>
            sd_sites := sd_sites db @ [site],
            sd_identities := sd_identities db @ [\<lparr>sli_site_id = i, sli_singleton_key = 1,
              sli_display_name = sst_display_name site,
              sli_installation_version = set_application_version settings, sli_created_at = now\<rparr>]\<rparr>))
          (tx_return site))"

definition ensure_registration :: "site_settings \<Rightarrow> site_site \<Rightarrow> unit site_tx" where
  "ensure_registration settings site =
     tx_bind (tx_read (\<lambda>db. row_get scg_site_id (sd_registrations db) (sst_site_id site))) (\<lambda>registration.
     case registration of
       None \<Rightarrow> tx_write (\<lambda>db. db\<lparr>sd_registrations := sd_registrations db @
         [default_site_central_registration\<lparr>scg_site_id := sst_site_id site,
            scg_central_url := set_central_url settings, scg_state := Enroll_UNREGISTERED\<rparr>]\<rparr>)
     | Some r \<Rightarrow>
         if given (set_central_url settings) \<noteq> None \<and> given (scg_central_url r) = None
         then tx_write (\<lambda>db. db\<lparr>sd_registrations := row_put scg_site_id (sst_site_id site)
                (\<lambda>r. r\<lparr>scg_central_url := set_central_url settings\<rparr>) (sd_registrations db)\<rparr>)
         else tx_return ())"

definition bootstrap_identity :: "codec \<Rightarrow> datetime \<Rightarrow> site_settings \<Rightarrow> site_site site_tx" where
  "bootstrap_identity cx now settings =
     tx_bind (tx_read (\<lambda>db. row_get sli_singleton_key (sd_identities db) 1)) (\<lambda>identity.
     tx_bind (case identity of
         None \<Rightarrow> create_identity cx now settings
       | Some i \<Rightarrow>
           tx_bind (tx_read (\<lambda>db. row_get sst_site_id (sd_sites db) (sli_site_id i))) (\<lambda>site.
           case site of
             None \<Rightarrow> tx_raise (RuntimeError ''local Site identity refers to a missing Site record'')
           | Some s \<Rightarrow> tx_return s)) (\<lambda>site.
     tx_then (ensure_registration settings site) (tx_return site)))"

section \<open>Outgoing events\<close>

definition enqueue_heartbeat :: "codec \<Rightarrow> datetime \<Rightarrow> uuid \<Rightarrow> payload \<Rightarrow> outbox_event site_tx" where
  "enqueue_heartbeat cx now site_id body =
     tx_bind site_next_sequence (\<lambda>sequence.
     site_publish cx now
       \<lparr>ov_event_type = ''site.heartbeat'', ov_aggregate_type = ''site_operational_status'',
        ov_aggregate_id = site_id, ov_site_id = Some site_id, ov_event_id = None,
        ov_source_sequence = Some sequence, ov_correlation_id = None, ov_causation_id = None,
        ov_protocol_version = Some SITE_PROTOCOL_VERSION,
        ov_idempotency_key = ''heartbeat:'' @ uuid_str site_id @ '':'' @ str_int sequence,
        ov_payload = \<lparr>op_schema_version = 1, op_source_system = Src_SITE, op_data = body\<rparr>\<rparr>)"

definition site_envelope :: "outbox_event \<Rightarrow> sync_event_envelope" where
  "site_envelope e =
     \<lparr>env_event_id = o_id e, env_event_type = o_event_type e, env_protocol_version = o_protocol_version e,
      env_source = ''site'', env_source_site_id = o_site_id e,
      env_source_sequence = default_to 0 (o_source_sequence e),
      env_authority = Auth_SITE, env_entity_type = o_aggregate_type e,
      env_entity_id = Some (o_aggregate_id e), env_occurred_at = o_created_at e,
      env_payload = o_payload e, env_payload_schema_version = o_payload_schema_version e,
      env_correlation_id = o_correlation_id e, env_causation_id = o_causation_id e\<rparr>"

text \<open>\<open>except (KeyError, TypeError, ValueError) as exc: str(exc)[:2048]\<close>\<close>

fun caught :: "error \<Rightarrow> string option" where
  "caught (KeyError s) = Some (take 2048 (exc_text (KeyError s)))"
| "caught (TypeError s) = Some (take 2048 (exc_text (TypeError s)))"
| "caught (ValueError s) = Some (take 2048 (exc_text (ValueError s)))"
| "caught e = None"

definition failure_key :: "uuid \<Rightarrow> int \<Rightarrow> uuid \<Rightarrow> string" where
  "failure_key deployment_id revision event_id =
     ''deployment-failed:'' @ uuid_str deployment_id @ '':'' @ str_int revision @ '':'' @ uuid_str event_id"

definition failure_header :: "codec \<Rightarrow> sync_event_envelope \<Rightarrow> (uuid \<times> uuid \<times> uuid \<times> int) site_tx" where
  "failure_header cx event =
     tx_bind (tx_lift (case env_entity_id event of
         Some i \<Rightarrow> Inr i
       | None \<Rightarrow> outcome_bind (dict_item (env_payload event) ''deployment_id'') (uuid_of (json_repr cx)))) (\<lambda>deployment_id.
     tx_bind (tx_lift (outcome_bind (dict_item (env_payload event) ''event_id'') (uuid_of (json_repr cx)))) (\<lambda>event_id.
     tx_bind local_site_id (\<lambda>site_id.
     tx_bind (tx_lift (py_int (default_to (JInt 1) (dict_get (env_payload event) ''deployment_revision'')))) (\<lambda>revision.
     tx_return (deployment_id, event_id, site_id, max 1 revision)))))"

definition mark_failed ::
  "datetime \<Rightarrow> int \<Rightarrow> string \<Rightarrow> site_event_deployment_projection \<Rightarrow> site_event_deployment_projection" where
  "mark_failed now desired reason d =
     d\<lparr>sed_status := Dep_FAILED, sed_desired_revision := max (sed_desired_revision d) desired,
       sed_failure_at := Some now, sed_failure_reason := Some reason\<rparr>"

definition failure_report ::
  "datetime \<Rightarrow> uuid \<Rightarrow> uuid \<Rightarrow> uuid \<Rightarrow> int \<Rightarrow> int \<Rightarrow> string \<Rightarrow> site_deployment_status" where
  "failure_report now deployment_id event_id site_id desired applied reason =
     \<lparr>sds_schema_version = SITE_DEPLOYMENT_SCHEMA_VERSION, sds_deployment_id = deployment_id,
      sds_event_id = event_id, sds_site_id = site_id, sds_desired_revision = desired,
      sds_applied_revision = applied, sds_status = ''failed'', sds_failure_reason = Some reason,
      sds_summary_counts = [], sds_observed_at = now\<rparr>"

definition publish_failure ::
  "codec \<Rightarrow> datetime \<Rightarrow> sync_event_envelope \<Rightarrow> string \<Rightarrow> uuid \<times> uuid \<times> uuid \<times> int \<Rightarrow> unit site_tx" where
  "publish_failure cx now event reason header =
     (case header of (deployment_id, event_id, site_id, desired) \<Rightarrow>
      tx_bind (load_deployment deployment_id) (\<lambda>d.
      let applied = (case d of None \<Rightarrow> 0 | Some d \<Rightarrow> sed_applied_revision d);
          report = failure_report now deployment_id event_id site_id desired applied reason
      in tx_then (tx_write (change_deployment deployment_id (mark_failed now desired reason)))
        (tx_then (tx_lift (require (site_deployment_status_fields report) validation_error))
          (tx_bind site_next_sequence (\<lambda>sequence.
           tx_bind (tx_read (\<lambda>db. row_get sev_event_id (sd_events db) event_id \<noteq> None)) (\<lambda>known.
           tx_then (site_publish cx now
             \<lparr>ov_event_type = ''site.event_deployment.failed'', ov_aggregate_type = ''event_deployment'',
              ov_aggregate_id = deployment_id, ov_site_id = Some site_id,
              ov_event_id = (if known then Some event_id else None), ov_source_sequence = Some sequence,
              ov_correlation_id = Some deployment_id, ov_causation_id = Some (env_event_id event),
              ov_protocol_version = None,
              ov_idempotency_key = failure_key deployment_id desired (env_event_id event),
              ov_payload = \<lparr>op_schema_version = SITE_DEPLOYMENT_SCHEMA_VERSION, op_source_system = Src_SITE,
                op_data = dump_status cx report\<rparr>\<rparr>) (tx_return ())))))))"

definition enqueue_deployment_failure ::
  "codec \<Rightarrow> datetime \<Rightarrow> sync_event_envelope \<Rightarrow> string \<Rightarrow> unit site_tx" where
  "enqueue_deployment_failure cx now event reason =
     tx_try (failure_header cx event) (\<lambda>r.
       case r of
         Inr header \<Rightarrow> publish_failure cx now event reason header
       | Inl e \<Rightarrow> if caught e = None then tx_raise e else tx_return ())"

section \<open>Effects of Central's events\<close>

text \<open>\<open>Inl ack\<close>: the branch returned; \<open>Inr err\<close>: it fell through with \<open>application_error\<close>.\<close>

type_synonym site_effect = "(event_acknowledgement + string option) site_tx"

definition refused :: "sync_event_envelope \<Rightarrow> string \<Rightarrow> site_effect" where
  "refused event code = tx_return (Inl (refuse (env_event_id event) code None))"

text \<open>\<open>dict(x)\<close> of a decoded value: an object, or an iterable of pairs.\<close>

fun dict_key :: "json \<Rightarrow> string outcome" where
  "dict_key (JStr s) = Inr s"
| "dict_key (JInt i) = Inr (str_int i)"
| "dict_key (JBool b) = Inr (if b then ''true'' else ''false'')"
| "dict_key JNull = Inr ''null''"
| "dict_key (JFloat r t) = Inr r"
| "dict_key v = Inl (TypeError ''unhashable type'')"

fun dict_pair :: "json \<Rightarrow> (string \<times> json) outcome" where
  "dict_pair v = outcome_bind (py_list v) (\<lambda>xs.
     case xs of
       [k, x] \<Rightarrow> outcome_bind (dict_key k) (\<lambda>k. Inr (k, x))
     | _ \<Rightarrow> Inl (ValueError ''dictionary update sequence element has the wrong length''))"

fun dict_of_pairs :: "json list \<Rightarrow> payload \<Rightarrow> payload outcome" where
  "dict_of_pairs [] acc = Inr acc"
| "dict_of_pairs (v # vs) acc = outcome_bind (dict_pair v) (\<lambda>(k, x). dict_of_pairs vs (dict_set k x acc))"

definition py_dict :: "json \<Rightarrow> payload outcome" where
  "py_dict v = (case v of JObj kvs \<Rightarrow> Inr kvs | _ \<Rightarrow> outcome_bind (py_list v) (\<lambda>vs. dict_of_pairs vs []))"

definition apply_setting :: "codec \<Rightarrow> datetime \<Rightarrow> sync_event_envelope \<Rightarrow> site_effect" where
  "apply_setting cx now event =
     tx_bind (tx_lift (dict_item (env_payload event) ''setting_key'')) (\<lambda>key_json.
     tx_bind (tx_lift (outcome_bind (dict_item (env_payload event) ''revision'') py_int)) (\<lambda>revision.
     let key = py_str (json_repr cx) key_json;
         new_value = outcome_bind (dict_item (env_payload event) ''value'') py_dict in
     tx_bind (tx_read (\<lambda>db. row_get smg_setting_key (sd_settings db) key)) (\<lambda>setting.
     case setting of
       None \<Rightarrow> tx_bind (tx_lift new_value) (\<lambda>v.
         tx_then (tx_write (\<lambda>db. db\<lparr>sd_settings := sd_settings db @ [(default_site_managed_setting now)\<lparr>
             smg_setting_key := key, smg_value := v, smg_central_revision := revision\<rparr>]\<rparr>))
           (tx_return (Inr None)))
     | Some s \<Rightarrow>
         if revision > smg_central_revision s
         then tx_bind (tx_lift new_value) (\<lambda>v.
           tx_then (tx_write (\<lambda>db. db\<lparr>sd_settings := row_put smg_setting_key key
               (\<lambda>r. r\<lparr>smg_value := v, smg_central_revision := revision\<rparr>) (sd_settings db)\<rparr>))
             (tx_return (Inr None)))
         else tx_return (Inr None))))"

text \<open>The \<open>try\<close> around a deployment change: \<open>PermissionError\<close> refuses, three kinds of error are reported.\<close>

definition deployment_branch :: "codec \<Rightarrow> datetime \<Rightarrow> sync_event_envelope \<Rightarrow> string site_tx \<Rightarrow> site_effect" where
  "deployment_branch cx now event m =
     tx_try m (\<lambda>r.
       case r of
         Inr _ \<Rightarrow> tx_return (Inr None)
       | Inl (PermissionError s) \<Rightarrow> refused event ''invalid_authority''
       | Inl e \<Rightarrow>
           (case caught e of
              None \<Rightarrow> tx_raise e
            | Some reason \<Rightarrow>
                tx_then (enqueue_deployment_failure cx now event reason) (tx_return (Inr (Some reason)))))"

definition deletion_branch :: "string site_tx \<Rightarrow> site_effect" where
  "deletion_branch m =
     tx_try m (\<lambda>r.
       case r of
         Inr _ \<Rightarrow> tx_return (Inr None)
       | Inl e \<Rightarrow> (case caught e of None \<Rightarrow> tx_raise e | Some reason \<Rightarrow> tx_return (Inr (Some reason))))"

subsection \<open>Announced media transfers\<close>

definition same_dict :: "payload \<Rightarrow> payload \<Rightarrow> bool" where
  "same_dict a b \<longleftrightarrow> set a = set b"

definition transfer_values :: "codec \<Rightarrow> uuid \<Rightarrow> media_transfer_manifest \<Rightarrow> job_values" where
  "transfer_values cx site_id m =
     \<lparr>jv_id = Some (man_transfer_session_id m), jv_site_id = Some site_id, jv_media_object_id = None,
      jv_type = ''presentation_media.central_pull'', jv_payload = Some (JObj (dump_manifest cx m)),
      jv_priority = None, jv_required_capabilities = Some [''transfer''],
      jv_idempotency_key = Some (''central-pull:'' @ uuid_str (man_transfer_session_id m)),
      jv_max_attempts = None, jv_next_attempt_at = None\<rparr>"

definition add_transfer_job :: "codec \<Rightarrow> datetime \<Rightarrow> uuid \<Rightarrow> media_transfer_manifest \<Rightarrow> unit site_tx" where
  "add_transfer_job cx now site_id m db =
     (case insert_job (new_job 0 now (JObj (dump_manifest cx m)) (transfer_values cx site_id m))
             (q_transfer (sd_queue db)) of
        Inl e \<Rightarrow> (Inl e, db)
      | Inr rows \<Rightarrow> (Inr (), db\<lparr>sd_queue := (sd_queue db)\<lparr>q_transfer := rows\<rparr>\<rparr>))"

definition transfer_session_of :: "datetime \<Rightarrow> uuid \<Rightarrow> media_transfer_manifest \<Rightarrow> site_media_transfer_session" where
  "transfer_session_of now site_id m =
     (default_site_media_transfer_session now)\<lparr>smt_transfer_session_id := man_transfer_session_id m,
        smt_site_id := site_id, smt_event_id := man_event_id m, smt_presentation_id := man_presentation_id m,
        smt_presentation_version_id := man_presentation_version_id m,
        smt_original_filename := man_original_filename m, smt_canonical_filename := man_canonical_filename m,
        smt_expected_size := man_expected_size m, smt_sha256 := man_sha256 m, smt_media_type := man_media_type m,
        smt_partial_key := ''transfers/'' @ uuid_str (man_transfer_session_id m) @ ''.partial'',
        smt_state := Xfer_AVAILABLE\<rparr>"

definition announce_session :: "datetime \<Rightarrow> sync_event_envelope \<Rightarrow> uuid \<Rightarrow> media_transfer_manifest \<Rightarrow> site_effect" where
  "announce_session now event site_id m =
     tx_bind (tx_read (\<lambda>db. row_get smt_transfer_session_id (sd_transfer_sessions db) (man_transfer_session_id m)))
       (\<lambda>local. case local of
          None \<Rightarrow> tx_then (tx_write (\<lambda>db. db\<lparr>sd_transfer_sessions := sd_transfer_sessions db
                            @ [transfer_session_of now site_id m]\<rparr>)) (tx_return (Inr None))
        | Some t \<Rightarrow>
            if smt_expected_size t \<noteq> man_expected_size m \<or> smt_sha256 t \<noteq> man_sha256 m
               \<or> smt_presentation_version_id t \<noteq> man_presentation_version_id m
            then refused event ''transfer_manifest_conflict'' else tx_return (Inr None))"

definition announce_transfer :: "codec \<Rightarrow> datetime \<Rightarrow> sync_event_envelope \<Rightarrow> site_effect" where
  "announce_transfer cx now event =
     tx_bind (tx_lift (validate_manifest cx (env_payload event))) (\<lambda>m.
     tx_bind local_site_id (\<lambda>site_id.
     if man_destination_site_id m \<noteq> Some site_id then refused event ''invalid_transfer_destination''
     else
       tx_bind (tx_read (\<lambda>db. row_get j_id (q_transfer (sd_queue db)) (man_transfer_session_id m))) (\<lambda>transfer.
       case transfer of
         None \<Rightarrow> tx_then (add_transfer_job cx now site_id m) (announce_session now event site_id m)
       | Some t \<Rightarrow>
           if \<not> (case j_payload t of JObj kvs \<Rightarrow> same_dict kvs (dump_manifest cx m) | _ \<Rightarrow> False)
           then refused event ''transfer_manifest_conflict''
           else announce_session now event site_id m)))"

definition transfer_branch :: "codec \<Rightarrow> datetime \<Rightarrow> sync_event_envelope \<Rightarrow> site_effect" where
  "transfer_branch cx now event =
     tx_try (announce_transfer cx now event) (\<lambda>r.
       case r of
         Inr effect \<Rightarrow> tx_return effect
       | Inl (TypeError s) \<Rightarrow> tx_return (Inr (caught (TypeError s)))
       | Inl (ValueError s) \<Rightarrow> tx_return (Inr (caught (ValueError s)))
       | Inl e \<Rightarrow> tx_raise e)"

section \<open>The handler\<close>

definition central_event_effect :: "codec \<Rightarrow> datetime \<Rightarrow> sync_event_envelope \<Rightarrow> site_effect" where
  "central_event_effect cx now event =
     (let kind = env_event_type event in
      if kind = ''site.configuration.updated'' then apply_setting cx now event
      else if kind \<in> {''central.event_deployment.requested'', ''central.event_deployment.updated''}
      then deployment_branch cx now event (apply_snapshot_event cx now event)
      else if kind = ''central.event_deployment.revoked''
      then deployment_branch cx now event (apply_revocation_event cx now event)
      else if kind = ''central.event.deleted'' then deletion_branch (apply_event_deletion cx now event)
      else if kind = ''central.people.deleted'' then deletion_branch (apply_people_deletion cx event)
      else if kind = ''central.media_transfer.available'' then transfer_branch cx now event
      else refused event ''unsupported_event_type'')"

definition site_cursor :: "site_db \<Rightarrow> site_sync_cursor option" where
  "site_cursor db = row_get scu_direction (sd_cursors db) ''central_to_site''"

text \<open>\<open>max(SyncReceipt.source_sequence) or 0\<close> when there is no cursor row.\<close>

definition durable_sequence :: "site_db \<Rightarrow> int" where
  "durable_sequence db =
     (case site_cursor db of
        Some c \<Rightarrow> scu_last_sequence c
      | None \<Rightarrow> (case map src_source_sequence (sd_receipts db) of [] \<Rightarrow> 0 | n # ns \<Rightarrow> fold max ns n))"

definition add_cursor :: "int \<Rightarrow> site_db \<Rightarrow> site_db" where
  "add_cursor n db =
     (if site_cursor db = None
      then db\<lparr>sd_cursors := sd_cursors db @ [\<lparr>scu_direction = ''central_to_site'', scu_last_sequence = n,
                                              scu_last_event_id = None\<rparr>]\<rparr>
      else db)"

definition site_record_receipt :: "codec \<Rightarrow> datetime \<Rightarrow> sync_event_envelope \<Rightarrow> site_db \<Rightarrow> site_db" where
  "site_record_receipt cx now event db =
     (let db1 = (site_minted db)\<lparr>sd_receipts := sd_receipts db @
            [\<lparr>src_receipt_id = site_fresh cx db, src_event_id = env_event_id event,
              src_source_sequence = env_source_sequence event, src_event_type = env_event_type event,
              src_received_at = now\<rparr>]\<rparr>;
          db2 = add_cursor 0 db1
      in db2\<lparr>sd_cursors := row_put scu_direction ''central_to_site''
              (\<lambda>c. c\<lparr>scu_last_sequence := env_source_sequence event,
                     scu_last_event_id := Some (env_event_id event)\<rparr>) (sd_cursors db2)\<rparr>)"

definition accepted_with :: "uuid \<Rightarrow> string option \<Rightarrow> event_acknowledgement" where
  "accepted_with i application_error =
     (accept i)\<lparr>ack_error_code := (if given application_error \<noteq> None then Some ''application_failed'' else None),
                ack_detail := application_error\<rparr>"

definition apply_central_event :: "codec \<Rightarrow> datetime \<Rightarrow> sync_event_envelope \<Rightarrow> event_acknowledgement site_tx" where
  "apply_central_event cx now event =
     (if env_protocol_version event \<noteq> SITE_PROTOCOL_VERSION
      then tx_return (refuse (env_event_id event) ''incompatible_protocol'' None)
      else if env_source event \<noteq> ''central'' \<or> env_authority event \<noteq> Auth_CENTRAL
      then tx_return (refuse (env_event_id event) ''invalid_authority'' None)
      else
        tx_bind (tx_read durable_sequence) (\<lambda>last.
        tx_bind (tx_read (\<lambda>db. env_event_id event \<in> src_event_id ` set (sd_receipts db))) (\<lambda>known.
        if known
        then tx_then (tx_write (add_cursor last)) (tx_return (accept_duplicate (env_event_id event)))
        else if env_source_sequence event \<noteq> last + 1
        then tx_return (refuse (env_event_id event) ''sequence_gap'' (Some (''expected '' @ str_int (last + 1))))
        else
          tx_bind (central_event_effect cx now event) (\<lambda>effect.
          case effect of
            Inl ack \<Rightarrow> tx_return ack
          | Inr application_error \<Rightarrow>
              tx_then (tx_write (site_record_receipt cx now event))
                (tx_return (accepted_with (env_event_id event) application_error))))))"

text \<open>\<open>credential_matches\<close>; \<open>decrypt\<close> is the Fernet cipher of the configured key.\<close>

definition credential_matches ::
  "(string \<Rightarrow> string outcome) \<Rightarrow> site_central_registration \<Rightarrow> string option \<Rightarrow> bool outcome" where
  "credential_matches decrypt registration bearer =
     (case scg_credential_encrypted registration of
        None \<Rightarrow> Inr False
      | Some c \<Rightarrow> outcome_bind (decrypt c) (\<lambda>expected.
          Inr (expected \<noteq> [] \<and> (case bearer of None \<Rightarrow> False | Some b \<Rightarrow> b \<noteq> [] \<and> b = expected))))"

section \<open>What an effect leaves alone\<close>

text \<open>No branch touches the receipts or the cursor; the handler itself keeps them.\<close>

definition channel_kept :: "site_db \<Rightarrow> site_db \<Rightarrow> bool" where
  "channel_kept db db' \<longleftrightarrow> sd_receipts db' = sd_receipts db \<and> sd_cursors db' = sd_cursors db"

interpretation channel: tx_relation channel_kept
  by standard (simp_all add: channel_kept_def)

text \<open>The stages of a snapshot's upsert leave the deployment row alone as well.\<close>

definition outside_kept :: "site_db \<Rightarrow> site_db \<Rightarrow> bool" where
  "outside_kept db db' \<longleftrightarrow> channel_kept db db' \<and> sd_deployments db' = sd_deployments db"

interpretation outside: tx_relation outside_kept
  by standard (simp_all add: outside_kept_def channel_kept_def)

lemma outside_channel: "tx_keeps outside_kept m \<Longrightarrow> tx_keeps channel_kept m"
  by (simp add: tx_keeps_def outside_kept_def)

lemma outside_primitives:
  "tx_keeps outside_kept site_flush" "tx_keeps outside_kept (site_new_id cx)"
  "tx_keeps outside_kept (site_schedule cx now v)" "tx_keeps outside_kept (site_publish cx now ov)"
  "tx_keeps outside_kept site_next_sequence" "tx_keeps outside_kept (add_transfer_job cx now i m)"
  by (auto intro!: outside.keepsI simp: outside_kept_def channel_kept_def site_flush_def site_new_id_def site_minted_def
      site_schedule_def site_publish_def site_next_sequence_def add_transfer_job_def split: sum.splits option.splits)

lemma outside_kept_record [simp]:
  "outside_kept db (change_assignment i f db)" "outside_kept db (deactivate_program e db)" "outside_kept db (purge_people ps db)"
  by (simp_all add: outside_kept_def channel_kept_def change_assignment_def deactivate_program_def purge_people_def Let_def)

lemma outside_rooms:
  "tx_keeps outside_kept (materialize_program_room_mappings cx now excluded e)"
  "tx_keeps outside_kept (reconcile_program_room_assignments cx now e)"
  unfolding materialize_program_room_mappings_def reconcile_program_room_assignments_def require_event_def
    materialize_label_def create_room_def create_mapping_def place_session_def Let_def
  by (intro outside.keeps_rules outside_primitives outside_kept_record; simp add: outside_kept_def channel_kept_def)+

lemmas outside_intros = outside.keeps_rules outside_primitives outside_kept_record outside_rooms

lemma outside_status: "tx_keeps outside_kept (report_status cx now d st c)" "tx_keeps outside_kept local_site_id"
  "tx_keeps outside_kept (load_deployment d)" "tx_keeps outside_kept (add_deployment_revision cx now d n t v b)"
  unfolding report_status_def status_event_def load_deployment_def local_site_id_def add_deployment_revision_def Let_def
  by (intro outside_intros; simp add: outside_kept_def channel_kept_def)+

lemma outside_users: "tx_keeps outside_kept (upsert_event now snap)" "tx_keeps outside_kept (withdraw_missing_users cx now snap)"
  "tx_keeps outside_kept (upsert_user cx now snap item)"
  unfolding upsert_event_def withdraw_missing_users_def withdraw_user_def change_user_def upsert_user_def Let_def
  by (intro outside_intros; simp add: outside_kept_def channel_kept_def)+

lemma outside_program: "tx_keeps outside_kept (upsert_people_and_program cx now snap)"
  "tx_keeps outside_kept (assign_snapshot_rooms cx now snap)" "tx_keeps outside_kept (upsert_presentations cx now snap)"
  unfolding upsert_people_and_program_def assign_snapshot_rooms_def assign_centrally_def upsert_presentations_def
    link_presentation_def add_versions_def add_version_def
  by (intro outside_intros; simp add: outside_kept_def channel_kept_def)+

lemma outside_upsert: "tx_keeps outside_kept (upsert_snapshot cx now snap)"
  unfolding upsert_snapshot_def by (intro outside_intros outside_users outside_program)

lemmas channel_stages = outside_primitives [THEN outside_channel] outside_status [THEN outside_channel]
  outside_upsert [THEN outside_channel]

lemma channel_kept_record [simp]:
  "channel_kept db (change_deployment d g db)" "channel_kept db (purge_event now e db)"
  "channel_kept db (purge_people ps db)"
  by (simp_all add: channel_kept_def change_deployment_def purge_event_def release_references_def purge_rooms_def
      purge_deployments_def purge_program_def purge_people_def Let_def)

lemmas channel_intros = channel.keeps_rules channel_stages channel_kept_record

lemma channel_snapshot: "tx_keeps channel_kept (apply_snapshot_event cx now event)"
  "tx_keeps channel_kept (apply_revocation_event cx now event)"
  unfolding apply_snapshot_event_def record_snapshot_def acknowledge_old_snapshot_def apply_revocation_event_def Let_def
  by (intro channel_intros; simp add: channel_kept_def)+

lemma channel_deletion: "tx_keeps channel_kept (apply_event_deletion cx now event)"
  "tx_keeps channel_kept (apply_people_deletion cx event)"
  unfolding apply_event_deletion_def apply_people_deletion_def
  by (auto intro!: channel_intros split: option.split json.split list.split)

lemma channel_failure: "tx_keeps channel_kept (enqueue_deployment_failure cx now event reason)"
  unfolding enqueue_deployment_failure_def failure_header_def publish_failure_def Let_def
  by (intro channel_intros)

lemma channel_branches: "tx_keeps channel_kept (refused event code)" "tx_keeps channel_kept (apply_setting cx now event)"
  "tx_keeps channel_kept m \<Longrightarrow> tx_keeps channel_kept (deployment_branch cx now event m)"
  "tx_keeps channel_kept m \<Longrightarrow> tx_keeps channel_kept (deletion_branch m)"
  "tx_keeps channel_kept (transfer_branch cx now event)"
proof -
  show refused: "tx_keeps channel_kept (refused event code)" for event code
    unfolding refused_def by (intro channel_intros)
  show "tx_keeps channel_kept (apply_setting cx now event)"
    unfolding apply_setting_def Let_def by (intro channel_intros; simp add: channel_kept_def)
  show "tx_keeps channel_kept (deployment_branch cx now event m)" if "tx_keeps channel_kept m"
    unfolding deployment_branch_def
    by (intro channel.keeps_try that) (auto intro!: channel_intros channel_failure refused split: sum.split error.split option.split)
  show "tx_keeps channel_kept (deletion_branch m)" if "tx_keeps channel_kept m"
    unfolding deletion_branch_def by (intro channel_intros that)
  have "tx_keeps channel_kept (announce_transfer cx now event)"
    unfolding announce_transfer_def announce_session_def
    by (intro channel_intros refused; simp add: channel_kept_def)
  then show "tx_keeps channel_kept (transfer_branch cx now event)"
    unfolding transfer_branch_def
    by (intro channel.keeps_try) (auto intro!: channel_intros split: sum.split error.split)
qed

lemma effect_keeps_channel: "tx_keeps channel_kept (central_event_effect cx now event)"
  unfolding central_event_effect_def Let_def
  by (intro channel.keeps_if channel_branches channel_snapshot channel_deletion)

section \<open>The channel contract\<close>

definition site_receipt_log :: "site_db \<Rightarrow> (uuid \<times> int) list" where
  "site_receipt_log db = map (\<lambda>r. (src_event_id r, src_source_sequence r)) (sd_receipts db)"

interpretation site_cursor_update: row_update scu_direction
  "\<lambda>c. c\<lparr>scu_last_sequence := n, scu_last_event_id := i\<rparr>" for n i
  by unfold_locales simp

lemma channel_kept_reads:
  "channel_kept db db' \<Longrightarrow> durable_sequence db' = durable_sequence db"
  "channel_kept db db' \<Longrightarrow> site_receipt_log db' = site_receipt_log db"
  by (simp_all add: channel_kept_def durable_sequence_def site_cursor_def site_receipt_log_def cong: option.case_cong)

lemma add_cursor_reads [simp]:
  "durable_sequence (add_cursor (durable_sequence db) db) = durable_sequence db"
  "site_receipt_log (add_cursor n db) = site_receipt_log db"
  by (auto simp: add_cursor_def durable_sequence_def site_cursor_def row_get_append site_receipt_log_def
      split: option.splits)

lemma record_receipt_reads [simp]:
  "durable_sequence (site_record_receipt cx now event db) = env_source_sequence event"
  "site_receipt_log (site_record_receipt cx now event db)
     = site_receipt_log db @ [(env_event_id event, env_source_sequence event)]"
proof -
  let ?db = "(site_minted db)\<lparr>sd_receipts := sd_receipts db @ [\<lparr>src_receipt_id = site_fresh cx db,
      src_event_id = env_event_id event, src_source_sequence = env_source_sequence event,
      src_event_type = env_event_type event, src_received_at = now\<rparr>]\<rparr>"
  have "site_cursor (add_cursor 0 ?db) \<noteq> None"
    by (auto simp: add_cursor_def site_cursor_def row_get_append split: option.splits)
  then obtain c where "site_cursor (add_cursor 0 ?db) = Some c" by blast
  then show "durable_sequence (site_record_receipt cx now event db) = env_source_sequence event"
    by (simp add: site_record_receipt_def Let_def durable_sequence_def site_cursor_def site_cursor_update.get_same)
  show "site_receipt_log (site_record_receipt cx now event db)
     = site_receipt_log db @ [(env_event_id event, env_source_sequence event)]"
    by (simp add: site_record_receipt_def Let_def add_cursor_def site_receipt_log_def)
qed

lemma accepted_with_simps [simp]: "fresh_accept (accepted_with i err)" "ack_accepted (accepted_with i err)"
  by (simp_all add: accepted_with_def fresh_accept_def accept_def)

text \<open>An early return of a branch is a refusal.\<close>

definition refuses_only :: "event_acknowledgement + string option \<Rightarrow> bool" where
  "refuses_only effect = (case effect of Inl ack \<Rightarrow> \<not> ack_accepted ack | Inr err \<Rightarrow> True)"

lemma effect_refuses: "tx_results refuses_only (central_event_effect cx now event)"
proof -
  have ref: "tx_results refuses_only (refused event code)" for code
    by (simp add: refused_def results_return refuses_only_def)
  have ok: "refuses_only (Inr err)" for err by (simp add: refuses_only_def)
  have setting: "tx_results refuses_only (apply_setting cx now event)"
    unfolding apply_setting_def Let_def by (intro results_rules ok)
  have deployment: "tx_results refuses_only (deployment_branch cx now event m)" for m
    unfolding deployment_branch_def
    by (rule results_try [where Q = "\<lambda>x. True"])
      (auto intro!: results_rules ok ref simp: tx_results_def [of "\<lambda>x. True"] split: error.split option.split)
  have deletion: "tx_results refuses_only (deletion_branch m)" for m
    unfolding deletion_branch_def
    by (rule results_try [where Q = "\<lambda>x. True"])
      (auto intro!: results_rules ok simp: tx_results_def [of "\<lambda>x. True"] split: option.split)
  have "tx_results refuses_only (announce_transfer cx now event)"
    unfolding announce_transfer_def announce_session_def by (intro results_rules ok ref)
  then have transfer: "tx_results refuses_only (transfer_branch cx now event)"
    unfolding transfer_branch_def
    by (rule results_try) (auto intro!: results_rules ok split: error.split)
  show ?thesis
    unfolding central_event_effect_def Let_def
    by (intro results_if setting deployment deletion transfer ref)
qed

lemma apply_central_event_cases:
  assumes "tx_commit (apply_central_event cx now event) db = Inr (ack, db')"
  shows "fresh_accept ack \<Longrightarrow>
      env_source_sequence event = durable_sequence db + 1 \<and> durable_sequence db' = env_source_sequence event
      \<and> env_event_id event \<notin> fst ` set (site_receipt_log db)
      \<and> site_receipt_log db' = site_receipt_log db @ [(env_event_id event, env_source_sequence event)]"
    and "\<not> fresh_accept ack \<Longrightarrow>
      site_receipt_log db' = site_receipt_log db \<and> durable_sequence db' = durable_sequence db"
proof -
  have ids: "fst ` set (site_receipt_log db) = src_event_id ` set (sd_receipts db)"
    by (auto simp: site_receipt_log_def image_iff)
  let ?early = "env_protocol_version event \<noteq> SITE_PROTOCOL_VERSION \<or> env_source event \<noteq> ''central''
      \<or> env_authority event \<noteq> Auth_CENTRAL \<or> env_event_id event \<in> src_event_id ` set (sd_receipts db)
      \<or> env_source_sequence event \<noteq> durable_sequence db + 1"
  have run: "apply_central_event cx now event db = (Inr ack, db')" using assms by (simp add: tx_commit_Inr)
  have early: "\<not> fresh_accept ack \<and> site_receipt_log db' = site_receipt_log db \<and> durable_sequence db' = durable_sequence db"
    if ?early
    using run that by (auto simp: apply_central_event_def tx_bind_def tx_then_def split: if_split_asm)
  have late: "(fresh_accept ack \<longrightarrow> durable_sequence db' = env_source_sequence event
        \<and> site_receipt_log db' = site_receipt_log db @ [(env_event_id event, env_source_sequence event)])
      \<and> (\<not> fresh_accept ack \<longrightarrow> site_receipt_log db' = site_receipt_log db \<and> durable_sequence db' = durable_sequence db)"
    if expected: "\<not> ?early"
  proof -
    obtain effect db1 where eff: "central_event_effect cx now event db = (Inr effect, db1)"
      and rest: "(case effect of Inl a \<Rightarrow> tx_return a | Inr err \<Rightarrow> tx_then (tx_write (site_record_receipt cx now event))
          (tx_return (accepted_with (env_event_id event) err))) db1 = (Inr ack, db')"
      using run expected by (auto simp: apply_central_event_def tx_bind_eq_Inr)
    note kept = channel_kept_reads [OF channel.keeps_run [OF effect_keeps_channel eff]]
    show ?thesis
    proof (cases effect)
      case (Inl a)
      then have "db' = db1" "a = ack" using rest by simp_all
      moreover have "\<not> fresh_accept a"
        using effect_refuses eff Inl unfolding tx_results_def refuses_only_def fresh_accept_def by fastforce
      ultimately show ?thesis using kept by simp
    next
      case (Inr err)
      then have "db' = site_record_receipt cx now event db1" "fresh_accept ack"
        using rest by (auto simp: tx_then_def tx_bind_def)
      then show ?thesis using kept by simp
    qed
  qed
  show "fresh_accept ack \<Longrightarrow>
      env_source_sequence event = durable_sequence db + 1 \<and> durable_sequence db' = env_source_sequence event
      \<and> env_event_id event \<notin> fst ` set (site_receipt_log db)
      \<and> site_receipt_log db' = site_receipt_log db @ [(env_event_id event, env_source_sequence event)]"
    using early late unfolding ids by blast
  show "\<not> fresh_accept ack \<Longrightarrow> site_receipt_log db' = site_receipt_log db \<and> durable_sequence db' = durable_sequence db"
    using early late by blast
qed

text \<open>An accepted event has a receipt, and the cursor row exists.\<close>

lemma site_cursor_record: "site_cursor (site_record_receipt cx now event db) \<noteq> None"
  by (auto simp: site_record_receipt_def Let_def add_cursor_def site_cursor_def row_get_append
      site_cursor_update.get_same split: option.splits)

lemma apply_central_event_accepted:
  assumes "apply_central_event cx now event db = (Inr ack, db')" "ack_accepted ack"
  shows "env_event_id event \<in> fst ` set (site_receipt_log db') \<and> site_cursor db' \<noteq> None"
proof (cases "env_event_id event \<in> src_event_id ` set (sd_receipts db)")
  case True
  then have "db' = add_cursor (durable_sequence db) db"
    using assms by (auto simp: apply_central_event_def tx_bind_def tx_then_def refuse_def split: if_split_asm)
  with True show ?thesis
    by (auto simp: add_cursor_def site_cursor_def site_receipt_log_def row_get_append image_iff split: option.splits)
next
  case False
  then obtain effect db1 where eff: "central_event_effect cx now event db = (Inr effect, db1)"
    and rest: "(case effect of Inl a \<Rightarrow> tx_return a | Inr err \<Rightarrow> tx_then (tx_write (site_record_receipt cx now event))
        (tx_return (accepted_with (env_event_id event) err))) db1 = (Inr ack, db')"
    using assms by (auto simp: apply_central_event_def tx_bind_eq_Inr refuse_def split: if_split_asm)
  have "db' = site_record_receipt cx now event db1"
    using rest effect_refuses eff assms(2) unfolding tx_results_def refuses_only_def
    by (cases effect) (fastforce simp: tx_then_def tx_bind_def)+
  then show ?thesis by (simp add: site_cursor_record)
qed

interpretation site_inbound: ordered_channel
  "\<lambda>e. tx_commit (apply_central_event cx now e)" env_event_id env_source_sequence site_receipt_log durable_sequence
  for cx now
  by unfold_locales (use apply_central_event_cases in blast)+

text \<open>
  C31: A batch of Central's events, whatever it contains. The Site records a receipt for exactly the events it
  accepts as new, in the order of the batch; their sequence numbers continue the previous ones without gap or
  repetition; the cursor moves with them; and no event identity gets a second receipt. An event whose
  application failed is among them: it counts as received and is not tried again.
\<close>

theorem site_applies_once_in_order:
  assumes "apply_batch (\<lambda>e. tx_commit (apply_central_event cx now e)) events db = Inr (acks, db')"
    and "distinct (map fst (site_receipt_log db))"
  shows "\<exists>new. site_receipt_log db' = site_receipt_log db @ new
      \<and> new = map (\<lambda>(e, a). (env_event_id e, env_source_sequence e))
                (filter (\<lambda>(e, a). fresh_accept a) (zip events acks))
      \<and> consecutive (durable_sequence db) (map snd new)
      \<and> durable_sequence db' = durable_sequence db + int (length new)
      \<and> distinct (map fst (site_receipt_log db'))"
  using site_inbound.batch_receipts [OF assms(1)] site_inbound.batch_distinct [OF assms] by blast

definition demo_setting_event :: "uuid \<Rightarrow> int \<Rightarrow> sync_event_envelope" where
  "demo_setting_event i n = (demo_central_envelope ''site.configuration.updated'' i n)\<lparr>
     env_payload := [(''setting_key'', JStr ''theme''), (''revision'', JInt n), (''value'', JObj [])]\<rparr>"

lemma demo_site_batch:
  "map_sum id fst (apply_batch (\<lambda>e. tx_commit (apply_central_event demo_codec 5 e))
      [demo_setting_event 1 1, demo_setting_event 1 1, demo_setting_event 2 2, demo_central_envelope ''central.people.deleted'' 3 3]
      demo_site_db)
   = Inr [accept 1, accept_duplicate 1, accept 2, accepted_with 3 (Some ''person deletion requires a nonempty person_ids list'')]"
  by code_simp


theorem site_applies_once_in_order_witness:
  "\<exists>db' :: site_db. apply_batch (\<lambda>e. tx_commit (apply_central_event demo_codec 5 e))
      [demo_setting_event 1 1, demo_setting_event 1 1, demo_setting_event 2 2, demo_central_envelope ''central.people.deleted'' 3 3]
      demo_site_db
     = Inr ([accept 1, accept_duplicate 1, accept 2,
             accepted_with 3 (Some ''person deletion requires a nonempty person_ids list'')], db')
     \<and> site_receipt_log db' = [(1, 1), (2, 2), (3, 3)]"
proof -
  obtain db' where run: "apply_batch (\<lambda>e. tx_commit (apply_central_event demo_codec 5 e))
      [demo_setting_event 1 1, demo_setting_event 1 1, demo_setting_event 2 2, demo_central_envelope ''central.people.deleted'' 3 3]
      demo_site_db = Inr ([accept 1, accept_duplicate 1, accept 2,
        accepted_with 3 (Some ''person deletion requires a nonempty person_ids list'')], db')"
    using demo_site_batch by (auto simp: map_sum_def split: sum.splits)
  have "site_receipt_log demo_site_db = []"
    by (simp add: site_receipt_log_def demo_site_db_def empty_site_db_def)
  with site_applies_once_in_order [OF run] run show ?thesis
    by (auto simp: demo_setting_event_def demo_central_envelope_def)
qed

section \<open>The revisions of a deployment\<close>

text \<open>
  What no step may break: the CHECK constraints of every deployment row, and that a deployment that stays keeps
  its event and never falls back to an earlier applied revision.
\<close>

definition deployments_sound :: "site_db \<Rightarrow> site_db \<Rightarrow> bool" where
  "deployments_sound db db' \<longleftrightarrow>
     (list_all deployment_checks (sd_deployments db) \<longrightarrow> list_all deployment_checks (sd_deployments db'))
     \<and> (\<forall>i d. row_get sed_deployment_id (sd_deployments db) i = Some d \<longrightarrow>
          (\<exists>d'. row_get sed_deployment_id (sd_deployments db') i = Some d'
             \<and> sed_applied_revision d \<le> sed_applied_revision d' \<and> sed_central_event_id d' = sed_central_event_id d))"

interpretation deps: tx_relation deployments_sound
proof
  show "deployments_sound s s" for s by (simp add: deployments_sound_def)
next
  fix s t u :: site_db
  assume a: "deployments_sound s t" "deployments_sound t u"
  show "deployments_sound s u" unfolding deployments_sound_def
  proof (intro conjI allI impI)
    show "list_all deployment_checks (sd_deployments u)" if "list_all deployment_checks (sd_deployments s)"
      using a that by (simp add: deployments_sound_def)
  next
    fix i d assume "row_get sed_deployment_id (sd_deployments s) i = Some d"
    then obtain d1 where "row_get sed_deployment_id (sd_deployments t) i = Some d1"
      "sed_applied_revision d \<le> sed_applied_revision d1" "sed_central_event_id d1 = sed_central_event_id d"
      using a(1) unfolding deployments_sound_def by blast
    with a(2) show "\<exists>d'. row_get sed_deployment_id (sd_deployments u) i = Some d'
        \<and> sed_applied_revision d \<le> sed_applied_revision d' \<and> sed_central_event_id d' = sed_central_event_id d"
      unfolding deployments_sound_def by fastforce
  qed
qed

lemma same_deployments_sound: "sd_deployments db' = sd_deployments db \<Longrightarrow> deployments_sound db db'"
  by (simp add: deployments_sound_def)

lemma outside_sound: "tx_keeps outside_kept m \<Longrightarrow> tx_keeps deployments_sound m"
  by (auto simp: tx_keeps_def outside_kept_def intro: same_deployments_sound)

text \<open>A change of a row that keeps the two properties.\<close>

definition sound_change :: "(site_event_deployment_projection \<Rightarrow> site_event_deployment_projection) \<Rightarrow> bool" where
  "sound_change f \<longleftrightarrow> (\<forall>d. sed_deployment_id (f d) = sed_deployment_id d \<and> sed_central_event_id (f d) = sed_central_event_id d
     \<and> sed_applied_revision d \<le> sed_applied_revision (f d) \<and> (deployment_checks d \<longrightarrow> deployment_checks (f d)))"

lemma change_deployment_sound:
  assumes "sound_change f"
  shows "deployments_sound db (change_deployment i f db)"
proof -
  have upd: "row_update sed_deployment_id f" using assms by unfold_locales (simp add: sound_change_def)
  have "\<exists>d'. row_get sed_deployment_id (row_put sed_deployment_id i f (sd_deployments db)) j = Some d'
      \<and> sed_applied_revision d \<le> sed_applied_revision d' \<and> sed_central_event_id d' = sed_central_event_id d"
    if "row_get sed_deployment_id (sd_deployments db) j = Some d" for j d
    using that assms by (cases "j = i")
      (simp_all add: row_update.get_same [OF upd] row_update.get_other [OF upd] sound_change_def)
  moreover have "list_all deployment_checks (row_put sed_deployment_id i f ds)" if "list_all deployment_checks ds" for ds
    using that assms by (auto simp: list_all_iff row_put_def sound_change_def)
  ultimately show ?thesis by (simp add: deployments_sound_def change_deployment_def)
qed

lemma sound_changes:
  "sound_change (mark_failed now desired reason)"
  "sound_change (\<lambda>d. d\<lparr>sed_desired_revision := max (sed_desired_revision d) n,
     sed_last_central_synchronization_at := Some now\<rparr>)"
  "sound_change (\<lambda>d. d\<lparr>sed_desired_revision := max (sed_desired_revision d) n,
     sed_applied_revision := max (sed_applied_revision d) n, sed_status := Dep_REVOKED, sed_revoked_at := Some now,
     sed_last_central_synchronization_at := Some now\<rparr>)"
  by (auto simp: sound_change_def mark_failed_def deployment_checks_def)

lemmas sound_intros = deps.keeps_rules outside_primitives [THEN outside_sound] outside_status [THEN outside_sound]
  outside_upsert [THEN outside_sound] change_deployment_sound sound_changes

lemma sound_people: "tx_keeps deployments_sound (apply_people_deletion cx event)"
  unfolding apply_people_deletion_def
  by (rule outside_sound) (auto intro!: outside_intros split: option.split json.split list.split)

lemma sound_simple_branches:
  "tx_keeps deployments_sound (apply_revocation_event cx now event)"
  "tx_keeps deployments_sound (acknowledge_old_snapshot cx now event snap d)" "tx_keeps deployments_sound (refused event code)"
  "tx_keeps deployments_sound (enqueue_deployment_failure cx now event reason)" "tx_keeps deployments_sound (apply_setting cx now event)"
  unfolding apply_revocation_event_def acknowledge_old_snapshot_def Let_def
    refused_def enqueue_deployment_failure_def failure_header_def publish_failure_def apply_setting_def
  by (intro sound_intros; simp add: same_deployments_sound)+

lemma upsert_deployment_sound:
  assumes "\<And>d. row_get sed_deployment_id (sd_deployments db) i = Some d \<Longrightarrow>
      sed_applied_revision d < snap_deployment_revision snap \<and> sed_central_event_id d = snap_event_id snap"
    and "1 \<le> snap_deployment_revision snap" "sed_deployment_id new = i"
  shows "deployments_sound db (db\<lparr>sd_deployments := upsert sed_deployment_id i (applied_deployment cx now snap counts)
      (applied_deployment cx now snap counts new) (sd_deployments db)\<rparr>)"
proof -
  have upd: "row_update sed_deployment_id (applied_deployment cx now snap counts)"
    by unfold_locales (simp add: applied_deployment_def)
  have ok: "deployment_checks (applied_deployment cx now snap counts d)" for d
    using assms(2) by (simp add: deployment_checks_def applied_deployment_def)
  have put: "list_all deployment_checks (row_put sed_deployment_id i (applied_deployment cx now snap counts) ds)"
    if "list_all deployment_checks ds" for ds
    using that ok by (auto simp: list_all_iff row_put_def)
  have "\<exists>d'. row_get sed_deployment_id (upsert sed_deployment_id i (applied_deployment cx now snap counts)
          (applied_deployment cx now snap counts new) (sd_deployments db)) j = Some d'
      \<and> sed_applied_revision d \<le> sed_applied_revision d' \<and> sed_central_event_id d' = sed_central_event_id d"
    if "row_get sed_deployment_id (sd_deployments db) j = Some d" for j d
    using that assms by (cases "j = i") (auto simp: upsert_def row_get_append row_update.get_same [OF upd]
        row_update.get_other [OF upd] applied_deployment_def less_imp_le split: option.splits)
  then show ?thesis
    using put ok by (auto simp: deployments_sound_def upsert_def split: option.splits)
qed

lemma validate_snapshot_revision: "validate_snapshot cx p = Inr snap \<Longrightarrow> 1 \<le> snap_deployment_revision snap"
  by (auto simp: validate_snapshot_def model_validate_def event_deployment_snapshot_fields_def outcome_bind_Inr_conv
      split: sum.splits if_split_asm)

lemma record_snapshot_sound:
  assumes "\<And>d. row_get sed_deployment_id (sd_deployments db) (snap_deployment_id snap) = Some d \<Longrightarrow>
      sed_applied_revision d < snap_deployment_revision snap \<and> sed_central_event_id d = snap_event_id snap"
    and "1 \<le> snap_deployment_revision snap"
  shows "deployments_sound db (snd (record_snapshot cx now event snap counts db))"
proof -
  let ?new = "(default_site_event_deployment_projection now)\<lparr>sed_deployment_id := snap_deployment_id snap,
      sed_central_event_id := snap_event_id snap, sed_site_id := snap_site_id snap\<rparr>"
  let ?db = "db\<lparr>sd_deployments := upsert sed_deployment_id (snap_deployment_id snap)
      (applied_deployment cx now snap counts) (applied_deployment cx now snap counts ?new) (sd_deployments db)\<rparr>"
  obtain rest where rest: "record_snapshot cx now event snap counts db = rest ?db" "tx_keeps deployments_sound rest"
  proof
    show "record_snapshot cx now event snap counts db =
      tx_then (add_deployment_revision cx now (snap_deployment_id snap) (snap_deployment_revision snap)
           (env_event_type event) (snap_schema_version snap) (dump_snapshot cx snap))
         (tx_then site_flush
           (tx_then (report_status cx now (snap_deployment_id snap) ''received'' (env_event_id event))
             (tx_then (report_status cx now (snap_deployment_id snap) ''applied'' (env_event_id event))
               (tx_return ''applied'')))) ?db"
      by (simp add: record_snapshot_def tx_then_def [of "tx_write h" for h] tx_bind_def [of "tx_write h" for h])
  qed (intro sound_intros)
  have "deployments_sound db ?db" using assms by (intro upsert_deployment_sound) simp_all
  then show ?thesis unfolding rest(1) by (rule deps.trans) (rule deps.keepsD [OF rest(2)])
qed

lemma new_snapshot_sound:
  assumes "\<And>d. row_get sed_deployment_id (sd_deployments db) (snap_deployment_id snap) = Some d \<Longrightarrow>
      sed_applied_revision d < snap_deployment_revision snap \<and> sed_central_event_id d = snap_event_id snap"
    and "1 \<le> snap_deployment_revision snap"
  shows "deployments_sound db (snd (tx_bind (upsert_snapshot cx now snap)
           (\<lambda>counts. tx_then site_flush (record_snapshot cx now event snap counts)) db))"
proof -
  obtain r db1 where up: "upsert_snapshot cx now snap db = (r, db1)" by (cases "upsert_snapshot cx now snap db")
  with outside.keeps_run [OF outside_upsert up] have same: "sd_deployments db1 = sd_deployments db"
    by (simp add: outside_kept_def)
  then have "deployments_sound db1 (snd (tx_then site_flush (record_snapshot cx now event snap counts) db1))" for counts
    using record_snapshot_sound [of db1 snap] assms
    by (simp add: tx_then_def tx_bind_def site_flush_def deps.refl)
  with same_deployments_sound [OF same] up show ?thesis
    by (cases r) (auto simp: tx_bind_def intro: deps.trans)
qed

lemma apply_snapshot_sound: "tx_keeps deployments_sound (apply_snapshot_event cx now event)"
proof (rule deps.keepsI)
  fix db
  show "deployments_sound db (snd (apply_snapshot_event cx now event db))"
  proof (cases "validate_snapshot cx (env_payload event)")
    case (Inl e)
    then show ?thesis by (simp add: apply_snapshot_event_def deps.refl)
  next
    case (Inr snap)
    note new = new_snapshot_sound [of db snap cx now event, OF _ validate_snapshot_revision [OF Inr]]
    note old = deps.keepsD [OF sound_simple_branches(2)]
    have id: "local_site_id db = (r, db1) \<Longrightarrow> db1 = db" for r db1
      by (auto simp: local_site_id_def tx_bind_def split: option.splits)
    show ?thesis
      using new old id Inr
      by (auto simp: apply_snapshot_event_def tx_bind_def [of local_site_id] tx_bind_def [of "tx_read f" for f]
          load_deployment_def deps.refl split: prod.split sum.split option.split)
  qed
qed

lemma effect_sound:
  assumes "env_event_type event \<noteq> ''central.event.deleted''"
  shows "tx_keeps deployments_sound (central_event_effect cx now event)"
proof -
  have deployment: "tx_keeps deployments_sound (deployment_branch cx now event m)" if "tx_keeps deployments_sound m" for m
    unfolding deployment_branch_def
    by (intro deps.keeps_try that)
      (auto intro!: sound_intros sound_simple_branches split: sum.split error.split option.split)
  have deletion: "tx_keeps deployments_sound (deletion_branch m)" if "tx_keeps deployments_sound m" for m
    unfolding deletion_branch_def by (intro sound_intros that)
  have "tx_keeps deployments_sound (announce_transfer cx now event)"
    unfolding announce_transfer_def announce_session_def
    by (intro sound_intros sound_simple_branches; simp add: same_deployments_sound)
  then have transfer: "tx_keeps deployments_sound (transfer_branch cx now event)"
    unfolding transfer_branch_def
    by (intro deps.keeps_try) (auto intro!: sound_intros split: sum.split error.split)
  show ?thesis
    using assms unfolding central_event_effect_def Let_def
    by (simp add: deployment deletion transfer sound_simple_branches sound_people apply_snapshot_sound)
qed

lemma apply_central_event_sound:
  assumes "env_event_type event \<noteq> ''central.event.deleted''"
  shows "tx_keeps deployments_sound (apply_central_event cx now event)"
  unfolding apply_central_event_def
  by (intro sound_intros effect_sound assms;
      simp add: same_deployments_sound add_cursor_def site_record_receipt_def Let_def site_minted_def)

text \<open>
  C32: No event from Central other than the deletion of the event itself removes a deployment from a Site, moves it to another
  event or brings it back to an earlier applied revision, whatever the event holds and in whatever order events
  arrive; and every deployment row keeps its CHECK constraints: the desired revision is at least 1 and the
  applied one lies between 0 and the desired one.
\<close>

theorem deployment_never_regresses:
  assumes "tx_commit (apply_central_event cx now event) db = Inr (ack, db')"
    and "env_event_type event \<noteq> ''central.event.deleted''"
    and "list_all deployment_checks (sd_deployments db)"
    and "row_get sed_deployment_id (sd_deployments db) i = Some d"
  shows "list_all deployment_checks (sd_deployments db')
    \<and> (\<exists>d'. row_get sed_deployment_id (sd_deployments db') i = Some d'
          \<and> sed_applied_revision d \<le> sed_applied_revision d' \<and> sed_central_event_id d' = sed_central_event_id d)"
  using deps.keeps_commit [OF apply_central_event_sound [OF assms(2)] assms(1)] assms(3,4)
  unfolding deployments_sound_def by blast

definition demo_deployed_db :: site_db where
  "demo_deployed_db = demo_site_db\<lparr>sd_deployments := [(default_site_event_deployment_projection 0)\<lparr>
     sed_deployment_id := 9, sed_central_event_id := 1, sed_site_id := 7, sed_desired_revision := 3,
     sed_applied_revision := 3\<rparr>]\<rparr>"

theorem deployment_never_regresses_witness:
  "\<exists>(ack :: event_acknowledgement) (db' :: site_db) d'. tx_commit (apply_central_event (snapshot_codec (demo_snapshot 1)) 50
       (demo_central_envelope ''central.event_deployment.updated'' 40 1)) demo_deployed_db = Inr (ack, db')
     \<and> row_get sed_deployment_id (sd_deployments db') 9 = Some d' \<and> 3 \<le> sed_applied_revision d'"
proof -
  let ?run = "tx_commit (apply_central_event (snapshot_codec (demo_snapshot 1)) 50
       (demo_central_envelope ''central.event_deployment.updated'' 40 1)) demo_deployed_db"
  have "isl ?run = False" by code_simp
  then obtain ack db' where run: "?run = Inr (ack, db')" by (cases ?run) auto
  from deployment_never_regresses [OF run, of 9 "hd (sd_deployments demo_deployed_db)"]
  have "\<exists>d'. row_get sed_deployment_id (sd_deployments db') 9 = Some d'
      \<and> 3 \<le> sed_applied_revision d'"
    by (auto simp: demo_central_envelope_def demo_deployed_db_def deployment_checks_def)
  with run show ?thesis by blast
qed

end
