(* ===== verification/Site_Transport.thy ===== *)
theory Site_Transport
  imports Site_Sync
begin

text \<open>
  \<open>upm_site/sync_transport.py\<close>: one round of the synchronisation worker. A round is several
  database transactions with HTTP requests to Central between them. The state is the Site's
  database together with the world beyond the network, of any type; the HTTP client is the
  record \<open>central_client\<close>, one function per request, whose answer is a response or a failure
  of the transport. A transaction that raises leaves the database as it was; one that ended
  before a later failure stays committed. Secrets are kept through the record \<open>vault\<close>, which
  stands for the Fernet cipher. One value of the clock is used for a whole round.
\<close>

section \<open>Requests and responses\<close>

text \<open>The body of a response is what \<open>model_validate(response.json())\<close> gives.\<close>

datatype 'b reply = Response nat string "'b outcome" | Unreachable string

record auth_headers =
  hd_authorization :: string
  hd_site_id :: uuid

record 'w central_client =
  post_enrollment :: "string \<Rightarrow> enrollment_request \<Rightarrow> 'w \<Rightarrow> enrollment_request_response reply \<times> 'w"
  get_enrollment_status :: "string \<Rightarrow> uuid \<Rightarrow> string \<Rightarrow> 'w \<Rightarrow> enrollment_status_response reply \<times> 'w"
  post_site_events :: "string \<Rightarrow> auth_headers \<Rightarrow> sync_batch_request \<Rightarrow> 'w \<Rightarrow> sync_batch_response reply \<times> 'w"
  get_central_events :: "string \<Rightarrow> auth_headers \<Rightarrow> 'w \<Rightarrow> outbound_sync_response reply \<times> 'w"
  post_central_ack :: "string \<Rightarrow> auth_headers \<Rightarrow> event_ack_request \<Rightarrow> 'w \<Rightarrow> unit reply \<times> 'w"

record vault =
  encrypt_secret :: "string \<Rightarrow> string outcome"
  decrypt_token :: "string \<Rightarrow> string outcome"

definition decrypt_secret :: "vault \<Rightarrow> string option \<Rightarrow> string option outcome" where
  "decrypt_secret vt v =
     (case v of None \<Rightarrow> Inr None | Some c \<Rightarrow> outcome_bind (decrypt_token vt c) (\<lambda>s. Inr (Some s)))"

definition TRANSIENT_STATUS_CODES :: "nat list" where
  "TRANSIENT_STATUS_CODES = [408, 425, 429, 502, 503, 504]"

definition http_code :: "nat \<Rightarrow> string" where
  "http_code status_code = ''http_'' @ str_int (int status_code)"

fun checked :: "'b reply \<Rightarrow> 'b outcome" where
  "checked (Response status_code text body) =
     (if 200 \<le> status_code \<and> status_code < 300 then body
      else Inl (DeliveryFailure (http_code status_code) (take 2048 text)
        (status_code \<in> set TRANSIENT_STATUS_CODES \<or> 500 \<le> status_code)))"
| "checked (Unreachable text) = Inl (TransportError text)"

section \<open>The state of a round\<close>

record 'w link =
  lk_db :: site_db
  lk_world :: 'w

type_synonym ('w, 'a) round = "('w link, 'a) tx"

text \<open>\<open>with factory.begin() as session\<close>\<close>

definition begin_session :: "'a site_tx \<Rightarrow> ('w, 'a) round" where
  "begin_session m s =
     (case tx_commit m (lk_db s) of
        Inl e \<Rightarrow> (Inl e, s)
      | Inr (x, db) \<Rightarrow> (Inr x, s\<lparr>lk_db := db\<rparr>))"

text \<open>A request and \<open>checked\<close> on its response.\<close>

definition call :: "('w \<Rightarrow> 'b reply \<times> 'w) \<Rightarrow> ('w, 'b) round" where
  "call request s = (case request (lk_world s) of (r, w) \<Rightarrow> (checked r, s\<lparr>lk_world := w\<rparr>))"

definition registration_of :: "uuid \<Rightarrow> site_central_registration site_tx" where
  "registration_of site_id =
     tx_bind (tx_read (\<lambda>db. row_get scg_site_id (sd_registrations db) site_id)) (\<lambda>r.
       case r of
         None \<Rightarrow> tx_raise (AttributeError ''registration'')
       | Some r \<Rightarrow> tx_return r)"

definition change_registration ::
  "uuid \<Rightarrow> (site_central_registration \<Rightarrow> site_central_registration) \<Rightarrow> unit site_tx" where
  "change_registration site_id f =
     tx_then (registration_of site_id)
       (tx_write (\<lambda>db. db\<lparr>sd_registrations := row_put scg_site_id site_id f (sd_registrations db)\<rparr>))"

section \<open>Enrollment\<close>

definition SITE_CAPABILITIES :: "string list" where
  "SITE_CAPABILITIES = [''sync-v1'', ''site-health'', ''managed-settings'']"

text \<open>What the first transaction of \<open>enrollment_step\<close> hands on.\<close>

datatype enrollment_plan =
    No_central
  | Apply_at string enrollment_request
  | Poll_at string uuid enrollment_state "string option"

definition plan_enrollment ::
  "codec \<Rightarrow> datetime \<Rightarrow> vault \<Rightarrow> site_settings \<Rightarrow> string \<Rightarrow> string \<Rightarrow> enrollment_plan site_tx" where
  "plan_enrollment cx now vt settings hostname claim_secret =
     tx_bind (bootstrap_identity cx now settings) (\<lambda>site.
     tx_bind (registration_of (sst_site_id site)) (\<lambda>registration.
     case given (scg_central_url registration) of
       None \<Rightarrow> tx_return No_central
     | Some central_url \<Rightarrow>
         if scg_state registration = Enroll_UNREGISTERED
         then
           tx_bind (tx_lift (encrypt_secret vt claim_secret)) (\<lambda>encrypted.
           let request = \<lparr>enr_site_id = sst_site_id site, enr_display_name = sst_display_name site,
                 enr_application_version = set_application_version settings,
                 enr_protocol_version = SITE_PROTOCOL_VERSION, enr_claim_secret = claim_secret,
                 enr_reported_hostname = Some hostname, enr_capabilities = SITE_CAPABILITIES\<rparr>
           in tx_then (change_registration (sst_site_id site) (\<lambda>r. r\<lparr>scg_claim_secret_encrypted := Some encrypted\<rparr>))
             (tx_then (tx_lift (require (enrollment_request_fields request) validation_error))
               (tx_return (Apply_at central_url request))))
         else
           tx_bind (tx_lift (decrypt_secret vt (scg_poll_token_encrypted registration))) (\<lambda>poll_token.
           tx_return (Poll_at central_url (sst_site_id site) (scg_state registration) poll_token))))"

definition store_application ::
  "datetime \<Rightarrow> vault \<Rightarrow> enrollment_request_response \<Rightarrow> unit site_tx" where
  "store_application now vt result =
     tx_then (registration_of (erp_site_id result))
       (tx_bind (tx_lift (encrypt_secret vt (default_to [] (erp_poll_token result)))) (\<lambda>poll_token.
        change_registration (erp_site_id result)
          (\<lambda>r. r\<lparr>scg_state := erp_state result, scg_poll_token_encrypted := Some poll_token,
                 scg_last_connection_at := Some now, scg_protocol_compatible := Some True,
                 scg_last_error := None\<rparr>)))"

definition store_enrollment_status ::
  "datetime \<Rightarrow> vault \<Rightarrow> enrollment_status_response \<Rightarrow> unit site_tx" where
  "store_enrollment_status now vt result =
     tx_then (change_registration (esr_site_id result)
         (\<lambda>r. r\<lparr>scg_state := esr_state result, scg_last_connection_at := Some now,
                scg_protocol_compatible := Some (esr_protocol_version result = SITE_PROTOCOL_VERSION),
                scg_last_error := esr_reason result\<rparr>))
       (case given (esr_credential result) of
          None \<Rightarrow> tx_return ()
        | Some credential \<Rightarrow>
            tx_bind (tx_lift (encrypt_secret vt credential)) (\<lambda>encrypted.
            change_registration (esr_site_id result)
              (\<lambda>r. r\<lparr>scg_credential_encrypted := Some encrypted, scg_claim_secret_encrypted := None,
                     scg_poll_token_encrypted := None\<rparr>)))"

definition enrollment_step ::
  "codec \<Rightarrow> datetime \<Rightarrow> vault \<Rightarrow> 'w central_client \<Rightarrow> site_settings \<Rightarrow> string \<Rightarrow> string \<Rightarrow> ('w, unit) round" where
  "enrollment_step cx now vt client settings hostname claim_secret =
     tx_bind (begin_session (plan_enrollment cx now vt settings hostname claim_secret)) (\<lambda>plan.
     case plan of
       No_central \<Rightarrow> tx_return ()
     | Apply_at central_url request \<Rightarrow>
         tx_bind (call (post_enrollment client central_url request)) (\<lambda>result.
         begin_session (store_application now vt result))
     | Poll_at central_url site_id state poll_token \<Rightarrow>
         (case given poll_token of
            None \<Rightarrow> tx_return ()
          | Some token \<Rightarrow>
              if state \<noteq> Enroll_PENDING then tx_return ()
              else
                tx_bind (call (get_enrollment_status client central_url site_id token)) (\<lambda>result.
                begin_session (store_enrollment_status now vt result))))"

section \<open>Heartbeats\<close>

text \<open>\<open>dict(... group by status ...)\<close>; the order of the groups is the database's choice.\<close>

definition queue_counts :: "outbox_event list \<Rightarrow> payload" where
  "queue_counts rows =
     map (\<lambda>st. (job_status_value st, JInt (int (length (filter (\<lambda>e. o_status e = st) rows)))))
       (remdups (map o_status rows))"

definition heartbeat_body :: "codec \<Rightarrow> datetime \<Rightarrow> site_settings \<Rightarrow> string \<Rightarrow> outbox_event list \<Rightarrow> payload" where
  "heartbeat_body cx now settings hostname rows =
     [(''observed_at'', JStr (show_datetime cx now)),
      (''application_version'', JStr (set_application_version settings)),
      (''protocol_version'', JInt SITE_PROTOCOL_VERSION),
      (''site_health'', JStr ''healthy''), (''database_health'', JStr ''healthy''), (''worker_health'', JStr ''healthy''),
      (''storage'', JObj []), (''queue'', JObj (queue_counts rows)),
      (''capabilities'', JList (map JStr SITE_CAPABILITIES)), (''hostname'', JStr hostname)]"

definition heartbeat_pending :: "outbox_event list \<Rightarrow> bool" where
  "heartbeat_pending rows \<longleftrightarrow>
     (\<exists>e \<in> set rows. o_event_type e = ''site.heartbeat'' \<and> o_status e \<in> {Job_PENDING, Job_RUNNING, Job_RETRY_WAIT})"

definition heartbeat_due :: "datetime \<Rightarrow> site_settings \<Rightarrow> site_central_registration \<Rightarrow> bool" where
  "heartbeat_due now settings registration =
     (case scg_last_heartbeat_at registration of
        None \<Rightarrow> True
      | Some t \<Rightarrow> timedelta_seconds (set_heartbeat_interval_seconds settings) \<le> now - t)"

definition enqueue_due_heartbeat :: "codec \<Rightarrow> datetime \<Rightarrow> site_settings \<Rightarrow> string \<Rightarrow> ('w, unit) round" where
  "enqueue_due_heartbeat cx now settings hostname =
     begin_session
       (tx_bind (bootstrap_identity cx now settings) (\<lambda>site.
        tx_bind (registration_of (sst_site_id site)) (\<lambda>registration.
        if scg_state registration \<noteq> Enroll_ACTIVE then tx_return ()
        else
          tx_bind (tx_read (\<lambda>db. q_outbox (sd_queue db))) (\<lambda>rows.
          if heartbeat_due now settings registration \<and> \<not> heartbeat_pending rows
          then tx_then (enqueue_heartbeat cx now (sst_site_id site) (heartbeat_body cx now settings hostname rows))
                 (tx_return ())
          else tx_return ()))))"

section \<open>Delivery to Central\<close>

definition auth_context ::
  "codec \<Rightarrow> datetime \<Rightarrow> vault \<Rightarrow> site_settings \<Rightarrow> (uuid \<times> string \<times> auth_headers) site_tx" where
  "auth_context cx now vt settings =
     tx_bind (bootstrap_identity cx now settings) (\<lambda>site.
     tx_bind (registration_of (sst_site_id site)) (\<lambda>registration.
     tx_bind (tx_lift (decrypt_secret vt (scg_credential_encrypted registration))) (\<lambda>token.
     case (given token, given (scg_central_url registration)) of
       (Some token, Some central_url) \<Rightarrow>
         if scg_state registration \<noteq> Enroll_ACTIVE
         then tx_raise (DeliveryFailure ''not_registered'' ''Site enrollment is not active'' False)
         else tx_return (sst_site_id site, central_url,
           \<lparr>hd_authorization = ''Bearer '' @ token, hd_site_id = sst_site_id site\<rparr>)
     | _ \<Rightarrow> tx_raise (DeliveryFailure ''not_registered'' ''Site enrollment is not active'' False))))"

text \<open>The loop over \<open>claim_outbox\<close>; rows locked by another transaction are skipped.\<close>

fun claim_batch :: "nat \<Rightarrow> (uuid \<Rightarrow> bool) \<Rightarrow> string \<Rightarrow> timedelta \<Rightarrow> datetime \<Rightarrow> uuid list site_tx" where
  "claim_batch 0 lk worker_id lease now = tx_return []"
| "claim_batch (Suc n) lk worker_id lease now =
     tx_bind (\<lambda>db. case site_claim_outbox True lk worker_id lease now (q_outbox (sd_queue db)) of
         (event, rows) \<Rightarrow> (Inr event, db\<lparr>sd_queue := (sd_queue db)\<lparr>q_outbox := rows\<rparr>\<rparr>)) (\<lambda>event.
     case event of
       None \<Rightarrow> tx_return []
     | Some e \<Rightarrow> tx_bind (claim_batch n lk worker_id lease now) (\<lambda>ids. tx_return (o_id e # ids)))"

definition outbox_of :: "uuid \<Rightarrow> outbox_event option site_tx" where
  "outbox_of event_id = tx_read (\<lambda>db. row_get o_id (q_outbox (sd_queue db)) event_id)"

definition put_outbox :: "uuid \<Rightarrow> outbox_event \<Rightarrow> unit site_tx" where
  "put_outbox event_id e = tx_write (\<lambda>db. db\<lparr>sd_queue := (sd_queue db)\<lparr>
     q_outbox := row_put o_id event_id (\<lambda>_. e) (q_outbox (sd_queue db))\<rparr>\<rparr>)"

definition batch_of :: "uuid list \<Rightarrow> sync_batch_request site_tx" where
  "batch_of claimed =
     tx_bind (tx_map outbox_of claimed) (\<lambda>events.
     let request = \<lparr>sbq_protocol_version = SITE_PROTOCOL_VERSION,
           sbq_events = map site_envelope (List.map_filter id events)\<rparr>
     in tx_then (tx_lift (require (sync_batch_request_fields request \<and> list_all site_source_has_id (sbq_events request))
          validation_error)) (tx_return request))"

text \<open>\<open>{ack.event_id: ack for ack in result.acknowledgements}.get(event_id)\<close>\<close>

definition ack_for :: "event_acknowledgement list \<Rightarrow> uuid \<Rightarrow> event_acknowledgement option" where
  "ack_for acks event_id = find (\<lambda>a. ack_event_id a = event_id) (rev acks)"

definition fail_event ::
  "string \<Rightarrow> rat \<Rightarrow> datetime \<Rightarrow> string option \<Rightarrow> string \<Rightarrow> bool \<Rightarrow> outbox_event \<Rightarrow> outbox_event outcome" where
  "fail_event worker_id base now error_code message retryable e =
     (case error_code of
        None \<Rightarrow> outcome_bind (site_require_outbox_claim e worker_id) (\<lambda>_. Inl (TypeError ''error_code''))
      | Some code \<Rightarrow> site_fail_outbox e worker_id code message retryable base now)"

definition settle_event ::
  "string \<Rightarrow> rat \<Rightarrow> datetime \<Rightarrow> event_acknowledgement list \<Rightarrow> outbox_event \<Rightarrow> outbox_event outcome" where
  "settle_event worker_id base now acks e =
     (case ack_for acks (o_id e) of
        None \<Rightarrow> fail_event worker_id base now (Some ''missing_ack'') ''receiver did not acknowledge event'' False e
      | Some ack \<Rightarrow>
          if ack_accepted ack then site_process_outbox e worker_id now
          else fail_event worker_id base now (ack_error_code ack)
            (default_to ''receiver did not acknowledge event'' (given (ack_detail ack)))
            (ack_error_code ack = Some ''sequence_gap'') e)"

definition accepted_heartbeat :: "event_acknowledgement list \<Rightarrow> outbox_event \<Rightarrow> bool" where
  "accepted_heartbeat acks e \<longleftrightarrow>
     o_event_type e = ''site.heartbeat'' \<and> (case ack_for acks (o_id e) of None \<Rightarrow> False | Some a \<Rightarrow> ack_accepted a)"

definition settle_claimed ::
  "string \<Rightarrow> rat \<Rightarrow> datetime \<Rightarrow> uuid \<Rightarrow> event_acknowledgement list \<Rightarrow> uuid \<Rightarrow> unit site_tx" where
  "settle_claimed worker_id base now site_id acks event_id =
     tx_bind (outbox_of event_id) (\<lambda>event.
     case event of
       None \<Rightarrow> tx_raise (AttributeError ''status'')
     | Some e \<Rightarrow>
         tx_bind (tx_lift (settle_event worker_id base now acks e)) (\<lambda>e'.
         tx_then (put_outbox event_id e')
           (if accepted_heartbeat acks e
            then change_registration site_id (\<lambda>r. r\<lparr>scg_last_heartbeat_at := Some now\<rparr>)
            else tx_return ())))"

definition synchronized :: "datetime \<Rightarrow> site_central_registration \<Rightarrow> site_central_registration" where
  "synchronized now r = r\<lparr>scg_last_successful_sync_at := Some now, scg_last_connection_at := Some now,
     scg_last_error := None\<rparr>"

definition settle_batch ::
  "string \<Rightarrow> rat \<Rightarrow> datetime \<Rightarrow> uuid \<Rightarrow> event_acknowledgement list \<Rightarrow> uuid list \<Rightarrow> unit site_tx" where
  "settle_batch worker_id base now site_id acks claimed =
     tx_then (tx_for (settle_claimed worker_id base now site_id acks) claimed)
       (change_registration site_id (synchronized now))"

text \<open>The handler: \<open>TransportError\<close> becomes a retryable failure; other exceptions pass.\<close>

fun delivery_failure :: "error \<Rightarrow> (string \<times> string \<times> bool) option" where
  "delivery_failure (DeliveryFailure code detail retryable) = Some (code, detail, retryable)"
| "delivery_failure (TransportError text) = Some (''transport_error'', text, True)"
| "delivery_failure e = None"

definition fail_claimed ::
  "string \<Rightarrow> rat \<Rightarrow> datetime \<Rightarrow> string \<Rightarrow> string \<Rightarrow> bool \<Rightarrow> uuid \<Rightarrow> unit site_tx" where
  "fail_claimed worker_id base now code detail retryable event_id =
     tx_bind (outbox_of event_id) (\<lambda>event.
     case event of
       None \<Rightarrow> tx_return ()
     | Some e \<Rightarrow>
         if o_status e \<noteq> Job_RUNNING then tx_return ()
         else tx_bind (tx_lift (site_fail_outbox e worker_id code detail retryable base now)) (put_outbox event_id))"

definition failed_registration :: "string \<Rightarrow> string \<Rightarrow> site_central_registration \<Rightarrow> site_central_registration" where
  "failed_registration code detail r =
     r\<lparr>scg_last_error := Some detail,
       scg_state := (if code \<in> {''http_401'', ''http_403''} then Enroll_REVOKED else scg_state r),
       scg_protocol_compatible := (if code = ''http_409'' then Some False else scg_protocol_compatible r)\<rparr>"

definition fail_batch ::
  "string \<Rightarrow> rat \<Rightarrow> datetime \<Rightarrow> uuid \<Rightarrow> uuid list \<Rightarrow> string \<times> string \<times> bool \<Rightarrow> unit site_tx" where
  "fail_batch worker_id base now site_id claimed failure =
     (case failure of (code, detail, retryable) \<Rightarrow>
      tx_then (tx_for (fail_claimed worker_id base now code detail retryable) claimed)
        (change_registration site_id (failed_registration code detail)))"

definition claim_for_delivery ::
  "codec \<Rightarrow> datetime \<Rightarrow> vault \<Rightarrow> (uuid \<Rightarrow> bool) \<Rightarrow> site_settings \<Rightarrow> string
   \<Rightarrow> (uuid \<times> string \<times> auth_headers \<times> uuid list) site_tx" where
  "claim_for_delivery cx now vt lk settings worker_id =
     tx_bind (auth_context cx now vt settings) (\<lambda>(site_id, central_url, headers).
     tx_bind (claim_batch (set_sync_batch_count settings) lk worker_id
        (timedelta_seconds (of_int (set_worker_lease_seconds settings))) now) (\<lambda>claimed.
     tx_return (site_id, central_url, headers, claimed)))"

definition post_batch ::
  "datetime \<Rightarrow> 'w central_client \<Rightarrow> site_settings \<Rightarrow> string \<Rightarrow> uuid \<Rightarrow> string \<Rightarrow> auth_headers \<Rightarrow> uuid list \<Rightarrow> ('w, unit) round" where
  "post_batch now client settings worker_id site_id central_url headers claimed =
     tx_bind (begin_session (batch_of claimed)) (\<lambda>request.
     tx_bind (call (post_site_events client central_url headers request)) (\<lambda>result.
     begin_session (settle_batch worker_id (set_worker_retry_base_seconds settings) now site_id
       (sbr_acknowledgements result) claimed)))"

definition deliver_site_events ::
  "codec \<Rightarrow> datetime \<Rightarrow> vault \<Rightarrow> (uuid \<Rightarrow> bool) \<Rightarrow> 'w central_client \<Rightarrow> site_settings \<Rightarrow> string \<Rightarrow> ('w, unit) round" where
  "deliver_site_events cx now vt lk client settings worker_id =
     tx_bind (begin_session (claim_for_delivery cx now vt lk settings worker_id)) (\<lambda>(site_id, central_url, headers, claimed).
     if claimed = [] then tx_return ()
     else
       tx_try (post_batch now client settings worker_id site_id central_url headers claimed)
         (\<lambda>r. case r of
            Inr _ \<Rightarrow> tx_return ()
          | Inl e \<Rightarrow>
              (case delivery_failure e of
                 None \<Rightarrow> tx_raise e
               | Some failure \<Rightarrow>
                   tx_then (begin_session (fail_batch worker_id (set_worker_retry_base_seconds settings) now site_id claimed
                     failure)) (tx_raise e))))"

section \<open>Pulling from Central\<close>

definition apply_pulled :: "codec \<Rightarrow> datetime \<Rightarrow> sync_event_envelope list \<Rightarrow> int site_tx" where
  "apply_pulled cx now events =
     tx_bind (tx_map (apply_central_event cx now) events) (\<lambda>acks.
     case filter (\<lambda>a. \<not> ack_accepted a) acks of
       a # _ \<Rightarrow> tx_raise (DeliveryFailure (default_to ''apply_failed'' (given (ack_error_code a)))
                  (default_to ''Central event rejected'' (given (ack_detail a))) False)
     | [] \<Rightarrow> tx_read (\<lambda>db. case site_cursor db of None \<Rightarrow> 0 | Some c \<Rightarrow> scu_last_sequence c))"

definition ack_request :: "sync_event_envelope list \<Rightarrow> int \<Rightarrow> event_ack_request" where
  "ack_request events checkpoint =
     \<lparr>ear_protocol_version = SITE_PROTOCOL_VERSION, ear_event_ids = map env_event_id events,
      ear_checkpoint_sequence = checkpoint\<rparr>"

definition acknowledge_pulled ::
  "datetime \<Rightarrow> 'w central_client \<Rightarrow> uuid \<Rightarrow> string \<Rightarrow> auth_headers \<Rightarrow> event_ack_request \<Rightarrow> ('w, unit) round" where
  "acknowledge_pulled now client site_id central_url headers request =
     tx_then (tx_lift (require (event_ack_request_fields request) validation_error))
       (tx_then (call (post_central_ack client central_url headers request))
         (begin_session (change_registration site_id (synchronized now))))"

definition receive_pulled ::
  "codec \<Rightarrow> datetime \<Rightarrow> 'w central_client \<Rightarrow> uuid \<Rightarrow> string \<Rightarrow> auth_headers \<Rightarrow> sync_event_envelope list \<Rightarrow> ('w, unit) round" where
  "receive_pulled cx now client site_id central_url headers events =
     (if events = [] then tx_return ()
      else
        tx_bind (begin_session (apply_pulled cx now events)) (\<lambda>checkpoint.
        acknowledge_pulled now client site_id central_url headers (ack_request events checkpoint)))"

definition pull_central_events ::
  "codec \<Rightarrow> datetime \<Rightarrow> vault \<Rightarrow> 'w central_client \<Rightarrow> site_settings \<Rightarrow> ('w, unit) round" where
  "pull_central_events cx now vt client settings =
     tx_bind (begin_session (auth_context cx now vt settings)) (\<lambda>(site_id, central_url, headers).
     tx_bind (call (get_central_events client central_url headers)) (\<lambda>outbound.
     receive_pulled cx now client site_id central_url headers (osr_events outbound)))"

section \<open>One round\<close>

definition synchronize_once ::
  "codec \<Rightarrow> datetime \<Rightarrow> vault \<Rightarrow> (uuid \<Rightarrow> bool) \<Rightarrow> 'w central_client \<Rightarrow> site_settings \<Rightarrow> string \<Rightarrow> string \<Rightarrow> string
   \<Rightarrow> ('w, unit) round" where
  "synchronize_once cx now vt lk client settings hostname claim_secret worker_id =
     tx_then (enrollment_step cx now vt client settings hostname claim_secret)
       (tx_then (enqueue_due_heartbeat cx now settings hostname)
         (tx_try
           (tx_then (deliver_site_events cx now vt lk client settings worker_id)
             (pull_central_events cx now vt client settings))
           (\<lambda>r. case r of
              Inr u \<Rightarrow> tx_return ()
            | Inl (DeliveryFailure code detail retryable) \<Rightarrow>
                if code = ''not_registered'' then tx_return () else tx_raise (DeliveryFailure code detail retryable)
            | Inl (TransportError text) \<Rightarrow>
                tx_then (begin_session
                    (tx_bind (bootstrap_identity cx now settings) (\<lambda>site.
                     change_registration (sst_site_id site) (\<lambda>r. r\<lparr>scg_last_error := Some (take 2048 text)\<rparr>))))
                  (tx_raise (TransportError text))
            | Inl e \<Rightarrow> tx_raise e)))"

section \<open>What a pull acknowledges\<close>

lemma begin_session_Inr:
  "begin_session m s = (Inr x, s') \<longleftrightarrow> (\<exists>db. m (lk_db s) = (Inr x, db) \<and> s' = s\<lparr>lk_db := db\<rparr>)"
  by (auto simp: begin_session_def tx_commit_def split: prod.splits sum.splits)

lemma begin_session_world [simp]: "begin_session m s = (r, s') \<Longrightarrow> lk_world s' = lk_world s"
  by (auto simp: begin_session_def split: prod.splits sum.splits)

lemma begin_session_Inl: "begin_session m s = (Inl e, s') \<Longrightarrow> s' = s"
  by (auto simp: begin_session_def split: prod.splits sum.splits)

lemma pulled_accepted:
  assumes "tx_map (apply_central_event cx now) events db = (Inr acks, db')" "filter (\<lambda>a. \<not> ack_accepted a) acks = []"
  shows "env_event_id ` set events \<subseteq> fst ` set (site_receipt_log db')
    \<and> fst ` set (site_receipt_log db) \<subseteq> fst ` set (site_receipt_log db') \<and> (events \<noteq> [] \<longrightarrow> site_cursor db' \<noteq> None)"
  using assms
proof (induction events arbitrary: db acks)
  case (Cons e events)
  then obtain ack db1 acks' where one: "apply_central_event cx now e db = (Inr ack, db1)"
    and rest: "tx_map (apply_central_event cx now) events db1 = (Inr acks', db')" and acks: "acks = ack # acks'"
    by (auto simp: tx_bind_eq_Inr)
  have ok: "ack_accepted ack" "filter (\<lambda>a. \<not> ack_accepted a) acks' = []"
    using Cons.prems(2) by (auto simp: acks split: if_split_asm)
  note IH = Cons.IH [OF rest ok(2)] and acc = apply_central_event_accepted [OF one ok(1), THEN conjunct1]
    apply_central_event_accepted [OF one ok(1), THEN conjunct2]
  have grows: "fst ` set (site_receipt_log db) \<subseteq> fst ` set (site_receipt_log db1)"
    using apply_central_event_cases [of cx now e db ack db1] one by (cases "fresh_accept ack") (auto simp: tx_commit_Inr)
  have "db1 = db'" if "events = []" using rest that by simp
  then have "site_cursor db' \<noteq> None" using IH acc(2) by (cases "events = []") simp_all
  moreover have "fst ` set (site_receipt_log db) \<subseteq> fst ` set (site_receipt_log db')"
    by (rule subset_trans [OF grows IH [THEN conjunct2, THEN conjunct1]])
  moreover have "env_event_id e \<in> fst ` set (site_receipt_log db')"
    by (rule subsetD [OF IH [THEN conjunct2, THEN conjunct1] acc(1)])
  ultimately show ?case using IH by simp
qed simp

lemma apply_pulled_durable:
  assumes "apply_pulled cx now events db = (Inr checkpoint, db')" "events \<noteq> []"
  shows "env_event_id ` set events \<subseteq> src_event_id ` set (sd_receipts db')" "checkpoint = durable_sequence db'"
proof -
  obtain acks where acks: "tx_map (apply_central_event cx now) events db = (Inr acks, db')"
    "filter (\<lambda>a. \<not> ack_accepted a) acks = []"
    and c: "checkpoint = (case site_cursor db' of None \<Rightarrow> 0 | Some c \<Rightarrow> scu_last_sequence c)"
  proof -
    obtain acks db1 where m: "tx_map (apply_central_event cx now) events db = (Inr acks, db1)"
      and r: "(case filter (\<lambda>a. \<not> ack_accepted a) acks of
          a # _ \<Rightarrow> tx_raise (DeliveryFailure (default_to ''apply_failed'' (given (ack_error_code a)))
                     (default_to ''Central event rejected'' (given (ack_detail a))) False)
        | [] \<Rightarrow> tx_read (\<lambda>db. case site_cursor db of None \<Rightarrow> 0 | Some c \<Rightarrow> scu_last_sequence c)) db1 = (Inr checkpoint, db')"
      using assms(1) by (auto simp: apply_pulled_def tx_bind_eq_Inr)
    show thesis using m r by (cases "filter (\<lambda>a. \<not> ack_accepted a) acks") (auto intro: that)
  qed
  from pulled_accepted [OF acks] assms(2)
  have "env_event_id ` set events \<subseteq> fst ` set (site_receipt_log db')" "site_cursor db' \<noteq> None" by simp_all
  then show "env_event_id ` set events \<subseteq> src_event_id ` set (sd_receipts db')" "checkpoint = durable_sequence db'"
    by (auto simp: c durable_sequence_def site_receipt_log_def image_iff subset_eq)
qed

text \<open>The requests that reach Central, next to whatever the client does.\<close>

definition logging :: "'w central_client \<Rightarrow> (event_ack_request list \<times> 'w) central_client" where
  "logging client =
     \<lparr>post_enrollment = (\<lambda>url r (l, w). map_prod id (Pair l) (post_enrollment client url r w)),
      get_enrollment_status = (\<lambda>url i t (l, w). map_prod id (Pair l) (get_enrollment_status client url i t w)),
      post_site_events = (\<lambda>url h r (l, w). map_prod id (Pair l) (post_site_events client url h r w)),
      get_central_events = (\<lambda>url h (l, w). map_prod id (Pair l) (get_central_events client url h w)),
      post_central_ack = (\<lambda>url h r (l, w). map_prod id (Pair (l @ [r])) (post_central_ack client url h r w))\<rparr>"

lemma logging_get: "call (get_central_events (logging client) url h) s = (r, s') \<Longrightarrow>
    fst (lk_world s') = fst (lk_world s) \<and> lk_db s' = lk_db s"
  by (auto simp: call_def logging_def map_prod_def split: prod.splits)

lemma logging_ack: "call (post_central_ack (logging client) url h req) s = (r, s') \<Longrightarrow>
    fst (lk_world s') = fst (lk_world s) @ [req] \<and> lk_db s' = lk_db s"
  by (auto simp: call_def logging_def map_prod_def split: prod.splits)

lemma registration_keeps_channel: "begin_session (change_registration site_id f) s = (r, s') \<Longrightarrow> channel_kept (lk_db s) (lk_db s')"
  by (auto simp: begin_session_def change_registration_def registration_of_def channel_kept_def tx_commit_def tx_then_def
      tx_bind_def split: prod.splits sum.splits option.splits if_split_asm)

lemma acknowledge_pulled_log:
  assumes "acknowledge_pulled now (logging client) site_id url h request s = (r, s')"
  shows "channel_kept (lk_db s) (lk_db s')"
    "fst (lk_world s') = fst (lk_world s) \<or> fst (lk_world s') = fst (lk_world s) @ [request]"
proof -
  obtain a s1 where s1: "call (post_central_ack (logging client) url h request) s = (a, s1)" by fastforce
  note log = logging_ack [OF s1]
  obtain b s2 where s2: "begin_session (change_registration site_id (synchronized now)) s1 = (b, s2)" by fastforce
  have "s' = s \<or> s' = s1 \<or> s' = s2"
    using assms s1 s2 by (auto simp: acknowledge_pulled_def tx_then_def tx_bind_def require_def split: if_split_asm sum.splits)
  then show "channel_kept (lk_db s) (lk_db s')"
    "fst (lk_world s') = fst (lk_world s) \<or> fst (lk_world s') = fst (lk_world s) @ [request]"
    using log registration_keeps_channel [OF s2] begin_session_world [OF s2] channel.refl [of "lk_db s"] by auto
qed

lemma receive_pulled_log:
  assumes "receive_pulled cx now (logging client) site_id url h events s = (r, s')"
  shows "fst (lk_world s') = fst (lk_world s)
    \<or> (\<exists>request. fst (lk_world s') = fst (lk_world s) @ [request]
        \<and> set (ear_event_ids request) \<subseteq> src_event_id ` set (sd_receipts (lk_db s'))
        \<and> ear_checkpoint_sequence request = durable_sequence (lk_db s'))"
proof -
  obtain a s1 where s1: "begin_session (apply_pulled cx now events) s = (a, s1)" by fastforce
  note w = begin_session_world [OF s1]
  show ?thesis
  proof (cases "events = [] \<or> isl a")
    case True
    with assms s1 w show ?thesis
      by (cases a) (auto simp: receive_pulled_def tx_bind_def split: if_split_asm)
  next
    case False
    then obtain checkpoint where a: "a = Inr checkpoint" and ne: "events \<noteq> []" by (cases a) auto
    have rest: "acknowledge_pulled now (logging client) site_id url h (ack_request events checkpoint) s1 = (r, s')"
      using assms s1 a ne by (simp add: receive_pulled_def tx_bind_def)
    have "apply_pulled cx now events (lk_db s) = (Inr checkpoint, lk_db s1)"
      using s1 a by (auto simp: begin_session_Inr)
    from apply_pulled_durable [OF this ne] acknowledge_pulled_log(1) [OF rest]
    have "set (ear_event_ids (ack_request events checkpoint)) \<subseteq> src_event_id ` set (sd_receipts (lk_db s'))"
      "ear_checkpoint_sequence (ack_request events checkpoint) = durable_sequence (lk_db s')"
      by (simp_all add: ack_request_def channel_kept_reads) (simp add: channel_kept_def)
    with acknowledge_pulled_log(2) [OF rest] w show ?thesis by metis
  qed
qed

lemma pull_log:
  assumes "pull_central_events cx now vt (logging client) settings s = (r, s')"
  shows "fst (lk_world s') = fst (lk_world s)
    \<or> (\<exists>request. fst (lk_world s') = fst (lk_world s) @ [request]
        \<and> set (ear_event_ids request) \<subseteq> src_event_id ` set (sd_receipts (lk_db s'))
        \<and> ear_checkpoint_sequence request = durable_sequence (lk_db s'))"
proof -
  obtain a s1 where s1: "begin_session (auth_context cx now vt settings) s = (a, s1)" by fastforce
  show ?thesis
  proof (cases a)
    case (Inl e)
    with assms s1 show ?thesis by (auto simp: pull_central_events_def tx_bind_def)
  next
    case (Inr ctx)
    obtain site_id url headers where ctx: "ctx = (site_id, url, headers)" by (cases ctx)
    obtain b s2 where s2: "call (get_central_events (logging client) url headers) s1 = (b, s2)" by fastforce
    have w: "fst (lk_world s2) = fst (lk_world s)" using logging_get [OF s2] begin_session_world [OF s1] by simp
    show ?thesis
    proof (cases b)
      case (Inl e)
      with assms s1 s2 Inr ctx w show ?thesis by (simp add: pull_central_events_def tx_bind_def)
    next
      case b: (Inr outbound)
      with assms s1 s2 Inr ctx have "receive_pulled cx now (logging client) site_id url headers (osr_events outbound) s2 = (r, s')"
        by (simp add: pull_central_events_def tx_bind_def)
      from receive_pulled_log [OF this] show ?thesis unfolding w .
    qed
  qed
qed

text \<open>
  C33: Whatever Central answers, one pull sends at most one acknowledgement, and every event it names has a
  receipt in the database as the pull leaves it, whose cursor is the acknowledged checkpoint. So Central never
  drops an event the Site has not durably received.
\<close>

theorem pull_acknowledges_durable_events:
  "case pull_central_events cx now vt (logging client) settings s of (r, s') \<Rightarrow>
     fst (lk_world s') = fst (lk_world s)
     \<or> (\<exists>request. fst (lk_world s') = fst (lk_world s) @ [request]
         \<and> set (ear_event_ids request) \<subseteq> src_event_id ` set (sd_receipts (lk_db s'))
         \<and> ear_checkpoint_sequence request = durable_sequence (lk_db s'))"
  using pull_log by (cases "pull_central_events cx now vt (logging client) settings s") simp

section \<open>What a delivery marks as sent\<close>

definition sent_ids :: "site_db \<Rightarrow> uuid set" where
  "sent_ids db = o_id ` {e \<in> set (q_outbox (sd_queue db)). o_status e = Job_SUCCEEDED}"

text \<open>Rows stay, and only those in \<open>A\<close> may have become sent.\<close>

definition sent_within :: "uuid set \<Rightarrow> site_db \<Rightarrow> site_db \<Rightarrow> bool" where
  "sent_within A db db' \<longleftrightarrow> sent_ids db' \<subseteq> sent_ids db \<union> A
     \<and> map o_id (q_outbox (sd_queue db')) = map o_id (q_outbox (sd_queue db))"

interpretation delivery: tx_relation "sent_within A" for A
  by standard (auto simp: sent_within_def)

lemma same_outbox_sent: "q_outbox (sd_queue db') = q_outbox (sd_queue db) \<Longrightarrow> sent_within A db db'"
  by (simp add: sent_within_def sent_ids_def)

lemma sent_within_mono: "sent_within A db db' \<Longrightarrow> A \<subseteq> B \<Longrightarrow> sent_within B db db'"
  by (auto simp: sent_within_def)

lemma put_outbox_sent:
  assumes "o_id e = i" "o_status e = Job_SUCCEEDED \<longrightarrow> i \<in> A"
  shows "tx_keeps (sent_within A) (put_outbox i e)"
  unfolding put_outbox_def
proof (rule delivery.keeps_write)
  fix db :: site_db
  let ?rows = "q_outbox (sd_queue db)"
  have "map o_id (row_put o_id i (\<lambda>_. e) ?rows) = map o_id ?rows" using assms(1) by (auto simp: row_put_def)
  moreover have "o_id ` {r \<in> set (row_put o_id i (\<lambda>_. e) ?rows). o_status r = Job_SUCCEEDED}
      \<subseteq> o_id ` {r \<in> set ?rows. o_status r = Job_SUCCEEDED} \<union> A"
    using assms by (auto simp: row_put_def split: if_split_asm)
  ultimately show "sent_within A db (db\<lparr>sd_queue := (sd_queue db)\<lparr>q_outbox := row_put o_id i (\<lambda>_. e) ?rows\<rparr>\<rparr>)"
    by (simp add: sent_within_def sent_ids_def)
qed

lemma registration_sent: "tx_keeps (sent_within A) (registration_of i)" "tx_keeps (sent_within A) (change_registration i f)"
  unfolding registration_of_def change_registration_def
  by (intro delivery.keeps_rules; simp add: same_outbox_sent)+

lemma auth_sent: "tx_keeps (sent_within A) (auth_context cx now vt settings)"
  unfolding auth_context_def bootstrap_identity_def create_identity_def ensure_registration_def Let_def
  by (intro delivery.keeps_rules registration_sent delivery.keepsI;
      simp add: same_outbox_sent site_new_id_def site_minted_def)

lemma claim_batch_sent: "tx_keeps (sent_within A) (claim_batch n lk worker_id lease now)"
proof (induction n)
  case (Suc n)
  let ?claim = "\<lambda>db :: site_db. case site_claim_outbox True lk worker_id lease now (q_outbox (sd_queue db)) of
      (event, rows) \<Rightarrow> (Inr event :: outbox_event option outcome, db\<lparr>sd_queue := (sd_queue db)\<lparr>q_outbox := rows\<rparr>\<rparr>)"
  have "tx_keeps (sent_within A) ?claim"
  proof (rule delivery.keepsI)
    fix db :: site_db
    let ?take = "\<lambda>e. e\<lparr>o_status := Job_RUNNING, o_claimed_by := Some worker_id, o_lease_expires_at := Some (now + lease),
        o_heartbeat_at := Some now, o_attempt_count := o_attempt_count e + 1\<rparr>"
    have put: "sent_within A db (db\<lparr>sd_queue := (sd_queue db)\<lparr>q_outbox := row_put o_id i ?take (q_outbox (sd_queue db))\<rparr>\<rparr>)" for i
      by (auto simp: sent_within_def sent_ids_def row_put_def)
    show "sent_within A db (snd (?claim db))"
      using put by (auto simp: site_claim_outbox_def Let_def same_outbox_sent split: option.split)
  qed
  with Suc show ?case unfolding claim_batch.simps by (intro delivery.keeps_rules)
qed (simp only: claim_batch.simps, rule delivery.keeps_return)

lemma fail_outbox_not_sent:
  "site_fail_outbox e worker_id code message retryable base now = Inr e' \<Longrightarrow> o_id e' = o_id e \<and> o_status e' \<noteq> Job_SUCCEEDED"
  by (auto simp: site_fail_outbox_def Let_def outcome_bind_Inr_conv split: if_split_asm)

lemma ack_for_mem: "ack_for acks i = Some a \<Longrightarrow> a \<in> set acks \<and> ack_event_id a = i"
  unfolding ack_for_def by (drule find_SomeD) simp

lemma settle_event_sent:
  assumes "settle_event worker_id base now acks e = Inr e'"
  shows "o_id e' = o_id e"
    "o_status e' = Job_SUCCEEDED \<Longrightarrow> \<exists>a \<in> set acks. ack_event_id a = o_id e \<and> ack_accepted a"
proof -
  have fail: "fail_event worker_id base now code message retryable e = Inr e' \<Longrightarrow>
      o_id e' = o_id e \<and> o_status e' \<noteq> Job_SUCCEEDED" for code message retryable
    by (cases code) (auto simp: fail_event_def outcome_bind_Inr_conv dest: fail_outbox_not_sent)
  consider (failed) "o_id e' = o_id e" "o_status e' \<noteq> Job_SUCCEEDED"
    | (sent) a where "ack_for acks (o_id e) = Some a" "ack_accepted a" "o_id e' = o_id e"
    using assms fail by (cases "ack_for acks (o_id e)")
      (auto simp: settle_event_def site_process_outbox_def outcome_bind_Inr_conv split: if_split_asm)
  then show "o_id e' = o_id e"
    "o_status e' = Job_SUCCEEDED \<Longrightarrow> \<exists>a \<in> set acks. ack_event_id a = o_id e \<and> ack_accepted a"
    by (cases; blast dest: ack_for_mem)+
qed

lemma keeps_outbox_of:
  assumes "tx_keeps R (k None)" "\<And>e. o_id e = i \<Longrightarrow> tx_keeps R (k (Some e))"
  shows "tx_keeps R (tx_bind (outbox_of i) k)"
  unfolding tx_keeps_def
proof
  fix db
  show "R db (snd (tx_bind (outbox_of i) k db))"
    using assms unfolding tx_keeps_def
    by (cases "row_get o_id (q_outbox (sd_queue db)) i") (auto simp: outbox_of_def tx_bind_def dest: row_get_SomeD)
qed

lemma keeps_lift_bind: "(\<And>x. r = Inr x \<Longrightarrow> tx_keeps (sent_within A) (k x)) \<Longrightarrow> tx_keeps (sent_within A) (tx_bind (tx_lift r) k)"
  by (cases r) (auto simp: tx_keeps_def tx_bind_def delivery.refl)

lemma settle_sent:
  assumes "\<And>a. a \<in> set acks \<Longrightarrow> ack_accepted a \<Longrightarrow> ack_event_id a \<in> A"
  shows "tx_keeps (sent_within A) (settle_batch worker_id base now site_id acks claimed)"
  unfolding settle_batch_def settle_claimed_def
proof (intro delivery.keeps_then delivery.keeps_for registration_sent keeps_outbox_of)
  show "tx_keeps (sent_within A) (case Some e of None \<Rightarrow> tx_raise (AttributeError ''status'')
      | Some e \<Rightarrow> tx_bind (tx_lift (settle_event worker_id base now acks e)) (\<lambda>e'. tx_then (put_outbox i e')
          (if accepted_heartbeat acks e then change_registration site_id (\<lambda>r. r\<lparr>scg_last_heartbeat_at := Some now\<rparr>)
           else tx_return ())))" if "o_id e = i" for e i
    using assms that settle_event_sent [of worker_id base now acks e]
    by (auto intro!: keeps_lift_bind delivery.keeps_rules put_outbox_sent registration_sent) metis+
qed (simp add: delivery.keeps_raise)

lemma fail_claimed_sent: "tx_keeps (sent_within A) (fail_claimed worker_id base now code detail retryable i)"
  unfolding fail_claimed_def
proof (rule keeps_outbox_of)
  show "tx_keeps (sent_within A) (case Some e of None \<Rightarrow> tx_return ()
      | Some e \<Rightarrow> if o_status e \<noteq> Job_RUNNING then tx_return ()
          else tx_bind (tx_lift (site_fail_outbox e worker_id code detail retryable base now)) (put_outbox i))"
    if "o_id e = i" for e
    using that fail_outbox_not_sent [of e worker_id code detail retryable base now]
    by (auto intro!: keeps_lift_bind delivery.keeps_if delivery.keeps_return put_outbox_sent)
qed (simp add: delivery.keeps_return)

lemma fail_batch_sent: "tx_keeps (sent_within A) (fail_batch worker_id base now site_id claimed failure)"
  unfolding fail_batch_def
  by (intro delivery.keeps_case_prod delivery.keeps_then delivery.keeps_for registration_sent fail_claimed_sent)

text \<open>The acknowledgements Central returned, next to whatever the client does.\<close>

definition listening :: "'w central_client \<Rightarrow> (event_acknowledgement list \<times> 'w) central_client" where
  "listening client =
     \<lparr>post_enrollment = (\<lambda>url r (l, w). map_prod id (Pair l) (post_enrollment client url r w)),
      get_enrollment_status = (\<lambda>url i t (l, w). map_prod id (Pair l) (get_enrollment_status client url i t w)),
      post_site_events = (\<lambda>url h r (l, w). case post_site_events client url h r w of
          (reply, w') \<Rightarrow> (reply, (case checked reply of Inl e \<Rightarrow> l | Inr result \<Rightarrow> l @ sbr_acknowledgements result, w'))),
      get_central_events = (\<lambda>url h (l, w). map_prod id (Pair l) (get_central_events client url h w)),
      post_central_ack = (\<lambda>url h r (l, w). map_prod id (Pair l) (post_central_ack client url h r w))\<rparr>"

lemma listening_post:
  assumes "call (post_site_events (listening client) url h request) s = (r, s')"
  shows "lk_db s' = lk_db s"
    "fst (lk_world s') = fst (lk_world s) @ (case r of Inl e \<Rightarrow> [] | Inr result \<Rightarrow> sbr_acknowledgements result)"
  using assms by (auto simp: call_def listening_def split: prod.splits sum.splits)

lemma begin_session_keeps:
  assumes "begin_session m s = (r, s')" "tx_keeps (sent_within A) m"
  shows "sent_within A (lk_db s) (lk_db s')"
  using assms delivery.keeps_commit [of A m "lk_db s"]
  by (auto simp: begin_session_def delivery.refl split: sum.splits prod.splits)

definition accepted_ids :: "event_acknowledgement list \<Rightarrow> uuid set" where
  "accepted_ids acks = ack_event_id ` {a \<in> set acks. ack_accepted a}"

definition delivered :: "(event_acknowledgement list \<times> 'w) link \<Rightarrow> (event_acknowledgement list \<times> 'w) link \<Rightarrow> bool" where
  "delivered s s' \<longleftrightarrow> (\<exists>new. fst (lk_world s') = fst (lk_world s) @ new
     \<and> sent_within (accepted_ids new) (lk_db s) (lk_db s'))"

interpretation deliveries: tx_relation delivered
proof
  show "delivered s s" for s by (auto simp: delivered_def delivery.refl)
next
  fix s t u :: "(event_acknowledgement list \<times> 'w) link"
  assume "delivered s t" "delivered t u"
  then obtain new1 new2 where w: "fst (lk_world t) = fst (lk_world s) @ new1" "fst (lk_world u) = fst (lk_world t) @ new2"
    and k: "sent_within (accepted_ids new1) (lk_db s) (lk_db t)" "sent_within (accepted_ids new2) (lk_db t) (lk_db u)"
    by (auto simp: delivered_def)
  have "accepted_ids new1 \<subseteq> accepted_ids (new1 @ new2)" "accepted_ids new2 \<subseteq> accepted_ids (new1 @ new2)"
    by (auto simp: accepted_ids_def)
  then have "sent_within (accepted_ids (new1 @ new2)) (lk_db s) (lk_db u)"
    using k by (blast intro: delivery.trans sent_within_mono)
  with w show "delivered s u" by (auto simp: delivered_def)
qed

lemma session_delivered: "tx_keeps (sent_within {}) m \<Longrightarrow> tx_keeps delivered (begin_session m)"
proof (rule deliveries.keepsI)
  fix s :: "(event_acknowledgement list \<times> 'w) link"
  assume m: "tx_keeps (sent_within {}) m"
  obtain r s' where run: "begin_session m s = (r, s')" by fastforce
  from begin_session_keeps [OF run m] begin_session_world [OF run]
  show "delivered s (snd (begin_session m s))"
    by (auto simp: run delivered_def intro: sent_within_mono)
qed

lemma batch_of_sent: "tx_keeps (sent_within A) (batch_of claimed)"
  unfolding batch_of_def outbox_of_def Let_def by (intro delivery.keeps_rules)

lemma post_batch_delivered:
  "tx_keeps delivered (post_batch now (listening client) settings worker_id site_id central_url headers claimed)"
  unfolding post_batch_def
proof (rule deliveries.keeps_bind [OF session_delivered [OF batch_of_sent]], rule deliveries.keepsI)
  fix request s
  let ?settle = "\<lambda>result. begin_session (settle_batch worker_id (set_worker_retry_base_seconds settings) now site_id
      (sbr_acknowledgements result) claimed)"
  obtain r s1 where post: "call (post_site_events (listening client) central_url headers request) s = (r, s1)" by fastforce
  note log = listening_post [OF post]
  show "delivered s (snd (tx_bind (call (post_site_events (listening client) central_url headers request)) ?settle s))"
  proof (cases r)
    case (Inl e)
    with post log show ?thesis by (auto simp: tx_bind_def delivered_def delivery.refl)
  next
    case (Inr result)
    obtain r2 s2 where settle: "?settle result s1 = (r2, s2)" by fastforce
    have "tx_keeps (sent_within (accepted_ids (sbr_acknowledgements result)))
        (settle_batch worker_id (set_worker_retry_base_seconds settings) now site_id (sbr_acknowledgements result) claimed)"
      by (rule settle_sent) (auto simp: accepted_ids_def)
    from begin_session_keeps [OF settle this] begin_session_world [OF settle] post log Inr settle show ?thesis
      by (auto simp: tx_bind_def delivered_def)
  qed
qed

text \<open>
  C34: Whatever Central answers and wherever a delivery breaks off, it loses no event of the outbox, and marks
  an event as sent only if an acknowledgement that Central returned in this delivery accepts it.
\<close>

theorem delivery_marks_only_accepted_events:
  "case deliver_site_events cx now vt lk (listening client) settings worker_id s of (r, s') \<Rightarrow>
     \<exists>new. fst (lk_world s') = fst (lk_world s) @ new
       \<and> map o_id (q_outbox (sd_queue (lk_db s'))) = map o_id (q_outbox (sd_queue (lk_db s)))
       \<and> sent_ids (lk_db s') \<subseteq> sent_ids (lk_db s) \<union> accepted_ids new"
proof -
  have claim: "tx_keeps (sent_within {}) (claim_for_delivery cx now vt lk settings worker_id)"
    unfolding claim_for_delivery_def by (intro delivery.keeps_rules auth_sent claim_batch_sent)
  have "tx_keeps delivered (deliver_site_events cx now vt lk (listening client) settings worker_id)"
    unfolding deliver_site_events_def
    by (intro deliveries.keeps_rules session_delivered claim post_batch_delivered fail_batch_sent)
  then have "delivered s (snd (deliver_site_events cx now vt lk (listening client) settings worker_id s))"
    by (rule deliveries.keepsD)
  then show ?thesis
    by (cases "deliver_site_events cx now vt lk (listening client) settings worker_id s")
      (auto simp: delivered_def sent_within_def)
qed

end
