(* ===== verification/Site_Users.thy ===== *)
theory Site_Users
  imports Site_Deployments
begin

text \<open>
  The users a snapshot carries: what \<open>_upsert_snapshot\<close> does to a user the Site does not
  know yet, and to one whose share access is withdrawn.
\<close>

section \<open>Known users\<close>

definition known_users :: "site_db \<Rightarrow> uuid option set" where
  "known_users db = sus_central_user_id ` set (sd_users db)"

lemma update_first_ids: "(\<And>u. sus_central_user_id (f u) = sus_central_user_id u) \<Longrightarrow>
    sus_central_user_id ` set (update_first P f us) = sus_central_user_id ` set us"
  by (induction us) auto

text \<open>Only \<open>upsert_user\<close> adds rows.\<close>

definition users_kept :: "site_db \<Rightarrow> site_db \<Rightarrow> bool" where
  "users_kept db db' \<longleftrightarrow> known_users db' = known_users db"

interpretation users: tx_relation users_kept
  by standard (simp_all add: users_kept_def)

lemma users_primitives:
  "tx_keeps users_kept site_flush" "tx_keeps users_kept (site_schedule cx now v)"
  by (auto intro!: users.keepsI simp: users_kept_def known_users_def site_flush_def site_minted_def site_schedule_def
      split: sum.splits)

lemma users_change:
  assumes "\<And>u. sus_central_user_id (f u) = sus_central_user_id u"
  shows "tx_keeps users_kept (change_user P f)"
  unfolding change_user_def
  by (intro users.keeps_rules) (simp add: users_kept_def known_users_def update_first_ids assms)

lemma users_stages:
  "tx_keeps users_kept (upsert_event now snap)" "tx_keeps users_kept (withdraw_missing_users cx now snap)"
  unfolding upsert_event_def withdraw_missing_users_def withdraw_user_def
  by (intro users.keeps_rules users_primitives users_change; simp add: users_kept_def known_users_def)+

lemma find_known: "find (\<lambda>u. sus_central_user_id u = Some i) us = None \<longleftrightarrow> Some i \<notin> sus_central_user_id ` set us"
  unfolding find_None_iff image_iff by metis

lemma upsert_user_known:
  assumes "upsert_user cx now snap item db = (Inr x, db')"
  shows "Some (snus_user_id item) \<in> known_users db" "known_users db' = known_users db"
proof -
  obtain u where u: "find (\<lambda>u. sus_central_user_id u = Some (snus_user_id item)) (sd_users db) = Some u"
    using assms by (cases "find (\<lambda>u. sus_central_user_id u = Some (snus_user_id item)) (sd_users db)")
      (auto simp: upsert_user_def tx_bind_def tx_then_def site_new_id_def)
  then show "Some (snus_user_id item) \<in> known_users db"
    using find_known [of "snus_user_id item" "sd_users db"] by (simp add: known_users_def)
  have "tx_keeps users_kept (change_user P (project_user collision item))" for P collision
    by (rule users_change) (simp add: project_user_def)
  then have "\<And>collision. tx_keeps users_kept
      (if snus_central_revision item < sus_revision u then tx_return ()
       else let u' = project_user collision item u in
         tx_then (change_user (\<lambda>r. sus_central_user_id r = Some (snus_user_id item)) (project_user collision item))
           (if \<not> sus_active u' \<or> \<not> sus_smb_enabled u'
            then tx_then (site_schedule cx now (revoke_job (snap_site_id snap) (sus_username u')
                    (revoke_key (sus_user_id u) (snus_central_revision item)))) (tx_return ())
            else tx_return ()))"
    unfolding Let_def by (intro users.keeps_rules users_primitives)
  from users.keeps_run [OF this] show "known_users db' = known_users db"
    using assms u by (simp add: upsert_user_def tx_bind_def users_kept_def)
qed

lemma upsert_users_known:
  "tx_for (upsert_user cx now snap) items db = (Inr x, db') \<Longrightarrow>
     (\<forall>item \<in> set items. Some (snus_user_id item) \<in> known_users db) \<and> known_users db' = known_users db"
proof (induction items arbitrary: db)
  case (Cons item items)
  then obtain y db1 where one: "upsert_user cx now snap item db = (Inr y, db1)"
    and rest: "tx_for (upsert_user cx now snap) items db1 = (Inr x, db')"
    by (auto simp: tx_then_eq_Inr)
  from upsert_user_known [OF one] Cons.IH [OF rest] show ?case by simp
qed simp

lemma upsert_snapshot_users:
  assumes "upsert_snapshot cx now snap db = (Inr counts, db')" "item \<in> set (snap_users snap)"
  shows "Some (snus_user_id item) \<in> known_users db"
proof -
  obtain u1 db1 u2 db2 u3 db3 where
    s1: "upsert_event now snap db = (Inr u1, db1)" and s2: "withdraw_missing_users cx now snap db1 = (Inr u2, db2)"
    and s3: "tx_for (upsert_user cx now snap) (snap_users snap) db2 = (Inr u3, db3)"
    using assms(1) by (auto simp: upsert_snapshot_def tx_then_eq_Inr tx_bind_eq_Inr)
  from users.keeps_run [OF users_stages(1) s1] users.keeps_run [OF users_stages(2) s2] upsert_users_known [OF s3] assms(2)
  show ?thesis by (simp add: users_kept_def)
qed

text \<open>
  C29: A deployment snapshot that carries a user the Site has no row for is not applied, whatever else is in it:
  the comparison with the unset revision of the new row raises. The row added by then stays, so it takes one failed
  publication per new user before a snapshot with them can be applied.
\<close>

theorem new_user_fails_snapshot:
  assumes "validate_snapshot cx (env_payload event) = Inr snap" "item \<in> set (snap_users snap)"
    and "Some (snus_user_id item) \<notin> known_users db"
    and "\<forall>d. row_get sed_deployment_id (sd_deployments db) (snap_deployment_id snap) = Some d \<longrightarrow>
           sed_applied_revision d < snap_deployment_revision snap"
  shows "isl (fst (apply_snapshot_event cx now event db))"
proof (rule ccontr)
  assume "\<not> isl (fst (apply_snapshot_event cx now event db))"
  then obtain st db' where run: "apply_snapshot_event cx now event db = (Inr st, db')"
    using succeeds by blast
  obtain counts db1 where "upsert_snapshot cx now snap db = (Inr counts, db1)"
    using apply_snapshot_new [OF run assms(1)] assms(4) by blast
  from upsert_snapshot_users [OF this assms(2)] assms(3) show False by contradiction
qed

definition demo_user_item :: site_user_snapshot where
  "demo_user_item = \<lparr>snus_user_id = 60, snus_username = ''ada'', snus_display_name = ''Ada'', snus_email = None,
     snus_enabled = True, snus_web_access = True, snus_role = ''operator'', snus_permissions = [],
     snus_smb_enabled = False, snus_password_verifier = ''v'', snus_central_revision = 2\<rparr>"

theorem new_user_fails_snapshot_witness:
  "isl (fst (apply_snapshot_event (snapshot_codec ((demo_snapshot 1)\<lparr>snap_users := [demo_user_item]\<rparr>)) 50
     (demo_central_envelope ''central.event_deployment.requested'' 40 1) demo_site_db))"
proof (rule new_user_fails_snapshot)
  let ?snap = "(demo_snapshot 1)\<lparr>snap_users := [demo_user_item]\<rparr>"
  show "validate_snapshot (snapshot_codec ?snap) (env_payload
      (demo_central_envelope ''central.event_deployment.requested'' 40 1)) = Inr ?snap" by code_simp
  show "demo_user_item \<in> set (snap_users ?snap)" by simp
qed (simp_all add: known_users_def demo_site_db_def empty_site_db_def)

section \<open>Withdrawn share access\<close>

definition revoke_keys :: "site_db \<Rightarrow> string option set" where
  "revoke_keys db = j_idempotency_key ` {j \<in> set (q_processing (sd_queue db)). j_type j = ''smb.user.revoke''}"

lemma schedule_revoke_records:
  assumes "site_schedule cx now (revoke_job site_id name key) db = (Inr job, db')"
  shows "Some key \<in> revoke_keys db'" "sd_users db' = sd_users db"
  using assms
  by (auto simp: site_schedule_def site_enqueue_processing_def Let_def outcome_bind_Inr_conv insert_job_Inr_iff
      revoke_keys_def new_job_def revoke_job_def site_minted_def image_iff split: sum.splits)

lemma schedule_revoke_repeats:
  assumes "Some key \<in> revoke_keys db"
  shows "isl (fst (site_schedule cx now (revoke_job site_id name key) db))"
proof -
  have "insert_job (new_job i now q (revoke_job site_id name key)) (q_processing (sd_queue db)) \<noteq> Inr rows" for i q rows
    using assms unfolding insert_job_Inr_iff revoke_keys_def by (force simp: new_job_def revoke_job_def)
  then show ?thesis
    by (auto simp: site_schedule_def site_enqueue_processing_def Let_def outcome_bind_Inr_conv split: sum.splits)
qed

lemma find_update_first:
  "find P us = Some u \<Longrightarrow> P (f u) \<Longrightarrow> find P (update_first P f us) = Some (f u)"
  by (induction us) (auto split: if_split_asm)

lemma isl_then: "isl (fst (m s)) \<Longrightarrow> isl (fst (tx_then m k s))"
  by (auto simp: tx_then_def tx_bind_def split: prod.splits sum.splits)

text \<open>
  C30: a snapshot item withdraws share access from a user, by disabling the user or the share access. Once it
  has been applied, no later snapshot that carries the item unchanged can be applied: it schedules the revocation
  again under the same key, which the queue refuses.
\<close>

theorem withdrawn_user_blocks_later_snapshots:
  assumes "upsert_user cx now snap item db = (Inr (), db')"
    and "\<not> snus_enabled item \<or> \<not> snus_smb_enabled item"
    and "find (\<lambda>u. sus_central_user_id u = Some (snus_user_id item)) (sd_users db) = Some u"
      "sus_revision u \<le> snus_central_revision item"
    and "sd_users later = sd_users db'" "revoke_keys db' \<subseteq> revoke_keys later"
  shows "isl (fst (upsert_user cx' now' snap' item later))"
proof -
  let ?mine = "\<lambda>u. sus_central_user_id u = Some (snus_user_id item)"
  let ?revoke = "revoke_job (snap_site_id snap) (snus_username item) (revoke_key (sus_user_id u) (snus_central_revision item))"
  obtain collision job where run: "site_schedule cx now ?revoke
      (db\<lparr>sd_users := update_first ?mine (project_user collision item) (sd_users db)\<rparr>) = (Inr job, db')"
    using assms(1-4)
    by (auto simp: upsert_user_def tx_bind_eq_Inr tx_then_eq_Inr Let_def change_user_def project_user_def split: if_split_asm)
  note key = schedule_revoke_records(1) [OF run]
  have users: "sd_users db' = update_first ?mine (project_user collision item) (sd_users db)"
    using schedule_revoke_records(2) [OF run] by simp
  have "find ?mine (sd_users later) = Some (project_user collision item u)"
    unfolding assms(5) users using assms(3) by (intro find_update_first) (auto simp: find_Some_iff project_user_def)
  moreover have "Some (revoke_key (sus_user_id u) (snus_central_revision item)) \<in> revoke_keys (later\<lparr>sd_users := us\<rparr>)" for us
    using key assms(6) by (auto simp: revoke_keys_def)
  ultimately show ?thesis
    using assms(2)
    by (auto simp: upsert_user_def tx_bind_def [of "tx_read f" for f] Let_def change_user_def project_user_def
        tx_then_def [of "tx_write f" for f] tx_bind_def [of "tx_write f" for f] intro!: isl_then schedule_revoke_repeats)
qed

definition demo_known_user :: site_user where
  "demo_known_user = (default_site_user 0)\<lparr>sus_user_id := 61, sus_central_user_id := Some 60,
     sus_user_type := ''central_managed'', sus_username := ''ada'', sus_normalized_username := ''ada''\<rparr>"

theorem withdrawn_user_blocks_later_snapshots_witness:
  "\<exists>db' :: site_db. upsert_user demo_codec 50 (demo_snapshot 1) demo_user_item (demo_site_db\<lparr>sd_users := [demo_known_user]\<rparr>)
       = (Inr (), db') \<and> isl (fst (upsert_user demo_codec 60 (demo_snapshot 2) demo_user_item db'))"
proof -
  let ?db = "demo_site_db\<lparr>sd_users := [demo_known_user]\<rparr>"
  have "isl (fst (upsert_user demo_codec 50 (demo_snapshot 1) demo_user_item ?db)) = False" by code_simp
  then obtain db' where run: "upsert_user demo_codec 50 (demo_snapshot 1) demo_user_item ?db = (Inr (), db')"
    using succeeds [of "upsert_user demo_codec 50 (demo_snapshot 1) demo_user_item ?db"] by auto
  have "isl (fst (upsert_user demo_codec 60 (demo_snapshot 2) demo_user_item db'))"
  proof (rule withdrawn_user_blocks_later_snapshots [OF run])
    show "find (\<lambda>u. sus_central_user_id u = Some (snus_user_id demo_user_item)) (sd_users ?db) = Some demo_known_user"
      by (simp add: demo_user_item_def demo_known_user_def)
  qed (simp_all add: demo_user_item_def demo_known_user_def default_site_user_def)
  with run show ?thesis by blast
qed

end
