(* ===== verification/Presentation_Matching.thy ===== *)
theory Presentation_Matching
  imports Presentation_Naming "HOL-Library.List_Lexorder" "HOL-Library.Char_ord" "HOL-Library.Multiset"
begin

text \<open>
  Ranking of the presentations an uploaded file may belong to: \<open>match_presentation\<close> of
  \<open>upm_shared/presentation_media.py\<close>. A candidate's score and evidence are the points and
  the texts of the marks it earns, in the order the code tests them. \<open>nfkc\<close> is Python's
  Unicode normalisation.
\<close>

section \<open>Candidates and results\<close>

record match_candidate =
  mc_presentation_id :: uuid
  mc_presentation_identifier :: string
  mc_external_presentation_id :: "string option"
  mc_expected_filename :: "string option"
  mc_title :: "string option"
  mc_presenter_family_name :: "string option"
  mc_presenter_given_name :: "string option"
  mc_session_title :: "string option"
  mc_session_external_id :: "string option"
  mc_room :: "string option"
  mc_starts_at :: "datetime option"

record candidate_view =
  cv_presentation_id :: string
  cv_score :: int
  cv_confidence :: string
  cv_evidence :: "string list"

record match_result =
  mr_state :: media_match_state
  mr_presentation_id :: "uuid option"
  mr_reason :: string
  mr_candidate_ids :: "uuid list"
  mr_candidates :: "candidate_view list"
  mr_confidence :: "string option"
  mr_has_conflict :: bool

type_synonym mark = "int \<times> string"
type_synonym ranked_row = "int \<times> match_candidate \<times> string list"

section \<open>Tokens\<close>

definition match_token :: "(string \<Rightarrow> string) \<Rightarrow> string option \<Rightarrow> string" where
  "match_token nfkc v = filter is_upper_alnum (py_upper (nfkc (or_empty v)))"

definition token_list :: "string \<Rightarrow> string list" where
  "token_list s = remdups (tokens (\<lambda>c. \<not> is_upper_alnum c) s)"

definition match_basename :: "(string \<Rightarrow> string) \<Rightarrow> string \<Rightarrow> string" where
  "match_basename nfkc filename = py_upper (py_strip (nfkc (path_stem (parse_path filename))))"

text \<open>An optional value as an f-string prints it.\<close>

definition show_optional :: "string option \<Rightarrow> string" where
  "show_optional v = (case v of None \<Rightarrow> ''None'' | Some s \<Rightarrow> s)"

section \<open>Marks\<close>

definition identifier_mark ::
  "(string \<Rightarrow> string) \<Rightarrow> string \<Rightarrow> string list \<Rightarrow> string \<times> string option \<Rightarrow> (string \<times> mark) list" where
  "identifier_mark nfkc normalized filename_tokens entry =
     (case entry of (label, val) \<Rightarrow>
      let token = match_token nfkc val;
          raw_value = py_upper (py_strip (nfkc (or_empty val)));
          identifier_match = (token \<in> set filename_tokens
            \<or> (\<not> list_all is_upper_alnum raw_value \<and> contains_sub normalized token))
      in if token \<noteq> [] \<and> identifier_match
         then [(token, 100, label @ '' '' @ show_optional val @ '' matched filename'')] else [])"

definition identifier_marks ::
  "(string \<Rightarrow> string) \<Rightarrow> string \<Rightarrow> string list \<Rightarrow> match_candidate \<Rightarrow> (string \<times> mark) list" where
  "identifier_marks nfkc normalized filename_tokens item =
     concat (map (identifier_mark nfkc normalized filename_tokens)
       [(''Presentation ID'', Some (mc_presentation_identifier item)),
        (''External presentation ID'', mc_external_presentation_id item)])"

definition expected_mark :: "(string \<Rightarrow> string) \<Rightarrow> string \<Rightarrow> match_candidate \<Rightarrow> mark list" where
  "expected_mark nfkc normalized item =
     (if or_empty (mc_expected_filename item) \<noteq> []
         \<and> match_token nfkc (Some (path_stem (parse_path (or_empty (mc_expected_filename item))))) = normalized
      then [(90, ''Expected filename matched'')] else [])"

definition surname_counts ::
  "(string \<Rightarrow> string) \<Rightarrow> string list \<Rightarrow> match_candidate list \<Rightarrow> string \<Rightarrow> nat" where
  "surname_counts nfkc filename_tokens candidates surname =
     length (filter (\<lambda>item. match_token nfkc (mc_presenter_family_name item) = surname
                          \<and> surname \<noteq> [] \<and> surname \<in> set filename_tokens) candidates)"

definition name_mark ::
  "(string \<Rightarrow> string) \<Rightarrow> string list \<Rightarrow> int \<Rightarrow> string \<Rightarrow> string option \<Rightarrow> mark list" where
  "name_mark nfkc filename_tokens points label val =
     (let token = match_token nfkc val
      in if token \<noteq> [] \<and> token \<in> set filename_tokens
         then [(points, label @ '' '' @ show_optional val @ '' matched filename'')] else [])"

definition token_mark ::
  "(string \<Rightarrow> string) \<Rightarrow> string list \<Rightarrow> string \<times> string option \<times> int \<Rightarrow> mark list" where
  "token_mark nfkc filename_tokens entry =
     (case entry of (label, val, points) \<Rightarrow>
      let meaningful = filter (\<lambda>part. 4 \<le> length part) (token_list (py_upper (nfkc (or_empty val))));
          hits = filter (\<lambda>part. part \<in> set filename_tokens) meaningful
      in if hits \<noteq> []
         then [(min (points * int (length hits)) (points * 2),
                label @ '' token matched: '' @ join_with '', '' (sort hits))] else [])"

definition candidate_marks ::
  "(string \<Rightarrow> string) \<Rightarrow> string \<Rightarrow> string list \<Rightarrow> match_candidate list \<Rightarrow> match_candidate \<Rightarrow> mark list" where
  "candidate_marks nfkc normalized filename_tokens candidates item =
     map snd (identifier_marks nfkc normalized filename_tokens item)
     @ expected_mark nfkc normalized item
     @ name_mark nfkc filename_tokens
         (if surname_counts nfkc filename_tokens candidates
               (match_token nfkc (mc_presenter_family_name item)) = 1 then 55 else 35)
         ''Presenter last name'' (mc_presenter_family_name item)
     @ name_mark nfkc filename_tokens 15 ''Presenter first name'' (mc_presenter_given_name item)
     @ name_mark nfkc filename_tokens 45 ''Session ID'' (mc_session_external_id item)
     @ concat (map (token_mark nfkc filename_tokens)
         [(''Presentation title'', mc_title item, 8),
          (''Session title'', mc_session_title item, 8),
          (''Room'', mc_room item, 5)])"

definition mark_score :: "mark list \<Rightarrow> int" where
  "mark_score marks = sum_list (map fst marks)"

section \<open>Ranking and the verdict\<close>

definition rank_key :: "ranked_row \<Rightarrow> int \<times> string" where
  "rank_key row = (- fst row, uuid_str (mc_presentation_id (fst (snd row))))"

definition rank_candidates ::
  "(string \<Rightarrow> string) \<Rightarrow> string \<Rightarrow> string list \<Rightarrow> match_candidate list \<Rightarrow> ranked_row list" where
  "rank_candidates nfkc normalized filename_tokens candidates =
     sort_key rank_key
       (filter (\<lambda>(score, item, evidence). score \<noteq> 0)
         (map (\<lambda>item. let marks = candidate_marks nfkc normalized filename_tokens candidates item
                      in (mark_score marks, item, map snd marks)) candidates))"

definition score_confidence :: "int \<Rightarrow> string" where
  "score_confidence score =
     (if score \<ge> 90 then ''high'' else if score \<ge> 50 then ''medium'' else ''low'')"

definition view_of :: "ranked_row \<Rightarrow> candidate_view" where
  "view_of row = (case row of (score, item, evidence) \<Rightarrow>
     \<lparr>cv_presentation_id = uuid_str (mc_presentation_id item), cv_score = score,
      cv_confidence = score_confidence score, cv_evidence = evidence\<rparr>)"

definition strong_id_candidates ::
  "(string \<Rightarrow> string) \<Rightarrow> string \<Rightarrow> string list \<Rightarrow> match_candidate list \<Rightarrow> uuid set" where
  "strong_id_candidates nfkc normalized filename_tokens candidates =
     set (map mc_presentation_id
       (filter (\<lambda>item. list_ex (\<lambda>(token, m). token \<in> set filename_tokens \<and> list_all is_digit_char token)
                          (identifier_marks nfkc normalized filename_tokens item)) candidates))"

definition surname_candidate_ids :: "ranked_row list \<Rightarrow> uuid set" where
  "surname_candidate_ids ranked =
     set (map (\<lambda>row. mc_presentation_id (fst (snd row)))
       (filter (\<lambda>(score, item, evidence). list_ex (\<lambda>reason. contains_sub reason ''last name'') evidence) ranked))"

definition evidence_conflict :: "uuid set \<Rightarrow> uuid set \<Rightarrow> bool" where
  "evidence_conflict strong surnames \<longleftrightarrow> strong \<noteq> {} \<and> surnames \<noteq> {} \<and> strong \<inter> surnames = {}"

definition row_ids :: "ranked_row list \<Rightarrow> uuid list" where
  "row_ids rows = map (\<lambda>row. mc_presentation_id (fst (snd row))) rows"

definition verdict :: "bool \<Rightarrow> ranked_row list \<Rightarrow> match_result" where
  "verdict conflict ranked =
     (let views = map view_of (take 10 ranked); ids = row_ids (take 10 ranked) in
      case ranked of
        [] \<Rightarrow> \<lparr>mr_state = Match_UNMATCHED, mr_presentation_id = None,
              mr_reason = ''No matching identity evidence'', mr_candidate_ids = [], mr_candidates = [],
              mr_confidence = None, mr_has_conflict = False\<rparr>
      | (top_score, winner, evidence) # _ \<Rightarrow>
        if conflict
        then \<lparr>mr_state = Match_AMBIGUOUS, mr_presentation_id = None,
              mr_reason = ''Conflicting presentation identifier and presenter evidence'',
              mr_candidate_ids = ids, mr_candidates = views,
              mr_confidence = Some ''high'', mr_has_conflict = True\<rparr>
        else if length (filter (\<lambda>row. fst row = top_score) ranked) > 1 \<or> top_score < 50
        then \<lparr>mr_state = Match_AMBIGUOUS, mr_presentation_id = None,
              mr_reason = ''Multiple or weak candidate matches require review'',
              mr_candidate_ids = ids, mr_candidates = views,
              mr_confidence = Some (if top_score \<ge> 50 then ''medium'' else ''low''),
              mr_has_conflict = False\<rparr>
        else \<lparr>mr_state = Match_SUGGESTED, mr_presentation_id = Some (mc_presentation_id winner),
              mr_reason = join_with ''; '' evidence, mr_candidate_ids = ids, mr_candidates = views,
              mr_confidence = Some (if top_score \<ge> 90 then ''high'' else ''medium''),
              mr_has_conflict = False\<rparr>)"

definition match_presentation ::
  "(string \<Rightarrow> string) \<Rightarrow> string \<Rightarrow> match_candidate list \<Rightarrow> match_result" where
  "match_presentation nfkc filename candidates =
     (let basename = match_basename nfkc filename;
          normalized = match_token nfkc (Some basename);
          filename_tokens = token_list basename;
          ranked = rank_candidates nfkc normalized filename_tokens candidates;
          conflict = evidence_conflict (strong_id_candidates nfkc normalized filename_tokens candidates)
                       (surname_candidate_ids ranked)
      in verdict conflict ranked)"

section \<open>What a verdict says\<close>

definition candidate_score ::
  "(string \<Rightarrow> string) \<Rightarrow> string \<Rightarrow> match_candidate list \<Rightarrow> match_candidate \<Rightarrow> int" where
  "candidate_score nfkc filename candidates item =
     (let basename = match_basename nfkc filename
      in mark_score (candidate_marks nfkc (match_token nfkc (Some basename)) (token_list basename) candidates item))"

definition ranking :: "(string \<Rightarrow> string) \<Rightarrow> string \<Rightarrow> match_candidate list \<Rightarrow> ranked_row list" where
  "ranking nfkc filename candidates =
     (let basename = match_basename nfkc filename
      in rank_candidates nfkc (match_token nfkc (Some basename)) (token_list basename) candidates)"

lemma match_presentation_verdict:
  "\<exists>conflict. match_presentation nfkc filename candidates = verdict conflict (ranking nfkc filename candidates)"
  by (auto simp: match_presentation_def ranking_def Let_def)

lemma ranking_mem:
  "(score, item, evidence) \<in> set (ranking nfkc filename candidates) \<Longrightarrow>
     item \<in> set candidates \<and> score = candidate_score nfkc filename candidates item \<and> score \<noteq> 0"
  by (auto simp: ranking_def rank_candidates_def candidate_score_def Let_def)

lemma ranking_complete:
  "item \<in> set candidates \<Longrightarrow> candidate_score nfkc filename candidates item \<noteq> 0 \<Longrightarrow>
     \<exists>evidence. (candidate_score nfkc filename candidates item, item, evidence) \<in> set (ranking nfkc filename candidates)"
  by (auto simp: ranking_def rank_candidates_def candidate_score_def Let_def)

lemma ranking_sorted: "sorted (map rank_key (ranking nfkc filename candidates))"
  by (simp add: ranking_def rank_candidates_def Let_def)

lemma ranking_top:
  assumes "ranking nfkc filename candidates = first # rest" and "row \<in> set rest"
  shows "fst row \<le> fst first"
  using assms ranking_sorted [of nfkc filename candidates]
  by (auto simp: rank_key_def less_eq_prod_def)

lemma verdict_cases:
  "mr_state (verdict conflict ranked) \<in> {Match_SUGGESTED, Match_AMBIGUOUS, Match_UNMATCHED}
   \<and> (mr_state (verdict conflict ranked) = Match_UNMATCHED \<longleftrightarrow> ranked = [])
   \<and> (mr_presentation_id (verdict conflict ranked) = None \<longleftrightarrow> mr_state (verdict conflict ranked) \<noteq> Match_SUGGESTED)"
  by (auto simp: verdict_def Let_def split: list.splits)

lemma verdict_suggested:
  assumes "mr_presentation_id (verdict conflict ranked) = Some pid"
  obtains score item evidence rest where "ranked = (score, item, evidence) # rest"
    and "pid = mc_presentation_id item" and "50 \<le> score" and "\<not> conflict"
    and "\<And>row. row \<in> set rest \<Longrightarrow> fst row \<noteq> score"
proof -
  obtain score item evidence rest where r: "ranked = (score, item, evidence) # rest"
    using assms by (cases ranked) (auto simp: verdict_def)
  with assms have pid: "pid = mc_presentation_id item" and "50 \<le> score" and "\<not> conflict"
    and "filter (\<lambda>row. fst row = score) rest = []"
    by (auto simp: verdict_def Let_def split: if_splits)
  then show thesis using r that by (auto simp: filter_empty_conv)
qed

text \<open>
  C18: The matcher only ever suggests. Its state is one of suggested, ambiguous and
  unmatched (never confirmed or manual); it is unmatched exactly when no candidate earns
  a point; it names a presentation exactly when it suggests one; and the presentation
  it names is the one candidate with the strictly highest score, at least 50.
\<close>

theorem match_suggestion_sound:
  "mr_state (match_presentation nfkc filename candidates) \<in> {Match_SUGGESTED, Match_AMBIGUOUS, Match_UNMATCHED}
   \<and> (mr_state (match_presentation nfkc filename candidates) = Match_UNMATCHED
        \<longleftrightarrow> (\<forall>c \<in> set candidates. candidate_score nfkc filename candidates c = 0))
   \<and> (mr_presentation_id (match_presentation nfkc filename candidates) = None
        \<longleftrightarrow> mr_state (match_presentation nfkc filename candidates) \<noteq> Match_SUGGESTED)
   \<and> (\<forall>pid. mr_presentation_id (match_presentation nfkc filename candidates) = Some pid \<longrightarrow>
        (\<exists>item \<in> set candidates. mc_presentation_id item = pid
           \<and> 50 \<le> candidate_score nfkc filename candidates item
           \<and> (\<forall>c \<in> set candidates. c \<noteq> item \<longrightarrow>
                candidate_score nfkc filename candidates c < candidate_score nfkc filename candidates item)))"
proof -
  define r where "r = match_presentation nfkc filename candidates"
  define score where "score = candidate_score nfkc filename candidates"
  obtain conflict where r: "r = verdict conflict (ranking nfkc filename candidates)"
    unfolding r_def using match_presentation_verdict by blast
  have none: "ranking nfkc filename candidates = [] \<longleftrightarrow> (\<forall>c \<in> set candidates. score c = 0)"
  proof
    assume "ranking nfkc filename candidates = []"
    then show "\<forall>c \<in> set candidates. score c = 0"
      unfolding score_def using ranking_complete by fastforce
  next
    assume "\<forall>c \<in> set candidates. score c = 0"
    then have "row \<notin> set (ranking nfkc filename candidates)" for row
      using ranking_mem [of "fst row" "fst (snd row)" "snd (snd row)" nfkc filename candidates]
      by (auto simp: score_def)
    then show "ranking nfkc filename candidates = []" by (metis hd_in_set)
  qed
  have "\<exists>item \<in> set candidates. mc_presentation_id item = pid \<and> 50 \<le> score item
      \<and> (\<forall>c \<in> set candidates. c \<noteq> item \<longrightarrow> score c < score item)"
    if "mr_presentation_id r = Some pid" for pid
  proof -
    obtain s item ev rest where top: "ranking nfkc filename candidates = (s, item, ev) # rest"
      and p: "pid = mc_presentation_id item" "50 \<le> s" and uniq: "\<And>row. row \<in> set rest \<Longrightarrow> fst row \<noteq> s"
      using \<open>mr_presentation_id r = Some pid\<close> unfolding r by (rule verdict_suggested) blast
    have item: "item \<in> set candidates" "s = score item"
      using ranking_mem [of s item ev nfkc filename candidates] top by (auto simp: score_def)
    have "score c < s" if c: "c \<in> set candidates" "c \<noteq> item" for c
    proof (cases "score c = 0")
      case False
      then obtain e where "(score c, c, e) \<in> set ((s, item, ev) # rest)"
        using ranking_complete c(1) top unfolding score_def by metis
      then have "(score c, c, e) \<in> set rest" using c(2) by auto
      then show ?thesis using ranking_top [OF top] uniq by fastforce
    qed (use p in simp)
    with item p show ?thesis by auto
  qed
  with verdict_cases [of conflict "ranking nfkc filename candidates"] none show ?thesis
    unfolding r_def [symmetric] score_def [symmetric] r by blast
qed

definition demo_candidate :: "uuid \<Rightarrow> string \<Rightarrow> match_candidate" where
  "demo_candidate n surname =
     \<lparr>mc_presentation_id = n, mc_presentation_identifier = ''P'' @ str_int (int n),
      mc_external_presentation_id = None, mc_expected_filename = None, mc_title = None,
      mc_presenter_family_name = Some surname, mc_presenter_given_name = None,
      mc_session_title = None, mc_session_external_id = None, mc_room = None, mc_starts_at = None\<rparr>"

definition demo_candidates :: "match_candidate list" where
  "demo_candidates = [demo_candidate 2 ''Roe'', demo_candidate 3 ''Doe'']"

lemma demo_marks:
  "match_basename (\<lambda>s. s) ''Doe talk.pptx'' = ''DOE TALK''"
  "candidate_marks (\<lambda>s. s) (match_token (\<lambda>s. s) (Some ''DOE TALK'')) (token_list ''DOE TALK'')
     demo_candidates (demo_candidate 2 ''Roe'') = []"
  "candidate_marks (\<lambda>s. s) (match_token (\<lambda>s. s) (Some ''DOE TALK'')) (token_list ''DOE TALK'')
     demo_candidates (demo_candidate 3 ''Doe'') = [(55, ''Presenter last name Doe matched filename'')]"
  by code_simp+

lemma map_demo_candidates:
  "map f demo_candidates = [f (demo_candidate 2 ''Roe''), f (demo_candidate 3 ''Doe'')]"
  by (simp add: demo_candidates_def)

lemma demo_ranking:
  "ranking (\<lambda>s. s) ''Doe talk.pptx'' demo_candidates
     = [(55, demo_candidate 3 ''Doe'', [''Presenter last name Doe matched filename''])]"
  unfolding ranking_def rank_candidates_def Let_def demo_marks(1)
  by (simp add: map_demo_candidates demo_marks mark_score_def)

lemma demo_match:
  "mr_presentation_id (match_presentation (\<lambda>s. s) ''Doe talk.pptx'' demo_candidates) = Some 3"
proof -
  have "strong_id_candidates (\<lambda>s. s) (match_token (\<lambda>s. s) (Some ''DOE TALK'')) (token_list ''DOE TALK'')
      demo_candidates = {}"
    by code_simp
  then show ?thesis
    using demo_ranking
    by (simp add: match_presentation_def verdict_def evidence_conflict_def ranking_def Let_def demo_marks(1)
        demo_candidate_def)
qed

theorem match_suggestion_sound_witness:
  "\<exists>item \<in> set demo_candidates. mc_presentation_id item = 3
     \<and> 50 \<le> candidate_score (\<lambda>s. s) ''Doe talk.pptx'' demo_candidates item"
  using match_suggestion_sound [where nfkc = "\<lambda>s. s" and filename = "''Doe talk.pptx''" and candidates = demo_candidates]
    demo_match by blast

section \<open>The order of the candidates does not matter\<close>

lemma surname_counts_perm:
  "mset cs = mset ds \<Longrightarrow> surname_counts nfkc toks cs = surname_counts nfkc toks ds"
  by (rule ext) (metis mset_filter size_mset surname_counts_def)

lemma candidate_marks_perm:
  "mset cs = mset ds \<Longrightarrow> candidate_marks nfkc nrm toks cs = candidate_marks nfkc nrm toks ds"
  by (rule ext) (simp only: candidate_marks_def surname_counts_perm [of cs ds])

lemma uuid_str_inj: "u < 2 ^ 128 \<Longrightarrow> v < 2 ^ 128 \<Longrightarrow> uuid_str u = uuid_str v \<Longrightarrow> u = v"
  by (metis parse_uuid_str sum.inject(2))

lemma rank_candidates_perm:
  assumes perm: "mset cs = mset ds" and dist: "distinct (map mc_presentation_id cs)"
    and u: "\<And>c. c \<in> set cs \<Longrightarrow> mc_presentation_id c < 2 ^ 128"
  shows "rank_candidates nfkc nrm toks cs = rank_candidates nfkc nrm toks ds"
proof -
  define row where "row = (\<lambda>item. let marks = candidate_marks nfkc nrm toks cs item
    in (mark_score marks, item, map snd marks))"
  define P where "P = (\<lambda>(score::int, item::match_candidate, evidence::string list). score \<noteq> 0)"
  have rc: "rank_candidates nfkc nrm toks cs = sort_key rank_key (filter P (map row cs))"
    by (simp add: rank_candidates_def row_def P_def)
  have rd: "rank_candidates nfkc nrm toks ds = sort_key rank_key (filter P (map row ds))"
    by (simp add: rank_candidates_def row_def P_def candidate_marks_perm [OF perm])
  have inj: "inj_on rank_key (set (filter P (map row cs)))"
  proof (rule inj_onI)
    fix x y
    assume "x \<in> set (filter P (map row cs))" "y \<in> set (filter P (map row cs))" and eq: "rank_key x = rank_key y"
    then obtain c d where c: "c \<in> set cs" "x = row c" and d: "d \<in> set cs" "y = row d" by auto
    with eq have "uuid_str (mc_presentation_id c) = uuid_str (mc_presentation_id d)"
      by (simp add: rank_key_def row_def Let_def)
    then have "mc_presentation_id c = mc_presentation_id d"
      using u [OF c(1)] u [OF d(1)] by (rule uuid_str_inj [rotated 2])
    then have "c = d" using dist c(1) d(1) by (auto simp: distinct_map dest: inj_onD)
    with c d show "x = y" by simp
  qed
  have "mset (filter P (map row cs)) = mset (sort_key rank_key (filter P (map row ds)))"
    using perm by (simp add: mset_filter)
  then show ?thesis unfolding rc rd by (rule sort_key_inj_key_eq [OF _ inj]) simp
qed

text \<open>
  C19: The verdict does not depend on the order in which the caller lists the
  candidates: for candidates with distinct UUIDs, every permutation of the list gives
  the same state, presentation, reason, ranking and confidence.
\<close>

theorem match_order_irrelevant:
  assumes "mset candidates = mset permuted"
    and "distinct (map mc_presentation_id candidates)"
    and "\<forall>c \<in> set candidates. mc_presentation_id c < 2 ^ 128"
  shows "match_presentation nfkc filename candidates = match_presentation nfkc filename permuted"
proof -
  have "strong_id_candidates nfkc nrm toks candidates = strong_id_candidates nfkc nrm toks permuted" for nrm toks
    using mset_eq_setD [OF assms(1)] by (simp add: strong_id_candidates_def)
  moreover have "rank_candidates nfkc nrm toks candidates = rank_candidates nfkc nrm toks permuted" for nrm toks
    using assms by (intro rank_candidates_perm) auto
  ultimately show ?thesis by (simp add: match_presentation_def)
qed

theorem match_order_irrelevant_witness:
  "match_presentation (\<lambda>s. s) ''Doe talk.pptx'' [demo_candidate 2 ''Roe'', demo_candidate 3 ''Doe'']
     = match_presentation (\<lambda>s. s) ''Doe talk.pptx'' [demo_candidate 3 ''Doe'', demo_candidate 2 ''Roe'']"
  by (rule match_order_irrelevant) (simp_all add: demo_candidate_def)

end
