(* ===== verification/Central_Tables.thy ===== *)
theory Central_Tables
  imports Jobs
begin

text \<open>
  The rows of Central's database, one record per ORM class of
  \<open>upm_central/persistence/models.py\<close> the development reads or writes, with the
  columns in source order and those of \<open>CentralRecordMixin\<close> last. Only the
  \<open>updated_at\<close> stamp is left out: nothing reads it back. \<open>default_central_...\<close> is the row the
  class's constructor builds from its column defaults at an instant: a nullable column
  without a default is \<open>None\<close>; a required one has a placeholder that every
  constructor call overwrites, as it does the \<open>new_uuid7\<close> key.
\<close>

record central_admin_user =
  cau_admin_user_id :: uuid
  cau_username :: string
  cau_normalized_username :: string
  cau_display_name :: string
  cau_email :: "string option"
  cau_password_hash :: string
  cau_roles :: "string list"
  cau_permissions :: "string list"
  cau_web_access :: bool
  cau_smb_enabled :: bool
  cau_smb_credential_revision :: int
  cau_smb_last_activity_at :: "datetime option"
  cau_site_scope :: "string list"
  cau_active :: bool
  cau_failed_login_count :: int
  cau_locked_until :: "datetime option"
  cau_last_login_at :: "datetime option"
  cau_password_changed_at :: datetime
  cau_created_at :: datetime
  cau_revision :: int

definition default_central_admin_user :: "datetime \<Rightarrow> central_admin_user" where
  "default_central_admin_user now =
     \<lparr>cau_admin_user_id = 0,
      cau_username = [],
      cau_normalized_username = [],
      cau_display_name = [],
      cau_email = None,
      cau_password_hash = [],
      cau_roles = [],
      cau_permissions = [],
      cau_web_access = True,
      cau_smb_enabled = False,
      cau_smb_credential_revision = 0,
      cau_smb_last_activity_at = None,
      cau_site_scope = [],
      cau_active = True,
      cau_failed_login_count = 0,
      cau_locked_until = None,
      cau_last_login_at = None,
      cau_password_changed_at = now,
      cau_created_at = now,
      cau_revision = 1\<rparr>"

record central_admin_session =
  cas_admin_session_id :: uuid
  cas_admin_user_id :: uuid
  cas_token_hash :: string
  cas_csrf_token_hash :: string
  cas_created_at :: datetime
  cas_expires_at :: datetime
  cas_last_seen_at :: datetime
  cas_revoked_at :: "datetime option"
  cas_remote_address :: "string option"
  cas_user_agent :: "string option"

definition default_central_admin_session :: "datetime \<Rightarrow> central_admin_session" where
  "default_central_admin_session now =
     \<lparr>cas_admin_session_id = 0,
      cas_admin_user_id = 0,
      cas_token_hash = [],
      cas_csrf_token_hash = [],
      cas_created_at = now,
      cas_expires_at = 0,
      cas_last_seen_at = now,
      cas_revoked_at = None,
      cas_remote_address = None,
      cas_user_agent = None\<rparr>"

record central_person =
  cpe_person_id :: uuid
  cpe_given_name :: "string option"
  cpe_middle_name :: "string option"
  cpe_family_name :: "string option"
  cpe_prefix :: "string option"
  cpe_suffix :: "string option"
  cpe_preferred_name :: "string option"
  cpe_display_name :: string
  cpe_normalized_name :: string
  cpe_primary_email :: "string option"
  cpe_normalized_email :: "string option"
  cpe_phone :: "string option"
  cpe_professional_title :: "string option"
  cpe_organization :: "string option"
  cpe_active :: bool
  cpe_deleted_at :: "datetime option"
  cpe_created_at :: datetime
  cpe_revision :: int

definition default_central_person :: "datetime \<Rightarrow> central_person" where
  "default_central_person now =
     \<lparr>cpe_person_id = 0,
      cpe_given_name = None,
      cpe_middle_name = None,
      cpe_family_name = None,
      cpe_prefix = None,
      cpe_suffix = None,
      cpe_preferred_name = None,
      cpe_display_name = [],
      cpe_normalized_name = '''',
      cpe_primary_email = None,
      cpe_normalized_email = None,
      cpe_phone = None,
      cpe_professional_title = None,
      cpe_organization = None,
      cpe_active = True,
      cpe_deleted_at = None,
      cpe_created_at = now,
      cpe_revision = 1\<rparr>"

record central_site =
  ccs_site_id :: uuid
  ccs_display_name :: string
  ccs_enabled :: bool
  ccs_enrollment_state :: enrollment_state
  ccs_first_registered_at :: "datetime option"
  ccs_last_registered_at :: "datetime option"
  ccs_last_seen_at :: "datetime option"
  ccs_last_successful_sync_at :: "datetime option"
  ccs_application_version :: "string option"
  ccs_protocol_version :: "int option"
  ccs_reported_hostname :: "string option"
  ccs_reported_address :: "string option"
  ccs_capabilities :: "json list"
  ccs_health_summary :: "(string \<times> json) list"
  ccs_protocol_error :: "string option"
  ccs_created_at :: datetime
  ccs_revision :: int

definition default_central_site :: "datetime \<Rightarrow> central_site" where
  "default_central_site now =
     \<lparr>ccs_site_id = 0,
      ccs_display_name = [],
      ccs_enabled = True,
      ccs_enrollment_state = Enroll_PENDING,
      ccs_first_registered_at = None,
      ccs_last_registered_at = None,
      ccs_last_seen_at = None,
      ccs_last_successful_sync_at = None,
      ccs_application_version = None,
      ccs_protocol_version = None,
      ccs_reported_hostname = None,
      ccs_reported_address = None,
      ccs_capabilities = [],
      ccs_health_summary = [],
      ccs_protocol_error = None,
      ccs_created_at = now,
      ccs_revision = 1\<rparr>"

record central_site_enrollment_claim =
  cec_site_id :: uuid
  cec_claim_secret_hash :: string
  cec_poll_token_hash :: string
  cec_expires_at :: datetime
  cec_credential_delivered_at :: "datetime option"
  cec_rejection_reason :: "string option"
  cec_created_at :: datetime

definition default_central_site_enrollment_claim :: "datetime \<Rightarrow> central_site_enrollment_claim" where
  "default_central_site_enrollment_claim now =
     \<lparr>cec_site_id = 0,
      cec_claim_secret_hash = [],
      cec_poll_token_hash = [],
      cec_expires_at = 0,
      cec_credential_delivered_at = None,
      cec_rejection_reason = None,
      cec_created_at = now\<rparr>"

record central_site_credential =
  ccr_credential_id :: uuid
  ccr_site_id :: uuid
  ccr_token_hash :: string
  ccr_created_at :: datetime
  ccr_revoked_at :: "datetime option"

definition default_central_site_credential :: "datetime \<Rightarrow> central_site_credential" where
  "default_central_site_credential now =
     \<lparr>ccr_credential_id = 0,
      ccr_site_id = 0,
      ccr_token_hash = [],
      ccr_created_at = now,
      ccr_revoked_at = None\<rparr>"

record central_sync_receipt =
  crc_receipt_id :: uuid
  crc_site_id :: uuid
  crc_event_id :: uuid
  crc_source_sequence :: int
  crc_event_type :: string
  crc_received_at :: datetime

definition default_central_sync_receipt :: "datetime \<Rightarrow> central_sync_receipt" where
  "default_central_sync_receipt now =
     \<lparr>crc_receipt_id = 0,
      crc_site_id = 0,
      crc_event_id = 0,
      crc_source_sequence = 0,
      crc_event_type = [],
      crc_received_at = now\<rparr>"

record central_sync_cursor =
  ccu_site_id :: uuid
  ccu_direction :: string
  ccu_last_sequence :: int
  ccu_last_event_id :: "uuid option"

definition default_central_sync_cursor :: "central_sync_cursor" where
  "default_central_sync_cursor =
     \<lparr>ccu_site_id = 0,
      ccu_direction = [],
      ccu_last_sequence = 0,
      ccu_last_event_id = None\<rparr>"

record central_sync_sequence =
  csq_site_id :: uuid
  csq_next_value :: int

definition default_central_sync_sequence :: "central_sync_sequence" where
  "default_central_sync_sequence =
     \<lparr>csq_site_id = 0,
      csq_next_value = 1\<rparr>"

record central_site_managed_setting =
  cms_setting_id :: uuid
  cms_site_id :: uuid
  cms_setting_key :: string
  cms_value :: "(string \<times> json) list"
  cms_created_at :: datetime
  cms_revision :: int

definition default_central_site_managed_setting :: "datetime \<Rightarrow> central_site_managed_setting" where
  "default_central_site_managed_setting now =
     \<lparr>cms_setting_id = 0,
      cms_site_id = 0,
      cms_setting_key = [],
      cms_value = [],
      cms_created_at = now,
      cms_revision = 1\<rparr>"

record central_site_room_mapping =
  crm_site_room_mapping_id :: uuid
  crm_site_id :: uuid
  crm_imported_label :: string
  crm_normalized_imported_label :: string
  crm_target_room_id :: "uuid option"
  crm_target_room_label :: "string option"
  crm_mapping_status :: string
  crm_confirmed_by :: "string option"
  crm_created_at :: datetime
  crm_revision :: int

definition default_central_site_room_mapping :: "datetime \<Rightarrow> central_site_room_mapping" where
  "default_central_site_room_mapping now =
     \<lparr>crm_site_room_mapping_id = 0,
      crm_site_id = 0,
      crm_imported_label = [],
      crm_normalized_imported_label = [],
      crm_target_room_id = None,
      crm_target_room_label = None,
      crm_mapping_status = ''unmapped'',
      crm_confirmed_by = None,
      crm_created_at = now,
      crm_revision = 1\<rparr>"

record central_event =
  cev_event_id :: uuid
  cev_owning_site_id :: "uuid option"
  cev_name :: string
  cev_description :: "string option"
  cev_timezone :: string
  cev_starts_at :: "datetime option"
  cev_ends_at :: "datetime option"
  cev_archived_at :: "datetime option"
  cev_created_at :: datetime
  cev_revision :: int

definition default_central_event :: "datetime \<Rightarrow> central_event" where
  "default_central_event now =
     \<lparr>cev_event_id = 0,
      cev_owning_site_id = None,
      cev_name = [],
      cev_description = None,
      cev_timezone = ''UTC'',
      cev_starts_at = None,
      cev_ends_at = None,
      cev_archived_at = None,
      cev_created_at = now,
      cev_revision = 1\<rparr>"

record central_event_deployment =
  ced_deployment_id :: uuid
  ced_event_id :: uuid
  ced_site_id :: uuid
  ced_status :: event_deployment_status
  ced_desired_revision :: int
  ced_acknowledged_revision :: int
  ced_deployment_requested_at :: "datetime option"
  ced_last_synchronization_at :: "datetime option"
  ced_successfully_deployed_at :: "datetime option"
  ced_failure_at :: "datetime option"
  ced_failure_reason :: "string option"
  ced_site_status :: "string option"
  ced_summary_counts :: "(string \<times> json) list"
  ced_created_at :: datetime
  ced_revision :: int

definition default_central_event_deployment :: "datetime \<Rightarrow> central_event_deployment" where
  "default_central_event_deployment now =
     \<lparr>ced_deployment_id = 0,
      ced_event_id = 0,
      ced_site_id = 0,
      ced_status = Dep_DRAFT,
      ced_desired_revision = 0,
      ced_acknowledged_revision = 0,
      ced_deployment_requested_at = None,
      ced_last_synchronization_at = None,
      ced_successfully_deployed_at = None,
      ced_failure_at = None,
      ced_failure_reason = None,
      ced_site_status = None,
      ced_summary_counts = [],
      ced_created_at = now,
      ced_revision = 1\<rparr>"

record central_event_deployment_revision =
  cdr_deployment_revision_id :: uuid
  cdr_deployment_id :: uuid
  cdr_deployment_revision :: int
  cdr_event_type :: string
  cdr_schema_version :: int
  cdr_snapshot :: "(string \<times> json) list"
  cdr_created_at :: datetime

definition default_central_event_deployment_revision :: "datetime \<Rightarrow> central_event_deployment_revision" where
  "default_central_event_deployment_revision now =
     \<lparr>cdr_deployment_revision_id = 0,
      cdr_deployment_id = 0,
      cdr_deployment_revision = 0,
      cdr_event_type = [],
      cdr_schema_version = 0,
      cdr_snapshot = [],
      cdr_created_at = now\<rparr>"

record central_event_participation =
  cep_event_participation_id :: uuid
  cep_event_id :: uuid
  cep_person_id :: uuid
  cep_role :: "string option"
  cep_display_name :: "string option"
  cep_professional_title :: "string option"
  cep_organization :: "string option"
  cep_registration_status :: "string option"
  cep_participant_status :: participant_status
  cep_is_presenter :: bool
  cep_notes :: "string option"
  cep_source :: "string option"
  cep_source_metadata :: "(string \<times> json) list"
  cep_created_at :: datetime
  cep_revision :: int

definition default_central_event_participation :: "datetime \<Rightarrow> central_event_participation" where
  "default_central_event_participation now =
     \<lparr>cep_event_participation_id = 0,
      cep_event_id = 0,
      cep_person_id = 0,
      cep_role = None,
      cep_display_name = None,
      cep_professional_title = None,
      cep_organization = None,
      cep_registration_status = None,
      cep_participant_status = Part_ACTIVE,
      cep_is_presenter = False,
      cep_notes = None,
      cep_source = None,
      cep_source_metadata = [],
      cep_created_at = now,
      cep_revision = 1\<rparr>"

record central_session =
  css_session_id :: uuid
  css_event_id :: uuid
  css_title :: string
  css_subtitle :: "string option"
  css_description :: "string option"
  css_session_code :: "string option"
  css_session_type :: "string option"
  css_starts_at :: "datetime option"
  css_ends_at :: "datetime option"
  css_location_name :: "string option"
  css_location_metadata :: "(string \<times> json) list"
  css_status :: session_status
  css_sort_order :: int
  css_source :: "string option"
  css_source_metadata :: "(string \<times> json) list"
  css_created_at :: datetime
  css_revision :: int

definition default_central_session :: "datetime \<Rightarrow> central_session" where
  "default_central_session now =
     \<lparr>css_session_id = 0,
      css_event_id = 0,
      css_title = [],
      css_subtitle = None,
      css_description = None,
      css_session_code = None,
      css_session_type = None,
      css_starts_at = None,
      css_ends_at = None,
      css_location_name = None,
      css_location_metadata = [],
      css_status = Sess_DRAFT,
      css_sort_order = 0,
      css_source = None,
      css_source_metadata = [],
      css_created_at = now,
      css_revision = 1\<rparr>"

record central_session_participant =
  csp_session_participant_id :: uuid
  csp_session_id :: uuid
  csp_event_participation_id :: uuid
  csp_role :: string
  csp_presenter_order :: int
  csp_primary_presenter :: bool
  csp_external_relationship_id :: "string option"
  csp_source :: "string option"
  csp_notes :: "string option"
  csp_created_at :: datetime
  csp_revision :: int

definition default_central_session_participant :: "datetime \<Rightarrow> central_session_participant" where
  "default_central_session_participant now =
     \<lparr>csp_session_participant_id = 0,
      csp_session_id = 0,
      csp_event_participation_id = 0,
      csp_role = [],
      csp_presenter_order = 0,
      csp_primary_presenter = False,
      csp_external_relationship_id = None,
      csp_source = None,
      csp_notes = None,
      csp_created_at = now,
      csp_revision = 1\<rparr>"

record central_presentation =
  cpr_presentation_id :: uuid
  cpr_event_id :: uuid
  cpr_session_id :: "uuid option"
  cpr_title :: string
  cpr_description :: "string option"
  cpr_presentation_code :: "string option"
  cpr_presentation_identifier :: string
  cpr_presentation_identifier_source :: presentation_identifier_source
  cpr_external_presentation_id :: "string option"
  cpr_workflow_status :: presentation_workflow_status
  cpr_processing_status :: presentation_processing_status
  cpr_scheduled_at :: "datetime option"
  cpr_source :: "string option"
  cpr_source_metadata :: "(string \<times> json) list"
  cpr_created_at :: datetime
  cpr_revision :: int

definition default_central_presentation :: "datetime \<Rightarrow> central_presentation" where
  "default_central_presentation now =
     \<lparr>cpr_presentation_id = 0,
      cpr_event_id = 0,
      cpr_session_id = None,
      cpr_title = [],
      cpr_description = None,
      cpr_presentation_code = None,
      cpr_presentation_identifier = [],
      cpr_presentation_identifier_source = PidSource_GENERATED,
      cpr_external_presentation_id = None,
      cpr_workflow_status = Flow_EXPECTED,
      cpr_processing_status = Proc_NOT_STARTED,
      cpr_scheduled_at = None,
      cpr_source = None,
      cpr_source_metadata = [],
      cpr_created_at = now,
      cpr_revision = 1\<rparr>"

record central_presentation_session =
  cps_presentation_session_id :: uuid
  cps_presentation_id :: uuid
  cps_session_id :: uuid
  cps_association_type :: string
  cps_sort_order :: int
  cps_primary_session :: bool
  cps_source :: "string option"
  cps_created_at :: datetime
  cps_revision :: int

definition default_central_presentation_session :: "datetime \<Rightarrow> central_presentation_session" where
  "default_central_presentation_session now =
     \<lparr>cps_presentation_session_id = 0,
      cps_presentation_id = 0,
      cps_session_id = 0,
      cps_association_type = ''scheduled'',
      cps_sort_order = 0,
      cps_primary_session = False,
      cps_source = None,
      cps_created_at = now,
      cps_revision = 1\<rparr>"

record central_presentation_presenter =
  cpp_presentation_presenter_id :: uuid
  cpp_presentation_id :: uuid
  cpp_event_participation_id :: uuid
  cpp_role :: string
  cpp_presenter_order :: int
  cpp_primary_presenter :: bool
  cpp_source :: "string option"
  cpp_created_at :: datetime
  cpp_revision :: int

definition default_central_presentation_presenter :: "datetime \<Rightarrow> central_presentation_presenter" where
  "default_central_presentation_presenter now =
     \<lparr>cpp_presentation_presenter_id = 0,
      cpp_presentation_id = 0,
      cpp_event_participation_id = 0,
      cpp_role = ''presenter'',
      cpp_presenter_order = 0,
      cpp_primary_presenter = False,
      cpp_source = None,
      cpp_created_at = now,
      cpp_revision = 1\<rparr>"

record central_presentation_version =
  cpv_presentation_version_id :: uuid
  cpv_presentation_id :: uuid
  cpv_version_number :: int
  cpv_created_at :: datetime
  cpv_revision :: int

definition default_central_presentation_version :: "datetime \<Rightarrow> central_presentation_version" where
  "default_central_presentation_version now =
     \<lparr>cpv_presentation_version_id = 0,
      cpv_presentation_id = 0,
      cpv_version_number = 0,
      cpv_created_at = now,
      cpv_revision = 1\<rparr>"

record central_external_identifier =
  cxi_external_identifier_id :: uuid
  cxi_entity_type :: external_entity_type
  cxi_entity_id :: uuid
  cxi_namespace :: string
  cxi_external_id :: string
  cxi_normalized_external_id :: string
  cxi_scope :: external_identifier_scope
  cxi_scope_key :: string
  cxi_event_id :: "uuid option"
  cxi_source :: "string option"
  cxi_created_at :: datetime
  cxi_revision :: int

definition default_central_external_identifier :: "datetime \<Rightarrow> central_external_identifier" where
  "default_central_external_identifier now =
     \<lparr>cxi_external_identifier_id = 0,
      cxi_entity_type = Ext_PERSON,
      cxi_entity_id = 0,
      cxi_namespace = [],
      cxi_external_id = [],
      cxi_normalized_external_id = [],
      cxi_scope = Scope_GLOBAL,
      cxi_scope_key = ''global'',
      cxi_event_id = None,
      cxi_source = None,
      cxi_created_at = now,
      cxi_revision = 1\<rparr>"

record central_presentation_media_import =
  cmi_media_import_id :: uuid
  cmi_batch_id :: "uuid option"
  cmi_event_id :: uuid
  cmi_destination_site_id :: "uuid option"
  cmi_presentation_id :: "uuid option"
  cmi_presentation_version_id :: "uuid option"
  cmi_presentation_identifier :: "string option"
  cmi_external_presentation_id :: "string option"
  cmi_original_filename :: string
  cmi_source_relative_path :: "string option"
  cmi_canonical_filename :: "string option"
  cmi_staging_key :: string
  cmi_staging_storage_root_id :: "uuid option"
  cmi_committed_storage_root_id :: "uuid option"
  cmi_committed_storage_key :: "string option"
  cmi_size_bytes :: "int option"
  cmi_mime_type :: "string option"
  cmi_sha256 :: "string option"
  cmi_match_state :: media_match_state
  cmi_match_reason :: "string option"
  cmi_match_candidates :: "json list"
  cmi_confirmed_by :: "string option"
  cmi_confirmed_at :: "datetime option"
  cmi_import_state :: media_import_state
  cmi_sync_state :: sync_state
  cmi_transfer_job_id :: "uuid option"
  cmi_site_media_object_id :: "uuid option"
  cmi_idempotency_key :: "string option"
  cmi_origin :: string
  cmi_source_actor :: "string option"
  cmi_source_share :: "string option"
  cmi_retry_count :: int
  cmi_error_code :: "string option"
  cmi_error_detail :: "string option"
  cmi_created_at :: datetime
  cmi_revision :: int

definition default_central_presentation_media_import :: "datetime \<Rightarrow> central_presentation_media_import" where
  "default_central_presentation_media_import now =
     \<lparr>cmi_media_import_id = 0,
      cmi_batch_id = None,
      cmi_event_id = 0,
      cmi_destination_site_id = None,
      cmi_presentation_id = None,
      cmi_presentation_version_id = None,
      cmi_presentation_identifier = None,
      cmi_external_presentation_id = None,
      cmi_original_filename = [],
      cmi_source_relative_path = None,
      cmi_canonical_filename = None,
      cmi_staging_key = [],
      cmi_staging_storage_root_id = None,
      cmi_committed_storage_root_id = None,
      cmi_committed_storage_key = None,
      cmi_size_bytes = None,
      cmi_mime_type = None,
      cmi_sha256 = None,
      cmi_match_state = Match_UNMATCHED,
      cmi_match_reason = None,
      cmi_match_candidates = [],
      cmi_confirmed_by = None,
      cmi_confirmed_at = None,
      cmi_import_state = Media_UPLOADING,
      cmi_sync_state = Sync_LOCAL,
      cmi_transfer_job_id = None,
      cmi_site_media_object_id = None,
      cmi_idempotency_key = None,
      cmi_origin = ''central'',
      cmi_source_actor = None,
      cmi_source_share = None,
      cmi_retry_count = 0,
      cmi_error_code = None,
      cmi_error_detail = None,
      cmi_created_at = now,
      cmi_revision = 1\<rparr>"

record central_audit_record =
  car_audit_record_id :: uuid
  car_actor_id :: "string option"
  car_action :: string
  car_target_type :: string
  car_target_id :: "uuid option"
  car_site_id :: "uuid option"
  car_event_id :: "uuid option"
  car_occurred_at :: datetime
  car_before_context :: "(string \<times> json) list option"
  car_after_context :: "(string \<times> json) list option"

definition default_central_audit_record :: "datetime \<Rightarrow> central_audit_record" where
  "default_central_audit_record now =
     \<lparr>car_audit_record_id = 0,
      car_actor_id = None,
      car_action = [],
      car_target_type = [],
      car_target_id = None,
      car_site_id = None,
      car_event_id = None,
      car_occurred_at = now,
      car_before_context = None,
      car_after_context = None\<rparr>"

end
