(* ===== verification/Central_Db.thy ===== *)
theory Central_Db
  imports Central_Tables Contracts Central_Queue
begin

text \<open>
  The Central database as one transaction sees it: a list of rows per table, the durable
  queue's tables, and the number of UUIDs minted so far. Statements that scan a table in
  no declared order see its rows in insertion order. Foreign keys are not enforced; the
  uniqueness and CHECK constraints an operation can violate are, at its insert.
\<close>

record central_db =
  cd_users :: "central_admin_user list"
  cd_admin_sessions :: "central_admin_session list"
  cd_people :: "central_person list"
  cd_sites :: "central_site list"
  cd_claims :: "central_site_enrollment_claim list"
  cd_credentials :: "central_site_credential list"
  cd_receipts :: "central_sync_receipt list"
  cd_cursors :: "central_sync_cursor list"
  cd_sequences :: "central_sync_sequence list"
  cd_settings :: "central_site_managed_setting list"
  cd_room_mappings :: "central_site_room_mapping list"
  cd_events :: "central_event list"
  cd_deployments :: "central_event_deployment list"
  cd_deployment_revisions :: "central_event_deployment_revision list"
  cd_participations :: "central_event_participation list"
  cd_program_sessions :: "central_session list"
  cd_session_participants :: "central_session_participant list"
  cd_presentations :: "central_presentation list"
  cd_presentation_sessions :: "central_presentation_session list"
  cd_presentation_presenters :: "central_presentation_presenter list"
  cd_versions :: "central_presentation_version list"
  cd_external_identifiers :: "central_external_identifier list"
  cd_media_imports :: "central_presentation_media_import list"
  cd_audit :: "central_audit_record list"
  cd_queue :: queue_db
  cd_minted :: nat

definition empty_central_db :: central_db where
  "empty_central_db =
     \<lparr>cd_users = [], cd_admin_sessions = [], cd_people = [], cd_sites = [], cd_claims = [], cd_credentials = [],
      cd_receipts = [], cd_cursors = [], cd_sequences = [], cd_settings = [], cd_room_mappings = [],
      cd_events = [], cd_deployments = [], cd_deployment_revisions = [], cd_participations = [],
      cd_program_sessions = [], cd_session_participants = [], cd_presentations = [],
      cd_presentation_sessions = [], cd_presentation_presenters = [], cd_versions = [],
      cd_external_identifiers = [], cd_media_imports = [], cd_audit = [],
      cd_queue = \<lparr>q_processing = [], q_transfer = [], q_outbox = [], q_workers = []\<rparr>,
      cd_minted = 0\<rparr>"

text \<open>\<open>new_uuid7()\<close>\<close>

definition central_fresh :: "codec \<Rightarrow> central_db \<Rightarrow> uuid" where
  "central_fresh cx db = mint_uuid cx (cd_minted db)"

definition central_minted :: "central_db \<Rightarrow> central_db" where
  "central_minted db = db\<lparr>cd_minted := Suc (cd_minted db)\<rparr>"

text \<open>\<open>CentralQueue(session).enqueue_outbox(...)\<close>\<close>

definition central_publish ::
  "codec \<Rightarrow> datetime \<Rightarrow> outbox_values \<Rightarrow> central_db \<Rightarrow> (outbox_event \<times> central_db) outcome" where
  "central_publish cx now v db =
     outcome_bind (central_enqueue_outbox (central_fresh cx db) now v (q_outbox (cd_queue db)))
       (\<lambda>(event, rows). Inr (event, (central_minted db)\<lparr>cd_queue := (cd_queue db)\<lparr>q_outbox := rows\<rparr>\<rparr>))"

text \<open>\<open>session.add(AuditRecord(...))\<close>\<close>

definition central_audit ::
  "codec \<Rightarrow> datetime \<Rightarrow> (central_audit_record \<Rightarrow> central_audit_record) \<Rightarrow> central_db \<Rightarrow> central_db" where
  "central_audit cx now fill db =
     (central_minted db)\<lparr>cd_audit := cd_audit db
        @ [fill ((default_central_audit_record now)\<lparr>car_audit_record_id := central_fresh cx db\<rparr>)]\<rparr>"

text \<open>The tables a publication or an audit entry leaves alone.\<close>

lemma central_minted_tables [simp, row_simps]:
  "cd_sites (central_minted db) = cd_sites db" "cd_claims (central_minted db) = cd_claims db"
  "cd_credentials (central_minted db) = cd_credentials db" "cd_receipts (central_minted db) = cd_receipts db"
  "cd_cursors (central_minted db) = cd_cursors db" "cd_sequences (central_minted db) = cd_sequences db"
  "cd_deployments (central_minted db) = cd_deployments db"
  "cd_deployment_revisions (central_minted db) = cd_deployment_revisions db"
  "cd_events (central_minted db) = cd_events db" "cd_queue (central_minted db) = cd_queue db"
  "cd_presentations (central_minted db) = cd_presentations db" "cd_audit (central_minted db) = cd_audit db"
  "cd_versions (central_minted db) = cd_versions db" "cd_media_imports (central_minted db) = cd_media_imports db"
  by (simp_all add: central_minted_def)

lemma central_audit_tables [simp, row_simps]:
  "cd_sites (central_audit cx now f db) = cd_sites db" "cd_claims (central_audit cx now f db) = cd_claims db"
  "cd_credentials (central_audit cx now f db) = cd_credentials db"
  "cd_receipts (central_audit cx now f db) = cd_receipts db"
  "cd_cursors (central_audit cx now f db) = cd_cursors db" "cd_sequences (central_audit cx now f db) = cd_sequences db"
  "cd_deployments (central_audit cx now f db) = cd_deployments db"
  "cd_deployment_revisions (central_audit cx now f db) = cd_deployment_revisions db"
  "cd_events (central_audit cx now f db) = cd_events db" "cd_queue (central_audit cx now f db) = cd_queue db"
  by (simp_all add: central_audit_def)

lemma central_publish_Inr:
  assumes "central_publish cx now v db = Inr (e, db')"
  shows "e = new_outbox_event (central_fresh cx db) now v" and "1 \<le> op_schema_version (ov_payload v)"
    and "insert_outbox e (q_outbox (cd_queue db)) = Inr (q_outbox (cd_queue db) @ [e])"
    and "db' = (central_minted db)\<lparr>cd_queue := (cd_queue db)\<lparr>q_outbox := q_outbox (cd_queue db) @ [e]\<rparr>\<rparr>"
  using assms
  by (auto simp: central_publish_def central_enqueue_outbox_def Let_def outcome_bind_Inr_conv
      outbox_payload_valid_def insert_outbox_def split: if_splits)

end
