(* ===== verification/Central_Sync.thy ===== *)
theory Central_Sync
  imports Central_Db Sync_Channel
begin

text \<open>
  \<open>upm_central/sync.py\<close>: sequence numbers, envelopes, and the handler for events a Site
  sends, with the two API endpoints that drive it. A branch of the handler either
  refuses the event with an acknowledgement, in which case nothing has been written, or
  returns the database it wrote; an exception the handler does not catch is an error
  value and aborts the transaction.
\<close>

section \<open>Sequences and envelopes\<close>

definition UPM_SYNC_PROTOCOL_VERSION :: int where
  "UPM_SYNC_PROTOCOL_VERSION = 1"

definition require_protocol :: "int \<Rightarrow> unit outcome" where
  "require_protocol version =
     (if version \<noteq> UPM_SYNC_PROTOCOL_VERSION then Inl (HTTPException 409 ''incompatible_sync_protocol'')
      else Inr ())"

definition central_next_sequence :: "uuid \<Rightarrow> central_db \<Rightarrow> int \<times> central_db" where
  "central_next_sequence site_id db =
     (case row_get csq_site_id (cd_sequences db) site_id of
        None \<Rightarrow> (1, db\<lparr>cd_sequences := cd_sequences db @ [\<lparr>csq_site_id = site_id, csq_next_value = 2\<rparr>]\<rparr>)
      | Some s \<Rightarrow> (csq_next_value s,
          db\<lparr>cd_sequences := row_put csq_site_id site_id
               (\<lambda>r. r\<lparr>csq_next_value := csq_next_value r + 1\<rparr>) (cd_sequences db)\<rparr>))"

definition central_envelope :: "outbox_event \<Rightarrow> sync_event_envelope" where
  "central_envelope e =
     \<lparr>env_event_id = o_id e, env_event_type = o_event_type e, env_protocol_version = o_protocol_version e,
      env_source = ''central'', env_source_site_id = None,
      env_source_sequence = default_to 0 (o_source_sequence e),
      env_authority = Auth_CENTRAL, env_entity_type = o_aggregate_type e,
      env_entity_id = Some (o_aggregate_id e), env_occurred_at = o_created_at e,
      env_payload = o_payload e, env_payload_schema_version = o_payload_schema_version e,
      env_correlation_id = o_correlation_id e, env_causation_id = o_causation_id e\<rparr>"

definition create_setting_event ::
  "codec \<Rightarrow> datetime \<Rightarrow> central_site_managed_setting \<Rightarrow> central_db \<Rightarrow> (outbox_event \<times> central_db) outcome" where
  "create_setting_event cx now setting db =
     (case central_next_sequence (cms_site_id setting) db of (sequence, db1) \<Rightarrow>
      central_publish cx now
        \<lparr>ov_event_type = ''site.configuration.updated'', ov_aggregate_type = ''site_managed_setting'',
         ov_aggregate_id = cms_setting_id setting, ov_site_id = Some (cms_site_id setting), ov_event_id = None,
         ov_source_sequence = Some sequence, ov_correlation_id = None, ov_causation_id = None,
         ov_protocol_version = Some UPM_SYNC_PROTOCOL_VERSION,
         ov_idempotency_key = ''setting:'' @ uuid_str (cms_site_id setting) @ '':'' @ cms_setting_key setting
           @ '':'' @ str_int (cms_revision setting),
         ov_payload = \<lparr>op_schema_version = 1, op_source_system = Src_CENTRAL,
           op_data = [(''setting_key'', JStr (cms_setting_key setting)), (''value'', JObj (cms_value setting)),
                      (''revision'', JInt (cms_revision setting))]\<rparr>\<rparr> db1)"

section \<open>Effects\<close>

text \<open>\<open>Inl ack\<close>: the branch returned early; \<open>Inr db\<close>: it fell through to the receipt.\<close>

type_synonym central_effect = "(event_acknowledgement + central_db) outcome"

definition touch_site :: "datetime \<Rightarrow> uuid \<Rightarrow> central_db \<Rightarrow> central_db" where
  "touch_site now site_id db =
     db\<lparr>cd_sites := row_put ccs_site_id site_id
          (\<lambda>s. s\<lparr>ccs_last_seen_at := Some now, ccs_last_successful_sync_at := Some now\<rparr>) (cd_sites db)\<rparr>"

definition apply_site_heartbeat ::
  "codec \<Rightarrow> datetime \<Rightarrow> uuid \<Rightarrow> sync_event_envelope \<Rightarrow> central_db \<Rightarrow> central_effect" where
  "apply_site_heartbeat cx now site_id event db =
     (let payload = env_payload event in
      outcome_bind (py_list (default_to (JList []) (dict_get payload ''capabilities'')))
        (\<lambda>capabilities. Inr (Inr
          (let db1 = touch_site now site_id db in
           db1\<lparr>cd_sites := row_put ccs_site_id site_id (\<lambda>s. s\<lparr>
              ccs_application_version :=
                Some (take 64 (case dict_get payload ''application_version'' of
                        None \<Rightarrow> default_to [] (ccs_application_version s)
                      | Some v \<Rightarrow> py_str (json_repr cx) v)),
              ccs_protocol_version := Some (env_protocol_version event),
              ccs_reported_hostname :=
                (let h = take 255 (case dict_get payload ''hostname'' of
                           None \<Rightarrow> [] | Some v \<Rightarrow> if py_true v then py_str (json_repr cx) v else [])
                 in if h = [] then None else Some h),
              ccs_capabilities := capabilities,
              ccs_health_summary := payload,
              ccs_protocol_error := None\<rparr>) (cd_sites db1)\<rparr>))))"

section \<open>Deployment reports\<close>

definition report_types :: "string list" where
  "report_types =
     [''site.event_deployment.received'', ''site.event_deployment.applied'', ''site.event_deployment.failed'',
      ''site.event_deployment.status'', ''site.event_deployment.stale'', ''site.event_deployment.revoked'']"

definition record_report ::
  "datetime \<Rightarrow> site_deployment_status \<Rightarrow> central_event_deployment \<Rightarrow> central_event_deployment" where
  "record_report now report d0 =
     (let d = d0\<lparr>ced_last_synchronization_at := Some now, ced_site_status := Some (sds_status report),
                 ced_summary_counts := map (\<lambda>(k, n). (k, JInt n)) (sds_summary_counts report)\<rparr>
      in if sds_status report \<in> {''applied'', ''stale''} then
           let acknowledged = max (ced_acknowledged_revision d)
                                (min (sds_applied_revision report) (ced_desired_revision d));
               d1 = d\<lparr>ced_acknowledged_revision := acknowledged\<rparr>
           in if acknowledged = ced_desired_revision d
              then d1\<lparr>ced_status := (if sds_status report = ''revoked'' then Dep_REVOKED else Dep_DEPLOYED),
                      ced_successfully_deployed_at := Some now, ced_failure_at := None,
                      ced_failure_reason := None\<rparr>
              else d1\<lparr>ced_status := Dep_UPDATE_PENDING\<rparr>
         else if sds_status report = ''received'' then
           (if ced_status d \<in> {Dep_PENDING, Dep_UPDATE_PENDING} then d\<lparr>ced_status := Dep_DEPLOYING\<rparr> else d)
         else if sds_status report = ''failed'' then
           d\<lparr>ced_status := Dep_FAILED, ced_failure_at := Some now,
             ced_failure_reason := Some (case sds_failure_reason report of
               None \<Rightarrow> ''Site failed to apply deployment''
             | Some r \<Rightarrow> if r = [] then ''Site failed to apply deployment'' else r)\<rparr>
         else if sds_status report = ''revoked'' then
           d\<lparr>ced_acknowledged_revision := max (ced_acknowledged_revision d)
                (min (sds_desired_revision report) (ced_desired_revision d)),
             ced_status := Dep_REVOKED, ced_failure_at := None, ced_failure_reason := None\<rparr>
         else d)"

definition apply_deployment_report ::
  "codec \<Rightarrow> datetime \<Rightarrow> uuid \<Rightarrow> sync_event_envelope \<Rightarrow> central_db \<Rightarrow> central_effect" where
  "apply_deployment_report cx now site_id event db =
     (case validate_status cx (env_payload event) of
        Inl e \<Rightarrow> Inr (Inl (refuse (env_event_id event) ''malformed_deployment_status''
                            (Some (take 512 (exc_text e)))))
      | Inr report \<Rightarrow>
          (case row_get ced_deployment_id (cd_deployments db) (sds_deployment_id report) of
             None \<Rightarrow> Inr (Inl (refuse (env_event_id event) ''invalid_deployment_identity'' None))
           | Some deployment \<Rightarrow>
               if sds_site_id report \<noteq> site_id \<or> ced_site_id deployment \<noteq> site_id
                  \<or> ced_event_id deployment \<noteq> sds_event_id report
                  \<or> env_entity_id event \<noteq> Some (ced_deployment_id deployment)
               then Inr (Inl (refuse (env_event_id event) ''invalid_deployment_identity'' None))
               else Inr (Inr (touch_site now site_id
                      (db\<lparr>cd_deployments := row_put ced_deployment_id (sds_deployment_id report)
                            (record_report now report) (cd_deployments db)\<rparr>)))))"

section \<open>Media transfer progress\<close>

definition payload_dict :: "json \<Rightarrow> payload" where
  "payload_dict v = (case v of JObj kvs \<Rightarrow> kvs | _ \<Rightarrow> [])"

definition recorded_offset :: "job \<Rightarrow> int outcome" where
  "recorded_offset transfer =
     py_int (default_to (JInt 0) (dict_get (payload_dict (j_payload transfer)) ''confirmed_offset''))"

definition transfer_with_progress ::
  "codec \<Rightarrow> datetime \<Rightarrow> media_transfer_progress \<Rightarrow> job \<Rightarrow> job" where
  "transfer_with_progress cx now p transfer =
     (let t1 = transfer\<lparr>
            j_payload := JObj (dict_set ''local_media_ready'' (JBool (prg_local_media_ready p))
              (dict_set ''last_progress_at'' (JStr (show_datetime cx (prg_last_progress_at p)))
              (dict_set ''site_state'' (JStr (media_transfer_state_value (prg_state p)))
              (dict_set ''expected_size'' (JInt (prg_expected_size p))
              (dict_set ''confirmed_offset'' (JInt (prg_confirmed_offset p))
                (payload_dict (j_payload transfer))))))),
            j_progress := (if prg_expected_size p = 0 then 100
                           else of_int (prg_confirmed_offset p * 100) / of_int (prg_expected_size p))\<rparr>
      in if prg_state p = Xfer_COMPLETED \<and> prg_local_media_ready p
         then t1\<lparr>j_status := Job_SUCCEEDED, j_completed_at := Some now\<rparr>
         else if prg_state p = Xfer_FAILED
         then t1\<lparr>j_status := Job_FAILED, j_last_error := prg_error_detail p\<rparr>
         else t1)"

definition import_with_progress ::
  "media_transfer_progress \<Rightarrow> central_presentation_media_import \<Rightarrow> central_presentation_media_import" where
  "import_with_progress p mi =
     (if prg_state p = Xfer_COMPLETED \<and> prg_local_media_ready p
      then mi\<lparr>cmi_import_state := Media_SITE_READY, cmi_site_media_object_id := prg_media_object_id p,
              cmi_sync_state := Sync_SYNCHRONIZED\<rparr>
      else if prg_state p = Xfer_FAILED then mi\<lparr>cmi_import_state := Media_FAILED\<rparr>
      else mi\<lparr>cmi_import_state := Media_TRANSFERRING\<rparr>)"

definition progress_known ::
  "uuid \<Rightarrow> media_transfer_progress \<Rightarrow> job \<Rightarrow> central_presentation_media_import \<Rightarrow> bool" where
  "progress_known site_id p transfer mi \<longleftrightarrow>
     j_site_id transfer = Some site_id \<and> Some (cmi_event_id mi) = prg_event_id p
     \<and> cmi_presentation_version_id mi = prg_presentation_version_id p
     \<and> Some (prg_expected_size p) = cmi_size_bytes mi"

definition store_progress ::
  "codec \<Rightarrow> datetime \<Rightarrow> media_transfer_progress \<Rightarrow> uuid \<Rightarrow> central_db \<Rightarrow> central_db" where
  "store_progress cx now p import_id db =
     db\<lparr>cd_queue := (cd_queue db)\<lparr>q_transfer := row_put j_id (prg_transfer_session_id p)
          (transfer_with_progress cx now p) (q_transfer (cd_queue db))\<rparr>,
        cd_media_imports := row_put cmi_media_import_id import_id (import_with_progress p) (cd_media_imports db)\<rparr>"

definition apply_transfer_progress ::
  "codec \<Rightarrow> datetime \<Rightarrow> uuid \<Rightarrow> sync_event_envelope \<Rightarrow> central_db \<Rightarrow> central_effect" where
  "apply_transfer_progress cx now site_id event db =
     (case validate_progress cx (env_payload event) of
        Inl e \<Rightarrow> Inr (Inl (refuse (env_event_id event) ''malformed_transfer_progress''
                            (Some (take 512 (exc_text e)))))
      | Inr p \<Rightarrow>
          if prg_site_id p \<noteq> site_id \<or> env_entity_id event \<noteq> Some (prg_transfer_session_id p)
          then Inr (Inl (refuse (env_event_id event) ''invalid_transfer_progress_identity'' None))
          else
          (case (row_get j_id (q_transfer (cd_queue db)) (prg_transfer_session_id p),
                 find (\<lambda>mi. cmi_transfer_job_id mi = Some (prg_transfer_session_id p)) (cd_media_imports db)) of
             (Some transfer, Some mi) \<Rightarrow>
               if \<not> progress_known site_id p transfer mi
               then Inr (Inl (refuse (env_event_id event) ''unknown_transfer_progress'' None))
               else outcome_bind (recorded_offset transfer)
                 (\<lambda>previous. Inr (Inr (touch_site now site_id
                    (if prg_confirmed_offset p \<ge> previous \<and> j_status transfer \<noteq> Job_SUCCEEDED
                     then store_progress cx now p (cmi_media_import_id mi) db else db))))
           | _ \<Rightarrow> Inr (Inl (refuse (env_event_id event) ''unknown_transfer_progress'' None))))"

section \<open>Presentations a Site created\<close>

text \<open>A nullable text column assigned from a decoded value.\<close>

definition text_column :: "json option \<Rightarrow> string option outcome" where
  "text_column v =
     (case v of None \<Rightarrow> Inr None | Some JNull \<Rightarrow> Inr None | Some (JStr s) \<Rightarrow> Inr (Some s)
      | Some _ \<Rightarrow> Inl (TypeError ''expected text''))"

definition presentation_header ::
  "codec \<Rightarrow> payload \<Rightarrow> (uuid \<times> uuid \<times> uuid option \<times> int) outcome" where
  "presentation_header cx payload =
     outcome_bind (outcome_bind (dict_item payload ''presentation_id'') (uuid_of (json_repr cx))) (\<lambda>presentation_id.
     outcome_bind (outcome_bind (dict_item payload ''event_id'') (uuid_of (json_repr cx))) (\<lambda>event_id.
     outcome_bind (case dict_get payload ''session_id'' of
                     None \<Rightarrow> Inr None
                   | Some v \<Rightarrow> if py_true v then outcome_bind (uuid_of (json_repr cx) v) (\<lambda>i. Inr (Some i))
                              else Inr None) (\<lambda>session_id.
     outcome_bind (py_int (default_to (JInt 1) (dict_get payload ''revision''))) (\<lambda>revision.
     Inr (presentation_id, event_id, session_id, revision)))))"

definition insert_presentation :: "central_presentation \<Rightarrow> central_db \<Rightarrow> central_db outcome" where
  "insert_presentation p db =
     (if \<exists>r \<in> set (cd_presentations db). cpr_event_id r = cpr_event_id p
           \<and> cpr_presentation_identifier r = cpr_presentation_identifier p
      then Inl (IntegrityError ''unique (event_id, presentation_identifier)'')
      else Inr (db\<lparr>cd_presentations := cd_presentations db @ [p]\<rparr>))"

definition create_site_presentation ::
  "codec \<Rightarrow> datetime \<Rightarrow> uuid \<Rightarrow> uuid \<Rightarrow> uuid \<Rightarrow> uuid option \<Rightarrow> int \<Rightarrow> payload \<Rightarrow> central_db \<Rightarrow> central_db outcome" where
  "create_site_presentation cx now site_id presentation_id event_id session_id revision payload db =
     outcome_bind (dict_item payload ''title'') (\<lambda>title.
     outcome_bind (dict_item payload ''presentation_identifier'') (\<lambda>identifier.
     outcome_bind (outcome_bind (dict_item payload ''presentation_identifier_source'')
       (\<lambda>v. enum_of_value presentation_identifier_source_members presentation_identifier_source_value
              (py_str (json_repr cx) v))) (\<lambda>identifier_source.
     outcome_bind (text_column (dict_get payload ''external_presentation_id'')) (\<lambda>external.
     insert_presentation ((default_central_presentation now)\<lparr>
        cpr_presentation_id := presentation_id, cpr_event_id := event_id, cpr_session_id := session_id,
        cpr_title := py_str (json_repr cx) title,
        cpr_presentation_identifier := py_str (json_repr cx) identifier,
        cpr_presentation_identifier_source := identifier_source,
        cpr_external_presentation_id := external, cpr_source := Some ''site'',
        cpr_source_metadata := [(''origin_site_id'', JStr (uuid_str site_id))],
        cpr_revision := revision\<rparr>) db))))"

definition update_site_presentation ::
  "codec \<Rightarrow> uuid \<Rightarrow> uuid option \<Rightarrow> int \<Rightarrow> payload \<Rightarrow> central_db \<Rightarrow> central_db outcome" where
  "update_site_presentation cx presentation_id session_id revision payload db =
     outcome_bind (dict_item payload ''title'') (\<lambda>title.
     outcome_bind (text_column (dict_get payload ''external_presentation_id'')) (\<lambda>external.
     Inr (db\<lparr>cd_presentations := row_put cpr_presentation_id presentation_id
            (\<lambda>r. r\<lparr>cpr_title := py_str (json_repr cx) title, cpr_session_id := session_id,
                   cpr_external_presentation_id := external, cpr_revision := revision\<rparr>)
            (cd_presentations db)\<rparr>)))"

definition apply_site_presentation ::
  "codec \<Rightarrow> datetime \<Rightarrow> uuid \<Rightarrow> sync_event_envelope \<Rightarrow> central_db \<Rightarrow> central_effect" where
  "apply_site_presentation cx now site_id event db =
     (case presentation_header cx (env_payload event) of
        Inl e \<Rightarrow> Inr (Inl (refuse (env_event_id event) ''malformed_presentation'' (Some (take 512 (exc_text e)))))
      | Inr (presentation_id, event_id, session_id, revision) \<Rightarrow>
          if find (\<lambda>d. ced_site_id d = site_id \<and> ced_event_id d = event_id) (cd_deployments db) = None
             \<or> env_entity_id event \<noteq> Some presentation_id
          then Inr (Inl (refuse (env_event_id event) ''invalid_presentation_scope'' None))
          else
          (case row_get cpr_presentation_id (cd_presentations db) presentation_id of
             None \<Rightarrow> outcome_bind (create_site_presentation cx now site_id presentation_id event_id session_id
                        revision (env_payload event) db) (\<lambda>db'. Inr (Inr db'))
           | Some item \<Rightarrow>
               if revision > cpr_revision item
               then outcome_bind (update_site_presentation cx presentation_id session_id revision
                        (env_payload event) db) (\<lambda>db'. Inr (Inr db'))
               else Inr (Inr db)))"

definition version_header :: "codec \<Rightarrow> payload \<Rightarrow> (uuid \<times> uuid \<times> int) outcome" where
  "version_header cx payload =
     outcome_bind (outcome_bind (dict_item payload ''presentation_version_id'') (uuid_of (json_repr cx))) (\<lambda>version_id.
     outcome_bind (outcome_bind (dict_item payload ''presentation_id'') (uuid_of (json_repr cx))) (\<lambda>presentation_id.
     outcome_bind (outcome_bind (dict_item payload ''version_number'') py_int) (\<lambda>version_number.
     Inr (version_id, presentation_id, version_number))))"

definition insert_version :: "central_presentation_version \<Rightarrow> central_db \<Rightarrow> central_db outcome" where
  "insert_version v db =
     (if cpv_version_number v < 1 then Inl (IntegrityError ''version_number_positive'')
      else if \<exists>r \<in> set (cd_versions db). cpv_presentation_id r = cpv_presentation_id v
                \<and> cpv_version_number r = cpv_version_number v
      then Inl (IntegrityError ''unique (presentation_id, version_number)'')
      else Inr (db\<lparr>cd_versions := cd_versions db @ [v]\<rparr>))"

definition apply_site_presentation_version ::
  "codec \<Rightarrow> datetime \<Rightarrow> sync_event_envelope \<Rightarrow> central_db \<Rightarrow> central_effect" where
  "apply_site_presentation_version cx now event db =
     (case version_header cx (env_payload event) of
        Inl e \<Rightarrow> Inr (Inl (refuse (env_event_id event) ''malformed_presentation_version''
                            (Some (take 512 (exc_text e)))))
      | Inr (version_id, presentation_id, version_number) \<Rightarrow>
          if row_get cpr_presentation_id (cd_presentations db) presentation_id = None
             \<or> env_entity_id event \<noteq> Some version_id
          then Inr (Inl (refuse (env_event_id event) ''presentation_metadata_required'' None))
          else
          (case row_get cpv_presentation_version_id (cd_versions db) version_id of
             None \<Rightarrow> outcome_bind (insert_version ((default_central_presentation_version now)\<lparr>
                        cpv_presentation_version_id := version_id, cpv_presentation_id := presentation_id,
                        cpv_version_number := version_number\<rparr>) db) (\<lambda>db'. Inr (Inr db'))
           | Some version \<Rightarrow>
               if cpv_presentation_id version \<noteq> presentation_id \<or> cpv_version_number version \<noteq> version_number
               then Inr (Inl (refuse (env_event_id event) ''presentation_version_conflict'' None))
               else Inr (Inr db)))"

section \<open>The handler\<close>

definition central_cursor :: "uuid \<Rightarrow> string \<Rightarrow> central_db \<Rightarrow> central_sync_cursor option" where
  "central_cursor site_id direction db =
     row_get (\<lambda>c. (ccu_site_id c, ccu_direction c)) (cd_cursors db) (site_id, direction)"

definition inbound_last :: "uuid \<Rightarrow> central_db \<Rightarrow> int" where
  "inbound_last site_id db =
     (case central_cursor site_id ''site_to_central'' db of None \<Rightarrow> 0 | Some c \<Rightarrow> ccu_last_sequence c)"

definition site_receipts :: "uuid \<Rightarrow> central_db \<Rightarrow> central_sync_receipt list" where
  "site_receipts site_id db = filter (\<lambda>r. crc_site_id r = site_id) (cd_receipts db)"

text \<open>The branch an event type selects.\<close>

definition site_event_effect ::
  "codec \<Rightarrow> datetime \<Rightarrow> uuid \<Rightarrow> sync_event_envelope \<Rightarrow> central_db \<Rightarrow> central_effect" where
  "site_event_effect cx now site_id event db =
     (let kind = env_event_type event in
      if kind \<in> {''site.heartbeat'', ''site.metadata.updated''} then apply_site_heartbeat cx now site_id event db
      else if kind \<in> set report_types then apply_deployment_report cx now site_id event db
      else if kind = ''site.media_transfer.progress'' then apply_transfer_progress cx now site_id event db
      else if kind = ''site.presentation.upserted'' then apply_site_presentation cx now site_id event db
      else if kind = ''site.presentation_version.created'' then apply_site_presentation_version cx now event db
      else Inr (Inl (refuse (env_event_id event) ''unsupported_event_type'' None)))"

definition central_record_receipt ::
  "codec \<Rightarrow> datetime \<Rightarrow> uuid \<Rightarrow> sync_event_envelope \<Rightarrow> central_db \<Rightarrow> central_db" where
  "central_record_receipt cx now site_id event db =
     (let db1 = (central_minted db)\<lparr>cd_receipts := cd_receipts db @
            [\<lparr>crc_receipt_id = central_fresh cx db, crc_site_id = site_id, crc_event_id = env_event_id event,
              crc_source_sequence = env_source_sequence event, crc_event_type = env_event_type event,
              crc_received_at = now\<rparr>]\<rparr>;
          db2 = (case central_cursor site_id ''site_to_central'' db of
                   None \<Rightarrow> db1\<lparr>cd_cursors := cd_cursors db1 @
                     [\<lparr>ccu_site_id = site_id, ccu_direction = ''site_to_central'', ccu_last_sequence = 0,
                       ccu_last_event_id = None\<rparr>]\<rparr>
                 | Some c \<Rightarrow> db1)
      in db2\<lparr>cd_cursors := row_put (\<lambda>c. (ccu_site_id c, ccu_direction c)) (site_id, ''site_to_central'')
              (\<lambda>c. c\<lparr>ccu_last_sequence := env_source_sequence event,
                     ccu_last_event_id := Some (env_event_id event)\<rparr>) (cd_cursors db2)\<rparr>)"

definition apply_site_event ::
  "codec \<Rightarrow> datetime \<Rightarrow> uuid \<Rightarrow> sync_event_envelope \<Rightarrow> central_db \<Rightarrow> (event_acknowledgement \<times> central_db) outcome" where
  "apply_site_event cx now site_id event db =
     (if env_protocol_version event \<noteq> UPM_SYNC_PROTOCOL_VERSION
      then Inr (refuse (env_event_id event) ''incompatible_protocol'' None, db)
      else if env_source event \<noteq> ''site'' \<or> env_source_site_id event \<noteq> Some site_id
              \<or> env_authority event \<noteq> Auth_SITE
      then Inr (refuse (env_event_id event) ''invalid_authority'' None, db)
      else if \<exists>r \<in> set (site_receipts site_id db). crc_event_id r = env_event_id event
      then Inr (accept_duplicate (env_event_id event), db)
      else if env_source_sequence event \<noteq> inbound_last site_id db + 1
      then Inr (refuse (env_event_id event) ''sequence_gap''
                  (Some (''expected '' @ str_int (inbound_last site_id db + 1))), db)
      else outcome_bind (site_event_effect cx now site_id event db)
             (\<lambda>effect. case effect of
                Inl ack \<Rightarrow> Inr (ack, db)
              | Inr db' \<Rightarrow> Inr (accept (env_event_id event), central_record_receipt cx now site_id event db')))"

section \<open>Authentication and endpoints\<close>

text \<open>\<open>digest\<close> is SHA-256 in hexadecimal; comparing digests in constant time is comparing them.\<close>

definition secrets_match :: "(string \<Rightarrow> string) \<Rightarrow> string \<Rightarrow> string \<Rightarrow> bool" where
  "secrets_match digest secret expected_hash \<longleftrightarrow> digest secret = expected_hash"

definition authenticate_site ::
  "(string \<Rightarrow> string) \<Rightarrow> uuid \<Rightarrow> string option \<Rightarrow> central_db \<Rightarrow> central_site outcome" where
  "authenticate_site digest site_id bearer db =
     (case bearer of
        None \<Rightarrow> Inl (HTTPException 401 ''missing_site_credential'')
      | Some token \<Rightarrow>
          if token = [] then Inl (HTTPException 401 ''missing_site_credential'')
          else (case find (\<lambda>c. ccr_site_id c = site_id \<and> ccr_revoked_at c = None) (cd_credentials db) of
             None \<Rightarrow> Inl (HTTPException 401 ''invalid_site_credential'')
           | Some credential \<Rightarrow>
               if \<not> secrets_match digest token (ccr_token_hash credential)
               then Inl (HTTPException 401 ''invalid_site_credential'')
               else (case row_get ccs_site_id (cd_sites db) site_id of
                       None \<Rightarrow> Inl (HTTPException 403 ''site_not_active'')
                     | Some site \<Rightarrow>
                         if ccs_enrollment_state site \<noteq> Enroll_ACTIVE \<or> \<not> ccs_enabled site
                         then Inl (HTTPException 403 ''site_not_active'') else Inr site)))"

definition bearer_token :: "string option \<Rightarrow> string option" where
  "bearer_token authorization =
     (case authorization of
        None \<Rightarrow> None
      | Some a \<Rightarrow> if starts_with a ''Bearer '' then Some (drop 7 a) else None)"

definition authenticated ::
  "(string \<Rightarrow> string) \<Rightarrow> uuid option \<Rightarrow> string option \<Rightarrow> central_db \<Rightarrow> central_site outcome" where
  "authenticated digest x_upm_site_id authorization db =
     (case x_upm_site_id of
        None \<Rightarrow> Inl (HTTPException 401 ''missing site identity'')
      | Some site_id \<Rightarrow> authenticate_site digest site_id (bearer_token authorization) db)"

definition receive_site_events ::
  "codec \<Rightarrow> (string \<Rightarrow> string) \<Rightarrow> datetime \<Rightarrow> uuid option \<Rightarrow> string option \<Rightarrow> int \<Rightarrow> sync_event_envelope list
   \<Rightarrow> central_db \<Rightarrow> ((event_acknowledgement list \<times> int) \<times> central_db) outcome" where
  "receive_site_events cx digest now x_upm_site_id authorization protocol_version events db =
     outcome_bind (authenticated digest x_upm_site_id authorization db) (\<lambda>site.
     if protocol_version \<noteq> UPM_SYNC_PROTOCOL_VERSION
     then Inl (HTTPException 409 ''incompatible_sync_protocol'')
     else outcome_bind (apply_batch (apply_site_event cx now (ccs_site_id site)) events db)
       (\<lambda>(acks, db'). Inr ((acks, inbound_last (ccs_site_id site) db'), db')))"

definition site_heartbeat_endpoint ::
  "codec \<Rightarrow> (string \<Rightarrow> string) \<Rightarrow> datetime \<Rightarrow> uuid \<Rightarrow> string option \<Rightarrow> sync_event_envelope list
   \<Rightarrow> central_db \<Rightarrow> ((event_acknowledgement list \<times> int) \<times> central_db) outcome" where
  "site_heartbeat_endpoint cx digest now site_id authorization events db =
     outcome_bind (authenticate_site digest site_id (bearer_token authorization) db) (\<lambda>site.
     outcome_bind (apply_batch (apply_site_event cx now (ccs_site_id site)) events db)
       (\<lambda>(acks, db'). Inr ((acks, inbound_last (ccs_site_id site) db'), db')))"

text \<open>
  The events waiting for a Site, oldest sequence number first; a row without one sorts
  last in PostgreSQL.
\<close>

definition outbound_events ::
  "(string \<Rightarrow> string) \<Rightarrow> nat \<Rightarrow> uuid option \<Rightarrow> string option \<Rightarrow> central_db \<Rightarrow> sync_event_envelope list outcome" where
  "outbound_events digest sync_batch_count x_upm_site_id authorization db =
     outcome_bind (authenticated digest x_upm_site_id authorization db) (\<lambda>site.
     Inr (map central_envelope (take sync_batch_count
       (sort_key (\<lambda>e. (o_source_sequence e = None, default_to 0 (o_source_sequence e)))
         (filter (\<lambda>e. o_site_id e = x_upm_site_id \<and> o_status e \<in> {Job_PENDING, Job_RETRY_WAIT, Job_RUNNING})
           (q_outbox (cd_queue db)))))))"

definition acknowledge_central_events ::
  "(string \<Rightarrow> string) \<Rightarrow> datetime \<Rightarrow> uuid option \<Rightarrow> string option \<Rightarrow> event_ack_request \<Rightarrow> central_db
   \<Rightarrow> ((nat \<times> int) \<times> central_db) outcome" where
  "acknowledge_central_events digest now x_upm_site_id authorization request db =
     outcome_bind (authenticated digest x_upm_site_id authorization db) (\<lambda>site.
     if ear_protocol_version request \<noteq> UPM_SYNC_PROTOCOL_VERSION
     then Inl (HTTPException 409 ''incompatible_sync_protocol'')
     else let site_id = ccs_site_id site;
              mine = (\<lambda>e. o_site_id e = Some site_id \<and> o_id e \<in> set (ear_event_ids request));
              events = filter mine (q_outbox (cd_queue db));
              current = (case central_cursor site_id ''central_to_site'' db of
                           None \<Rightarrow> 0 | Some c \<Rightarrow> ccu_last_sequence c);
              highest_owned_sequence = (case events of
                  [] \<Rightarrow> current
                | _ \<Rightarrow> fold max (map (\<lambda>e. default_to 0 (o_source_sequence e)) (tl events))
                        (default_to 0 (o_source_sequence (hd events))));
              checkpoint = max current (ear_checkpoint_sequence request)
          in if ear_checkpoint_sequence request > highest_owned_sequence
             then Inl (HTTPException 409 ''invalid checkpoint sequence'')
             else Inr ((length events, checkpoint),
               db\<lparr>cd_queue := (cd_queue db)\<lparr>q_outbox := map (\<lambda>e. if mine e
                    then e\<lparr>o_status := Job_SUCCEEDED, o_processed_at := Some now,
                           o_claimed_by := None, o_lease_expires_at := None\<rparr> else e) (q_outbox (cd_queue db))\<rparr>,
                  cd_cursors := (case central_cursor site_id ''central_to_site'' db of
                      None \<Rightarrow> cd_cursors db @ [\<lparr>ccu_site_id = site_id, ccu_direction = ''central_to_site'',
                               ccu_last_sequence = checkpoint, ccu_last_event_id = None\<rparr>]
                    | Some c \<Rightarrow> row_put (\<lambda>c. (ccu_site_id c, ccu_direction c)) (site_id, ''central_to_site'')
                               (\<lambda>c. c\<lparr>ccu_last_sequence := checkpoint\<rparr>) (cd_cursors db)),
                  cd_sites := row_put ccs_site_id site_id
                    (\<lambda>s. s\<lparr>ccs_last_successful_sync_at := Some now\<rparr>) (cd_sites db)\<rparr>))"

section \<open>A branch writes no receipt and no cursor\<close>

definition keeps_channel :: "central_db \<Rightarrow> central_db \<Rightarrow> bool" where
  "keeps_channel db db' \<longleftrightarrow> cd_receipts db' = cd_receipts db \<and> cd_cursors db' = cd_cursors db"

lemma keeps_channel_simps [simp]:
  "keeps_channel db db" "keeps_channel db (touch_site now i db') \<longleftrightarrow> keeps_channel db db'"
  "keeps_channel db (db\<lparr>cd_deployments := ds\<rparr>)" "keeps_channel db (store_progress cx now p k db)"
  "keeps_channel db (db\<lparr>cd_presentations := ps\<rparr>)" "keeps_channel db (db\<lparr>cd_versions := vs\<rparr>)"
  by (simp_all add: keeps_channel_def touch_site_def store_progress_def)

text \<open>What every branch guarantees: a refusal is a refusal, a success leaves the channel to the handler.\<close>

definition good_effect :: "central_db \<Rightarrow> central_effect \<Rightarrow> bool" where
  "good_effect db r \<longleftrightarrow>
     (\<forall>ack. r = Inr (Inl ack) \<longrightarrow> \<not> ack_accepted ack) \<and> (\<forall>db'. r = Inr (Inr db') \<longrightarrow> keeps_channel db db')"

lemma good_effect_heartbeat: "good_effect db (apply_site_heartbeat cx now site_id event db)"
  by (auto simp: good_effect_def apply_site_heartbeat_def Let_def keeps_channel_def touch_site_def
      outcome_bind_Inr_conv)

lemma good_effect_report: "good_effect db (apply_deployment_report cx now site_id event db)"
  by (auto simp: good_effect_def apply_deployment_report_def split: sum.splits option.splits)

lemma good_effect_progress: "good_effect db (apply_transfer_progress cx now site_id event db)"
  by (auto simp: good_effect_def apply_transfer_progress_def outcome_bind_Inr_conv
      split: sum.splits option.splits if_splits)

lemma presentation_writes_keep:
  "create_site_presentation cx now i p e s r pl db = Inr db' \<Longrightarrow> keeps_channel db db'"
  "update_site_presentation cx p s r pl db = Inr db' \<Longrightarrow> keeps_channel db db'"
  "insert_version v db = Inr db' \<Longrightarrow> keeps_channel db db'"
  by (auto simp: create_site_presentation_def update_site_presentation_def insert_presentation_def
      insert_version_def outcome_bind_Inr_conv split: if_splits)

lemma good_effect_presentation: "good_effect db (apply_site_presentation cx now site_id event db)"
  by (auto simp: good_effect_def apply_site_presentation_def outcome_bind_Inr_conv
      split: sum.splits option.splits prod.splits if_splits dest: presentation_writes_keep)

lemma good_effect_version: "good_effect db (apply_site_presentation_version cx now event db)"
  by (auto simp: good_effect_def apply_site_presentation_version_def outcome_bind_Inr_conv
      split: sum.splits option.splits prod.splits if_splits dest: presentation_writes_keep)

lemma good_effect_all: "good_effect db (site_event_effect cx now site_id event db)"
  unfolding site_event_effect_def Let_def
  using good_effect_heartbeat good_effect_report good_effect_progress good_effect_presentation
    good_effect_version
  by (auto simp: good_effect_def)

section \<open>The handler is an ordered channel\<close>

definition receipt_log :: "uuid \<Rightarrow> central_db \<Rightarrow> (uuid \<times> int) list" where
  "receipt_log site_id db = map (\<lambda>r. (crc_event_id r, crc_source_sequence r)) (site_receipts site_id db)"

interpretation cursor_update: row_update "\<lambda>c. (ccu_site_id c, ccu_direction c)"
  "\<lambda>c. c\<lparr>ccu_last_sequence := q, ccu_last_event_id := i\<rparr>" for q i
  by unfold_locales simp

lemma receipt_log_record [simp]:
  "receipt_log i (central_record_receipt cx now i e db) =
     receipt_log i db @ [(env_event_id e, env_source_sequence e)]"
  by (simp add: receipt_log_def site_receipts_def central_record_receipt_def Let_def split: option.splits)

lemma receipt_log_record_other:
  "j \<noteq> i \<Longrightarrow> receipt_log j (central_record_receipt cx now i e db) = receipt_log j db"
  by (simp add: receipt_log_def site_receipts_def central_record_receipt_def Let_def split: option.splits)

lemma inbound_last_record [simp]:
  "inbound_last i (central_record_receipt cx now i e db) = env_source_sequence e"
proof (cases "central_cursor i ''site_to_central'' db")
  case None
  then have g: "row_get (\<lambda>c. (ccu_site_id c, ccu_direction c)) (cd_cursors db) (i, ''site_to_central'') = None"
    by (simp add: central_cursor_def)
  show ?thesis
    by (simp add: inbound_last_def central_cursor_def central_record_receipt_def Let_def g
        cursor_update.get_same row_get_append)
next
  case (Some c)
  then have g: "row_get (\<lambda>c. (ccu_site_id c, ccu_direction c)) (cd_cursors db) (i, ''site_to_central'') = Some c"
    by (simp add: central_cursor_def)
  show ?thesis
    by (simp add: inbound_last_def central_cursor_def central_record_receipt_def Let_def g
        cursor_update.get_same)
qed

lemma keeps_channel_reads:
  "keeps_channel db db' \<Longrightarrow> receipt_log i db' = receipt_log i db \<and> inbound_last i db' = inbound_last i db"
  by (simp add: keeps_channel_def receipt_log_def site_receipts_def inbound_last_def central_cursor_def)

lemma receipt_log_ids: "fst ` set (receipt_log i db) = crc_event_id ` set (site_receipts i db)"
  by (force simp: receipt_log_def)

lemma apply_site_event_fresh:
  assumes "apply_site_event cx now i e db = Inr (ack, db')" and "fresh_accept ack"
  obtains db1 where "site_event_effect cx now i e db = Inr (Inr db1)" and "ack = accept (env_event_id e)"
    and "db' = central_record_receipt cx now i e db1" and "keeps_channel db db1"
    and "env_source_sequence e = inbound_last i db + 1"
    and "\<forall>r \<in> set (site_receipts i db). crc_event_id r \<noteq> env_event_id e"
    and "env_source_site_id e = Some i" and "env_authority e = Auth_SITE"
    and "env_protocol_version e = UPM_SYNC_PROTOCOL_VERSION"
proof -
  have r: "\<not> fresh_accept a" if "site_event_effect cx now i e db = Inr (Inl a)" for a
    using good_effect_all [of db cx now i e] that by (auto simp: good_effect_def fresh_accept_def)
  show thesis
    using assms good_effect_all [of db cx now i e] that r
    by (cases "site_event_effect cx now i e db")
      (auto simp: apply_site_event_def good_effect_def split: if_splits sum.split_asm)
qed

lemma apply_site_event_unapplied:
  assumes "apply_site_event cx now i e db = Inr (ack, db')" and "\<not> fresh_accept ack"
  shows "db' = db"
  using assms
  by (cases "site_event_effect cx now i e db")
    (auto simp: apply_site_event_def split: if_splits sum.split_asm)

interpretation central_inbound: ordered_channel
  "apply_site_event cx now site_id" env_event_id env_source_sequence "receipt_log site_id" "inbound_last site_id"
  for cx now site_id
proof
  fix e db ack db'
  assume a: "apply_site_event cx now site_id e db = Inr (ack, db')" and f: "fresh_accept ack"
  then obtain db1 where d: "db' = central_record_receipt cx now site_id e db1" and k: "keeps_channel db db1"
    and s: "env_source_sequence e = inbound_last site_id db + 1"
    and n: "\<forall>r \<in> set (site_receipts site_id db). crc_event_id r \<noteq> env_event_id e"
    by (rule apply_site_event_fresh)
  from keeps_channel_reads [OF k] s n show "env_source_sequence e = inbound_last site_id db + 1
      \<and> inbound_last site_id db' = env_source_sequence e
      \<and> env_event_id e \<notin> fst ` set (receipt_log site_id db)
      \<and> receipt_log site_id db' = receipt_log site_id db @ [(env_event_id e, env_source_sequence e)]"
    by (auto simp: d receipt_log_ids)
next
  fix e db ack db'
  assume "apply_site_event cx now site_id e db = Inr (ack, db')" and "\<not> fresh_accept ack"
  then show "receipt_log site_id db' = receipt_log site_id db \<and> inbound_last site_id db' = inbound_last site_id db"
    by (auto dest: apply_site_event_unapplied)
qed

section \<open>Exactly once, in order\<close>


lemma batch_no_change:
  assumes "apply_batch (apply_site_event cx now site_id) events db = Inr (acks, db')"
    and "\<And>e. e \<in> set events \<Longrightarrow> env_source_sequence e \<noteq> inbound_last site_id db + 1"
  shows "db' = db \<and> list_all (\<lambda>a. \<not> fresh_accept a) acks"
  using assms
proof (induction events arbitrary: db acks)
  case (Cons e es)
  then obtain ack db1 acks' where a: "apply_site_event cx now site_id e db = Inr (ack, db1)"
    and r: "apply_batch (apply_site_event cx now site_id) es db1 = Inr (acks', db')" and acks: "acks = ack # acks'"
    by (auto simp: outcome_bind_Inr_conv)
  have no: "\<not> fresh_accept ack" using central_inbound.applied [OF a] Cons.prems(2) by auto
  from apply_site_event_unapplied [OF a no] Cons.IH [OF r] Cons.prems(2) no show ?case by (simp add: acks)
qed simp


definition demo_envelope :: "uuid \<Rightarrow> int \<Rightarrow> sync_event_envelope" where
  "demo_envelope i n =
     \<lparr>env_event_id = i, env_event_type = ''site.heartbeat'', env_protocol_version = 1, env_source = ''site'',
      env_source_site_id = Some 7, env_source_sequence = n, env_authority = Auth_SITE,
      env_entity_type = ''site_operational_status'', env_entity_id = Some 7, env_occurred_at = 0,
      env_payload = [(''application_version'', JStr ''1.0'')], env_payload_schema_version = 1,
      env_correlation_id = None, env_causation_id = None\<rparr>"

text \<open>Two heartbeats, the first one delivered twice.\<close>

lemma demo_batch:
  "\<exists>db'. apply_batch (apply_site_event demo_codec 5 7) [demo_envelope 1 1, demo_envelope 1 1, demo_envelope 2 2]
     empty_central_db = Inr ([accept 1, accept_duplicate 1, accept 2], db')"
  by (simp add: apply_site_event_def demo_envelope_def site_event_effect_def apply_site_heartbeat_def
      UPM_SYNC_PROTOCOL_VERSION_def empty_central_db_def site_receipts_def inbound_last_def central_cursor_def
      central_record_receipt_def Let_def touch_site_def central_minted_def dict_get_def)


lemma demo_blocked:
  "apply_batch (apply_site_event demo_codec 5 7) [demo_envelope 2 2, demo_envelope 3 3] empty_central_db
     = Inr ([refuse 2 ''sequence_gap'' (Some ''expected 1''), refuse 3 ''sequence_gap'' (Some ''expected 1'')],
            empty_central_db)"
  by code_simp


section \<open>Deployment reports\<close>

interpretation report_update: row_update ced_deployment_id "record_report now report" for now report
  by unfold_locales (simp add: record_report_def Let_def)

lemma record_report_identity [simp]:
  "ced_deployment_id (record_report now r d) = ced_deployment_id d"
  "ced_event_id (record_report now r d) = ced_event_id d"
  "ced_site_id (record_report now r d) = ced_site_id d"
  "ced_desired_revision (record_report now r d) = ced_desired_revision d"
  by (simp_all add: record_report_def Let_def)

lemma record_report_acknowledged_eq:
  "ced_acknowledged_revision (record_report now r d) =
     (if sds_status r \<in> {''applied'', ''stale''}
      then max (ced_acknowledged_revision d) (min (sds_applied_revision r) (ced_desired_revision d))
      else if sds_status r = ''revoked''
      then max (ced_acknowledged_revision d) (min (sds_desired_revision r) (ced_desired_revision d))
      else ced_acknowledged_revision d)"
  by (auto simp: record_report_def Let_def)

lemma record_report_status_eq:
  "ced_status (record_report now r d) =
     (if sds_status r \<in> {''applied'', ''stale''}
      then (if ced_acknowledged_revision (record_report now r d) = ced_desired_revision d
            then Dep_DEPLOYED else Dep_UPDATE_PENDING)
      else if sds_status r = ''received''
      then (if ced_status d \<in> {Dep_PENDING, Dep_UPDATE_PENDING} then Dep_DEPLOYING else ced_status d)
      else if sds_status r = ''failed'' then Dep_FAILED
      else if sds_status r = ''revoked'' then Dep_REVOKED else ced_status d)"
  unfolding record_report_acknowledged_eq by (auto simp: record_report_def Let_def)

lemma record_report_acknowledged:
  assumes "ced_acknowledged_revision d \<le> ced_desired_revision d"
  shows "ced_acknowledged_revision d \<le> ced_acknowledged_revision (record_report now r d)"
    and "ced_acknowledged_revision (record_report now r d) \<le> ced_desired_revision d"
  using assms by (simp_all add: record_report_acknowledged_eq)

lemma record_report_deployed:
  "ced_status (record_report now r d) = Dep_DEPLOYED \<Longrightarrow> ced_status d \<noteq> Dep_DEPLOYED \<Longrightarrow>
     ced_acknowledged_revision (record_report now r d) = ced_desired_revision d"
  by (simp add: record_report_status_eq split: if_splits)

text \<open>Only the report branch writes the deployment table.\<close>

lemma deployments_kept [simp]:
  "cd_deployments (touch_site now i db) = cd_deployments db"
  "cd_deployments (store_progress cx now p k db) = cd_deployments db"
  by (simp_all add: touch_site_def store_progress_def)

lemma branch_deployments:
  "apply_site_heartbeat cx now i e db = Inr (Inr db') \<Longrightarrow> cd_deployments db' = cd_deployments db"
  "apply_transfer_progress cx now i e db = Inr (Inr db') \<Longrightarrow> cd_deployments db' = cd_deployments db"
  "create_site_presentation cx now i p ev s r pl db = Inr db' \<Longrightarrow> cd_deployments db' = cd_deployments db"
  "update_site_presentation cx p s r pl db = Inr db' \<Longrightarrow> cd_deployments db' = cd_deployments db"
  "insert_version v db = Inr db' \<Longrightarrow> cd_deployments db' = cd_deployments db"
proof -
  show "apply_site_heartbeat cx now i e db = Inr (Inr db') \<Longrightarrow> cd_deployments db' = cd_deployments db"
    by (auto simp: apply_site_heartbeat_def touch_site_def Let_def outcome_bind_Inr_conv)
  show "apply_transfer_progress cx now i e db = Inr (Inr db') \<Longrightarrow> cd_deployments db' = cd_deployments db"
    by (auto simp: apply_transfer_progress_def outcome_bind_Inr_conv split: if_splits sum.splits option.splits)
qed (auto simp: create_site_presentation_def update_site_presentation_def insert_presentation_def
    insert_version_def outcome_bind_Inr_conv split: if_splits)

lemma presentation_branch_deployments:
  "apply_site_presentation cx now i e db = Inr (Inr db') \<Longrightarrow> cd_deployments db' = cd_deployments db"
  "apply_site_presentation_version cx now e db = Inr (Inr db') \<Longrightarrow> cd_deployments db' = cd_deployments db"
  by (auto simp: apply_site_presentation_def apply_site_presentation_version_def outcome_bind_Inr_conv
      split: sum.splits option.splits prod.splits if_splits dest: branch_deployments)

lemma report_branch_deployments:
  "apply_deployment_report cx now i e db = Inr (Inr db') \<Longrightarrow>
     \<exists>report d. row_get ced_deployment_id (cd_deployments db) (sds_deployment_id report) = Some d
       \<and> ced_site_id d = i \<and> cd_deployments db' = row_put ced_deployment_id (sds_deployment_id report)
            (record_report now report) (cd_deployments db)"
  unfolding apply_deployment_report_def
  by (clarsimp split: sum.splits option.splits if_splits, blast)

lemma effect_deployments:
  assumes "site_event_effect cx now i e db = Inr (Inr db')"
  shows "cd_deployments db' = cd_deployments db
    \<or> (\<exists>report d. row_get ced_deployment_id (cd_deployments db) (sds_deployment_id report) = Some d
         \<and> ced_site_id d = i \<and> cd_deployments db' = row_put ced_deployment_id (sds_deployment_id report)
              (record_report now report) (cd_deployments db))"
  using assms branch_deployments(1,2) presentation_branch_deployments report_branch_deployments
  unfolding site_event_effect_def Let_def by (auto split: if_splits)

lemma record_receipt_deployments [simp]:
  "cd_deployments (central_record_receipt cx now i e db) = cd_deployments db"
  by (simp add: central_record_receipt_def Let_def split: option.splits)

text \<open>
  C9: What any Site event does to a deployment. The acknowledged revision never goes back
  and never passes the revision Central wants, the wanted revision and the identity stay,
  a deployment of another Site is not touched, and a deployment becomes \<open>deployed\<close> only
  when the revision Central wants is the one acknowledged.
\<close>

theorem deployment_acknowledgement_sound:
  assumes "apply_site_event cx now site_id event db = Inr (ack, db')"
    and "row_get ced_deployment_id (cd_deployments db) k = Some d"
    and "ced_acknowledged_revision d \<le> ced_desired_revision d"
  shows "\<exists>d'. row_get ced_deployment_id (cd_deployments db') k = Some d'
      \<and> ced_desired_revision d' = ced_desired_revision d \<and> ced_site_id d' = ced_site_id d
      \<and> ced_event_id d' = ced_event_id d
      \<and> ced_acknowledged_revision d \<le> ced_acknowledged_revision d'
      \<and> ced_acknowledged_revision d' \<le> ced_desired_revision d'
      \<and> (ced_site_id d \<noteq> site_id \<longrightarrow> d' = d)
      \<and> (ced_status d' = Dep_DEPLOYED \<longrightarrow> ced_status d = Dep_DEPLOYED
           \<or> ced_acknowledged_revision d' = ced_desired_revision d')"
proof (cases "fresh_accept ack")
  case False
  with apply_site_event_unapplied [OF assms(1)] assms show ?thesis by auto
next
  case True
  with assms(1) obtain db1 where e: "site_event_effect cx now site_id event db = Inr (Inr db1)"
    and d': "db' = central_record_receipt cx now site_id event db1"
    by (rule apply_site_event_fresh)
  from effect_deployments [OF e] show ?thesis
  proof
    assume "cd_deployments db1 = cd_deployments db"
    with assms show ?thesis by (auto simp: d')
  next
    assume "\<exists>report d. row_get ced_deployment_id (cd_deployments db) (sds_deployment_id report) = Some d
         \<and> ced_site_id d = site_id \<and> cd_deployments db1 = row_put ced_deployment_id (sds_deployment_id report)
              (record_report now report) (cd_deployments db)"
    then obtain report d0 where g: "row_get ced_deployment_id (cd_deployments db) (sds_deployment_id report) = Some d0"
      and own: "ced_site_id d0 = site_id"
      and p: "cd_deployments db1 = row_put ced_deployment_id (sds_deployment_id report)
              (record_report now report) (cd_deployments db)"
      by blast
    show ?thesis
    proof (cases "sds_deployment_id report = k")
      case True
      with g assms(2) own have "d0 = d" "ced_site_id d = site_id" by auto
      moreover have "row_get ced_deployment_id (cd_deployments db') k = Some (record_report now report d)"
        using True assms(2) by (simp add: d' p report_update.get_same)
      ultimately show ?thesis
        using record_report_acknowledged [OF assms(3), of now report] record_report_deployed [of now report d]
        by auto
    next
      case False
      then have "row_get ced_deployment_id (cd_deployments db') k = Some d"
        using assms(2) by (simp add: d' p report_update.get_other)
      with assms(3) show ?thesis by auto
    qed
  qed
qed

definition demo_deployment :: "event_deployment_status \<Rightarrow> int \<Rightarrow> int \<Rightarrow> central_event_deployment" where
  "demo_deployment status desired acknowledged =
     (default_central_event_deployment 0)\<lparr>ced_deployment_id := 3, ced_event_id := 4, ced_site_id := 7,
       ced_status := status, ced_desired_revision := desired, ced_acknowledged_revision := acknowledged\<rparr>"

definition demo_status :: "string \<Rightarrow> int \<Rightarrow> int \<Rightarrow> site_deployment_status" where
  "demo_status status desired applied =
     \<lparr>sds_schema_version = 1, sds_deployment_id = 3, sds_event_id = 4, sds_site_id = 7,
      sds_desired_revision = desired, sds_applied_revision = applied, sds_status = status,
      sds_failure_reason = None, sds_summary_counts = [], sds_observed_at = 0\<rparr>"

definition demo_report :: "string \<Rightarrow> sync_event_envelope" where
  "demo_report kind = (demo_envelope 1 1)\<lparr>env_event_type := kind, env_entity_id := Some 3\<rparr>"

definition report_codec :: "site_deployment_status \<Rightarrow> codec" where
  "report_codec r = demo_codec\<lparr>decode_status := (\<lambda>p. Inr r)\<rparr>"

lemma demo_apply_report:
  "(case apply_site_event (report_codec (demo_status ''applied'' 1 1)) 5 7
       (demo_report ''site.event_deployment.applied'')
       (empty_central_db\<lparr>cd_deployments := [demo_deployment Dep_PENDING 1 0]\<rparr>) of
      Inl e \<Rightarrow> False
    | Inr (ack, db') \<Rightarrow> map ced_status (cd_deployments db') = [Dep_DEPLOYED])"
  by code_simp

theorem deployment_acknowledgement_sound_witness:
  "\<exists>(db' :: central_db) d'. map ced_status (cd_deployments db') = [Dep_DEPLOYED]
     \<and> row_get ced_deployment_id (cd_deployments db') 3 = Some d'
     \<and> 0 \<le> ced_acknowledged_revision d' \<and> ced_acknowledged_revision d' \<le> ced_desired_revision d'"
proof -
  obtain ack db' where b: "apply_site_event (report_codec (demo_status ''applied'' 1 1)) 5 7
      (demo_report ''site.event_deployment.applied'')
      (empty_central_db\<lparr>cd_deployments := [demo_deployment Dep_PENDING 1 0]\<rparr>) = Inr (ack, db')"
    and s: "map ced_status (cd_deployments db') = [Dep_DEPLOYED]"
    using demo_apply_report by (auto split: sum.splits)
  have g: "row_get ced_deployment_id (cd_deployments (empty_central_db\<lparr>cd_deployments :=
      [demo_deployment Dep_PENDING 1 0]\<rparr>)) 3 = Some (demo_deployment Dep_PENDING 1 0)"
    and l: "ced_acknowledged_revision (demo_deployment Dep_PENDING 1 0)
      \<le> ced_desired_revision (demo_deployment Dep_PENDING 1 0)"
    and z: "ced_acknowledged_revision (demo_deployment Dep_PENDING 1 0) = 0"
    by (simp_all add: demo_deployment_def)
  from deployment_acknowledgement_sound [OF b g l]
  obtain d' where "row_get ced_deployment_id (cd_deployments db') 3 = Some d'"
    and "0 \<le> ced_acknowledged_revision d'" and "ced_acknowledged_revision d' \<le> ced_desired_revision d'"
    unfolding z by auto
  with s show ?thesis by (intro exI [of _ db'] exI [of _ d'] conjI)
qed

section \<open>Transfer progress\<close>

interpretation transfer_update: row_update j_id "transfer_with_progress cx now p" for cx now p
  by unfold_locales (simp add: transfer_with_progress_def Let_def)

lemma recorded_offset_progress: "recorded_offset (transfer_with_progress cx now p t) = Inr (prg_confirmed_offset p)"
  by (simp add: recorded_offset_def transfer_with_progress_def Let_def payload_dict_def py_int_def)

lemma percentage_bounds:
  assumes "0 \<le> n" "n \<le> m"
  shows "(0::rat) \<le> (if m = 0 then 100 else of_int (n * 100) / of_int m)"
    and "(if m = 0 then 100 else of_int (n * 100) / of_int m) \<le> (100::rat)"
proof -
  have "(of_int n :: rat) \<le> of_int m" "(0::rat) \<le> of_int n" using assms by simp_all
  then show "(0::rat) \<le> (if m = 0 then 100 else of_int (n * 100) / of_int m)"
    and "(if m = 0 then 100 else of_int (n * 100) / of_int m) \<le> (100::rat)"
    using assms by (auto simp: divide_le_eq)
qed

lemma progress_of_transfer:
  "j_progress (transfer_with_progress cx now p t) =
     (if prg_expected_size p = 0 then 100 else of_int (prg_confirmed_offset p * 100) / of_int (prg_expected_size p))"
  by (simp add: transfer_with_progress_def Let_def)

lemma transfers_stored [simp]:
  "cd_queue (touch_site now i db) = cd_queue db"
  "q_transfer (cd_queue (store_progress cx now p k db)) =
     row_put j_id (prg_transfer_session_id p) (transfer_with_progress cx now p) (q_transfer (cd_queue db))"
  by (simp_all add: touch_site_def store_progress_def)

lemma progress_branch_transfers:
  assumes "apply_transfer_progress cx now i e db = Inr (Inr db')"
  shows "q_transfer (cd_queue db') = q_transfer (cd_queue db)
    \<or> (\<exists>p t n. row_get j_id (q_transfer (cd_queue db)) (prg_transfer_session_id p) = Some t
         \<and> validate_progress cx (env_payload e) = Inr p \<and> recorded_offset t = Inr n
         \<and> n \<le> prg_confirmed_offset p \<and> j_status t \<noteq> Job_SUCCEEDED \<and> j_site_id t = Some i
         \<and> q_transfer (cd_queue db') = row_put j_id (prg_transfer_session_id p)
              (transfer_with_progress cx now p) (q_transfer (cd_queue db)))"
proof (cases "validate_progress cx (env_payload e)")
  case (Inl err)
  with assms show ?thesis by (simp add: apply_transfer_progress_def)
next
  case (Inr p)
  obtain t where t: "row_get j_id (q_transfer (cd_queue db)) (prg_transfer_session_id p) = Some t"
    using assms Inr by (cases "row_get j_id (q_transfer (cd_queue db)) (prg_transfer_session_id p)")
      (simp_all add: apply_transfer_progress_def split: if_split_asm)
  obtain mi where mi: "find (\<lambda>mi. cmi_transfer_job_id mi = Some (prg_transfer_session_id p)) (cd_media_imports db) = Some mi"
    using assms Inr t
    by (cases "find (\<lambda>mi. cmi_transfer_job_id mi = Some (prg_transfer_session_id p)) (cd_media_imports db)")
      (simp_all add: apply_transfer_progress_def split: if_split_asm)
  have k: "progress_known i p t mi"
    using assms Inr t mi by (simp add: apply_transfer_progress_def split: if_split_asm)
  obtain n where n: "recorded_offset t = Inr n"
    using assms Inr t mi k
    by (cases "recorded_offset t") (simp_all add: apply_transfer_progress_def split: if_split_asm)
  show ?thesis
  proof (cases "prg_confirmed_offset p \<ge> n \<and> j_status t \<noteq> Job_SUCCEEDED")
    case True
    then have "db' = touch_site now i (store_progress cx now p (cmi_media_import_id mi) db)"
      using assms Inr t mi k n by (simp add: apply_transfer_progress_def split: if_split_asm)
    with Inr t k n True show ?thesis by (auto simp: progress_known_def)
  next
    case False
    then have "db' = touch_site now i db"
      using assms Inr t mi k n by (auto simp: apply_transfer_progress_def split: if_split_asm)
    then show ?thesis by simp
  qed
qed

lemma branch_transfers:
  "apply_site_heartbeat cx now i e db = Inr (Inr db') \<Longrightarrow> cd_queue db' = cd_queue db"
  "apply_deployment_report cx now i e db = Inr (Inr db') \<Longrightarrow> cd_queue db' = cd_queue db"
  "create_site_presentation cx now i p ev s r pl db = Inr db' \<Longrightarrow> cd_queue db' = cd_queue db"
  "update_site_presentation cx p s r pl db = Inr db' \<Longrightarrow> cd_queue db' = cd_queue db"
  "insert_version v db = Inr db' \<Longrightarrow> cd_queue db' = cd_queue db"
proof -
  show "apply_site_heartbeat cx now i e db = Inr (Inr db') \<Longrightarrow> cd_queue db' = cd_queue db"
    by (auto simp: apply_site_heartbeat_def touch_site_def Let_def outcome_bind_Inr_conv)
  show "apply_deployment_report cx now i e db = Inr (Inr db') \<Longrightarrow> cd_queue db' = cd_queue db"
    by (auto simp: apply_deployment_report_def touch_site_def split: sum.splits option.splits if_splits)
qed (auto simp: create_site_presentation_def update_site_presentation_def insert_presentation_def
    insert_version_def outcome_bind_Inr_conv split: if_splits)

lemma presentation_branch_transfers:
  "apply_site_presentation cx now i e db = Inr (Inr db') \<Longrightarrow> cd_queue db' = cd_queue db"
  "apply_site_presentation_version cx now e db = Inr (Inr db') \<Longrightarrow> cd_queue db' = cd_queue db"
  by (auto simp: apply_site_presentation_def apply_site_presentation_version_def outcome_bind_Inr_conv
      split: sum.splits option.splits prod.splits if_splits dest: branch_transfers)

lemma effect_transfers:
  assumes "site_event_effect cx now i e db = Inr (Inr db')"
  shows "q_transfer (cd_queue db') = q_transfer (cd_queue db)
    \<or> apply_transfer_progress cx now i e db = Inr (Inr db')"
proof -
  have "cd_queue db' = cd_queue db \<or> apply_transfer_progress cx now i e db = Inr (Inr db')"
    using assms branch_transfers(1,2) presentation_branch_transfers
    unfolding site_event_effect_def Let_def by (auto split: if_splits)
  then show ?thesis by auto
qed

lemma record_receipt_queue [simp]: "cd_queue (central_record_receipt cx now i e db) = cd_queue db"
  by (simp add: central_record_receipt_def Let_def split: option.splits)

text \<open>
  C10: What any Site event does to a transfer. The confirmed offset never goes back, the
  stored percentage stays between 0 and 100, a transfer of another Site is not touched,
  and a transfer that has succeeded keeps its row.
\<close>

theorem transfer_progress_sound:
  assumes "apply_site_event cx now site_id event db = Inr (ack, db')"
    and "row_get j_id (q_transfer (cd_queue db)) k = Some t"
    and "recorded_offset t = Inr n" and "0 \<le> j_progress t" and "j_progress t \<le> 100"
  shows "\<exists>t' n'. row_get j_id (q_transfer (cd_queue db')) k = Some t' \<and> recorded_offset t' = Inr n'
      \<and> n \<le> n' \<and> 0 \<le> j_progress t' \<and> j_progress t' \<le> 100
      \<and> (j_site_id t \<noteq> Some site_id \<longrightarrow> t' = t) \<and> (j_status t = Job_SUCCEEDED \<longrightarrow> t' = t)"
proof (cases "fresh_accept ack")
  case False
  with apply_site_event_unapplied [OF assms(1)] assms show ?thesis by auto
next
  case True
  with assms(1) obtain db1 where e: "site_event_effect cx now site_id event db = Inr (Inr db1)"
    and d': "db' = central_record_receipt cx now site_id event db1"
    by (rule apply_site_event_fresh)
  have "q_transfer (cd_queue db1) = q_transfer (cd_queue db)
    \<or> (\<exists>p t n. row_get j_id (q_transfer (cd_queue db)) (prg_transfer_session_id p) = Some t
         \<and> validate_progress cx (env_payload event) = Inr p \<and> recorded_offset t = Inr n
         \<and> n \<le> prg_confirmed_offset p \<and> j_status t \<noteq> Job_SUCCEEDED \<and> j_site_id t = Some site_id
         \<and> q_transfer (cd_queue db1) = row_put j_id (prg_transfer_session_id p)
              (transfer_with_progress cx now p) (q_transfer (cd_queue db)))"
    using effect_transfers [OF e] progress_branch_transfers by blast
  then show ?thesis
  proof (elim disjE exE conjE)
    assume "q_transfer (cd_queue db1) = q_transfer (cd_queue db)"
    with assms show ?thesis by (auto simp: d')
  next
    fix p t0 n0
    assume g: "row_get j_id (q_transfer (cd_queue db)) (prg_transfer_session_id p) = Some t0"
      and v: "validate_progress cx (env_payload event) = Inr p" and o: "recorded_offset t0 = Inr n0"
      and m: "n0 \<le> prg_confirmed_offset p" and st: "j_status t0 \<noteq> Job_SUCCEEDED" "j_site_id t0 = Some site_id"
      and q: "q_transfer (cd_queue db1) = row_put j_id (prg_transfer_session_id p)
              (transfer_with_progress cx now p) (q_transfer (cd_queue db))"
    show ?thesis
    proof (cases "prg_transfer_session_id p = k")
      case True
      then have "t0 = t" using g assms(2) by simp
      moreover have "row_get j_id (q_transfer (cd_queue db')) k = Some (transfer_with_progress cx now p t)"
        using True assms(2) by (simp add: d' q transfer_update.get_same)
      ultimately show ?thesis
        using o m st assms(3) percentage_bounds [OF validated_progress(1,2) [OF v]]
        by (auto simp: recorded_offset_progress progress_of_transfer)
    next
      case False
      then have "row_get j_id (q_transfer (cd_queue db')) k = Some t"
        using assms(2) by (simp add: d' q transfer_update.get_other)
      with assms show ?thesis by auto
    qed
  qed
qed

definition demo_progress :: media_transfer_progress where
  "demo_progress =
     \<lparr>prg_transfer_session_id = 3, prg_site_id = 7, prg_expected_size = 10, prg_confirmed_offset = 5,
      prg_state = Xfer_TRANSFERRING, prg_retry_count = 0, prg_last_progress_at = 0, prg_event_id = Some 4,
      prg_presentation_id = None, prg_presentation_version_id = Some 6, prg_media_object_id = None,
      prg_local_media_ready = False, prg_error_detail = None\<rparr>"

definition demo_transfer :: job where
  "demo_transfer = new_job 3 0 (JObj [(''confirmed_offset'', JInt 2)])
     \<lparr>jv_id = None, jv_site_id = Some 7, jv_media_object_id = None, jv_type = ''presentation_media.central_pull'',
      jv_payload = None, jv_priority = None, jv_required_capabilities = None, jv_idempotency_key = None,
      jv_max_attempts = None, jv_next_attempt_at = None\<rparr>"

definition demo_transfer_db :: central_db where
  "demo_transfer_db = empty_central_db\<lparr>
     cd_queue := \<lparr>q_processing = [], q_transfer = [demo_transfer], q_outbox = [], q_workers = []\<rparr>,
     cd_media_imports := [(default_central_presentation_media_import 0)\<lparr>cmi_media_import_id := 9,
       cmi_event_id := 4, cmi_presentation_version_id := Some 6, cmi_size_bytes := Some 10,
       cmi_transfer_job_id := Some 3\<rparr>]\<rparr>"

lemma demo_apply_progress:
  "(case apply_site_event (demo_codec\<lparr>decode_progress := (\<lambda>p. Inr demo_progress)\<rparr>) 5 7
       (demo_report ''site.media_transfer.progress'') demo_transfer_db of
      Inl e \<Rightarrow> False
    | Inr (ack, db') \<Rightarrow> map recorded_offset (q_transfer (cd_queue db')) = [Inr 5])"
  by code_simp

theorem transfer_progress_sound_witness:
  "\<exists>(db' :: central_db) t' n'. map recorded_offset (q_transfer (cd_queue db')) = [Inr 5]
     \<and> row_get j_id (q_transfer (cd_queue db')) 3 = Some t' \<and> recorded_offset t' = Inr n' \<and> 2 \<le> n'
     \<and> j_progress t' \<le> 100"
proof -
  obtain ack db' where b: "apply_site_event (demo_codec\<lparr>decode_progress := (\<lambda>p. Inr demo_progress)\<rparr>) 5 7
      (demo_report ''site.media_transfer.progress'') demo_transfer_db = Inr (ack, db')"
    and s: "map recorded_offset (q_transfer (cd_queue db')) = [Inr 5]"
    using demo_apply_progress by (auto split: sum.splits)
  have g: "row_get j_id (q_transfer (cd_queue demo_transfer_db)) 3 = Some demo_transfer"
    and o: "recorded_offset demo_transfer = Inr 2" and p: "0 \<le> j_progress demo_transfer" "j_progress demo_transfer \<le> 100"
    by (simp_all add: demo_transfer_db_def demo_transfer_def new_job_def recorded_offset_def payload_dict_def
        dict_get_def py_int_def)
  from transfer_progress_sound [OF b g o p]
  obtain t' n' where "row_get j_id (q_transfer (cd_queue db')) 3 = Some t'" "recorded_offset t' = Inr n'"
    "2 \<le> n'" "j_progress t' \<le> 100" by auto
  with s show ?thesis by (intro exI [of _ db'] exI [of _ t'] exI [of _ n'] conjI)
qed

end
