(* ===== verification/Central_Enrollment.thy ===== *)
theory Central_Enrollment
  imports Central_Sync
begin

text \<open>
  Site enrollment at Central: the endpoints of \<open>upm_central/api.py\<close> that register a Site,
  hand out its credential and let an administrator approve, reject, revoke, disable and
  re-enroll it, with \<open>issue_poll_token\<close> of \<open>sync.py\<close>. \<open>digest\<close> is SHA-256, \<open>derive\<close>
  the keyed digest that turns a Site and its claim into its credential, \<open>token\<close> the poll
  token drawn from the system's random source.
\<close>

definition issue_poll_token ::
  "(string \<Rightarrow> string) \<Rightarrow> string \<Rightarrow> datetime \<Rightarrow> central_site_enrollment_claim \<Rightarrow> central_site_enrollment_claim" where
  "issue_poll_token digest token now claim =
     claim\<lparr>cec_poll_token_hash := digest token, cec_expires_at := now + 24 * 3600 * 1000000\<rparr>"

definition registered_site ::
  "datetime \<Rightarrow> string option \<Rightarrow> enrollment_request \<Rightarrow> central_site \<Rightarrow> central_site" where
  "registered_site now address request site =
     site\<lparr>ccs_display_name := enr_display_name request, ccs_last_registered_at := Some now,
          ccs_application_version := Some (enr_application_version request),
          ccs_protocol_version := Some (enr_protocol_version request),
          ccs_reported_hostname := enr_reported_hostname request, ccs_reported_address := address,
          ccs_capabilities := map JStr (enr_capabilities request),
          ccs_protocol_error := (if enr_protocol_version request = UPM_SYNC_PROTOCOL_VERSION then None
                                 else Some ''incompatible_sync_protocol''),
          ccs_enrollment_state :=
            (if ccs_enrollment_state site \<notin> {Enroll_ACTIVE, Enroll_REJECTED} then Enroll_PENDING
             else ccs_enrollment_state site)\<rparr>"

definition applicant :: "datetime \<Rightarrow> enrollment_request \<Rightarrow> central_site" where
  "applicant now request = (default_central_site now)\<lparr>ccs_site_id := enr_site_id request,
     ccs_display_name := enr_display_name request, ccs_enabled := True, ccs_enrollment_state := Enroll_PENDING,
     ccs_first_registered_at := Some now\<rparr>"

definition admit_site :: "datetime \<Rightarrow> enrollment_request \<Rightarrow> central_db \<Rightarrow> central_db outcome" where
  "admit_site now request db =
     (case row_get ccs_site_id (cd_sites db) (enr_site_id request) of
        None \<Rightarrow> Inr (db\<lparr>cd_sites := cd_sites db @ [applicant now request]\<rparr>)
      | Some site \<Rightarrow>
          if ccs_enrollment_state site \<in> {Enroll_REVOKED, Enroll_DISABLED}
          then Inl (HTTPException 403 ''site enrollment is revoked or disabled'') else Inr db)"

definition ensure_sequence :: "uuid \<Rightarrow> central_db \<Rightarrow> central_db" where
  "ensure_sequence i db =
     (case row_get csq_site_id (cd_sequences db) i of
        None \<Rightarrow> db\<lparr>cd_sequences := cd_sequences db @ [\<lparr>csq_site_id = i, csq_next_value = 1\<rparr>]\<rparr>
      | Some s \<Rightarrow> db)"

definition ensure_claim ::
  "(string \<Rightarrow> string) \<Rightarrow> datetime \<Rightarrow> enrollment_request \<Rightarrow> central_db \<Rightarrow> central_db outcome" where
  "ensure_claim digest now request db =
     (case row_get cec_site_id (cd_claims db) (enr_site_id request) of
        None \<Rightarrow> Inr (db\<lparr>cd_claims := cd_claims db @
          [(default_central_site_enrollment_claim now)\<lparr>cec_site_id := enr_site_id request,
            cec_claim_secret_hash := digest (enr_claim_secret request),
            cec_poll_token_hash := [], cec_expires_at := now\<rparr>]\<rparr>)
      | Some claim \<Rightarrow>
          if cec_claim_secret_hash claim \<noteq> []
             \<and> \<not> secrets_match digest (enr_claim_secret request) (cec_claim_secret_hash claim)
          then Inl (HTTPException 409 ''site_id already has a different enrollment claim'')
          else Inr db)"

definition request_enrollment ::
  "(string \<Rightarrow> string) \<Rightarrow> string \<Rightarrow> datetime \<Rightarrow> string option \<Rightarrow> enrollment_request \<Rightarrow> central_db
   \<Rightarrow> ((enrollment_state \<times> string) \<times> central_db) outcome" where
  "request_enrollment digest token now address request db =
     (let i = enr_site_id request in
      outcome_bind (admit_site now request db) (\<lambda>db1.
      let db2 = db1\<lparr>cd_sites := row_put ccs_site_id i (registered_site now address request) (cd_sites db1)\<rparr>
      in outcome_bind (ensure_claim digest now request (ensure_sequence i db2)) (\<lambda>db3.
         Inr ((case row_get ccs_site_id (cd_sites db3) i of
                 None \<Rightarrow> Enroll_PENDING | Some s \<Rightarrow> ccs_enrollment_state s, token),
              db3\<lparr>cd_claims := row_put cec_site_id i (issue_poll_token digest token now) (cd_claims db3)\<rparr>))))"

definition enrollment_status ::
  "codec \<Rightarrow> (string \<Rightarrow> string) \<Rightarrow> (uuid \<Rightarrow> string \<Rightarrow> string) \<Rightarrow> datetime \<Rightarrow> uuid \<Rightarrow> string option \<Rightarrow> central_db
   \<Rightarrow> ((enrollment_state \<times> string option \<times> string option) \<times> central_db) outcome" where
  "enrollment_status cx digest derive now site_id x_upm_poll_token db =
     (case (row_get ccs_site_id (cd_sites db) site_id, row_get cec_site_id (cd_claims db) site_id) of
        (Some site, Some claim) \<Rightarrow>
          if default_to [] x_upm_poll_token = []
             \<or> \<not> secrets_match digest (default_to [] x_upm_poll_token) (cec_poll_token_hash claim)
             \<or> cec_expires_at claim < now
          then Inl (HTTPException 401 ''invalid or expired enrollment poll token'')
          else if ccs_enrollment_state site = Enroll_ACTIVE
          then let credential = derive site_id (cec_claim_secret_hash claim);
                   token_digest = digest credential;
                   db1 = (if \<exists>c \<in> set (cd_credentials db). ccr_token_hash c = token_digest then db
                          else (central_minted db)\<lparr>cd_credentials := cd_credentials db @
                            [(default_central_site_credential now)\<lparr>ccr_credential_id := central_fresh cx db,
                              ccr_site_id := site_id, ccr_token_hash := token_digest\<rparr>]\<rparr>)
               in Inr ((ccs_enrollment_state site, Some credential, cec_rejection_reason claim),
                    db1\<lparr>cd_claims := row_put cec_site_id site_id
                         (\<lambda>c. c\<lparr>cec_credential_delivered_at := Some now\<rparr>) (cd_claims db1)\<rparr>)
          else Inr ((ccs_enrollment_state site, None, cec_rejection_reason claim), db)
      | _ \<Rightarrow> Inl (HTTPException 401 ''invalid or expired enrollment poll token''))"

section \<open>The administrator's transitions\<close>

text \<open>The states from which a target may be entered; a target without an entry is a \<open>KeyError\<close>.\<close>

fun enrollment_allowed :: "enrollment_state \<Rightarrow> enrollment_state list option" where
  "enrollment_allowed Enroll_ACTIVE = Some [Enroll_PENDING, Enroll_REJECTED, Enroll_DISABLED]"
| "enrollment_allowed Enroll_PENDING = Some [Enroll_REVOKED]"
| "enrollment_allowed Enroll_REJECTED = Some [Enroll_PENDING]"
| "enrollment_allowed Enroll_REVOKED = Some [Enroll_ACTIVE, Enroll_DISABLED]"
| "enrollment_allowed Enroll_DISABLED = Some [Enroll_ACTIVE]"
| "enrollment_allowed _ = None"

definition reason_json :: "string option \<Rightarrow> json" where
  "reason_json r = (case r of None \<Rightarrow> JNull | Some s \<Rightarrow> JStr s)"

definition change_state ::
  "codec \<Rightarrow> datetime \<Rightarrow> uuid \<Rightarrow> enrollment_state \<Rightarrow> string option \<Rightarrow> central_db \<Rightarrow> central_db outcome" where
  "change_state cx now site_id target reason db =
     (case row_get ccs_site_id (cd_sites db) site_id of
        None \<Rightarrow> Inl (HTTPException 404 ''site not found'')
      | Some site \<Rightarrow>
          let before = ccs_enrollment_state site in
          (case enrollment_allowed target of
             None \<Rightarrow> Inl (KeyError (enrollment_state_value target))
           | Some sources \<Rightarrow>
               if before \<notin> set sources
               then Inl (HTTPException 409 (''invalid enrollment transition '' @ enrollment_state_value before
                      @ '' -> '' @ enrollment_state_value target))
               else
                 let db1 = db\<lparr>cd_sites := row_put ccs_site_id site_id
                       (\<lambda>s. s\<lparr>ccs_enrollment_state := target,
                              ccs_enabled := target \<notin> {Enroll_DISABLED, Enroll_REVOKED}\<rparr>) (cd_sites db),
                       cd_claims := row_put cec_site_id site_id
                         (\<lambda>c. c\<lparr>cec_rejection_reason := reason\<rparr>) (cd_claims db)\<rparr>;
                     db2 = (if target = Enroll_REVOKED
                            then db1\<lparr>cd_credentials := map (\<lambda>c. if ccr_site_id c = site_id \<and> ccr_revoked_at c = None
                                  then c\<lparr>ccr_revoked_at := Some now\<rparr> else c) (cd_credentials db1)\<rparr>
                            else db1)
                 in Inr (central_audit cx now (\<lambda>r. r\<lparr>car_actor_id := Some ''central-admin'',
                      car_action := ''site.enrollment.'' @ enrollment_state_value target,
                      car_target_type := ''site'', car_target_id := Some site_id, car_site_id := Some site_id,
                      car_before_context := Some [(''state'', JStr (enrollment_state_value before))],
                      car_after_context := Some [(''state'', JStr (enrollment_state_value target)),
                        (''reason'', reason_json reason)]\<rparr>) db2)))"

definition reenroll ::
  "codec \<Rightarrow> datetime \<Rightarrow> uuid \<Rightarrow> string option \<Rightarrow> central_db \<Rightarrow> central_db outcome" where
  "reenroll cx now site_id reason db =
     outcome_bind (change_state cx now site_id Enroll_PENDING reason db)
       (\<lambda>db1. Inr (db1\<lparr>cd_claims := filter (\<lambda>c. cec_site_id c \<noteq> site_id) (cd_claims db1)\<rparr>))"

section \<open>Runs of the enrollment endpoints\<close>

inductive enrollment_move ::
  "codec \<Rightarrow> (string \<Rightarrow> string) \<Rightarrow> (uuid \<Rightarrow> string \<Rightarrow> string) \<Rightarrow> central_db \<Rightarrow> central_db \<Rightarrow> bool"
  for cx digest derive where
  request: "request_enrollment digest token now address request db = Inr (out, db')
            \<Longrightarrow> enrollment_move cx digest derive db db'"
| poll: "enrollment_status cx digest derive now site_id poll_token db = Inr (out, db')
            \<Longrightarrow> enrollment_move cx digest derive db db'"
| change: "change_state cx now site_id target reason db = Inr db' \<Longrightarrow> target \<noteq> Enroll_PENDING
            \<Longrightarrow> enrollment_move cx digest derive db db'"
| again: "reenroll cx now site_id reason db = Inr db' \<Longrightarrow> enrollment_move cx digest derive db db'"

inductive enrollment_run ::
  "codec \<Rightarrow> (string \<Rightarrow> string) \<Rightarrow> (uuid \<Rightarrow> string \<Rightarrow> string) \<Rightarrow> central_db \<Rightarrow> central_db \<Rightarrow> bool"
  for cx digest derive where
  stop: "enrollment_run cx digest derive db db"
| more: "enrollment_run cx digest derive db db1 \<Longrightarrow> enrollment_move cx digest derive db1 db2
         \<Longrightarrow> enrollment_run cx digest derive db db2"

text \<open>
  The invariant: Sites have distinct keys, a Site is enabled exactly when it is neither
  disabled nor revoked, and only an active or disabled Site has a credential that is
  not revoked.
\<close>

definition site_consistent :: "central_site_credential list \<Rightarrow> central_site \<Rightarrow> bool" where
  "site_consistent creds s \<longleftrightarrow>
     (ccs_enabled s \<longleftrightarrow> ccs_enrollment_state s \<notin> {Enroll_DISABLED, Enroll_REVOKED})
     \<and> (ccs_enrollment_state s \<notin> {Enroll_ACTIVE, Enroll_DISABLED} \<longrightarrow>
          list_all (\<lambda>c. ccr_site_id c = ccs_site_id s \<longrightarrow> ccr_revoked_at c \<noteq> None) creds)"

definition enrollment_inv :: "central_db \<Rightarrow> bool" where
  "enrollment_inv db \<longleftrightarrow> keyed ccs_site_id (cd_sites db)
     \<and> list_all (\<lambda>c. ccr_site_id c \<in> ccs_site_id ` set (cd_sites db)) (cd_credentials db)
     \<and> list_all (site_consistent (cd_credentials db)) (cd_sites db)"

interpretation registration: row_update ccs_site_id "registered_site now address request" for now address request
  by unfold_locales (simp add: registered_site_def)

interpretation state_change: row_update ccs_site_id
  "\<lambda>s. s\<lparr>ccs_enrollment_state := target, ccs_enabled := on\<rparr>" for target on
  by unfold_locales simp

lemma registered_site_consistent:
  "site_consistent creds s \<Longrightarrow> ccs_enrollment_state s \<notin> {Enroll_REVOKED, Enroll_DISABLED} \<Longrightarrow>
     site_consistent creds (registered_site now address request s)"
  by (cases "ccs_enrollment_state s") (auto simp: site_consistent_def registered_site_def)

lemma site_update_inv:
  assumes inv: "enrollment_inv db" and "row_update ccs_site_id f"
    and creds: "cd_credentials db' = cd_credentials db" and sites: "cd_sites db' = row_put ccs_site_id i f (cd_sites db)"
    and new: "\<And>s. s \<in> set (cd_sites db) \<Longrightarrow> ccs_site_id s = i \<Longrightarrow> site_consistent (cd_credentials db) (f s)"
  shows "enrollment_inv db'"
proof -
  have keys: "set (map ccs_site_id (cd_sites db')) = set (map ccs_site_id (cd_sites db))"
    unfolding sites by (simp only: row_update.map_key [OF assms(2)])
  have "site_consistent (cd_credentials db) s" if "s \<in> set (cd_sites db')" for s
  proof (rule row_update.all_put [OF assms(2)])
    show "s \<in> set (row_put ccs_site_id i f (cd_sites db))" using that sites by simp
  qed (use inv new in \<open>auto simp: enrollment_inv_def list_all_iff\<close>)
  then show ?thesis
    using inv keys by (simp add: enrollment_inv_def creds list_all_iff)
      (simp add: sites row_update.keyed_put [OF assms(2)])
qed

lemma keyed_row:
  "keyed ccs_site_id rows \<Longrightarrow> row_get ccs_site_id rows i = Some s \<Longrightarrow> r \<in> set rows \<Longrightarrow> ccs_site_id r = i \<Longrightarrow> r = s"
  by (metis option.inject row_get_mem)

lemma enrollment_helpers:
  "cd_sites (ensure_sequence i db) = cd_sites db" "cd_credentials (ensure_sequence i db) = cd_credentials db"
  "ensure_claim digest now request db = Inr db' \<Longrightarrow>
     cd_sites db' = cd_sites db \<and> cd_credentials db' = cd_credentials db"
  by (auto simp: ensure_sequence_def ensure_claim_def split: option.splits if_splits)

lemma request_shape:
  assumes "request_enrollment digest token now address request db = Inr (out, db')"
  obtains db1 where "admit_site now request db = Inr db1" and "cd_credentials db' = cd_credentials db1"
    and "cd_sites db' = row_put ccs_site_id (enr_site_id request) (registered_site now address request) (cd_sites db1)"
  using assms enrollment_helpers
  by (fastforce simp: request_enrollment_def Let_def outcome_bind_Inr_conv)

lemma applicant_inv:
  assumes inv: "enrollment_inv db" and "row_get ccs_site_id (cd_sites db) (enr_site_id request) = None"
  shows "enrollment_inv (db\<lparr>cd_sites := cd_sites db @ [applicant now request]\<rparr>)"
proof -
  have n: "enr_site_id request \<notin> ccs_site_id ` set (cd_sites db)"
    using assms(2) by (simp add: row_get_None_iff)
  then have "c \<in> set (cd_credentials db) \<Longrightarrow> ccr_site_id c \<noteq> enr_site_id request" for c
    using inv by (metis (no_types, lifting) enrollment_inv_def list_all_iff)
  then have "site_consistent (cd_credentials db) (applicant now request)"
    by (auto simp: site_consistent_def applicant_def list_all_iff)
  with inv n show ?thesis by (auto simp: enrollment_inv_def list_all_iff applicant_def)
qed

text \<open>After admission, every row of the requesting Site is one that may register.\<close>

lemma admit_inv:
  assumes "admit_site now request db = Inr db1" and inv: "enrollment_inv db"
  shows "enrollment_inv db1"
    and "r \<in> set (cd_sites db1) \<Longrightarrow> ccs_site_id r = enr_site_id request \<Longrightarrow>
           ccs_enrollment_state r \<notin> {Enroll_REVOKED, Enroll_DISABLED}"
proof -
  show "enrollment_inv db1"
    using assms applicant_inv [OF inv] by (auto simp: admit_site_def split: option.splits if_splits)
  assume r: "r \<in> set (cd_sites db1)" "ccs_site_id r = enr_site_id request"
  have k: "keyed ccs_site_id (cd_sites db)" using inv by (simp add: enrollment_inv_def)
  show "ccs_enrollment_state r \<notin> {Enroll_REVOKED, Enroll_DISABLED}"
  proof (cases "row_get ccs_site_id (cd_sites db) (enr_site_id request)")
    case None
    with assms(1) r have "r = applicant now request"
      by (force simp: admit_site_def row_get_None_iff)
    then show ?thesis by (simp add: applicant_def)
  next
    case (Some s)
    with assms(1) have d: "db1 = db" and "ccs_enrollment_state s \<notin> {Enroll_REVOKED, Enroll_DISABLED}"
      by (auto simp: admit_site_def split: if_splits)
    with keyed_row [OF k Some] r show ?thesis by auto
  qed
qed

lemma request_inv:
  assumes "request_enrollment digest token now address request db = Inr (out, db')" and inv: "enrollment_inv db"
  shows "enrollment_inv db'"
proof -
  from assms(1) obtain db1 where a: "admit_site now request db = Inr db1"
    and c: "cd_credentials db' = cd_credentials db1"
    and s: "cd_sites db' = row_put ccs_site_id (enr_site_id request) (registered_site now address request) (cd_sites db1)"
    by (rule request_shape)
  show ?thesis
  proof (rule site_update_inv [OF admit_inv(1) [OF a inv] registration.row_update_axioms c s])
    fix r
    assume r: "r \<in> set (cd_sites db1)" "ccs_site_id r = enr_site_id request"
    show "site_consistent (cd_credentials db1) (registered_site now address request r)"
      using admit_inv [OF a inv] r by (intro registered_site_consistent) (auto simp: enrollment_inv_def list_all_iff)
  qed
qed

lemma poll_shape:
  assumes "enrollment_status cx digest derive now site_id poll_token db = Inr (out, db')"
  shows "cd_sites db' = cd_sites db"
    and "cd_credentials db' = cd_credentials db
       \<or> (\<exists>c s. cd_credentials db' = cd_credentials db @ [c] \<and> ccr_site_id c = site_id
            \<and> row_get ccs_site_id (cd_sites db) site_id = Some s \<and> ccs_enrollment_state s = Enroll_ACTIVE)"
  using assms
  by (auto simp: enrollment_status_def Let_def split: option.splits if_split_asm)

lemma poll_inv:
  assumes "enrollment_status cx digest derive now site_id poll_token db = Inr (out, db')" and inv: "enrollment_inv db"
  shows "enrollment_inv db'"
  using poll_shape(2) [OF assms(1)]
proof (elim disjE exE conjE)
  assume "cd_credentials db' = cd_credentials db"
  with inv poll_shape(1) [OF assms(1)] show ?thesis by (simp add: enrollment_inv_def)
next
  fix c s
  assume c: "cd_credentials db' = cd_credentials db @ [c]" "ccr_site_id c = site_id"
    and s: "row_get ccs_site_id (cd_sites db) site_id = Some s" "ccs_enrollment_state s = Enroll_ACTIVE"
  have k: "keyed ccs_site_id (cd_sites db)" using inv by (simp add: enrollment_inv_def)
  have "site_consistent (cd_credentials db') r" if r: "r \<in> set (cd_sites db)" for r
  proof (cases "ccs_site_id r = site_id")
    case True
    then have "r = s" using keyed_row [OF k s(1) r] by simp
    with s(2) r inv show ?thesis by (auto simp: site_consistent_def enrollment_inv_def list_all_iff)
  next
    case False
    with r inv c show ?thesis by (auto simp: site_consistent_def enrollment_inv_def list_all_iff)
  qed
  moreover have "site_id \<in> ccs_site_id ` set (cd_sites db)" using row_get_SomeD [OF s(1)] by auto
  ultimately show ?thesis
    using inv c poll_shape(1) [OF assms(1)] by (simp add: enrollment_inv_def list_all_iff)
qed

lemma change_shape:
  assumes "change_state cx now site_id target reason db = Inr db'"
  shows "cd_sites db' = row_put ccs_site_id site_id (\<lambda>s. s\<lparr>ccs_enrollment_state := target,
           ccs_enabled := target \<notin> {Enroll_DISABLED, Enroll_REVOKED}\<rparr>) (cd_sites db)"
    and "cd_credentials db' =
           (if target = Enroll_REVOKED
            then map (\<lambda>c. if ccr_site_id c = site_id \<and> ccr_revoked_at c = None
                        then c\<lparr>ccr_revoked_at := Some now\<rparr> else c) (cd_credentials db)
            else cd_credentials db)"
    and "\<exists>s sources. row_get ccs_site_id (cd_sites db) site_id = Some s
           \<and> enrollment_allowed target = Some sources \<and> ccs_enrollment_state s \<in> set sources"
  using assms by (auto simp: change_state_def Let_def split: option.splits if_split_asm)

text \<open>Revoking credentials keeps every Site consistent.\<close>

definition revoke_credentials :: "datetime \<Rightarrow> uuid \<Rightarrow> central_site_credential list \<Rightarrow> central_site_credential list" where
  "revoke_credentials now i creds = map (\<lambda>c. if ccr_site_id c = i \<and> ccr_revoked_at c = None
     then c\<lparr>ccr_revoked_at := Some now\<rparr> else c) creds"

lemma revoke_credentials_consistent: "site_consistent creds s \<Longrightarrow> site_consistent (revoke_credentials now i creds) s"
  by (auto simp: site_consistent_def revoke_credentials_def list_all_iff)

lemma revoke_credentials_ids: "map ccr_site_id (revoke_credentials now i creds) = map ccr_site_id creds"
  by (simp add: revoke_credentials_def)

lemma revoke_credentials_all:
  "c \<in> set (revoke_credentials now i creds) \<Longrightarrow> ccr_site_id c = i \<Longrightarrow> ccr_revoked_at c \<noteq> None"
proof -
  assume "c \<in> set (revoke_credentials now i creds)" and i: "ccr_site_id c = i"
  then obtain d where c: "c = (if ccr_site_id d = i \<and> ccr_revoked_at d = None then d\<lparr>ccr_revoked_at := Some now\<rparr> else d)"
    unfolding revoke_credentials_def set_map by blast
  show ?thesis
  proof (cases "ccr_site_id d = i \<and> ccr_revoked_at d = None")
    case True
    then show ?thesis by (simp add: c)
  next
    case False
    with i c show ?thesis by simp
  qed
qed

lemma revoke_credentials_inv:
  assumes inv: "enrollment_inv db"
  shows "enrollment_inv (db\<lparr>cd_credentials := revoke_credentials now i (cd_credentials db)\<rparr>)"
proof -
  have "ccr_site_id ` set (revoke_credentials now i (cd_credentials db)) = ccr_site_id ` set (cd_credentials db)"
    using arg_cong [OF revoke_credentials_ids [of now i "cd_credentials db"], of set] by simp
  moreover have "ccr_site_id ` set (cd_credentials db) \<subseteq> ccs_site_id ` set (cd_sites db)"
    using inv by (auto simp: enrollment_inv_def list_all_iff)
  ultimately have "ccr_site_id ` set (revoke_credentials now i (cd_credentials db)) \<subseteq> ccs_site_id ` set (cd_sites db)"
    by simp
  with inv revoke_credentials_consistent show ?thesis
    unfolding enrollment_inv_def list_all_iff by (simp add: image_subset_iff)
qed

lemma changed_site_consistent:
  assumes "site_consistent creds s" and "enrollment_allowed target = Some sources"
    and "ccs_enrollment_state s \<in> set sources"
    and "target = Enroll_REVOKED \<Longrightarrow> \<forall>c \<in> set creds. ccr_site_id c = ccs_site_id s \<longrightarrow> ccr_revoked_at c \<noteq> None"
  shows "site_consistent creds (s\<lparr>ccs_enrollment_state := target,
           ccs_enabled := target \<notin> {Enroll_DISABLED, Enroll_REVOKED}\<rparr>)"
  using assms by (cases target) (auto simp: site_consistent_def list_all_iff)

lemma change_inv:
  assumes c: "change_state cx now site_id target reason db = Inr db'" and inv: "enrollment_inv db"
  shows "enrollment_inv db'"
proof -
  note shape = change_shape [OF c]
  obtain s sources where s: "row_get ccs_site_id (cd_sites db) site_id = Some s"
    and a: "enrollment_allowed target = Some sources" "ccs_enrollment_state s \<in> set sources"
    using shape(3) by blast
  define db1 where "db1 = (if target = Enroll_REVOKED
    then db\<lparr>cd_credentials := revoke_credentials now site_id (cd_credentials db)\<rparr> else db)"
  have inv1: "enrollment_inv db1" using inv revoke_credentials_inv by (simp add: db1_def)
  have sites: "cd_sites db1 = cd_sites db" and creds: "cd_credentials db' = cd_credentials db1"
    using shape(2) by (simp_all add: db1_def revoke_credentials_def)
  show ?thesis
  proof (rule site_update_inv [OF inv1 state_change.row_update_axioms creds])
    show "cd_sites db' = row_put ccs_site_id site_id (\<lambda>s. s\<lparr>ccs_enrollment_state := target,
           ccs_enabled := target \<notin> {Enroll_DISABLED, Enroll_REVOKED}\<rparr>) (cd_sites db1)"
      using shape(1) sites by simp
    fix r
    assume r: "r \<in> set (cd_sites db1)" "ccs_site_id r = site_id"
    have "r = s" using keyed_row [OF _ s] r inv by (auto simp: enrollment_inv_def sites)
    then show "site_consistent (cd_credentials db1) (r\<lparr>ccs_enrollment_state := target,
           ccs_enabled := target \<notin> {Enroll_DISABLED, Enroll_REVOKED}\<rparr>)"
      using a r inv1 revoke_credentials_all [of _ now site_id "cd_credentials db"]
      by (intro changed_site_consistent) (auto simp: enrollment_inv_def list_all_iff db1_def)
  qed
qed

lemma reenroll_inv:
  assumes "reenroll cx now site_id reason db = Inr db'" and "enrollment_inv db"
  shows "enrollment_inv db'"
  using assms change_inv by (auto simp: reenroll_def outcome_bind_Inr_conv enrollment_inv_def)

lemma enrollment_run_inv:
  "enrollment_run cx digest derive db db' \<Longrightarrow> enrollment_inv db \<Longrightarrow> enrollment_inv db'"
proof (induction rule: enrollment_run.induct)
  case (more db db1 db2)
  from more.hyps(2) more.IH [OF more.prems] show ?case
    by (cases rule: enrollment_move.cases) (auto intro: request_inv poll_inv change_inv reenroll_inv)
qed

section \<open>Who can authenticate\<close>

lemma authenticate_Inr:
  "authenticate_site digest i bearer db = Inr s \<Longrightarrow>
     row_get ccs_site_id (cd_sites db) i = Some s \<and> ccs_enrollment_state s = Enroll_ACTIVE \<and> ccs_enabled s
     \<and> (\<exists>token c. bearer = Some token \<and> token \<noteq> [] \<and> c \<in> set (cd_credentials db) \<and> ccr_site_id c = i
          \<and> ccr_revoked_at c = None \<and> digest token = ccr_token_hash c)"
  by (auto simp: authenticate_site_def secrets_match_def split: option.splits if_split_asm dest!: find_SomeD)

text \<open>
  C11: In every database the enrollment endpoints can produce from an empty one, a request
  authenticates as a Site only if the Site is registered, approved (active), enabled, and
  the presented token hashes to a credential of that Site that is not revoked; and as
  long as a Site is pending, rejected, revoked or disabled, no token authenticates, a
  revoked or pending one having no credential left that could.
\<close>

theorem authentication_needs_approval:
  assumes "enrollment_run cx digest derive empty_central_db db"
    and "row_get ccs_site_id (cd_sites db) site_id = Some site"
  shows "(case authenticate_site digest site_id bearer db of
            Inl e \<Rightarrow> True
          | Inr s \<Rightarrow> s = site \<and> ccs_enrollment_state site = Enroll_ACTIVE \<and> ccs_enabled site
              \<and> (\<exists>token c. bearer = Some token \<and> c \<in> set (cd_credentials db) \<and> ccr_site_id c = site_id
                   \<and> ccr_revoked_at c = None \<and> digest token = ccr_token_hash c))
    \<and> (ccs_enrollment_state site \<in> {Enroll_PENDING, Enroll_REJECTED, Enroll_REVOKED} \<longrightarrow>
         (\<forall>c \<in> set (cd_credentials db). ccr_site_id c = site_id \<longrightarrow> ccr_revoked_at c \<noteq> None))
    \<and> (ccs_enabled site \<longleftrightarrow> ccs_enrollment_state site \<notin> {Enroll_DISABLED, Enroll_REVOKED})"
proof -
  have "enrollment_inv empty_central_db" by (simp add: enrollment_inv_def empty_central_db_def)
  then have "enrollment_inv db" using enrollment_run_inv [OF assms(1)] by simp
  then have "site_consistent (cd_credentials db) site"
    using row_get_SomeD [OF assms(2)] by (auto simp: enrollment_inv_def list_all_iff)
  moreover have "ccs_site_id site = site_id" using row_get_SomeD [OF assms(2)] by simp
  ultimately have b: "(ccs_enrollment_state site \<in> {Enroll_PENDING, Enroll_REJECTED, Enroll_REVOKED} \<longrightarrow>
         (\<forall>c \<in> set (cd_credentials db). ccr_site_id c = site_id \<longrightarrow> ccr_revoked_at c \<noteq> None))
    \<and> (ccs_enabled site \<longleftrightarrow> ccs_enrollment_state site \<notin> {Enroll_DISABLED, Enroll_REVOKED})"
    by (auto simp: site_consistent_def list_all_iff)
  show ?thesis
  proof (cases "authenticate_site digest site_id bearer db")
    case (Inr s)
    from authenticate_Inr [OF Inr] assms(2) b show ?thesis unfolding Inr sum.case by auto
  qed (use b in simp)
qed

definition demo_request :: enrollment_request where
  "demo_request =
     \<lparr>enr_site_id = 7, enr_display_name = ''Site 7'', enr_application_version = ''1.0'', enr_protocol_version = 1,
      enr_claim_secret = ''secret'', enr_reported_hostname = None, enr_capabilities = []\<rparr>"

text \<open>A Site registers, is approved, fetches its credential, and is revoked.\<close>

definition demo_enrolled :: "central_db outcome" where
  "demo_enrolled =
     outcome_bind (request_enrollment (\<lambda>s. s) ''poll'' 1 None demo_request empty_central_db) (\<lambda>(out, db1).
     outcome_bind (change_state demo_codec 2 7 Enroll_ACTIVE None db1) (\<lambda>db2.
     outcome_bind (enrollment_status demo_codec (\<lambda>s. s) (\<lambda>i h. h) 3 7 (Some ''poll'') db2) (\<lambda>(out, db3).
     change_state demo_codec 4 7 Enroll_REVOKED None db3)))"

lemma demo_enrolled_run:
  assumes "demo_enrolled = Inr db"
  shows "enrollment_run demo_codec (\<lambda>s. s) (\<lambda>i h. h) empty_central_db db"
  using assms unfolding demo_enrolled_def
  by (auto simp: outcome_bind_Inr_conv
      intro!: enrollment_run.more [OF enrollment_run.more [OF enrollment_run.more [OF enrollment_run.more
        [OF enrollment_run.stop enrollment_move.request] enrollment_move.change] enrollment_move.poll]
        enrollment_move.change])

lemma demo_enrolled_state:
  "(case demo_enrolled of Inl e \<Rightarrow> False
    | Inr db \<Rightarrow> map_option ccs_enrollment_state (row_get ccs_site_id (cd_sites db) 7) = Some Enroll_REVOKED
              \<and> length (cd_credentials db) = 1)"
  by code_simp

theorem authentication_needs_approval_witness:
  "\<exists>db :: central_db. demo_enrolled = Inr db \<and> length (cd_credentials db) = 1
     \<and> list_all (\<lambda>c. ccr_site_id c \<noteq> 7 \<or> ccr_revoked_at c \<noteq> None) (cd_credentials db)"
proof -
  obtain db site where db: "demo_enrolled = Inr db" and n: "length (cd_credentials db) = 1"
    and s: "row_get ccs_site_id (cd_sites db) 7 = Some site" and r: "ccs_enrollment_state site = Enroll_REVOKED"
    using demo_enrolled_state by (auto split: sum.splits)
  have "\<forall>c \<in> set (cd_credentials db). ccr_site_id c = 7 \<longrightarrow> ccr_revoked_at c \<noteq> None"
    using authentication_needs_approval [OF demo_enrolled_run [OF db] s, of None] r by simp
  with db n show ?thesis by (auto simp: list_all_iff)
qed

end
