(* ===== verification/Central_Deployments.thy ===== *)
theory Central_Deployments
  imports Central_Sync "HOL-Library.List_Lexorder" "HOL-Library.Char_ord"
begin

text \<open>
  \<open>upm_central/event_deployments.py\<close>: the deployment state machine, the snapshot of an
  event's program, the pre-deployment check, and the operations that publish a revision,
  retry it and revoke it. An operation takes the deployment row it was called with and
  returns the database with that row updated.
\<close>

definition EVENT_DEPLOYMENT_SCHEMA_VERSION :: int where
  "EVENT_DEPLOYMENT_SCHEMA_VERSION = 1"

section \<open>The state machine\<close>

definition deployable_statuses :: "event_deployment_status list" where
  "deployable_statuses =
     [Dep_DRAFT, Dep_PENDING, Dep_DEPLOYING, Dep_DEPLOYED, Dep_UPDATE_PENDING, Dep_FAILED]"

fun allowed_transitions :: "event_deployment_status \<Rightarrow> event_deployment_status list" where
  "allowed_transitions Dep_DRAFT = [Dep_PENDING, Dep_ARCHIVED]"
| "allowed_transitions Dep_PENDING = [Dep_DEPLOYING, Dep_DEPLOYED, Dep_UPDATE_PENDING, Dep_FAILED, Dep_REVOKED]"
| "allowed_transitions Dep_DEPLOYING = [Dep_DEPLOYED, Dep_UPDATE_PENDING, Dep_FAILED, Dep_REVOKED]"
| "allowed_transitions Dep_DEPLOYED = [Dep_UPDATE_PENDING, Dep_REVOKED, Dep_ARCHIVED]"
| "allowed_transitions Dep_UPDATE_PENDING = [Dep_DEPLOYING, Dep_DEPLOYED, Dep_FAILED, Dep_REVOKED]"
| "allowed_transitions Dep_FAILED = [Dep_PENDING, Dep_UPDATE_PENDING, Dep_REVOKED, Dep_ARCHIVED]"
| "allowed_transitions Dep_REVOKED = [Dep_PENDING, Dep_ARCHIVED]"
| "allowed_transitions Dep_ARCHIVED = []"

definition transition ::
  "central_event_deployment \<Rightarrow> event_deployment_status \<Rightarrow> central_event_deployment outcome" where
  "transition deployment target =
     (if target = ced_status deployment then Inr deployment
      else if target \<notin> set (allowed_transitions (ced_status deployment))
      then Inl (HTTPException 409 (''invalid deployment transition ''
             @ event_deployment_status_value (ced_status deployment) @ '' -> ''
             @ event_deployment_status_value target))
      else Inr (deployment\<lparr>ced_status := target\<rparr>))"

section \<open>Snapshots\<close>

definition load_event :: "uuid \<Rightarrow> central_db \<Rightarrow> central_event outcome" where
  "load_event event_id db =
     (case row_get cev_event_id (cd_events db) event_id of
        None \<Rightarrow> Inl (HTTPException 404 ''event not found'') | Some e \<Rightarrow> Inr e)"

definition event_participations :: "uuid \<Rightarrow> central_db \<Rightarrow> central_event_participation list" where
  "event_participations event_id db =
     sort_key (\<lambda>p. uuid_str (cep_event_participation_id p))
       (filter (\<lambda>p. cep_event_id p = event_id) (cd_participations db))"

definition event_sessions :: "uuid \<Rightarrow> central_db \<Rightarrow> central_session list" where
  "event_sessions event_id db = filter (\<lambda>s. css_event_id s = event_id) (cd_program_sessions db)"

definition event_presentations :: "uuid \<Rightarrow> central_db \<Rightarrow> central_presentation list" where
  "event_presentations event_id db =
     sort_key cpr_presentation_id (filter (\<lambda>p. cpr_event_id p = event_id) (cd_presentations db))"

definition person_snapshot :: "central_person \<Rightarrow> person_profile" where
  "person_snapshot p =
     \<lparr>snpe_person_id = cpe_person_id p, snpe_display_name = cpe_display_name p,
      snpe_given_name = cpe_given_name p, snpe_family_name = cpe_family_name p,
      snpe_primary_email = cpe_primary_email p, snpe_organization = cpe_organization p,
      snpe_central_revision = cpe_revision p\<rparr>"

definition user_snapshot :: "central_admin_user \<Rightarrow> site_user_snapshot" where
  "user_snapshot u =
     \<lparr>snus_user_id = cau_admin_user_id u, snus_username = cau_username u, snus_display_name = cau_display_name u,
      snus_email = cau_email u, snus_enabled = cau_active u, snus_web_access = cau_web_access u,
      snus_role = (case cau_roles u of [] \<Rightarrow> ''read_only'' | r # _ \<Rightarrow> r), snus_permissions = cau_permissions u,
      snus_smb_enabled = cau_smb_enabled u, snus_password_verifier = cau_password_hash u,
      snus_central_revision = cau_revision u\<rparr>"

definition snapshot_participation :: "central_event_participation \<Rightarrow> participation_snapshot" where
  "snapshot_participation p =
     \<lparr>snpa_event_participation_id = cep_event_participation_id p, snpa_person_id = cep_person_id p,
      snpa_role = cep_role p, snpa_display_name = cep_display_name p,
      snpa_professional_title = cep_professional_title p, snpa_organization = cep_organization p,
      snpa_participant_status = cep_participant_status p, snpa_is_presenter = cep_is_presenter p,
      snpa_central_revision = cep_revision p\<rparr>"

definition snapshot_session :: "central_db \<Rightarrow> central_session \<Rightarrow> session_snapshot" where
  "snapshot_session db s =
     \<lparr>snss_session_id = css_session_id s, snss_title = css_title s, snss_subtitle = css_subtitle s,
      snss_description = css_description s, snss_session_code = css_session_code s,
      snss_session_type = css_session_type s, snss_starts_at = css_starts_at s, snss_ends_at = css_ends_at s,
      snss_location_name = css_location_name s, snss_status = css_status s, snss_sort_order = css_sort_order s,
      snss_central_revision = css_revision s,
      snss_participants = map (\<lambda>p.
          \<lparr>snsp_session_participant_id = csp_session_participant_id p,
           snsp_event_participation_id = csp_event_participation_id p, snsp_role = csp_role p,
           snsp_presenter_order = csp_presenter_order p, snsp_primary_presenter = csp_primary_presenter p,
           snsp_central_revision = csp_revision p\<rparr>)
        (sort_key (\<lambda>p. uuid_str (csp_session_participant_id p))
          (filter (\<lambda>p. csp_session_id p = css_session_id s) (cd_session_participants db)))\<rparr>"

definition session_links :: "central_db \<Rightarrow> uuid \<Rightarrow> central_presentation_session list" where
  "session_links db presentation_id =
     filter (\<lambda>l. cps_presentation_id l = presentation_id) (cd_presentation_sessions db)"

definition presenter_links :: "central_db \<Rightarrow> uuid \<Rightarrow> central_presentation_presenter list" where
  "presenter_links db presentation_id =
     filter (\<lambda>l. cpp_presentation_id l = presentation_id) (cd_presentation_presenters db)"

definition snapshot_presentation :: "central_db \<Rightarrow> central_presentation \<Rightarrow> presentation_snapshot" where
  "snapshot_presentation db p =
     \<lparr>snpr_presentation_id = cpr_presentation_id p, snpr_session_id = cpr_session_id p, snpr_title = cpr_title p,
      snpr_description = cpr_description p, snpr_presentation_code = cpr_presentation_code p,
      snpr_presentation_identifier = Some (cpr_presentation_identifier p),
      snpr_presentation_identifier_source = Some (cpr_presentation_identifier_source p),
      snpr_external_presentation_id = cpr_external_presentation_id p,
      snpr_workflow_status = cpr_workflow_status p, snpr_processing_status = cpr_processing_status p,
      snpr_scheduled_at = cpr_scheduled_at p, snpr_central_revision = cpr_revision p,
      snpr_version_numbers = sort (map cpv_version_number
        (filter (\<lambda>v. cpv_presentation_id v = cpr_presentation_id p) (cd_versions db))),
      snpr_sessions = map (\<lambda>l.
          \<lparr>snps_presentation_session_id = cps_presentation_session_id l, snps_session_id = cps_session_id l,
           snps_association_type = cps_association_type l, snps_sort_order = cps_sort_order l,
           snps_primary_session = cps_primary_session l, snps_central_revision = cps_revision l\<rparr>)
        (sort_key (\<lambda>l. uuid_str (cps_presentation_session_id l)) (session_links db (cpr_presentation_id p))),
      snpr_presenters = map (\<lambda>l.
          \<lparr>snpp_presentation_presenter_id = cpp_presentation_presenter_id l,
           snpp_event_participation_id = cpp_event_participation_id l, snpp_role = cpp_role l,
           snpp_presenter_order = cpp_presenter_order l, snpp_primary_presenter = cpp_primary_presenter l,
           snpp_central_revision = cpp_revision l\<rparr>)
        (sort_key (\<lambda>l. uuid_str (cpp_presentation_presenter_id l)) (presenter_links db (cpr_presentation_id p))),
      snpr_metadata = []\<rparr>"

definition snapshot_identifier :: "central_external_identifier \<Rightarrow> external_identifier_snapshot" where
  "snapshot_identifier x =
     \<lparr>snxi_external_identifier_id = cxi_external_identifier_id x, snxi_entity_type = cxi_entity_type x,
      snxi_entity_id = cxi_entity_id x, snxi_namespace = cxi_namespace x, snxi_external_id = cxi_external_id x,
      snxi_central_revision = cxi_revision x\<rparr>"

definition optional_json :: "string option \<Rightarrow> json" where
  "optional_json v = (case v of None \<Rightarrow> JNull | Some s \<Rightarrow> JStr s)"

definition room_mapping_json :: "central_site_room_mapping \<Rightarrow> json" where
  "room_mapping_json m =
     JObj [(''imported_label'', JStr (crm_imported_label m)),
           (''normalized_imported_label'', JStr (crm_normalized_imported_label m)),
           (''mapping_status'', JStr (crm_mapping_status m)),
           (''target_room_id'', optional_json (map_option uuid_str (crm_target_room_id m))),
           (''target_room_label'', optional_json (crm_target_room_label m))]"

text \<open>The identities whose external identifiers travel with the event.\<close>

definition snapshot_entity_ids :: "uuid \<Rightarrow> central_db \<Rightarrow> uuid list" where
  "snapshot_entity_ids event_id db =
     event_id # map cep_person_id (event_participations event_id db)
     @ map cep_event_participation_id (event_participations event_id db)
     @ map css_session_id (event_sessions event_id db)
     @ map cpr_presentation_id (event_presentations event_id db)"

definition snapshot_of :: "central_event \<Rightarrow> central_event_deployment \<Rightarrow> int \<Rightarrow> central_db \<Rightarrow> event_deployment_snapshot" where
  "snapshot_of event deployment revision db =
     (let i = cev_event_id event in
      \<lparr>snap_schema_version = EVENT_DEPLOYMENT_SCHEMA_VERSION,
       snap_deployment_id = ced_deployment_id deployment, snap_deployment_revision = revision,
       snap_central_event_revision = cev_revision event, snap_event_id = i, snap_site_id = ced_site_id deployment,
       snap_event_name = cev_name event, snap_starts_at = cev_starts_at event, snap_ends_at = cev_ends_at event,
       snap_timezone = Some (cev_timezone event), snap_event_description = cev_description event,
       snap_organization_reference = None, snap_event_configuration = [],
       snap_people = concat (map (\<lambda>p. case row_get cpe_person_id (cd_people db) (cep_person_id p) of
           None \<Rightarrow> [] | Some person \<Rightarrow> [person_snapshot person]) (event_participations i db)),
       snap_users = map user_snapshot (filter (\<lambda>u. uuid_str (ced_site_id deployment) \<in> set (cau_site_scope u))
           (sort_key cau_admin_user_id (cd_users db))),
       snap_participations = map snapshot_participation (event_participations i db),
       snap_sessions = map (snapshot_session db)
           (sort_key (\<lambda>s. uuid_str (css_session_id s)) (event_sessions i db)),
       snap_presentations = map (snapshot_presentation db) (event_presentations i db),
       snap_external_identifiers = map snapshot_identifier (sort_key cxi_external_identifier_id
           (filter (\<lambda>x. cxi_event_id x = Some i \<or> cxi_entity_id x \<in> set (snapshot_entity_ids i db))
             (cd_external_identifiers db))),
       snap_room_configuration = [(''mappings'', JList (map room_mapping_json
           (filter (\<lambda>m. crm_site_id m = ced_site_id deployment) (cd_room_mappings db))))],
       snap_signage_configuration = [], snap_branding_configuration = [], snap_workflow_configuration = [],
       snap_extensions = []\<rparr>)"

text \<open>Constructing the pydantic model checks its bounds and its references.\<close>

definition build_snapshot :: "central_event_deployment \<Rightarrow> int \<Rightarrow> central_db \<Rightarrow> event_deployment_snapshot outcome" where
  "build_snapshot deployment revision db =
     outcome_bind (load_event (ced_event_id deployment) db) (\<lambda>event.
     let snapshot = snapshot_of event deployment revision db
     in if \<not> event_deployment_snapshot_fields snapshot then Inl validation_error
        else outcome_bind (references_are_consistent snapshot) (\<lambda>u. Inr snapshot))"

section \<open>The pre-deployment check\<close>

definition collapse_label :: "string \<Rightarrow> string" where
  "collapse_label s = py_lower (join_with '' '' (tokens is_space_char s))"

definition blank_label :: "string option \<Rightarrow> bool" where
  "blank_label v = (case v of None \<Rightarrow> True | Some s \<Rightarrow> py_strip s = [])"

record preview_issue =
  pi_code :: string
  pi_message :: string

record preview_result =
  pw_event_id :: uuid
  pw_event_name :: string
  pw_site_id :: uuid
  pw_site_name :: string
  pw_rooms :: nat
  pw_sessions :: nat
  pw_presenters :: nat
  pw_presentations :: nat
  pw_warnings :: "preview_issue list"
  pw_errors :: "preview_issue list"
  pw_deployable :: bool
  pw_existing_deployment_id :: "uuid option"
  pw_next_revision :: int

definition issue_if :: "nat \<Rightarrow> string \<Rightarrow> string \<Rightarrow> preview_issue list" where
  "issue_if n code rest =
     (if n = 0 then [] else [\<lparr>pi_code = code, pi_message = str_int (int n) @ rest\<rparr>])"

definition deployment_preview :: "uuid \<Rightarrow> uuid \<Rightarrow> central_db \<Rightarrow> preview_result outcome" where
  "deployment_preview event_id site_id db =
     outcome_bind (load_event event_id db) (\<lambda>event.
     case row_get ccs_site_id (cd_sites db) site_id of
       None \<Rightarrow> Inl (HTTPException 404 ''site not found'')
     | Some site \<Rightarrow>
       let sessions = event_sessions event_id db;
           presentations = filter (\<lambda>p. cpr_event_id p = event_id) (cd_presentations db);
           room_labels = remdups (map (\<lambda>s. collapse_label (default_to [] (css_location_name s)))
             (filter (\<lambda>s. \<not> blank_label (css_location_name s)) sessions));
           missing_rooms = filter (\<lambda>s. blank_label (css_location_name s)) sessions;
           declared = remdups (map cep_event_participation_id
             (filter cep_is_presenter (event_participations event_id db)));
           assigned = remdups (map csp_event_participation_id
             (filter (\<lambda>l. csp_session_id l \<in> css_session_id ` set sessions) (cd_session_participants db)));
           unresolved = filter (\<lambda>i. i \<notin> set assigned) declared;
           unlinked = filter (\<lambda>p. cpr_session_id p = None \<and> session_links db (cpr_presentation_id p) = []) presentations;
           conflicts = length (filter (\<lambda>m. crm_site_id m = site_id
             \<and> crm_normalized_imported_label m \<in> set room_labels \<and> crm_mapping_status m = ''conflict'')
             (cd_room_mappings db));
           errors = issue_if conflicts ''ambiguous_room_mapping'' '' imported room mapping(s) are ambiguous.'';
           existing = find (\<lambda>d. ced_event_id d = event_id \<and> ced_site_id d = site_id) (cd_deployments db)
       in Inr \<lparr>pw_event_id = event_id, pw_event_name = cev_name event, pw_site_id = site_id,
               pw_site_name = ccs_display_name site, pw_rooms = length room_labels, pw_sessions = length sessions,
               pw_presenters = length (remdups (declared @ assigned)), pw_presentations = length presentations,
               pw_warnings =
                 issue_if (length missing_rooms) ''session_without_room'' '' session(s) have no imported room label.''
                 @ issue_if (length unresolved) ''presenter_without_session''
                     '' presenter(s) are not assigned to a session.''
                 @ issue_if (length unlinked) ''presentation_without_session''
                     '' presentation(s) are not linked to a session.'',
               pw_errors = errors, pw_deployable = (errors = []),
               pw_existing_deployment_id = map_option ced_deployment_id existing,
               pw_next_revision = (case existing of None \<Rightarrow> 1 | Some d \<Rightarrow> ced_desired_revision d + 1)\<rparr>)"

section \<open>Publishing, retrying, revoking\<close>

definition enqueue_deployment ::
  "codec \<Rightarrow> datetime \<Rightarrow> central_event_deployment \<Rightarrow> string \<Rightarrow> payload \<Rightarrow> int \<Rightarrow> uuid option \<Rightarrow> central_db
   \<Rightarrow> central_db outcome" where
  "enqueue_deployment cx now deployment event_type payload revision retry_id db =
     (case central_next_sequence (ced_site_id deployment) db of (sequence, db1) \<Rightarrow>
      outcome_bind (central_publish cx now
        \<lparr>ov_event_type = event_type, ov_aggregate_type = ''event_deployment'',
         ov_aggregate_id = ced_deployment_id deployment, ov_site_id = Some (ced_site_id deployment),
         ov_event_id = Some (ced_event_id deployment), ov_source_sequence = Some sequence,
         ov_correlation_id = Some (ced_deployment_id deployment), ov_causation_id = None,
         ov_protocol_version = Some UPM_SYNC_PROTOCOL_VERSION,
         ov_idempotency_key = ''deployment:'' @ uuid_str (ced_deployment_id deployment) @ '':'' @ str_int revision
           @ '':'' @ event_type @ (case retry_id of None \<Rightarrow> [] | Some r \<Rightarrow> '':retry:'' @ uuid_str r),
         ov_payload = \<lparr>op_schema_version = EVENT_DEPLOYMENT_SCHEMA_VERSION, op_source_system = Src_CENTRAL,
                       op_data = payload\<rparr>\<rparr> db1)
        (\<lambda>(event, db2). Inr db2))"

definition store_revision ::
  "codec \<Rightarrow> datetime \<Rightarrow> uuid \<Rightarrow> int \<Rightarrow> string \<Rightarrow> payload \<Rightarrow> central_db \<Rightarrow> central_db outcome" where
  "store_revision cx now deployment_id revision event_type snapshot db =
     (if revision < 1 then Inl (IntegrityError ''deployment_revision_positive'')
      else if \<exists>r \<in> set (cd_deployment_revisions db). cdr_deployment_id r = deployment_id
                \<and> cdr_deployment_revision r = revision
      then Inl (IntegrityError ''unique (deployment_id, deployment_revision)'')
      else Inr ((central_minted db)\<lparr>cd_deployment_revisions := cd_deployment_revisions db @
        [\<lparr>cdr_deployment_revision_id = central_fresh cx db, cdr_deployment_id = deployment_id,
          cdr_deployment_revision = revision, cdr_event_type = event_type,
          cdr_schema_version = EVENT_DEPLOYMENT_SCHEMA_VERSION, cdr_snapshot = snapshot,
          cdr_created_at = now\<rparr>]\<rparr>))"

definition save_deployment :: "central_event_deployment \<Rightarrow> central_db \<Rightarrow> central_db" where
  "save_deployment d db =
     db\<lparr>cd_deployments := row_put ced_deployment_id (ced_deployment_id d) (\<lambda>_. d) (cd_deployments db)\<rparr>"

definition audit_deployment ::
  "codec \<Rightarrow> datetime \<Rightarrow> string \<Rightarrow> central_event_deployment \<Rightarrow> payload \<Rightarrow> central_db \<Rightarrow> central_db" where
  "audit_deployment cx now action d context db =
     central_audit cx now (\<lambda>r. r\<lparr>car_actor_id := Some ''central-admin'', car_action := action,
       car_target_type := ''event_deployment'', car_target_id := Some (ced_deployment_id d),
       car_site_id := Some (ced_site_id d), car_event_id := Some (ced_event_id d),
       car_after_context := Some context\<rparr>) db"

definition push_event_type :: "bool \<Rightarrow> central_event_deployment \<Rightarrow> string" where
  "push_event_type initial d =
     (if initial \<or> ced_desired_revision d = 0 then ''central.event_deployment.requested''
      else ''central.event_deployment.updated'')"

definition push_target :: "central_event_deployment \<Rightarrow> event_deployment_status" where
  "push_target d = (if ced_desired_revision d = 0 then Dep_PENDING else Dep_UPDATE_PENDING)"

definition push_deployment ::
  "codec \<Rightarrow> datetime \<Rightarrow> bool \<Rightarrow> central_event_deployment \<Rightarrow> central_db \<Rightarrow> (central_event_deployment \<times> central_db) outcome" where
  "push_deployment cx now initial d db =
     (if ced_status d \<notin> set deployable_statuses then Inl (HTTPException 409 ''deployment cannot be pushed'')
      else let revision = ced_desired_revision d + 1; event_type = push_event_type initial d in
      outcome_bind (build_snapshot d revision db) (\<lambda>snapshot.
      let payload = dump_snapshot cx snapshot in
      outcome_bind (store_revision cx now (ced_deployment_id d) revision event_type payload db) (\<lambda>db1.
      outcome_bind (transition d (push_target d)) (\<lambda>d1.
      let d2 = d1\<lparr>ced_desired_revision := revision, ced_deployment_requested_at := Some now,
                  ced_failure_at := None, ced_failure_reason := None\<rparr>
      in outcome_bind (enqueue_deployment cx now d2 event_type payload revision None (save_deployment d2 db1)) (\<lambda>db2.
         Inr (d2, audit_deployment cx now event_type d2 [(''desired_revision'', JInt revision)] db2))))))"

definition insert_deployment ::
  "codec \<Rightarrow> datetime \<Rightarrow> uuid \<Rightarrow> uuid \<Rightarrow> central_db \<Rightarrow> central_event_deployment \<times> central_db" where
  "insert_deployment cx now event_id site_id db =
     (let d = (default_central_event_deployment now)\<lparr>ced_deployment_id := central_fresh cx db,
                ced_event_id := event_id, ced_site_id := site_id\<rparr>
      in (d, (central_minted db)\<lparr>cd_deployments := cd_deployments db @ [d]\<rparr>))"

definition create_deployment ::
  "codec \<Rightarrow> datetime \<Rightarrow> uuid \<Rightarrow> uuid \<Rightarrow> central_db \<Rightarrow> (central_event_deployment \<times> central_db) outcome" where
  "create_deployment cx now event_id site_id db =
     outcome_bind (load_event event_id db) (\<lambda>event.
     case row_get ccs_site_id (cd_sites db) site_id of
       None \<Rightarrow> Inl (HTTPException 404 ''site not found'')
     | Some site \<Rightarrow>
       if \<not> ccs_enabled site \<or> ccs_enrollment_state site \<noteq> Enroll_ACTIVE
       then Inl (HTTPException 409 ''site is not active'')
       else outcome_bind (deployment_preview event_id site_id db) (\<lambda>preview.
       if \<not> pw_deployable preview then Inl (HTTPException 422 ''event deployment validation failed'')
       else if find (\<lambda>d. ced_event_id d = event_id \<and> ced_site_id d = site_id) (cd_deployments db) \<noteq> None
       then Inl (HTTPException 409 ''event is already assigned to site'')
       else (case insert_deployment cx now event_id site_id db of (d, db1) \<Rightarrow>
             push_deployment cx now True d db1)))"

definition retry_target :: "central_event_deployment \<Rightarrow> event_deployment_status" where
  "retry_target d = (if ced_acknowledged_revision d = 0 then Dep_PENDING else Dep_UPDATE_PENDING)"

definition retry_deployment ::
  "codec \<Rightarrow> datetime \<Rightarrow> central_event_deployment \<Rightarrow> central_db \<Rightarrow> (central_event_deployment \<times> central_db) outcome" where
  "retry_deployment cx now d db =
     (if ced_status d \<noteq> Dep_FAILED then Inl (HTTPException 409 ''only failed deployments can retry'')
      else case find (\<lambda>r. cdr_deployment_id r = ced_deployment_id d
                        \<and> cdr_deployment_revision r = ced_desired_revision d) (cd_deployment_revisions db) of
        None \<Rightarrow> Inl (HTTPException 409 ''deployment revision is missing'')
      | Some revision \<Rightarrow>
        outcome_bind (transition d (retry_target d)) (\<lambda>d1.
        let d2 = d1\<lparr>ced_failure_at := None, ced_failure_reason := None\<rparr> in
        outcome_bind (enqueue_deployment cx now d2 (cdr_event_type revision) (cdr_snapshot revision)
          (cdr_deployment_revision revision) (Some (central_fresh cx db))
          (central_minted (save_deployment d2 db))) (\<lambda>db2.
        Inr (d2, audit_deployment cx now ''central.event_deployment.retried'' d2
          [(''desired_revision'', JInt (ced_desired_revision d2))] db2))))"

definition revoke_deployment ::
  "codec \<Rightarrow> datetime \<Rightarrow> string option \<Rightarrow> central_event_deployment \<Rightarrow> central_db
   \<Rightarrow> (central_event_deployment \<times> central_db) outcome" where
  "revoke_deployment cx now reason d db =
     outcome_bind (transition d Dep_REVOKED) (\<lambda>d1.
     let revision = ced_desired_revision d1 + 1;
         message = \<lparr>rev_schema_version = EVENT_DEPLOYMENT_SCHEMA_VERSION, rev_deployment_id = ced_deployment_id d1,
            rev_deployment_revision = revision, rev_event_id = ced_event_id d1, rev_site_id = ced_site_id d1,
            rev_reason = reason\<rparr>
     in if \<not> deployment_revocation_fields message then Inl validation_error
        else let payload = dump_revocation cx message;
                 d2 = d1\<lparr>ced_desired_revision := revision, ced_deployment_requested_at := Some now\<rparr>
        in outcome_bind (store_revision cx now (ced_deployment_id d1) revision
               ''central.event_deployment.revoked'' payload db) (\<lambda>db1.
           outcome_bind (enqueue_deployment cx now d2 ''central.event_deployment.revoked'' payload revision None
               (save_deployment d2 db1)) (\<lambda>db2.
           Inr (d2, audit_deployment cx now ''central.event_deployment.revoked'' d2
             [(''desired_revision'', JInt revision), (''reason'', optional_json reason)] db2))))"

section \<open>Outbound sequence numbers\<close>

definition outbound_next :: "uuid \<Rightarrow> central_db \<Rightarrow> int" where
  "outbound_next i db =
     (case row_get csq_site_id (cd_sequences db) i of None \<Rightarrow> 1 | Some s \<Rightarrow> csq_next_value s)"

definition outbound_log :: "uuid \<Rightarrow> central_db \<Rightarrow> int option list" where
  "outbound_log i db = map o_source_sequence (filter (\<lambda>e. o_site_id e = Some i) (q_outbox (cd_queue db)))"

interpretation sequence_update: row_update csq_site_id "\<lambda>r. r\<lparr>csq_next_value := csq_next_value r + 1\<rparr>"
  by unfold_locales simp

lemma next_sequence_value: "fst (central_next_sequence i db) = outbound_next i db"
  by (simp add: central_next_sequence_def outbound_next_def split: option.splits)

lemma next_sequence_next:
  "outbound_next j (snd (central_next_sequence i db)) = (if j = i then outbound_next i db + 1 else outbound_next j db)"
proof (cases "row_get csq_site_id (cd_sequences db) i")
  case None
  then show ?thesis
    by (simp add: central_next_sequence_def outbound_next_def row_get_append split: option.splits)
next
  case (Some s)
  then show ?thesis
    by (cases "j = i")
      (simp_all add: central_next_sequence_def outbound_next_def sequence_update.get_same sequence_update.get_other)
qed

lemma next_sequence_keeps [simp]:
  "cd_queue (snd (central_next_sequence i db)) = cd_queue db"
  "cd_deployments (snd (central_next_sequence i db)) = cd_deployments db"
  by (simp_all add: central_next_sequence_def split: option.splits)

text \<open>What one publication does to the streams: one more event, numbered next, for one Site.\<close>

definition published :: "uuid \<Rightarrow> central_db \<Rightarrow> central_db \<Rightarrow> bool" where
  "published i db db' \<longleftrightarrow>
     outbound_log i db' = outbound_log i db @ [Some (outbound_next i db)]
     \<and> outbound_next i db' = outbound_next i db + 1
     \<and> (\<forall>j. j \<noteq> i \<longrightarrow> outbound_log j db' = outbound_log j db \<and> outbound_next j db' = outbound_next j db)"

lemma publish_published:
  assumes "central_next_sequence i db = (sequence, db1)" and "central_publish cx now v db1 = Inr (e, db2)"
    and "ov_site_id v = Some i" and "ov_source_sequence v = Some sequence"
  shows "published i db db2" and "cd_deployments db2 = cd_deployments db"
proof -
  have d1: "db1 = snd (central_next_sequence i db)" and s: "sequence = outbound_next i db"
    using assms(1) next_sequence_value [of i db] by simp_all
  note p = central_publish_Inr [OF assms(2)]
  have q: "q_outbox (cd_queue db2) = q_outbox (cd_queue db) @ [e]" by (simp add: p(4) d1)
  have o: "o_site_id e = Some i" "o_source_sequence e = Some sequence"
    using assms(3,4) by (simp_all add: p(1) new_outbox_event_def)
  have "outbound_next j db2 = outbound_next j db1" for j by (simp add: outbound_next_def p(4))
  then show "published i db db2"
    using next_sequence_next [of _ i db] q o s by (auto simp: published_def outbound_log_def d1)
  show "cd_deployments db2 = cd_deployments db" by (simp add: p(4) d1)
qed

lemma enqueue_published:
  assumes "enqueue_deployment cx now d event_type payload revision retry_id db = Inr db'"
  shows "published (ced_site_id d) db db'" and "cd_deployments db' = cd_deployments db"
  using assms
  by (auto simp: enqueue_deployment_def outcome_bind_Inr_conv split: prod.splits
      intro!: publish_published dest: publish_published(2))

lemma published_eq:
  assumes "published i db1 db2" and "\<And>j. outbound_log j db1 = outbound_log j db \<and> outbound_next j db1 = outbound_next j db"
    and "\<And>j. outbound_log j db3 = outbound_log j db2 \<and> outbound_next j db3 = outbound_next j db2"
  shows "published i db db3"
  using assms by (simp add: published_def)

lemma streams_kept [simp]:
  "outbound_log j (save_deployment d db) = outbound_log j db"
  "outbound_next j (save_deployment d db) = outbound_next j db"
  "outbound_log j (audit_deployment cx now a d c db) = outbound_log j db"
  "outbound_next j (audit_deployment cx now a d c db) = outbound_next j db"
  "outbound_log j (central_minted db) = outbound_log j db"
  "outbound_next j (central_minted db) = outbound_next j db"
  "cd_deployments (audit_deployment cx now a d c db) = cd_deployments db"
  by (simp_all add: outbound_log_def outbound_next_def save_deployment_def audit_deployment_def)

lemma store_revision_keeps:
  assumes "store_revision cx now k revision event_type snapshot db = Inr db'"
  shows "outbound_log j db' = outbound_log j db" and "outbound_next j db' = outbound_next j db"
    and "cd_deployments db' = cd_deployments db"
  using assms
  by (auto simp: store_revision_def outbound_log_def outbound_next_def split: if_splits)

section \<open>The operations follow the state machine\<close>

lemma transition_Inr:
  assumes "transition d target = Inr d'"
  shows "ced_status d' = target \<and> (target = ced_status d \<or> target \<in> set (allowed_transitions (ced_status d)))
    \<and> d' = d\<lparr>ced_status := target\<rparr>"
  using assms by (auto simp: transition_def split: if_splits)

definition deployment_moved ::
  "int \<Rightarrow> central_event_deployment \<Rightarrow> central_event_deployment \<Rightarrow> central_db \<Rightarrow> central_db \<Rightarrow> bool" where
  "deployment_moved step d d' db db' \<longleftrightarrow>
     ced_desired_revision d' = ced_desired_revision d + step
     \<and> ced_acknowledged_revision d' = ced_acknowledged_revision d
     \<and> ced_deployment_id d' = ced_deployment_id d \<and> ced_site_id d' = ced_site_id d \<and> ced_event_id d' = ced_event_id d
     \<and> (ced_status d' = ced_status d \<or> ced_status d' \<in> set (allowed_transitions (ced_status d)))
     \<and> cd_deployments db' = row_put ced_deployment_id (ced_deployment_id d) (\<lambda>_. d') (cd_deployments db)
     \<and> published (ced_site_id d) db db'"

lemma push_moved:
  assumes "push_deployment cx now initial d db = Inr (d', db')"
  shows "deployment_moved 1 d d' db db' \<and> ced_status d' = push_target d \<and> ced_status d \<in> set deployable_statuses"
proof -
  have dep: "ced_status d \<in> set deployable_statuses"
    using assms by (simp add: push_deployment_def split: if_split_asm)
  obtain snapshot where sn: "build_snapshot d (ced_desired_revision d + 1) db = Inr snapshot"
    using assms dep by (cases "build_snapshot d (ced_desired_revision d + 1) db")
      (simp_all add: push_deployment_def Let_def)
  obtain db1 where st: "store_revision cx now (ced_deployment_id d) (ced_desired_revision d + 1)
      (push_event_type initial d) (dump_snapshot cx snapshot) db = Inr db1"
    using assms dep sn
    by (cases "store_revision cx now (ced_deployment_id d) (ced_desired_revision d + 1)
      (push_event_type initial d) (dump_snapshot cx snapshot) db") (simp_all add: push_deployment_def Let_def)
  obtain d1 where tr: "transition d (push_target d) = Inr d1"
    using assms dep sn st by (cases "transition d (push_target d)") (simp_all add: push_deployment_def Let_def)
  define d2 where "d2 = d1\<lparr>ced_desired_revision := ced_desired_revision d + 1, ced_deployment_requested_at := Some now,
       ced_failure_at := None, ced_failure_reason := None\<rparr>"
  obtain db2 where en2: "enqueue_deployment cx now d2 (push_event_type initial d) (dump_snapshot cx snapshot)
      (ced_desired_revision d + 1) None (save_deployment d2 db1) = Inr db2"
    using assms dep sn st tr
    by (cases "enqueue_deployment cx now d2 (push_event_type initial d) (dump_snapshot cx snapshot)
      (ced_desired_revision d + 1) None (save_deployment d2 db1)")
      (simp_all add: push_deployment_def Let_def flip: d2_def)
  have d': "d' = d2" and db': "db' = audit_deployment cx now (push_event_type initial d) d'
      [(''desired_revision'', JInt (ced_desired_revision d + 1))] db2"
    using assms dep sn st tr en2 by (auto simp: push_deployment_def Let_def simp flip: d2_def)
  note en = en2 [folded d'] and d' = d' [unfolded d2_def]
  note t = transition_Inr [OF tr]
  have "ced_site_id d' = ced_site_id d" using t d' by simp
  then have p: "published (ced_site_id d) (save_deployment d' db1) db2"
    using enqueue_published(1) [OF en] by simp
  have "published (ced_site_id d) db db'"
    by (rule published_eq [OF p])
      (simp_all only: db' streams_kept store_revision_keeps(1,2) [OF st] simp_thms)
  moreover have "cd_deployments db' = row_put ced_deployment_id (ced_deployment_id d) (\<lambda>_. d') (cd_deployments db)"
    using enqueue_published(2) [OF en] store_revision_keeps(3) [OF st] t d' by (simp add: db' save_deployment_def)
  ultimately show ?thesis using t dep by (simp add: deployment_moved_def d')
qed

lemma retry_moved:
  assumes "retry_deployment cx now d db = Inr (d', db')"
  shows "deployment_moved 0 d d' db db' \<and> ced_status d' = retry_target d \<and> ced_status d = Dep_FAILED"
proof -
  have f: "ced_status d = Dep_FAILED"
    using assms by (simp add: retry_deployment_def split: if_split_asm)
  obtain revision where rv: "find (\<lambda>r. cdr_deployment_id r = ced_deployment_id d
      \<and> cdr_deployment_revision r = ced_desired_revision d) (cd_deployment_revisions db) = Some revision"
    using assms f by (auto simp: retry_deployment_def split: option.splits)
  obtain d1 where tr: "transition d (retry_target d) = Inr d1"
    using assms f rv by (cases "transition d (retry_target d)") (simp_all add: retry_deployment_def Let_def)
  define d2 where "d2 = d1\<lparr>ced_failure_at := None, ced_failure_reason := None\<rparr>"
  obtain db2 where en2: "enqueue_deployment cx now d2 (cdr_event_type revision) (cdr_snapshot revision)
          (cdr_deployment_revision revision) (Some (central_fresh cx db))
          (central_minted (save_deployment d2 db)) = Inr db2"
    using assms f rv tr
    by (cases "enqueue_deployment cx now d2 (cdr_event_type revision) (cdr_snapshot revision)
          (cdr_deployment_revision revision) (Some (central_fresh cx db)) (central_minted (save_deployment d2 db))")
      (simp_all add: retry_deployment_def Let_def flip: d2_def)
  have d': "d' = d2" and db': "db' = audit_deployment cx now ''central.event_deployment.retried'' d'
          [(''desired_revision'', JInt (ced_desired_revision d1))] db2"
    using assms f rv tr en2 by (auto simp: retry_deployment_def Let_def simp flip: d2_def)
  note en = en2 [folded d'] and d' = d' [unfolded d2_def]
  note t = transition_Inr [OF tr]
  have "ced_site_id d' = ced_site_id d" using t d' by simp
  then have p: "published (ced_site_id d) (central_minted (save_deployment d' db)) db2"
    using enqueue_published(1) [OF en] by simp
  have "published (ced_site_id d) db db'"
    by (rule published_eq [OF p]) (simp_all only: db' streams_kept simp_thms)
  moreover have "cd_deployments db' = row_put ced_deployment_id (ced_deployment_id d) (\<lambda>_. d') (cd_deployments db)"
    using enqueue_published(2) [OF en] t d' by (simp add: db' save_deployment_def)
  ultimately show ?thesis using t f by (simp add: deployment_moved_def d')
qed

lemma revoke_moved:
  assumes "revoke_deployment cx now reason d db = Inr (d', db')"
  shows "deployment_moved 1 d d' db db' \<and> ced_status d' = Dep_REVOKED"
proof -
  obtain d1 where tr: "transition d Dep_REVOKED = Inr d1"
    using assms by (cases "transition d Dep_REVOKED") (simp_all add: revoke_deployment_def)
  define message where "message = \<lparr>rev_schema_version = EVENT_DEPLOYMENT_SCHEMA_VERSION,
    rev_deployment_id = ced_deployment_id d1, rev_deployment_revision = ced_desired_revision d1 + 1,
    rev_event_id = ced_event_id d1, rev_site_id = ced_site_id d1, rev_reason = reason\<rparr>"
  have ok: "deployment_revocation_fields message"
    using assms tr by (simp add: revoke_deployment_def Let_def flip: message_def split: if_split_asm)
  obtain db1 where st: "store_revision cx now (ced_deployment_id d1) (ced_desired_revision d1 + 1)
       ''central.event_deployment.revoked'' (dump_revocation cx message) db = Inr db1"
    using assms tr ok
    by (cases "store_revision cx now (ced_deployment_id d1) (ced_desired_revision d1 + 1)
       ''central.event_deployment.revoked'' (dump_revocation cx message) db")
      (simp_all add: revoke_deployment_def Let_def flip: message_def)
  define d2 where "d2 = d1\<lparr>ced_desired_revision := ced_desired_revision d1 + 1, ced_deployment_requested_at := Some now\<rparr>"
  obtain db2 where en2: "enqueue_deployment cx now d2 ''central.event_deployment.revoked'' (dump_revocation cx message)
      (ced_desired_revision d1 + 1) None (save_deployment d2 db1) = Inr db2"
    using assms tr ok st
    by (cases "enqueue_deployment cx now d2 ''central.event_deployment.revoked'' (dump_revocation cx message)
      (ced_desired_revision d1 + 1) None (save_deployment d2 db1)")
      (simp_all add: revoke_deployment_def Let_def flip: message_def d2_def)
  have d': "d' = d2" and db': "db' = audit_deployment cx now ''central.event_deployment.revoked'' d'
             [(''desired_revision'', JInt (ced_desired_revision d1 + 1)), (''reason'', optional_json reason)] db2"
    using assms tr ok st en2 by (auto simp: revoke_deployment_def Let_def simp flip: message_def d2_def)
  note en = en2 [folded d'] and d' = d' [unfolded d2_def]
  note t = transition_Inr [OF tr]
  have "ced_site_id d' = ced_site_id d" using t d' by simp
  then have p: "published (ced_site_id d) (save_deployment d' db1) db2"
    using enqueue_published(1) [OF en] by simp
  have "published (ced_site_id d) db db'"
    by (rule published_eq [OF p])
      (simp_all only: db' streams_kept store_revision_keeps(1,2) [OF st] simp_thms)
  moreover have "cd_deployments db' = row_put ced_deployment_id (ced_deployment_id d) (\<lambda>_. d') (cd_deployments db)"
    using enqueue_published(2) [OF en] store_revision_keeps(3) [OF st] t d' by (simp add: db' save_deployment_def)
  ultimately show ?thesis using t by (simp add: deployment_moved_def d')
qed

lemma create_moved:
  assumes "create_deployment cx now event_id site_id db = Inr (d', db')"
  shows "\<exists>d db1. insert_deployment cx now event_id site_id db = (d, db1) \<and> deployment_moved 1 d d' db1 db'
    \<and> ced_status d' = Dep_PENDING"
proof -
  obtain d db1 where i: "insert_deployment cx now event_id site_id db = (d, db1)" by fastforce
  then have d: "ced_desired_revision d = 0"
    by (auto simp: insert_deployment_def Let_def default_central_event_deployment_def)
  have "push_deployment cx now True d db1 = Inr (d', db')"
    using assms i by (auto simp: create_deployment_def outcome_bind_Inr_conv split: option.splits if_split_asm)
  from push_moved [OF this] i d show ?thesis by (auto simp: push_target_def)
qed

text \<open>
  C16: Every deployment operation follows the state machine. Publishing, retrying and
  revoking leave the status alone or move it along an allowed transition, to the status
  documented for the operation; publishing and revoking raise the wanted revision by
  one and retrying keeps it; the acknowledged revision and the identities stay; the
  deployment's row is saved; and exactly one event is queued, for the deployment's Site,
  with that Site's next sequence number.
\<close>

theorem deployment_operations_follow_state_machine:
  "(\<forall>initial d' db'. push_deployment cx now initial d db = Inr (d', db') \<longrightarrow>
      deployment_moved 1 d d' db db' \<and> ced_status d' = push_target d \<and> ced_status d \<in> set deployable_statuses)
   \<and> (\<forall>d' db'. retry_deployment cx now d db = Inr (d', db') \<longrightarrow>
      deployment_moved 0 d d' db db' \<and> ced_status d' = retry_target d \<and> ced_status d = Dep_FAILED)
   \<and> (\<forall>reason d' db'. revoke_deployment cx now reason d db = Inr (d', db') \<longrightarrow>
      deployment_moved 1 d d' db db' \<and> ced_status d' = Dep_REVOKED)"
  using push_moved retry_moved revoke_moved by blast

definition demo_deploy_db :: central_db where
  "demo_deploy_db = empty_central_db\<lparr>cd_deployments := [demo_deployment Dep_DEPLOYED 1 1]\<rparr>"

lemma demo_revoke:
  "(case revoke_deployment demo_codec 5 None (demo_deployment Dep_DEPLOYED 1 1) demo_deploy_db of
      Inl e \<Rightarrow> False
    | Inr (d', db') \<Rightarrow> ced_desired_revision d' = 2 \<and> length (q_outbox (cd_queue db')) = 1)"
  by code_simp

theorem deployment_operations_follow_state_machine_witness:
  "\<exists>d' (db' :: central_db). revoke_deployment demo_codec 5 None (demo_deployment Dep_DEPLOYED 1 1) demo_deploy_db
       = Inr (d', db') \<and> ced_status d' = Dep_REVOKED \<and> outbound_log 7 db' = [Some 1]"
proof -
  obtain d' db' where p: "revoke_deployment demo_codec 5 None (demo_deployment Dep_DEPLOYED 1 1) demo_deploy_db = Inr (d', db')"
    using demo_revoke by (auto split: sum.splits)
  have l: "outbound_log 7 demo_deploy_db = []" "outbound_next 7 demo_deploy_db = 1"
    and i: "ced_site_id (demo_deployment Dep_DEPLOYED 1 1) = 7"
    by (simp_all add: outbound_log_def outbound_next_def demo_deploy_db_def empty_central_db_def demo_deployment_def)
  have "deployment_moved 1 (demo_deployment Dep_DEPLOYED 1 1) d' demo_deploy_db db' \<and> ced_status d' = Dep_REVOKED"
    using deployment_operations_follow_state_machine [of demo_codec 5 "demo_deployment Dep_DEPLOYED 1 1" demo_deploy_db] p
    by blast
  with l i p show ?thesis by (auto simp: deployment_moved_def published_def)
qed

section \<open>A late report reopens a revoked deployment\<close>

text \<open>
  C17: Reports are not checked against the state machine. An \<open>applied\<close> report about an
  older revision that arrives after the revocation takes a revoked deployment back to
  \<open>update_pending\<close>, which is no allowed transition, and from there it can be published
  again, which the revoked deployment could not.
\<close>

theorem late_report_reopens_revoked_deployment:
  assumes "ced_status d = Dep_REVOKED" and "sds_status report = ''applied''"
    and "sds_applied_revision report < ced_desired_revision d"
    and "ced_acknowledged_revision d < ced_desired_revision d"
  shows "ced_status (record_report now report d) = Dep_UPDATE_PENDING
    \<and> Dep_UPDATE_PENDING \<notin> set (allowed_transitions (ced_status d))
    \<and> ced_status d \<notin> set deployable_statuses
    \<and> ced_status (record_report now report d) \<in> set deployable_statuses"
  using assms by (simp add: record_report_status_eq record_report_acknowledged_eq deployable_statuses_def max_def min_def)

theorem late_report_reopens_revoked_deployment_witness:
  "ced_status (record_report 5 (demo_status ''applied'' 1 1) (demo_deployment Dep_REVOKED 2 0)) = Dep_UPDATE_PENDING"
  using late_report_reopens_revoked_deployment
    [of "demo_deployment Dep_REVOKED 2 0" "demo_status ''applied'' 1 1" 5]
  by (simp add: demo_deployment_def demo_status_def)

end
