(* ===== verification/Program_Forms.thy ===== *)
theory Program_Forms
  imports Contracts
begin

text \<open>
  The request bodies of \<open>upm_central/program_api.py\<close>: one record per pydantic model, and
  \<open>..._fields\<close>, the bounds its fields declare. FastAPI rejects a body outside them before a
  handler runs.
\<close>

record person_write =
  pw_given_name :: "string option"
  pw_middle_name :: "string option"
  pw_family_name :: "string option"
  pw_prefix :: "string option"
  pw_suffix :: "string option"
  pw_preferred_name :: "string option"
  pw_display_name :: string
  pw_professional_title :: "string option"
  pw_organization :: "string option"
  pw_primary_email :: "string option"
  pw_phone :: "string option"

definition person_write_fields :: "person_write \<Rightarrow> bool" where
  "person_write_fields m \<longleftrightarrow>
     (case (pw_given_name m) of None \<Rightarrow> True | Some x \<Rightarrow> length x \<le> 255)
     \<and> (case (pw_middle_name m) of None \<Rightarrow> True | Some x \<Rightarrow> length x \<le> 255)
     \<and> (case (pw_family_name m) of None \<Rightarrow> True | Some x \<Rightarrow> length x \<le> 255)
     \<and> (case (pw_prefix m) of None \<Rightarrow> True | Some x \<Rightarrow> length x \<le> 64)
     \<and> (case (pw_suffix m) of None \<Rightarrow> True | Some x \<Rightarrow> length x \<le> 64)
     \<and> (case (pw_preferred_name m) of None \<Rightarrow> True | Some x \<Rightarrow> length x \<le> 255)
     \<and> 1 \<le> length (pw_display_name m)
     \<and> length (pw_display_name m) \<le> 255
     \<and> (case (pw_professional_title m) of None \<Rightarrow> True | Some x \<Rightarrow> length x \<le> 255)
     \<and> (case (pw_organization m) of None \<Rightarrow> True | Some x \<Rightarrow> length x \<le> 255)
     \<and> (case (pw_primary_email m) of None \<Rightarrow> True | Some x \<Rightarrow> length x \<le> 320)
     \<and> (case (pw_phone m) of None \<Rightarrow> True | Some x \<Rightarrow> length x \<le> 64)"

record participant_write =
  tw_person_id :: uuid
  tw_display_name :: "string option"
  tw_professional_title :: "string option"
  tw_organization :: "string option"
  tw_registration_status :: "string option"
  tw_participant_status :: participant_status
  tw_is_presenter :: bool
  tw_notes :: "string option"

definition participant_write_fields :: "participant_write \<Rightarrow> bool" where
  "participant_write_fields m \<longleftrightarrow>
     (case (tw_display_name m) of None \<Rightarrow> True | Some x \<Rightarrow> length x \<le> 255)
     \<and> (case (tw_professional_title m) of None \<Rightarrow> True | Some x \<Rightarrow> length x \<le> 255)
     \<and> (case (tw_organization m) of None \<Rightarrow> True | Some x \<Rightarrow> length x \<le> 255)
     \<and> (case (tw_registration_status m) of None \<Rightarrow> True | Some x \<Rightarrow> length x \<le> 100)"

record session_write =
  sw_title :: string
  sw_subtitle :: "string option"
  sw_description :: "string option"
  sw_session_code :: "string option"
  sw_session_type :: "string option"
  sw_starts_at :: "datetime option"
  sw_ends_at :: "datetime option"
  sw_location_name :: "string option"
  sw_status :: session_status
  sw_sort_order :: int

definition session_write_fields :: "session_write \<Rightarrow> bool" where
  "session_write_fields m \<longleftrightarrow>
     1 \<le> length (sw_title m)
     \<and> length (sw_title m) \<le> 255
     \<and> (case (sw_subtitle m) of None \<Rightarrow> True | Some x \<Rightarrow> length x \<le> 255)
     \<and> (case (sw_session_code m) of None \<Rightarrow> True | Some x \<Rightarrow> length x \<le> 255)
     \<and> (case (sw_session_type m) of None \<Rightarrow> True | Some x \<Rightarrow> length x \<le> 100)
     \<and> (case (sw_location_name m) of None \<Rightarrow> True | Some x \<Rightarrow> length x \<le> 255)"

record session_presenter_write =
  spw_event_participation_id :: uuid
  spw_role :: string
  spw_presenter_order :: int
  spw_primary_presenter :: bool
  spw_notes :: "string option"

definition session_presenter_write_fields :: "session_presenter_write \<Rightarrow> bool" where
  "session_presenter_write_fields m \<longleftrightarrow>
     1 \<le> length (spw_role m)
     \<and> length (spw_role m) \<le> 64"

record presentation_write =
  prw_title :: string
  prw_description :: "string option"
  prw_presentation_code :: "string option"
  prw_workflow_status :: presentation_workflow_status
  prw_processing_status :: presentation_processing_status
  prw_scheduled_at :: "datetime option"
  prw_preferred_session_id :: "uuid option"

definition presentation_write_fields :: "presentation_write \<Rightarrow> bool" where
  "presentation_write_fields m \<longleftrightarrow>
     1 \<le> length (prw_title m)
     \<and> length (prw_title m) \<le> 255
     \<and> (case (prw_presentation_code m) of None \<Rightarrow> True | Some x \<Rightarrow> length x \<le> 255)"

record presentation_session_write =
  psw_session_id :: uuid
  psw_association_type :: string
  psw_sort_order :: int
  psw_primary_session :: bool

definition presentation_session_write_fields :: "presentation_session_write \<Rightarrow> bool" where
  "presentation_session_write_fields m \<longleftrightarrow>
     1 \<le> length (psw_association_type m)
     \<and> length (psw_association_type m) \<le> 64"

record presentation_presenter_write =
  ppw_event_participation_id :: uuid
  ppw_role :: string
  ppw_presenter_order :: int
  ppw_primary_presenter :: bool

definition presentation_presenter_write_fields :: "presentation_presenter_write \<Rightarrow> bool" where
  "presentation_presenter_write_fields m \<longleftrightarrow>
     1 \<le> length (ppw_role m)
     \<and> length (ppw_role m) \<le> 64"

record external_identifier_write =
  xw_entity_type :: external_entity_type
  xw_entity_id :: uuid
  xw_namespace :: string
  xw_external_id :: string
  xw_event_id :: "uuid option"
  xw_source :: "string option"

definition external_identifier_write_fields :: "external_identifier_write \<Rightarrow> bool" where
  "external_identifier_write_fields m \<longleftrightarrow>
     1 \<le> length (xw_namespace m)
     \<and> length (xw_namespace m) \<le> 255
     \<and> 1 \<le> length (xw_external_id m)
     \<and> length (xw_external_id m) \<le> 512
     \<and> (case (xw_source m) of None \<Rightarrow> True | Some x \<Rightarrow> length x \<le> 255)"

end
