(* ===== verification/Central_Program.thy ===== *)
theory Central_Program
  imports Central_Deployments Program_Forms Presentation_Naming Transaction
begin

text \<open>
  \<open>upm_central/program.py\<close> and the handlers of \<open>upm_central/program_api.py\<close> that change the program
  of an event: people, participations, sessions, presentations, their links and external
  identifiers. A handler runs in one transaction of its own. Unicode normalisation (NFKC) is an
  argument; case folding is ASCII. The CHECK and UNIQUE constraints of the tables are checked on
  the state a flush leaves. A handler's result is the row or the key of the row it returns a view
  of; the views themselves only shape the response.
\<close>

type_synonym 'a central_tx = "(central_db, 'a) tx"

section \<open>Normalisation\<close>

definition normalize_text :: "(string \<Rightarrow> string) \<Rightarrow> string option \<Rightarrow> string option" where
  "normalize_text nfkc v =
     (case v of
        None \<Rightarrow> None
      | Some s \<Rightarrow> given (Some (py_lower (join_with '' '' (tokens is_space_char (py_strip (nfkc s)))))))"

text \<open>\<open>[^@\s]+@[^@\s]+\.[^@\s]+\<close> on the whole string\<close>

definition email_shape :: "string \<Rightarrow> bool" where
  "email_shape s =
     (case split_on (CHR ''@'') s of
        [local, domain] \<Rightarrow>
          local \<noteq> [] \<and> list_all (\<lambda>c. \<not> is_space_char c) s
          \<and> (\<exists>i \<in> {1..<length domain - 1}. domain ! i = CHR ''.'')
      | _ \<Rightarrow> False)"

definition normalize_email :: "(string \<Rightarrow> string) \<Rightarrow> string option \<Rightarrow> string option" where
  "normalize_email nfkc v =
     (case normalize_text nfkc v of
        None \<Rightarrow> None
      | Some s \<Rightarrow> if email_shape s then Some s else None)"

section \<open>Rows\<close>

definition central_new_id :: "codec \<Rightarrow> uuid central_tx" where
  "central_new_id cx db = (Inr (central_fresh cx db), central_minted db)"

definition unique_when :: "('r \<Rightarrow> 'a) \<Rightarrow> ('r \<Rightarrow> 'b option) \<Rightarrow> 'r list \<Rightarrow> bool" where
  "unique_when scope code rows \<longleftrightarrow> distinct (map (\<lambda>r. (scope r, code r)) (filter (\<lambda>r. code r \<noteq> None) rows))"

definition schedule_order :: "central_session \<Rightarrow> bool" where
  "schedule_order s =
     (case (css_starts_at s, css_ends_at s) of (Some a, Some b) \<Rightarrow> a < b | _ \<Rightarrow> True)"

definition central_constraints :: "central_db \<Rightarrow> bool" where
  "central_constraints db \<longleftrightarrow>
     keyed cpe_person_id (cd_people db) \<and> keyed cep_event_participation_id (cd_participations db)
     \<and> keyed css_session_id (cd_program_sessions db) \<and> keyed csp_session_participant_id (cd_session_participants db)
     \<and> keyed cpr_presentation_id (cd_presentations db)
     \<and> keyed cps_presentation_session_id (cd_presentation_sessions db)
     \<and> keyed cpp_presentation_presenter_id (cd_presentation_presenters db)
     \<and> keyed cxi_external_identifier_id (cd_external_identifiers db)
     \<and> keyed (\<lambda>p. (cep_event_id p, cep_person_id p)) (cd_participations db)
     \<and> list_all schedule_order (cd_program_sessions db)
     \<and> unique_when css_event_id css_session_code (cd_program_sessions db)
     \<and> keyed (\<lambda>l. (csp_session_id l, csp_event_participation_id l, csp_role l)) (cd_session_participants db)
     \<and> unique_when cpr_event_id cpr_presentation_code (cd_presentations db)
     \<and> keyed (\<lambda>p. (cpr_event_id p, cpr_presentation_identifier p)) (cd_presentations db)
     \<and> keyed (\<lambda>l. (cps_presentation_id l, cps_session_id l)) (cd_presentation_sessions db)
     \<and> keyed (\<lambda>l. (cpp_presentation_id l, cpp_event_participation_id l, cpp_role l)) (cd_presentation_presenters db)
     \<and> keyed (\<lambda>x. (cxi_namespace x, cxi_normalized_external_id x, cxi_scope_key x)) (cd_external_identifiers db)
     \<and> keyed (\<lambda>x. (cxi_entity_type x, cxi_entity_id x, cxi_namespace x, cxi_scope_key x)) (cd_external_identifiers db)"

definition central_flush :: "unit central_tx" where
  "central_flush db = (if central_constraints db then (Inr (), db) else (Inl (IntegrityError ''constraint''), db))"

text \<open>\<open>session.get\<close>\<close>

definition person_of :: "uuid \<Rightarrow> central_person option central_tx" where
  "person_of i = tx_read (\<lambda>db. row_get cpe_person_id (cd_people db) i)"

definition event_of :: "uuid \<Rightarrow> central_event option central_tx" where
  "event_of i = tx_read (\<lambda>db. row_get cev_event_id (cd_events db) i)"

definition participation_of :: "uuid \<Rightarrow> central_event_participation option central_tx" where
  "participation_of i = tx_read (\<lambda>db. row_get cep_event_participation_id (cd_participations db) i)"

definition program_session_of :: "uuid \<Rightarrow> central_session option central_tx" where
  "program_session_of i = tx_read (\<lambda>db. row_get css_session_id (cd_program_sessions db) i)"

definition presentation_of :: "uuid \<Rightarrow> central_presentation option central_tx" where
  "presentation_of i = tx_read (\<lambda>db. row_get cpr_presentation_id (cd_presentations db) i)"

definition found :: "'a option central_tx \<Rightarrow> nat \<Rightarrow> string \<Rightarrow> 'a central_tx" where
  "found m status detail =
     tx_bind m (\<lambda>r. case r of None \<Rightarrow> tx_raise (HTTPException status detail) | Some x \<Rightarrow> tx_return x)"

text \<open>An attribute of a row that is \<open>None\<close>.\<close>

definition attribute :: "'a option central_tx \<Rightarrow> 'a central_tx" where
  "attribute m = tx_bind m (\<lambda>r. case r of None \<Rightarrow> tx_raise (AttributeError ''NoneType'') | Some x \<Rightarrow> tx_return x)"

definition insist :: "bool \<Rightarrow> nat \<Rightarrow> string \<Rightarrow> unit central_tx" where
  "insist b status detail = tx_lift (require b (HTTPException status detail))"

section \<open>The audit trail\<close>

text \<open>
  The contexts of an audit record are JSONB columns, and the engine keeps the default
  serialiser: a value that is a UUID or a datetime object raises a \<open>TypeError\<close> when the row is
  written, which is the next flush at the latest. No handler catches it before then, so it is
  raised here.
\<close>

datatype context_value = Plain json | Uuid_object uuid | Time_object datetime | Views "(string \<times> context_value) list list"

type_synonym audit_context = "(string \<times> context_value) list"

fun context_json :: "context_value \<Rightarrow> json option" where
  "context_json (Plain j) = Some j"
| "context_json v = None"

text \<open>A list of views is written when it is empty; a view holds the key of its row.\<close>

definition serialized :: "string \<times> context_value \<Rightarrow> (string \<times> json) option" where
  "serialized kv =
     (case snd kv of
        Views [] \<Rightarrow> Some (fst kv, JList [])
      | v \<Rightarrow> map_option (Pair (fst kv)) (context_json v))"

definition serialize_context :: "audit_context option \<Rightarrow> payload option outcome" where
  "serialize_context c =
     (case c of
        None \<Rightarrow> Inr None
      | Some kvs \<Rightarrow>
          if None \<in> set (map serialized kvs) then Inl (TypeError ''not JSON serializable'')
          else Inr (Some (List.map_filter serialized kvs)))"

record audit_values =
  av_action :: string
  av_target_type :: string
  av_target_id :: "uuid option"
  av_event_id :: "uuid option"
  av_before :: "audit_context option"
  av_after :: "audit_context option"
  av_actor :: string

definition audit_entry :: "string \<Rightarrow> string \<Rightarrow> uuid \<Rightarrow> uuid option \<Rightarrow> audit_values" where
  "audit_entry action target_type target_id event_id =
     \<lparr>av_action = action, av_target_type = target_type, av_target_id = Some target_id, av_event_id = event_id,
      av_before = None, av_after = None, av_actor = ''central-admin''\<rparr>"

definition audit :: "codec \<Rightarrow> datetime \<Rightarrow> audit_values \<Rightarrow> unit central_tx" where
  "audit cx now v =
     tx_bind (tx_lift (serialize_context (av_before v))) (\<lambda>before_json.
     tx_bind (tx_lift (serialize_context (av_after v))) (\<lambda>after_json.
     tx_write (central_audit cx now (\<lambda>r. r\<lparr>car_actor_id := Some (av_actor v), car_action := av_action v,
       car_target_type := av_target_type v, car_target_id := av_target_id v, car_event_id := av_event_id v,
       car_before_context := before_json, car_after_context := after_json\<rparr>))))"

section \<open>The program revision\<close>

definition active_deployment_ids :: "uuid \<Rightarrow> central_db \<Rightarrow> uuid list" where
  "active_deployment_ids event_id db =
     map ced_deployment_id (filter (\<lambda>d. ced_event_id d = event_id \<and> ced_status d \<notin> {Dep_REVOKED, Dep_ARCHIVED})
       (cd_deployments db))"

definition touch_event_program :: "uuid \<Rightarrow> uuid list central_tx" where
  "touch_event_program event_id =
     tx_then (attribute (event_of event_id))
       (tx_then (tx_write (\<lambda>db. db\<lparr>cd_events := row_put cev_event_id event_id
            (\<lambda>e. e\<lparr>cev_revision := cev_revision e + 1\<rparr>) (cd_events db)\<rparr>))
         (tx_then central_flush (tx_read (active_deployment_ids event_id))))"

definition touch :: "uuid \<Rightarrow> unit central_tx" where
  "touch event_id = tx_then (touch_event_program event_id) (tx_return ())"

section \<open>External identifiers\<close>

text \<open>\<open>session.get(model_by_type[entity_type], entity_id) is not None\<close>\<close>

fun entity_known :: "external_entity_type \<Rightarrow> uuid \<Rightarrow> central_db \<Rightarrow> bool" where
  "entity_known Ext_PERSON i db = (row_get cpe_person_id (cd_people db) i \<noteq> None)"
| "entity_known Ext_EVENT_PARTICIPATION i db = (row_get cep_event_participation_id (cd_participations db) i \<noteq> None)"
| "entity_known Ext_SESSION i db = (row_get css_session_id (cd_program_sessions db) i \<noteq> None)"
| "entity_known Ext_SESSION_PRESENTER i db = (row_get csp_session_participant_id (cd_session_participants db) i \<noteq> None)"
| "entity_known Ext_PRESENTATION i db = (row_get cpr_presentation_id (cd_presentations db) i \<noteq> None)"
| "entity_known Ext_PRESENTATION_SESSION i db = (row_get cps_presentation_session_id (cd_presentation_sessions db) i \<noteq> None)"
| "entity_known Ext_PRESENTATION_PRESENTER i db =
     (row_get cpp_presentation_presenter_id (cd_presentation_presenters db) i \<noteq> None)"

definition scope_of :: "uuid option \<Rightarrow> external_identifier_scope \<times> string" where
  "scope_of event_id =
     (case event_id of
        None \<Rightarrow> (Scope_GLOBAL, ''global'')
      | Some e \<Rightarrow> (Scope_EVENT, uuid_str e))"

definition mapped_identifier :: "string \<Rightarrow> string \<Rightarrow> string \<Rightarrow> central_db \<Rightarrow> central_external_identifier option" where
  "mapped_identifier namespace value scope_key db =
     find (\<lambda>x. cxi_namespace x = namespace \<and> cxi_normalized_external_id x = value \<and> cxi_scope_key x = scope_key)
       (cd_external_identifiers db)"

definition new_identifier ::
  "datetime \<Rightarrow> uuid \<Rightarrow> external_identifier_write \<Rightarrow> string \<Rightarrow> string \<Rightarrow> central_external_identifier" where
  "new_identifier now i p namespace value =
     (default_central_external_identifier now)\<lparr>cxi_external_identifier_id := i, cxi_entity_type := xw_entity_type p,
        cxi_entity_id := xw_entity_id p, cxi_namespace := namespace, cxi_external_id := py_strip (xw_external_id p),
        cxi_normalized_external_id := value, cxi_scope := fst (scope_of (xw_event_id p)),
        cxi_scope_key := snd (scope_of (xw_event_id p)), cxi_event_id := xw_event_id p, cxi_source := xw_source p\<rparr>"

definition external_identifier ::
  "codec \<Rightarrow> (string \<Rightarrow> string) \<Rightarrow> datetime \<Rightarrow> external_identifier_write \<Rightarrow> central_external_identifier central_tx" where
  "external_identifier cx nfkc now p =
     (case (normalize_text nfkc (Some (xw_namespace p)), normalize_text nfkc (Some (xw_external_id p))) of
        (Some namespace, Some value) \<Rightarrow>
          tx_bind (tx_read (entity_known (xw_entity_type p) (xw_entity_id p))) (\<lambda>known.
          tx_then (insist known 404 ''external identifier entity not found'')
            (tx_bind (tx_read (mapped_identifier namespace value (snd (scope_of (xw_event_id p))))) (\<lambda>existing.
             case existing of
               Some x \<Rightarrow>
                 tx_then (insist (cxi_entity_type x = xw_entity_type p \<and> cxi_entity_id x = xw_entity_id p)
                     409 ''external identifier is already mapped'') (tx_return x)
             | None \<Rightarrow>
                 tx_bind (central_new_id cx) (\<lambda>i.
                 let item = new_identifier now i p namespace value in
                 tx_then (tx_write (\<lambda>db. db\<lparr>cd_external_identifiers := cd_external_identifiers db @ [item]\<rparr>))
                   (tx_return item)))))
      | _ \<Rightarrow> tx_raise (HTTPException 422 ''invalid external identifier''))"

definition event_of_session :: "uuid \<Rightarrow> central_db \<Rightarrow> uuid list" where
  "event_of_session i db =
     (case row_get css_session_id (cd_program_sessions db) i of None \<Rightarrow> [] | Some s \<Rightarrow> [css_event_id s])"

definition event_of_presentation :: "uuid \<Rightarrow> central_db \<Rightarrow> uuid list" where
  "event_of_presentation i db =
     (case row_get cpr_presentation_id (cd_presentations db) i of None \<Rightarrow> [] | Some s \<Rightarrow> [cpr_event_id s])"

text \<open>The set of events, here without repetitions in table order.\<close>

definition entity_event_ids :: "external_entity_type \<Rightarrow> uuid \<Rightarrow> uuid option \<Rightarrow> central_db \<Rightarrow> uuid list" where
  "entity_event_ids entity_type entity_id explicit_event_id db =
     (case explicit_event_id of
        Some e \<Rightarrow> [e]
      | None \<Rightarrow>
          (case entity_type of
             Ext_PERSON \<Rightarrow>
               remdups (map cep_event_id (filter (\<lambda>p. cep_person_id p = entity_id) (cd_participations db)))
           | Ext_EVENT_PARTICIPATION \<Rightarrow>
               (case row_get cep_event_participation_id (cd_participations db) entity_id of
                  None \<Rightarrow> [] | Some p \<Rightarrow> [cep_event_id p])
           | Ext_SESSION \<Rightarrow> event_of_session entity_id db
           | Ext_SESSION_PRESENTER \<Rightarrow>
               (case row_get csp_session_participant_id (cd_session_participants db) entity_id of
                  None \<Rightarrow> [] | Some l \<Rightarrow> event_of_session (csp_session_id l) db)
           | Ext_PRESENTATION \<Rightarrow> event_of_presentation entity_id db
           | Ext_PRESENTATION_SESSION \<Rightarrow>
               (case row_get cps_presentation_session_id (cd_presentation_sessions db) entity_id of
                  None \<Rightarrow> [] | Some l \<Rightarrow> event_of_presentation (cps_presentation_id l) db)
           | Ext_PRESENTATION_PRESENTER \<Rightarrow>
               (case row_get cpp_presentation_presenter_id (cd_presentation_presenters db) entity_id of
                  None \<Rightarrow> [] | Some l \<Rightarrow> event_of_presentation (cpp_presentation_id l) db)))"

definition create_external_identifier ::
  "codec \<Rightarrow> (string \<Rightarrow> string) \<Rightarrow> datetime \<Rightarrow> external_identifier_write \<Rightarrow> central_external_identifier central_tx" where
  "create_external_identifier cx nfkc now p =
     tx_bind (external_identifier cx nfkc now p) (\<lambda>item.
     tx_then central_flush
       (tx_then (audit cx now ((audit_entry ''central.external_identifier.created'' ''external_identifier''
            (cxi_external_identifier_id item) (xw_event_id p))\<lparr>av_after :=
              Some [(''namespace'', Plain (JStr (cxi_namespace item))), (''external_id'', Plain (JStr (cxi_external_id item)))]\<rparr>))
         (tx_bind (tx_read (entity_event_ids (xw_entity_type p) (xw_entity_id p) (xw_event_id p))) (\<lambda>events.
          tx_then (tx_for touch events) (tx_return item)))))"

section \<open>People\<close>

definition opt_json :: "string option \<Rightarrow> context_value" where
  "opt_json v = Plain (case v of None \<Rightarrow> JNull | Some s \<Rightarrow> JStr s)"

text \<open>\<open>_person_view\<close>; \<open>updated_at\<close> is not modelled.\<close>

definition person_view :: "central_person \<Rightarrow> audit_context" where
  "person_view p =
     [(''person_id'', Uuid_object (cpe_person_id p)), (''given_name'', opt_json (cpe_given_name p)),
      (''middle_name'', opt_json (cpe_middle_name p)), (''family_name'', opt_json (cpe_family_name p)),
      (''display_name'', Plain (JStr (cpe_display_name p))), (''professional_title'', opt_json (cpe_professional_title p)),
      (''organization'', opt_json (cpe_organization p)), (''primary_email'', opt_json (cpe_primary_email p)),
      (''phone'', opt_json (cpe_phone p)), (''active'', Plain (JBool (cpe_active p))),
      (''revision'', Plain (JInt (cpe_revision p))), (''created_at'', Time_object (cpe_created_at p))]"

definition write_person :: "(string \<Rightarrow> string) \<Rightarrow> person_write \<Rightarrow> central_person \<Rightarrow> central_person" where
  "write_person nfkc w p =
     p\<lparr>cpe_given_name := pw_given_name w, cpe_middle_name := pw_middle_name w, cpe_family_name := pw_family_name w,
       cpe_prefix := pw_prefix w, cpe_suffix := pw_suffix w, cpe_preferred_name := pw_preferred_name w,
       cpe_display_name := pw_display_name w, cpe_professional_title := pw_professional_title w,
       cpe_organization := pw_organization w, cpe_primary_email := pw_primary_email w, cpe_phone := pw_phone w,
       cpe_normalized_name := default_to [] (normalize_text nfkc (Some (pw_display_name w))),
       cpe_normalized_email := normalize_email nfkc (pw_primary_email w)\<rparr>"

definition email_accepted :: "(string \<Rightarrow> string) \<Rightarrow> person_write \<Rightarrow> unit central_tx" where
  "email_accepted nfkc w =
     insist (given (pw_primary_email w) = None \<or> normalize_email nfkc (pw_primary_email w) \<noteq> None) 422 ''invalid email''"

definition create_person ::
  "codec \<Rightarrow> (string \<Rightarrow> string) \<Rightarrow> datetime \<Rightarrow> person_write \<Rightarrow> central_person central_tx" where
  "create_person cx nfkc now w =
     tx_then (email_accepted nfkc w)
       (tx_bind (central_new_id cx) (\<lambda>i.
        let person = (write_person nfkc w (default_central_person now))\<lparr>cpe_person_id := i\<rparr> in
        tx_then (tx_write (\<lambda>db. db\<lparr>cd_people := cd_people db @ [person]\<rparr>))
          (tx_then central_flush
            (tx_then (audit cx now ((audit_entry ''central.person.created'' ''person'' i None)\<lparr>av_after :=
                 Some [(''display_name'', Plain (JStr (cpe_display_name person)))]\<rparr>))
              (tx_return person)))))"

definition update_person ::
  "codec \<Rightarrow> (string \<Rightarrow> string) \<Rightarrow> datetime \<Rightarrow> uuid \<Rightarrow> int \<Rightarrow> person_write \<Rightarrow> central_person central_tx" where
  "update_person cx nfkc now person_id expected_revision w =
     tx_bind (found (person_of person_id) 404 ''person not found'') (\<lambda>person.
     tx_then (insist (cpe_revision person = expected_revision) 409 ''person was modified'')
       (tx_then (email_accepted nfkc w)
         (let change = (\<lambda>x. (write_person nfkc w x)\<lparr>cpe_revision := cpe_revision x + 1\<rparr>);
              person' = change person in
          tx_then (tx_write (\<lambda>db. db\<lparr>cd_people := row_put cpe_person_id person_id change (cd_people db)\<rparr>))
            (tx_then (audit cx now ((audit_entry ''central.person.updated'' ''person'' person_id None)\<lparr>
                 av_before := Some (person_view person), av_after := Some (person_view person')\<rparr>))
              (tx_bind (tx_read (entity_event_ids Ext_PERSON person_id None)) (\<lambda>events.
               tx_then (tx_for touch events) (tx_return person')))))))"

text \<open>\<open>program.person_impact\<close>: the three counts\<close>

definition person_impact :: "uuid \<Rightarrow> central_db \<Rightarrow> nat \<times> nat \<times> nat" where
  "person_impact person_id db =
     (let mine = filter (\<lambda>p. cep_person_id p = person_id) (cd_participations db);
          ids = cep_event_participation_id ` set mine
      in (length mine,
          length (filter (\<lambda>l. csp_event_participation_id l \<in> ids) (cd_session_participants db)),
          length (filter (\<lambda>l. cpp_event_participation_id l \<in> ids) (cd_presentation_presenters db))))"

definition delete_person :: "codec \<Rightarrow> datetime \<Rightarrow> central_person \<Rightarrow> string \<Rightarrow> string \<Rightarrow> unit central_tx" where
  "delete_person cx now person confirmation actor =
     tx_then (insist (confirmation = uuid_str (cpe_person_id person)) 422 ''person UUID confirmation required'')
       (tx_bind (tx_read (person_impact (cpe_person_id person))) (\<lambda>impact.
        tx_then (insist (impact = (0, 0, 0)) 409 ''person has retained dependencies'')
          (tx_then (tx_write (\<lambda>db. db\<lparr>cd_people := row_put cpe_person_id (cpe_person_id person)
               (\<lambda>p. p\<lparr>cpe_active := False, cpe_deleted_at := Some now, cpe_revision := cpe_revision p + 1\<rparr>) (cd_people db)\<rparr>))
            (audit cx now ((audit_entry ''central.person.deleted'' ''person'' (cpe_person_id person) None)\<lparr>
               av_before := Some [(''display_name'', Plain (JStr (cpe_display_name person))),
                                  (''active'', Plain (JBool (cpe_active person)))],
               av_after := Some [(''active'', Plain (JBool False)), (''deleted_at'', Plain (JStr (show_datetime cx now)))],
               av_actor := actor\<rparr>)))))"

definition remove_person :: "codec \<Rightarrow> datetime \<Rightarrow> uuid \<Rightarrow> string \<Rightarrow> string option \<Rightarrow> unit central_tx" where
  "remove_person cx now person_id confirmation x_upm_actor =
     tx_bind (found (person_of person_id) 404 ''person not found'') (\<lambda>person.
     delete_person cx now person confirmation (default_to ''central-admin'' (given x_upm_actor)))"

section \<open>Participants\<close>

definition shown_name :: "central_event_participation option \<Rightarrow> central_db \<Rightarrow> string option" where
  "shown_name participation db =
     (case participation of
        None \<Rightarrow> None
      | Some p \<Rightarrow>
          (case given (cep_display_name p) of
             Some n \<Rightarrow> Some n
           | None \<Rightarrow> map_option cpe_display_name (row_get cpe_person_id (cd_people db) (cep_person_id p))))"

text \<open>
  \<open>_participant_view\<close>. \<open>item.person\<close> is the row the relationship loaded, which a new
  \<open>person_id\<close> does not replace before the flush.
\<close>

definition participant_view :: "central_person option \<Rightarrow> central_db \<Rightarrow> central_event_participation \<Rightarrow> audit_context" where
  "participant_view person db item =
     [(''event_participation_id'', Uuid_object (cep_event_participation_id item)),
      (''event_id'', Uuid_object (cep_event_id item)), (''person_id'', Uuid_object (cep_person_id item)),
      (''person_display_name'', opt_json (map_option cpe_display_name person)),
      (''primary_email'', opt_json (Option.bind person cpe_primary_email)),
      (''display_name'', opt_json (cep_display_name item)),
      (''professional_title'', opt_json (cep_professional_title item)),
      (''organization'', opt_json (cep_organization item)),
      (''participant_status'', Plain (JStr (participant_status_value (cep_participant_status item)))),
      (''is_presenter'', Plain (JBool (cep_is_presenter item))), (''notes'', opt_json (cep_notes item)),
      (''revision'', Plain (JInt (cep_revision item))),
      (''sessions'', Views (map (\<lambda>l. [(''session_id'', Uuid_object (csp_session_id l)),
           (''title'', opt_json (map_option css_title (row_get css_session_id (cd_program_sessions db) (csp_session_id l)))),
           (''role'', Plain (JStr (csp_role l)))])
         (filter (\<lambda>l. csp_event_participation_id l = cep_event_participation_id item) (cd_session_participants db))))]"

definition write_participant :: "participant_write \<Rightarrow> central_event_participation \<Rightarrow> central_event_participation" where
  "write_participant w p =
     p\<lparr>cep_person_id := tw_person_id w, cep_display_name := tw_display_name w,
       cep_professional_title := tw_professional_title w, cep_organization := tw_organization w,
       cep_registration_status := tw_registration_status w, cep_participant_status := tw_participant_status w,
       cep_is_presenter := tw_is_presenter w, cep_notes := tw_notes w\<rparr>"

definition put_participation ::
  "uuid \<Rightarrow> (central_event_participation \<Rightarrow> central_event_participation) \<Rightarrow> unit central_tx" where
  "put_participation i f =
     tx_write (\<lambda>db. db\<lparr>cd_participations := row_put cep_event_participation_id i f (cd_participations db)\<rparr>)"

definition active_person :: "central_person option \<Rightarrow> bool" where
  "active_person p = (case p of None \<Rightarrow> False | Some x \<Rightarrow> cpe_deleted_at x = None)"

definition create_participant ::
  "codec \<Rightarrow> datetime \<Rightarrow> uuid \<Rightarrow> participant_write \<Rightarrow> central_event_participation central_tx" where
  "create_participant cx now event_id w =
     tx_bind (event_of event_id) (\<lambda>event.
     tx_bind (person_of (tw_person_id w)) (\<lambda>person.
     tx_then (insist (event \<noteq> None \<and> active_person person) 404 ''event or active person not found'')
       (tx_bind (tx_read (\<lambda>db. find (\<lambda>p. cep_event_id p = event_id \<and> cep_person_id p = tw_person_id w)
            (cd_participations db))) (\<lambda>existing.
        tx_then (insist (existing = None) 409 ''person already participates in event'')
          (tx_bind (central_new_id cx) (\<lambda>i.
           let item = (write_participant w (default_central_event_participation now))\<lparr>
                        cep_event_participation_id := i, cep_event_id := event_id\<rparr> in
           tx_then (tx_write (\<lambda>db. db\<lparr>cd_participations := cd_participations db @ [item]\<rparr>))
             (tx_then central_flush
               (tx_then (audit cx now ((audit_entry ''central.event_participant.created'' ''event_participation'' i
                    (Some event_id))\<lparr>av_after := Some [(''person_id'', Plain (JStr (uuid_str (cep_person_id item))))]\<rparr>))
                 (tx_then (touch event_id) (tx_return item))))))))))"

definition update_participant ::
  "codec \<Rightarrow> datetime \<Rightarrow> uuid \<Rightarrow> int \<Rightarrow> participant_write \<Rightarrow> central_event_participation central_tx" where
  "update_participant cx now participant_id expected_revision w =
     tx_bind (found (participation_of participant_id) 404 ''participant not found'') (\<lambda>item.
     tx_then (insist (cep_revision item = expected_revision) 409 ''participant was modified'')
       (tx_bind (person_of (tw_person_id w)) (\<lambda>person.
        tx_then (insist (active_person person) 422 ''active person required'')
          (tx_bind (tx_read (\<lambda>db. find (\<lambda>p. cep_event_id p = cep_event_id item \<and> cep_person_id p = tw_person_id w
               \<and> cep_event_participation_id p \<noteq> participant_id) (cd_participations db))) (\<lambda>duplicate.
           tx_then (insist (duplicate = None) 409 ''person already participates in event'')
             (tx_bind (person_of (cep_person_id item)) (\<lambda>loaded.
              tx_bind (tx_read (\<lambda>db. participant_view loaded db)) (\<lambda>view.
              let change = (\<lambda>x. (write_participant w x)\<lparr>cep_revision := cep_revision x + 1\<rparr>);
                  item' = change item in
              tx_then (put_participation participant_id change)
                (tx_then (audit cx now ((audit_entry ''central.event_participant.updated'' ''event_participation''
                     participant_id (Some (cep_event_id item)))\<lparr>av_before := Some (view item), av_after := Some (view item')\<rparr>))
                  (tx_then (touch (cep_event_id item)) (tx_return item')))))))))))"

definition deactivate_participant :: "codec \<Rightarrow> datetime \<Rightarrow> uuid \<Rightarrow> central_event_participation central_tx" where
  "deactivate_participant cx now participant_id =
     tx_bind (found (participation_of participant_id) 404 ''participant not found'') (\<lambda>item.
     let change = (\<lambda>x. x\<lparr>cep_participant_status := Part_INACTIVE, cep_is_presenter := False,
                      cep_revision := cep_revision x + 1\<rparr>);
         item' = change item in
     tx_then (put_participation participant_id change)
       (tx_then (audit cx now (audit_entry ''central.event_participant.deactivated'' ''event_participation''
            participant_id (Some (cep_event_id item))))
         (tx_then (touch (cep_event_id item)) (tx_return item'))))"

section \<open>Sessions\<close>

definition opt_time :: "datetime option \<Rightarrow> context_value" where
  "opt_time v = (case v of None \<Rightarrow> Plain JNull | Some t \<Rightarrow> Time_object t)"

definition presenter_entry :: "string \<Rightarrow> uuid \<Rightarrow> uuid \<Rightarrow> string \<Rightarrow> int \<Rightarrow> bool \<Rightarrow> central_db \<Rightarrow> audit_context" where
  "presenter_entry key link_id participation_id role order is_primary db =
     [(key, Uuid_object link_id), (''event_participation_id'', Uuid_object participation_id),
      (''role'', Plain (JStr role)), (''presenter_order'', Plain (JInt order)),
      (''primary_presenter'', Plain (JBool is_primary)),
      (''display_name'', opt_json (shown_name
         (row_get cep_event_participation_id (cd_participations db) participation_id) db))]"

definition session_view :: "central_db \<Rightarrow> central_session \<Rightarrow> audit_context" where
  "session_view db item =
     [(''session_id'', Uuid_object (css_session_id item)), (''event_id'', Uuid_object (css_event_id item)),
      (''title'', Plain (JStr (css_title item))), (''subtitle'', opt_json (css_subtitle item)),
      (''description'', opt_json (css_description item)), (''session_code'', opt_json (css_session_code item)),
      (''session_type'', opt_json (css_session_type item)), (''starts_at'', opt_time (css_starts_at item)),
      (''ends_at'', opt_time (css_ends_at item)), (''location_name'', opt_json (css_location_name item)),
      (''status'', Plain (JStr (session_status_value (css_status item)))),
      (''sort_order'', Plain (JInt (css_sort_order item))), (''revision'', Plain (JInt (css_revision item))),
      (''presenters'', Views (map (\<lambda>l. presenter_entry ''session_participant_id'' (csp_session_participant_id l)
           (csp_event_participation_id l) (csp_role l) (csp_presenter_order l) (csp_primary_presenter l) db)
         (filter (\<lambda>l. csp_session_id l = css_session_id item) (cd_session_participants db))))]"

text \<open>
  The request's times are instants, so \<open>require_aware\<close>, which answers 422 to a time without an
  offset, has nothing to reject here.
\<close>

definition times_follow :: "session_write \<Rightarrow> unit central_tx" where
  "times_follow w =
     insist (case (sw_starts_at w, sw_ends_at w) of (Some a, Some b) \<Rightarrow> a < b | _ \<Rightarrow> True)
       422 ''session end must follow start''"

definition write_session :: "session_write \<Rightarrow> central_session \<Rightarrow> central_session" where
  "write_session w s =
     s\<lparr>css_title := sw_title w, css_subtitle := sw_subtitle w, css_description := sw_description w,
       css_session_code := sw_session_code w, css_session_type := sw_session_type w, css_starts_at := sw_starts_at w,
       css_ends_at := sw_ends_at w, css_location_name := sw_location_name w, css_status := sw_status w,
       css_sort_order := sw_sort_order w\<rparr>"

definition put_session :: "uuid \<Rightarrow> (central_session \<Rightarrow> central_session) \<Rightarrow> unit central_tx" where
  "put_session i f =
     tx_write (\<lambda>db. db\<lparr>cd_program_sessions := row_put css_session_id i f (cd_program_sessions db)\<rparr>)"

definition create_session :: "codec \<Rightarrow> datetime \<Rightarrow> uuid \<Rightarrow> session_write \<Rightarrow> central_session central_tx" where
  "create_session cx now event_id w =
     tx_then (found (event_of event_id) 404 ''event not found'')
       (tx_then (times_follow w)
         (tx_bind (central_new_id cx) (\<lambda>i.
          let item = (write_session w (default_central_session now))\<lparr>css_session_id := i, css_event_id := event_id\<rparr> in
          tx_then (tx_write (\<lambda>db. db\<lparr>cd_program_sessions := cd_program_sessions db @ [item]\<rparr>))
            (tx_then central_flush
              (tx_then (audit cx now ((audit_entry ''central.session.created'' ''session'' i (Some event_id))\<lparr>
                   av_after := Some [(''title'', Plain (JStr (css_title item)))]\<rparr>))
                (tx_then (touch event_id) (tx_return item)))))))"

definition update_session :: "codec \<Rightarrow> datetime \<Rightarrow> uuid \<Rightarrow> int \<Rightarrow> session_write \<Rightarrow> central_session central_tx" where
  "update_session cx now session_id expected_revision w =
     tx_bind (found (program_session_of session_id) 404 ''session not found'') (\<lambda>item.
     tx_then (insist (css_revision item = expected_revision) 409 ''session was modified'')
       (tx_then (times_follow w)
         (tx_bind (tx_read session_view) (\<lambda>view.
          let change = (\<lambda>x. (write_session w x)\<lparr>css_revision := css_revision x + 1\<rparr>);
              item' = change item in
          tx_then (put_session session_id change)
            (tx_then (audit cx now ((audit_entry ''central.session.updated'' ''session'' session_id
                 (Some (css_event_id item)))\<lparr>av_before := Some (view item), av_after := Some (view item')\<rparr>))
              (tx_then (touch (css_event_id item)) (tx_return item')))))))"

text \<open>\<open>participant.is_presenter = True\<close>\<close>

definition mark_presenter :: "uuid \<Rightarrow> unit central_tx" where
  "mark_presenter i = put_participation i (\<lambda>p. p\<lparr>cep_is_presenter := True\<rparr>)"

definition assign_session_presenter ::
  "codec \<Rightarrow> datetime \<Rightarrow> uuid \<Rightarrow> session_presenter_write \<Rightarrow> uuid central_tx" where
  "assign_session_presenter cx now session_id w =
     tx_bind (program_session_of session_id) (\<lambda>item.
     tx_bind (participation_of (spw_event_participation_id w)) (\<lambda>participant.
     case (item, participant) of
       (Some s, Some p) \<Rightarrow>
         tx_then (insist (css_event_id s = cep_event_id p) 422 ''presenter must belong to session event'')
           (tx_bind (central_new_id cx) (\<lambda>i.
            let link = (default_central_session_participant now)\<lparr>csp_session_participant_id := i,
                  csp_session_id := session_id, csp_event_participation_id := spw_event_participation_id w,
                  csp_role := spw_role w, csp_presenter_order := spw_presenter_order w,
                  csp_primary_presenter := spw_primary_presenter w, csp_notes := spw_notes w\<rparr> in
            tx_then (mark_presenter (spw_event_participation_id w))
              (tx_then (tx_write (\<lambda>db. db\<lparr>cd_session_participants := cd_session_participants db @ [link]\<rparr>))
                (tx_then central_flush
                  (tx_then (audit cx now ((audit_entry ''central.session_presenter.created'' ''session_presenter'' i
                       (Some (css_event_id s)))\<lparr>av_after :=
                         Some [(''event_participation_id'', Plain (JStr (uuid_str (cep_event_participation_id p)))),
                               (''role'', Plain (JStr (csp_role link)))]\<rparr>))
                    (tx_then (touch (css_event_id s)) (tx_return i)))))))
     | _ \<Rightarrow> tx_raise (HTTPException 422 ''presenter must belong to session event'')))"

definition remove_session_presenter :: "codec \<Rightarrow> datetime \<Rightarrow> uuid \<Rightarrow> uuid central_tx" where
  "remove_session_presenter cx now relationship_id =
     tx_bind (found (tx_read (\<lambda>db. row_get csp_session_participant_id (cd_session_participants db) relationship_id))
        404 ''relationship not found'') (\<lambda>link.
     tx_bind (program_session_of (csp_session_id link)) (\<lambda>loaded.
     tx_then (tx_write (\<lambda>db. db\<lparr>cd_session_participants :=
         filter (\<lambda>l. csp_session_participant_id l \<noteq> relationship_id) (cd_session_participants db)\<rparr>))
       (tx_bind (attribute (tx_return loaded)) (\<lambda>program_session.
        tx_then (audit cx now (audit_entry ''central.session_presenter.deleted'' ''session_presenter'' relationship_id
            (Some (css_event_id program_session))))
          (tx_then (touch (css_event_id program_session)) (tx_return relationship_id))))))"

definition archive_session :: "codec \<Rightarrow> datetime \<Rightarrow> uuid \<Rightarrow> central_session central_tx" where
  "archive_session cx now session_id =
     tx_bind (found (program_session_of session_id) 404 ''session not found'') (\<lambda>item.
     let change = (\<lambda>x. x\<lparr>css_status := Sess_ARCHIVED, css_revision := css_revision x + 1\<rparr>);
         item' = change item in
     tx_then (put_session session_id change)
       (tx_then (audit cx now (audit_entry ''central.session.archived'' ''session'' session_id (Some (css_event_id item))))
         (tx_then (touch (css_event_id item)) (tx_return item'))))"

section \<open>Presentations\<close>

text \<open>\<open>_presentation_view(item)\<close>: without a session argument it looks up no media and no linked session.\<close>

definition presentation_view :: "central_db \<Rightarrow> central_presentation \<Rightarrow> audit_context" where
  "presentation_view db item =
     [(''presentation_id'', Uuid_object (cpr_presentation_id item)), (''event_id'', Uuid_object (cpr_event_id item)),
      (''title'', Plain (JStr (cpr_title item))), (''description'', opt_json (cpr_description item)),
      (''presentation_code'', opt_json (cpr_presentation_code item)),
      (''presentation_identifier'', Plain (JStr (cpr_presentation_identifier item))),
      (''presentation_identifier_source'',
         Plain (JStr (presentation_identifier_source_value (cpr_presentation_identifier_source item)))),
      (''external_presentation_id'', opt_json (cpr_external_presentation_id item)),
      (''workflow_status'', Plain (JStr (presentation_workflow_status_value (cpr_workflow_status item)))),
      (''processing_status'', Plain (JStr (presentation_processing_status_value (cpr_processing_status item)))),
      (''scheduled_at'', opt_time (cpr_scheduled_at item)),
      (''preferred_session_id'', case cpr_session_id item of None \<Rightarrow> Plain JNull | Some i \<Rightarrow> Uuid_object i),
      (''revision'', Plain (JInt (cpr_revision item))),
      (''sessions'', Views (map (\<lambda>l. [(''presentation_session_id'', Uuid_object (cps_presentation_session_id l)),
           (''session_id'', Uuid_object (cps_session_id l)), (''association_type'', Plain (JStr (cps_association_type l))),
           (''sort_order'', Plain (JInt (cps_sort_order l))), (''primary_session'', Plain (JBool (cps_primary_session l))),
           (''title'', Plain JNull), (''session_code'', Plain JNull), (''starts_at'', Plain JNull), (''room'', Plain JNull)])
         (filter (\<lambda>l. cps_presentation_id l = cpr_presentation_id item) (cd_presentation_sessions db)))),
      (''media_versions'', Views []),
      (''presenters'', Views (map (\<lambda>l. presenter_entry ''presentation_presenter_id'' (cpp_presentation_presenter_id l)
           (cpp_event_participation_id l) (cpp_role l) (cpp_presenter_order l) (cpp_primary_presenter l) db)
         (filter (\<lambda>l. cpp_presentation_id l = cpr_presentation_id item) (cd_presentation_presenters db))))]"

definition preferred_session_in :: "uuid \<Rightarrow> uuid option \<Rightarrow> unit central_tx" where
  "preferred_session_in event_id preferred =
     (case preferred of
        None \<Rightarrow> tx_return ()
      | Some i \<Rightarrow>
          tx_bind (program_session_of i) (\<lambda>linked.
          insist (case linked of None \<Rightarrow> False | Some s \<Rightarrow> css_event_id s = event_id) 422 ''session not in event''))"

definition write_presentation :: "presentation_write \<Rightarrow> central_presentation \<Rightarrow> central_presentation" where
  "write_presentation w p =
     p\<lparr>cpr_session_id := prw_preferred_session_id w, cpr_title := prw_title w, cpr_description := prw_description w,
       cpr_presentation_code := prw_presentation_code w, cpr_workflow_status := prw_workflow_status w,
       cpr_processing_status := prw_processing_status w, cpr_scheduled_at := prw_scheduled_at w\<rparr>"

definition put_presentation :: "uuid \<Rightarrow> (central_presentation \<Rightarrow> central_presentation) \<Rightarrow> unit central_tx" where
  "put_presentation i f =
     tx_write (\<lambda>db. db\<lparr>cd_presentations := row_put cpr_presentation_id i f (cd_presentations db)\<rparr>)"

definition add_presentation_session :: "central_presentation_session \<Rightarrow> unit central_tx" where
  "add_presentation_session link =
     tx_write (\<lambda>db. db\<lparr>cd_presentation_sessions := cd_presentation_sessions db @ [link]\<rparr>)"

definition schedule_presentation :: "codec \<Rightarrow> datetime \<Rightarrow> uuid \<Rightarrow> uuid option \<Rightarrow> unit central_tx" where
  "schedule_presentation cx now presentation_id session_id =
     (case session_id of
        None \<Rightarrow> tx_return ()
      | Some s \<Rightarrow>
          tx_bind (central_new_id cx) (\<lambda>i.
          add_presentation_session ((default_central_presentation_session now)\<lparr>cps_presentation_session_id := i,
             cps_presentation_id := presentation_id, cps_session_id := s, cps_association_type := ''scheduled'',
             cps_primary_session := True\<rparr>)))"

definition new_presentation ::
  "(string \<Rightarrow> string) \<Rightarrow> datetime \<Rightarrow> uuid \<Rightarrow> presentation_write \<Rightarrow> uuid \<Rightarrow> central_presentation" where
  "new_presentation nfkd now event_id w i =
     (let identity = allocate_presentation_identifier nfkd (prw_presentation_code w) ''CENTRAL'' i in
      (write_presentation w (default_central_presentation now))\<lparr>cpr_presentation_id := i,
         cpr_event_id := event_id, cpr_presentation_identifier := fst identity,
         cpr_presentation_identifier_source := snd identity,
         cpr_external_presentation_id := prw_presentation_code w\<rparr>)"

definition create_presentation ::
  "codec \<Rightarrow> (string \<Rightarrow> string) \<Rightarrow> datetime \<Rightarrow> uuid \<Rightarrow> presentation_write \<Rightarrow> central_presentation central_tx" where
  "create_presentation cx nfkd now event_id w =
     tx_then (found (event_of event_id) 404 ''event not found'')
       (tx_then (preferred_session_in event_id (prw_preferred_session_id w))
         (tx_bind (central_new_id cx) (\<lambda>i.
          let item = new_presentation nfkd now event_id w i in
          tx_then (tx_write (\<lambda>db. db\<lparr>cd_presentations := cd_presentations db @ [item]\<rparr>))
            (tx_then central_flush
              (tx_then (schedule_presentation cx now i (cpr_session_id item))
                (tx_then (audit cx now ((audit_entry ''central.presentation.created'' ''presentation'' i (Some event_id))\<lparr>
                     av_after := Some [(''title'', Plain (JStr (cpr_title item)))]\<rparr>))
                  (tx_then (touch event_id) (tx_return item))))))))"

definition update_presentation ::
  "codec \<Rightarrow> datetime \<Rightarrow> uuid \<Rightarrow> int \<Rightarrow> presentation_write \<Rightarrow> central_presentation central_tx" where
  "update_presentation cx now presentation_id expected_revision w =
     tx_bind (found (presentation_of presentation_id) 404 ''presentation not found'') (\<lambda>item.
     tx_then (insist (cpr_revision item = expected_revision) 409 ''presentation was modified'')
       (tx_then (preferred_session_in (cpr_event_id item) (prw_preferred_session_id w))
         (tx_bind (tx_read presentation_view) (\<lambda>view.
          let change = (\<lambda>x. (write_presentation w x)\<lparr>
                cpr_external_presentation_id :=
                  (if cpr_external_presentation_id x = None \<and> given (prw_presentation_code w) \<noteq> None
                   then prw_presentation_code w else cpr_external_presentation_id x),
                cpr_revision := cpr_revision x + 1\<rparr>);
              item' = change item in
          tx_then (put_presentation presentation_id change)
            (tx_then (audit cx now ((audit_entry ''central.presentation.updated'' ''presentation'' presentation_id
                 (Some (cpr_event_id item)))\<lparr>av_before := Some (view item), av_after := Some (view item')\<rparr>))
              (tx_then (touch (cpr_event_id item)) (tx_return item')))))))"

definition new_presentation_session ::
  "datetime \<Rightarrow> uuid \<Rightarrow> presentation_session_write \<Rightarrow> uuid \<Rightarrow> central_presentation_session" where
  "new_presentation_session now presentation_id w i =
     (default_central_presentation_session now)\<lparr>cps_presentation_session_id := i,
        cps_presentation_id := presentation_id, cps_session_id := psw_session_id w,
        cps_association_type := psw_association_type w, cps_sort_order := psw_sort_order w,
        cps_primary_session := psw_primary_session w\<rparr>"

definition link_presentation_session ::
  "codec \<Rightarrow> datetime \<Rightarrow> uuid \<Rightarrow> presentation_session_write \<Rightarrow> uuid central_tx" where
  "link_presentation_session cx now presentation_id w =
     tx_bind (presentation_of presentation_id) (\<lambda>item.
     tx_bind (program_session_of (psw_session_id w)) (\<lambda>linked.
     case (item, linked) of
       (Some p, Some s) \<Rightarrow>
         tx_then (insist (cpr_event_id p = css_event_id s) 422 ''entities must share an event'')
           (tx_bind (central_new_id cx) (\<lambda>i.
            let link = new_presentation_session now presentation_id w i in
            tx_then (if psw_primary_session w
                then put_presentation presentation_id (\<lambda>x. x\<lparr>cpr_session_id := Some (psw_session_id w)\<rparr>)
                else tx_return ())
              (tx_then (add_presentation_session link)
                (tx_then central_flush
                  (tx_then (audit cx now ((audit_entry ''central.presentation_session.created'' ''presentation_session'' i
                       (Some (cpr_event_id p)))\<lparr>av_after :=
                         Some [(''session_id'', Plain (JStr (uuid_str (cps_session_id link))))]\<rparr>))
                    (tx_then (touch (cpr_event_id p)) (tx_return i)))))))
     | _ \<Rightarrow> tx_raise (HTTPException 422 ''entities must share an event'')))"

definition link_presentation_presenter ::
  "codec \<Rightarrow> datetime \<Rightarrow> uuid \<Rightarrow> presentation_presenter_write \<Rightarrow> uuid central_tx" where
  "link_presentation_presenter cx now presentation_id w =
     tx_bind (presentation_of presentation_id) (\<lambda>item.
     tx_bind (participation_of (ppw_event_participation_id w)) (\<lambda>participant.
     case (item, participant) of
       (Some p, Some q) \<Rightarrow>
         tx_then (insist (cpr_event_id p = cep_event_id q) 422 ''presenter must belong to presentation event'')
           (tx_bind (central_new_id cx) (\<lambda>i.
            let link = (default_central_presentation_presenter now)\<lparr>cpp_presentation_presenter_id := i,
                  cpp_presentation_id := presentation_id, cpp_event_participation_id := ppw_event_participation_id w,
                  cpp_role := ppw_role w, cpp_presenter_order := ppw_presenter_order w,
                  cpp_primary_presenter := ppw_primary_presenter w\<rparr> in
            tx_then (mark_presenter (ppw_event_participation_id w))
              (tx_then (tx_write (\<lambda>db. db\<lparr>cd_presentation_presenters := cd_presentation_presenters db @ [link]\<rparr>))
                (tx_then central_flush
                  (tx_then (audit cx now ((audit_entry ''central.presentation_presenter.created''
                       ''presentation_presenter'' i (Some (cpr_event_id p)))\<lparr>av_after :=
                         Some [(''event_participation_id'', Plain (JStr (uuid_str (cep_event_participation_id q))))]\<rparr>))
                    (tx_then (touch (cpr_event_id p)) (tx_return i)))))))
     | _ \<Rightarrow> tx_raise (HTTPException 422 ''presenter must belong to presentation event'')))"

definition remove_presentation_session :: "codec \<Rightarrow> datetime \<Rightarrow> uuid \<Rightarrow> uuid central_tx" where
  "remove_presentation_session cx now relationship_id =
     tx_bind (found (tx_read (\<lambda>db. row_get cps_presentation_session_id (cd_presentation_sessions db) relationship_id))
        404 ''relationship not found'') (\<lambda>link.
     tx_bind (attribute (presentation_of (cps_presentation_id link))) (\<lambda>item.
     tx_then (if cpr_session_id item = Some (cps_session_id link)
         then put_presentation (cps_presentation_id link) (\<lambda>x. x\<lparr>cpr_session_id := None\<rparr>) else tx_return ())
       (tx_then (tx_write (\<lambda>db. db\<lparr>cd_presentation_sessions :=
           filter (\<lambda>l. cps_presentation_session_id l \<noteq> relationship_id) (cd_presentation_sessions db)\<rparr>))
         (tx_then (audit cx now (audit_entry ''central.presentation_session.deleted'' ''presentation_session''
              relationship_id (Some (cpr_event_id item))))
           (tx_then (touch (cpr_event_id item)) (tx_return relationship_id))))))"

definition remove_presentation_presenter :: "codec \<Rightarrow> datetime \<Rightarrow> uuid \<Rightarrow> uuid central_tx" where
  "remove_presentation_presenter cx now relationship_id =
     tx_bind (found (tx_read (\<lambda>db. row_get cpp_presentation_presenter_id (cd_presentation_presenters db) relationship_id))
        404 ''relationship not found'') (\<lambda>link.
     tx_bind (presentation_of (cpp_presentation_id link)) (\<lambda>loaded.
     tx_then (tx_write (\<lambda>db. db\<lparr>cd_presentation_presenters :=
         filter (\<lambda>l. cpp_presentation_presenter_id l \<noteq> relationship_id) (cd_presentation_presenters db)\<rparr>))
       (tx_bind (attribute (tx_return loaded)) (\<lambda>item.
        tx_then (audit cx now (audit_entry ''central.presentation_presenter.deleted'' ''presentation_presenter''
            relationship_id (Some (cpr_event_id item))))
          (tx_then (touch (cpr_event_id item)) (tx_return relationship_id))))))"

definition archive_presentation :: "codec \<Rightarrow> datetime \<Rightarrow> uuid \<Rightarrow> central_presentation central_tx" where
  "archive_presentation cx now presentation_id =
     tx_bind (found (presentation_of presentation_id) 404 ''presentation not found'') (\<lambda>item.
     let change = (\<lambda>x. x\<lparr>cpr_workflow_status := Flow_ARCHIVED, cpr_revision := cpr_revision x + 1\<rparr>);
         item' = change item in
     tx_then (put_presentation presentation_id change)
       (tx_then (audit cx now (audit_entry ''central.presentation.archived'' ''presentation'' presentation_id
            (Some (cpr_event_id item))))
         (tx_then (touch (cpr_event_id item)) (tx_return item'))))"

section \<open>Requests\<close>

text \<open>
  The routes of \<open>register_program_routes\<close> that write the program, and the transaction FastAPI's
  \<open>db\<close> dependency opens for each of them: a handler that raises leaves nothing behind.
\<close>

datatype program_request =
    Post_person person_write
  | Put_person uuid int person_write
  | Delete_person uuid string "string option"
  | Post_participant uuid participant_write
  | Put_participant uuid int participant_write
  | Delete_participant uuid
  | Post_session uuid session_write
  | Put_session uuid int session_write
  | Post_session_presenter uuid session_presenter_write
  | Delete_session_presenter uuid
  | Delete_session uuid
  | Post_presentation uuid presentation_write
  | Put_presentation uuid int presentation_write
  | Post_presentation_session uuid presentation_session_write
  | Post_presentation_presenter uuid presentation_presenter_write
  | Delete_presentation_session uuid
  | Delete_presentation_presenter uuid
  | Delete_presentation uuid
  | Post_external_identifier external_identifier_write

record unicode_forms =
  uf_nfkc :: "string \<Rightarrow> string"
  uf_nfkd :: "string \<Rightarrow> string"

definition forget :: "'a central_tx \<Rightarrow> unit central_tx" where
  "forget m = tx_then m (tx_return ())"

fun program_route :: "codec \<Rightarrow> unicode_forms \<Rightarrow> datetime \<Rightarrow> program_request \<Rightarrow> unit central_tx" where
  "program_route cx uf now (Post_person w) = forget (create_person cx (uf_nfkc uf) now w)"
| "program_route cx uf now (Put_person i r w) = forget (update_person cx (uf_nfkc uf) now i r w)"
| "program_route cx uf now (Delete_person i c a) = forget (remove_person cx now i c a)"
| "program_route cx uf now (Post_participant e w) = forget (create_participant cx now e w)"
| "program_route cx uf now (Put_participant i r w) = forget (update_participant cx now i r w)"
| "program_route cx uf now (Delete_participant i) = forget (deactivate_participant cx now i)"
| "program_route cx uf now (Post_session e w) = forget (create_session cx now e w)"
| "program_route cx uf now (Put_session i r w) = forget (update_session cx now i r w)"
| "program_route cx uf now (Post_session_presenter i w) = forget (assign_session_presenter cx now i w)"
| "program_route cx uf now (Delete_session_presenter i) = forget (remove_session_presenter cx now i)"
| "program_route cx uf now (Delete_session i) = forget (archive_session cx now i)"
| "program_route cx uf now (Post_presentation e w) = forget (create_presentation cx (uf_nfkd uf) now e w)"
| "program_route cx uf now (Put_presentation i r w) = forget (update_presentation cx now i r w)"
| "program_route cx uf now (Post_presentation_session i w) = forget (link_presentation_session cx now i w)"
| "program_route cx uf now (Post_presentation_presenter i w) = forget (link_presentation_presenter cx now i w)"
| "program_route cx uf now (Delete_presentation_session i) = forget (remove_presentation_session cx now i)"
| "program_route cx uf now (Delete_presentation_presenter i) = forget (remove_presentation_presenter cx now i)"
| "program_route cx uf now (Delete_presentation i) = forget (archive_presentation cx now i)"
| "program_route cx uf now (Post_external_identifier w) = forget (create_external_identifier cx (uf_nfkc uf) now w)"

definition program_call ::
  "codec \<Rightarrow> unicode_forms \<Rightarrow> datetime \<Rightarrow> program_request \<Rightarrow> central_db \<Rightarrow> error option \<times> central_db" where
  "program_call cx uf now request db =
     (case tx_commit (program_route cx uf now request) db of
        Inl e \<Rightarrow> (Some e, db)
      | Inr r \<Rightarrow> (None, snd r))"

fun program_calls ::
  "codec \<Rightarrow> unicode_forms \<Rightarrow> (datetime \<times> program_request) list \<Rightarrow> central_db \<Rightarrow> central_db" where
  "program_calls cx uf [] db = db"
| "program_calls cx uf ((now, request) # rest) db =
     program_calls cx uf rest (snd (program_call cx uf now request db))"

section \<open>References stay within one event\<close>

definition event_known :: "central_db \<Rightarrow> uuid \<Rightarrow> bool" where
  "event_known db i \<longleftrightarrow> row_get cev_event_id (cd_events db) i \<noteq> None"

definition session_event :: "central_db \<Rightarrow> uuid \<Rightarrow> uuid option" where
  "session_event db i = map_option css_event_id (row_get css_session_id (cd_program_sessions db) i)"

definition participation_event :: "central_db \<Rightarrow> uuid \<Rightarrow> uuid option" where
  "participation_event db i =
     map_option cep_event_id (row_get cep_event_participation_id (cd_participations db) i)"

definition presentation_event :: "central_db \<Rightarrow> uuid \<Rightarrow> uuid option" where
  "presentation_event db i = map_option cpr_event_id (row_get cpr_presentation_id (cd_presentations db) i)"

definition one_event :: "uuid option \<Rightarrow> uuid option \<Rightarrow> bool" where
  "one_event a b = (case (a, b) of (Some x, Some y) \<Rightarrow> x = y | _ \<Rightarrow> False)"

lemma one_event_iff: "one_event a b \<longleftrightarrow> (\<exists>e. a = Some e \<and> b = Some e)"
  by (auto simp: one_event_def split: option.splits)

definition person_active :: "central_db \<Rightarrow> uuid \<Rightarrow> bool" where
  "person_active db i \<longleftrightarrow> active_person (row_get cpe_person_id (cd_people db) i)"

definition participation_ok :: "central_db \<Rightarrow> central_event_participation \<Rightarrow> bool" where
  "participation_ok db p \<longleftrightarrow> event_known db (cep_event_id p) \<and> person_active db (cep_person_id p)"

definition session_ok :: "central_db \<Rightarrow> central_session \<Rightarrow> bool" where
  "session_ok db s \<longleftrightarrow> event_known db (css_event_id s)"

definition presentation_ok :: "central_db \<Rightarrow> central_presentation \<Rightarrow> bool" where
  "presentation_ok db p \<longleftrightarrow>
     event_known db (cpr_event_id p)
     \<and> (case cpr_session_id p of None \<Rightarrow> True | Some i \<Rightarrow> session_event db i = Some (cpr_event_id p))"

definition session_link_ok :: "central_db \<Rightarrow> central_session_participant \<Rightarrow> bool" where
  "session_link_ok db l \<longleftrightarrow>
     one_event (session_event db (csp_session_id l)) (participation_event db (csp_event_participation_id l))"

definition presentation_session_ok :: "central_db \<Rightarrow> central_presentation_session \<Rightarrow> bool" where
  "presentation_session_ok db l \<longleftrightarrow>
     one_event (presentation_event db (cps_presentation_id l)) (session_event db (cps_session_id l))"

definition presenter_ok :: "central_db \<Rightarrow> central_presentation_presenter \<Rightarrow> bool" where
  "presenter_ok db l \<longleftrightarrow>
     one_event (presentation_event db (cpp_presentation_id l)) (participation_event db (cpp_event_participation_id l))"

definition program_wf :: "central_db \<Rightarrow> bool" where
  "program_wf db \<longleftrightarrow>
     list_all (participation_ok db) (cd_participations db) \<and> list_all (session_ok db) (cd_program_sessions db)
     \<and> list_all (presentation_ok db) (cd_presentations db)
     \<and> list_all (session_link_ok db) (cd_session_participants db)
     \<and> list_all (presentation_session_ok db) (cd_presentation_sessions db)
     \<and> list_all (presenter_ok db) (cd_presentation_presenters db)
     \<and> keyed cpr_presentation_id (cd_presentations db)"

text \<open>A later state knows every event, session, participation and presentation with its event.\<close>

definition grows :: "central_db \<Rightarrow> central_db \<Rightarrow> bool" where
  "grows s t \<longleftrightarrow>
     (\<forall>i. event_known s i \<longrightarrow> event_known t i) \<and> (\<forall>i. person_active s i \<longrightarrow> person_active t i)
     \<and> (\<forall>i e. session_event s i = Some e \<longrightarrow> session_event t i = Some e)
     \<and> (\<forall>i e. participation_event s i = Some e \<longrightarrow> participation_event t i = Some e)
     \<and> (\<forall>i e. presentation_event s i = Some e \<longrightarrow> presentation_event t i = Some e)"

lemma ok_grows:
  assumes "grows s t"
  shows "participation_ok s p \<Longrightarrow> participation_ok t p" "session_ok s u \<Longrightarrow> session_ok t u"
    "presentation_ok s q \<Longrightarrow> presentation_ok t q" "session_link_ok s l \<Longrightarrow> session_link_ok t l"
    "presentation_session_ok s k \<Longrightarrow> presentation_session_ok t k" "presenter_ok s r \<Longrightarrow> presenter_ok t r"
  using assms
  unfolding grows_def participation_ok_def session_ok_def presentation_ok_def session_link_ok_def
    presentation_session_ok_def presenter_ok_def one_event_iff
  by (auto split: option.splits)

text \<open>The rows of the later state are rows of the earlier one, or well formed themselves.\<close>

lemma wf_step:
  assumes "program_wf s" "grows s t"
    and "\<And>p. p \<in> set (cd_participations t) \<Longrightarrow> p \<notin> set (cd_participations s) \<Longrightarrow> participation_ok t p"
    and "\<And>p. p \<in> set (cd_program_sessions t) \<Longrightarrow> p \<notin> set (cd_program_sessions s) \<Longrightarrow> session_ok t p"
    and "\<And>p. p \<in> set (cd_presentations t) \<Longrightarrow> p \<notin> set (cd_presentations s) \<Longrightarrow> presentation_ok t p"
    and "\<And>p. p \<in> set (cd_session_participants t) \<Longrightarrow> p \<notin> set (cd_session_participants s) \<Longrightarrow> session_link_ok t p"
    and "\<And>p. p \<in> set (cd_presentation_sessions t) \<Longrightarrow> p \<notin> set (cd_presentation_sessions s) \<Longrightarrow> presentation_session_ok t p"
    and "\<And>p. p \<in> set (cd_presentation_presenters t) \<Longrightarrow> p \<notin> set (cd_presentation_presenters s) \<Longrightarrow> presenter_ok t p"
    and "keyed cpr_presentation_id (cd_presentations s) \<Longrightarrow> keyed cpr_presentation_id (cd_presentations t)"
  shows "program_wf t"
  using assms(1) ok_grows [OF assms(2)] assms(3-)
  unfolding program_wf_def list_all_iff by meson

text \<open>Writes of the tables the invariant reads.\<close>

lemma row_get_put:
  assumes "\<And>r. key r = k \<Longrightarrow> key (f r) = k"
  shows "row_get key (row_put key k f rows) k' =
     (if k' = k then map_option f (row_get key rows k) else row_get key rows k')"
  using assms by (induction rows) auto

lemma keyed_row_put: "(\<And>r. key r = k \<Longrightarrow> key (f r) = k) \<Longrightarrow> keyed key (row_put key k f rows) = keyed key rows"
  by (auto simp: keyed_def row_put_def comp_def intro!: arg_cong [where f = distinct])

lemma mem_row_put: "r' \<in> set (row_put key k f rows) \<Longrightarrow> r' \<in> set rows \<or> (\<exists>r \<in> set rows. key r = k \<and> r' = f r)"
  by (auto simp: row_put_def split: if_splits)

lemmas reference_defs = event_known_def session_event_def participation_event_def presentation_event_def
  person_active_def active_person_def

lemma grows_add:
  "grows s (s\<lparr>cd_people := cd_people s @ a\<rparr>)"
  "grows s (s\<lparr>cd_participations := cd_participations s @ b\<rparr>)"
  "grows s (s\<lparr>cd_program_sessions := cd_program_sessions s @ c\<rparr>)"
  "grows s (s\<lparr>cd_presentations := cd_presentations s @ d\<rparr>)"
  "grows s (s\<lparr>cd_session_participants := x1\<rparr>)" "grows s (s\<lparr>cd_presentation_sessions := x2\<rparr>)"
  "grows s (s\<lparr>cd_presentation_presenters := x3\<rparr>)"
  unfolding grows_def reference_defs by (auto simp: row_get_append split: option.splits)

lemma grows_put_participation:
  assumes "\<And>p. cep_event_participation_id p = i \<Longrightarrow> cep_event_participation_id (f p) = i"
    and "\<And>p. row_get cep_event_participation_id (cd_participations s) i = Some p \<Longrightarrow> cep_event_id (f p) = cep_event_id p"
  shows "grows s (s\<lparr>cd_participations := row_put cep_event_participation_id i f (cd_participations s)\<rparr>)"
  using assms unfolding grows_def reference_defs
  by (auto simp: row_get_put [where key = cep_event_participation_id])

lemma grows_put_session:
  assumes "\<And>p. css_session_id p = i \<Longrightarrow> css_session_id (f p) = i"
    and "\<And>p. row_get css_session_id (cd_program_sessions s) i = Some p \<Longrightarrow> css_event_id (f p) = css_event_id p"
  shows "grows s (s\<lparr>cd_program_sessions := row_put css_session_id i f (cd_program_sessions s)\<rparr>)"
  using assms unfolding grows_def reference_defs by (auto simp: row_get_put [where key = css_session_id])

lemma grows_put_presentation:
  assumes "\<And>p. cpr_presentation_id p = i \<Longrightarrow> cpr_presentation_id (f p) = i"
    and "\<And>p. row_get cpr_presentation_id (cd_presentations s) i = Some p \<Longrightarrow> cpr_event_id (f p) = cpr_event_id p"
  shows "grows s (s\<lparr>cd_presentations := row_put cpr_presentation_id i f (cd_presentations s)\<rparr>)"
  using assms unfolding grows_def reference_defs by (auto simp: row_get_put [where key = cpr_presentation_id])

lemma grows_touch: "grows s (s\<lparr>cd_events := row_put cev_event_id i (\<lambda>e. e\<lparr>cev_revision := cev_revision e + 1\<rparr>) (cd_events s)\<rparr>)"
  unfolding grows_def reference_defs by (auto simp: row_get_put [where key = cev_event_id])

lemma grows_same:
  "grows s (central_minted s)" "grows s (central_audit cx now f s)"
  "grows s (s\<lparr>cd_external_identifiers := x\<rparr>)"
  unfolding grows_def reference_defs central_audit_def central_minted_def by auto

text \<open>Steps that add or change no program row.\<close>

lemma wf_unchanged:
  assumes "program_wf s" "grows s t"
    and "cd_participations t = cd_participations s" "cd_program_sessions t = cd_program_sessions s"
    and "cd_presentations t = cd_presentations s" "cd_session_participants t = cd_session_participants s"
    and "cd_presentation_sessions t = cd_presentation_sessions s"
    and "cd_presentation_presenters t = cd_presentation_presenters s"
  shows "program_wf t"
  by (rule wf_step [OF assms(1,2)]) (simp_all add: assms)

lemma wf_same:
  assumes "program_wf s"
  shows "program_wf (central_minted s)" "program_wf (central_audit cx now f s)"
    "program_wf (s\<lparr>cd_external_identifiers := x\<rparr>)"
    "program_wf (s\<lparr>cd_people := cd_people s @ a\<rparr>)"
    "program_wf (s\<lparr>cd_events := row_put cev_event_id i (\<lambda>e. e\<lparr>cev_revision := cev_revision e + 1\<rparr>) (cd_events s)\<rparr>)"
  by (auto intro!: wf_unchanged [OF assms] simp: grows_same grows_add grows_touch)
    (simp_all add: central_audit_def central_minted_def)

definition bumped :: "uuid \<Rightarrow> central_db \<Rightarrow> central_db" where
  "bumped i db = db\<lparr>cd_events := row_put cev_event_id i (\<lambda>e. e\<lparr>cev_revision := cev_revision e + 1\<rparr>) (cd_events db)\<rparr>"

lemma wf_bumped: "program_wf s \<Longrightarrow> program_wf (bumped i s)"
  by (simp add: bumped_def wf_same)

lemma attribute_run: "attribute m s = (Inr x, t) \<longleftrightarrow> m s = (Inr (Some x), t)"
  by (auto simp: attribute_def tx_bind_eq_Inr split: option.splits)

lemma found_run: "found m n d s = (Inr x, t) \<longleftrightarrow> m s = (Inr (Some x), t)"
  by (auto simp: found_def tx_bind_eq_Inr split: option.splits)

lemma insist_run: "insist b n d s = (Inr u, t) \<longleftrightarrow> b \<and> t = s"
  by (auto simp: insist_def require_def)

lemma flush_run: "central_flush s = (Inr u, t) \<longleftrightarrow> central_constraints s \<and> t = s"
  by (auto simp: central_flush_def)

lemma new_id_run: "central_new_id cx s = (Inr i, t) \<longleftrightarrow> i = central_fresh cx s \<and> t = central_minted s"
  by (auto simp: central_new_id_def)

lemma touch_run:
  "touch i s = (Inr u, t) \<longleftrightarrow>
     event_known s i \<and> central_constraints (bumped i s) \<and> t = bumped i s"
  by (auto simp: touch_def touch_event_program_def tx_then_eq_Inr attribute_run flush_run event_of_def
      event_known_def bumped_def)

lemma audit_run:
  "audit cx now v s = (Inr u, t) \<longleftrightarrow>
     (\<exists>b a. serialize_context (av_before v) = Inr b \<and> serialize_context (av_after v) = Inr a
       \<and> t = central_audit cx now (\<lambda>r. r\<lparr>car_actor_id := Some (av_actor v), car_action := av_action v,
           car_target_type := av_target_type v, car_target_id := av_target_id v, car_event_id := av_event_id v,
           car_before_context := b, car_after_context := a\<rparr>) s)"
  by (auto simp: audit_def tx_bind_eq_Inr)

lemmas run_rules = tx_bind_eq_Inr tx_then_eq_Inr attribute_run found_run insist_run flush_run new_id_run touch_run
  audit_run event_of_def person_of_def participation_of_def program_session_of_def presentation_of_def

text \<open>Adding a row, changing a row, and dropping links.\<close>

lemma wf_add_person: "program_wf s \<Longrightarrow> rows = cd_people s @ [p] \<Longrightarrow> program_wf (s\<lparr>cd_people := rows\<rparr>)"
  by (simp add: wf_same)

lemma wf_add_participation:
  "program_wf s \<Longrightarrow> participation_ok s p \<Longrightarrow> rows = cd_participations s @ [p] \<Longrightarrow> program_wf (s\<lparr>cd_participations := rows\<rparr>)"
  by (rule wf_step [of s]) (auto simp: grows_add intro: ok_grows [OF grows_add(2)])

lemma wf_add_session:
  "program_wf s \<Longrightarrow> session_ok s p \<Longrightarrow> rows = cd_program_sessions s @ [p] \<Longrightarrow> program_wf (s\<lparr>cd_program_sessions := rows\<rparr>)"
  by (rule wf_step [of s]) (auto simp: grows_add intro: ok_grows [OF grows_add(3)])

lemma wf_add_presentation:
  "program_wf s \<Longrightarrow> presentation_ok s p \<Longrightarrow> rows = cd_presentations s @ [p] \<Longrightarrow> keyed cpr_presentation_id rows
     \<Longrightarrow> program_wf (s\<lparr>cd_presentations := rows\<rparr>)"
  by (rule wf_step [of s]) (auto simp: grows_add intro: ok_grows [OF grows_add(4)])

lemma wf_session_links:
  "program_wf s \<Longrightarrow> (\<And>l. l \<in> set rows \<Longrightarrow> l \<in> set (cd_session_participants s) \<or> session_link_ok s l)
     \<Longrightarrow> program_wf (s\<lparr>cd_session_participants := rows\<rparr>)"
  by (rule wf_step [of s]) (auto simp: grows_add intro: ok_grows [OF grows_add(5)])

lemma wf_presentation_sessions:
  "program_wf s \<Longrightarrow> (\<And>l. l \<in> set rows \<Longrightarrow> l \<in> set (cd_presentation_sessions s) \<or> presentation_session_ok s l)
     \<Longrightarrow> program_wf (s\<lparr>cd_presentation_sessions := rows\<rparr>)"
  by (rule wf_step [of s]) (auto simp: grows_add intro: ok_grows [OF grows_add(6)])

lemma wf_presenters:
  "program_wf s \<Longrightarrow> (\<And>l. l \<in> set rows \<Longrightarrow> l \<in> set (cd_presentation_presenters s) \<or> presenter_ok s l)
     \<Longrightarrow> program_wf (s\<lparr>cd_presentation_presenters := rows\<rparr>)"
  by (rule wf_step [of s]) (auto simp: grows_add intro: ok_grows [OF grows_add(7)])

lemma wf_put_participation:
  assumes "program_wf s"
    and "\<And>p. cep_event_participation_id p = i \<Longrightarrow> cep_event_participation_id (f p) = i \<and> cep_event_id (f p) = cep_event_id p
           \<and> cep_person_id (f p) = cep_person_id p"
  shows "program_wf (s\<lparr>cd_participations := row_put cep_event_participation_id i f (cd_participations s)\<rparr>)"
proof -
  have g: "grows s (s\<lparr>cd_participations := row_put cep_event_participation_id i f (cd_participations s)\<rparr>)"
    using assms(2) by (intro grows_put_participation) (auto dest: row_get_SomeD)
  have "participation_ok (s\<lparr>cd_participations := row_put cep_event_participation_id i f (cd_participations s)\<rparr>) (f p)" if "p \<in> set (cd_participations s)" "cep_event_participation_id p = i" for p
    using assms that by (intro ok_grows(1) [OF g]) (auto simp: program_wf_def list_all_iff participation_ok_def)
  then show ?thesis
    by (intro wf_step [OF assms(1) g]) (auto dest!: mem_row_put)
qed

lemma wf_put_session:
  assumes "program_wf s"
    and "\<And>p. css_session_id p = i \<Longrightarrow> css_session_id (f p) = i \<and> css_event_id (f p) = css_event_id p"
  shows "program_wf (s\<lparr>cd_program_sessions := row_put css_session_id i f (cd_program_sessions s)\<rparr>)"
proof -
  have g: "grows s (s\<lparr>cd_program_sessions := row_put css_session_id i f (cd_program_sessions s)\<rparr>)"
    using assms(2) by (intro grows_put_session) (auto dest: row_get_SomeD)
  have "session_ok (s\<lparr>cd_program_sessions := row_put css_session_id i f (cd_program_sessions s)\<rparr>) (f p)" if "p \<in> set (cd_program_sessions s)" "css_session_id p = i" for p
    using assms that by (intro ok_grows(2) [OF g]) (auto simp: program_wf_def list_all_iff session_ok_def)
  then show ?thesis
    by (intro wf_step [OF assms(1) g]) (auto dest!: mem_row_put)
qed

lemma wf_put_presentation:
  assumes "program_wf s"
    and "\<And>p. cpr_presentation_id p = i \<Longrightarrow> cpr_presentation_id (f p) = i \<and> cpr_event_id (f p) = cpr_event_id p"
    and "\<And>p. p \<in> set (cd_presentations s) \<Longrightarrow> cpr_presentation_id p = i \<Longrightarrow> presentation_ok s (f p)"
  shows "program_wf (s\<lparr>cd_presentations := row_put cpr_presentation_id i f (cd_presentations s)\<rparr>)"
proof -
  have g: "grows s (s\<lparr>cd_presentations := row_put cpr_presentation_id i f (cd_presentations s)\<rparr>)"
    using assms(2) by (intro grows_put_presentation) (auto dest: row_get_SomeD)
  have "presentation_ok (s\<lparr>cd_presentations := row_put cpr_presentation_id i f (cd_presentations s)\<rparr>) (f p)" if "p \<in> set (cd_presentations s)" "cpr_presentation_id p = i" for p
    using that by (intro ok_grows(3) [OF g] assms(3))
  then show ?thesis
    using assms(2) by (intro wf_step [OF assms(1) g]) (auto dest!: mem_row_put simp: keyed_row_put)
qed

lemma minted_program [simp]:
  "cd_people (central_minted db) = cd_people db" "cd_participations (central_minted db) = cd_participations db"
  "cd_program_sessions (central_minted db) = cd_program_sessions db"
  "cd_session_participants (central_minted db) = cd_session_participants db"
  "cd_presentation_sessions (central_minted db) = cd_presentation_sessions db"
  "cd_presentation_presenters (central_minted db) = cd_presentation_presenters db"
  "cd_external_identifiers (central_minted db) = cd_external_identifiers db"
  by (simp_all add: central_minted_def)

lemma references_minted [simp]:
  "event_known (central_minted s) = event_known s" "session_event (central_minted s) = session_event s"
  "participation_event (central_minted s) = participation_event s"
  "presentation_event (central_minted s) = presentation_event s" "person_active (central_minted s) = person_active s"
  by (simp_all add: reference_defs fun_eq_iff)

lemma create_person_wf:
  "program_wf db \<Longrightarrow> create_person cx nfkc now w db = (Inr x, db') \<Longrightarrow> program_wf db'"
  by (auto simp: create_person_def run_rules email_accepted_def Let_def intro!: wf_same(2) wf_add_person wf_same(1))

lemma create_session_wf:
  "program_wf db \<Longrightarrow> create_session cx now e w db = (Inr x, db') \<Longrightarrow> program_wf db'"
  by (auto simp: create_session_def run_rules times_follow_def Let_def session_ok_def event_known_def
      intro!: wf_bumped wf_same(2) wf_add_session wf_same(1))

lemma create_participant_wf:
  "program_wf db \<Longrightarrow> create_participant cx now e w db = (Inr x, db') \<Longrightarrow> program_wf db'"
  by (auto simp: create_participant_def run_rules Let_def participation_ok_def reference_defs write_participant_def
      intro!: wf_bumped wf_same(2) wf_add_participation wf_same(1))

lemma references_same [simp]:
  "session_event (s\<lparr>cd_participations := a\<rparr>) = session_event s"
  "presentation_event (s\<lparr>cd_participations := a\<rparr>) = presentation_event s"
  "session_event (s\<lparr>cd_presentations := b\<rparr>) = session_event s"
  "participation_event (s\<lparr>cd_presentations := b\<rparr>) = participation_event s"
  by (simp_all add: reference_defs fun_eq_iff)

lemma wf_presentation: "program_wf s \<Longrightarrow> p \<in> set (cd_presentations s) \<Longrightarrow> presentation_ok s p"
  by (simp add: program_wf_def list_all_iff)

lemma wf_presentation_get:
  "program_wf s \<Longrightarrow> p \<in> set (cd_presentations s) \<Longrightarrow> row_get cpr_presentation_id (cd_presentations s) (cpr_presentation_id p) = Some p"
  by (simp add: program_wf_def row_get_mem)

lemma presentation_ok_fields [simp]:
  "presentation_ok s (p\<lparr>cpr_workflow_status := a, cpr_revision := b\<rparr>) = presentation_ok s p"
  "presentation_ok s (p\<lparr>cpr_session_id := v\<rparr>) \<longleftrightarrow>
     event_known s (cpr_event_id p) \<and> (case v of None \<Rightarrow> True | Some i \<Rightarrow> session_event s i = Some (cpr_event_id p))"
  by (simp_all add: presentation_ok_def split: option.split)

lemma wf_presentation_event: "program_wf s \<Longrightarrow> p \<in> set (cd_presentations s) \<Longrightarrow> event_known s (cpr_event_id p)"
  by (simp add: program_wf_def list_all_iff presentation_ok_def)

lemma deactivate_participant_wf:
  "program_wf db \<Longrightarrow> deactivate_participant cx now i db = (Inr x, db') \<Longrightarrow> program_wf db'"
  by (auto simp: deactivate_participant_def run_rules Let_def put_participation_def dest: row_get_SomeD
      intro!: wf_bumped wf_same(2) wf_put_participation)

lemma archive_session_wf:
  "program_wf db \<Longrightarrow> archive_session cx now i db = (Inr x, db') \<Longrightarrow> program_wf db'"
  by (auto simp: archive_session_def run_rules Let_def put_session_def dest: row_get_SomeD
      intro!: wf_bumped wf_same(2) wf_put_session)

lemma archive_presentation_wf:
  "program_wf db \<Longrightarrow> archive_presentation cx now i db = (Inr x, db') \<Longrightarrow> program_wf db'"
  by (auto simp: archive_presentation_def run_rules Let_def put_presentation_def dest: row_get_SomeD
      intro: wf_presentation
      intro!: wf_bumped wf_same(2) wf_put_presentation)

lemma remove_session_presenter_wf:
  "program_wf db \<Longrightarrow> remove_session_presenter cx now i db = (Inr x, db') \<Longrightarrow> program_wf db'"
  by (auto simp: remove_session_presenter_def run_rules intro!: wf_bumped wf_same(2) wf_session_links)

lemma remove_presentation_presenter_wf:
  "program_wf db \<Longrightarrow> remove_presentation_presenter cx now i db = (Inr x, db') \<Longrightarrow> program_wf db'"
  by (auto simp: remove_presentation_presenter_def run_rules intro!: wf_bumped wf_same(2) wf_presenters)

lemma assign_session_presenter_wf:
  "program_wf db \<Longrightarrow> assign_session_presenter cx now i w db = (Inr x, db') \<Longrightarrow> program_wf db'"
  by (auto simp: assign_session_presenter_def run_rules Let_def mark_presenter_def put_participation_def
      session_link_ok_def session_event_def participation_event_def one_event_def row_get_put
      split: option.splits intro!: wf_bumped wf_same(2) wf_session_links wf_put_participation [of "central_minted db", simplified] wf_same(1))

lemma link_presentation_presenter_wf:
  "program_wf db \<Longrightarrow> link_presentation_presenter cx now i w db = (Inr x, db') \<Longrightarrow> program_wf db'"
  by (auto simp: link_presentation_presenter_def run_rules Let_def mark_presenter_def put_participation_def
      presenter_ok_def presentation_event_def participation_event_def one_event_def row_get_put
      split: option.splits intro!: wf_bumped wf_same(2) wf_presenters wf_put_participation [of "central_minted db", simplified] wf_same(1))

lemma remove_presentation_session_wf:
  "program_wf db \<Longrightarrow> remove_presentation_session cx now i db = (Inr x, db') \<Longrightarrow> program_wf db'"
  by (auto simp: remove_presentation_session_def run_rules put_presentation_def wf_presentation_event split: if_splits
      intro!: wf_bumped wf_same(2) wf_presentation_sessions wf_put_presentation)

lemma link_presentation_session_wf:
  assumes wf: "program_wf db" and run: "link_presentation_session cx now i w db = (Inr x, db')"
  shows "program_wf db'"
proof -
  let ?f = "\<lambda>x. x\<lparr>cpr_session_id := Some (psw_session_id w)\<rparr>"
  let ?s = "if psw_primary_session w then (central_minted db)\<lparr>cd_presentations := row_put cpr_presentation_id i ?f (cd_presentations db)\<rparr>
            else central_minted db"
  let ?l = "new_presentation_session now i w (central_fresh cx db)"
  from run obtain p q v where p: "row_get cpr_presentation_id (cd_presentations db) i = Some p"
      and q: "row_get css_session_id (cd_program_sessions db) (psw_session_id w) = Some q" "cpr_event_id p = css_event_id q"
      and db': "db' = bumped (cpr_event_id p) (central_audit cx now v
                  (?s\<lparr>cd_presentation_sessions := cd_presentation_sessions db @ [?l]\<rparr>))"
    by (auto simp: link_presentation_session_def run_rules Let_def put_presentation_def add_presentation_session_def
        split: option.splits if_splits)
  have "css_event_id q = cpr_event_id r" if "r \<in> set (cd_presentations db)" "cpr_presentation_id r = i" for r
    using wf_presentation_get [OF wf that(1)] that(2) p q(2) by simp
  then have "program_wf ((central_minted db)\<lparr>cd_presentations := row_put cpr_presentation_id i ?f (cd_presentations db)\<rparr>)"
    using q wf_put_presentation [OF wf_same(1) [OF wf], of i ?f] by (simp add: wf_presentation_event [OF wf] session_event_def)
  then have wf1: "program_wf ?s" by (simp add: wf_same(1) [OF wf])
  have "presentation_session_ok ?s ?l"
    using p q by (simp add: presentation_session_ok_def presentation_event_def session_event_def one_event_def
        new_presentation_session_def row_get_put)
  then have "program_wf (?s\<lparr>cd_presentation_sessions := cd_presentation_sessions db @ [?l]\<rparr>)"
    by (intro wf_presentation_sessions [OF wf1]) auto
  then show ?thesis by (simp add: db' wf_bumped wf_same(2))
qed

lemma schedule_presentation_wf:
  assumes "program_wf s" "schedule_presentation cx now pid sid s = (Inr u, t)"
    and "presentation_event s pid = Some e" "\<And>i. sid = Some i \<Longrightarrow> session_event s i = Some e"
  shows "program_wf t"
  using assms
  by (auto simp: schedule_presentation_def run_rules add_presentation_session_def presentation_session_ok_def
      one_event_def split: option.splits intro!: wf_presentation_sessions wf_same(1))

lemma preferred_session_run:
  "preferred_session_in e sid s = (Inr u, t) \<longleftrightarrow> t = s \<and> (\<forall>i. sid = Some i \<longrightarrow> session_event s i = Some e)"
  by (auto simp: preferred_session_in_def run_rules session_event_def split: option.splits)

lemma new_presentation_fields [simp]:
  "cpr_presentation_id (new_presentation nfkd now e w i) = i" "cpr_event_id (new_presentation nfkd now e w i) = e"
  "cpr_session_id (new_presentation nfkd now e w i) = prw_preferred_session_id w"
  by (simp_all add: new_presentation_def Let_def write_presentation_def)

lemma create_presentation_wf:
  assumes wf: "program_wf db" and run: "create_presentation cx nfkd now e w db = (Inr x, db')"
  shows "program_wf db'"
proof -
  let ?item = "new_presentation nfkd now e w (central_fresh cx db)"
  let ?s = "(central_minted db)\<lparr>cd_presentations := cd_presentations db @ [?item]\<rparr>"
  from run have known: "event_known db e"
    and pref: "\<And>i. prw_preferred_session_id w = Some i \<Longrightarrow> session_event db i = Some e"
    and cons: "central_constraints ?s"
    by (auto simp: create_presentation_def run_rules Let_def preferred_session_run event_known_def)
  from run obtain s2 u v
    where sched: "schedule_presentation cx now (central_fresh cx db) (prw_preferred_session_id w) ?s = (Inr u, s2)"
      and db': "db' = bumped e (central_audit cx now v s2)"
    unfolding create_presentation_def run_rules Let_def preferred_session_run by auto
  have keys: "keyed cpr_presentation_id (cd_presentations db @ [?item])"
    using cons by (simp add: central_constraints_def)
  have "presentation_ok (central_minted db) ?item"
    using known pref by (auto simp: presentation_ok_def split: option.split)
  from wf_add_presentation [OF wf_same(1) [OF wf] this _ keys] have wf1: "program_wf ?s" by simp
  have "row_get cpr_presentation_id (cd_presentations db) (central_fresh cx db) = None"
    using keys by (simp add: row_get_None_iff)
  then have "presentation_event ?s (central_fresh cx db) = Some e"
    by (simp add: presentation_event_def row_get_append)
  from schedule_presentation_wf [OF wf1 sched this] pref have "program_wf s2" by simp
  then show ?thesis by (simp add: db' wf_bumped wf_same(2))
qed

text \<open>A person is deleted only when no participation refers to it.\<close>

lemma ok_people [simp]:
  "session_ok (s\<lparr>cd_people := a\<rparr>) = session_ok s" "presentation_ok (s\<lparr>cd_people := a\<rparr>) = presentation_ok s"
  "session_link_ok (s\<lparr>cd_people := a\<rparr>) = session_link_ok s" "presenter_ok (s\<lparr>cd_people := a\<rparr>) = presenter_ok s"
  "presentation_session_ok (s\<lparr>cd_people := a\<rparr>) = presentation_session_ok s"
  by (simp_all add: fun_eq_iff session_ok_def presentation_ok_def session_link_ok_def presenter_ok_def
      presentation_session_ok_def reference_defs split: option.split)

lemma remove_person_wf:
  assumes wf: "program_wf db" and run: "remove_person cx now i c a db = (Inr x, db')"
  shows "program_wf db'"
proof -
  let ?f = "\<lambda>p. p\<lparr>cpe_active := False, cpe_deleted_at := Some now, cpe_revision := cpe_revision p + 1\<rparr>"
  let ?s = "db\<lparr>cd_people := row_put cpe_person_id i ?f (cd_people db)\<rparr>"
  from run obtain v where db': "db' = central_audit cx now v ?s" and "person_impact i db = (0, 0, 0)"
    by (auto simp: remove_person_def delete_person_def run_rules dest: row_get_SomeD)
  then have unused: "cep_person_id p \<noteq> i" if "p \<in> set (cd_participations db)" for p
    using that by (auto simp: person_impact_def Let_def filter_empty_conv)
  have "program_wf ?s"
    using wf unused
    by (simp add: program_wf_def list_all_iff participation_ok_def event_known_def person_active_def row_get_put)
  then show ?thesis by (simp add: db' wf_same(2))
qed

lemma touches_wf: "tx_for touch es s = (Inr u, t) \<Longrightarrow> program_wf s \<Longrightarrow> program_wf t"
  by (induction es arbitrary: s) (auto simp: run_rules wf_bumped)

lemma create_external_identifier_wf:
  "program_wf db \<Longrightarrow> create_external_identifier cx nfkc now w db = (Inr x, db') \<Longrightarrow> program_wf db'"
  by (auto simp: create_external_identifier_def external_identifier_def run_rules Let_def split: option.splits
      elim!: touches_wf intro!: wf_same)

section \<open>Updates\<close>

text \<open>A view of a row holds its key, a UUID object, which the default serialiser refuses.\<close>

lemma uuid_not_serialized: "serialize_context (Some ((k, Uuid_object i) # kvs)) = Inl (TypeError ''not JSON serializable'')"
  by (simp add: serialize_context_def serialized_def)

lemmas view_refused = person_view_def participant_view_def session_view_def presentation_view_def uuid_not_serialized

lemma update_never_returns:
  "update_person cx nfkc now i r pw db \<noteq> (Inr x1, db')" "update_participant cx now i r tw db \<noteq> (Inr x2, db')"
  "update_session cx now i r sw db \<noteq> (Inr x3, db')" "update_presentation cx now i r qw db \<noteq> (Inr x4, db')"
  by (auto simp: update_person_def update_participant_def update_session_def update_presentation_def run_rules Let_def
      view_refused)

section \<open>What a request leaves alone\<close>

text \<open>An event of the later state differs at most in a higher revision.\<close>

definition advanced :: "central_event \<Rightarrow> central_event \<Rightarrow> bool" where
  "advanced e e' \<longleftrightarrow> e' = e\<lparr>cev_revision := cev_revision e'\<rparr> \<and> cev_revision e \<le> cev_revision e'"

definition program_frame :: "central_db \<Rightarrow> central_db \<Rightarrow> bool" where
  "program_frame s t \<longleftrightarrow>
     cd_deployments t = cd_deployments s \<and> cd_deployment_revisions t = cd_deployment_revisions s
     \<and> cd_queue t = cd_queue s \<and> cd_sites t = cd_sites s \<and> cd_versions t = cd_versions s
     \<and> cd_media_imports t = cd_media_imports s \<and> list_all2 advanced (cd_events s) (cd_events t)"

lemma advanced_refl [simp]: "advanced e e"
  by (simp add: advanced_def)

lemma advanced_trans: "advanced a b \<Longrightarrow> advanced b c \<Longrightarrow> advanced a c"
  by (cases a, cases b, cases c) (simp add: advanced_def)

lemma advanced_bump: "list_all2 advanced es (row_put cev_event_id i (\<lambda>e. e\<lparr>cev_revision := cev_revision e + 1\<rparr>) es)"
  by (induction es) (auto simp: advanced_def)

interpretation fr: tx_relation program_frame
proof
  show "program_frame s s" for s by (simp add: program_frame_def list_all2_refl)
  show "program_frame s u" if "program_frame s t" "program_frame t u" for s t u
    using that list_all2_trans [of advanced advanced advanced, OF advanced_trans] by (auto simp: program_frame_def)
qed

lemma frame_audit: "tx_keeps program_frame (audit cx now v)"
  unfolding audit_def
  by (intro fr.keeps_rules) (simp add: program_frame_def list_all2_refl central_audit_def)

lemma frame_flush: "tx_keeps program_frame central_flush"
  by (rule fr.keepsI) (simp add: central_flush_def fr.refl)

lemma frame_new_id: "tx_keeps program_frame (central_new_id cx)"
  by (rule fr.keepsI) (simp add: central_new_id_def program_frame_def list_all2_refl)

lemma frame_gets: "tx_keeps program_frame (event_of i)" "tx_keeps program_frame (person_of i)"
  "tx_keeps program_frame (participation_of i)" "tx_keeps program_frame (program_session_of i)"
  "tx_keeps program_frame (presentation_of i)" "tx_keeps program_frame (insist b n d)"
  unfolding event_of_def person_of_def participation_of_def program_session_of_def presentation_of_def insist_def
  by (rule fr.keeps_read fr.keeps_lift)+

lemma frame_attribute: "tx_keeps program_frame m \<Longrightarrow> tx_keeps program_frame (attribute m)"
  and frame_found: "tx_keeps program_frame m \<Longrightarrow> tx_keeps program_frame (found m n d)"
  unfolding attribute_def found_def by (intro fr.keeps_rules; assumption)+

lemma frame_touch: "tx_keeps program_frame (touch i)"
  unfolding touch_def touch_event_program_def
  by (intro fr.keeps_rules frame_attribute frame_gets frame_flush) (simp add: program_frame_def advanced_bump)

lemmas frame_rules = fr.keeps_rules frame_audit frame_flush frame_new_id frame_gets frame_attribute frame_found frame_touch

lemmas frame_writes = put_participation_def put_session_def put_presentation_def add_presentation_session_def
  mark_presenter_def email_accepted_def times_follow_def preferred_session_in_def schedule_presentation_def

lemmas handler_defs = create_person_def update_person_def remove_person_def delete_person_def create_participant_def
  update_participant_def deactivate_participant_def create_session_def update_session_def assign_session_presenter_def
  remove_session_presenter_def archive_session_def create_presentation_def update_presentation_def
  link_presentation_session_def link_presentation_presenter_def remove_presentation_session_def
  remove_presentation_presenter_def archive_presentation_def create_external_identifier_def external_identifier_def

lemma route_frame: "tx_keeps program_frame (program_route cx uf now request)"
  by (cases request; simp only: program_route.simps forget_def handler_defs frame_writes Let_def;
      intro frame_rules; simp add: program_frame_def list_all2_refl)

lemma audit_tables [simp]:
  "cd_audit (central_audit cx now f s) =
     cd_audit s @ [f ((default_central_audit_record now)\<lparr>car_audit_record_id := central_fresh cx s\<rparr>)]"
  "cd_audit (bumped i s) = cd_audit s"
  by (simp_all add: central_audit_def bumped_def)

lemma touches_audit: "tx_for touch es s = (Inr u, t) \<Longrightarrow> cd_audit t = cd_audit s"
  by (induction es arbitrary: s) (auto simp: run_rules)

lemma route_audited:
  assumes "program_route cx uf now request db = (Inr u, db')"
  shows "\<exists>a. cd_audit db' = cd_audit db @ [a]"
  using assms
  by (cases request)
    (auto simp: forget_def update_never_returns tx_then_eq_Inr;
     auto simp: handler_defs frame_writes Let_def run_rules dest!: touches_audit split: option.splits if_splits)+

lemma route_wf:
  assumes "program_wf db" "program_route cx uf now request db = (Inr u, db')"
  shows "program_wf db'"
  using assms
  by (cases request)
    (auto simp: forget_def tx_then_eq_Inr update_never_returns
      elim: create_person_wf remove_person_wf create_participant_wf deactivate_participant_wf create_session_wf
        assign_session_presenter_wf remove_session_presenter_wf archive_session_wf create_presentation_wf
        link_presentation_session_wf link_presentation_presenter_wf remove_presentation_session_wf
        remove_presentation_presenter_wf archive_presentation_wf create_external_identifier_wf)

lemma call_cases:
  obtains (refused) e where "program_call cx uf now request db = (Some e, db)" "fst (program_route cx uf now request db) = Inl e"
    | (committed) db' where "program_call cx uf now request db = (None, db')" "program_route cx uf now request db = (Inr (), db')"
proof (cases "tx_commit (program_route cx uf now request) db")
  case (Inl e)
  show ?thesis
  proof (rule refused)
    show "program_call cx uf now request db = (Some e, db)" by (simp add: program_call_def Inl)
    show "fst (program_route cx uf now request db) = Inl e" using Inl by (simp add: tx_commit_Inl)
  qed
next
  case (Inr v)
  obtain db' where v: "v = ((), db')" by (cases v) simp
  show ?thesis
  proof (rule committed)
    show "program_call cx uf now request db = (None, db')" by (simp add: program_call_def Inr v)
    show "program_route cx uf now request db = (Inr (), db')" using Inr by (simp add: tx_commit_Inr v)
  qed
qed

lemma call_wf: "program_wf db \<Longrightarrow> program_wf (snd (program_call cx uf now request db))"
  by (cases rule: call_cases [of cx uf now request db]) (auto intro: route_wf)

section \<open>The properties\<close>

text \<open>
  C35: The references of an event's program stay inside the event. Start from a state in which
  every participation names a known event and a person who is not deleted, every session and
  presentation a known event, a presentation's preferred session lies in its event, and every link
  between a session, a presentation and a participation joins rows of one event. Whatever sequence
  of program requests follows, accepted or refused, the state is such a state again.
\<close>

theorem program_references_stay_within_events:
  assumes "program_wf db"
  shows "program_wf (program_calls cx uf requests db)"
  using assms by (induction cx uf requests db rule: program_calls.induct) (auto intro: call_wf)

definition demo_person_write :: person_write where
  "demo_person_write =
     \<lparr>pw_given_name = None, pw_middle_name = None, pw_family_name = None, pw_prefix = None, pw_suffix = None,
      pw_preferred_name = None, pw_display_name = ''Ada'', pw_professional_title = None, pw_organization = None,
      pw_primary_email = Some ''ada@a.b'', pw_phone = None\<rparr>"

definition demo_session_write :: session_write where
  "demo_session_write =
     \<lparr>sw_title = ''Keynote'', sw_subtitle = None, sw_description = None, sw_session_code = None, sw_session_type = None,
      sw_starts_at = Some 1, sw_ends_at = Some 2, sw_location_name = None, sw_status = Sess_SCHEDULED, sw_sort_order = 0\<rparr>"

definition demo_program_db :: central_db where
  "demo_program_db = empty_central_db\<lparr>cd_events := [(default_central_event 0)\<lparr>cev_event_id := 9\<rparr>]\<rparr>"

definition demo_requests :: "(datetime \<times> program_request) list" where
  "demo_requests =
     [(1, Post_person demo_person_write),
      (2, Post_participant 9 \<lparr>tw_person_id = mint_uuid demo_codec 0, tw_display_name = None, tw_professional_title = None,
            tw_organization = None, tw_registration_status = None, tw_participant_status = Part_ACTIVE,
            tw_is_presenter = False, tw_notes = None\<rparr>),
      (3, Post_session 9 demo_session_write),
      (4, Post_session_presenter (mint_uuid demo_codec 4)
            \<lparr>spw_event_participation_id = mint_uuid demo_codec 2, spw_role = ''speaker'', spw_presenter_order = 0,
             spw_primary_presenter = True, spw_notes = None\<rparr>),
      (5, Put_session (mint_uuid demo_codec 4) 1 demo_session_write)]"

definition demo_forms :: unicode_forms where
  "demo_forms = \<lparr>uf_nfkc = (\<lambda>s. s), uf_nfkd = (\<lambda>s. s)\<rparr>"

lemma demo_program_runs:
  "program_wf demo_program_db
   \<and> map cep_is_presenter (cd_participations (program_calls demo_codec demo_forms demo_requests demo_program_db)) = [True]
   \<and> map csp_role (cd_session_participants (program_calls demo_codec demo_forms demo_requests demo_program_db)) = [''speaker'']
   \<and> map cev_revision (cd_events (program_calls demo_codec demo_forms demo_requests demo_program_db)) = [4]"
  by code_simp

theorem program_references_stay_within_events_witness:
  "program_wf demo_program_db \<and> program_wf (program_calls demo_codec demo_forms demo_requests demo_program_db)"
  using program_references_stay_within_events [of demo_program_db demo_codec demo_forms demo_requests] demo_program_runs
  by blast

text \<open>
  C36: Editing the program publishes nothing. Whatever a program request does, the deployments, their
  revisions, the outbox and the other queues, the Sites, the presentation versions and their media
  are as before, and no event changes except that its program revision may rise. A request that is
  accepted adds exactly one audit record; a request that is refused changes nothing at all.
\<close>

theorem program_edits_publish_nothing:
  "case program_call cx uf now request db of
     (answer, db') \<Rightarrow>
       cd_deployments db' = cd_deployments db \<and> cd_deployment_revisions db' = cd_deployment_revisions db
       \<and> cd_queue db' = cd_queue db \<and> cd_sites db' = cd_sites db \<and> cd_versions db' = cd_versions db
       \<and> cd_media_imports db' = cd_media_imports db \<and> list_all2 advanced (cd_events db) (cd_events db')
       \<and> (case answer of None \<Rightarrow> \<exists>a. cd_audit db' = cd_audit db @ [a] | Some e \<Rightarrow> db' = db)"
proof (cases rule: call_cases [of cx uf now request db])
  case (refused e)
  then show ?thesis by (simp add: list_all2_refl)
next
  case (committed db')
  with fr.keeps_run [OF route_frame committed(2)] route_audited [OF committed(2)] show ?thesis
    by (simp add: program_frame_def)
qed

text \<open>
  C37: No update of a person, a participant, a session or a presentation is ever accepted. The audit
  record of an update holds views of the row with UUID objects in them, which the database's JSON
  serialiser refuses, so a request whose row exists, whose revision is current and whose values are
  valid ends in a \<open>TypeError\<close>, and the transaction is rolled back. For a session the answer is
  given for every request.
\<close>

theorem program_updates_never_commit:
  "(\<exists>e. program_call cx uf now (Put_person i r pw) db = (Some e, db))
   \<and> (\<exists>e. program_call cx uf now (Put_participant i r tw) db = (Some e, db))
   \<and> (\<exists>e. program_call cx uf now (Put_presentation i r qw) db = (Some e, db))
   \<and> program_call cx uf now (Put_session i r sw) db =
       (Some (case row_get css_session_id (cd_program_sessions db) i of
                None \<Rightarrow> HTTPException 404 ''session not found''
              | Some s \<Rightarrow>
                  if css_revision s \<noteq> r then HTTPException 409 ''session was modified''
                  else if (case (sw_starts_at sw, sw_ends_at sw) of (Some a, Some b) \<Rightarrow> b \<le> a | _ \<Rightarrow> False)
                  then HTTPException 422 ''session end must follow start''
                  else TypeError ''not JSON serializable''), db)"
proof -
  have never: "\<exists>e. program_call cx uf now request db = (Some e, db)"
    if "\<And>t. program_route cx uf now request db \<noteq> (Inr (), t)" for request
    using that by (cases rule: call_cases [of cx uf now request db]) auto
  have session: "fst (update_session cx now i r sw db) =
      Inl (case row_get css_session_id (cd_program_sessions db) i of
             None \<Rightarrow> HTTPException 404 ''session not found''
           | Some s \<Rightarrow>
               if css_revision s \<noteq> r then HTTPException 409 ''session was modified''
               else if (case (sw_starts_at sw, sw_ends_at sw) of (Some a, Some b) \<Rightarrow> b \<le> a | _ \<Rightarrow> False)
               then HTTPException 422 ''session end must follow start''
               else TypeError ''not JSON serializable'')"
    by (auto simp: update_session_def found_def program_session_of_def insist_def times_follow_def require_def
        put_session_def audit_def Let_def tx_then_def tx_bind_def view_refused split: option.splits)
  have "fst (program_route cx uf now (Put_session i r sw) db) = map_sum id (\<lambda>_. ()) (fst (update_session cx now i r sw db))"
    by (auto simp: forget_def tx_then_def tx_bind_def split: prod.splits sum.splits)
  with session have "fst (program_route cx uf now (Put_session i r sw) db) = Inl (projl (fst (update_session cx now i r sw db)))"
    by simp
  then have "program_call cx uf now (Put_session i r sw) db = (Some (projl (fst (update_session cx now i r sw db))), db)"
    by (cases rule: call_cases [of cx uf now "Put_session i r sw" db]) auto
  with session show ?thesis
    by (intro conjI never) (auto simp: forget_def tx_then_eq_Inr update_never_returns)
qed

end
