(* ===== verification/Central_Archive_Tables.thy ===== *)
theory Central_Archive_Tables
  imports Jobs
begin

text \<open>
  Further rows of Central's database, in the form of \<open>Central_Tables\<close>: imports, identity
  evidence, media replicas and the deletion operations.
\<close>

record central_deletion_operation =
  cop_deletion_operation_id :: uuid
  cop_target_type :: string
  cop_target_id :: uuid
  cop_target_display_name :: string
  cop_initiated_by :: string
  cop_status :: string
  cop_stage :: string
  cop_dependency_counts :: "(string \<times> json) list"
  cop_site_statuses :: "json list"
  cop_media_results :: "(string \<times> json) list"
  cop_attempt_count :: int
  cop_last_error :: "string option"
  cop_created_at :: datetime
  cop_completed_at :: "datetime option"

definition default_central_deletion_operation :: "datetime \<Rightarrow> central_deletion_operation" where
  "default_central_deletion_operation now =
     \<lparr>cop_deletion_operation_id = 0,
      cop_target_type = [],
      cop_target_id = 0,
      cop_target_display_name = [],
      cop_initiated_by = [],
      cop_status = ''pending'',
      cop_stage = ''queued'',
      cop_dependency_counts = [],
      cop_site_statuses = [],
      cop_media_results = [],
      cop_attempt_count = 0,
      cop_last_error = None,
      cop_created_at = now,
      cop_completed_at = None\<rparr>"

record central_retained_person_history =
  crh_retained_history_id :: uuid
  crh_person_id :: uuid
  crh_source_event_id :: uuid
  crh_event_name :: string
  crh_participation_summary :: "(string \<times> json) list"
  crh_retained_at :: datetime

definition default_central_retained_person_history :: "datetime \<Rightarrow> central_retained_person_history" where
  "default_central_retained_person_history now =
     \<lparr>crh_retained_history_id = 0,
      crh_person_id = 0,
      crh_source_event_id = 0,
      crh_event_name = [],
      crh_participation_summary = [],
      crh_retained_at = now\<rparr>"

record central_person_identity_signal =
  cis_identity_signal_id :: uuid
  cis_person_id :: uuid
  cis_signal_type :: identity_signal_type
  cis_value :: string
  cis_normalized_value :: string
  cis_source_namespace :: "string option"
  cis_source_identifier :: "string option"
  cis_administrator_confirmed :: bool
  cis_created_at :: datetime

definition default_central_person_identity_signal :: "datetime \<Rightarrow> central_person_identity_signal" where
  "default_central_person_identity_signal now =
     \<lparr>cis_identity_signal_id = 0,
      cis_person_id = 0,
      cis_signal_type = Signal_PRIMARY_EMAIL,
      cis_value = [],
      cis_normalized_value = [],
      cis_source_namespace = None,
      cis_source_identifier = None,
      cis_administrator_confirmed = False,
      cis_created_at = now\<rparr>"

record central_person_identity_link =
  cil_identity_link_id :: uuid
  cil_person_id :: uuid
  cil_linked_person_id :: uuid
  cil_link_type :: string
  cil_administrator_confirmed :: bool
  cil_confirmed_by :: "string option"
  cil_created_at :: datetime

definition default_central_person_identity_link :: "datetime \<Rightarrow> central_person_identity_link" where
  "default_central_person_identity_link now =
     \<lparr>cil_identity_link_id = 0,
      cil_person_id = 0,
      cil_linked_person_id = 0,
      cil_link_type = [],
      cil_administrator_confirmed = False,
      cil_confirmed_by = None,
      cil_created_at = now\<rparr>"

record central_import_source =
  cim_import_source_id :: uuid
  cim_filename :: string
  cim_content_type :: string
  cim_source_type :: import_source_type
  cim_size_bytes :: int
  cim_sha256 :: string
  cim_content :: string
  cim_uploaded_by :: string
  cim_created_at :: datetime

definition default_central_import_source :: "datetime \<Rightarrow> central_import_source" where
  "default_central_import_source now =
     \<lparr>cim_import_source_id = 0,
      cim_filename = [],
      cim_content_type = [],
      cim_source_type = ImpSource_CSV,
      cim_size_bytes = 0,
      cim_sha256 = [],
      cim_content = [],
      cim_uploaded_by = [],
      cim_created_at = now\<rparr>"

record central_import_batch =
  cib_import_batch_id :: uuid
  cib_event_id :: uuid
  cib_import_source_id :: uuid
  cib_filename :: string
  cib_source_sha256 :: string
  cib_importer_type :: string
  cib_status :: import_status
  cib_created_by :: string
  cib_row_count :: int
  cib_valid_count :: int
  cib_warning_count :: int
  cib_conflict_count :: int
  cib_committed_count :: int
  cib_rejected_count :: int
  cib_failure_summary :: "string option"
  cib_reviewed_domain_revision :: "int option"
  cib_committed_at :: "datetime option"
  cib_created_at :: datetime
  cib_revision :: int

definition default_central_import_batch :: "datetime \<Rightarrow> central_import_batch" where
  "default_central_import_batch now =
     \<lparr>cib_import_batch_id = 0,
      cib_event_id = 0,
      cib_import_source_id = 0,
      cib_filename = [],
      cib_source_sha256 = [],
      cib_importer_type = ''program'',
      cib_status = Imp_UPLOADED,
      cib_created_by = [],
      cib_row_count = 0,
      cib_valid_count = 0,
      cib_warning_count = 0,
      cib_conflict_count = 0,
      cib_committed_count = 0,
      cib_rejected_count = 0,
      cib_failure_summary = None,
      cib_reviewed_domain_revision = None,
      cib_committed_at = None,
      cib_created_at = now,
      cib_revision = 1\<rparr>"

record central_import_row =
  cir_import_row_id :: uuid
  cir_import_batch_id :: uuid
  cir_source_row_number :: int
  cir_raw_values :: "(string \<times> json) list"
  cir_normalized_values :: "(string \<times> json) list"
  cir_corrected_values :: "(string \<times> json) list option"
  cir_entity_type :: import_entity_type
  cir_validation_state :: import_validation_state
  cir_match_outcome :: "identity_match_outcome option"
  cir_proposed_person_id :: "uuid option"
  cir_candidate_person_ids :: "string list"
  cir_match_confidence :: "rat option"
  cir_match_reason :: "string option"
  cir_proposed_action :: "import_proposed_action option"
  cir_conflict_state :: "string option"
  cir_resolution_action :: "reconciliation_action option"
  cir_resolved_person_id :: "uuid option"
  cir_resolved_by :: "string option"
  cir_resolved_at :: "datetime option"
  cir_committed_entity_ids :: "(string \<times> json) list"
  cir_committed_at :: "datetime option"
  cir_created_at :: datetime
  cir_revision :: int

definition default_central_import_row :: "datetime \<Rightarrow> central_import_row" where
  "default_central_import_row now =
     \<lparr>cir_import_row_id = 0,
      cir_import_batch_id = 0,
      cir_source_row_number = 0,
      cir_raw_values = [],
      cir_normalized_values = [],
      cir_corrected_values = None,
      cir_entity_type = Entity_PERSON,
      cir_validation_state = Valid_PENDING,
      cir_match_outcome = None,
      cir_proposed_person_id = None,
      cir_candidate_person_ids = [],
      cir_match_confidence = None,
      cir_match_reason = None,
      cir_proposed_action = None,
      cir_conflict_state = None,
      cir_resolution_action = None,
      cir_resolved_person_id = None,
      cir_resolved_by = None,
      cir_resolved_at = None,
      cir_committed_entity_ids = [],
      cir_committed_at = None,
      cir_created_at = now,
      cir_revision = 1\<rparr>"

record central_import_validation_issue =
  civ_import_validation_issue_id :: uuid
  civ_import_row_id :: uuid
  civ_severity :: validation_severity
  civ_code :: string
  civ_field_name :: "string option"
  civ_message :: string
  civ_details :: "(string \<times> json) list"
  civ_created_at :: datetime

definition default_central_import_validation_issue :: "datetime \<Rightarrow> central_import_validation_issue" where
  "default_central_import_validation_issue now =
     \<lparr>civ_import_validation_issue_id = 0,
      civ_import_row_id = 0,
      civ_severity = Sev_WARNING,
      civ_code = [],
      civ_field_name = None,
      civ_message = [],
      civ_details = [],
      civ_created_at = now\<rparr>"

record central_reconciliation_decision =
  crd_reconciliation_decision_id :: uuid
  crd_import_row_id :: uuid
  crd_action :: reconciliation_action
  crd_selected_person_id :: "uuid option"
  crd_corrected_values :: "(string \<times> json) list option"
  crd_decided_by :: string
  crd_decided_at :: datetime
  crd_reason :: "string option"

definition default_central_reconciliation_decision :: "datetime \<Rightarrow> central_reconciliation_decision" where
  "default_central_reconciliation_decision now =
     \<lparr>crd_reconciliation_decision_id = 0,
      crd_import_row_id = 0,
      crd_action = Recon_ACCEPT_MATCH,
      crd_selected_person_id = None,
      crd_corrected_values = None,
      crd_decided_by = [],
      crd_decided_at = now,
      crd_reason = None\<rparr>"

record central_media_object_replica =
  cmo_media_object_id :: uuid
  cmo_authoritative_site_id :: "uuid option"
  cmo_event_id :: "uuid option"
  cmo_category :: media_category
  cmo_object_key :: string
  cmo_content_hash :: "string option"
  cmo_size_bytes :: "int option"
  cmo_source_revision :: int
  cmo_created_at :: datetime
  cmo_revision :: int

definition default_central_media_object_replica :: "datetime \<Rightarrow> central_media_object_replica" where
  "default_central_media_object_replica now =
     \<lparr>cmo_media_object_id = 0,
      cmo_authoritative_site_id = None,
      cmo_event_id = None,
      cmo_category = Cat_PRESENTATION,
      cmo_object_key = [],
      cmo_content_hash = None,
      cmo_size_bytes = None,
      cmo_source_revision = 0,
      cmo_created_at = now,
      cmo_revision = 1\<rparr>"

record central_media_replication_receive_session =
  crs_replication_session_id :: uuid
  crs_origin_site_id :: uuid
  crs_event_id :: uuid
  crs_presentation_id :: uuid
  crs_presentation_version_id :: uuid
  crs_source_media_object_id :: uuid
  crs_presentation_identifier :: string
  crs_original_filename :: string
  crs_canonical_filename :: "string option"
  crs_expected_size :: int
  crs_sha256 :: string
  crs_media_type :: "string option"
  crs_partial_key :: string
  crs_storage_target_id :: "uuid option"
  crs_confirmed_offset :: int
  crs_state :: media_transfer_state
  crs_replication_state :: media_replication_state
  crs_retry_count :: int
  crs_last_progress_at :: "datetime option"
  crs_error_detail :: "string option"
  crs_finalized_media_object_id :: "uuid option"
  crs_created_at :: datetime
  crs_revision :: int

definition default_central_media_replication_receive_session :: "datetime \<Rightarrow> central_media_replication_receive_session" where
  "default_central_media_replication_receive_session now =
     \<lparr>crs_replication_session_id = 0,
      crs_origin_site_id = 0,
      crs_event_id = 0,
      crs_presentation_id = 0,
      crs_presentation_version_id = 0,
      crs_source_media_object_id = 0,
      crs_presentation_identifier = [],
      crs_original_filename = [],
      crs_canonical_filename = None,
      crs_expected_size = 0,
      crs_sha256 = [],
      crs_media_type = None,
      crs_partial_key = [],
      crs_storage_target_id = None,
      crs_confirmed_offset = 0,
      crs_state = Xfer_QUEUED,
      crs_replication_state = Repl_QUEUED,
      crs_retry_count = 0,
      crs_last_progress_at = None,
      crs_error_detail = None,
      crs_finalized_media_object_id = None,
      crs_created_at = now,
      crs_revision = 1\<rparr>"

record central_presentation_asset =
  cpa_presentation_asset_id :: uuid
  cpa_presentation_version_id :: uuid
  cpa_media_object_id :: uuid
  cpa_original_filename :: "string option"
  cpa_kind :: asset_kind
  cpa_source_asset_id :: "uuid option"
  cpa_created_at :: datetime
  cpa_revision :: int

definition default_central_presentation_asset :: "datetime \<Rightarrow> central_presentation_asset" where
  "default_central_presentation_asset now =
     \<lparr>cpa_presentation_asset_id = 0,
      cpa_presentation_version_id = 0,
      cpa_media_object_id = 0,
      cpa_original_filename = None,
      cpa_kind = Asset_ORIGINAL,
      cpa_source_asset_id = None,
      cpa_created_at = now,
      cpa_revision = 1\<rparr>"

record central_sync_event =
  cse_sync_event_id :: uuid
  cse_source_system :: source_system
  cse_owning_site_id :: "uuid option"
  cse_event_id :: "uuid option"
  cse_aggregate_type :: string
  cse_aggregate_id :: uuid
  cse_event_type :: string
  cse_idempotency_key :: string
  cse_sequence :: int
  cse_payload :: "(string \<times> json) list"
  cse_sync_state :: sync_state
  cse_attempt_count :: int
  cse_next_attempt_at :: "datetime option"
  cse_last_error :: "string option"
  cse_created_at :: datetime
  cse_revision :: int

definition default_central_sync_event :: "datetime \<Rightarrow> central_sync_event" where
  "default_central_sync_event now =
     \<lparr>cse_sync_event_id = 0,
      cse_source_system = Src_CENTRAL,
      cse_owning_site_id = None,
      cse_event_id = None,
      cse_aggregate_type = [],
      cse_aggregate_id = 0,
      cse_event_type = [],
      cse_idempotency_key = [],
      cse_sequence = 0,
      cse_payload = [],
      cse_sync_state = Sync_PENDING,
      cse_attempt_count = 0,
      cse_next_attempt_at = None,
      cse_last_error = None,
      cse_created_at = now,
      cse_revision = 1\<rparr>"

end
