(* ===== verification/Central_Lifecycle.thy ===== *)
theory Central_Lifecycle
  imports Central_Program Central_Archive_Tables
begin

text \<open>
  \<open>upm_central/lifecycle.py\<close>: the impact previews, the requests that queue a deletion, and the
  worker steps that delete an event, a person or every person. The tables a deletion reaches beyond
  \<open>central_db\<close> are the further fields of \<open>lifecycle_db\<close>. Every \<open>DELETE\<close> and \<open>UPDATE\<close> statement is a
  step of its own, in the order of the code, and its subqueries read the state it finds.
\<close>

section \<open>State\<close>

record lifecycle_db =
  lc_db :: central_db
  lc_operations :: "central_deletion_operation list"
  lc_history :: "central_retained_person_history list"
  lc_signals :: "central_person_identity_signal list"
  lc_links :: "central_person_identity_link list"
  lc_sources :: "central_import_source list"
  lc_batches :: "central_import_batch list"
  lc_rows :: "central_import_row list"
  lc_issues :: "central_import_validation_issue list"
  lc_decisions :: "central_reconciliation_decision list"
  lc_replicas :: "central_media_object_replica list"
  lc_receives :: "central_media_replication_receive_session list"
  lc_assets :: "central_presentation_asset list"
  lc_sync_events :: "central_sync_event list"

type_synonym 'a lifecycle_tx = "(lifecycle_db, 'a) tx"

definition on_central :: "'a central_tx \<Rightarrow> 'a lifecycle_tx" where
  "on_central m s = (case m (lc_db s) of (r, db') \<Rightarrow> (r, s\<lparr>lc_db := db'\<rparr>))"

definition change_central :: "(central_db \<Rightarrow> central_db) \<Rightarrow> unit lifecycle_tx" where
  "change_central f = tx_write (\<lambda>s. s\<lparr>lc_db := f (lc_db s)\<rparr>)"

definition try_central :: "(central_db \<Rightarrow> ('a \<times> central_db) outcome) \<Rightarrow> 'a lifecycle_tx" where
  "try_central f s =
     (case f (lc_db s) of Inl e \<Rightarrow> (Inl e, s) | Inr (x, db') \<Rightarrow> (Inr x, s\<lparr>lc_db := db'\<rparr>))"

definition count_of :: "('r \<Rightarrow> bool) \<Rightarrow> 'r list \<Rightarrow> json" where
  "count_of p rows = JInt (int (length (filter p rows)))"

section \<open>Previews\<close>

definition event_impact :: "uuid \<Rightarrow> lifecycle_db \<Rightarrow> payload" where
  "event_impact event_id s =
     (let db = lc_db s;
          session_ids = css_session_id ` set (filter (\<lambda>x. css_event_id x = event_id) (cd_program_sessions db));
          presentation_ids = cpr_presentation_id ` set (filter (\<lambda>x. cpr_event_id x = event_id) (cd_presentations db));
          version_ids = cpv_presentation_version_id ` set (filter (\<lambda>v. cpv_presentation_id v \<in> presentation_ids) (cd_versions db))
      in [(''sessions'', count_of (\<lambda>x. css_event_id x = event_id) (cd_program_sessions db)),
          (''presenters'', count_of (\<lambda>x. cep_event_id x = event_id) (cd_participations db)),
          (''presentations'', count_of (\<lambda>x. cpr_event_id x = event_id) (cd_presentations db)),
          (''rooms'', JInt (int (length (remdups (map css_location_name
             (filter (\<lambda>x. css_event_id x = event_id \<and> css_location_name x \<noteq> None) (cd_program_sessions db))))))),
          (''media_files'', count_of (\<lambda>a. cpa_presentation_version_id a \<in> version_ids) (lc_assets s)),
          (''site_deployments'', count_of (\<lambda>d. ced_event_id d = event_id) (cd_deployments db)),
          (''imports'', count_of (\<lambda>b. cib_event_id b = event_id) (lc_batches s)),
          (''presentation_media_imports'', count_of (\<lambda>m. cmi_event_id m = event_id) (cd_media_imports db)),
          (''media_replication_sessions'', count_of (\<lambda>r. crs_event_id r = event_id) (lc_receives s)),
          (''outbox_events_retained'', count_of (\<lambda>e. o_event_id e = Some event_id) (q_outbox (cd_queue db))),
          (''sync_events_retained'', count_of (\<lambda>e. cse_event_id e = Some event_id) (lc_sync_events s)),
          (''audit_records_retained'', count_of (\<lambda>a. car_event_id a = Some event_id) (cd_audit db)),
          (''session_participations'', count_of (\<lambda>l. csp_session_id l \<in> session_ids) (cd_session_participants db))])"

text \<open>The counts for a set of people; the two previews differ in the set only.\<close>

definition people_impact :: "(uuid \<Rightarrow> bool) \<Rightarrow> lifecycle_db \<Rightarrow> payload" where
  "people_impact p s =
     (let db = lc_db s;
          participation_ids = cep_event_participation_id ` set (filter (\<lambda>x. p (cep_person_id x)) (cd_participations db))
      in [(''event_participations'', count_of (\<lambda>x. p (cep_person_id x)) (cd_participations db)),
          (''session_participations'',
             count_of (\<lambda>l. csp_event_participation_id l \<in> participation_ids) (cd_session_participants db)),
          (''presentation_relationships'',
             count_of (\<lambda>l. cpp_event_participation_id l \<in> participation_ids) (cd_presentation_presenters db)),
          (''retained_history'', count_of (\<lambda>h. p (crh_person_id h)) (lc_history s)),
          (''identity_signals'', count_of (\<lambda>x. p (cis_person_id x)) (lc_signals s)),
          (''identity_links'', count_of (\<lambda>x. p (cil_person_id x) \<or> p (cil_linked_person_id x)) (lc_links s)),
          (''media_files'', JInt 0)])"

definition person_deletion_impact :: "uuid \<Rightarrow> lifecycle_db \<Rightarrow> payload" where
  "person_deletion_impact person_id = people_impact (\<lambda>i. i = person_id)"

definition active_people :: "central_db \<Rightarrow> central_person list" where
  "active_people db = filter (\<lambda>p. cpe_deleted_at p = None) (cd_people db)"

definition bulk_people_impact :: "lifecycle_db \<Rightarrow> payload" where
  "bulk_people_impact s =
     (''people'', count_of (\<lambda>p. cpe_deleted_at p = None) (cd_people (lc_db s)))
       # people_impact (\<lambda>i. i \<in> cpe_person_id ` set (active_people (lc_db s))) s"

section \<open>Requests\<close>

text \<open>\<open>session.add(operation); session.flush()\<close> under \<open>UniqueConstraint("target_type", "target_id")\<close>\<close>

definition add_operation :: "central_deletion_operation \<Rightarrow> unit lifecycle_tx" where
  "add_operation op =
     tx_bind (tx_read (\<lambda>s. keyed (\<lambda>o'. (cop_target_type o', cop_target_id o')) (lc_operations s @ [op])
         \<and> keyed cop_deletion_operation_id (lc_operations s @ [op]))) (\<lambda>free.
     if free then tx_write (\<lambda>s. s\<lparr>lc_operations := lc_operations s @ [op]\<rparr>)
     else tx_raise (IntegrityError ''deletion_operations''))"

definition enqueue_deletion :: "codec \<Rightarrow> datetime \<Rightarrow> string \<Rightarrow> uuid \<Rightarrow> json \<Rightarrow> unit lifecycle_tx" where
  "enqueue_deletion cx now job_type operation_id payload =
     tx_then (try_central (\<lambda>db.
       outcome_bind (central_enqueue_processing (validate_job cx) (central_fresh cx db) now
           \<lparr>jv_id = None, jv_site_id = None, jv_media_object_id = None, jv_type = job_type, jv_payload = Some payload,
            jv_priority = Some (priority_value Prio_HIGH), jv_required_capabilities = Some [],
            jv_idempotency_key = Some (uuid_str operation_id), jv_max_attempts = Some 10, jv_next_attempt_at = None\<rparr>
           (cd_queue db))
         (\<lambda>(job, queue). Inr (job, (central_minted db)\<lparr>cd_queue := queue\<rparr>))))
       (tx_return ())"

definition lifecycle_audit :: "codec \<Rightarrow> datetime \<Rightarrow> audit_values \<Rightarrow> payload \<Rightarrow> payload \<Rightarrow> unit lifecycle_tx" where
  "lifecycle_audit cx now v before_context after_context =
     change_central (central_audit cx now (\<lambda>r. r\<lparr>car_actor_id := Some (av_actor v), car_action := av_action v,
       car_target_type := av_target_type v, car_target_id := av_target_id v, car_event_id := av_event_id v,
       car_before_context := Some before_context, car_after_context := Some after_context\<rparr>))"

text \<open>\<open>order_by(created_at.desc()).limit(1)\<close>\<close>

definition current_bulk_deletion :: "lifecycle_db \<Rightarrow> central_deletion_operation option" where
  "current_bulk_deletion s =
     (case rev (sort_key cop_created_at (filter (\<lambda>o'. cop_target_type o' = ''people_bulk''
        \<and> cop_status o' \<in> {''pending'', ''running'', ''retry_wait''}) (lc_operations s))) of
        [] \<Rightarrow> None | o' # _ \<Rightarrow> Some o')"

definition request_bulk_people_deletion ::
  "codec \<Rightarrow> datetime \<Rightarrow> string \<Rightarrow> string \<Rightarrow> central_deletion_operation lifecycle_tx" where
  "request_bulk_people_deletion cx now confirmation actor =
     tx_then (on_central (insist (confirmation = ''delete all'') 422 ''type delete all exactly to confirm''))
       (tx_bind (tx_read current_bulk_deletion) (\<lambda>existing.
        case existing of
          Some o' \<Rightarrow> tx_return o'
        | None \<Rightarrow>
            tx_bind (tx_read (\<lambda>s. sort (map cpe_person_id (active_people (lc_db s))))) (\<lambda>person_ids.
            tx_then (on_central (insist (person_ids \<noteq> []) 409 ''there are no people to delete''))
              (tx_bind (on_central (central_new_id cx)) (\<lambda>operation_id.
               tx_bind (on_central (central_new_id cx)) (\<lambda>target_id.
               tx_bind (tx_read bulk_people_impact) (\<lambda>impact.
               let operation = (default_central_deletion_operation now)\<lparr>cop_deletion_operation_id := operation_id,
                     cop_target_type := ''people_bulk'', cop_target_id := target_id,
                     cop_target_display_name := ''All Permanent People'', cop_initiated_by := actor,
                     cop_dependency_counts := impact\<rparr> in
               tx_then (add_operation operation)
                 (tx_then (enqueue_deletion cx now ''lifecycle.delete_people_bulk'' operation_id
                      (JObj [(''schema_version'', JInt 1), (''data'', JObj [(''deletion_operation_id'', JStr (uuid_str operation_id)),
                         (''person_ids'', JList (map (\<lambda>i. JStr (uuid_str i)) person_ids))])]))
                   (tx_then (lifecycle_audit cx now ((audit_entry ''central.people_bulk.deletion_requested'' ''people_bulk''
                          target_id None)\<lparr>av_actor := actor\<rparr>)
                        [(''person_count'', JInt (int (length person_ids)))]
                        [(''operation_id'', JStr (uuid_str operation_id)), (''counts'', JObj impact)])
                     (tx_return operation))))))))))"

text \<open>The name of the target, or that there is none.\<close>

definition target_name :: "string \<Rightarrow> uuid \<Rightarrow> central_db \<Rightarrow> string option" where
  "target_name target_type target_id db =
     (if target_type = ''event'' then map_option cev_name (row_get cev_event_id (cd_events db) target_id)
      else map_option cpe_display_name (row_get cpe_person_id (cd_people db) target_id))"

text \<open>
  \<open>EventDeployment\<close> has no \<open>site\<close> relationship, so \<open>getattr(d, "site", None)\<close> is \<open>None\<close> and the
  display name is the Site's UUID.
\<close>

definition pending_site :: "central_event_deployment \<Rightarrow> json" where
  "pending_site d =
     JObj [(''site_id'', JStr (uuid_str (ced_site_id d))), (''display_name'', JStr (uuid_str (ced_site_id d))),
           (''status'', JStr ''pending'')]"

definition existing_deletion :: "string \<Rightarrow> uuid \<Rightarrow> lifecycle_db \<Rightarrow> central_deletion_operation option" where
  "existing_deletion target_type target_id s =
     find (\<lambda>o'. cop_target_type o' = target_type \<and> cop_target_id o' = target_id) (lc_operations s)"

definition deletion_impact :: "string \<Rightarrow> uuid \<Rightarrow> lifecycle_db \<Rightarrow> payload" where
  "deletion_impact target_type target_id s =
     (if target_type = ''event'' then event_impact target_id s else person_deletion_impact target_id s)"

definition deletion_sites :: "string \<Rightarrow> uuid \<Rightarrow> lifecycle_db \<Rightarrow> json list" where
  "deletion_sites target_type target_id s =
     (if target_type = ''event''
      then map pending_site (filter (\<lambda>d. ced_event_id d = target_id) (cd_deployments (lc_db s))) else [])"

definition request_deletion ::
  "codec \<Rightarrow> datetime \<Rightarrow> string \<Rightarrow> uuid \<Rightarrow> string \<Rightarrow> string \<Rightarrow> central_deletion_operation lifecycle_tx" where
  "request_deletion cx now target_type target_id confirmation actor =
     tx_bind (tx_read (\<lambda>s. target_name target_type target_id (lc_db s))) (\<lambda>target.
     case target of
       None \<Rightarrow> tx_raise (HTTPException 404 (target_type @ '' not found''))
     | Some name \<Rightarrow>
         tx_then (on_central (insist (confirmation = name) 422 (''type the exact '' @ target_type @ '' name to confirm'')))
           (tx_bind (tx_read (existing_deletion target_type target_id)) (\<lambda>existing.
            case existing of
              Some o' \<Rightarrow> tx_return o'
            | None \<Rightarrow>
                tx_bind (tx_read (deletion_impact target_type target_id)) (\<lambda>impact.
                tx_bind (tx_read (deletion_sites target_type target_id)) (\<lambda>sites.
                tx_bind (on_central (central_new_id cx)) (\<lambda>operation_id.
                let operation = (default_central_deletion_operation now)\<lparr>cop_deletion_operation_id := operation_id,
                      cop_target_type := target_type, cop_target_id := target_id, cop_target_display_name := name,
                      cop_initiated_by := actor, cop_dependency_counts := impact, cop_site_statuses := sites\<rparr> in
                tx_then (add_operation operation)
                  (tx_then (enqueue_deletion cx now (''lifecycle.delete_'' @ target_type) operation_id
                       (JObj [(''schema_version'', JInt 1),
                              (''data'', JObj [(''deletion_operation_id'', JStr (uuid_str operation_id))])]))
                    (tx_then (lifecycle_audit cx now ((audit_entry (''central.'' @ target_type @ ''.deletion_requested'')
                           target_type target_id (if target_type = ''event'' then Some target_id else None))\<lparr>av_actor := actor\<rparr>)
                         [(''display_name'', JStr name)]
                         [(''operation_id'', JStr (uuid_str operation_id)), (''counts'', JObj impact)])
                      (tx_return operation)))))))))"

definition save_operation :: "central_deletion_operation \<Rightarrow> unit lifecycle_tx" where
  "save_operation op =
     tx_write (\<lambda>s. s\<lparr>lc_operations := row_put cop_deletion_operation_id (cop_deletion_operation_id op) (\<lambda>_. op)
       (lc_operations s)\<rparr>)"

definition requeued_job :: "datetime \<Rightarrow> job \<Rightarrow> job" where
  "requeued_job now j =
     j\<lparr>j_status := Job_PENDING, j_attempt_count := 0, j_next_attempt_at := now, j_completed_at := None,
       j_error_code := None, j_last_error := None, j_error_metadata := None\<rparr>"

definition deletion_job :: "uuid \<Rightarrow> central_db \<Rightarrow> job option" where
  "deletion_job operation_id db =
     find (\<lambda>j. j_idempotency_key j = Some (uuid_str operation_id) \<and> take 16 (j_type j) = ''lifecycle.delete'')
       (q_processing (cd_queue db))"

definition retry_deletion :: "datetime \<Rightarrow> central_deletion_operation \<Rightarrow> central_deletion_operation lifecycle_tx" where
  "retry_deletion now op =
     tx_then (on_central (insist (cop_status op = ''failed'') 409 ''only failed deletions can be retried''))
       (tx_bind (tx_read (\<lambda>s. deletion_job (cop_deletion_operation_id op) (lc_db s))) (\<lambda>job.
        case job of
          None \<Rightarrow> tx_raise (HTTPException 409 ''deletion job is unavailable'')
        | Some j \<Rightarrow>
            tx_then (change_central (\<lambda>db. db\<lparr>cd_queue := (cd_queue db)\<lparr>q_processing :=
                row_put j_id (j_id j) (requeued_job now) (q_processing (cd_queue db))\<rparr>\<rparr>))
              (let op' = op\<lparr>cop_status := ''pending'', cop_stage := ''queued'', cop_last_error := None\<rparr> in
               tx_then (save_operation op') (tx_return op'))))"

section \<open>Deleting an event\<close>

text \<open>The subqueries.\<close>

definition event_presentation_ids :: "uuid \<Rightarrow> central_db \<Rightarrow> uuid set" where
  "event_presentation_ids e db = cpr_presentation_id ` set (filter (\<lambda>p. cpr_event_id p = e) (cd_presentations db))"

definition event_version_ids :: "uuid \<Rightarrow> central_db \<Rightarrow> uuid set" where
  "event_version_ids e db =
     cpv_presentation_version_id ` set (filter (\<lambda>v. cpv_presentation_id v \<in> event_presentation_ids e db) (cd_versions db))"

definition event_session_ids :: "uuid \<Rightarrow> central_db \<Rightarrow> uuid set" where
  "event_session_ids e db = css_session_id ` set (filter (\<lambda>x. css_event_id x = e) (cd_program_sessions db))"

definition event_participation_ids :: "uuid \<Rightarrow> central_db \<Rightarrow> uuid set" where
  "event_participation_ids e db =
     cep_event_participation_id ` set (filter (\<lambda>x. cep_event_id x = e) (cd_participations db))"

definition event_deployment_ids :: "uuid \<Rightarrow> central_db \<Rightarrow> uuid set" where
  "event_deployment_ids e db = ced_deployment_id ` set (filter (\<lambda>d. ced_event_id d = e) (cd_deployments db))"

text \<open>The sets of UUIDs the code collects before it deletes, as lists without repetitions.\<close>

definition event_media_ids :: "uuid \<Rightarrow> lifecycle_db \<Rightarrow> uuid list" where
  "event_media_ids e s =
     remdups (map cpa_media_object_id
         (filter (\<lambda>a. cpa_presentation_version_id a \<in> event_version_ids e (lc_db s)) (lc_assets s))
       @ map cmo_media_object_id (filter (\<lambda>r. cmo_event_id r = Some e) (lc_replicas s)))"

definition import_transfer_ids :: "uuid \<Rightarrow> central_db \<Rightarrow> uuid list" where
  "import_transfer_ids e db =
     remdups (List.map_filter cmi_transfer_job_id (filter (\<lambda>m. cmi_event_id m = e) (cd_media_imports db)))"

text \<open>The first loop: what the participants keep of the event.\<close>

definition retain_participation ::
  "codec \<Rightarrow> datetime \<Rightarrow> central_event \<Rightarrow> central_event_participation \<Rightarrow> unit lifecycle_tx" where
  "retain_participation cx now event p =
     tx_bind (tx_read (\<lambda>s. find (\<lambda>h. crh_person_id h = cep_person_id p \<and> crh_source_event_id h = cev_event_id event)
         (lc_history s))) (\<lambda>existing.
     case existing of
       Some h \<Rightarrow> tx_return ()
     | None \<Rightarrow>
         tx_bind (on_central (central_new_id cx)) (\<lambda>i.
         tx_write (\<lambda>s. s\<lparr>lc_history := lc_history s @
           [\<lparr>crh_retained_history_id = i, crh_person_id = cep_person_id p, crh_source_event_id = cev_event_id event,
             crh_event_name = cev_name event,
             crh_participation_summary =
               [(''role'', optional_json (cep_role p)), (''display_name'', optional_json (cep_display_name p)),
                (''is_presenter'', JBool (cep_is_presenter p)), (''source'', optional_json (cep_source p))],
             crh_retained_at = now\<rparr>]\<rparr>)))"

definition event_tombstone :: "uuid \<Rightarrow> uuid \<Rightarrow> uuid \<Rightarrow> int \<Rightarrow> outbox_values" where
  "event_tombstone operation_id event_id site_id sequence =
     \<lparr>ov_event_type = ''central.event.deleted'', ov_aggregate_type = ''event'', ov_aggregate_id = event_id,
      ov_site_id = Some site_id, ov_event_id = None, ov_source_sequence = Some sequence, ov_correlation_id = None,
      ov_causation_id = None, ov_protocol_version = None,
      ov_idempotency_key = ''event-delete:'' @ uuid_str event_id @ '':'' @ uuid_str site_id,
      ov_payload = \<lparr>op_schema_version = 1, op_source_system = Src_CENTRAL,
        op_data = [(''event_id'', JStr (uuid_str event_id)),
                   (''deletion_operation_id'', JStr (uuid_str operation_id))]\<rparr>\<rparr>"

definition send_tombstone :: "codec \<Rightarrow> datetime \<Rightarrow> (int \<Rightarrow> outbox_values) \<Rightarrow> uuid \<Rightarrow> central_db \<Rightarrow> (outbox_event \<times> central_db) outcome" where
  "send_tombstone cx now values_of site_id db =
     (case central_next_sequence site_id db of (sequence, db1) \<Rightarrow> central_publish cx now (values_of sequence) db1)"

text \<open>The statements on the program's tables.\<close>

definition drop_media_imports :: "uuid \<Rightarrow> central_db \<Rightarrow> central_db" where
  "drop_media_imports e db = db\<lparr>cd_media_imports := filter (\<lambda>m. cmi_event_id m \<noteq> e) (cd_media_imports db)\<rparr>"

definition drop_transfers :: "uuid list \<Rightarrow> central_db \<Rightarrow> central_db" where
  "drop_transfers ids db =
     db\<lparr>cd_queue := (cd_queue db)\<lparr>q_transfer := filter (\<lambda>j. j_id j \<notin> set ids) (q_transfer (cd_queue db))\<rparr>\<rparr>"

definition drop_versions :: "uuid \<Rightarrow> central_db \<Rightarrow> central_db" where
  "drop_versions e db =
     db\<lparr>cd_versions := filter (\<lambda>v. cpv_presentation_id v \<notin> event_presentation_ids e db) (cd_versions db)\<rparr>"

definition drop_presenters :: "uuid \<Rightarrow> central_db \<Rightarrow> central_db" where
  "drop_presenters e db =
     db\<lparr>cd_presentation_presenters :=
          filter (\<lambda>l. cpp_presentation_id l \<notin> event_presentation_ids e db) (cd_presentation_presenters db)\<rparr>"

definition drop_presentation_sessions :: "uuid \<Rightarrow> central_db \<Rightarrow> central_db" where
  "drop_presentation_sessions e db =
     db\<lparr>cd_presentation_sessions :=
          filter (\<lambda>l. cps_presentation_id l \<notin> event_presentation_ids e db) (cd_presentation_sessions db)\<rparr>"

definition drop_presentations :: "uuid \<Rightarrow> central_db \<Rightarrow> central_db" where
  "drop_presentations e db = db\<lparr>cd_presentations := filter (\<lambda>p. cpr_event_id p \<noteq> e) (cd_presentations db)\<rparr>"

definition drop_session_participants :: "uuid \<Rightarrow> central_db \<Rightarrow> central_db" where
  "drop_session_participants e db =
     db\<lparr>cd_session_participants := filter (\<lambda>l. \<not> (csp_session_id l \<in> event_session_ids e db
          \<or> csp_event_participation_id l \<in> event_participation_ids e db)) (cd_session_participants db)\<rparr>"

definition drop_sessions :: "uuid \<Rightarrow> central_db \<Rightarrow> central_db" where
  "drop_sessions e db = db\<lparr>cd_program_sessions := filter (\<lambda>x. css_event_id x \<noteq> e) (cd_program_sessions db)\<rparr>"

definition drop_participations :: "uuid \<Rightarrow> central_db \<Rightarrow> central_db" where
  "drop_participations e db = db\<lparr>cd_participations := filter (\<lambda>x. cep_event_id x \<noteq> e) (cd_participations db)\<rparr>"

definition drop_revisions :: "uuid \<Rightarrow> central_db \<Rightarrow> central_db" where
  "drop_revisions e db =
     db\<lparr>cd_deployment_revisions :=
          filter (\<lambda>r. cdr_deployment_id r \<notin> event_deployment_ids e db) (cd_deployment_revisions db)\<rparr>"

definition drop_deployments :: "uuid \<Rightarrow> central_db \<Rightarrow> central_db" where
  "drop_deployments e db = db\<lparr>cd_deployments := filter (\<lambda>d. ced_event_id d \<noteq> e) (cd_deployments db)\<rparr>"

definition drop_identifiers :: "uuid \<Rightarrow> central_db \<Rightarrow> central_db" where
  "drop_identifiers e db =
     db\<lparr>cd_external_identifiers := filter (\<lambda>x. cxi_event_id x \<noteq> Some e) (cd_external_identifiers db)\<rparr>"

definition release_outbox :: "uuid \<Rightarrow> central_db \<Rightarrow> central_db" where
  "release_outbox e db =
     db\<lparr>cd_queue := (cd_queue db)\<lparr>q_outbox :=
          map (\<lambda>x. if o_event_id x = Some e then x\<lparr>o_event_id := None\<rparr> else x) (q_outbox (cd_queue db))\<rparr>\<rparr>"

definition drop_event :: "uuid \<Rightarrow> central_db \<Rightarrow> central_db" where
  "drop_event e db = db\<lparr>cd_events := filter (\<lambda>x. cev_event_id x \<noteq> e) (cd_events db)\<rparr>"

text \<open>The statements on the tables of \<open>lifecycle_db\<close>.\<close>

definition drop_receives :: "uuid \<Rightarrow> lifecycle_db \<Rightarrow> lifecycle_db" where
  "drop_receives e s = s\<lparr>lc_receives := filter (\<lambda>r. crs_event_id r \<noteq> e) (lc_receives s)\<rparr>"

definition drop_assets :: "uuid \<Rightarrow> lifecycle_db \<Rightarrow> lifecycle_db" where
  "drop_assets e s =
     s\<lparr>lc_assets := filter (\<lambda>a. cpa_presentation_version_id a \<notin> event_version_ids e (lc_db s)) (lc_assets s)\<rparr>"

definition drop_batch :: "central_import_batch \<Rightarrow> lifecycle_db \<Rightarrow> lifecycle_db" where
  "drop_batch b s =
     (let rows = cir_import_row_id ` set (filter (\<lambda>r. cir_import_batch_id r = cib_import_batch_id b) (lc_rows s));
          batches = filter (\<lambda>x. cib_import_batch_id x \<noteq> cib_import_batch_id b) (lc_batches s)
      in s\<lparr>lc_sources := (if list_ex (\<lambda>x. cib_import_source_id x = cib_import_source_id b) batches then lc_sources s
             else filter (\<lambda>x. cim_import_source_id x \<noteq> cib_import_source_id b) (lc_sources s)),
           lc_batches := batches,
           lc_rows := filter (\<lambda>r. cir_import_batch_id r \<noteq> cib_import_batch_id b) (lc_rows s),
           lc_issues := filter (\<lambda>i. civ_import_row_id i \<notin> rows) (lc_issues s),
           lc_decisions := filter (\<lambda>d. crd_import_row_id d \<notin> rows) (lc_decisions s)\<rparr>)"

definition drop_batches :: "uuid \<Rightarrow> lifecycle_db \<Rightarrow> lifecycle_db" where
  "drop_batches e s = fold drop_batch (filter (\<lambda>b. cib_event_id b = e) (lc_batches s)) s"

definition release_sync_events :: "uuid \<Rightarrow> lifecycle_db \<Rightarrow> lifecycle_db" where
  "release_sync_events e s =
     s\<lparr>lc_sync_events := map (\<lambda>x. if cse_event_id x = Some e then x\<lparr>cse_event_id := None\<rparr> else x) (lc_sync_events s)\<rparr>"

definition on_db :: "(central_db \<Rightarrow> central_db) \<Rightarrow> lifecycle_db \<Rightarrow> lifecycle_db" where
  "on_db f s = s\<lparr>lc_db := f (lc_db s)\<rparr>"

text \<open>An object no asset uses any more goes, with its jobs; the flag says whether it went.\<close>

definition media_shared :: "uuid \<Rightarrow> lifecycle_db \<Rightarrow> bool" where
  "media_shared m s \<longleftrightarrow> list_ex (\<lambda>a. cpa_media_object_id a = m) (lc_assets s)"

definition drop_media :: "uuid \<Rightarrow> lifecycle_db \<Rightarrow> lifecycle_db" where
  "drop_media m s =
     (let queue = cd_queue (lc_db s) in
      s\<lparr>lc_db := (lc_db s)\<lparr>cd_queue := queue\<lparr>
           q_processing := filter (\<lambda>j. j_media_object_id j \<noteq> Some m) (q_processing queue),
           q_transfer := filter (\<lambda>j. j_media_object_id j \<noteq> Some m) (q_transfer queue)\<rparr>\<rparr>,
        lc_replicas := filter (\<lambda>r. cmo_media_object_id r \<noteq> m) (lc_replicas s)\<rparr>)"

fun drop_unshared :: "uuid list \<Rightarrow> lifecycle_db \<Rightarrow> nat \<times> lifecycle_db" where
  "drop_unshared [] s = (0, s)"
| "drop_unshared (m # ms) s =
     (if media_shared m s then drop_unshared ms s
      else case drop_unshared ms (drop_media m s) of (n, s') \<Rightarrow> (Suc n, s'))"

definition release_replicas :: "uuid \<Rightarrow> lifecycle_db \<Rightarrow> lifecycle_db" where
  "release_replicas e s =
     s\<lparr>lc_replicas := map (\<lambda>r. if cmo_event_id r = Some e then r\<lparr>cmo_event_id := None\<rparr> else r) (lc_replicas s)\<rparr>"

text \<open>The deletes up to the media objects, in the order of the code.\<close>

definition purge_central_program :: "uuid \<Rightarrow> central_db \<Rightarrow> central_db" where
  "purge_central_program e db =
     drop_participations e (drop_sessions e (drop_session_participants e (drop_presentations e
       (drop_presentation_sessions e (drop_presenters e (drop_versions e db))))))"

definition purge_central_event :: "uuid \<Rightarrow> uuid list \<Rightarrow> lifecycle_db \<Rightarrow> lifecycle_db" where
  "purge_central_event e transfers s =
     on_db (release_outbox e) (release_sync_events e (on_db (drop_identifiers e) (on_db (drop_deployments e)
       (on_db (drop_revisions e) (drop_batches e (on_db (purge_central_program e) (drop_assets e
         (on_db (drop_transfers transfers) (drop_receives e (on_db (drop_media_imports e) s))))))))))"

definition delete_event :: "codec \<Rightarrow> datetime \<Rightarrow> central_deletion_operation \<Rightarrow> central_deletion_operation lifecycle_tx" where
  "delete_event cx now op =
     tx_bind (tx_read (\<lambda>s. row_get cev_event_id (cd_events (lc_db s)) (cop_target_id op))) (\<lambda>loaded.
     case loaded of
       None \<Rightarrow> tx_return op
     | Some event \<Rightarrow>
         let e = cev_event_id event in
         tx_bind (tx_read (\<lambda>s. filter (\<lambda>p. cep_event_id p = e) (cd_participations (lc_db s)))) (\<lambda>participations.
         tx_then (tx_for (retain_participation cx now event) participations)
           (tx_bind (tx_read (\<lambda>s. filter (\<lambda>d. ced_event_id d = e) (cd_deployments (lc_db s)))) (\<lambda>deployment_rows.
            tx_then (tx_for (\<lambda>d. try_central (send_tombstone cx now
                (event_tombstone (cop_deletion_operation_id op) e (ced_site_id d)) (ced_site_id d))) deployment_rows)
              (tx_bind (tx_read (event_media_ids e)) (\<lambda>media_ids.
               tx_bind (tx_read (\<lambda>s. import_transfer_ids e (lc_db s))) (\<lambda>transfers.
               tx_then (tx_write (purge_central_event e transfers))
                 (tx_bind (tx_read (\<lambda>s. fst (drop_unshared media_ids s))) (\<lambda>deleted_media.
                  tx_then (tx_write (\<lambda>s. snd (drop_unshared media_ids s)))
                    (tx_then (tx_write (release_replicas e))
                      (tx_then (change_central (drop_event e))
                        (tx_return (op\<lparr>cop_media_results :=
                           [(''eligible_removed'', JInt (int deleted_media)),
                            (''shared_preserved'', JInt (int (length media_ids) - int deleted_media))]\<rparr>)))))))))))))"

section \<open>Deleting people\<close>

definition person_participation_ids :: "uuid \<Rightarrow> central_db \<Rightarrow> uuid set" where
  "person_participation_ids i db =
     cep_event_participation_id ` set (filter (\<lambda>p. cep_person_id p = i) (cd_participations db))"

definition drop_person_links :: "uuid \<Rightarrow> central_db \<Rightarrow> central_db" where
  "drop_person_links i db =
     db\<lparr>cd_session_participants :=
          filter (\<lambda>l. csp_event_participation_id l \<notin> person_participation_ids i db) (cd_session_participants db),
        cd_presentation_presenters :=
          filter (\<lambda>l. cpp_event_participation_id l \<notin> person_participation_ids i db) (cd_presentation_presenters db)\<rparr>"

definition drop_person_rows :: "uuid \<Rightarrow> central_db \<Rightarrow> central_db" where
  "drop_person_rows i db =
     db\<lparr>cd_people := filter (\<lambda>p. cpe_person_id p \<noteq> i) (cd_people db),
        cd_participations := filter (\<lambda>p. cep_person_id p \<noteq> i) (cd_participations db),
        cd_external_identifiers := filter (\<lambda>x. cxi_entity_id x \<noteq> i) (cd_external_identifiers db)\<rparr>"

definition forget_person :: "uuid \<Rightarrow> central_import_row \<Rightarrow> central_import_row" where
  "forget_person i r =
     (if cir_proposed_person_id r = Some i \<or> cir_resolved_person_id r = Some i
      then r\<lparr>cir_proposed_person_id := None, cir_resolved_person_id := None\<rparr> else r)"

definition erase_person :: "uuid \<Rightarrow> lifecycle_db \<Rightarrow> lifecycle_db" where
  "erase_person i s =
     s\<lparr>lc_db := drop_person_rows i (drop_person_links i (lc_db s)),
       lc_history := filter (\<lambda>h. crh_person_id h \<noteq> i) (lc_history s),
       lc_signals := filter (\<lambda>x. cis_person_id x \<noteq> i) (lc_signals s),
       lc_links := filter (\<lambda>x. \<not> (cil_person_id x = i \<or> cil_linked_person_id x = i)) (lc_links s),
       lc_rows := map (forget_person i) (lc_rows s),
       lc_decisions := map (\<lambda>d. if crd_selected_person_id d = Some i then d\<lparr>crd_selected_person_id := None\<rparr> else d)
         (lc_decisions s)\<rparr>"

definition no_media :: payload where
  "no_media = [(''eligible_removed'', JInt 0), (''shared_preserved'', JInt 0)]"

text \<open>\<open>_delete_person(session, op, person=person)\<close>, \<open>person\<close> given by its key.\<close>

definition delete_permanent_person ::
  "central_deletion_operation \<Rightarrow> uuid \<Rightarrow> central_deletion_operation lifecycle_tx" where
  "delete_permanent_person op person_id =
     tx_bind (tx_read (\<lambda>s. row_get cpe_person_id (cd_people (lc_db s)) person_id)) (\<lambda>person.
     if person = None then tx_return op
     else tx_then (tx_write (erase_person person_id))
       (tx_return (if cop_target_type op = ''person'' then op\<lparr>cop_media_results := no_media\<rparr> else op)))"

definition affected_event_ids :: "uuid list \<Rightarrow> central_db \<Rightarrow> uuid list" where
  "affected_event_ids person_ids db =
     remdups (map cep_event_id (filter (\<lambda>p. cep_person_id p \<in> set person_ids) (cd_participations db)))"

definition people_tombstone :: "uuid \<Rightarrow> uuid \<Rightarrow> uuid list \<Rightarrow> uuid \<Rightarrow> int \<Rightarrow> outbox_values" where
  "people_tombstone operation_id target_id person_ids site_id sequence =
     \<lparr>ov_event_type = ''central.people.deleted'', ov_aggregate_type = ''people_bulk'', ov_aggregate_id = target_id,
      ov_site_id = Some site_id, ov_event_id = None, ov_source_sequence = Some sequence, ov_correlation_id = None,
      ov_causation_id = None, ov_protocol_version = None,
      ov_idempotency_key = ''people-delete:'' @ uuid_str operation_id @ '':'' @ uuid_str site_id,
      ov_payload = \<lparr>op_schema_version = 1, op_source_system = Src_CENTRAL,
        op_data = [(''deletion_operation_id'', JStr (uuid_str operation_id)),
                   (''person_ids'', JList (map (\<lambda>i. JStr (uuid_str i)) person_ids))]\<rparr>\<rparr>"

definition publish_people_deletion ::
  "codec \<Rightarrow> datetime \<Rightarrow> central_deletion_operation \<Rightarrow> uuid list \<Rightarrow> uuid list \<Rightarrow> json list lifecycle_tx" where
  "publish_people_deletion cx now op person_ids events =
     (if events = [] then tx_return []
      else tx_bind (tx_read (\<lambda>s. sort_key uuid_str (remdups (map ced_site_id
             (filter (\<lambda>d. ced_event_id d \<in> set events) (cd_deployments (lc_db s))))))) (\<lambda>site_ids.
        tx_map (\<lambda>site_id.
          tx_then (try_central (send_tombstone cx now
              (people_tombstone (cop_deletion_operation_id op) (cop_target_id op) person_ids site_id) site_id))
            (tx_return (JObj [(''site_id'', JStr (uuid_str site_id)), (''status'', JStr ''pending'')]))) site_ids))"

section \<open>The worker's steps\<close>

definition started :: "central_deletion_operation \<Rightarrow> central_deletion_operation" where
  "started op =
     op\<lparr>cop_status := ''running'', cop_stage := ''central_cleanup'', cop_attempt_count := cop_attempt_count op + 1\<rparr>"

definition finished :: "datetime \<Rightarrow> central_deletion_operation \<Rightarrow> central_deletion_operation" where
  "finished now op = op\<lparr>cop_status := ''completed'', cop_stage := ''completed'', cop_completed_at := Some now\<rparr>"

definition run_deletion :: "codec \<Rightarrow> datetime \<Rightarrow> central_deletion_operation \<Rightarrow> central_deletion_operation lifecycle_tx" where
  "run_deletion cx now op =
     (if cop_status op = ''completed'' then tx_return op
      else tx_bind
        (if cop_target_type op = ''event'' then delete_event cx now (started op)
         else tx_bind (tx_read (\<lambda>s. affected_event_ids [cop_target_id op] (lc_db s))) (\<lambda>events.
              tx_bind (delete_permanent_person (started op) (cop_target_id op)) (\<lambda>op1.
              tx_bind (publish_people_deletion cx now op1 [cop_target_id op] events) (\<lambda>statuses.
              tx_return (op1\<lparr>cop_site_statuses := statuses\<rparr>)))))
        (\<lambda>op2.
         let op3 = finished now op2 in
         tx_then (save_operation op3)
           (tx_then (lifecycle_audit cx now ((audit_entry (''central.'' @ cop_target_type op @ ''.deleted'') (cop_target_type op)
                (cop_target_id op) (if cop_target_type op = ''event'' then Some (cop_target_id op) else None))\<lparr>
                  av_actor := cop_initiated_by op\<rparr>)
                [(''display_name'', JStr (cop_target_display_name op))]
                [(''operation_id'', JStr (uuid_str (cop_deletion_operation_id op))),
                 (''counts'', JObj (cop_dependency_counts op3)), (''sites'', JList (cop_site_statuses op3)),
                 (''media'', JObj (cop_media_results op3)), (''state'', JStr ''completed'')])
             (tx_return op3))))"

text \<open>\<open>push_deployment(session, deployment)\<close> for each active deployment of a touched event\<close>

definition republish :: "codec \<Rightarrow> datetime \<Rightarrow> uuid \<Rightarrow> string list lifecycle_tx" where
  "republish cx now deployment_id =
     tx_bind (tx_read (\<lambda>s. row_get ced_deployment_id (cd_deployments (lc_db s)) deployment_id)) (\<lambda>deployment.
     case deployment of
       None \<Rightarrow> tx_return []
     | Some d \<Rightarrow> tx_then (try_central (push_deployment cx now False d)) (tx_return [uuid_str deployment_id]))"

definition republish_event :: "codec \<Rightarrow> datetime \<Rightarrow> uuid \<Rightarrow> string list lifecycle_tx" where
  "republish_event cx now event_id =
     tx_bind (on_central (event_of event_id)) (\<lambda>event.
     if event = None then tx_return []
     else tx_bind (on_central (touch_event_program event_id)) (\<lambda>deployments.
          tx_bind (tx_map (republish cx now) deployments) (\<lambda>ids. tx_return (concat ids))))"

definition run_bulk_people_deletion ::
  "codec \<Rightarrow> datetime \<Rightarrow> central_deletion_operation \<Rightarrow> uuid list \<Rightarrow> central_deletion_operation lifecycle_tx" where
  "run_bulk_people_deletion cx now op person_ids =
     (if cop_status op = ''completed'' then tx_return op
      else
        tx_bind (tx_read (\<lambda>s. affected_event_ids person_ids (lc_db s))) (\<lambda>events.
        tx_bind (tx_fold (\<lambda>i n. tx_bind (tx_read (\<lambda>s. row_get cpe_person_id (cd_people (lc_db s)) i)) (\<lambda>person.
            if person = None then tx_return n
            else tx_then (delete_permanent_person (started op) i) (tx_return (Suc n)))) person_ids 0) (\<lambda>deleted_count.
        tx_then (on_central central_flush)
          (tx_bind (publish_people_deletion cx now (started op) person_ids events) (\<lambda>statuses.
           tx_bind (tx_map (republish_event cx now) (sort_key uuid_str events)) (\<lambda>deployment_ids.
           let op' = finished now ((started op)\<lparr>cop_site_statuses := statuses, cop_media_results := no_media\<rparr>) in
           tx_then (save_operation op')
             (tx_then (lifecycle_audit cx now ((audit_entry ''central.people_bulk.deleted'' ''people_bulk''
                  (cop_target_id op) None)\<lparr>av_actor := cop_initiated_by op\<rparr>)
                  [(''person_count'', JInt (int (length person_ids)))]
                  [(''operation_id'', JStr (uuid_str (cop_deletion_operation_id op))),
                   (''requested_count'', JInt (int (length person_ids))), (''deleted_count'', JInt (int deleted_count)),
                   (''counts'', JObj (cop_dependency_counts op)),
                   (''deployments_published'', JList (map JStr (concat deployment_ids))), (''state'', JStr ''completed'')])
               (tx_return op'))))))))"

section \<open>What the preparation leaves alone\<close>

text \<open>
  Until the first \<open>DELETE\<close>, a deletion only mints keys, advances sequences, and appends to the
  outbox and to the retained history.
\<close>

definition prepared :: "lifecycle_db \<Rightarrow> lifecycle_db \<Rightarrow> bool" where
  "prepared s t \<longleftrightarrow>
     (\<exists>sequences minted outbox history.
        t = s\<lparr>lc_db := (lc_db s)\<lparr>cd_sequences := sequences, cd_minted := minted,
                cd_queue := (cd_queue (lc_db s))\<lparr>q_outbox := outbox\<rparr>\<rparr>, lc_history := history\<rparr>
        \<and> set (q_outbox (cd_queue (lc_db s))) \<subseteq> set outbox)"

lemma preparedI:
  assumes "t = s\<lparr>lc_db := (lc_db s)\<lparr>cd_sequences := q, cd_minted := m,
             cd_queue := (cd_queue (lc_db s))\<lparr>q_outbox := ob\<rparr>\<rparr>, lc_history := h\<rparr>"
    and "set (q_outbox (cd_queue (lc_db s))) \<subseteq> set ob"
  shows "prepared s t"
  unfolding prepared_def using assms by blast

interpretation pr: tx_relation prepared
proof
  fix s :: lifecycle_db
  show "prepared s s"
    by (rule preparedI [where q = "cd_sequences (lc_db s)" and m = "cd_minted (lc_db s)" and ob = "q_outbox (cd_queue (lc_db s))" and h = "lc_history s"])
      simp_all
next
  fix s t u assume "prepared s t" "prepared t u"
  then obtain q m ob h q' m' ob' h'
    where t: "t = s\<lparr>lc_db := (lc_db s)\<lparr>cd_sequences := q, cd_minted := m,
             cd_queue := (cd_queue (lc_db s))\<lparr>q_outbox := ob\<rparr>\<rparr>, lc_history := h\<rparr>"
      and u: "u = t\<lparr>lc_db := (lc_db t)\<lparr>cd_sequences := q', cd_minted := m',
             cd_queue := (cd_queue (lc_db t))\<lparr>q_outbox := ob'\<rparr>\<rparr>, lc_history := h'\<rparr>"
      and sub: "set (q_outbox (cd_queue (lc_db s))) \<subseteq> set ob" "set (q_outbox (cd_queue (lc_db t))) \<subseteq> set ob'"
    unfolding prepared_def by blast
  show "prepared s u"
    by (rule preparedI [where q = q' and m = m' and ob = ob' and h = h']) (use sub in \<open>auto simp: t u\<close>)
qed

lemma prepared_new_id: "tx_keeps prepared (on_central (central_new_id cx))"
proof (rule pr.keepsI)
  fix s
  show "prepared s (snd (on_central (central_new_id cx) s))"
    by (rule preparedI [where q = "cd_sequences (lc_db s)" and m = "Suc (cd_minted (lc_db s))" and ob = "q_outbox (cd_queue (lc_db s))" and h = "lc_history s"])
      (simp_all add: on_central_def central_new_id_def central_minted_def)
qed

lemma central_next_sequence_frame:
  "central_next_sequence i db = (n, db1) \<Longrightarrow> db1 = db\<lparr>cd_sequences := cd_sequences db1\<rparr>"
  by (auto simp: central_next_sequence_def split: option.splits)

lemma prepared_tombstone: "tx_keeps prepared (try_central (send_tombstone cx now v site_id))"
proof (rule pr.keepsI)
  fix s :: lifecycle_db
  obtain n db1 where n: "central_next_sequence site_id (lc_db s) = (n, db1)" by fastforce
  from central_next_sequence_frame [OF n] obtain q where db1: "db1 = (lc_db s)\<lparr>cd_sequences := q\<rparr>" by blast
  show "prepared s (snd (try_central (send_tombstone cx now v site_id) s))"
  proof (cases "central_publish cx now (v n) db1")
    case (Inl e)
    then show ?thesis by (simp add: try_central_def send_tombstone_def n pr.refl)
  next
    case (Inr r)
    then obtain x db2 where r: "central_publish cx now (v n) db1 = Inr (x, db2)" by (cases r) simp
    then have r': "central_publish cx now (v n) ((lc_db s)\<lparr>cd_sequences := q\<rparr>) = Inr (x, db2)" by (simp add: db1)
    show ?thesis
      by (rule preparedI [where q = q and m = "Suc (cd_minted (lc_db s))" and ob = "q_outbox (cd_queue (lc_db s)) @ [x]" and h = "lc_history s"])
        (auto simp: try_central_def send_tombstone_def n r' central_publish_Inr(4) [OF r'] db1 central_minted_def)
  qed
qed

lemma prepared_history: "prepared s (s\<lparr>lc_history := h\<rparr>)"
  by (rule preparedI [where q = "cd_sequences (lc_db s)" and m = "cd_minted (lc_db s)" and ob = "q_outbox (cd_queue (lc_db s))" and h = h]) simp_all

lemma prepared_retain: "tx_keeps prepared (retain_participation cx now event p)"
  unfolding retain_participation_def by (intro pr.keeps_rules prepared_new_id prepared_history)

definition tombstone_queued :: "datetime \<Rightarrow> (int \<Rightarrow> outbox_values) \<Rightarrow> lifecycle_db \<Rightarrow> bool" where
  "tombstone_queued now v s \<longleftrightarrow> (\<exists>i n. new_outbox_event i now (v n) \<in> set (q_outbox (cd_queue (lc_db s))))"

lemma tombstone_kept: "prepared s t \<Longrightarrow> tombstone_queued now v s \<Longrightarrow> tombstone_queued now v t"
  unfolding prepared_def tombstone_queued_def by (elim exE conjE) (simp, blast)

lemma prepared_for:
  assumes "\<And>x. tx_keeps prepared (body x)" "tx_for body xs s = (r, t)"
  shows "prepared s t"
  using pr.keepsD [OF pr.keeps_for [of xs body, OF assms(1)], of s] assms(2) by simp

lemma send_tombstone_queued:
  assumes "try_central (send_tombstone cx now v site_id) s = (Inr x, t)"
  shows "tombstone_queued now v t"
proof -
  obtain n db1 where n: "central_next_sequence site_id (lc_db s) = (n, db1)" by fastforce
  from assms obtain db2 where r: "central_publish cx now (v n) db1 = Inr (x, db2)" and t: "t = s\<lparr>lc_db := db2\<rparr>"
    by (auto simp: try_central_def send_tombstone_def n split: sum.splits prod.splits)
  have "x \<in> set (q_outbox (cd_queue db2))" by (simp add: central_publish_Inr(4) [OF r])
  then show ?thesis
    unfolding tombstone_queued_def t central_publish_Inr(1) [OF r] by (simp, blast)
qed

lemma tombstones_queued:
  assumes "tx_for (\<lambda>d. try_central (send_tombstone cx now (v d) (site d))) ds s = (Inr u, t)" "d \<in> set ds"
  shows "tombstone_queued now (v d) t"
  using assms
proof (induction ds arbitrary: s)
  case (Cons d' ds)
  from Cons.prems(1) obtain x s1 where head: "try_central (send_tombstone cx now (v d') (site d')) s = (Inr x, s1)"
    and rest: "tx_for (\<lambda>d. try_central (send_tombstone cx now (v d) (site d))) ds s1 = (Inr u, t)"
    by (auto simp: tx_then_eq_Inr)
  have "prepared s1 t" by (rule prepared_for [OF prepared_tombstone rest])
  with send_tombstone_queued [OF head] Cons.IH [OF rest] Cons.prems(2) show ?case
    by (auto intro: tombstone_kept)
qed simp

text \<open>A deletion of an event that returns: preparation, then the statements.\<close>

lemma delete_event_run:
  assumes run: "delete_event cx now op s = (Inr op', s')"
    and event: "row_get cev_event_id (cd_events (lc_db s)) (cop_target_id op) = Some event"
  obtains s1 media transfers where
    "prepared s s1"
    "s' = on_db (drop_event (cop_target_id op)) (release_replicas (cop_target_id op)
       (snd (drop_unshared media (purge_central_event (cop_target_id op) transfers s1))))"
    "\<And>d. d \<in> set (cd_deployments (lc_db s)) \<Longrightarrow> ced_event_id d = cop_target_id op \<Longrightarrow>
       tombstone_queued now (event_tombstone (cop_deletion_operation_id op) (cop_target_id op) (ced_site_id d)) s1"
proof -
  let ?e = "cop_target_id op"
  have e: "cev_event_id event = ?e" using row_get_SomeD [OF event] by simp
  obtain u s0 where first: "tx_for (retain_participation cx now event)
        (filter (\<lambda>p. cep_event_id p = ?e) (cd_participations (lc_db s))) s = (Inr u, s0)"
    and rest: "\<exists>v s1 media transfers.
        tx_for (\<lambda>d. try_central (send_tombstone cx now (event_tombstone (cop_deletion_operation_id op) ?e (ced_site_id d))
          (ced_site_id d))) (filter (\<lambda>d. ced_event_id d = ?e) (cd_deployments (lc_db s0))) s0 = (Inr v, s1)
        \<and> s' = on_db (drop_event ?e) (release_replicas ?e (snd (drop_unshared media (purge_central_event ?e transfers s1))))"
    using run unfolding delete_event_def
    by (auto simp: tx_bind_eq_Inr tx_then_eq_Inr event e Let_def change_central_def on_db_def)
  from rest obtain v s1 media transfers where
    second: "tx_for (\<lambda>d. try_central (send_tombstone cx now (event_tombstone (cop_deletion_operation_id op) ?e (ced_site_id d))
          (ced_site_id d))) (filter (\<lambda>d. ced_event_id d = ?e) (cd_deployments (lc_db s0))) s0 = (Inr v, s1)"
    and s': "s' = on_db (drop_event ?e) (release_replicas ?e (snd (drop_unshared media (purge_central_event ?e transfers s1))))"
    by blast
  have p0: "prepared s s0" by (rule prepared_for [OF prepared_retain first])
  have p1: "prepared s0 s1" by (rule prepared_for [OF prepared_tombstone second])
  have same: "cd_deployments (lc_db s0) = cd_deployments (lc_db s)" using p0 by (auto simp: prepared_def)
  show ?thesis
    by (rule that [OF pr.trans [OF p0 p1] s']) (rule tombstones_queued [OF second], simp add: same)
qed

section \<open>The specification of an event deletion\<close>

text \<open>All rows that belong to an event go at once, by what the state said before the deletion.\<close>

definition without_event :: "uuid \<Rightarrow> central_db \<Rightarrow> central_db" where
  "without_event e db =
     db\<lparr>cd_events := filter (\<lambda>x. cev_event_id x \<noteq> e) (cd_events db),
        cd_deployments := filter (\<lambda>d. ced_event_id d \<noteq> e) (cd_deployments db),
        cd_deployment_revisions :=
          filter (\<lambda>r. cdr_deployment_id r \<notin> event_deployment_ids e db) (cd_deployment_revisions db),
        cd_participations := filter (\<lambda>x. cep_event_id x \<noteq> e) (cd_participations db),
        cd_program_sessions := filter (\<lambda>x. css_event_id x \<noteq> e) (cd_program_sessions db),
        cd_session_participants := filter (\<lambda>l. csp_session_id l \<notin> event_session_ids e db
          \<and> csp_event_participation_id l \<notin> event_participation_ids e db) (cd_session_participants db),
        cd_presentations := filter (\<lambda>p. cpr_event_id p \<noteq> e) (cd_presentations db),
        cd_presentation_sessions :=
          filter (\<lambda>l. cps_presentation_id l \<notin> event_presentation_ids e db) (cd_presentation_sessions db),
        cd_presentation_presenters :=
          filter (\<lambda>l. cpp_presentation_id l \<notin> event_presentation_ids e db) (cd_presentation_presenters db),
        cd_versions := filter (\<lambda>v. cpv_presentation_id v \<notin> event_presentation_ids e db) (cd_versions db),
        cd_external_identifiers := filter (\<lambda>x. cxi_event_id x \<noteq> Some e) (cd_external_identifiers db),
        cd_media_imports := filter (\<lambda>m. cmi_event_id m \<noteq> e) (cd_media_imports db)\<rparr>"

text \<open>The rest of the state of Central a deletion may change: sequences, queues and minted keys.\<close>

definition same_but_queues :: "central_db \<Rightarrow> central_db \<Rightarrow> bool" where
  "same_but_queues a b \<longleftrightarrow>
     b = a\<lparr>cd_sequences := cd_sequences b, cd_queue := cd_queue b, cd_minted := cd_minted b\<rparr>"

lemma drop_batches_frame [simp]:
  "lc_db (drop_batches e s) = lc_db s" "lc_assets (drop_batches e s) = lc_assets s"
  "lc_receives (drop_batches e s) = lc_receives s" "lc_replicas (drop_batches e s) = lc_replicas s"
  "lc_history (drop_batches e s) = lc_history s"
proof -
  have "lc_db (fold drop_batch bs s) = lc_db s \<and> lc_assets (fold drop_batch bs s) = lc_assets s
      \<and> lc_receives (fold drop_batch bs s) = lc_receives s \<and> lc_replicas (fold drop_batch bs s) = lc_replicas s
      \<and> lc_history (fold drop_batch bs s) = lc_history s" for bs
    by (induction bs arbitrary: s) (simp_all add: drop_batch_def Let_def)
  then show "lc_db (drop_batches e s) = lc_db s" "lc_assets (drop_batches e s) = lc_assets s"
    "lc_receives (drop_batches e s) = lc_receives s" "lc_replicas (drop_batches e s) = lc_replicas s"
    "lc_history (drop_batches e s) = lc_history s"
    by (simp_all add: drop_batches_def)
qed

lemma same_but_queues_refl: "same_but_queues a a"
  by (simp add: same_but_queues_def)

lemma same_but_queues_trans: "same_but_queues a b \<Longrightarrow> same_but_queues b c \<Longrightarrow> same_but_queues a c"
  unfolding same_but_queues_def by (cases a, cases b, cases c) simp

lemma drop_unshared_frame:
  "same_but_queues (lc_db s) (lc_db (snd (drop_unshared ms s)))
   \<and> lc_assets (snd (drop_unshared ms s)) = lc_assets s \<and> lc_receives (snd (drop_unshared ms s)) = lc_receives s
   \<and> q_outbox (cd_queue (lc_db (snd (drop_unshared ms s)))) = q_outbox (cd_queue (lc_db s))"
proof (induction ms s rule: drop_unshared.induct)
  case (2 m ms s)
  have "same_but_queues (lc_db s) (lc_db (drop_media m s))" "lc_assets (drop_media m s) = lc_assets s"
    "lc_receives (drop_media m s) = lc_receives s"
    "q_outbox (cd_queue (lc_db (drop_media m s))) = q_outbox (cd_queue (lc_db s))"
    by (simp_all add: drop_media_def Let_def same_but_queues_def)
  with 2 show ?case
    by (auto split: prod.splits intro: same_but_queues_trans)
qed (simp add: same_but_queues_refl)

lemmas drop_defs = drop_participations_def drop_sessions_def drop_session_participants_def drop_presentations_def
  drop_presentation_sessions_def drop_presenters_def drop_versions_def drop_identifiers_def drop_deployments_def
  drop_revisions_def drop_media_imports_def drop_event_def drop_transfers_def release_outbox_def

lemmas subquery_defs = event_presentation_ids_def event_version_ids_def event_session_ids_def
  event_participation_ids_def event_deployment_ids_def

lemma purge_central_event_db:
  "same_but_queues (without_event e (lc_db s)) (drop_event e (lc_db (purge_central_event e transfers s)))"
  by (simp add: purge_central_event_def purge_central_program_def on_db_def release_sync_events_def drop_assets_def
      drop_receives_def same_but_queues_def without_event_def drop_defs subquery_defs)

lemma purge_central_event_rows:
  "lc_assets (purge_central_event e transfers s) =
     filter (\<lambda>a. cpa_presentation_version_id a \<notin> event_version_ids e (lc_db s)) (lc_assets s)"
  "lc_receives (purge_central_event e transfers s) = filter (\<lambda>r. crs_event_id r \<noteq> e) (lc_receives s)"
  by (simp_all add: purge_central_event_def purge_central_program_def on_db_def release_sync_events_def drop_assets_def
      drop_receives_def drop_defs subquery_defs)

lemma without_event_queues:
  "same_but_queues a b \<Longrightarrow> same_but_queues (without_event e a) (without_event e b)"
  unfolding same_but_queues_def by (cases a, cases b) (simp add: without_event_def subquery_defs)

section \<open>References after a deletion\<close>

lemma row_get_filter: "row_get key rows k = Some r \<Longrightarrow> P r \<Longrightarrow> row_get key (filter P rows) k = Some r"
  by (induction rows) (auto split: if_splits)

lemma row_get_filter_key:
  "row_get key (filter (\<lambda>r. key r \<noteq> e) rows) k = (if k = e then None else row_get key rows k)"
  by (induction rows) auto

lemma wf_queues: "program_wf a \<Longrightarrow> same_but_queues a b \<Longrightarrow> program_wf b"
  unfolding same_but_queues_def
  by (erule ssubst, erule wf_unchanged) (simp_all add: grows_def reference_defs)

lemma without_event_references:
  "event_known db i \<Longrightarrow> i \<noteq> e \<Longrightarrow> event_known (without_event e db) i"
  "person_active (without_event e db) = person_active db"
  "session_event db i = Some x \<Longrightarrow> x \<noteq> e \<Longrightarrow> session_event (without_event e db) i = Some x"
  "participation_event db i = Some x \<Longrightarrow> x \<noteq> e \<Longrightarrow> participation_event (without_event e db) i = Some x"
  "presentation_event db i = Some x \<Longrightarrow> x \<noteq> e \<Longrightarrow> presentation_event (without_event e db) i = Some x"
  by (auto simp: reference_defs without_event_def fun_eq_iff row_get_filter_key intro: row_get_filter)

lemma event_of_key:
  "session_event db i = Some e \<Longrightarrow> i \<in> event_session_ids e db"
  "participation_event db i = Some e \<Longrightarrow> i \<in> event_participation_ids e db"
  "presentation_event db i = Some e \<Longrightarrow> i \<in> event_presentation_ids e db"
  by (auto simp: reference_defs subquery_defs image_iff dest!: row_get_SomeD)

lemma wf_without_event:
  assumes "program_wf db"
  shows "program_wf (without_event e db)"
proof -
  let ?db = "without_event e db"
  note refs = without_event_references [where e = e and db = db]
  have "list_all (participation_ok ?db) (cd_participations ?db)" "list_all (session_ok ?db) (cd_program_sessions ?db)"
    using assms
    by (auto simp: program_wf_def list_all_iff participation_ok_def session_ok_def refs(2) intro!: refs(1))
      (auto simp: without_event_def)
  moreover have "presentation_ok ?db p" if "p \<in> set (cd_presentations ?db)" for p
    using that assms refs(1) [of "cpr_event_id p"] refs(3) [of _ "cpr_event_id p"]
    by (auto simp: program_wf_def list_all_iff presentation_ok_def without_event_def split: option.splits)
  moreover have "session_link_ok ?db l" if "l \<in> set (cd_session_participants ?db)" for l
  proof -
    from that assms have keys: "csp_session_id l \<notin> event_session_ids e db"
      and "session_link_ok db l"
      by (auto simp: without_event_def program_wf_def list_all_iff)
    then obtain x where x: "session_event db (csp_session_id l) = Some x"
      "participation_event db (csp_event_participation_id l) = Some x"
      by (auto simp: session_link_ok_def one_event_iff)
    with keys have "x \<noteq> e" using event_of_key(1) by auto
    with x refs(3,4) show ?thesis by (auto simp: session_link_ok_def one_event_iff)
  qed
  moreover have "presentation_session_ok ?db l" if "l \<in> set (cd_presentation_sessions ?db)" for l
  proof -
    from that assms have keys: "cps_presentation_id l \<notin> event_presentation_ids e db"
      and "presentation_session_ok db l"
      by (auto simp: without_event_def program_wf_def list_all_iff)
    then obtain x where x: "presentation_event db (cps_presentation_id l) = Some x"
      "session_event db (cps_session_id l) = Some x"
      by (auto simp: presentation_session_ok_def one_event_iff)
    with keys have "x \<noteq> e" using event_of_key(3) by auto
    with x refs(3,5) show ?thesis by (auto simp: presentation_session_ok_def one_event_iff)
  qed
  moreover have "presenter_ok ?db l" if "l \<in> set (cd_presentation_presenters ?db)" for l
  proof -
    from that assms have keys: "cpp_presentation_id l \<notin> event_presentation_ids e db" and "presenter_ok db l"
      by (auto simp: without_event_def program_wf_def list_all_iff)
    then obtain x where x: "presentation_event db (cpp_presentation_id l) = Some x"
      "participation_event db (cpp_event_participation_id l) = Some x"
      by (auto simp: presenter_ok_def one_event_iff)
    with keys have "x \<noteq> e" using event_of_key(3) by auto
    with x refs(4,5) show ?thesis by (auto simp: presenter_ok_def one_event_iff)
  qed
  moreover have "keyed cpr_presentation_id (cd_presentations ?db)"
    using assms by (auto simp: program_wf_def without_event_def keyed_def distinct_map_filter)
  ultimately show ?thesis by (simp add: program_wf_def list_all_iff)
qed

definition erased_db :: "uuid \<Rightarrow> central_db \<Rightarrow> central_db" where
  "erased_db i db = drop_person_rows i (drop_person_links i db)"

lemma erased_references:
  "event_known (erased_db i db) = event_known db" "session_event (erased_db i db) = session_event db"
  "presentation_event (erased_db i db) = presentation_event db"
  "person_active db k \<Longrightarrow> k \<noteq> i \<Longrightarrow> person_active (erased_db i db) k"
  "participation_event db k = Some x \<Longrightarrow> k \<notin> person_participation_ids i db
     \<Longrightarrow> participation_event (erased_db i db) k = Some x"
proof -
  show "participation_event (erased_db i db) k = Some x"
    if "participation_event db k = Some x" "k \<notin> person_participation_ids i db"
  proof -
    from that obtain r where r: "row_get cep_event_participation_id (cd_participations db) k = Some r" "cep_event_id r = x"
      by (auto simp: participation_event_def)
    have "cep_person_id r \<noteq> i" using that(2) row_get_SomeD [OF r(1)] by (auto simp: person_participation_ids_def)
    with r show ?thesis
      by (simp add: erased_db_def participation_event_def drop_person_rows_def drop_person_links_def row_get_filter)
  qed
qed (simp_all add: erased_db_def reference_defs fun_eq_iff drop_person_rows_def drop_person_links_def row_get_filter_key)

lemma erased_tables:
  "cd_participations (erased_db i db) = filter (\<lambda>p. cep_person_id p \<noteq> i) (cd_participations db)"
  "cd_program_sessions (erased_db i db) = cd_program_sessions db" "cd_presentations (erased_db i db) = cd_presentations db"
  "cd_presentation_sessions (erased_db i db) = cd_presentation_sessions db"
  "cd_session_participants (erased_db i db) =
     filter (\<lambda>l. csp_event_participation_id l \<notin> person_participation_ids i db) (cd_session_participants db)"
  "cd_presentation_presenters (erased_db i db) =
     filter (\<lambda>l. cpp_event_participation_id l \<notin> person_participation_ids i db) (cd_presentation_presenters db)"
  by (simp_all add: erased_db_def drop_person_rows_def drop_person_links_def)

lemma wf_erased:
  assumes "program_wf db"
  shows "program_wf (erased_db i db)"
proof -
  let ?db = "erased_db i db"
  note refs = erased_references [where i = i and db = db]
  have "participation_ok ?db p" if "p \<in> set (cd_participations ?db)" for p
    using that assms refs(4) [of "cep_person_id p"]
    by (auto simp: program_wf_def list_all_iff participation_ok_def refs(1) erased_tables)
  moreover have "list_all (session_ok ?db) (cd_program_sessions ?db)" "list_all (presentation_ok ?db) (cd_presentations ?db)"
    "list_all (presentation_session_ok ?db) (cd_presentation_sessions ?db)" "keyed cpr_presentation_id (cd_presentations ?db)"
    using assms unfolding program_wf_def list_all_iff session_ok_def presentation_ok_def presentation_session_ok_def refs
    by (simp_all add: erased_tables)
  moreover have "session_link_ok ?db l" if "l \<in> set (cd_session_participants ?db)" for l
    using that assms refs(5) [of "csp_event_participation_id l"]
    by (auto simp: program_wf_def list_all_iff session_link_ok_def one_event_iff refs(2) erased_tables)
  moreover have "presenter_ok ?db l" if "l \<in> set (cd_presentation_presenters ?db)" for l
    using that assms refs(5) [of "cpp_event_participation_id l"]
    by (auto simp: program_wf_def list_all_iff presenter_ok_def one_event_iff refs(3) erased_tables)
  ultimately show ?thesis by (simp add: program_wf_def list_all_iff)
qed

text \<open>The operations, up to the queues.\<close>

lemma drop_event_queues: "same_but_queues a b \<Longrightarrow> same_but_queues (drop_event e a) (drop_event e b)"
  unfolding same_but_queues_def by (cases a, cases b) (simp add: drop_event_def)

lemma prepared_queues: "prepared s t \<Longrightarrow> same_but_queues (lc_db s) (lc_db t)"
  by (auto simp: prepared_def same_but_queues_def)

lemma delete_event_refines:
  assumes run: "delete_event cx now op s = (Inr op', s')"
    and event: "row_get cev_event_id (cd_events (lc_db s)) (cop_target_id op) = Some event"
  shows "same_but_queues (without_event (cop_target_id op) (lc_db s)) (lc_db s')"
    and "lc_assets s' = filter (\<lambda>a. cpa_presentation_version_id a \<notin> event_version_ids (cop_target_id op) (lc_db s)) (lc_assets s)"
    and "lc_receives s' = filter (\<lambda>r. crs_event_id r \<noteq> cop_target_id op) (lc_receives s)"
proof -
  let ?e = "cop_target_id op"
  obtain s1 media transfers where p: "prepared s s1"
    and s': "s' = on_db (drop_event ?e) (release_replicas ?e
       (snd (drop_unshared media (purge_central_event ?e transfers s1))))"
    using delete_event_run [OF run event] by blast
  let ?u = "purge_central_event ?e transfers s1"
  note frame = drop_unshared_frame [of ?u media]
  from p obtain q m ob h where s1: "s1 = s\<lparr>lc_db := (lc_db s)\<lparr>cd_sequences := q, cd_minted := m,
             cd_queue := (cd_queue (lc_db s))\<lparr>q_outbox := ob\<rparr>\<rparr>, lc_history := h\<rparr>"
    unfolding prepared_def by blast
  have "same_but_queues (drop_event ?e (lc_db ?u)) (lc_db s')"
    using frame drop_event_queues unfolding s' by (simp add: on_db_def release_replicas_def)
  from same_but_queues_trans [OF same_but_queues_trans [OF without_event_queues [OF prepared_queues [OF p]]
      purge_central_event_db] this]
  show "same_but_queues (without_event ?e (lc_db s)) (lc_db s')" .
  show "lc_assets s' = filter (\<lambda>a. cpa_presentation_version_id a \<notin> event_version_ids ?e (lc_db s)) (lc_assets s)"
    "lc_receives s' = filter (\<lambda>r. crs_event_id r \<noteq> ?e) (lc_receives s)"
    using frame purge_central_event_rows [of ?e transfers s1]
    by (simp_all add: s' on_db_def release_replicas_def s1 event_version_ids_def event_presentation_ids_def)
qed

lemma prepared_publish_people: "tx_keeps prepared (publish_people_deletion cx now op ids events)"
  unfolding publish_people_deletion_def by (intro pr.keeps_rules prepared_tombstone)

lemma wf_audited: "program_wf (lc_db s) \<Longrightarrow> lifecycle_audit cx now v b a s = (Inr u, t) \<Longrightarrow> program_wf (lc_db t)"
  by (auto simp: lifecycle_audit_def change_central_def wf_same(2))

lemma delete_event_wf:
  assumes "delete_event cx now op s = (Inr op', s')" "program_wf (lc_db s)"
  shows "program_wf (lc_db s')"
proof (cases "row_get cev_event_id (cd_events (lc_db s)) (cop_target_id op)")
  case None
  with assms show ?thesis by (simp add: delete_event_def tx_bind_eq_Inr)
next
  case (Some event)
  from wf_queues [OF wf_without_event [OF assms(2)] delete_event_refines(1) [OF assms(1) this]] show ?thesis .
qed

lemma delete_permanent_person_wf:
  "delete_permanent_person op i s = (Inr op', s') \<Longrightarrow> program_wf (lc_db s) \<Longrightarrow> program_wf (lc_db s')"
  by (auto simp: delete_permanent_person_def tx_bind_eq_Inr tx_then_eq_Inr erase_person_def split: if_splits
      intro: wf_erased [unfolded erased_db_def])

lemma run_deletion_wf:
  assumes run: "run_deletion cx now op s = (Inr op', s')" and wf: "program_wf (lc_db s)"
  shows "program_wf (lc_db s')"
proof (cases "cop_status op = ''completed''")
  case True
  with run wf show ?thesis by (simp add: run_deletion_def)
next
  case ongoing: False
  have saved: "program_wf (lc_db u)" if "save_operation o' t = (Inr v, u)" "program_wf (lc_db t)" for o' t u v
    using that by (auto simp: save_operation_def)
  show ?thesis
  proof (cases "cop_target_type op = ''event''")
    case True
    from run ongoing True obtain op2 t t2 v b a u2 where del: "delete_event cx now (started op) s = (Inr op2, t)"
      and save: "save_operation (finished now op2) t = (Inr (), t2)" and tail: "lifecycle_audit cx now v b a t2 = (Inr u2, s')"
      by (auto simp: run_deletion_def tx_bind_eq_Inr tx_then_eq_Inr Let_def)
    show ?thesis by (rule wf_audited [OF saved [OF save delete_event_wf [OF del wf]] tail])
  next
    case False
    from run ongoing False obtain op1 op2 t t2 u st events v b a u2 where
      del: "delete_permanent_person (started op) (cop_target_id op) s = (Inr op1, t)"
      and pub: "publish_people_deletion cx now op1 [cop_target_id op] events t = (Inr st, u)"
      and save: "save_operation (finished now op2) u = (Inr (), t2)" and tail: "lifecycle_audit cx now v b a t2 = (Inr u2, s')"
      by (auto simp: run_deletion_def tx_bind_eq_Inr tx_then_eq_Inr Let_def)
    have "prepared t u"
      using pr.keepsD [OF prepared_publish_people [of cx now op1 "[cop_target_id op]" events], of t] pub by simp
    from wf_queues [OF delete_permanent_person_wf [OF del wf] prepared_queues [OF this]] show ?thesis
      by (rule wf_audited [OF saved [OF save] tail])
  qed
qed

section \<open>The properties\<close>


definition demo_lifecycle_db :: lifecycle_db where
  "demo_lifecycle_db =
     \<lparr>lc_db = demo_program_db\<lparr>cd_program_sessions := [(default_central_session 0)\<lparr>css_session_id := 4, css_event_id := 9\<rparr>],
        cd_deployments := [(demo_deployment Dep_DEPLOYED 1 1)\<lparr>ced_event_id := 9\<rparr>]\<rparr>,
      lc_operations = [], lc_history = [], lc_signals = [], lc_links = [], lc_sources = [], lc_batches = [], lc_rows = [],
      lc_issues = [], lc_decisions = [], lc_replicas = [], lc_receives = [], lc_assets = [], lc_sync_events = []\<rparr>"

definition demo_operation :: central_deletion_operation where
  "demo_operation = (default_central_deletion_operation 0)\<lparr>cop_target_type := ''event'', cop_target_id := 9\<rparr>"

lemma demo_event_known:
  "cop_target_id op = 9 \<Longrightarrow> row_get cev_event_id (cd_events (lc_db demo_lifecycle_db)) (cop_target_id op)
     = Some ((default_central_event 0)\<lparr>cev_event_id := 9\<rparr>)"
  by (simp add: demo_lifecycle_db_def demo_program_db_def)

lemma delete_event_returns:
  assumes "row_get cev_event_id (cd_events (lc_db s)) (cop_target_id op) = Some event"
    and "filter (\<lambda>p. cep_event_id p = cev_event_id event) (cd_participations (lc_db s)) = []"
    and "filter (\<lambda>d. ced_event_id d = cev_event_id event) (cd_deployments (lc_db s)) = [d]"
    and "\<not> isl (fst (try_central (send_tombstone cx now
           (event_tombstone (cop_deletion_operation_id op) (cev_event_id event) (ced_site_id d)) (ced_site_id d)) s))"
  shows "\<not> isl (fst (delete_event cx now op s))"
  using succeeds [OF assms(4)]
  by (auto simp: delete_event_def assms(1-3) tx_bind_def tx_then_def change_central_def Let_def)

lemma demo_deletion_runs:
  "cop_target_id op = 9 \<Longrightarrow> \<not> isl (fst (delete_event demo_codec 3 op demo_lifecycle_db))"
proof (rule delete_event_returns [OF demo_event_known])
  show "\<not> isl (fst (try_central (send_tombstone demo_codec 3
      (event_tombstone (cop_deletion_operation_id op) (cev_event_id ((default_central_event 0)\<lparr>cev_event_id := 9\<rparr>))
        (ced_site_id ((demo_deployment Dep_DEPLOYED 1 1)\<lparr>ced_event_id := 9\<rparr>)))
      (ced_site_id ((demo_deployment Dep_DEPLOYED 1 1)\<lparr>ced_event_id := 9\<rparr>))) demo_lifecycle_db))"
    unfolding event_tombstone_def
    by (simp add: try_central_def send_tombstone_def central_next_sequence_def central_publish_def
        central_enqueue_outbox_def insert_outbox_def outbox_payload_valid_def demo_lifecycle_db_def demo_program_db_def
        empty_central_db_def Let_def)
qed (simp_all add: demo_lifecycle_db_def demo_program_db_def empty_central_db_def)


text \<open>
  C39: A deletion leaves no dangling reference in the program. If the references of every event's
  program lie within the event, they still do after an event or a person has been deleted for good,
  although the statements remove parents and links in separate steps.
\<close>

theorem deletion_leaves_no_dangling_reference:
  assumes "program_wf (lc_db s)" "run_deletion cx now op s = (Inr op', s')"
  shows "program_wf (lc_db s')"
  using assms by (rule run_deletion_wf [rotated])

lemma run_event_deletion_returns:
  assumes "\<not> isl (fst (delete_event cx now (started op) s))" "cop_target_type op = ''event''" "cop_status op \<noteq> ''completed''"
  shows "\<not> isl (fst (run_deletion cx now op s))"
  using succeeds [OF assms(1)] assms(2,3)
  by (auto simp: run_deletion_def tx_bind_def tx_then_def Let_def save_operation_def lifecycle_audit_def change_central_def)

theorem deletion_leaves_no_dangling_reference_witness:
  "\<exists>op' s'. run_deletion demo_codec 3 demo_operation demo_lifecycle_db = (Inr op', s') \<and> program_wf (lc_db s')"
proof -
  have "\<not> isl (fst (run_deletion demo_codec 3 demo_operation demo_lifecycle_db))"
    by (intro run_event_deletion_returns demo_deletion_runs)
      (simp_all add: demo_operation_def started_def default_central_deletion_operation_def)
  then obtain op' s' where run: "run_deletion demo_codec 3 demo_operation demo_lifecycle_db = (Inr op', s')"
    using succeeds by blast
  have "program_wf (lc_db demo_lifecycle_db)"
    by (simp add: demo_lifecycle_db_def demo_program_db_def empty_central_db_def program_wf_def session_ok_def event_known_def)
  from deletion_leaves_no_dangling_reference [OF this run] run show ?thesis by blast
qed

end
