(* ===== verification/Retry_Bound.thy ===== *)
theory Retry_Bound
  imports Site_Queue
begin

text \<open>
  Retries end. The locale \<open>retry_queue\<close> adds to the contract of a lease queue what its operations
  do to the attempt count; its lemma bounds the failures a job can record by the attempts it has
  left. Both queues keep the contract.
\<close>

definition fails_left :: "job \<Rightarrow> nat" where
  "fails_left j =
     (if terminal (j_status j) then 0
      else nat (j_max_attempts j - j_attempt_count j) + (if j_status j = Job_RUNNING then 1 else 0))"

fun is_failure_of :: "uuid \<Rightarrow> action \<Rightarrow> bool" where
  "is_failure_of i (Fail k w) = (k = i)"
| "is_failure_of i a = False"

definition failures :: "uuid \<Rightarrow> action list \<Rightarrow> nat" where
  "failures i acts = length (filter (is_failure_of i) acts)"

lemma failures_simps [simp]:
  "failures i [] = 0" "failures i (a # acts) = (if is_failure_of i a then 1 else 0) + failures i acts"
  by (simp_all add: failures_def)

lemma failure_acts: "is_failure_of i a \<Longrightarrow> \<exists>w. a = Fail i w"
  by (cases a) auto

lemma lease_left: "job_wf j \<Longrightarrow> claimable now caps j \<Longrightarrow> fails_left (lease_to w l now j) \<le> fails_left j"
  by (auto simp: fails_left_def terminal_def claimable_def due_def lease_expired_def job_wf_def lease_to_def)

locale retry_queue = lease_queue cl hb co fa for cl hb co fa +
  assumes heartbeat_left: "hb j w l now = Inr j1 \<Longrightarrow> fails_left j1 = fails_left j"
    and complete_left: "co j w now = Inr j2 \<Longrightarrow> fails_left j2 = 0"
    and fail_left: "fa j w f now = Inr j3 \<Longrightarrow> Suc (fails_left j3) \<le> fails_left j"
begin

text \<open>No step gives a job attempts back, and a failure uses one up.\<close>

lemma step_left:
  assumes "queue_step cl hb co fa (now, rows) a (now', rows')" "keyed j_id rows" "\<forall>j \<in> set rows. job_wf j"
    and "row_get j_id rows i = Some j"
  obtains j' where "row_get j_id rows' i = Some j'"
    "fails_left j' + (if is_failure_of i a then 1 else 0) \<le> fails_left j"
  using assms(1)
proof (cases rule: queue_step_caseE)
  case tick
  with that assms(4) show ?thesis by simp
next
  case (enqueue fresh payload v)
  with that [of j] assms(4) show ?thesis by (simp add: insert_job_Inr_iff row_get_append)
next
  case (claim lk w caps lease r)
  then have took: "cl lk w caps lease now rows = (r, rows')" by simp
  from took show ?thesis
  proof (cases rule: claim_rows)
    case 1
    with that [of j] claim assms(4) show ?thesis by simp
  next
    case (2 k)
    show ?thesis
    proof (cases "j_id k = i")
      case True
      then have "k = j" using row_get_mem [OF assms(2) 2(1)] assms(4) by simp
      then have "fails_left (lease_to w lease now j) \<le> fails_left j"
        using 2 assms(3) by (intro lease_left) auto
      with that [of "lease_to w lease now j"] 2 claim assms(4) True show ?thesis by (simp add: lease_row.get_same)
    next
      case False
      with that [of j] 2 claim assms(4) show ?thesis by (simp add: lease_row.get_other)
    qed
  qed
next
  case (heartbeat k j0 w lease j')
  then have row: "row_get j_id rows k = Some j0" and op: "hb j0 w lease now = Inr j'" by simp_all
  have kept: "j_id j' = j_id j0" by (rule id_kept(1) [OF op])
  show ?thesis
  proof (cases "k = i")
    case True
    with heartbeat assms(4) have "j0 = j" by simp
    with True heartbeat that [of j'] heartbeat_left replace_row(1) [OF row kept] show ?thesis by simp
  next
    case False
    with heartbeat that [of j] assms(4) replace_row(2) [OF row kept] show ?thesis by simp
  qed
next
  case (complete k j0 w j')
  then have row: "row_get j_id rows k = Some j0" and op: "co j0 w now = Inr j'" by simp_all
  have kept: "j_id j' = j_id j0" by (rule id_kept(2) [OF op])
  show ?thesis
  proof (cases "k = i")
    case True
    with complete that [of j'] complete_left replace_row(1) [OF row kept] show ?thesis by simp
  next
    case False
    with complete that [of j] assms(4) replace_row(2) [OF row kept] show ?thesis by simp
  qed
next
  case (fail k j0 w f j')
  then have row: "row_get j_id rows k = Some j0" and op: "fa j0 w f now = Inr j'" by simp_all
  have kept: "j_id j' = j_id j0" by (rule id_kept(3) [OF op])
  show ?thesis
  proof (cases "k = i")
    case True
    with fail assms(4) have "j0 = j" by simp
    with True fail that [of j'] fail_left [of j w f now j'] replace_row(1) [OF row kept] show ?thesis by simp
  next
    case False
    with fail that [of j] assms(4) replace_row(2) [OF row kept] show ?thesis by simp
  qed
qed

lemma run_failures_bounded:
  "queue_run cl hb co fa s acts s' \<Longrightarrow> keyed j_id (snd s) \<Longrightarrow> \<forall>j \<in> set (snd s). job_wf j \<Longrightarrow>
     row_get j_id (snd s) i = Some j \<Longrightarrow> failures i acts \<le> fails_left j"
proof (induction arbitrary: j rule: queue_run.induct)
  case (more s a s' as s'')
  then have step: "queue_step cl hb co fa (fst s, snd s) a (fst s', snd s')" by simp
  obtain j' where j': "row_get j_id (snd s') i = Some j'"
    "fails_left j' + (if is_failure_of i a then 1 else 0) \<le> fails_left j"
    using step_left [OF step more.prems] .
  from more.IH [OF step_keyed [OF step more.prems(1)] step_wf [OF step more.prems(2)] j'(1)] j'(2) show ?case by simp
qed simp

end

interpretation central_retry: retry_queue central_claim central_heartbeat central_complete central_fail
proof
  fix j w f now j3 assume f: "central_fail j w f now = Inr j3"
  from central_fail_Inr [OF f] show "Suc (fails_left j3) \<le> fails_left j"
    by (auto simp: fails_left_def terminal_def holds_def split: if_splits)
qed (auto simp: central_ops outcome_bind_Inr_conv fails_left_def terminal_def holds_def split: if_splits)

interpretation site_retry: retry_queue site_claim site_heartbeat site_complete site_fail
  unfolding site_claim_eq_central site_job_ops_eq_central by (rule central_retry.retry_queue_axioms)

text \<open>
  C5: Retrying ends. Whatever the workers do, in any interleaving, a job of the Central queue records
  at most as many failures as it has attempts left, so a new job fails at most \<open>max_attempts\<close> times
  before it is finished for good. The bound is on recorded failures: a job whose worker dies without
  recording one is handed out again without limit.
\<close>

theorem central_retries_end:
  assumes "queue_run central_claim central_heartbeat central_complete central_fail (now, rows) acts (now', rows')"
    and "keyed j_id rows" "\<forall>j \<in> set rows. job_wf j" "row_get j_id rows i = Some j"
  shows "failures i acts \<le> fails_left j
    \<and> (j_status j = Job_PENDING \<longrightarrow> int (failures i acts) \<le> j_max_attempts j)"
proof -
  have bound: "failures i acts \<le> fails_left j"
    using central_retry.run_failures_bounded [OF assms(1)] assms(2-4) by simp
  have "job_wf j" using assms(3) row_get_SomeD [OF assms(4)] by blast
  then have "int (failures i acts) \<le> j_max_attempts j" if "j_status j = Job_PENDING"
    using bound that by (simp add: fails_left_def terminal_def job_wf_def) linarith
  with bound show ?thesis by blast
qed

theorem central_retries_end_witness:
  "failures 1 [Claim ''w'', Fail 1 ''w''] \<le> fails_left (demo_job 1) \<and> fails_left (demo_job 1) = 3"
proof -
  let ?run = "queue_run central_claim central_heartbeat central_complete central_fail"
  let ?f = "\<lparr>f_error_code = ''e'', f_message = ''m'', f_retryable = True, f_base_delay = 5, f_jitter = 0, f_metadata = None\<rparr>"
  let ?held = "lease_to ''w'' 60 5 (demo_job 1)"
  have claim: "central_claim (\<lambda>_. False) ''w'' [''cpu''] 60 5 [demo_job 1] = (Some ?held, [?held])"
    by (simp add: central_claim_eq claimable_def due_def lease_expired_def demo_simps)
  have "holds ?held ''w''" by (simp add: holds_def)
  obtain d where "retry_delay 1 5 3600 0 (1/2) = Inr d"
    using retry_delay_ok_iff [of 1 5 3600 0 "1/2"] by auto
  then obtain j' where fail: "central_fail ?held ''w'' ?f 5 = Inr j'"
    using \<open>holds ?held ''w''\<close> by (auto simp: central_fail_def Let_def demo_simps lease_to_def)
  have "row_get j_id [?held] 1 = Some ?held" by (simp add: demo_simps)
  from queue_step.fail [OF this, where fa = central_fail, OF fail]
  have "?run (5, [?held]) [Fail 1 ''w''] (5, row_put j_id 1 (\<lambda>_. j') [?held])"
    by (blast intro: queue_run.intros)
  with queue_step.claim [where cl = central_claim, OF claim]
  have "?run (5, [demo_job 1]) [Claim ''w'', Fail 1 ''w''] (5, row_put j_id 1 (\<lambda>_. j') [?held])"
    by (blast intro: queue_run.more)
  from central_retries_end [OF this, of 1 "demo_job 1"] show ?thesis
    by (simp add: fails_left_def terminal_def job_wf_def demo_simps)
qed

end
