(* ===== verification/File_System.thy ===== *)
theory File_System
  imports Transaction "HOL-Library.Sublist"
begin

text \<open>
  The part of a POSIX file system the media storage service uses. A directory entry is a
  directory or the number of an inode, and the bytes belong to the inode, because the
  service publishes files with hard links: two names of one inode show every later write
  to either of them. There are no symbolic links, so resolving a path returns it. A write
  fails only for the reasons modelled here; a full disk is not one of them.
\<close>

section \<open>Names, inodes and bytes\<close>

type_synonym bytes = string
type_synonym fs_path = "string list"

datatype fs_entry = Directory | Inode nat

record file_system =
  fs_entries :: "fs_path \<Rightarrow> fs_entry option"
  fs_data :: "nat \<Rightarrow> bytes"
  fs_next :: nat

type_synonym 'a fs_tx = "(file_system, 'a) tx"

definition path_exists :: "file_system \<Rightarrow> fs_path \<Rightarrow> bool" where
  "path_exists fs p \<longleftrightarrow> fs_entries fs p \<noteq> None"

definition is_dir :: "file_system \<Rightarrow> fs_path \<Rightarrow> bool" where
  "is_dir fs p \<longleftrightarrow> fs_entries fs p = Some Directory"

definition is_file :: "file_system \<Rightarrow> fs_path \<Rightarrow> bool" where
  "is_file fs p = (case fs_entries fs p of Some (Inode i) \<Rightarrow> True | _ \<Rightarrow> False)"

definition file_bytes :: "file_system \<Rightarrow> fs_path \<Rightarrow> bytes option" where
  "file_bytes fs p = (case fs_entries fs p of Some (Inode i) \<Rightarrow> Some (fs_data fs i) | _ \<Rightarrow> None)"

definition same_file :: "file_system \<Rightarrow> fs_path \<Rightarrow> fs_path \<Rightarrow> bool" where
  "same_file fs p q \<longleftrightarrow> fs_entries fs p = fs_entries fs q"

definition set_entry :: "fs_path \<Rightarrow> fs_entry option \<Rightarrow> file_system \<Rightarrow> file_system" where
  "set_entry p e fs = fs\<lparr>fs_entries := (fs_entries fs)(p := e)\<rparr>"

section \<open>System calls\<close>

text \<open>\<open>path.mkdir(parents=True, exist_ok=True)\<close>\<close>

definition make_dir :: "fs_path \<Rightarrow> unit fs_tx" where
  "make_dir p fs =
     (case fs_entries fs p of
        None \<Rightarrow> (Inr (), set_entry p (Some Directory) fs)
      | Some Directory \<Rightarrow> (Inr (), fs)
      | Some (Inode i) \<Rightarrow> (Inl (OSError ''not a directory''), fs))"

definition mkdir_parents :: "fs_path \<Rightarrow> unit fs_tx" where
  "mkdir_parents p = tx_for make_dir (prefixes p)"

text \<open>\<open>path.open('xb')\<close>, and \<open>path.open('ab')\<close>, which creates a missing file; the result is the inode.\<close>

definition create_file :: "fs_path \<Rightarrow> nat fs_tx" where
  "create_file p fs =
     (if path_exists fs p then (Inl (OSError ''file exists''), fs)
      else if p = [] \<or> \<not> is_dir fs (butlast p) then (Inl (OSError ''no such directory''), fs)
      else (Inr (fs_next fs),
            set_entry p (Some (Inode (fs_next fs)))
              (fs\<lparr>fs_data := (fs_data fs)(fs_next fs := []), fs_next := Suc (fs_next fs)\<rparr>)))"

definition open_append :: "fs_path \<Rightarrow> nat fs_tx" where
  "open_append p fs =
     (case fs_entries fs p of
        None \<Rightarrow> create_file p fs
      | Some Directory \<Rightarrow> (Inl (OSError ''is a directory''), fs)
      | Some (Inode i) \<Rightarrow> (Inr i, fs))"

definition write_chunk :: "nat \<Rightarrow> bytes \<Rightarrow> unit fs_tx" where
  "write_chunk i chunk = tx_write (\<lambda>fs. fs\<lparr>fs_data := (fs_data fs)(i := fs_data fs i @ chunk)\<rparr>)"

text \<open>\<open>os.link\<close>, \<open>os.replace\<close> and \<open>path.unlink(missing_ok=True)\<close>\<close>

definition link_file :: "fs_path \<Rightarrow> fs_path \<Rightarrow> unit fs_tx" where
  "link_file src dst fs =
     (case fs_entries fs src of
        Some (Inode i) \<Rightarrow>
          if path_exists fs dst then (Inl (OSError ''file exists''), fs)
          else if dst = [] \<or> \<not> is_dir fs (butlast dst) then (Inl (OSError ''no such directory''), fs)
          else (Inr (), set_entry dst (Some (Inode i)) fs)
      | _ \<Rightarrow> (Inl (OSError ''no such file''), fs))"

definition replace_file :: "fs_path \<Rightarrow> fs_path \<Rightarrow> unit fs_tx" where
  "replace_file src dst fs =
     (case fs_entries fs src of
        Some (Inode i) \<Rightarrow>
          if is_dir fs dst then (Inl (OSError ''is a directory''), fs)
          else if dst = [] \<or> \<not> is_dir fs (butlast dst) then (Inl (OSError ''no such directory''), fs)
          else if same_file fs src dst then (Inr (), fs)
          else (Inr (), set_entry src None (set_entry dst (Some (Inode i)) fs))
      | _ \<Rightarrow> (Inl (OSError ''no such file''), fs))"

definition unlink_file :: "fs_path \<Rightarrow> unit fs_tx" where
  "unlink_file p fs =
     (case fs_entries fs p of
        None \<Rightarrow> (Inr (), fs)
      | Some Directory \<Rightarrow> (Inl (OSError ''is a directory''), fs)
      | Some (Inode i) \<Rightarrow> (Inr (), set_entry p None fs))"

text \<open>\<open>try: m finally: k\<close>\<close>

definition tx_finally :: "('s, 'a) tx \<Rightarrow> ('s, 'b) tx \<Rightarrow> ('s, 'a) tx" where
  "tx_finally m k = tx_try m (\<lambda>r. tx_then k (tx_lift r))"

section \<open>Well-formed trees\<close>

definition fs_wf :: "file_system \<Rightarrow> bool" where
  "fs_wf fs \<longleftrightarrow>
     fs_entries fs [] = Some Directory
     \<and> (\<forall>p x. fs_entries fs p \<noteq> Some Directory \<longrightarrow> fs_entries fs (p @ [x]) = None)
     \<and> (\<forall>p i. fs_entries fs p = Some (Inode i) \<longrightarrow> i < fs_next fs)"

lemma fs_wfI:
  assumes "fs_entries fs [] = Some Directory"
    and "\<And>p x e. fs_entries fs (p @ [x]) = Some e \<Longrightarrow> fs_entries fs p = Some Directory"
    and "\<And>p i. fs_entries fs p = Some (Inode i) \<Longrightarrow> i < fs_next fs"
  shows "fs_wf fs"
  using assms unfolding fs_wf_def by (metis not_None_eq)

lemma set_entry_simps [simp]:
  "fs_entries (set_entry p e fs) = (fs_entries fs)(p := e)"
  "fs_data (set_entry p e fs) = fs_data fs" "fs_next (set_entry p e fs) = fs_next fs"
  by (simp_all add: set_entry_def)

lemma fs_wf_parent: "fs_wf fs \<Longrightarrow> fs_entries fs (p @ [x]) = Some e \<Longrightarrow> fs_entries fs p = Some Directory"
  unfolding fs_wf_def by fastforce

lemma fs_wf_root: "fs_wf fs \<Longrightarrow> fs_entries fs [] = Some Directory"
  by (simp add: fs_wf_def)

lemma fs_wf_inode: "fs_wf fs \<Longrightarrow> fs_entries fs p = Some (Inode i) \<Longrightarrow> i < fs_next fs"
  by (simp add: fs_wf_def)

lemma fs_wf_add:
  assumes "fs_wf fs" "fs_entries fs p = None" "is_dir fs (butlast p)" "\<And>i. e = Inode i \<Longrightarrow> i < fs_next fs"
  shows "fs_wf (set_entry p (Some e) fs)"
proof (rule fs_wfI)
  have ne: "p \<noteq> []" using assms(1,2) fs_wf_root by fastforce
  then show "fs_entries (set_entry p (Some e) fs) [] = Some Directory"
    using assms(1) fs_wf_root by simp
  fix q x e' assume q: "fs_entries (set_entry p (Some e) fs) (q @ [x]) = Some e'"
  show "fs_entries (set_entry p (Some e) fs) q = Some Directory"
  proof (cases "q @ [x] = p")
    case True
    then have "butlast p = q" "q \<noteq> p" by auto
    with assms(3) show ?thesis by (simp add: is_dir_def)
  next
    case False
    with q have "fs_entries fs q = Some Directory" using fs_wf_parent [OF assms(1)] by simp
    then show ?thesis using assms(2) by auto
  qed
next
  fix q i assume "fs_entries (set_entry p (Some e) fs) q = Some (Inode i)"
  then show "i < fs_next (set_entry p (Some e) fs)"
    using assms(4) fs_wf_inode [OF assms(1)] by (simp split: if_splits)
qed

lemma fs_wf_remove:
  assumes "fs_wf fs" "fs_entries fs p = Some (Inode i)"
  shows "fs_wf (set_entry p None fs)"
proof (rule fs_wfI)
  show "fs_entries (set_entry p None fs) [] = Some Directory"
    using assms fs_wf_root by auto
  fix q x e assume "fs_entries (set_entry p None fs) (q @ [x]) = Some e"
  then show "fs_entries (set_entry p None fs) q = Some Directory"
    using fs_wf_parent [OF assms(1)] assms(2) by (fastforce split: if_splits)
next
  fix q j assume "fs_entries (set_entry p None fs) q = Some (Inode j)"
  then show "j < fs_next (set_entry p None fs)"
    using fs_wf_inode [OF assms(1)] by (simp split: if_splits)
qed

lemma fs_wf_data: "fs_wf (fs\<lparr>fs_data := d\<rparr>) = fs_wf fs"
  by (simp add: fs_wf_def)

lemma fs_wf_next: "fs_wf fs \<Longrightarrow> fs_next fs \<le> n \<Longrightarrow> fs_wf (fs\<lparr>fs_data := d, fs_next := n\<rparr>)"
  unfolding fs_wf_def by simp (meson less_le_trans)

section \<open>What the system calls change\<close>

text \<open>Directories are added on the way to \<open>p\<close>; nothing else changes.\<close>

definition dirs_added :: "fs_path \<Rightarrow> file_system \<Rightarrow> file_system \<Rightarrow> bool" where
  "dirs_added p fs fs' \<longleftrightarrow>
     fs_data fs' = fs_data fs \<and> fs_next fs' = fs_next fs
     \<and> (\<forall>q. fs_entries fs' q = fs_entries fs q
            \<or> fs_entries fs q = None \<and> fs_entries fs' q = Some Directory \<and> prefix q p)"

interpretation dirs: tx_relation "dirs_added p" for p
proof
  show "dirs_added p fs fs" for fs by (simp add: dirs_added_def)
  show "dirs_added p a b \<Longrightarrow> dirs_added p b c \<Longrightarrow> dirs_added p a c" for a b c
    unfolding dirs_added_def by metis
qed

lemma dirs_added_entry:
  "dirs_added p fs fs' \<Longrightarrow>
     fs_entries fs' q = fs_entries fs q \<or> fs_entries fs q = None \<and> fs_entries fs' q = Some Directory \<and> prefix q p"
  by (simp add: dirs_added_def)

lemma dirs_added_data: "dirs_added p fs fs' \<Longrightarrow> fs_data fs' = fs_data fs \<and> fs_next fs' = fs_next fs"
  by (simp add: dirs_added_def)

lemma dirs_added_bytes: "dirs_added p fs fs' \<Longrightarrow> file_bytes fs' q = file_bytes fs q"
  using dirs_added_entry [of p fs fs' q] dirs_added_data [of p fs fs']
  by (cases "fs_entries fs q") (auto simp: file_bytes_def split: fs_entry.split)

lemma dirs_added_file: "dirs_added p fs fs' \<Longrightarrow> is_file fs' q = is_file fs q"
  using dirs_added_entry [of p fs fs' q] by (auto simp: is_file_def)

lemma dirs_added_inode:
  "dirs_added p fs fs' \<Longrightarrow> fs_entries fs' q = Some (Inode i) \<longleftrightarrow> fs_entries fs q = Some (Inode i)"
  using dirs_added_entry [of p fs fs' q] by auto

lemma make_dir_cases:
  "(make_dir p fs = (Inr (), fs) \<and> is_dir fs p)
   \<or> (make_dir p fs = (Inr (), set_entry p (Some Directory) fs) \<and> fs_entries fs p = None)
   \<or> (\<exists>e i. make_dir p fs = (Inl e, fs) \<and> fs_entries fs p = Some (Inode i))"
  by (simp add: make_dir_def is_dir_def split: option.split fs_entry.split)

lemma make_dir_added: "prefix q p \<Longrightarrow> tx_keeps (dirs_added p) (make_dir q)"
proof (rule dirs.keepsI)
  show "prefix q p \<Longrightarrow> dirs_added p fs (snd (make_dir q fs))" for fs
    by (auto simp: make_dir_def dirs_added_def split: option.split fs_entry.split)
qed

lemma mkdir_parents_added: "tx_keeps (dirs_added p) (mkdir_parents p)"
  unfolding mkdir_parents_def by (intro dirs.keeps_for make_dir_added) simp

lemma mkdir_parents_snoc: "mkdir_parents (p @ [x]) = tx_then (mkdir_parents p) (make_dir (p @ [x]))"
  by (simp add: mkdir_parents_def tx_for_append tx_then_def tx_bind_def fun_eq_iff split: prod.splits sum.splits)

lemma mkdir_parents_run:
  "fs_wf fs \<Longrightarrow> fs_wf (snd (mkdir_parents p fs)) \<and> (fst (mkdir_parents p fs) = Inr () \<longrightarrow> is_dir (snd (mkdir_parents p fs)) p)"
proof (induction p rule: rev_induct)
  case Nil
  then show ?case
    by (simp add: mkdir_parents_def make_dir_def tx_then_def tx_bind_def is_dir_def fs_wf_root)
next
  case (snoc x p)
  obtain r fs1 where run: "mkdir_parents p fs = (r, fs1)" by fastforce
  with snoc have wf: "fs_wf fs1" and dir: "r = Inr () \<Longrightarrow> is_dir fs1 p" by auto
  show ?case
  proof (cases r)
    case (Inl e)
    with run wf show ?thesis by (simp add: mkdir_parents_snoc tx_then_def tx_bind_def)
  next
    case (Inr u)
    with dir have "fs_entries fs1 (p @ [x]) = None \<Longrightarrow> fs_wf (set_entry (p @ [x]) (Some Directory) fs1)"
      by (intro fs_wf_add [OF wf]) simp_all
    with wf make_dir_cases [of "p @ [x]" fs1] show ?thesis
      using run Inr by (auto simp: mkdir_parents_snoc tx_then_def tx_bind_def is_dir_def)
  qed
qed

lemma mkdir_parents_succeeds:
  "(\<And>q. prefix q p \<Longrightarrow> \<not> is_file fs q) \<Longrightarrow> fst (mkdir_parents p fs) = Inr ()"
proof (induction p rule: rev_induct)
  case Nil
  then show ?case
    by (auto simp: mkdir_parents_def make_dir_def tx_then_def tx_bind_def is_file_def
        split: option.splits fs_entry.splits)
next
  case (snoc x p)
  obtain r fs1 where run: "mkdir_parents p fs = (r, fs1)" by fastforce
  with snoc have r: "r = Inr ()" by (auto simp: prefix_snoc)
  have added: "dirs_added p fs fs1" using dirs.keeps_run [OF mkdir_parents_added run] .
  have "\<not> is_file fs (p @ [x])" using snoc.prems by simp
  with added have "\<not> is_file fs1 (p @ [x])" by (simp add: dirs_added_file)
  with make_dir_cases [of "p @ [x]" fs1] show ?case
    using run r by (auto simp: mkdir_parents_snoc tx_then_def tx_bind_def is_file_def)
qed

text \<open>
  The file \<open>p\<close>, created if it was missing, has the bytes \<open>b\<close> appended; a new file gets a
  new inode.
\<close>

definition appended :: "fs_path \<Rightarrow> bytes \<Rightarrow> file_system \<Rightarrow> file_system \<Rightarrow> bool" where
  "appended p b fs fs' \<longleftrightarrow>
     (\<forall>q. q \<noteq> p \<longrightarrow> fs_entries fs' q = fs_entries fs q
            \<or> fs_entries fs q = None \<and> fs_entries fs' q = Some Directory \<and> prefix q (butlast p))
     \<and> (\<exists>i. fs_entries fs' p = Some (Inode i) \<and> fs_data fs' = (fs_data fs)(i := (case file_bytes fs p of None \<Rightarrow> b | Some a \<Rightarrow> a @ b))
          \<and> (if fs_entries fs p = None then i = fs_next fs \<and> fs_next fs' = Suc i
             else fs_entries fs p = Some (Inode i) \<and> fs_next fs' = fs_next fs))"

lemma write_chunks:
  "tx_for (write_chunk i) cs fs = (Inr (), fs\<lparr>fs_data := (fs_data fs)(i := fs_data fs i @ concat cs)\<rparr>)"
  by (induction cs arbitrary: fs) (simp_all add: write_chunk_def tx_then_def tx_bind_def)

lemma open_append_cases:
  assumes "fs_wf fs" "is_dir fs (butlast p)" "p \<noteq> []"
  obtains (dir) "fs_entries fs p = Some Directory" "open_append p fs = (Inl (OSError ''is a directory''), fs)"
  | (old) i where "fs_entries fs p = Some (Inode i)" "open_append p fs = (Inr i, fs)"
  | (new) "fs_entries fs p = None" "open_append p fs = (Inr (fs_next fs),
      set_entry p (Some (Inode (fs_next fs))) (fs\<lparr>fs_data := (fs_data fs)(fs_next fs := []), fs_next := Suc (fs_next fs)\<rparr>))"
proof (cases "fs_entries fs p")
  case None
  then show ?thesis using assms(2,3) new by (simp add: open_append_def create_file_def path_exists_def)
next
  case (Some e)
  then show ?thesis using dir old by (cases e) (simp_all add: open_append_def)
qed

lemma fs_wf_create:
  assumes "fs_wf fs" "fs_entries fs p = None" "is_dir fs (butlast p)"
  shows "fs_wf (set_entry p (Some (Inode (fs_next fs))) (fs\<lparr>fs_data := d, fs_next := Suc (fs_next fs)\<rparr>))"
  using assms by (intro fs_wf_add fs_wf_next) (simp_all add: is_dir_def)

lemma appended_new:
  "fs_entries fs p = None \<Longrightarrow>
   appended p b fs (set_entry p (Some (Inode (fs_next fs))) (fs\<lparr>fs_data := (fs_data fs)(fs_next fs := b), fs_next := Suc (fs_next fs)\<rparr>))"
  by (simp add: appended_def file_bytes_def)

lemma appended_old:
  "fs_entries fs p = Some (Inode i) \<Longrightarrow> appended p b fs (fs\<lparr>fs_data := (fs_data fs)(i := fs_data fs i @ b)\<rparr>)"
  by (simp add: appended_def file_bytes_def)

lemma appended_after_dirs:
  assumes "dirs_added (butlast p) fs fs1" "appended p b fs1 fs2" "fs_entries fs1 p \<noteq> Some Directory"
  shows "appended p b fs fs2"
proof -
  have p: "fs_entries fs1 p = fs_entries fs p" using dirs_added_entry [OF assms(1)] assms(3) by metis
  have q: "fs_entries fs2 q = fs_entries fs q
      \<or> fs_entries fs q = None \<and> fs_entries fs2 q = Some Directory \<and> prefix q (butlast p)"
    if "q \<noteq> p" for q
    using that assms(2) dirs_added_entry [OF assms(1), of q] unfolding appended_def by metis
  have d: "fs_data fs1 = fs_data fs" "fs_next fs1 = fs_next fs" using dirs_added_data [OF assms(1)] by simp_all
  show ?thesis
    using assms(2) q unfolding appended_def p dirs_added_bytes [OF assms(1)] d by blast
qed

lemma appended_bytes:
  "appended p b fs fs' \<Longrightarrow> file_bytes fs' p = Some ((case file_bytes fs p of None \<Rightarrow> [] | Some a \<Rightarrow> a) @ b)"
  unfolding appended_def by (auto simp: file_bytes_def split: option.splits)

lemma appended_entry:
  "appended p b fs fs' \<Longrightarrow> q \<noteq> p \<Longrightarrow> fs_entries fs' q = Some (Inode i) \<longleftrightarrow> fs_entries fs q = Some (Inode i)"
  unfolding appended_def by (metis fs_entry.distinct(1) option.distinct(1) option.inject)

lemma appended_data:
  assumes "appended p b fs fs'" "i < fs_next fs" "fs_entries fs p \<noteq> Some (Inode i)"
  shows "fs_data fs' i = fs_data fs i"
  using assms unfolding appended_def by (auto split: if_splits)

lemma appended_next: "appended p b fs fs' \<Longrightarrow> fs_next fs \<le> fs_next fs'"
  unfolding appended_def by (auto split: if_splits)

text \<open>
  The file \<open>dst\<close> is published with the bytes \<open>b\<close>, as a second name of \<open>src\<close> or as a new
  file, if it did not exist; \<open>tmp\<close> is a name used on the way.
\<close>

definition linked :: "fs_path \<Rightarrow> fs_path \<Rightarrow> fs_path \<Rightarrow> bytes \<Rightarrow> file_system \<Rightarrow> file_system \<Rightarrow> bool" where
  "linked src tmp dst b fs fs' \<longleftrightarrow>
     (\<forall>q. q \<noteq> dst \<longrightarrow> q \<noteq> tmp \<longrightarrow> fs_entries fs' q = fs_entries fs q
            \<or> fs_entries fs q = None \<and> fs_entries fs' q = Some Directory \<and> prefix q (butlast dst))
     \<and> (fs_entries fs' tmp = fs_entries fs tmp \<or> fs_entries fs' tmp = None \<or> fs_entries fs' tmp = Some Directory)
     \<and> (\<forall>i < fs_next fs. fs_data fs' i = fs_data fs i) \<and> fs_next fs \<le> fs_next fs'
     \<and> (fs_entries fs' dst = fs_entries fs dst
        \<or> fs_entries fs dst = None
          \<and> (\<exists>i. fs_entries fs' dst = Some (Inode i) \<and> fs_data fs' i = b
                 \<and> (fs_entries fs src = Some (Inode i) \<or> fs_next fs \<le> i)))"

lemma linked_refl: "linked src tmp dst b fs fs"
  by (simp add: linked_def)

lemma not_prefix_butlast: "p \<noteq> [] \<Longrightarrow> \<not> prefix p (butlast p)"
  by (metis append_butlast_last_id append_self_conv not_Cons_self2 prefixI prefix_order.antisym)

lemma linked_after_dirs:
  assumes "dirs_added (butlast dst) fs fs1" "linked src tmp dst b fs1 fs2" "dst \<noteq> []"
  shows "linked src tmp dst b fs fs2"
proof -
  have dst: "fs_entries fs1 dst = fs_entries fs dst"
    using dirs_added_entry [OF assms(1), of dst] not_prefix_butlast [OF assms(3)] by blast
  have q: "fs_entries fs2 q = fs_entries fs q
      \<or> fs_entries fs q = None \<and> fs_entries fs2 q = Some Directory \<and> prefix q (butlast dst)"
    if "q \<noteq> dst" "q \<noteq> tmp" for q
    using that assms(2) dirs_added_entry [OF assms(1), of q] unfolding linked_def by metis
  have tmp: "fs_entries fs2 tmp = fs_entries fs tmp \<or> fs_entries fs2 tmp = None \<or> fs_entries fs2 tmp = Some Directory"
    using assms(2) dirs_added_entry [OF assms(1), of tmp] unfolding linked_def by metis
  have d: "fs_data fs1 = fs_data fs" "fs_next fs1 = fs_next fs" using dirs_added_data [OF assms(1)] by simp_all
  show ?thesis
    using assms(2) q tmp unfolding linked_def dst d dirs_added_inode [OF assms(1)] by blast
qed

lemma linked_inode:
  "linked src tmp dst b fs fs' \<Longrightarrow> q \<noteq> dst \<Longrightarrow> fs_entries fs' q = Some (Inode i) \<Longrightarrow> fs_entries fs q = Some (Inode i)"
  unfolding linked_def by (metis fs_entry.distinct(1) option.distinct(1) option.inject)

lemma link_file_cases:
  assumes "fs_entries fs src = Some (Inode i)" "is_dir fs (butlast dst)" "dst \<noteq> []"
  shows "link_file src dst fs =
    (if path_exists fs dst then (Inl (OSError ''file exists''), fs) else (Inr (), set_entry dst (Some (Inode i)) fs))"
  using assms by (simp add: link_file_def)

end
