(* ===== verification/Media_Storage.thy ===== *)
theory Media_Storage
  imports File_System Media_Paths
begin

text \<open>
  The media storage service of \<open>upm_media_storage\<close> and its two HTTP clients. The service
  owns the files of one deployment; the applications name them by storage target and key.
  The state is the configured targets, the active target of each role, the state file of
  the assignments and the file system. \<open>storage_env\<close> holds what the service takes from
  outside: SHA-256, the permissions, usage and devices of the mounts, the uuid generator
  and the settings. A request reaches the service through a network that may lose it or
  its answer.
\<close>

section \<open>Configuration and health\<close>

datatype storage_role = Staging_Role | Media_Role

record target_config =
  tc_storage_target_id :: uuid
  tc_name :: string
  tc_internal_path :: fs_path
  tc_roles :: "storage_role list"
  tc_enabled :: bool

datatype probe = Probe_ok | Probe_differs | Probe_failed

record disk_report =
  dk_readable :: bool
  dk_writable :: bool
  dk_probe :: probe
  dk_total :: int
  dk_used :: int
  dk_free :: int

record storage_env =
  sv_sha256 :: "bytes \<Rightarrow> string"
  sv_disk :: "fs_path \<Rightarrow> disk_report"
  sv_same_device :: "fs_path \<Rightarrow> fs_path \<Rightarrow> bool"
  sv_directory_size :: nat
  sv_uuid4 :: "nat \<Rightarrow> uuid"
  sv_service_token :: string
  sv_warning_free_percent :: rat
  sv_critical_free_percent :: rat

record observation =
  ob_health :: string
  ob_checked_at :: datetime
  ob_readable :: bool
  ob_writable :: bool
  ob_total_bytes :: "int option"
  ob_used_bytes :: "int option"
  ob_free_bytes :: "int option"
  ob_percent_used :: "rat option"
  ob_detail :: "string option"

record media_storage =
  ms_targets :: "target_config list"
  ms_assignments :: "storage_role \<Rightarrow> uuid"
  ms_saved :: "(storage_role \<Rightarrow> uuid) option"
  ms_files :: file_system
  ms_minted :: nat

type_synonym 'a storage_tx = "(media_storage, 'a) tx"

definition on_files :: "'a fs_tx \<Rightarrow> 'a storage_tx" where
  "on_files m s = (case m (ms_files s) of (r, fs) \<Rightarrow> (r, s\<lparr>ms_files := fs\<rparr>))"

definition storage_error :: "string \<Rightarrow> error" where
  "storage_error text = RuntimeError text"

definition storage_target :: "uuid \<Rightarrow> target_config storage_tx" where
  "storage_target target_id =
     tx_bind (tx_read (\<lambda>s. row_get tc_storage_target_id (ms_targets s) target_id)) (\<lambda>target.
     case target of
       None \<Rightarrow> tx_raise (storage_error ''Storage target is not configured or enabled.'')
     | Some t \<Rightarrow> if tc_enabled t then tx_return t
                 else tx_raise (storage_error ''Storage target is not configured or enabled.''))"

definition unavailable :: "datetime \<Rightarrow> string \<Rightarrow> observation" where
  "unavailable now detail =
     \<lparr>ob_health = ''Unavailable'', ob_checked_at = now, ob_readable = False, ob_writable = False,
      ob_total_bytes = None, ob_used_bytes = None, ob_free_bytes = None, ob_percent_used = None,
      ob_detail = Some detail\<rparr>"

definition about_target :: "target_config \<Rightarrow> string \<Rightarrow> string" where
  "about_target t text = ''Storage target '' @ [CHR 0x22] @ tc_name t @ [CHR 0x22] @ text"

definition free_percent :: "disk_report \<Rightarrow> rat" where
  "free_percent d = (if dk_total d = 0 then 0 else 100 * of_int (dk_free d) / of_int (dk_total d))"

definition observe :: "storage_env \<Rightarrow> datetime \<Rightarrow> target_config \<Rightarrow> bool \<Rightarrow> file_system \<Rightarrow> observation" where
  "observe env now t probe fs =
     (let root = tc_internal_path t; d = sv_disk env root; writable = probe \<or> dk_writable d in
      if \<not> path_exists fs root then unavailable now (about_target t '' is not mounted.'')
      else if \<not> is_dir fs root \<or> \<not> dk_readable d then unavailable now (about_target t '' is not readable.'')
      else if probe \<and> dk_probe d = Probe_failed then unavailable now (about_target t '' is not writable.'')
      else if probe \<and> dk_probe d = Probe_differs then unavailable now (about_target t '' failed probe read-back.'')
      else
        \<lparr>ob_health =
           (if \<not> writable then ''Unavailable''
            else if free_percent d < sv_critical_free_percent env then ''Critical''
            else if free_percent d < sv_warning_free_percent env then ''Warning''
            else ''Healthy''),
         ob_checked_at = now, ob_readable = True, ob_writable = writable,
         ob_total_bytes = Some (dk_total d), ob_used_bytes = Some (dk_used d), ob_free_bytes = Some (dk_free d),
         ob_percent_used = Some (if dk_total d = 0 then 100 else 100 * of_int (dk_used d) / of_int (dk_total d)),
         ob_detail = (if writable then None else Some (about_target t '' is not writable.''))\<rparr>)"

definition storage_path :: "target_config \<Rightarrow> string \<Rightarrow> fs_path fs_tx" where
  "storage_path t key =
     tx_bind (tx_lift (safe_key key)) (\<lambda>relative.
     tx_bind (tx_read (\<lambda>fs. path_exists fs (tc_internal_path t))) (\<lambda>mounted.
     let result = tc_internal_path t @ path_parts relative in
     if \<not> mounted then tx_raise (OSError ''no such directory'')
     else if \<not> prefix (tc_internal_path t) result
     then tx_raise (storage_error ''Storage key escapes its configured target.'')
     else tx_return result))"

definition active :: "storage_role \<Rightarrow> target_config storage_tx" where
  "active role = tx_bind (tx_read (\<lambda>s. ms_assignments s role)) storage_target"

definition activate :: "storage_env \<Rightarrow> datetime \<Rightarrow> storage_role \<Rightarrow> uuid \<Rightarrow> target_config storage_tx" where
  "activate env now role target_id =
     tx_bind (storage_target target_id) (\<lambda>t.
     if role \<notin> set (tc_roles t)
     then tx_raise (storage_error (about_target t (case role of
            Staging_Role \<Rightarrow> '' is not compatible with staging.'' | Media_Role \<Rightarrow> '' is not compatible with media.'')))
     else
       tx_bind (tx_read (\<lambda>s. observe env now t True (ms_files s))) (\<lambda>result.
       if ob_health result \<in> {''Unavailable'', ''Critical''}
       then tx_raise (storage_error (case ob_detail result of
              Some d \<Rightarrow> d | None \<Rightarrow> about_target t '' has critical capacity.''))
       else
         tx_then (tx_write (\<lambda>s. s\<lparr>ms_assignments := (ms_assignments s)(role := target_id)\<rparr>))
           (tx_then (tx_write (\<lambda>s. s\<lparr>ms_saved := Some (ms_assignments s)\<rparr>)) (tx_return t))))"

section \<open>Requests on staged data\<close>

text \<open>The chunks of a request body, and whether it ended rather than broke off.\<close>

record request_body =
  rb_chunks :: "bytes list"
  rb_complete :: bool

record allocation =
  al_storage_target_id :: uuid
  al_storage_key :: string
  al_name :: string
  al_internal_path :: fs_path

record staged_append =
  sa_storage_target_id :: uuid
  sa_storage_key :: string
  sa_confirmed_offset :: int

record staged_object =
  so_storage_target_id :: uuid
  so_storage_key :: string
  so_size_bytes :: int
  so_sha256 :: string

record committed_object =
  co_storage_target_id :: uuid
  co_storage_key :: string
  co_name :: string
  co_internal_path :: fs_path
  co_sha256 :: string
  co_size_bytes :: int

definition stat_size :: "storage_env \<Rightarrow> file_system \<Rightarrow> fs_path \<Rightarrow> int" where
  "stat_size env fs p =
     (case fs_entries fs p of
        None \<Rightarrow> 0
      | Some Directory \<Rightarrow> int (sv_directory_size env)
      | Some (Inode i) \<Rightarrow> int (length (fs_data fs i)))"

definition storage_uuid4 :: "storage_env \<Rightarrow> uuid storage_tx" where
  "storage_uuid4 env s = (Inr (sv_uuid4 env (ms_minted s)), s\<lparr>ms_minted := Suc (ms_minted s)\<rparr>)"

definition staging_key :: "uuid \<Rightarrow> string" where
  "staging_key u = ''staging/'' @ uuid_str u @ ''.upload''"

definition allocate :: "storage_env \<Rightarrow> allocation storage_tx" where
  "allocate env =
     tx_bind (active Staging_Role) (\<lambda>t.
     tx_bind (storage_uuid4 env) (\<lambda>u.
     tx_return \<lparr>al_storage_target_id = tc_storage_target_id t, al_storage_key = staging_key u,
       al_name = tc_name t, al_internal_path = tc_internal_path t\<rparr>))"

text \<open>\<open>async for chunk in request.stream(): handle.write(chunk)\<close>\<close>

definition write_body :: "nat \<Rightarrow> request_body \<Rightarrow> unit fs_tx" where
  "write_body i body =
     tx_then (tx_for (write_chunk i) (rb_chunks body))
       (if rb_complete body then tx_return () else tx_raise (TransportError ''client disconnected''))"

definition partial_path :: "fs_path \<Rightarrow> uuid \<Rightarrow> fs_path" where
  "partial_path p u = butlast p @ [''.'' @ last p @ ''.'' @ uuid_str u @ ''.partial'']"

definition write_staging :: "storage_env \<Rightarrow> datetime \<Rightarrow> uuid \<Rightarrow> string \<Rightarrow> request_body \<Rightarrow> staged_object storage_tx" where
  "write_staging env now target_id key body =
     tx_bind (storage_target target_id) (\<lambda>t.
     if Staging_Role \<notin> set (tc_roles t) then tx_raise (storage_error ''Target cannot store staged data.'')
     else
       tx_bind (tx_read (\<lambda>s. observe env now t True (ms_files s))) (\<lambda>observation.
       if \<not> ob_writable observation
       then tx_raise (storage_error (case ob_detail observation of
              Some d \<Rightarrow> d | None \<Rightarrow> about_target t '' is not writable.''))
       else
         tx_bind (on_files (storage_path t key)) (\<lambda>p.
         tx_then (on_files (mkdir_parents (butlast p)))
           (tx_bind (storage_uuid4 env) (\<lambda>u.
            let temporary = partial_path p u in
            tx_then (on_files (tx_finally
                (tx_then (tx_bind (create_file temporary) (\<lambda>i. write_body i body)) (link_file temporary p))
                (unlink_file temporary)))
              (tx_bind (tx_read (\<lambda>s. file_bytes (ms_files s) p)) (\<lambda>content.
               case content of
                 None \<Rightarrow> tx_raise (OSError ''no such file'')
               | Some b \<Rightarrow> tx_return \<lparr>so_storage_target_id = target_id, so_storage_key = key,
                   so_size_bytes = int (length (concat (rb_chunks body))),
                   so_sha256 = sv_sha256 env b\<rparr>)))))))"

definition append_staging ::
  "storage_env \<Rightarrow> uuid \<Rightarrow> string \<Rightarrow> int \<Rightarrow> request_body \<Rightarrow> staged_append storage_tx" where
  "append_staging env target_id key offset body =
     (if offset < 0 then tx_raise (HTTPException 422 ''offset'')
      else
        tx_bind (storage_target target_id) (\<lambda>t.
        tx_bind (on_files (storage_path t key)) (\<lambda>p.
        tx_then (on_files (mkdir_parents (butlast p)))
          (tx_bind (tx_read (\<lambda>s. stat_size env (ms_files s) p)) (\<lambda>current.
           if current \<noteq> offset then tx_raise (HTTPException 409 (''confirmed_offset '' @ str_int current))
           else
             tx_then (on_files (tx_bind (open_append p) (\<lambda>i. write_body i body)))
               (tx_return \<lparr>sa_storage_target_id = target_id, sa_storage_key = key,
                  sa_confirmed_offset = current + int (length (concat (rb_chunks body)))\<rparr>))))))"

definition release :: "uuid \<Rightarrow> string \<Rightarrow> unit storage_tx" where
  "release target_id key =
     tx_bind (storage_target target_id) (\<lambda>t.
     tx_bind (on_files (storage_path t key)) (\<lambda>p. on_files (unlink_file p)))"

text \<open>
  The two routes that stream a range, of staged data and of objects, differ in the wording
  of their errors. Without a limit the rest of the file is sent.
\<close>

definition read_range ::
  "string \<Rightarrow> uuid \<Rightarrow> string \<Rightarrow> int \<Rightarrow> int option \<Rightarrow> bytes storage_tx" where
  "read_range kind target_id key offset limit =
     (if offset < 0 \<or> (case limit of None \<Rightarrow> False | Some n \<Rightarrow> n < 1 \<or> 67108864 < n)
      then tx_raise (HTTPException 422 ''range'')
      else
        tx_bind (storage_target target_id) (\<lambda>t.
        tx_bind (on_files (storage_path t key)) (\<lambda>p.
        tx_bind (tx_read (\<lambda>s. file_bytes (ms_files s) p)) (\<lambda>content.
        case content of
          None \<Rightarrow> tx_raise (HTTPException 404 (kind @ '' object not found''))
        | Some b \<Rightarrow>
            let size = int (length b); count = min (case limit of None \<Rightarrow> size | Some n \<Rightarrow> n) (size - offset) in
            if size < offset then tx_raise (HTTPException 416 (''offset exceeds '' @ kind @ '' object size''))
            else tx_return (take (nat count) (drop (nat offset) b))))))"

definition staged :: "uuid \<Rightarrow> string \<Rightarrow> int \<Rightarrow> int option \<Rightarrow> bytes storage_tx" where
  "staged = read_range ''staged''"

definition read_object :: "uuid \<Rightarrow> string \<Rightarrow> int \<Rightarrow> int option \<Rightarrow> bytes storage_tx" where
  "read_object = read_range ''media''"

section \<open>Publication\<close>

definition object_key :: "string \<Rightarrow> string" where
  "object_key sha256 = ''objects/sha256/'' @ take 2 sha256 @ ''/'' @ sha256"

definition is_sha256 :: "string \<Rightarrow> bool" where
  "is_sha256 s \<longleftrightarrow> length s = 64 \<and> set s \<subseteq> set ''0123456789abcdef''"

text \<open>A copy onto another device: through a temporary file that is verified before it is linked.\<close>

definition copy_verified :: "storage_env \<Rightarrow> fs_path \<Rightarrow> fs_path \<Rightarrow> fs_path \<Rightarrow> string \<Rightarrow> unit fs_tx" where
  "copy_verified env source temporary destination sha256 =
     tx_finally
       (tx_bind (tx_read (\<lambda>fs. file_bytes fs source)) (\<lambda>content.
        case content of
          None \<Rightarrow> tx_raise (OSError ''no such file'')
        | Some b \<Rightarrow>
            tx_bind (create_file temporary) (\<lambda>i.
            tx_then (write_chunk i b)
              (tx_bind (tx_read (\<lambda>fs. fs_data fs i)) (\<lambda>copied.
               if sv_sha256 env copied \<noteq> sha256
               then tx_raise (storage_error ''Committed object failed SHA-256 verification.'')
               else link_file temporary destination)))))
       (unlink_file temporary)"

definition publish ::
  "storage_env \<Rightarrow> bool \<Rightarrow> fs_path \<Rightarrow> fs_path \<Rightarrow> fs_path \<Rightarrow> string \<Rightarrow> unit fs_tx" where
  "publish env same_device source temporary destination sha256 =
     tx_bind (tx_read (\<lambda>fs. path_exists fs destination)) (\<lambda>published.
     if published then tx_return ()
     else if same_device
     then
       tx_try (link_file source destination) (\<lambda>r.
         case r of
           Inr u \<Rightarrow> tx_return ()
         | Inl e \<Rightarrow> tx_bind (tx_read (\<lambda>fs. path_exists fs destination)) (\<lambda>there.
             if there then tx_return () else tx_raise e))
     else copy_verified env source temporary destination sha256)"

text \<open>The UUID of the temporary name is drawn whether or not a copy needs it.\<close>

definition commit :: "storage_env \<Rightarrow> uuid \<Rightarrow> string \<Rightarrow> string \<Rightarrow> committed_object storage_tx" where
  "commit env staging_target_id key sha256 =
     (if \<not> is_sha256 sha256 then tx_raise (HTTPException 422 ''sha256'')
      else
        tx_bind (storage_target staging_target_id) (\<lambda>from.
        tx_bind (on_files (storage_path from key)) (\<lambda>source.
        tx_bind (tx_read (\<lambda>s. file_bytes (ms_files s) source)) (\<lambda>content.
        if (case content of None \<Rightarrow> True | Some b \<Rightarrow> sv_sha256 env b \<noteq> sha256)
        then tx_raise (storage_error ''Staged object is missing or failed SHA-256 verification.'')
        else
          tx_bind (active Media_Role) (\<lambda>t.
          tx_bind (on_files (storage_path t (object_key sha256))) (\<lambda>destination.
          tx_then (on_files (mkdir_parents (butlast destination)))
            (tx_bind (storage_uuid4 env) (\<lambda>u.
             tx_then (on_files (publish env (sv_same_device env (tc_internal_path from) (tc_internal_path t))
                 source (partial_path destination u) destination sha256))
               (tx_bind (tx_read (\<lambda>s. stat_size env (ms_files s) destination)) (\<lambda>size.
                tx_return \<lparr>co_storage_target_id = tc_storage_target_id t, co_storage_key = object_key sha256,
                  co_name = tc_name t, co_internal_path = tc_internal_path t, co_sha256 = sha256,
                  co_size_bytes = size\<rparr>))))))))))"

section \<open>The clients\<close>

definition authorized :: "storage_env \<Rightarrow> string \<Rightarrow> 'a storage_tx \<Rightarrow> 'a storage_tx" where
  "authorized env authorization m =
     (if authorization \<noteq> ''Bearer '' @ sv_service_token env
      then tx_raise (HTTPException 401 ''invalid media storage service credential'') else m)"

text \<open>Status, detail and code of the answer to a request that raised.\<close>

fun storage_failure :: "error \<Rightarrow> nat \<times> string \<times> string" where
  "storage_failure (HTTPException status detail) = (status, detail, ''storage_error'')"
| "storage_failure (RuntimeError text) = (422, text, ''storage_error'')"
| "storage_failure (OSError text) =
     (507, ''The selected storage target could not persist the upload.'', ''storage_write_error'')"
| "storage_failure e = (500, ''Media Storage service is unavailable.'', ''storage_error'')"

text \<open>What the network does to one request: carry it, lose it, or lose its answer.\<close>

datatype fault = Deliver | Lose_request | Lose_reply

record storage_link =
  sl_service :: media_storage
  sl_faults :: "fault list"

type_synonym 'a storage_call = "(storage_link, 'a) tx"

definition next_fault :: "storage_link \<Rightarrow> fault" where
  "next_fault w = (case sl_faults w of [] \<Rightarrow> Deliver | f # fs \<Rightarrow> f)"

definition storage_request :: "(error \<Rightarrow> error) \<Rightarrow> 'a storage_tx \<Rightarrow> 'a storage_call" where
  "storage_request failure m w =
     (let w' = w\<lparr>sl_faults := tl (sl_faults w)\<rparr> in
      case next_fault w of
        Lose_request \<Rightarrow> (Inl (MediaStorageUnavailable ''Media Storage service is unavailable.''), w')
      | Lose_reply \<Rightarrow> (Inl (MediaStorageUnavailable ''Media Storage service is unavailable.''),
                       w'\<lparr>sl_service := snd (m (sl_service w))\<rparr>)
      | Deliver \<Rightarrow> (case m (sl_service w) of (r, s') \<Rightarrow>
          ((case r of Inl e \<Rightarrow> Inl (failure e) | Inr x \<Rightarrow> Inr x), w'\<lparr>sl_service := s'\<rparr>)))"

text \<open>\<open>MediaStorageClient\<close> reports every failure alike; \<open>AsyncMediaStorageClient\<close> keeps the status.\<close>

definition sync_request :: "'a storage_tx \<Rightarrow> 'a storage_call" where
  "sync_request = storage_request (\<lambda>e. MediaStorageUnavailable ''Media Storage service is unavailable.'')"

definition async_request :: "'a storage_tx \<Rightarrow> 'a storage_call" where
  "async_request = storage_request (\<lambda>e. case storage_failure e of
     (status, detail, code) \<Rightarrow> MediaStorageOperationError detail status code)"

text \<open>
  An upload streamed from a generator. When the generator raises, the service sees the body
  break off after the chunks already sent, and the caller sees the generator's exception.
\<close>

definition async_append ::
  "storage_env \<Rightarrow> string \<Rightarrow> uuid \<Rightarrow> string \<Rightarrow> int \<Rightarrow> bytes list \<times> error option \<Rightarrow> staged_append storage_call" where
  "async_append env token target_id key offset stream =
     tx_try (async_request (authorized env (''Bearer '' @ token)
         (append_staging env target_id key offset
           \<lparr>rb_chunks = fst stream, rb_complete = (snd stream = None)\<rparr>)))
       (\<lambda>r. case snd stream of None \<Rightarrow> tx_lift r | Some e \<Rightarrow> tx_raise e)"

definition async_allocate :: "storage_env \<Rightarrow> string \<Rightarrow> allocation storage_call" where
  "async_allocate env token = async_request (authorized env (''Bearer '' @ token) (allocate env))"

definition async_commit :: "storage_env \<Rightarrow> string \<Rightarrow> uuid \<Rightarrow> string \<Rightarrow> string \<Rightarrow> committed_object storage_call" where
  "async_commit env token target_id key sha256 =
     async_request (authorized env (''Bearer '' @ token) (commit env target_id key sha256))"

definition sync_read_object :: "storage_env \<Rightarrow> string \<Rightarrow> uuid \<Rightarrow> string \<Rightarrow> int \<Rightarrow> int \<Rightarrow> bytes storage_call" where
  "sync_read_object env token target_id key offset limit =
     sync_request (authorized env (''Bearer '' @ token) (read_object target_id key offset (Some limit)))"

section \<open>What the requests change\<close>

definition file_path :: "target_config \<Rightarrow> string \<Rightarrow> fs_path" where
  "file_path t key = tc_internal_path t @ pp_tail (parse_path key)"

lemma storage_target_run:
  "storage_target i s =
     ((case row_get tc_storage_target_id (ms_targets s) i of
         Some t \<Rightarrow> if tc_enabled t then Inr t else Inl (storage_error ''Storage target is not configured or enabled.'')
       | None \<Rightarrow> Inl (storage_error ''Storage target is not configured or enabled.'')), s)"
  by (simp add: storage_target_def tx_bind_def split: option.split)

lemma storage_path_run:
  "storage_path t key fs =
     ((case safe_key key of
         Inl e \<Rightarrow> Inl e
       | Inr rel \<Rightarrow> if path_exists fs (tc_internal_path t) then Inr (file_path t key) else Inl (OSError ''no such directory'')), fs)"
  using safe_key_tail [of key]
  by (auto simp: storage_path_def tx_bind_def Let_def file_path_def relative_parts split: sum.split)

lemma on_files_run: "m (ms_files s) = (r, fs) \<Longrightarrow> on_files m s = (r, s\<lparr>ms_files := fs\<rparr>)"
  by (simp add: on_files_def)

lemma write_body_run:
  "write_body i body fs =
     ((if rb_complete body then Inr () else Inl (TransportError ''client disconnected'')),
      fs\<lparr>fs_data := (fs_data fs)(i := fs_data fs i @ concat (rb_chunks body))\<rparr>)"
  by (simp add: write_body_def tx_then_def tx_bind_def write_chunks)

lemma append_file:
  assumes wf: "fs_wf fs" "is_dir fs (butlast p)" "p \<noteq> []" "fs_entries fs p \<noteq> Some Directory"
  shows "\<exists>fs'. tx_bind (open_append p) (\<lambda>i. write_body i body) fs =
      ((if rb_complete body then Inr () else Inl (TransportError ''client disconnected'')), fs')
    \<and> fs_wf fs' \<and> appended p (concat (rb_chunks body)) fs fs'"
proof (rule open_append_cases [OF wf(1-3)])
  assume "fs_entries fs p = Some Directory"
  with wf(4) show ?thesis by simp
next
  fix i assume old: "fs_entries fs p = Some (Inode i)" "open_append p fs = (Inr i, fs)"
  then show ?thesis using wf(1) appended_old [OF old(1)]
    by (simp add: tx_bind_def write_body_run fs_wf_data)
next
  assume new: "fs_entries fs p = None" "open_append p fs = (Inr (fs_next fs),
      set_entry p (Some (Inode (fs_next fs))) (fs\<lparr>fs_data := (fs_data fs)(fs_next fs := []), fs_next := Suc (fs_next fs)\<rparr>))"
  then show ?thesis using fs_wf_create [OF wf(1) new(1) wf(2)]
    by (simp add: tx_bind_def write_body_run fs_wf_data appended_def file_bytes_def)
qed

text \<open>What an append does once its target and key are accepted.\<close>

definition append_tail :: "storage_env \<Rightarrow> uuid \<Rightarrow> string \<Rightarrow> int \<Rightarrow> request_body \<Rightarrow> fs_path \<Rightarrow> staged_append storage_tx" where
  "append_tail env i key offset body p =
     tx_then (on_files (mkdir_parents (butlast p)))
       (tx_bind (tx_read (\<lambda>s. stat_size env (ms_files s) p)) (\<lambda>current.
        if current \<noteq> offset then tx_raise (HTTPException 409 (''confirmed_offset '' @ str_int current))
        else
          tx_then (on_files (tx_bind (open_append p) (\<lambda>i. write_body i body)))
            (tx_return \<lparr>sa_storage_target_id = i, sa_storage_key = key,
               sa_confirmed_offset = current + int (length (concat (rb_chunks body)))\<rparr>)))"

lemma append_staging_accepts:
  assumes "0 \<le> offset" "row_get tc_storage_target_id (ms_targets s) i = Some t" "tc_enabled t"
    "safe_key key = Inr rel" "path_exists (ms_files s) (tc_internal_path t)"
  shows "append_staging env i key offset body s = append_tail env i key offset body (file_path t key) s"
  using assms
  by (simp add: append_staging_def append_tail_def tx_bind_def storage_target_run on_files_def storage_path_run)

lemma append_staging_target:
  "(\<exists>e. append_staging env i key offset body s = (Inl e, s))
   \<or> (\<exists>t. row_get tc_storage_target_id (ms_targets s) i = Some t
        \<and> append_staging env i key offset body s = append_tail env i key offset body (file_path t key) s)"
proof (cases "row_get tc_storage_target_id (ms_targets s) i")
  case None
  then show ?thesis by (auto simp: append_staging_def tx_bind_def storage_target_run)
next
  case (Some t)
  show ?thesis
  proof (cases "0 \<le> offset \<and> tc_enabled t \<and> \<not> isl (safe_key key) \<and> path_exists (ms_files s) (tc_internal_path t)")
    case True
    with Some append_staging_accepts show ?thesis by (cases "safe_key key") auto
  next
    case False
    with Some have "\<exists>e. append_staging env i key offset body s = (Inl e, s)"
      by (cases "safe_key key")
        (auto simp: append_staging_def tx_bind_def storage_target_run on_files_def storage_path_run)
    then show ?thesis by blast
  qed
qed

lemma append_tail_cases:
  assumes wf: "fs_wf (ms_files s)" and run: "append_tail env i key offset body p s = (r, s')"
  obtains (refused) e fs' where "r = Inl e" "s' = s\<lparr>ms_files := fs'\<rparr>" "fs_wf fs'"
      "dirs_added (butlast p) (ms_files s) fs'"
    | (written) fs' where "s' = s\<lparr>ms_files := fs'\<rparr>" "fs_wf fs'"
      "appended p (concat (rb_chunks body)) (ms_files s) fs'" "stat_size env (ms_files s) p = offset"
      "r = (if rb_complete body
        then Inr \<lparr>sa_storage_target_id = i, sa_storage_key = key,
          sa_confirmed_offset = offset + int (length (concat (rb_chunks body)))\<rparr>
        else Inl (TransportError ''client disconnected''))"
proof -
  obtain m fs1 where mk: "mkdir_parents (butlast p) (ms_files s) = (m, fs1)" by fastforce
  have wf1: "fs_wf fs1" and dir1: "m = Inr () \<Longrightarrow> is_dir fs1 (butlast p)"
    using mkdir_parents_run [OF wf, of "butlast p"] mk by auto
  have add: "dirs_added (butlast p) (ms_files s) fs1"
    using dirs.keeps_run [OF mkdir_parents_added mk] .
  show thesis
  proof (cases "m = Inr () \<and> stat_size env fs1 p = offset \<and> p \<noteq> [] \<and> fs_entries fs1 p \<noteq> Some Directory")
    case False
    then have "\<exists>e. r = Inl e \<and> s' = s\<lparr>ms_files := fs1\<rparr>" using run mk wf1 fs_wf_root [OF wf1]
      by (cases m) (auto simp: append_tail_def tx_then_def tx_bind_def on_files_def open_append_def split: if_splits)
    then show thesis using refused wf1 add by blast
  next
    case ok: True
    then obtain fs2 where app: "tx_bind (open_append p) (\<lambda>i. write_body i body) fs1 =
        ((if rb_complete body then Inr () else Inl (TransportError ''client disconnected'')), fs2)"
      and wf2: "fs_wf fs2" and ad: "appended p (concat (rb_chunks body)) fs1 fs2"
      using append_file [OF wf1 dir1, of body] by blast
    have "fs_entries fs1 p = fs_entries (ms_files s) p" using dirs_added_entry [OF add, of p] ok by blast
    then have st: "stat_size env (ms_files s) p = offset"
      using ok dirs_added_data [OF add] by (simp add: stat_size_def split: option.splits fs_entry.splits)
    show thesis
    proof (rule written [OF _ wf2 appended_after_dirs [OF add ad] st])
      show "s' = s\<lparr>ms_files := fs2\<rparr>"
        using run mk ok app by (simp add: append_tail_def tx_then_def tx_bind_def on_files_def split: if_splits)
      show "fs_entries fs1 p \<noteq> Some Directory" using ok by blast
      show "r = (if rb_complete body
          then Inr \<lparr>sa_storage_target_id = i, sa_storage_key = key,
            sa_confirmed_offset = offset + int (length (concat (rb_chunks body)))\<rparr>
          else Inl (TransportError ''client disconnected''))"
        using run mk ok app by (simp add: append_tail_def tx_then_def tx_bind_def on_files_def split: if_splits)
    qed
  qed
qed

text \<open>
  An append is refused and has at most created directories, or every chunk that arrived is
  at the end of the file, also when the body broke off.
\<close>

lemma append_staging_cases:
  assumes wf: "fs_wf (ms_files s)" and run: "append_staging env i key offset body s = (r, s')"
  obtains (same) e where "r = Inl e" "s' = s"
    | (refused) e t fs' where "r = Inl e" "row_get tc_storage_target_id (ms_targets s) i = Some t"
      "s' = s\<lparr>ms_files := fs'\<rparr>" "fs_wf fs'" "dirs_added (butlast (file_path t key)) (ms_files s) fs'"
    | (written) t fs' where "row_get tc_storage_target_id (ms_targets s) i = Some t"
      "s' = s\<lparr>ms_files := fs'\<rparr>" "fs_wf fs'"
      "appended (file_path t key) (concat (rb_chunks body)) (ms_files s) fs'"
      "stat_size env (ms_files s) (file_path t key) = offset"
      "r = (if rb_complete body
        then Inr \<lparr>sa_storage_target_id = i, sa_storage_key = key,
          sa_confirmed_offset = offset + int (length (concat (rb_chunks body)))\<rparr>
        else Inl (TransportError ''client disconnected''))"
proof -
  consider (bad) e where "append_staging env i key offset body s = (Inl e, s)"
    | (good) t where "row_get tc_storage_target_id (ms_targets s) i = Some t"
        "append_staging env i key offset body s = append_tail env i key offset body (file_path t key) s"
    using append_staging_target by blast
  then show thesis
  proof cases
    case bad
    with run show thesis by (intro same [of e]) simp_all
  next
    case good
    with run have "append_tail env i key offset body (file_path t key) s = (r, s')" by simp
    then show thesis
      by (cases rule: append_tail_cases [OF wf]) (use good(1) refused written in blast)+
  qed
qed

subsection \<open>Keys\<close>

lemma clean_key:
  assumes "clean_segments segs" "key = join_with ''/'' segs"
  shows "safe_key key = Inr (parse_path key)" "pp_tail (parse_path key) = segs"
  using assms parse_clean_segments [OF assms(1)] join_clean_not_Nil [OF assms(1)]
  by (auto simp: safe_key_def Let_def path_is_absolute_def path_parts_def clean_segments_def bad_segments_def)

lemma hex_plain: "set s \<subseteq> set ''0123456789abcdef'' \<Longrightarrow> c \<in> set s \<Longrightarrow> c \<noteq> CHR ''/'' \<and> c \<noteq> CHR ''.''"
  by (drule (1) subsetD) auto

lemma object_key_segments:
  assumes "is_sha256 sha"
  shows "safe_key (object_key sha) = Inr (parse_path (object_key sha))"
    and "pp_tail (parse_path (object_key sha)) = [''objects'', ''sha256'', take 2 sha, sha]"
proof -
  have hex: "set sha \<subseteq> set ''0123456789abcdef''" and ne: "sha \<noteq> []" "take 2 sha \<noteq> []"
    using assms by (auto simp: is_sha256_def)
  have plain: "CHR ''/'' \<notin> set sha" "CHR ''.'' \<notin> set sha" using hex_plain [OF hex] by blast+
  then have two: "CHR ''/'' \<notin> set (take 2 sha)" "CHR ''.'' \<notin> set (take 2 sha)"
    using set_take_subset by fast+
  have "clean_segments [''objects'', ''sha256'', take 2 sha, sha]"
    using plain two plain_segment [OF ne(1)] plain_segment [OF ne(2)]
    by (simp add: clean_segments_def bad_segments_def)
  note clean_key [OF this, of "object_key sha"]
  then show "safe_key (object_key sha) = Inr (parse_path (object_key sha))"
    and "pp_tail (parse_path (object_key sha)) = [''objects'', ''sha256'', take 2 sha, sha]"
    by (simp_all add: object_key_def)
qed

lemma staging_key_segments:
  "safe_key (staging_key u) = Inr (parse_path (staging_key u))"
  "pp_tail (parse_path (staging_key u)) = [''staging'', uuid_str u @ ''.upload'']"
proof -
  have "CHR ''/'' \<notin> set (uuid_str u @ ''.upload'')" using uuid_str_plain [of "CHR ''/''" u] by auto
  moreover have "uuid_str u @ ''.upload'' \<notin> set bad_segments" by (auto simp: bad_segments_def)
  ultimately have "clean_segments [''staging'', uuid_str u @ ''.upload'']"
    by (simp add: clean_segments_def bad_segments_def)
  note clean_key [OF this, of "staging_key u"]
  then show "safe_key (staging_key u) = Inr (parse_path (staging_key u))"
    "pp_tail (parse_path (staging_key u)) = [''staging'', uuid_str u @ ''.upload'']"
    by (simp_all add: staging_key_def)
qed

definition object_path :: "target_config \<Rightarrow> string \<Rightarrow> fs_path" where
  "object_path t sha = tc_internal_path t @ [''objects'', ''sha256'', take 2 sha, sha]"

definition staging_path :: "target_config \<Rightarrow> uuid \<Rightarrow> fs_path" where
  "staging_path t u = tc_internal_path t @ [''staging'', uuid_str u @ ''.upload'']"

lemma file_path_key [simp]:
  "is_sha256 sha \<Longrightarrow> file_path t (object_key sha) = object_path t sha"
  "file_path t (staging_key u) = staging_path t u"
  by (simp_all add: file_path_def object_path_def staging_path_def object_key_segments staging_key_segments)

lemma partial_path_simps:
  "p \<noteq> [] \<Longrightarrow> partial_path p u \<noteq> p" "butlast (partial_path p u) = butlast p" "partial_path p u \<noteq> []"
  "last (partial_path p u) = ''.'' @ last p @ ''.'' @ uuid_str u @ ''.partial''"
proof -
  show "p \<noteq> [] \<Longrightarrow> partial_path p u \<noteq> p"
  proof
    assume "p \<noteq> []" "partial_path p u = p"
    then have "last p = ''.'' @ last p @ ''.'' @ uuid_str u @ ''.partial''"
      unfolding partial_path_def by (metis last_snoc)
    then have "length (last p) = length (''.'' @ last p @ ''.'' @ uuid_str u @ ''.partial'')" by (rule arg_cong)
    then show False by simp
  qed
qed (simp_all add: partial_path_def)

subsection \<open>Publication\<close>

lemma copy_verified_run:
  assumes wf: "fs_wf fs" and src: "file_bytes fs src = Some b" and sha: "sv_sha256 env b = sha"
    and dst: "dst \<noteq> []" "is_dir fs (butlast dst)" "fs_entries fs dst = None"
    and tmp: "tmp \<noteq> []" "butlast tmp = butlast dst" "tmp \<noteq> dst"
  shows "case copy_verified env src tmp dst sha fs of (r, fs') \<Rightarrow>
    fs_wf fs' \<and> linked src tmp dst b fs fs' \<and> (r = Inr () \<longrightarrow> path_exists fs' dst)"
proof (cases "fs_entries fs tmp")
  case None
  define n where "n = fs_next fs"
  define fs1 where "fs1 = set_entry tmp (Some (Inode n)) (fs\<lparr>fs_data := (fs_data fs)(n := b), fs_next := Suc n\<rparr>)"
  have wf1: "fs_wf fs1" unfolding fs1_def n_def using fs_wf_create [OF wf None] dst(2) tmp(2) by simp
  have dir1: "is_dir fs1 (butlast dst)" "fs_entries fs1 dst = None"
    using dst tmp not_prefix_butlast [OF tmp(1)] by (auto simp: fs1_def is_dir_def)
  have wf2: "fs_wf (set_entry dst (Some (Inode n)) fs1)"
    by (rule fs_wf_add [OF wf1]) (use dir1 in \<open>simp_all add: fs1_def\<close>)
  have wf3: "fs_wf (set_entry tmp None (set_entry dst (Some (Inode n)) fs1))"
    by (rule fs_wf_remove [OF wf2, of _ n]) (use tmp in \<open>simp add: fs1_def\<close>)
  have "copy_verified env src tmp dst sha fs = (Inr (), set_entry tmp None (set_entry dst (Some (Inode n)) fs1))"
    using None src sha dst tmp dir1
    by (simp add: copy_verified_def tx_finally_def tx_try_def tx_bind_def tx_then_def create_file_def path_exists_def
        write_chunk_def link_file_def unlink_file_def fs1_def n_def set_entry_def is_dir_def)
  moreover have "linked src tmp dst b fs (set_entry tmp None (set_entry dst (Some (Inode n)) fs1))"
    using None dst tmp by (auto simp: linked_def fs1_def n_def)
  ultimately show ?thesis using wf3 tmp by (simp add: path_exists_def)
next
  case (Some e)
  then have run: "copy_verified env src tmp dst sha fs = (case unlink_file tmp fs of
      (Inl e, fs') \<Rightarrow> (Inl e, fs') | (Inr u, fs') \<Rightarrow> (Inl (OSError ''file exists''), fs'))"
    using src by (simp add: copy_verified_def tx_finally_def tx_try_def tx_bind_def tx_then_def create_file_def
        path_exists_def split: prod.split sum.split)
  show ?thesis
  proof (cases e)
    case Directory
    with run Some wf linked_refl show ?thesis by (simp add: unlink_file_def)
  next
    case (Inode i)
    with run Some wf fs_wf_remove [OF wf, of tmp i] tmp(3) show ?thesis
      by (auto simp: unlink_file_def linked_def)
  qed
qed

lemma publish_run:
  assumes wf: "fs_wf fs" and src: "file_bytes fs src = Some b" and sha: "sv_sha256 env b = sha"
    and dst: "dst \<noteq> []" "is_dir fs (butlast dst)"
    and tmp: "tmp \<noteq> []" "butlast tmp = butlast dst" "tmp \<noteq> dst"
  shows "case publish env same src tmp dst sha fs of (r, fs') \<Rightarrow>
    fs_wf fs' \<and> linked src tmp dst b fs fs' \<and> (r = Inr () \<longrightarrow> path_exists fs' dst)"
proof (cases "fs_entries fs dst")
  case (Some e)
  then have "publish env same src tmp dst sha fs = (Inr (), fs)"
    by (simp add: publish_def tx_bind_def path_exists_def)
  with wf Some show ?thesis by (simp add: linked_refl path_exists_def)
next
  case None
  show ?thesis
  proof (cases same)
    case True
    obtain i where i: "fs_entries fs src = Some (Inode i)" "fs_data fs i = b"
      using src by (auto simp: file_bytes_def split: option.splits fs_entry.splits)
    have "publish env same src tmp dst sha fs = (Inr (), set_entry dst (Some (Inode i)) fs)"
      using True None i dst by (simp add: publish_def tx_bind_def tx_try_def path_exists_def link_file_def)
    moreover have "fs_wf (set_entry dst (Some (Inode i)) fs)"
      using fs_wf_inode [OF wf i(1)] by (intro fs_wf_add [OF wf None dst(2)]) simp
    moreover have "linked src tmp dst b fs (set_entry dst (Some (Inode i)) fs)"
      using None i tmp by (auto simp: linked_def)
    ultimately show ?thesis by (simp add: path_exists_def)
  next
    case False
    then have "publish env same src tmp dst sha fs = copy_verified env src tmp dst sha fs"
      using None by (simp add: publish_def tx_bind_def path_exists_def)
    with copy_verified_run [OF wf src sha dst None tmp] show ?thesis by simp
  qed
qed

text \<open>What a commit does once the staged bytes are verified.\<close>

definition commit_tail :: "storage_env \<Rightarrow> target_config \<Rightarrow> fs_path \<Rightarrow> string \<Rightarrow> target_config \<Rightarrow> committed_object storage_tx" where
  "commit_tail env from src sha t =
     (let dst = object_path t sha in
      tx_then (on_files (mkdir_parents (butlast dst)))
        (tx_bind (storage_uuid4 env) (\<lambda>u.
         tx_then (on_files (publish env (sv_same_device env (tc_internal_path from) (tc_internal_path t))
             src (partial_path dst u) dst sha))
           (tx_bind (tx_read (\<lambda>s. stat_size env (ms_files s) dst)) (\<lambda>size.
            tx_return \<lparr>co_storage_target_id = tc_storage_target_id t, co_storage_key = object_key sha,
              co_name = tc_name t, co_internal_path = tc_internal_path t, co_sha256 = sha,
              co_size_bytes = size\<rparr>)))))"

lemma commit_accepts:
  assumes "is_sha256 sha" "row_get tc_storage_target_id (ms_targets s) i = Some from" "tc_enabled from"
    "safe_key key = Inr rel" "path_exists (ms_files s) (tc_internal_path from)"
    "file_bytes (ms_files s) (file_path from key) = Some b" "sv_sha256 env b = sha"
    "row_get tc_storage_target_id (ms_targets s) (ms_assignments s Media_Role) = Some t" "tc_enabled t"
    "path_exists (ms_files s) (tc_internal_path t)"
  shows "commit env i key sha s = commit_tail env from (file_path from key) sha t s"
  using assms object_key_segments(1) [OF assms(1)]
  by (simp add: commit_def commit_tail_def tx_bind_def storage_target_run on_files_def storage_path_run
      active_def Let_def)

lemma commit_target:
  "(\<exists>e. commit env i key sha s = (Inl e, s))
   \<or> (\<exists>from t b. is_sha256 sha \<and> row_get tc_storage_target_id (ms_targets s) i = Some from
        \<and> row_get tc_storage_target_id (ms_targets s) (ms_assignments s Media_Role) = Some t
        \<and> file_bytes (ms_files s) (file_path from key) = Some b \<and> sv_sha256 env b = sha
        \<and> commit env i key sha s = commit_tail env from (file_path from key) sha t s)"
proof (cases "row_get tc_storage_target_id (ms_targets s) i")
  case None
  then show ?thesis by (auto simp: commit_def tx_bind_def storage_target_run)
next
  case fr: (Some source)
  let ?fs = "ms_files s"
  show ?thesis
  proof (cases "is_sha256 sha \<and> tc_enabled source \<and> \<not> isl (safe_key key) \<and> path_exists ?fs (tc_internal_path source)
      \<and> (\<exists>b. file_bytes ?fs (file_path source key) = Some b \<and> sv_sha256 env b = sha)")
    case False
    with fr have "\<exists>e. commit env i key sha s = (Inl e, s)"
      by (cases "safe_key key"; cases "file_bytes ?fs (file_path source key)")
        (auto simp: commit_def tx_bind_def storage_target_run on_files_def storage_path_run)
    then show ?thesis by blast
  next
    case ok: True
    show ?thesis
    proof (cases "\<exists>t. row_get tc_storage_target_id (ms_targets s) (ms_assignments s Media_Role) = Some t
        \<and> tc_enabled t \<and> path_exists ?fs (tc_internal_path t)")
      case True
      with ok fr commit_accepts show ?thesis by (cases "safe_key key") (simp, blast)
    next
      case False
      with fr ok object_key_segments(1) [of sha] have "\<exists>e. commit env i key sha s = (Inl e, s)"
        by (cases "safe_key key"; cases "row_get tc_storage_target_id (ms_targets s) (ms_assignments s Media_Role)")
          (auto simp: commit_def tx_bind_def storage_target_run on_files_def storage_path_run active_def)
      then show ?thesis by blast
    qed
  qed
qed

lemma commit_tail_run:
  assumes wf: "fs_wf (ms_files s)" and src: "file_bytes (ms_files s) src = Some b" "sv_sha256 env b = sha"
    and run: "commit_tail env from src sha t s = (r, s')"
  obtains fs' m u where "s' = s\<lparr>ms_files := fs', ms_minted := m\<rparr>" "ms_minted s \<le> m" "fs_wf fs'"
    "linked src (partial_path (object_path t sha) u) (object_path t sha) b (ms_files s) fs'"
    "\<And>co. r = Inr co \<Longrightarrow> path_exists fs' (object_path t sha) \<and> co =
      \<lparr>co_storage_target_id = tc_storage_target_id t, co_storage_key = object_key sha,
       co_name = tc_name t, co_internal_path = tc_internal_path t, co_sha256 = sha,
       co_size_bytes = stat_size env fs' (object_path t sha)\<rparr>"
proof -
  define dst where "dst = object_path t sha"
  have dst: "dst \<noteq> []" by (simp add: dst_def object_path_def)
  obtain m fs1 where mk: "mkdir_parents (butlast dst) (ms_files s) = (m, fs1)" by fastforce
  have wf1: "fs_wf fs1" and dir1: "m = Inr () \<Longrightarrow> is_dir fs1 (butlast dst)"
    using mkdir_parents_run [OF wf, of "butlast dst"] mk by auto
  have add: "dirs_added (butlast dst) (ms_files s) fs1" using dirs.keeps_run [OF mkdir_parents_added mk] .
  define tmp where "tmp = partial_path dst (sv_uuid4 env (ms_minted s))"
  have tmp: "tmp \<noteq> []" "butlast tmp = butlast dst" "tmp \<noteq> dst"
    using partial_path_simps [of dst] dst by (simp_all add: tmp_def)
  obtain r2 fs2 where pub: "publish env (sv_same_device env (tc_internal_path from) (tc_internal_path t)) src tmp dst sha fs1
      = (r2, fs2)" by fastforce
  show thesis
  proof (cases m)
    case (Inl e)
    have "linked src tmp dst b (ms_files s) fs1" by (rule linked_after_dirs [OF add linked_refl dst])
    moreover have "r = Inl e" "s' = s\<lparr>ms_files := fs1\<rparr>"
      using run mk Inl by (simp_all add: commit_tail_def Let_def dst_def tx_then_def tx_bind_def on_files_def)
    ultimately show thesis
      using that [where fs' = fs1 and m = "ms_minted s" and u = "sv_uuid4 env (ms_minted s)"] wf1 by (simp add: tmp_def dst_def)
  next
    case (Inr u)
    have p: "fs_wf fs2 \<and> linked src tmp dst b fs1 fs2 \<and> (r2 = Inr () \<longrightarrow> path_exists fs2 dst)"
      using publish_run [OF wf1 _ src(2) dst dir1 tmp, of src "sv_same_device env (tc_internal_path from) (tc_internal_path t)"]
        pub src(1) dirs_added_bytes [OF add, of src] Inr by simp
    have "linked src tmp dst b (ms_files s) fs2" using linked_after_dirs [OF add _ dst] p by blast
    moreover have "s' = s\<lparr>ms_files := fs2, ms_minted := Suc (ms_minted s)\<rparr>"
      "\<And>co. r = Inr co \<Longrightarrow> r2 = Inr () \<and> co =
         \<lparr>co_storage_target_id = tc_storage_target_id t, co_storage_key = object_key sha,
          co_name = tc_name t, co_internal_path = tc_internal_path t, co_sha256 = sha,
          co_size_bytes = stat_size env fs2 dst\<rparr>"
      using run mk Inr pub
      by (auto simp: commit_tail_def Let_def dst_def tmp_def tx_then_def tx_bind_def on_files_def storage_uuid4_def
          split: sum.splits)
    ultimately show thesis
      using that [where fs' = fs2 and m = "Suc (ms_minted s)" and u = "sv_uuid4 env (ms_minted s)"] p by (simp add: tmp_def dst_def)
  qed
qed

lemma allocate_run:
  "(\<exists>e. allocate env s = (Inl e, s))
   \<or> (\<exists>t. row_get tc_storage_target_id (ms_targets s) (ms_assignments s Staging_Role) = Some t
        \<and> allocate env s = (Inr \<lparr>al_storage_target_id = tc_storage_target_id t,
            al_storage_key = staging_key (sv_uuid4 env (ms_minted s)), al_name = tc_name t,
            al_internal_path = tc_internal_path t\<rparr>, s\<lparr>ms_minted := Suc (ms_minted s)\<rparr>))"
  by (auto simp: allocate_def active_def tx_bind_def storage_target_run storage_uuid4_def split: option.splits)

end
