(* ===== verification/Media_Replication.thy ===== *)
theory Media_Replication
  imports Media_Storage Central_Lifecycle Site_Transport
begin

text \<open>
  The push of presentation files from a Site to Central: Central's receiving routes
  (\<open>upm_central/presentation_media_api.py\<close> and \<open>media_replication.py\<close>). Central keeps the
  confirmed offset in its database and the bytes in its storage service. A request that
  raises, or whose commit fails, undoes the database but not the storage.
\<close>

section \<open>Central's receiver\<close>

record central_media =
  cm_db :: lifecycle_db
  cm_storage :: storage_link

type_synonym 'a central_media_tx = "(central_media, 'a) tx"

record replication_settings =
  rs_storage_env :: storage_env
  rs_storage_token :: string
  rs_max_upload_bytes :: int
  rs_transfer_block_bytes :: int
  rs_digest :: "string \<Rightarrow> string"

record replication_create =
  rc_replication_session_id :: uuid
  rc_event_id :: uuid
  rc_presentation_id :: uuid
  rc_presentation_version_id :: uuid
  rc_media_object_id :: uuid
  rc_presentation_identifier :: string
  rc_original_filename :: string
  rc_canonical_filename :: "string option"
  rc_expected_size :: int
  rc_sha256 :: string
  rc_media_type :: "string option"

definition replication_create_fields :: "replication_create \<Rightarrow> bool" where
  "replication_create_fields p \<longleftrightarrow>
     1 \<le> length (rc_presentation_identifier p) \<and> length (rc_presentation_identifier p) \<le> 128
     \<and> 1 \<le> length (rc_original_filename p) \<and> length (rc_original_filename p) \<le> 1024
     \<and> (case rc_canonical_filename p of None \<Rightarrow> True | Some f \<Rightarrow> length f \<le> 1024)
     \<and> 0 \<le> rc_expected_size p \<and> is_sha256 (rc_sha256 p)
     \<and> (case rc_media_type p of None \<Rightarrow> True | Some m \<Rightarrow> length m \<le> 255)"

record replication_view =
  rv_replication_session_id :: uuid
  rv_confirmed_offset :: int
  rv_expected_size :: int
  rv_sha256 :: string
  rv_state :: media_transfer_state
  rv_replication_state :: media_replication_state
  rv_central_media_object_id :: "uuid option"
  rv_presentation_version_id :: uuid
  rv_error_detail :: "string option"

definition receiver_view :: "central_media_replication_receive_session \<Rightarrow> replication_view" where
  "receiver_view r =
     \<lparr>rv_replication_session_id = crs_replication_session_id r, rv_confirmed_offset = crs_confirmed_offset r,
      rv_expected_size = crs_expected_size r, rv_sha256 = crs_sha256 r, rv_state = crs_state r,
      rv_replication_state = crs_replication_state r,
      rv_central_media_object_id = crs_finalized_media_object_id r,
      rv_presentation_version_id = crs_presentation_version_id r, rv_error_detail = crs_error_detail r\<rparr>"

definition on_storage :: "'a storage_call \<Rightarrow> 'a central_media_tx" where
  "on_storage m s = (case m (cm_storage s) of (r, w) \<Rightarrow> (r, s\<lparr>cm_storage := w\<rparr>))"

definition receiver :: "central_media \<Rightarrow> uuid \<Rightarrow> central_media_replication_receive_session option" where
  "receiver s i = row_get crs_replication_session_id (lc_receives (cm_db s)) i"

definition put_receiver ::
  "uuid \<Rightarrow> (central_media_replication_receive_session \<Rightarrow> central_media_replication_receive_session)
   \<Rightarrow> unit central_media_tx" where
  "put_receiver i f = tx_write (\<lambda>s. s\<lparr>cm_db := (cm_db s)\<lparr>lc_receives :=
     row_put crs_replication_session_id i f (lc_receives (cm_db s))\<rparr>\<rparr>)"

text \<open>\<open>session.flush()\<close> on the tables a replication writes.\<close>

definition receive_constraints :: "lifecycle_db \<Rightarrow> bool" where
  "receive_constraints db \<longleftrightarrow>
     keyed crs_replication_session_id (lc_receives db) \<and> keyed crs_partial_key (lc_receives db)
     \<and> list_all (\<lambda>r. 0 \<le> crs_confirmed_offset r \<and> crs_confirmed_offset r \<le> crs_expected_size r) (lc_receives db)
     \<and> keyed cmo_media_object_id (lc_replicas db)
     \<and> keyed cpa_presentation_version_id (filter (\<lambda>a. cpa_kind a = Asset_ORIGINAL) (lc_assets db))"

definition receive_flush :: "unit central_media_tx" where
  "receive_flush s =
     (if receive_constraints (cm_db s) then (Inr (), s) else (Inl (IntegrityError ''constraint''), s))"

definition authorize_replication_context ::
  "uuid \<Rightarrow> uuid \<Rightarrow> uuid \<Rightarrow> uuid \<Rightarrow> central_db \<Rightarrow> central_presentation outcome" where
  "authorize_replication_context site_id event_id presentation_id version_id db =
     (case (find (\<lambda>d. ced_site_id d = site_id \<and> ced_event_id d = event_id \<and> ced_status d \<noteq> Dep_REVOKED)
              (cd_deployments db),
            row_get cpr_presentation_id (cd_presentations db) presentation_id,
            row_get cpv_presentation_version_id (cd_versions db) version_id) of
        (Some d, Some p, Some v) \<Rightarrow>
          if cpr_event_id p = event_id \<and> cpv_presentation_id v = presentation_id then Inr p
          else Inl (LookupError ''replication context is not available'')
      | _ \<Rightarrow> Inl (LookupError ''replication context is not available''))"

definition site_request :: "(string \<Rightarrow> string) \<Rightarrow> uuid option \<Rightarrow> string option \<Rightarrow> uuid central_media_tx" where
  "site_request digest x_upm_site_id authorization =
     tx_bind (tx_read (\<lambda>s. authenticated digest x_upm_site_id authorization (lc_db (cm_db s)))) (\<lambda>r.
     tx_lift (outcome_bind r (\<lambda>site. Inr (ccs_site_id site))))"

definition replication_for_site ::
  "(string \<Rightarrow> string) \<Rightarrow> uuid \<Rightarrow> uuid option \<Rightarrow> string option \<Rightarrow> central_media_replication_receive_session central_media_tx" where
  "replication_for_site digest session_id x_upm_site_id authorization =
     tx_bind (site_request digest x_upm_site_id authorization) (\<lambda>site_id.
     tx_bind (tx_read (\<lambda>s. receiver s session_id)) (\<lambda>r.
     case r of
       None \<Rightarrow> tx_raise (HTTPException 404 ''replication session not found'')
     | Some r \<Rightarrow>
         if crs_origin_site_id r \<noteq> site_id then tx_raise (HTTPException 404 ''replication session not found'')
         else
           tx_bind (tx_read (\<lambda>s. authorize_replication_context site_id (crs_event_id r) (crs_presentation_id r)
              (crs_presentation_version_id r) (lc_db (cm_db s)))) (\<lambda>context.
           case context of
             Inl e \<Rightarrow> tx_raise (HTTPException 404 ''replication session not found'')
           | Inr p \<Rightarrow> tx_return r)))"

definition same_replication :: "uuid \<Rightarrow> replication_create \<Rightarrow> central_media_replication_receive_session \<Rightarrow> bool" where
  "same_replication site_id payload r \<longleftrightarrow>
     (crs_origin_site_id r, crs_event_id r, crs_presentation_version_id r, crs_source_media_object_id r,
      crs_expected_size r, crs_sha256 r)
     = (site_id, rc_event_id payload, rc_presentation_version_id payload, rc_media_object_id payload,
        rc_expected_size payload, rc_sha256 payload)"

definition resume_replication ::
  "replication_settings \<Rightarrow> uuid \<Rightarrow> replication_create \<Rightarrow> central_media_replication_receive_session
   \<Rightarrow> replication_view central_media_tx" where
  "resume_replication st site_id payload r =
     (if \<not> same_replication site_id payload r
      then tx_raise (HTTPException 409 ''replication session metadata conflict'')
      else if crs_storage_target_id r = None \<and> crs_finalized_media_object_id r = None
      then
        tx_bind (on_storage (async_allocate (rs_storage_env st) (rs_storage_token st))) (\<lambda>a.
        let f = (\<lambda>r. r\<lparr>crs_storage_target_id := Some (al_storage_target_id a), crs_partial_key := al_storage_key a\<rparr>)
        in tx_then (put_receiver (crs_replication_session_id r) f) (tx_return (receiver_view (f r))))
      else tx_return (receiver_view r))"

definition new_receiver ::
  "datetime \<Rightarrow> uuid \<Rightarrow> replication_create \<Rightarrow> allocation \<Rightarrow> central_media_replication_receive_session" where
  "new_receiver now site_id payload a =
     (default_central_media_replication_receive_session now)
       \<lparr>crs_replication_session_id := rc_replication_session_id payload, crs_origin_site_id := site_id,
        crs_event_id := rc_event_id payload, crs_presentation_id := rc_presentation_id payload,
        crs_presentation_version_id := rc_presentation_version_id payload,
        crs_source_media_object_id := rc_media_object_id payload,
        crs_presentation_identifier := rc_presentation_identifier payload,
        crs_original_filename := rc_original_filename payload,
        crs_canonical_filename := rc_canonical_filename payload,
        crs_expected_size := rc_expected_size payload, crs_sha256 := rc_sha256 payload,
        crs_media_type := rc_media_type payload, crs_partial_key := al_storage_key a,
        crs_storage_target_id := Some (al_storage_target_id a),
        crs_state := Xfer_AVAILABLE, crs_replication_state := Repl_QUEUED\<rparr>"

text \<open>A failure of the storage service that has a status is not caught and becomes a 500.\<close>

definition allocate_receiver :: "replication_settings \<Rightarrow> allocation central_media_tx" where
  "allocate_receiver st =
     tx_try (on_storage (async_allocate (rs_storage_env st) (rs_storage_token st))) (\<lambda>r.
       case r of
         Inl (MediaStorageUnavailable text) \<Rightarrow> tx_raise (HTTPException 503 text)
       | r \<Rightarrow> tx_lift r)"

definition create_replication ::
  "datetime \<Rightarrow> replication_settings \<Rightarrow> replication_create \<Rightarrow> uuid option \<Rightarrow> string option
   \<Rightarrow> replication_view central_media_tx" where
  "create_replication now st payload x_upm_site_id authorization =
     tx_then (tx_lift (require (replication_create_fields payload) (HTTPException 422 ''payload'')))
       (tx_bind (site_request (rs_digest st) x_upm_site_id authorization) (\<lambda>site_id.
        tx_bind (tx_read (\<lambda>s. authorize_replication_context site_id (rc_event_id payload) (rc_presentation_id payload)
          (rc_presentation_version_id payload) (lc_db (cm_db s)))) (\<lambda>context.
        case context of
          Inl e \<Rightarrow> tx_raise (HTTPException 409 ''presentation metadata is not synchronized'')
        | Inr presentation \<Rightarrow>
            tx_bind (tx_read (\<lambda>s. receiver s (rc_replication_session_id payload))) (\<lambda>existing.
            case existing of
              Some r \<Rightarrow> resume_replication st site_id payload r
            | None \<Rightarrow>
                if cpr_presentation_identifier presentation \<noteq> rc_presentation_identifier payload
                then tx_raise (HTTPException 409 ''presentation identifier mismatch'')
                else if rs_max_upload_bytes st < rc_expected_size payload
                then tx_raise (HTTPException 413 ''replication exceeds configured maximum'')
                else
                  tx_bind (allocate_receiver st) (\<lambda>a.
                  let r = new_receiver now site_id payload a
                  in tx_then (tx_write (\<lambda>s. s\<lparr>cm_db := (cm_db s)\<lparr>lc_receives := lc_receives (cm_db s) @ [r]\<rparr>\<rparr>))
                       (tx_then receive_flush (tx_return (receiver_view r))))))))"

text \<open>The generator \<open>bounded\<close>: the chunks it passes on and the exception it ends with, if any.\<close>

fun bounded :: "int \<Rightarrow> int \<Rightarrow> int \<Rightarrow> int \<Rightarrow> bytes list \<Rightarrow> bool \<Rightarrow> bytes list \<times> error option" where
  "bounded block offset expected written [] ended =
     ([], if ended then None else Some (TransportError ''client disconnected''))"
| "bounded block offset expected written (chunk # chunks) ended =
     (let written = written + int (length chunk) in
      if block < written then ([], Some (HTTPException 413 ''block exceeds configured maximum''))
      else if expected < offset + written then ([], Some (HTTPException 413 ''block exceeds expected size''))
      else case bounded block offset expected written chunks ended of (cs, e) \<Rightarrow> (chunk # cs, e))"

definition received :: "datetime \<Rightarrow> int \<Rightarrow> central_media_replication_receive_session \<Rightarrow> central_media_replication_receive_session" where
  "received now confirmed r =
     r\<lparr>crs_confirmed_offset := confirmed, crs_state := Xfer_TRANSFERRING, crs_replication_state := Repl_SYNCING,
       crs_last_progress_at := Some now\<rparr>"

definition replication_content ::
  "datetime \<Rightarrow> replication_settings \<Rightarrow> uuid \<Rightarrow> int \<Rightarrow> request_body \<Rightarrow> uuid option \<Rightarrow> string option
   \<Rightarrow> replication_view central_media_tx" where
  "replication_content now st session_id offset body x_upm_site_id authorization =
     tx_then (tx_lift (require (0 \<le> offset) (HTTPException 422 ''offset'')))
       (tx_bind (replication_for_site (rs_digest st) session_id x_upm_site_id authorization) (\<lambda>r.
        if crs_finalized_media_object_id r \<noteq> None then tx_return (receiver_view r)
        else if offset \<noteq> crs_confirmed_offset r
        then tx_raise (HTTPException 409 (''confirmed_offset '' @ str_int (crs_confirmed_offset r)))
        else case crs_storage_target_id r of
          None \<Rightarrow> tx_raise (HTTPException 409 ''replication storage reference is missing'')
        | Some target_id \<Rightarrow>
            tx_bind (on_storage (async_append (rs_storage_env st) (rs_storage_token st) target_id (crs_partial_key r)
              offset (bounded (rs_transfer_block_bytes st) offset (crs_expected_size r) 0 (rb_chunks body)
                (rb_complete body)))) (\<lambda>result.
            tx_then (put_receiver session_id (received now (sa_confirmed_offset result)))
              (tx_return (receiver_view (received now (sa_confirmed_offset result) r))))))"

definition finalized :: "datetime \<Rightarrow> central_media_replication_receive_session \<Rightarrow> central_media_replication_receive_session" where
  "finalized now r =
     r\<lparr>crs_finalized_media_object_id := Some (crs_source_media_object_id r), crs_state := Xfer_COMPLETED,
       crs_replication_state := Repl_SYNCED, crs_last_progress_at := Some now, crs_error_detail := None\<rparr>"

definition new_replica ::
  "datetime \<Rightarrow> central_media_replication_receive_session \<Rightarrow> committed_object \<Rightarrow> central_media_object_replica" where
  "new_replica now r committed =
     (default_central_media_object_replica now)
       \<lparr>cmo_media_object_id := crs_source_media_object_id r,
        cmo_authoritative_site_id := Some (crs_origin_site_id r), cmo_event_id := Some (crs_event_id r),
        cmo_category := Cat_PRESENTATION_VERSION, cmo_object_key := co_storage_key committed,
        cmo_content_hash := Some (crs_sha256 r), cmo_size_bytes := Some (crs_expected_size r),
        cmo_source_revision := 1\<rparr>"

definition finalize_replication_reference ::
  "codec \<Rightarrow> datetime \<Rightarrow> central_media_replication_receive_session \<Rightarrow> committed_object
   \<Rightarrow> central_media_object_replica central_media_tx" where
  "finalize_replication_reference cx now r committed =
     tx_bind (tx_read (\<lambda>s. Option.bind (crs_finalized_media_object_id r)
        (row_get cmo_media_object_id (lc_replicas (cm_db s))))) (\<lambda>existing.
     case existing of
       Some replica \<Rightarrow> tx_return replica
     | None \<Rightarrow>
         tx_bind (tx_read (\<lambda>s. authorize_replication_context (crs_origin_site_id r) (crs_event_id r)
           (crs_presentation_id r) (crs_presentation_version_id r) (lc_db (cm_db s)))) (\<lambda>context.
         tx_then (tx_lift context)
           (let replica = new_replica now r committed in
            tx_then (tx_write (\<lambda>s. s\<lparr>cm_db := (cm_db s)\<lparr>
                lc_db := central_minted (lc_db (cm_db s)),
                lc_replicas := lc_replicas (cm_db s) @ [replica],
                lc_assets := lc_assets (cm_db s) @ [(default_central_presentation_asset now)
                  \<lparr>cpa_presentation_asset_id := central_fresh cx (lc_db (cm_db s)),
                   cpa_presentation_version_id := crs_presentation_version_id r,
                   cpa_media_object_id := crs_source_media_object_id r,
                   cpa_original_filename := Some (crs_original_filename r), cpa_kind := Asset_ORIGINAL\<rparr>]\<rparr>\<rparr>))
              (tx_then (put_receiver (crs_replication_session_id r) (finalized now))
                (tx_then receive_flush (tx_return replica))))))"

definition finalize_replication_endpoint ::
  "codec \<Rightarrow> datetime \<Rightarrow> replication_settings \<Rightarrow> uuid \<Rightarrow> uuid option \<Rightarrow> string option
   \<Rightarrow> replication_view central_media_tx" where
  "finalize_replication_endpoint cx now st session_id x_upm_site_id authorization =
     tx_bind (replication_for_site (rs_digest st) session_id x_upm_site_id authorization) (\<lambda>r.
     case crs_storage_target_id r of
       None \<Rightarrow> tx_raise (HTTPException 409 ''replication storage reference is missing'')
     | Some target_id \<Rightarrow>
         if crs_confirmed_offset r \<noteq> crs_expected_size r
         then tx_raise (HTTPException 409 ''replication byte range is incomplete'')
         else
           tx_bind (on_storage (async_commit (rs_storage_env st) (rs_storage_token st) target_id (crs_partial_key r)
             (crs_sha256 r))) (\<lambda>committed.
           tx_then (finalize_replication_reference cx now r committed)
             (tx_bind (tx_read (\<lambda>s. receiver s session_id)) (\<lambda>r.
              case r of None \<Rightarrow> tx_raise (AttributeError ''receiver'') | Some r \<Rightarrow> tx_return (receiver_view r)))))"

definition replication_status ::
  "replication_settings \<Rightarrow> uuid \<Rightarrow> uuid option \<Rightarrow> string option \<Rightarrow> replication_view central_media_tx" where
  "replication_status st session_id x_upm_site_id authorization =
     tx_bind (replication_for_site (rs_digest st) session_id x_upm_site_id authorization) (\<lambda>r.
     tx_return (receiver_view r))"

text \<open>
  One request with its database session: an exception, or a commit that fails, undoes the
  database and leaves the storage service as it is.
\<close>

definition with_session :: "bool \<Rightarrow> 'a central_media_tx \<Rightarrow> 'a central_media_tx" where
  "with_session commits m s =
     (case tx_bind m (\<lambda>x. tx_then receive_flush (tx_return x)) s of
        (Inl e, s') \<Rightarrow> (Inl e, s'\<lparr>cm_db := cm_db s\<rparr>)
      | (Inr x, s') \<Rightarrow> if commits then (Inr x, s') else (Inl (OSError ''commit''), s'\<lparr>cm_db := cm_db s\<rparr>))"

end
