(* ===== verification/Replication_Integrity.thy ===== *)
theory Replication_Integrity
  imports Media_Replication
begin

text \<open>
  What Central's receiver guarantees about the bytes it has accepted, whatever is sent to it
  and whatever is lost on the way. The object store is content-addressed: the bytes below an
  object key hash to the digest in the key. A commit publishes a staged file as a second
  name of the same inode, so the invariant also says that a staged file with such a second
  name belongs to a receiver that takes no more bytes.
\<close>

section \<open>The layout of the files\<close>

text \<open>Two storage targets have the same root, or neither root lies below the other.\<close>

definition separate_targets :: "target_config list \<Rightarrow> bool" where
  "separate_targets ts \<longleftrightarrow>
     (\<forall>a \<in> set ts. \<forall>b \<in> set ts. tc_internal_path a = tc_internal_path b
        \<or> \<not> prefix (tc_internal_path a) (tc_internal_path b))"

text \<open>A random UUID has 122 random bits; the first \<open>uuid_supply\<close> ones are distinct.\<close>

definition uuid_supply :: nat where
  "uuid_supply = 2 ^ 122"

definition distinct_uuids :: "storage_env \<Rightarrow> bool" where
  "distinct_uuids env \<longleftrightarrow> inj_on (\<lambda>n. uuid_str (sv_uuid4 env n)) {..<uuid_supply}"

definition uuids_left :: "central_media \<Rightarrow> bool" where
  "uuids_left s \<longleftrightarrow> ms_minted (sl_service (cm_storage s)) < uuid_supply"

lemma separate_roots:
  assumes "separate_targets ts" "a \<in> set ts" "b \<in> set ts" "prefix (tc_internal_path a @ x) (tc_internal_path b @ y)"
  shows "tc_internal_path a = tc_internal_path b \<and> prefix x y"
proof -
  have "prefix (tc_internal_path a) (tc_internal_path b @ y)"
    using assms(4) append_prefixD by blast
  then have "prefix (tc_internal_path a) (tc_internal_path b) \<or> prefix (tc_internal_path b) (tc_internal_path a)"
    using prefix_same_cases [of "tc_internal_path a" "tc_internal_path b @ y" "tc_internal_path b"] by auto
  with assms have "tc_internal_path a = tc_internal_path b" unfolding separate_targets_def by metis
  with assms(4) show ?thesis by simp
qed

lemma object_path_inj:
  assumes "separate_targets ts" "a \<in> set ts" "b \<in> set ts" "object_path a s = object_path b s'"
  shows "s = s'"
  using separate_roots [OF assms(1-3), of "[''objects'', ''sha256'', take 2 s, s]"] assms(4)
  by (simp add: object_path_def)

lemma staging_not_object:
  assumes "separate_targets ts" "a \<in> set ts" "b \<in> set ts"
  shows "staging_path a u \<noteq> object_path b s"
  using separate_roots [OF assms, of "[''staging'', uuid_str u @ ''.upload'']" "[''objects'', ''sha256'', take 2 s, s]"]
  by (auto simp: staging_path_def object_path_def)

lemma staging_path_inj:
  assumes "separate_targets ts" "a \<in> set ts" "b \<in> set ts" "staging_path a u = staging_path b v"
  shows "uuid_str u = uuid_str v"
  using separate_roots [OF assms(1-3), of "[''staging'', uuid_str u @ ''.upload'']"] assms(4)
  by (simp add: staging_path_def)

lemma butlast_paths:
  "butlast (staging_path a u) = tc_internal_path a @ [''staging'']"
  "butlast (object_path a s) = tc_internal_path a @ [''objects'', ''sha256'', take 2 s]"
  by (simp_all add: staging_path_def object_path_def butlast_append)

text \<open>No object and no staged file is an ancestor of another one.\<close>

lemma leaf_paths:
  assumes "separate_targets ts" "a \<in> set ts" "b \<in> set ts"
  shows "\<not> prefix (object_path a s) (butlast (staging_path b u))"
    and "\<not> prefix (object_path a s) (butlast (object_path b s'))"
    and "\<not> prefix (staging_path a v) (butlast (staging_path b u))"
    and "\<not> prefix (staging_path a v) (butlast (object_path b s'))"
proof -
  have leaf: "\<not> prefix x y \<Longrightarrow> \<not> prefix (tc_internal_path a @ x) (tc_internal_path b @ y)" for x y
    using separate_roots [OF assms] by blast
  show "\<not> prefix (object_path a s) (butlast (staging_path b u))"
    and "\<not> prefix (object_path a s) (butlast (object_path b s'))"
    and "\<not> prefix (staging_path a v) (butlast (staging_path b u))"
    and "\<not> prefix (staging_path a v) (butlast (object_path b s'))"
    unfolding butlast_paths by (simp_all only: object_path_def staging_path_def) (rule leaf, simp)+
qed

lemma partial_not_leaf:
  assumes "is_sha256 s'"
  shows "partial_path (object_path a s) u \<noteq> object_path b s'"
    and "partial_path (object_path a s) u \<noteq> staging_path b v"
proof -
  let ?p = "partial_path (object_path a s) u"
  have p: "hd (last ?p) = CHR ''.''" by (simp add: partial_path_simps)
  have "hd s' \<in> set s'" using assms by (intro hd_in_set) (auto simp: is_sha256_def)
  then have "hd s' \<noteq> CHR ''.''" using hex_plain [of s' "hd s'"] assms by (auto simp: is_sha256_def)
  with p show "?p \<noteq> object_path b s'" by (auto simp: object_path_def)
  have "uuid_str v \<noteq> []" by (simp flip: length_0_conv)
  then have "hd (uuid_str v @ ''.upload'') \<noteq> CHR ''.''"
    using uuid_str_plain [of "hd (uuid_str v)" v] hd_in_set [of "uuid_str v"] by auto
  with p show "?p \<noteq> staging_path b v" by (auto simp: staging_path_def)
qed

section \<open>The invariant\<close>

definition content_addressed :: "storage_env \<Rightarrow> target_config list \<Rightarrow> file_system \<Rightarrow> bool" where
  "content_addressed env ts fs \<longleftrightarrow>
     (\<forall>t \<in> set ts. \<forall>s. is_sha256 s \<longrightarrow>
        fs_entries fs (object_path t s) \<noteq> Some Directory
        \<and> (\<forall>b. file_bytes fs (object_path t s) = Some b \<longrightarrow> sv_sha256 env b = s))"

definition unused_keys :: "storage_env \<Rightarrow> target_config list \<Rightarrow> nat \<Rightarrow> file_system \<Rightarrow> bool" where
  "unused_keys env ts minted fs \<longleftrightarrow>
     (\<forall>t \<in> set ts. \<forall>n \<ge> minted. n < uuid_supply \<longrightarrow> fs_entries fs (staging_path t (sv_uuid4 env n)) = None)"

definition own_inodes :: "storage_env \<Rightarrow> target_config list \<Rightarrow> file_system \<Rightarrow> bool" where
  "own_inodes env ts fs \<longleftrightarrow>
     (\<forall>a \<in> set ts. \<forall>b \<in> set ts. \<forall>u v i. fs_entries fs (staging_path a u) = Some (Inode i)
        \<longrightarrow> fs_entries fs (staging_path b v) = Some (Inode i) \<longrightarrow> staging_path a u = staging_path b v)"

definition published :: "target_config list \<Rightarrow> file_system \<Rightarrow> fs_path \<Rightarrow> bool" where
  "published ts fs p \<longleftrightarrow>
     (\<exists>t \<in> set ts. \<exists>s i. is_sha256 s \<and> fs_entries fs p = Some (Inode i)
        \<and> fs_entries fs (object_path t s) = Some (Inode i))"

definition receiver_inv ::
  "storage_env \<Rightarrow> target_config list \<Rightarrow> nat \<Rightarrow> file_system \<Rightarrow> central_media_object_replica list
   \<Rightarrow> central_media_replication_receive_session \<Rightarrow> bool" where
  "receiver_inv env ts minted fs replicas r \<longleftrightarrow>
     is_sha256 (crs_sha256 r)
     \<and> (crs_storage_target_id r \<noteq> None \<longrightarrow> (\<exists>n < minted. crs_partial_key r = staging_key (sv_uuid4 env n)))
     \<and> (\<forall>i t. crs_storage_target_id r = Some i \<longrightarrow> row_get tc_storage_target_id ts i = Some t
          \<longrightarrow> published ts fs (file_path t (crs_partial_key r)) \<longrightarrow> crs_confirmed_offset r = crs_expected_size r)
     \<and> (\<forall>m. crs_finalized_media_object_id r = Some m \<longrightarrow>
          (\<exists>t \<in> set ts. is_file fs (object_path t (crs_sha256 r)))
          \<and> (\<exists>c \<in> set replicas. cmo_media_object_id c = m \<and> cmo_object_key c = object_key (crs_sha256 r)
               \<and> cmo_content_hash c = Some (crs_sha256 r)))"

definition store_inv ::
  "storage_env \<Rightarrow> target_config list \<Rightarrow> nat \<Rightarrow> file_system \<Rightarrow> lifecycle_db \<Rightarrow> bool" where
  "store_inv env ts minted fs db \<longleftrightarrow>
     fs_wf fs \<and> content_addressed env ts fs \<and> unused_keys env ts minted fs \<and> own_inodes env ts fs
     \<and> keyed crs_replication_session_id (lc_receives db) \<and> keyed crs_partial_key (lc_receives db)
     \<and> (\<forall>r \<in> set (lc_receives db). receiver_inv env ts minted fs (lc_replicas db) r)"

section \<open>File changes that keep the invariant\<close>

lemma store_invD:
  assumes "store_inv env ts minted fs db"
  shows "fs_wf fs" "content_addressed env ts fs" "unused_keys env ts minted fs" "own_inodes env ts fs"
    "keyed crs_replication_session_id (lc_receives db)" "keyed crs_partial_key (lc_receives db)"
    "\<And>r. r \<in> set (lc_receives db) \<Longrightarrow> receiver_inv env ts minted fs (lc_replicas db) r"
  using assms unfolding store_inv_def by blast+

definition receiver_path :: "target_config list \<Rightarrow> central_media_replication_receive_session \<Rightarrow> fs_path option" where
  "receiver_path ts r =
     Option.bind (crs_storage_target_id r) (\<lambda>i. map_option (\<lambda>t. file_path t (crs_partial_key r)) (row_get tc_storage_target_id ts i))"

lemma receiver_pathE:
  assumes "receiver_inv env ts minted fs reps r" "receiver_path ts r = Some p"
  obtains t n where "t \<in> set ts" "n < minted" "crs_partial_key r = staging_key (sv_uuid4 env n)"
    "p = staging_path t (sv_uuid4 env n)" "published ts fs p \<Longrightarrow> crs_confirmed_offset r = crs_expected_size r"
proof -
  obtain i t where i: "crs_storage_target_id r = Some i" "row_get tc_storage_target_id ts i = Some t"
    and p: "p = file_path t (crs_partial_key r)"
    using assms(2) by (auto simp: receiver_path_def split: Option.bind_splits)
  moreover obtain n where n: "n < minted" "crs_partial_key r = staging_key (sv_uuid4 env n)"
    using assms(1) i(1) by (auto simp: receiver_inv_def)
  ultimately show thesis
    using that [of t n] assms(1) row_get_SomeD [OF i(2)] by (auto simp: receiver_inv_def)
qed

lemma inode_bytes: "fs_entries fs p = Some (Inode i) \<Longrightarrow> file_bytes fs p = Some (fs_data fs i)"
  by (simp add: file_bytes_def)

lemma store_inv_frame:
  assumes inv: "store_inv env ts minted fs db" and wf: "fs_wf fs'" and m: "minted \<le> m"
    and obj: "\<And>t s. t \<in> set ts \<Longrightarrow> is_sha256 s \<Longrightarrow>
        fs_entries fs' (object_path t s) = fs_entries fs (object_path t s)
        \<or> (\<exists>i. fs_entries fs (object_path t s) = None \<and> fs_entries fs' (object_path t s) = Some (Inode i)
             \<and> sv_sha256 env (fs_data fs' i) = s)"
    and data: "\<And>t s i. t \<in> set ts \<Longrightarrow> is_sha256 s \<Longrightarrow> fs_entries fs (object_path t s) = Some (Inode i) \<Longrightarrow>
        fs_data fs' i = fs_data fs i"
    and unused: "unused_keys env ts m fs'" and own: "own_inodes env ts fs'"
    and pub: "\<And>r p. r \<in> set (lc_receives db) \<Longrightarrow> receiver_path ts r = Some p \<Longrightarrow> published ts fs' p \<Longrightarrow>
        published ts fs p \<or> crs_confirmed_offset r = crs_expected_size r"
  shows "store_inv env ts m fs' db"
  unfolding store_inv_def
proof (intro conjI ballI)
  show "content_addressed env ts fs'"
    unfolding content_addressed_def
  proof (intro ballI allI impI conjI)
    fix t s assume t: "t \<in> set ts" "is_sha256 s"
    have old: "fs_entries fs (object_path t s) \<noteq> Some Directory"
      "\<And>b. file_bytes fs (object_path t s) = Some b \<Longrightarrow> sv_sha256 env b = s"
      using store_invD(2) [OF inv] t unfolding content_addressed_def by blast+
    show "fs_entries fs' (object_path t s) \<noteq> Some Directory" using obj [OF t] old(1) by auto
    fix b assume b: "file_bytes fs' (object_path t s) = Some b"
    then obtain i where i: "fs_entries fs' (object_path t s) = Some (Inode i)" "b = fs_data fs' i"
      by (auto simp: file_bytes_def split: option.splits fs_entry.splits)
    show "sv_sha256 env b = s"
      using obj [OF t] i data [OF t, of i] old(2) inode_bytes [of fs "object_path t s" i] by auto
  qed
next
  fix r assume r: "r \<in> set (lc_receives db)"
  have ri: "receiver_inv env ts minted fs (lc_replicas db) r" using store_invD(7) [OF inv r] .
  have sealed: "crs_confirmed_offset r = crs_expected_size r"
    if p: "receiver_path ts r = Some p" "published ts fs' p" for p
    using pub [OF r p] receiver_pathE [OF ri p(1)] by metis
  have "is_file fs' (object_path t (crs_sha256 r))" if "t \<in> set ts" "is_file fs (object_path t (crs_sha256 r))" for t
    using obj [OF that(1), of "crs_sha256 r"] ri that(2) by (auto simp: is_file_def receiver_inv_def)
  then show "receiver_inv env ts m fs' (lc_replicas db) r"
    using ri sealed m unfolding receiver_inv_def receiver_path_def
    by (fastforce intro: less_le_trans)
qed (use store_invD(5,6) [OF inv] wf unused own in simp_all)

lemma store_inv_minted:
  assumes "store_inv env ts minted fs db" "minted \<le> m"
  shows "store_inv env ts m fs db"
  by (rule store_inv_frame [OF assms(1) _ assms(2)])
    (use store_invD [OF assms(1)] assms(2) in \<open>auto simp: unused_keys_def\<close>)

lemma published_kept:
  assumes "published ts fs' p"
    and "\<And>i. fs_entries fs' p = Some (Inode i) \<Longrightarrow> fs_entries fs p = Some (Inode i)"
    and "\<And>t s i. t \<in> set ts \<Longrightarrow> is_sha256 s \<Longrightarrow> fs_entries fs' (object_path t s) = Some (Inode i) \<Longrightarrow>
      fs_entries fs (object_path t s) = Some (Inode i)"
  shows "published ts fs p"
  using assms unfolding published_def by blast

lemma store_inv_dirs:
  assumes inv: "store_inv env ts minted fs db" and sep: "separate_targets ts" and t: "t \<in> set ts"
    and add: "dirs_added (butlast (staging_path t u)) fs fs'" and wf: "fs_wf fs'"
  shows "store_inv env ts minted fs' db"
proof (rule store_inv_frame [OF inv wf le_refl])
  have leaf: "\<not> prefix q (butlast (staging_path t u)) \<Longrightarrow> fs_entries fs' q = fs_entries fs q" for q
    using dirs_added_entry [OF add, of q] by blast
  have obj: "fs_entries fs' (object_path a s) = fs_entries fs (object_path a s)"
    and stg: "fs_entries fs' (staging_path a v) = fs_entries fs (staging_path a v)" if "a \<in> set ts" for a s v
    using leaf leaf_paths(1,3) [OF sep that t] by blast+
  show "fs_entries fs' (object_path a s) = fs_entries fs (object_path a s)
      \<or> (\<exists>i. fs_entries fs (object_path a s) = None \<and> fs_entries fs' (object_path a s) = Some (Inode i)
             \<and> sv_sha256 env (fs_data fs' i) = s)" if "a \<in> set ts" for a s
    using obj [OF that] by blast
  show "fs_data fs' i = fs_data fs i" for i using dirs_added_data [OF add] by simp
  show "unused_keys env ts minted fs'"
    using store_invD(3) [OF inv] stg unfolding unused_keys_def by simp
  show "own_inodes env ts fs'"
    using store_invD(4) [OF inv] unfolding own_inodes_def dirs_added_inode [OF add] .
  show "published ts fs p \<or> crs_confirmed_offset r = crs_expected_size r" if "published ts fs' p" for p r
    using that unfolding published_def dirs_added_inode [OF add] by blast
qed

lemma store_inv_append:
  assumes inv: "store_inv env ts minted fs db" and sep: "separate_targets ts" and dist: "distinct_uuids env"
    and r: "r \<in> set (lc_receives db)" "receiver_path ts r = Some p"
    and app: "appended p b fs fs'" and wf: "fs_wf fs'"
    and full: "crs_confirmed_offset r = crs_expected_size r \<Longrightarrow> b = []"
  shows "store_inv env ts minted fs' db"
proof (rule store_inv_frame [OF inv wf le_refl])
  obtain t n where t: "t \<in> set ts" "n < minted" "p = staging_path t (sv_uuid4 env n)"
    and sealed: "published ts fs p \<Longrightarrow> crs_confirmed_offset r = crs_expected_size r"
    using receiver_pathE [OF store_invD(7) [OF inv r(1)] r(2)] by metis
  have kept: "fs_entries fs' q = fs_entries fs q" if "q \<noteq> p" "\<not> prefix q (butlast p)" for q
    using app that unfolding appended_def by blast
  have obj: "fs_entries fs' (object_path a s) = fs_entries fs (object_path a s)" if "a \<in> set ts" for a s
    using kept staging_not_object [OF sep t(1) that] leaf_paths(1) [OF sep that t(1)] t(3) by metis
  have stg: "fs_entries fs' (staging_path a v) = fs_entries fs (staging_path a v)"
    if "a \<in> set ts" "staging_path a v \<noteq> p" for a v
    using kept that leaf_paths(3) [OF sep that(1) t(1)] t(3) by metis
  have wf0: "fs_wf fs" using store_invD(1) [OF inv] .
  obtain j where j: "fs_entries fs' p = Some (Inode j)"
    and j0: "fs_entries fs p = Some (Inode j) \<or> fs_entries fs p = None \<and> j = fs_next fs"
    using app unfolding appended_def by (auto split: if_splits)
  show "fs_entries fs' (object_path a s) = fs_entries fs (object_path a s)
      \<or> (\<exists>i. fs_entries fs (object_path a s) = None \<and> fs_entries fs' (object_path a s) = Some (Inode i)
             \<and> sv_sha256 env (fs_data fs' i) = s)" if "a \<in> set ts" for a s
    using obj [OF that] by blast
  show "fs_data fs' i = fs_data fs i"
    if "a \<in> set ts" "is_sha256 s" "fs_entries fs (object_path a s) = Some (Inode i)" for a s i
  proof (cases "fs_entries fs p = Some (Inode i)")
    case True
    with that have "published ts fs p" unfolding published_def by blast
    with full sealed have "b = []" by blast
    with True app show ?thesis by (auto simp: appended_def inode_bytes)
  next
    case False
    then show ?thesis using appended_data [OF app] fs_wf_inode [OF wf0 that(3)] by blast
  qed
  show "unused_keys env ts minted fs'"
    unfolding unused_keys_def
  proof (intro ballI allI impI)
    fix a k assume a: "a \<in> set ts" "minted \<le> k" "k < uuid_supply"
    have "staging_path a (sv_uuid4 env k) \<noteq> p"
      using staging_path_inj [OF sep a(1) t(1)] inj_onD [OF dist [unfolded distinct_uuids_def], of k n] a(2,3) t by fastforce
    with stg a store_invD(3) [OF inv] show "fs_entries fs' (staging_path a (sv_uuid4 env k)) = None"
      by (simp add: unused_keys_def)
  qed
  have fresh: "fs_entries fs q = Some (Inode j) \<Longrightarrow> fs_entries fs p = Some (Inode j)" for q
    using j0 fs_wf_inode [OF wf0, of q j] by auto
  show "own_inodes env ts fs'"
    using store_invD(4) [OF inv] stg j fresh t(1,3) unfolding own_inodes_def by (metis fs_entry.inject option.inject)
  show "published ts fs q \<or> crs_confirmed_offset x = crs_expected_size x"
    if x: "x \<in> set (lc_receives db)" "receiver_path ts x = Some q" and q: "published ts fs' q" for x q
  proof -
    obtain a k where a: "a \<in> set ts" "q = staging_path a (sv_uuid4 env k)"
      using receiver_pathE [OF store_invD(7) [OF inv x(1)] x(2)] by metis
    have "published ts fs q"
    proof (cases "q = p")
      case True
      then show ?thesis using q obj j fresh unfolding published_def by (metis fs_entry.inject option.inject)
    next
      case False
      then show ?thesis using published_kept [OF q] stg [of a] a obj by metis
    qed
    then show ?thesis ..
  qed
qed

text \<open>Two receivers never stage to the same file.\<close>

lemma receiver_path_unique:
  assumes inv: "store_inv env ts minted fs db" and sep: "separate_targets ts"
    and "r \<in> set (lc_receives db)" "receiver_path ts r = Some p"
    and "x \<in> set (lc_receives db)" "receiver_path ts x = Some p"
  shows "x = r"
proof -
  obtain t n where t: "t \<in> set ts" "crs_partial_key r = staging_key (sv_uuid4 env n)" "p = staging_path t (sv_uuid4 env n)"
    using receiver_pathE [OF store_invD(7) [OF inv assms(3)] assms(4)] by metis
  obtain a k where a: "a \<in> set ts" "crs_partial_key x = staging_key (sv_uuid4 env k)" "p = staging_path a (sv_uuid4 env k)"
    using receiver_pathE [OF store_invD(7) [OF inv assms(5)] assms(6)] by metis
  have "uuid_str (sv_uuid4 env n) = uuid_str (sv_uuid4 env k)"
    using staging_path_inj [OF sep t(1) a(1)] t(3) a(3) by simp
  then have "crs_partial_key x = crs_partial_key r" using t(2) a(2) by (simp add: staging_key_def)
  then show ?thesis using store_invD(6) [OF inv] assms(3,5) by (auto simp: keyed_def distinct_map dest: inj_onD)
qed

lemma store_inv_linked:
  assumes inv: "store_inv env ts minted fs db" and sep: "separate_targets ts"
    and r: "r \<in> set (lc_receives db)" "receiver_path ts r = Some p" "crs_confirmed_offset r = crs_expected_size r"
    and d: "d \<in> set ts" "is_sha256 sha" "q = object_path d sha"
    and lnk: "linked p (partial_path q u) q b fs fs'" and b: "sv_sha256 env b = sha"
    and wf: "fs_wf fs'" and m: "minted \<le> m"
  shows "store_inv env ts m fs' db"
proof (rule store_inv_frame [OF inv wf m])
  obtain t n where t: "t \<in> set ts" "p = staging_path t (sv_uuid4 env n)"
    using receiver_pathE [OF store_invD(7) [OF inv r(1)] r(2)] by metis
  have wf0: "fs_wf fs" using store_invD(1) [OF inv] .
  have kept: "fs_entries fs' x = fs_entries fs x"
    if "x \<noteq> q" "x \<noteq> partial_path q u" "\<not> prefix x (butlast q)" for x
    using lnk that unfolding linked_def by blast
  have obj: "fs_entries fs' (object_path a s) = fs_entries fs (object_path a s)"
    if "a \<in> set ts" "is_sha256 s" "object_path a s \<noteq> q" for a s
    using kept that(3) partial_not_leaf(1) [OF that(2)] leaf_paths(2) [OF sep that(1) d(1)] d(3) by metis
  have stg: "fs_entries fs' (staging_path a v) = fs_entries fs (staging_path a v)" if "a \<in> set ts" for a v
    using kept staging_not_object [OF sep that d(1)] partial_not_leaf(2) [OF d(2)] leaf_paths(4) [OF sep that d(1)] d(3)
    by metis
  have new: "fs_entries fs' q = fs_entries fs q
      \<or> (\<exists>i. fs_entries fs q = None \<and> fs_entries fs' q = Some (Inode i) \<and> fs_data fs' i = b
           \<and> (fs_entries fs p = Some (Inode i) \<or> fs_next fs \<le> i))"
    using lnk unfolding linked_def by blast
  show "fs_entries fs' (object_path a s) = fs_entries fs (object_path a s)
      \<or> (\<exists>i. fs_entries fs (object_path a s) = None \<and> fs_entries fs' (object_path a s) = Some (Inode i)
             \<and> sv_sha256 env (fs_data fs' i) = s)" if a: "a \<in> set ts" "is_sha256 s" for a s
  proof (cases "object_path a s = q")
    case True
    then have "s = sha" using object_path_inj [OF sep a(1) d(1)] d(3) by simp
    then show ?thesis using new b unfolding True by auto
  next
    case False
    then show ?thesis using obj [OF a] by blast
  qed
  show "fs_data fs' i = fs_data fs i"
    if "a \<in> set ts" "is_sha256 s" "fs_entries fs (object_path a s) = Some (Inode i)" for a s i
    using fs_wf_inode [OF wf0 that(3)] lnk unfolding linked_def by blast
  show "unused_keys env ts m fs'"
    using store_invD(3) [OF inv] stg m unfolding unused_keys_def by (simp add: le_trans [OF m])
  show "own_inodes env ts fs'"
    using store_invD(4) [OF inv] stg unfolding own_inodes_def by metis
  show "published ts fs y \<or> crs_confirmed_offset x = crs_expected_size x"
    if x: "x \<in> set (lc_receives db)" "receiver_path ts x = Some y" and y: "published ts fs' y" for x y
  proof -
    obtain a k where a: "a \<in> set ts" "y = staging_path a (sv_uuid4 env k)"
      using receiver_pathE [OF store_invD(7) [OF inv x(1)] x(2)] by metis
    obtain c s i where c: "c \<in> set ts" "is_sha256 s" "fs_entries fs y = Some (Inode i)"
      "fs_entries fs' (object_path c s) = Some (Inode i)"
      using y stg [OF a(1)] a(2) unfolding published_def by metis
    show ?thesis
    proof (cases "fs_entries fs (object_path c s) = Some (Inode i)")
      case True
      with c show ?thesis unfolding published_def by blast
    next
      case False
      then have "fs_entries fs p = Some (Inode i) \<or> fs_next fs \<le> i"
        using new obj [OF c(1,2)] c(4) by (cases "object_path c s = q") auto
      with fs_wf_inode [OF wf0 c(3)] have "fs_entries fs p = Some (Inode i)" by simp
      then have "y = p" using store_invD(4) [OF inv] a t c(3) unfolding own_inodes_def by metis
      then have "x = r" using receiver_path_unique [OF inv sep r(1,2) x(1)] x(2) by simp
      with r(3) show ?thesis by simp
    qed
  qed
qed

section \<open>Row changes that keep the invariant\<close>

lemma receiver_inv_cong:
  assumes "receiver_inv env ts minted fs reps r"
    and "crs_sha256 x = crs_sha256 r" "crs_storage_target_id x = crs_storage_target_id r"
    "crs_partial_key x = crs_partial_key r" "crs_expected_size x = crs_expected_size r"
    and "\<And>p. receiver_path ts r = Some p \<Longrightarrow> published ts fs p \<Longrightarrow> crs_confirmed_offset x = crs_confirmed_offset r"
    and "crs_finalized_media_object_id x = crs_finalized_media_object_id r"
  shows "receiver_inv env ts minted fs reps x"
proof -
  have "published ts fs (file_path t (crs_partial_key r)) \<Longrightarrow> crs_confirmed_offset x = crs_confirmed_offset r"
    if "crs_storage_target_id r = Some i" "row_get tc_storage_target_id ts i = Some t" for i t
    using assms(6) [of "file_path t (crs_partial_key r)"] that by (simp add: receiver_path_def)
  with assms(1-5,7) show ?thesis unfolding receiver_inv_def by metis
qed

lemma receiver_inv_more_replicas:
  "receiver_inv env ts minted fs reps r \<Longrightarrow> set reps \<subseteq> set reps' \<Longrightarrow> receiver_inv env ts minted fs reps' r"
  unfolding receiver_inv_def by blast

lemma store_inv_rows:
  assumes inv: "store_inv env ts minted fs db" and con: "receive_constraints db'"
    and rows: "\<And>r. r \<in> set (lc_receives db') \<Longrightarrow> receiver_inv env ts minted fs (lc_replicas db') r"
  shows "store_inv env ts minted fs db'"
  using assms unfolding store_inv_def receive_constraints_def by blast

lemma row_put_cases:
  "x \<in> set (row_put key i f rows) \<Longrightarrow> (\<exists>r \<in> set rows. key r = i \<and> x = f r) \<or> x \<in> set rows"
  by (auto simp: row_put_def)

section \<open>The requests\<close>

definition media_inv :: "replication_settings \<Rightarrow> target_config list \<Rightarrow> central_media \<Rightarrow> bool" where
  "media_inv st ts s \<longleftrightarrow>
     ms_targets (sl_service (cm_storage s)) = ts
     \<and> store_inv (rs_storage_env st) ts (ms_minted (sl_service (cm_storage s)))
         (ms_files (sl_service (cm_storage s))) (cm_db s)"

text \<open>
  A request keeps the invariant of the storage service with the database as it was, and, if
  it returns and the database accepts it, with the database it leaves.
\<close>

definition keeps_media ::
  "replication_settings \<Rightarrow> target_config list \<Rightarrow> (central_media \<Rightarrow> bool) \<Rightarrow> 'a central_media_tx \<Rightarrow> bool" where
  "keeps_media st ts ok m \<longleftrightarrow>
     (\<forall>s r s'. media_inv st ts s \<longrightarrow> ok s \<longrightarrow> m s = (r, s') \<longrightarrow>
        media_inv st ts (s'\<lparr>cm_db := cm_db s\<rparr>)
        \<and> (\<not> isl r \<longrightarrow> receive_constraints (cm_db s') \<longrightarrow> media_inv st ts s'))"

lemma keeps_mediaI:
  assumes "\<And>s r s'. media_inv st ts s \<Longrightarrow> m s = (r, s') \<Longrightarrow> media_inv st ts (s'\<lparr>cm_db := cm_db s\<rparr>)"
    and "\<And>s x s'. media_inv st ts s \<Longrightarrow> ok s \<Longrightarrow> m s = (Inr x, s') \<Longrightarrow> receive_constraints (cm_db s') \<Longrightarrow> media_inv st ts s'"
  shows "keeps_media st ts ok m"
  using assms unfolding keeps_media_def by (metis isl_def sum.collapse(2))

lemma with_session_media:
  assumes keep: "keeps_media st ts ok m" and inv: "media_inv st ts s" "ok s"
  shows "media_inv st ts (snd (with_session commits m s))"
proof -
  obtain r s' where run: "m s = (r, s')" by fastforce
  have old: "media_inv st ts (s'\<lparr>cm_db := cm_db s\<rparr>)"
    and new: "\<not> isl r \<Longrightarrow> receive_constraints (cm_db s') \<Longrightarrow> media_inv st ts s'"
    using keep inv run unfolding keeps_media_def by blast+
  show ?thesis
  proof (cases r)
    case (Inl e)
    with run old show ?thesis by (simp add: with_session_def tx_bind_def)
  next
    case (Inr x)
    with run old new show ?thesis
      by (cases "receive_constraints (cm_db s')"; cases commits)
        (simp_all add: with_session_def tx_bind_def tx_then_def receive_flush_def)
  qed
qed

lemma storage_request_cases:
  "storage_request f m w = (r, w') \<Longrightarrow>
     (sl_service w' = sl_service w \<and> isl r)
     \<or> (sl_service w' = snd (m (sl_service w)) \<and> (\<forall>x. r = Inr x \<longrightarrow> fst (m (sl_service w)) = Inr x))"
  by (auto simp: storage_request_def Let_def split: fault.splits prod.splits sum.splits)

lemma async_authorized_cases:
  assumes "async_request (authorized env a m) w = (r, w')"
  shows "(sl_service w' = sl_service w \<and> isl r)
    \<or> (sl_service w' = snd (m (sl_service w)) \<and> (\<forall>x. r = Inr x \<longrightarrow> fst (m (sl_service w)) = Inr x))"
proof -
  have "(sl_service w' = sl_service w \<and> isl r)
    \<or> (sl_service w' = snd (authorized env a m (sl_service w))
       \<and> (\<forall>x. r = Inr x \<longrightarrow> fst (authorized env a m (sl_service w)) = Inr x))"
    using assms unfolding async_request_def by (rule storage_request_cases)
  then show ?thesis by (cases "a = ''Bearer '' @ sv_service_token env"; cases r) (auto simp: authorized_def)
qed

lemma async_append_cases:
  assumes "async_append env token i key off stream w = (r, w')"
  obtains (lost) "sl_service w' = sl_service w" "isl r"
  | (arrived) x where "append_staging env i key off \<lparr>rb_chunks = fst stream, rb_complete = (snd stream = None)\<rparr>
      (sl_service w) = (x, sl_service w')" "\<And>y. r = Inr y \<Longrightarrow> x = Inr y"
proof -
  let ?m = "append_staging env i key off \<lparr>rb_chunks = fst stream, rb_complete = (snd stream = None)\<rparr>"
  obtain r1 where req: "async_request (authorized env (''Bearer '' @ token) ?m) w = (r1, w')"
    and r: "r = (case snd stream of None \<Rightarrow> r1 | Some e \<Rightarrow> Inl e)"
    using assms by (auto simp: async_append_def tx_try_def split: prod.splits option.splits)
  obtain x s1 where run: "?m (sl_service w) = (x, s1)" by fastforce
  show thesis
    using async_authorized_cases [OF req]
  proof
    assume "sl_service w' = sl_service w \<and> isl r1"
    then show thesis using lost r by (auto split: option.splits)
  next
    assume "sl_service w' = snd (?m (sl_service w)) \<and> (\<forall>x. r1 = Inr x \<longrightarrow> fst (?m (sl_service w)) = Inr x)"
    then show thesis using arrived [of x] run r by (auto split: option.splits)
  qed
qed

lemma bounded_size:
  "bounded block off expected written cs ended = (ys, e) \<Longrightarrow> off + written \<le> expected \<Longrightarrow>
     off + written + int (length (concat ys)) \<le> expected"
proof (induction cs arbitrary: written ys e)
  case Nil
  then show ?case by simp
next
  case (Cons c cs)
  show ?case
  proof (cases "block < written + int (length c) \<or> expected < off + (written + int (length c))")
    case True
    with Cons.prems show ?thesis by (auto simp: Let_def split: if_splits)
  next
    case False
    obtain zs e' where z: "bounded block off expected (written + int (length c)) cs ended = (zs, e')" by fastforce
    with False Cons.prems have "ys = c # zs" by (simp add: Let_def)
    with Cons.IH [OF z] False show ?thesis by simp
  qed
qed

lemma replication_for_site_run:
  assumes "replication_for_site digest i site auth s = (x, s')"
  shows "s' = s" "x = Inr r \<Longrightarrow> receiver s i = Some r"
  using assms
  by (auto simp: replication_for_site_def site_request_def tx_bind_def split: option.splits sum.splits if_splits)

lemma on_storage_run:
  assumes "on_storage m s = (r, s')"
  obtains w where "m (cm_storage s) = (r, w)" "s' = s\<lparr>cm_storage := w\<rparr>"
  using assms by (auto simp: on_storage_def split: prod.splits)

lemma receiver_mem: "receiver s i = Some r \<Longrightarrow> r \<in> set (lc_receives (cm_db s)) \<and> crs_replication_session_id r = i"
  unfolding receiver_def by (rule row_get_SomeD)

text \<open>A block of bytes for a receiver that is not finished.\<close>

lemma append_media:
  assumes inv: "media_inv st ts s" and sep: "separate_targets ts" and dist: "distinct_uuids (rs_storage_env st)"
    and r: "receiver s i = Some r" "crs_storage_target_id r = Some target" "off = crs_confirmed_offset r"
    and run: "on_storage (async_append (rs_storage_env st) token target (crs_partial_key r) off
        (bounded block off (crs_expected_size r) 0 cs ended)) s = (x, s')"
  shows "media_inv st ts s'" "cm_db s' = cm_db s"
    and "x = Inr y \<Longrightarrow> receiver_path ts r = Some p \<Longrightarrow>
      published ts (ms_files (sl_service (cm_storage s'))) p \<Longrightarrow> sa_confirmed_offset y = off"
proof -
  let ?env = "rs_storage_env st" and ?stream = "bounded block off (crs_expected_size r) 0 cs ended"
  let ?svc = "sl_service (cm_storage s)"
  obtain w where call: "async_append ?env token target (crs_partial_key r) off ?stream (cm_storage s) = (x, w)"
    and s': "s' = s\<lparr>cm_storage := w\<rparr>" using on_storage_run [OF run] by metis
  show "cm_db s' = cm_db s" using s' by simp
  have ts: "ms_targets ?svc = ts" and store: "store_inv ?env ts (ms_minted ?svc) (ms_files ?svc) (cm_db s)"
    using inv by (simp_all add: media_inv_def)
  have rmem: "r \<in> set (lc_receives (cm_db s))" using receiver_mem [OF r(1)] by simp
  have wf: "fs_wf (ms_files ?svc)" using store_invD(1) [OF store] .
  have room: "off = crs_expected_size r \<Longrightarrow> concat (fst ?stream) = []"
    using bounded_size [of block off "crs_expected_size r" 0 cs ended "fst ?stream" "snd ?stream"] by simp
  have "media_inv st ts s' \<and> (\<forall>y p. x = Inr y \<longrightarrow> receiver_path ts r = Some p \<longrightarrow>
      published ts (ms_files (sl_service w)) p \<longrightarrow> sa_confirmed_offset y = off)"
  proof (cases rule: async_append_cases [OF call])
    case 1
    then show ?thesis using inv s' by (auto simp: media_inv_def)
  next
    case (2 z)
    show ?thesis
    proof (cases rule: append_staging_cases [OF wf 2(1)])
      case (1 e)
      then show ?thesis using 2(2) inv s' by (fastforce simp: media_inv_def)
    next
      case (2 e t fs')
      then have path: "receiver_path ts r = Some (file_path t (crs_partial_key r))"
        using r(2) ts by (simp add: receiver_path_def)
      obtain u where "file_path t (crs_partial_key r) = staging_path t u" "t \<in> set ts"
        using receiver_pathE [OF store_invD(7) [OF store rmem] path] 2(2) ts row_get_SomeD
        by (metis file_path_key(2))
      then have "store_inv ?env ts (ms_minted ?svc) fs' (cm_db s)"
        using store_inv_dirs [OF store sep] 2(4,5) by metis
      then show ?thesis using 2 \<open>\<And>y. x = Inr y \<Longrightarrow> z = Inr y\<close> s' ts by (fastforce simp: media_inv_def)
    next
      case (3 t fs')
      let ?p = "file_path t (crs_partial_key r)"
      have path: "receiver_path ts r = Some ?p" using r(2) ts 3(1) by (simp add: receiver_path_def)
      have new: "store_inv ?env ts (ms_minted ?svc) fs' (cm_db s)"
        by (rule store_inv_append [OF store sep dist rmem path 3(4) 3(3)]) (use room r(3) in simp)
      have full: "published ts fs' ?p \<Longrightarrow> concat (fst ?stream) = []"
        using receiver_pathE [OF store_invD(7) [OF new rmem] path] room r(3) by metis
      have "sa_confirmed_offset y = off" if "x = Inr y" "published ts fs' ?p" for y
        using 3(6) \<open>\<And>y. x = Inr y \<Longrightarrow> z = Inr y\<close> [OF that(1)] full [OF that(2)] by (auto split: if_splits)
      then show ?thesis using new 3(2) path s' ts by (simp add: media_inv_def)
    qed
  qed
  then show "media_inv st ts s'"
    and "x = Inr y \<Longrightarrow> receiver_path ts r = Some p \<Longrightarrow>
      published ts (ms_files (sl_service (cm_storage s'))) p \<Longrightarrow> sa_confirmed_offset y = off"
    using s' by auto
qed

abbreviation content_call ::
  "replication_settings \<Rightarrow> central_media_replication_receive_session \<Rightarrow> uuid \<Rightarrow> int \<Rightarrow> request_body \<Rightarrow> staged_append central_media_tx" where
  "content_call st r target off body \<equiv>
     on_storage (async_append (rs_storage_env st) (rs_storage_token st) target (crs_partial_key r) off
       (bounded (rs_transfer_block_bytes st) off (crs_expected_size r) 0 (rb_chunks body) (rb_complete body)))"

lemma replication_content_cases:
  assumes "replication_content now st i off body site auth s = (x, s')"
  obtains (same) "s' = s"
  | (sent) r target y s1 where "receiver s i = Some r" "crs_storage_target_id r = Some target"
      "off = crs_confirmed_offset r" "crs_finalized_media_object_id r = None"
      "content_call st r target off body s = (y, s1)"
      "\<And>e. y = Inl e \<Longrightarrow> s' = s1 \<and> x = Inl e"
      "\<And>z. y = Inr z \<Longrightarrow> s' = snd (put_receiver i (received now (sa_confirmed_offset z)) s1)"
proof -
  obtain q s0 where site: "replication_for_site (rs_digest st) i site auth s = (q, s0)" by fastforce
  have s0: "s0 = s" using replication_for_site_run(1) [OF site] .
  show thesis
  proof (cases q)
    case (Inl e)
    then have "s' = s" using assms site s0
      by (simp add: replication_content_def tx_then_def tx_bind_def require_def split: if_splits)
    then show thesis by (rule same)
  next
    case (Inr r)
    have rec: "receiver s i = Some r" using replication_for_site_run(2) [OF site Inr] .
    show thesis
    proof (cases "0 \<le> off \<and> crs_finalized_media_object_id r = None \<and> off = crs_confirmed_offset r
        \<and> crs_storage_target_id r \<noteq> None")
      case False
      then have "s' = s" using assms site s0 Inr
        by (auto simp: replication_content_def tx_then_def tx_bind_def require_def split: if_splits)
      then show thesis by (rule same)
    next
      case True
      then obtain target where target: "crs_storage_target_id r = Some target" by auto
      obtain y s1 where call: "content_call st r target off body s = (y, s1)" by fastforce
      show thesis
      proof (rule sent [OF rec target _ _ call])
        show "off = crs_confirmed_offset r" "crs_finalized_media_object_id r = None" using True by simp_all
        show "s' = s1 \<and> x = Inl e" if "y = Inl e" for e
          using assms site s0 Inr True target call that
          by (simp add: replication_content_def tx_then_def tx_bind_def require_def split: if_splits)
        show "s' = snd (put_receiver i (received now (sa_confirmed_offset z)) s1)" if "y = Inr z" for z
          using assms site s0 Inr True target call that
          by (simp add: replication_content_def tx_then_def tx_bind_def require_def put_receiver_def split: if_splits)
      qed
    qed
  qed
qed

lemma media_inv_old_db: "media_inv st ts s' \<Longrightarrow> cm_db s' = cm_db s \<Longrightarrow> media_inv st ts (s'\<lparr>cm_db := cm_db s\<rparr>)"
  by (simp add: media_inv_def)

lemma put_receiver_run:
  "snd (put_receiver i f s) = s\<lparr>cm_db := (cm_db s)\<lparr>lc_receives := row_put crs_replication_session_id i f (lc_receives (cm_db s))\<rparr>\<rparr>"
  by (simp add: put_receiver_def)

lemma content_keeps:
  assumes sep: "separate_targets ts" and dist: "distinct_uuids (rs_storage_env st)"
  shows "keeps_media st ts (\<lambda>_. True) (replication_content now st i off body site auth)"
proof (rule keeps_mediaI)
  fix s x s' assume inv: "media_inv st ts s" and run: "replication_content now st i off body site auth s = (x, s')"
  show "media_inv st ts (s'\<lparr>cm_db := cm_db s\<rparr>)"
  proof (cases rule: replication_content_cases [OF run])
    case 1
    with inv show ?thesis by simp
  next
    case (2 r target y s1)
    note app = append_media(1,2) [OF inv sep dist 2(1,2,3) 2(5)]
    show ?thesis using app 2(6,7) by (cases y) (simp_all add: put_receiver_run media_inv_def)
  qed
next
  fix s x s' assume inv: "media_inv st ts s" and con: "receive_constraints (cm_db s')"
    and run: "replication_content now st i off body site auth s = (Inr x, s')"
  show "media_inv st ts s'"
  proof (cases rule: replication_content_cases [OF run])
    case 1
    with inv show ?thesis by simp
  next
    case (2 r target y s1)
    note app = append_media [OF inv sep dist 2(1,2,3) 2(5)]
    obtain z where y: "y = Inr z" using 2(6) by (cases y) auto
    define f where "f = received now (sa_confirmed_offset z)"
    have s': "s' = s1\<lparr>cm_db := (cm_db s)\<lparr>lc_receives := row_put crs_replication_session_id i f (lc_receives (cm_db s))\<rparr>\<rparr>"
      using 2(7) [OF y] app(2) by (simp add: put_receiver_run f_def)
    let ?svc = "sl_service (cm_storage s1)"
    have store: "store_inv (rs_storage_env st) ts (ms_minted ?svc) (ms_files ?svc) (cm_db s)"
      using app(1,2) by (simp add: media_inv_def)
    have rows: "receiver_inv (rs_storage_env st) ts (ms_minted ?svc) (ms_files ?svc) (lc_replicas (cm_db s)) a"
      if "a \<in> set (lc_receives (cm_db s'))" for a
    proof (cases "a \<in> set (lc_receives (cm_db s))")
      case True
      then show ?thesis by (rule store_invD(7) [OF store])
    next
      case False
      with that s' obtain b where b: "b \<in> set (lc_receives (cm_db s))" "crs_replication_session_id b = i" "a = f b"
        using row_put_cases [of a crs_replication_session_id i f] by auto
      have "b = r"
        using b receiver_mem [OF 2(1)] store_invD(5) [OF store]
        by (auto simp: keyed_def distinct_map dest: inj_onD)
      show ?thesis
        by (rule receiver_inv_cong [OF store_invD(7) [OF store b(1)]])
          (use app(3) [OF y] 2(3) b(3) \<open>b = r\<close> in \<open>simp_all add: f_def received_def\<close>)
    qed
    have "store_inv (rs_storage_env st) ts (ms_minted ?svc) (ms_files ?svc) (cm_db s')"
      by (rule store_inv_rows [OF store con]) (use rows s' in simp)
    then show ?thesis using app(1) s' by (simp add: media_inv_def)
  qed
qed

text \<open>Publication of the bytes of a complete receiver.\<close>

lemma commit_media:
  assumes inv: "media_inv st ts s" and sep: "separate_targets ts"
    and r: "receiver s i = Some r" "crs_storage_target_id r = Some target" "crs_confirmed_offset r = crs_expected_size r"
    and run: "on_storage (async_commit (rs_storage_env st) token target (crs_partial_key r) (crs_sha256 r)) s = (x, s')"
  shows "media_inv st ts s'" "cm_db s' = cm_db s"
    and "x = Inr co \<Longrightarrow> co_storage_key co = object_key (crs_sha256 r)
      \<and> (\<exists>t \<in> set ts. is_file (ms_files (sl_service (cm_storage s'))) (object_path t (crs_sha256 r)))"
proof -
  let ?env = "rs_storage_env st" and ?svc = "sl_service (cm_storage s)" and ?sha = "crs_sha256 r"
  let ?m = "commit ?env target (crs_partial_key r) ?sha"
  obtain w where call: "async_commit ?env token target (crs_partial_key r) ?sha (cm_storage s) = (x, w)"
    and s': "s' = s\<lparr>cm_storage := w\<rparr>" using on_storage_run [OF run] by metis
  show "cm_db s' = cm_db s" using s' by simp
  have ts: "ms_targets ?svc = ts" and store: "store_inv ?env ts (ms_minted ?svc) (ms_files ?svc) (cm_db s)"
    using inv by (simp_all add: media_inv_def)
  have rmem: "r \<in> set (lc_receives (cm_db s))" using receiver_mem [OF r(1)] by simp
  have wf: "fs_wf (ms_files ?svc)" using store_invD(1) [OF store] .
  consider (nothing) "sl_service w = ?svc" "isl x"
    | (verified) f0 t b where "is_sha256 ?sha" "row_get tc_storage_target_id ts target = Some f0"
      "row_get tc_storage_target_id ts (ms_assignments ?svc Media_Role) = Some t"
      "file_bytes (ms_files ?svc) (file_path f0 (crs_partial_key r)) = Some b" "sv_sha256 ?env b = ?sha"
      "sl_service w = snd (commit_tail ?env f0 (file_path f0 (crs_partial_key r)) ?sha t ?svc)"
      "\<And>y. x = Inr y \<Longrightarrow> fst (commit_tail ?env f0 (file_path f0 (crs_partial_key r)) ?sha t ?svc) = Inr y"
    using async_authorized_cases [OF call [unfolded async_commit_def]]
      commit_target [of ?env target "crs_partial_key r" ?sha ?svc] ts
    by (cases x) (fastforce, force)
  then have "media_inv st ts s' \<and> (\<forall>co. x = Inr co \<longrightarrow> co_storage_key co = object_key ?sha
      \<and> (\<exists>t \<in> set ts. is_file (ms_files (sl_service w)) (object_path t ?sha)))"
  proof cases
    case nothing
    then show ?thesis using inv s' by (auto simp: media_inv_def)
  next
    case (verified f0 t b)
    let ?p = "file_path f0 (crs_partial_key r)"
    obtain y s1 where tail: "commit_tail ?env f0 ?p ?sha t ?svc = (y, s1)" by fastforce
    obtain fs' m u where s1: "s1 = ?svc\<lparr>ms_files := fs', ms_minted := m\<rparr>" "ms_minted ?svc \<le> m" "fs_wf fs'"
      and lnk: "linked ?p (partial_path (object_path t ?sha) u) (object_path t ?sha) b (ms_files ?svc) fs'"
      and res: "\<And>co. y = Inr co \<Longrightarrow> path_exists fs' (object_path t ?sha) \<and> co_storage_key co = object_key ?sha"
      using commit_tail_run [OF wf verified(4,5) tail] by (metis committed_object.select_convs(2))
    have path: "receiver_path ts r = Some ?p" using r(2) verified(2) by (simp add: receiver_path_def)
    have t: "t \<in> set ts" using row_get_SomeD [OF verified(3)] by simp
    have new: "store_inv ?env ts m fs' (cm_db s)"
      by (rule store_inv_linked [OF store sep rmem path r(3) t verified(1) refl lnk verified(5) s1(3,2)])
    have "is_file fs' (object_path t ?sha)" if "path_exists fs' (object_path t ?sha)"
      using that store_invD(2) [OF new] t verified(1)
      by (auto simp: content_addressed_def path_exists_def is_file_def split: option.splits fs_entry.splits)
    then show ?thesis using new s1(1) verified(6,7) tail res t s' ts by (auto simp: media_inv_def)
  qed
  then show "media_inv st ts s'"
    and "x = Inr co \<Longrightarrow> co_storage_key co = object_key (crs_sha256 r)
      \<and> (\<exists>t \<in> set ts. is_file (ms_files (sl_service (cm_storage s'))) (object_path t (crs_sha256 r)))"
    using s' by auto
qed

lemma finalize_reference_run:
  assumes "finalize_replication_reference cx now r committed s = (x, s')"
  shows "cm_storage s' = cm_storage s"
    and "cm_db s' = cm_db s
      \<or> lc_receives (cm_db s') = row_put crs_replication_session_id (crs_replication_session_id r) (finalized now) (lc_receives (cm_db s))
        \<and> lc_replicas (cm_db s') = lc_replicas (cm_db s) @ [new_replica now r committed]"
  using assms
  by (auto simp: finalize_replication_reference_def tx_bind_def tx_then_def put_receiver_def receive_flush_def Let_def
      split: option.splits sum.splits if_splits)

abbreviation finalize_call ::
  "replication_settings \<Rightarrow> central_media_replication_receive_session \<Rightarrow> uuid \<Rightarrow> committed_object central_media_tx" where
  "finalize_call st r target \<equiv>
     on_storage (async_commit (rs_storage_env st) (rs_storage_token st) target (crs_partial_key r) (crs_sha256 r))"

lemma finalize_endpoint_cases:
  assumes "finalize_replication_endpoint cx now st i site auth s = (x, s')"
  obtains (same) "s' = s"
  | (tried) r target y s1 where "receiver s i = Some r" "crs_storage_target_id r = Some target"
      "crs_confirmed_offset r = crs_expected_size r" "finalize_call st r target s = (y, s1)"
      "\<And>e. y = Inl e \<Longrightarrow> s' = s1 \<and> x = Inl e"
      "\<And>co. y = Inr co \<Longrightarrow> \<exists>z. finalize_replication_reference cx now r co s1 = (z, s')"
proof -
  obtain q s0 where site: "replication_for_site (rs_digest st) i site auth s = (q, s0)" by fastforce
  have s0: "s0 = s" using replication_for_site_run(1) [OF site] .
  show thesis
  proof (cases "\<exists>r target. q = Inr r \<and> crs_storage_target_id r = Some target \<and> crs_confirmed_offset r = crs_expected_size r")
    case False
    then have "s' = s" using assms site s0
      by (cases q) (auto simp: finalize_replication_endpoint_def tx_bind_def split: option.splits if_splits)
    then show thesis by (rule same)
  next
    case True
    then obtain r target where r: "q = Inr r" "crs_storage_target_id r = Some target"
      "crs_confirmed_offset r = crs_expected_size r" by blast
    obtain y s1 where call: "finalize_call st r target s = (y, s1)" by fastforce
    show thesis
    proof (rule tried [OF _ r(2,3) call])
      show "receiver s i = Some r" using replication_for_site_run(2) [OF site r(1)] .
      show "s' = s1 \<and> x = Inl e" if "y = Inl e" for e
        using assms site s0 r call that by (simp add: finalize_replication_endpoint_def tx_bind_def)
      show "\<exists>z. finalize_replication_reference cx now r co s1 = (z, s')" if "y = Inr co" for co
        using assms site s0 r call that
        by (auto simp: finalize_replication_endpoint_def tx_bind_def tx_then_def split: prod.splits sum.splits option.splits)
    qed
  qed
qed

lemma finalized_inv:
  assumes "receiver_inv env ts minted fs reps r" "t \<in> set ts" "is_file fs (object_path t (crs_sha256 r))"
    and "co_storage_key co = object_key (crs_sha256 r)"
  shows "receiver_inv env ts minted fs (reps @ [new_replica now r co]) (finalized now r)"
  using assms unfolding receiver_inv_def by (auto simp: finalized_def new_replica_def)

lemma finalize_keeps:
  assumes sep: "separate_targets ts"
  shows "keeps_media st ts (\<lambda>_. True) (finalize_replication_endpoint cx now st i site auth)"
proof (rule keeps_mediaI)
  fix s x s' assume inv: "media_inv st ts s" and run: "finalize_replication_endpoint cx now st i site auth s = (x, s')"
  show "media_inv st ts (s'\<lparr>cm_db := cm_db s\<rparr>)"
  proof (cases rule: finalize_endpoint_cases [OF run])
    case 1
    with inv show ?thesis by simp
  next
    case (2 r target y s1)
    note com = commit_media(1,2) [OF inv sep 2(1-4)]
    have "cm_storage s' = cm_storage s1" using 2(5,6) finalize_reference_run(1) by (cases y) blast+
    then show ?thesis using com by (simp add: media_inv_def)
  qed
next
  fix s x s' assume inv: "media_inv st ts s" and con: "receive_constraints (cm_db s')"
    and run: "finalize_replication_endpoint cx now st i site auth s = (Inr x, s')"
  show "media_inv st ts s'"
  proof (cases rule: finalize_endpoint_cases [OF run])
    case 1
    with inv show ?thesis by simp
  next
    case (2 r target y s1)
    note com = commit_media [OF inv sep 2(1-4)]
    obtain co where y: "y = Inr co" using 2(5) by (cases y) auto
    then obtain z where ref: "finalize_replication_reference cx now r co s1 = (z, s')" using 2(6) by blast
    let ?svc = "sl_service (cm_storage s1)"
    let ?inv = "receiver_inv (rs_storage_env st) ts (ms_minted ?svc) (ms_files ?svc)"
    have store: "store_inv (rs_storage_env st) ts (ms_minted ?svc) (ms_files ?svc) (cm_db s)"
      using com(1,2) by (simp add: media_inv_def)
    from com(3) [OF y] obtain t where t: "t \<in> set ts" "is_file (ms_files ?svc) (object_path t (crs_sha256 r))"
      and key: "co_storage_key co = object_key (crs_sha256 r)" by blast
    have id: "crs_replication_session_id r = i" using receiver_mem [OF 2(1)] by simp
    have rows: "?inv (lc_replicas (cm_db s')) a" if a: "a \<in> set (lc_receives (cm_db s'))" for a
      using finalize_reference_run(2) [OF ref]
    proof
      assume "cm_db s' = cm_db s1"
      with a com(2) store_invD(7) [OF store] show ?thesis by simp
    next
      assume db: "lc_receives (cm_db s') = row_put crs_replication_session_id (crs_replication_session_id r) (finalized now) (lc_receives (cm_db s1))
        \<and> lc_replicas (cm_db s') = lc_replicas (cm_db s1) @ [new_replica now r co]"
      show ?thesis
      proof (cases "a \<in> set (lc_receives (cm_db s))")
        case True
        moreover have "set (lc_replicas (cm_db s)) \<subseteq> set (lc_replicas (cm_db s'))" using db com(2) by auto
        ultimately show ?thesis using receiver_inv_more_replicas store_invD(7) [OF store] by blast
      next
        case False
        with a db com(2) obtain b where b: "b \<in> set (lc_receives (cm_db s))" "crs_replication_session_id b = i" "a = finalized now b"
          using row_put_cases [of a crs_replication_session_id i "finalized now"] id by auto
        have "b = r"
          using b receiver_mem [OF 2(1)] store_invD(5) [OF store] by (auto simp: keyed_def distinct_map dest: inj_onD)
        then show ?thesis
          using finalized_inv [OF store_invD(7) [OF store b(1)], of t co now] t key b(3) db com(2) by simp
      qed
    qed
    have "store_inv (rs_storage_env st) ts (ms_minted ?svc) (ms_files ?svc) (cm_db s')"
      by (rule store_inv_rows [OF store con rows])
    then show ?thesis using com(1) finalize_reference_run(1) [OF ref] by (simp add: media_inv_def)
  qed
qed

lemma allocate_media:
  assumes inv: "media_inv st ts s"
    and run: "on_storage (async_allocate (rs_storage_env st) token) s = (x, s')"
  shows "media_inv st ts s'" "cm_db s' = cm_db s"
    and "x = Inr a \<Longrightarrow> \<exists>n < ms_minted (sl_service (cm_storage s')). ms_minted (sl_service (cm_storage s)) = n
      \<and> ms_files (sl_service (cm_storage s')) = ms_files (sl_service (cm_storage s))
      \<and> al_storage_key a = staging_key (sv_uuid4 (rs_storage_env st) n)"
proof -
  let ?svc = "sl_service (cm_storage s)"
  obtain w where call: "async_allocate (rs_storage_env st) token (cm_storage s) = (x, w)"
    and s': "s' = s\<lparr>cm_storage := w\<rparr>" using on_storage_run [OF run] by metis
  show "cm_db s' = cm_db s" using s' by simp
  have ts: "ms_targets ?svc = ts" and store: "store_inv (rs_storage_env st) ts (ms_minted ?svc) (ms_files ?svc) (cm_db s)"
    using inv by (simp_all add: media_inv_def)
  have more: "store_inv (rs_storage_env st) ts (Suc (ms_minted ?svc)) (ms_files ?svc) (cm_db s)"
    by (rule store_inv_minted [OF store]) simp
  obtain r1 s1 where al: "allocate (rs_storage_env st) ?svc = (r1, s1)" by fastforce
  have al_cases: "isl r1 \<and> s1 = ?svc \<or> s1 = ?svc\<lparr>ms_minted := Suc (ms_minted ?svc)\<rparr>
      \<and> (\<forall>y. r1 = Inr y \<longrightarrow> al_storage_key y = staging_key (sv_uuid4 (rs_storage_env st) (ms_minted ?svc)))"
    using allocate_run [of "rs_storage_env st" ?svc] al by auto
  have "sl_service w = ?svc \<and> isl x \<or> sl_service w = s1 \<and> (\<forall>y. x = Inr y \<longrightarrow> r1 = Inr y)"
    using async_authorized_cases [OF call [unfolded async_allocate_def]] al by auto
  with al_cases consider "sl_service w = ?svc" "isl x"
    | "sl_service w = ?svc\<lparr>ms_minted := Suc (ms_minted ?svc)\<rparr>"
      "\<And>y. x = Inr y \<Longrightarrow> al_storage_key y = staging_key (sv_uuid4 (rs_storage_env st) (ms_minted ?svc))"
    by (cases x; cases r1) auto
  then have "media_inv st ts s' \<and> (\<forall>a. x = Inr a \<longrightarrow> (\<exists>n < ms_minted (sl_service w). ms_minted ?svc = n
      \<and> ms_files (sl_service w) = ms_files ?svc \<and> al_storage_key a = staging_key (sv_uuid4 (rs_storage_env st) n)))"
    by cases (use inv more ts s' in \<open>auto simp: media_inv_def\<close>)
  then show "media_inv st ts s'"
    and "x = Inr a \<Longrightarrow> \<exists>n < ms_minted (sl_service (cm_storage s')). ms_minted (sl_service (cm_storage s)) = n
      \<and> ms_files (sl_service (cm_storage s')) = ms_files (sl_service (cm_storage s))
      \<and> al_storage_key a = staging_key (sv_uuid4 (rs_storage_env st) n)"
    using s' by auto
qed

text \<open>A row that stages to a key no file uses yet.\<close>

lemma new_key_inv:
  assumes store: "store_inv env ts minted fs db" and n: "minted \<le> n" "n < m" "n < uuid_supply"
    and r: "crs_partial_key r = staging_key (sv_uuid4 env n)" "is_sha256 (crs_sha256 r)"
    "crs_finalized_media_object_id r = None"
  shows "receiver_inv env ts m fs reps r"
proof -
  have "\<not> published ts fs (staging_path t (sv_uuid4 env n))" if "t \<in> set ts" for t
    using store_invD(3) [OF store] that n(1,3) by (simp add: unused_keys_def published_def)
  then have "\<not> published ts fs (file_path t (crs_partial_key r))" if "row_get tc_storage_target_id ts i = Some t" for i t
    using row_get_SomeD [OF that] r(1) by simp
  then show ?thesis using n(2) r unfolding receiver_inv_def by auto
qed

lemma allocate_receiver_run:
  assumes "allocate_receiver st s = (x, s')"
  obtains y where "on_storage (async_allocate (rs_storage_env st) (rs_storage_token st)) s = (y, s')"
    "\<And>a. x = Inr a \<Longrightarrow> y = Inr a"
  using assms
  by (auto simp: allocate_receiver_def tx_try_def split: prod.splits sum.splits error.splits)

lemma create_cases:
  assumes "create_replication now st payload site auth s = (x, s')"
  obtains (same) "s' = s"
  | (added) y s1 site_id where "replication_create_fields payload" "allocate_receiver st s = (y, s1)"
      "\<And>e. y = Inl e \<Longrightarrow> s' = s1 \<and> x = Inl e"
      "\<And>a. y = Inr a \<Longrightarrow> s' = s1\<lparr>cm_db := (cm_db s1)\<lparr>lc_receives := lc_receives (cm_db s1) @ [new_receiver now site_id payload a]\<rparr>\<rparr>"
  | (resumed) r y s1 where "receiver s (rc_replication_session_id payload) = Some r"
      "crs_finalized_media_object_id r = None" "crs_storage_target_id r = None"
      "on_storage (async_allocate (rs_storage_env st) (rs_storage_token st)) s = (y, s1)"
      "\<And>e. y = Inl e \<Longrightarrow> s' = s1 \<and> x = Inl e"
      "\<And>a. y = Inr a \<Longrightarrow> s' = snd (put_receiver (crs_replication_session_id r)
        (\<lambda>r. r\<lparr>crs_storage_target_id := Some (al_storage_target_id a), crs_partial_key := al_storage_key a\<rparr>) s1)"
proof -
  obtain q s0 where site: "site_request (rs_digest st) site auth s = (q, s0)" by fastforce
  have s0: "s0 = s" using site by (auto simp: site_request_def tx_bind_def)
  show thesis
  proof (cases "replication_create_fields payload \<and> (\<exists>i p. q = Inr i \<and>
      authorize_replication_context i (rc_event_id payload) (rc_presentation_id payload)
        (rc_presentation_version_id payload) (lc_db (cm_db s)) = Inr p)")
    case False
    then have "s' = s" using assms site s0
      by (cases q) (auto simp: create_replication_def tx_then_def tx_bind_def require_def split: sum.splits if_splits)
    then show thesis by (rule same)
  next
    case True
    then obtain i p where ok: "replication_create_fields payload" "q = Inr i"
      "authorize_replication_context i (rc_event_id payload) (rc_presentation_id payload)
        (rc_presentation_version_id payload) (lc_db (cm_db s)) = Inr p" by blast
    obtain y s1 where alloc: "on_storage (async_allocate (rs_storage_env st) (rs_storage_token st)) s = (y, s1)" by fastforce
    obtain z s2 where alloc2: "allocate_receiver st s = (z, s2)" by fastforce
    show thesis
    proof (cases "receiver s (rc_replication_session_id payload)")
      case (Some r)
      note run = assms [unfolded create_replication_def tx_then_def] site s0 ok Some
      show thesis
      proof (cases "same_replication i payload r \<and> crs_storage_target_id r = None \<and> crs_finalized_media_object_id r = None")
        case False
        then have "s' = s" using run
          by (auto simp: resume_replication_def tx_bind_def require_def split: if_splits)
        then show thesis by (rule same)
      next
        case go: True
        have "s' = (case y of Inl e \<Rightarrow> s1 | Inr a \<Rightarrow> snd (put_receiver (crs_replication_session_id r)
            (\<lambda>r. r\<lparr>crs_storage_target_id := Some (al_storage_target_id a), crs_partial_key := al_storage_key a\<rparr>) s1))"
          "\<And>e. y = Inl e \<Longrightarrow> x = Inl e"
          using run go alloc
          by (auto simp: resume_replication_def tx_bind_def tx_then_def require_def put_receiver_def Let_def split: sum.splits)
        then show thesis using resumed [OF Some _ _ alloc] go by auto
      qed
    next
      case None
      show thesis
      proof (cases "cpr_presentation_identifier p = rc_presentation_identifier payload \<and> rc_expected_size payload \<le> rs_max_upload_bytes st")
        case False
        then have "s' = s" using assms site s0 ok None
          by (auto simp: create_replication_def tx_then_def tx_bind_def require_def split: if_splits)
        then show thesis by (rule same)
      next
        case go: True
        have "s' = (case z of Inl e \<Rightarrow> s2 | Inr a \<Rightarrow>
            s2\<lparr>cm_db := (cm_db s2)\<lparr>lc_receives := lc_receives (cm_db s2) @ [new_receiver now i payload a]\<rparr>\<rparr>)"
          "\<And>e. z = Inl e \<Longrightarrow> x = Inl e"
          using assms site s0 ok None go alloc2
          by (auto simp: create_replication_def tx_bind_def tx_then_def require_def receive_flush_def Let_def
              split: sum.splits if_splits)
        then show thesis using added [OF ok(1) alloc2] by auto
      qed
    qed
  qed
qed

lemma create_keeps: "keeps_media st ts uuids_left (create_replication now st payload site auth)"
proof (rule keeps_mediaI)
  fix s x s' assume inv: "media_inv st ts s" and run: "create_replication now st payload site auth s = (x, s')"
  show "media_inv st ts (s'\<lparr>cm_db := cm_db s\<rparr>)"
  proof (cases rule: create_cases [OF run])
    case 1
    with inv show ?thesis by simp
  next
    case (2 y s1 site_id)
    obtain z where "on_storage (async_allocate (rs_storage_env st) (rs_storage_token st)) s = (z, s1)"
      using allocate_receiver_run [OF 2(2)] by metis
    note al = allocate_media(1,2) [OF inv this]
    show ?thesis using al 2(3,4) by (cases y) (simp_all add: media_inv_def)
  next
    case (3 r y s1)
    note al = allocate_media(1,2) [OF inv 3(4)]
    show ?thesis using al 3(5,6) by (cases y) (simp_all add: put_receiver_run media_inv_def)
  qed
next
  fix s x s' assume inv: "media_inv st ts s" and left: "uuids_left s" and con: "receive_constraints (cm_db s')"
    and run: "create_replication now st payload site auth s = (Inr x, s')"
  let ?env = "rs_storage_env st" and ?svc = "sl_service (cm_storage s)"
  have store: "store_inv ?env ts (ms_minted ?svc) (ms_files ?svc) (cm_db s)" using inv by (simp add: media_inv_def)
  show "media_inv st ts s'"
  proof (cases rule: create_cases [OF run])
    case 1
    with inv show ?thesis by simp
  next
    case (2 y s1 site_id)
    obtain a where y: "y = Inr a" using 2(3) by (cases y) auto
    then have "on_storage (async_allocate ?env (rs_storage_token st)) s = (Inr a, s1)"
      using allocate_receiver_run [OF 2(2)] by metis
    note al = allocate_media [OF inv this]
    let ?svc1 = "sl_service (cm_storage s1)" and ?new = "new_receiver now site_id payload a"
    have s': "s' = s1\<lparr>cm_db := (cm_db s)\<lparr>lc_receives := lc_receives (cm_db s) @ [?new]\<rparr>\<rparr>"
      using 2(4) [OF y] al(2) by simp
    have store1: "store_inv ?env ts (ms_minted ?svc1) (ms_files ?svc1) (cm_db s)" using al(1,2) by (simp add: media_inv_def)
    have "receiver_inv ?env ts (ms_minted ?svc1) (ms_files ?svc1) (lc_replicas (cm_db s)) ?new"
      using al(3) [OF refl] new_key_inv [OF store] 2(1) left [unfolded uuids_left_def]
      by (fastforce simp: new_receiver_def replication_create_fields_def default_central_media_replication_receive_session_def)
    then have "store_inv ?env ts (ms_minted ?svc1) (ms_files ?svc1) (cm_db s')"
      using store_invD(7) [OF store1] s' by (intro store_inv_rows [OF store1 con]) auto
    then show ?thesis using al(1) s' by (simp add: media_inv_def)
  next
    case (3 r y s1)
    obtain a where y: "y = Inr a" using 3(5) by (cases y) auto
    note al = allocate_media [OF inv 3(4) [unfolded y]]
    let ?svc1 = "sl_service (cm_storage s1)"
    let ?f = "\<lambda>r. r\<lparr>crs_storage_target_id := Some (al_storage_target_id a), crs_partial_key := al_storage_key a\<rparr>"
    have s': "s' = s1\<lparr>cm_db := (cm_db s)\<lparr>lc_receives := row_put crs_replication_session_id (crs_replication_session_id r) ?f (lc_receives (cm_db s))\<rparr>\<rparr>"
      using 3(6) [OF y] al(2) by (simp add: put_receiver_run)
    have store1: "store_inv ?env ts (ms_minted ?svc1) (ms_files ?svc1) (cm_db s)" using al(1,2) by (simp add: media_inv_def)
    have rmem: "r \<in> set (lc_receives (cm_db s))" using receiver_mem [OF 3(1)] by simp
    have "is_sha256 (crs_sha256 r)" using store_invD(7) [OF store rmem] by (simp add: receiver_inv_def)
    then have row: "receiver_inv ?env ts (ms_minted ?svc1) (ms_files ?svc1) (lc_replicas (cm_db s)) (?f r)"
      using al(3) [OF refl] new_key_inv [OF store, of _ _ "?f r"] 3(2) left [unfolded uuids_left_def] by fastforce
    have "receiver_inv ?env ts (ms_minted ?svc1) (ms_files ?svc1) (lc_replicas (cm_db s')) b"
      if b: "b \<in> set (lc_receives (cm_db s'))" for b
    proof (cases "b \<in> set (lc_receives (cm_db s))")
      case True
      then show ?thesis using store_invD(7) [OF store1] s' by simp
    next
      case False
      with b s' obtain c where c: "c \<in> set (lc_receives (cm_db s))"
        "crs_replication_session_id c = crs_replication_session_id r" "b = ?f c"
        using row_put_cases [of b crs_replication_session_id "crs_replication_session_id r" ?f] by auto
      then have "c = r" using rmem store_invD(5) [OF store] by (auto simp: keyed_def distinct_map dest: inj_onD)
      then show ?thesis using row c(3) s' by simp
    qed
    then have "store_inv ?env ts (ms_minted ?svc1) (ms_files ?svc1) (cm_db s')"
      by (rule store_inv_rows [OF store1 con])
    then show ?thesis using al(1) s' by (simp add: media_inv_def)
  qed
qed

section \<open>Any sequence of requests\<close>

text \<open>
  The receiver's requests in any order, from any Site and with any content; the network to the
  storage service and the commit of each request may fail, and other parts of Central may
  change the tables they own.
\<close>

inductive receiver_step :: "codec \<Rightarrow> replication_settings \<Rightarrow> central_media \<Rightarrow> central_media \<Rightarrow> bool"
  for cx :: codec and st :: replication_settings where
  create: "uuids_left s \<Longrightarrow> receiver_step cx st s (snd (with_session commits (create_replication now st payload site auth) s))"
| content: "receiver_step cx st s (snd (with_session commits (replication_content now st i off body site auth) s))"
| finalize: "receiver_step cx st s (snd (with_session commits (finalize_replication_endpoint cx now st i site auth) s))"
| network: "receiver_step cx st s (s\<lparr>cm_storage := (cm_storage s)\<lparr>sl_faults := faults\<rparr>\<rparr>)"
| elsewhere: "lc_receives db = lc_receives (cm_db s) \<Longrightarrow> lc_replicas db = lc_replicas (cm_db s) \<Longrightarrow>
    receiver_step cx st s (s\<lparr>cm_db := db\<rparr>)"

lemma receiver_step_inv:
  assumes "receiver_step cx st s s'" "media_inv st ts s"
    and "separate_targets ts" "distinct_uuids (rs_storage_env st)"
  shows "media_inv st ts s'"
  using assms
proof cases
  case (create commits now payload site auth)
  then show ?thesis using with_session_media [OF create_keeps assms(2)] by simp
next
  case (content commits now i off body site auth)
  then show ?thesis using with_session_media [OF content_keeps [OF assms(3,4)] assms(2) TrueI] by simp
next
  case (finalize commits now i site auth)
  then show ?thesis using with_session_media [OF finalize_keeps [OF assms(3)] assms(2) TrueI] by simp
next
  case (network faults)
  then show ?thesis using assms(2) by (simp add: media_inv_def)
next
  case (elsewhere db)
  then show ?thesis using assms(2) by (simp add: media_inv_def store_inv_def)
qed

lemma receiver_steps_inv:
  assumes "(receiver_step cx st)\<^sup>*\<^sup>* s s'" "media_inv st ts s" "separate_targets ts" "distinct_uuids (rs_storage_env st)"
  shows "media_inv st ts s'"
  using assms by (induction rule: rtranclp_induct) (auto intro: receiver_step_inv)

lemma media_inv_finalized:
  assumes "media_inv st ts s" "r \<in> set (lc_receives (cm_db s))" "crs_finalized_media_object_id r = Some m"
  shows "(\<exists>t \<in> set ts. \<exists>b. file_bytes (ms_files (sl_service (cm_storage s))) (object_path t (crs_sha256 r)) = Some b
        \<and> sv_sha256 (rs_storage_env st) b = crs_sha256 r)
    \<and> (\<exists>c \<in> set (lc_replicas (cm_db s)). cmo_media_object_id c = m
        \<and> cmo_object_key c = object_key (crs_sha256 r) \<and> cmo_content_hash c = Some (crs_sha256 r))"
proof -
  let ?svc = "sl_service (cm_storage s)"
  have store: "store_inv (rs_storage_env st) ts (ms_minted ?svc) (ms_files ?svc) (cm_db s)"
    using assms(1) by (simp add: media_inv_def)
  have ri: "receiver_inv (rs_storage_env st) ts (ms_minted ?svc) (ms_files ?svc) (lc_replicas (cm_db s)) r"
    using store_invD(7) [OF store assms(2)] .
  then obtain t where t: "t \<in> set ts" "is_file (ms_files ?svc) (object_path t (crs_sha256 r))"
    using assms(3) by (auto simp: receiver_inv_def)
  then obtain b where b: "file_bytes (ms_files ?svc) (object_path t (crs_sha256 r)) = Some b"
    by (auto simp: is_file_def file_bytes_def split: option.splits fs_entry.splits)
  then have "sv_sha256 (rs_storage_env st) b = crs_sha256 r"
    using store_invD(2) [OF store] t(1) ri by (auto simp: content_addressed_def receiver_inv_def)
  then show ?thesis using t(1) b ri assms(3) unfolding receiver_inv_def by blast
qed

section \<open>A receiver whose staged file is ahead\<close>

text \<open>
  The staged file of an unfinished receiver holds more bytes than the database has confirmed:
  what an append leaves when its answer or its commit is lost.
\<close>

definition staged_ahead :: "target_config list \<Rightarrow> uuid \<Rightarrow> int \<Rightarrow> central_media \<Rightarrow> bool" where
  "staged_ahead ts i c s \<longleftrightarrow>
     (\<exists>r p b. receiver s i = Some r \<and> crs_confirmed_offset r = c \<and> c < crs_expected_size r
        \<and> crs_finalized_media_object_id r = None \<and> receiver_path ts r = Some p
        \<and> file_bytes (ms_files (sl_service (cm_storage s))) p = Some b \<and> c < int (length b))"

text \<open>A request leaves the receiver's row and its staged file alone.\<close>

definition spares ::
  "target_config list \<Rightarrow> uuid \<Rightarrow> central_media \<Rightarrow> central_media \<Rightarrow> bool" where
  "spares ts i s s' \<longleftrightarrow>
     receiver s' i = receiver s i
     \<and> (\<forall>r p. receiver s i = Some r \<longrightarrow> receiver_path ts r = Some p \<longrightarrow>
          file_bytes (ms_files (sl_service (cm_storage s'))) p = file_bytes (ms_files (sl_service (cm_storage s))) p)"

lemma spares_ahead: "staged_ahead ts i c s \<Longrightarrow> spares ts i s s' \<Longrightarrow> staged_ahead ts i c s'"
  unfolding staged_ahead_def spares_def by metis

lemma spares_same:
  "cm_db s' = cm_db s \<Longrightarrow> ms_files (sl_service (cm_storage s')) = ms_files (sl_service (cm_storage s)) \<Longrightarrow> spares ts i s s'"
  by (simp add: spares_def receiver_def)

lemma spares_session:
  assumes "m s = (r, s')" "spares ts i s s'"
  shows "spares ts i s (snd (with_session commits m s))"
proof -
  have "spares ts i s (s'\<lparr>cm_db := cm_db s\<rparr>)" using assms(2) by (simp add: spares_def receiver_def)
  then show ?thesis
    using assms by (cases r) (auto simp: with_session_def tx_bind_def tx_then_def receive_flush_def)
qed

lemma receiver_put_other:
  "k \<noteq> i \<Longrightarrow> (\<And>r. crs_replication_session_id (f r) = crs_replication_session_id r) \<Longrightarrow>
     row_get crs_replication_session_id (row_put crs_replication_session_id k f rows) i
     = row_get crs_replication_session_id rows i"
  by (induction rows) auto

lemma append_spares:
  assumes inv: "media_inv st ts s" and sep: "separate_targets ts"
    and r: "receiver s i = Some r" "receiver_path ts r = Some p" "file_bytes (ms_files (sl_service (cm_storage s))) p = Some b"
    and k: "receiver s k = Some x" "crs_storage_target_id x = Some target"
    and other: "k = i \<Longrightarrow> off < int (length b)"
    and run: "content_call st x target off body s = (y, s')"
  shows "spares ts i s s'" and "k = i \<Longrightarrow> isl y"
proof -
  let ?env = "rs_storage_env st" and ?svc = "sl_service (cm_storage s)"
  obtain w where call: "async_append ?env (rs_storage_token st) target (crs_partial_key x) off
      (bounded (rs_transfer_block_bytes st) off (crs_expected_size x) 0 (rb_chunks body) (rb_complete body)) (cm_storage s) = (y, w)"
    and s': "s' = s\<lparr>cm_storage := w\<rparr>" using on_storage_run [OF run] by metis
  have ts: "ms_targets ?svc = ts" and store: "store_inv ?env ts (ms_minted ?svc) (ms_files ?svc) (cm_db s)"
    using inv by (simp_all add: media_inv_def)
  have rmem: "r \<in> set (lc_receives (cm_db s))" "x \<in> set (lc_receives (cm_db s))"
    using receiver_mem [OF r(1)] receiver_mem [OF k(1)] by simp_all
  have wf: "fs_wf (ms_files ?svc)" using store_invD(1) [OF store] .
  have "file_bytes (ms_files (sl_service w)) p = Some b \<and> (k = i \<longrightarrow> isl y)"
  proof (cases rule: async_append_cases [OF call])
    case 1
    then show ?thesis using r(3) by simp
  next
    case (2 z)
    note res = 2(2)
    show ?thesis
    proof (cases rule: append_staging_cases [OF wf 2(1)])
      case (1 e)
      then show ?thesis using r(3) res by (cases y) auto
    next
      case (2 e t fs')
      then show ?thesis using r(3) res dirs_added_bytes by (cases y) auto
    next
      case (3 t fs')
      let ?q = "file_path t (crs_partial_key x)"
      have path: "receiver_path ts x = Some ?q" using k(2) ts 3(1) by (simp add: receiver_path_def)
      have "k \<noteq> i"
      proof
        assume "k = i"
        with r k path have "?q = p" by simp
        with 3(5) r(3) other [OF \<open>k = i\<close>] show False
          by (auto simp: stat_size_def file_bytes_def split: option.splits fs_entry.splits)
      qed
      then have "x \<noteq> r" using receiver_mem [OF r(1)] receiver_mem [OF k(1)] by auto
      then have "?q \<noteq> p" using receiver_path_unique [OF store sep rmem(1) r(2) rmem(2)] path by auto
      obtain a u where a: "a \<in> set ts" "p = staging_path a u"
        using receiver_pathE [OF store_invD(7) [OF store rmem(1)] r(2)] by metis
      obtain a' u' where a': "a' \<in> set ts" "?q = staging_path a' u'"
        using receiver_pathE [OF store_invD(7) [OF store rmem(2)] path] by metis
      obtain j where j: "fs_entries (ms_files ?svc) p = Some (Inode j)" "fs_data (ms_files ?svc) j = b"
        using r(3) by (auto simp: file_bytes_def split: option.splits fs_entry.splits)
      have "fs_entries (ms_files ?svc) ?q \<noteq> Some (Inode j)"
        using store_invD(4) [OF store] a a' j(1) \<open>?q \<noteq> p\<close> unfolding own_inodes_def by metis
      then have "fs_data fs' j = b"
        using appended_data [OF 3(4) fs_wf_inode [OF wf j(1)]] j(2) by simp
      moreover have "fs_entries fs' p = Some (Inode j)" using appended_entry [OF 3(4)] \<open>?q \<noteq> p\<close> j(1) by metis
      ultimately show ?thesis using 3(2) \<open>k \<noteq> i\<close> inode_bytes by simp
    qed
  qed
  then show "spares ts i s s'" and "k = i \<Longrightarrow> isl y"
    using r s' by (simp_all add: spares_def receiver_def)
qed

lemma commit_spares:
  assumes inv: "media_inv st ts s" and sep: "separate_targets ts"
    and k: "receiver s k = Some x" "crs_storage_target_id x = Some target"
    and run: "finalize_call st x target s = (y, s')"
  shows "spares ts i s s'"
proof -
  let ?env = "rs_storage_env st" and ?svc = "sl_service (cm_storage s)" and ?sha = "crs_sha256 x"
  obtain w where call: "async_commit ?env (rs_storage_token st) target (crs_partial_key x) ?sha (cm_storage s) = (y, w)"
    and s': "s' = s\<lparr>cm_storage := w\<rparr>" using on_storage_run [OF run] by metis
  have ts: "ms_targets ?svc = ts" and store: "store_inv ?env ts (ms_minted ?svc) (ms_files ?svc) (cm_db s)"
    using inv by (simp_all add: media_inv_def)
  have wf: "fs_wf (ms_files ?svc)" using store_invD(1) [OF store] .
  have kept: "file_bytes (ms_files (sl_service w)) p = file_bytes (ms_files ?svc) p"
    if r: "receiver s i = Some r" "receiver_path ts r = Some p" for r p
  proof -
    have rmem: "r \<in> set (lc_receives (cm_db s))" using receiver_mem [OF r(1)] by simp
    obtain a u where a: "a \<in> set ts" "p = staging_path a u"
      using receiver_pathE [OF store_invD(7) [OF store rmem] r(2)] by metis
    consider "sl_service w = ?svc"
      | f0 t b where "is_sha256 ?sha" "row_get tc_storage_target_id ts (ms_assignments ?svc Media_Role) = Some t"
        "file_bytes (ms_files ?svc) (file_path f0 (crs_partial_key x)) = Some b" "sv_sha256 ?env b = ?sha"
        "sl_service w = snd (commit_tail ?env f0 (file_path f0 (crs_partial_key x)) ?sha t ?svc)"
      using async_authorized_cases [OF call [unfolded async_commit_def]]
        commit_target [of ?env target "crs_partial_key x" ?sha ?svc] ts by force
    then show ?thesis
    proof cases
      case 1
      then show ?thesis by simp
    next
      case (2 f0 t b)
      obtain z s1 where tail: "commit_tail ?env f0 (file_path f0 (crs_partial_key x)) ?sha t ?svc = (z, s1)" by fastforce
      obtain fs' m v where s1: "s1 = ?svc\<lparr>ms_files := fs', ms_minted := m\<rparr>"
        and lnk: "linked (file_path f0 (crs_partial_key x)) (partial_path (object_path t ?sha) v) (object_path t ?sha) b
          (ms_files ?svc) fs'"
        using commit_tail_run [OF wf 2(3,4) tail] by metis
      have t: "t \<in> set ts" using row_get_SomeD [OF 2(2)] by simp
      have same: "fs_entries fs' p = fs_entries (ms_files ?svc) p"
        using lnk staging_not_object [OF sep a(1) t] partial_not_leaf(2) [OF 2(1)] leaf_paths(4) [OF sep a(1) t] a(2)
        unfolding linked_def by metis
      have "fs_data fs' j = fs_data (ms_files ?svc) j" if "fs_entries (ms_files ?svc) p = Some (Inode j)" for j
        using lnk fs_wf_inode [OF wf that] unfolding linked_def by blast
      then have "file_bytes fs' p = file_bytes (ms_files ?svc) p"
        using same by (simp add: file_bytes_def split: option.split fs_entry.split)
      then show ?thesis using 2(5) tail s1 by simp
    qed
  qed
  then show ?thesis using s' by (simp add: spares_def receiver_def)
qed

lemma allocate_spares:
  assumes "media_inv st ts s" "on_storage (async_allocate (rs_storage_env st) token) s = (y, s')"
  shows "spares ts i s s'"
proof -
  obtain w where call: "async_allocate (rs_storage_env st) token (cm_storage s) = (y, w)"
    and s': "s' = s\<lparr>cm_storage := w\<rparr>" using on_storage_run [OF assms(2)] by metis
  have "ms_files (sl_service w) = ms_files (sl_service (cm_storage s))"
    using async_authorized_cases [OF call [unfolded async_allocate_def]]
      allocate_run [of "rs_storage_env st" "sl_service (cm_storage s)"] by auto
  then show ?thesis using s' by (intro spares_same) simp_all
qed

lemma spares_rows:
  assumes "spares ts i s s1" "cm_storage s' = cm_storage s1" "receiver s' i = receiver s1 i"
  shows "spares ts i s s'"
  using assms by (simp add: spares_def)

lemma content_spares:
  assumes inv: "media_inv st ts s" and sep: "separate_targets ts" and ahead: "staged_ahead ts i c s"
    and run: "replication_content now st k off body site auth s = (x, s')"
  shows "spares ts i s s'"
proof (cases rule: replication_content_cases [OF run])
  case 1
  then show ?thesis by (simp add: spares_same)
next
  case (2 q target y s1)
  obtain r p b where r: "receiver s i = Some r" "crs_confirmed_offset r = c" "receiver_path ts r = Some p"
    "file_bytes (ms_files (sl_service (cm_storage s))) p = Some b" "c < int (length b)"
    using ahead unfolding staged_ahead_def by blast
  have off: "k = i \<Longrightarrow> off < int (length b)" using 2(1,3) r(1,2,5) by simp
  note sp = append_spares [OF inv sep r(1,3,4) 2(1,2) off 2(5)]
  show ?thesis
  proof (cases y)
    case (Inl e)
    then show ?thesis using sp(1) 2(6) by blast
  next
    case (Inr z)
    then have "k \<noteq> i" using sp(2) by auto
    then show ?thesis using 2(7) [OF Inr]
      by (intro spares_rows [OF sp(1)])
        (simp_all add: put_receiver_run receiver_def receiver_put_other received_def)
  qed
qed

lemma finalize_spares:
  assumes inv: "media_inv st ts s" and sep: "separate_targets ts" and ahead: "staged_ahead ts i c s"
    and run: "finalize_replication_endpoint cx now st k site auth s = (x, s')"
  shows "spares ts i s s'"
proof (cases rule: finalize_endpoint_cases [OF run])
  case 1
  then show ?thesis by (simp add: spares_same)
next
  case (2 q target y s1)
  have sp: "spares ts i s s1" by (rule commit_spares [OF inv sep 2(1,2,4)])
  have ki: "crs_replication_session_id q \<noteq> i"
    using ahead 2(1,3) receiver_mem [OF 2(1)] unfolding staged_ahead_def by fastforce
  show ?thesis
  proof (cases y)
    case (Inl e)
    then show ?thesis using sp 2(5) by blast
  next
    case (Inr co)
    then obtain z where ref: "finalize_replication_reference cx now q co s1 = (z, s')" using 2(6) by blast
    have "receiver s' i = receiver s1 i"
      using finalize_reference_run(2) [OF ref] ki
      by (auto simp: receiver_def receiver_put_other finalized_def)
    then show ?thesis using finalize_reference_run(1) [OF ref] by (intro spares_rows [OF sp])
  qed
qed

lemma create_spares:
  assumes inv: "media_inv st ts s" and ahead: "staged_ahead ts i c s"
    and run: "create_replication now st payload site auth s = (x, s')"
  shows "spares ts i s s'"
proof (cases rule: create_cases [OF run])
  case 1
  then show ?thesis by (simp add: spares_same)
next
  case (2 y s1 site_id)
  obtain z where al: "on_storage (async_allocate (rs_storage_env st) (rs_storage_token st)) s = (z, s1)"
    using allocate_receiver_run [OF 2(2)] by metis
  note sp = allocate_spares [OF inv al, of i]
  have "receiver s1 i \<noteq> None" using sp ahead unfolding spares_def staged_ahead_def by auto
  then show ?thesis using sp 2(3,4)
    by (cases y) (auto intro!: spares_rows [OF sp] simp: receiver_def row_get_append split: option.splits)
next
  case (3 r y s1)
  note sp = allocate_spares [OF inv 3(4), of i]
  obtain q where q: "receiver s i = Some q" "receiver_path ts q \<noteq> None"
    using ahead unfolding staged_ahead_def by blast
  have other: "crs_replication_session_id r \<noteq> i"
    using receiver_mem [OF 3(1)] 3(1,3) q by (auto simp: receiver_path_def)
  show ?thesis
  proof (cases y)
    case (Inl e)
    then show ?thesis using sp 3(5) by blast
  next
    case (Inr a)
    show ?thesis
      using 3(6) [OF Inr] other
      by (intro spares_rows [OF sp]) (simp_all add: put_receiver_run receiver_def receiver_put_other)
  qed
qed

lemma receiver_step_ahead:
  assumes step: "receiver_step cx st s s'" and inv: "media_inv st ts s" and sep: "separate_targets ts"
    and ahead: "staged_ahead ts i c s"
  shows "staged_ahead ts i c s'"
proof (rule spares_ahead [OF ahead])
  show "spares ts i s s'"
    using step
  proof cases
    case (create commits now payload site auth)
    obtain x s1 where "create_replication now st payload site auth s = (x, s1)" by fastforce
    then show ?thesis using create spares_session create_spares [OF inv ahead] by metis
  next
    case (content commits now k off body site auth)
    obtain x s1 where "replication_content now st k off body site auth s = (x, s1)" by fastforce
    then show ?thesis using content spares_session content_spares [OF inv sep ahead] by metis
  next
    case (finalize commits now k site auth)
    obtain x s1 where "finalize_replication_endpoint cx now st k site auth s = (x, s1)" by fastforce
    then show ?thesis using finalize spares_session finalize_spares [OF inv sep ahead] by metis
  next
    case (network faults)
    then show ?thesis by (simp add: spares_same)
  next
    case (elsewhere db)
    then show ?thesis by (simp add: spares_def receiver_def)
  qed
qed

lemma receiver_steps_ahead:
  assumes "(receiver_step cx st)\<^sup>*\<^sup>* s s'" "media_inv st ts s" "separate_targets ts"
    "distinct_uuids (rs_storage_env st)" "staged_ahead ts i c s"
  shows "staged_ahead ts i c s'"
  using assms
proof (induction rule: rtranclp_induct)
  case base
  then show ?case by simp
next
  case (step a b)
  have "media_inv st ts a" using receiver_steps_inv [OF step.hyps(1) assms(2-4)] .
  then show ?case using receiver_step_ahead [OF step.hyps(2) _ assms(3)] step.IH assms by blast
qed

end
