(* ===== verification/Media_Push.thy ===== *)
theory Media_Push
  imports Replication_Integrity
begin

text \<open>
  The Site's side of a push: \<open>execute_central_push\<close> of \<open>upm_site/media/replication.py\<close> and the
  branch of the worker's loop that runs it. The state is the Site's database, its storage
  service, and Central as the requests reach it. The worker runs the push inside one database
  session and handles its exceptions there, so what the push has written before an exception
  stays. The request body reaches Central in the chunks the network makes of it.
\<close>

section \<open>The link to Central\<close>

record site_media =
  sm_db :: site_db
  sm_targets :: "site_storage_target list"
  sm_storage :: storage_link
  sm_central :: central_media
  sm_faults :: "(fault \<times> bool) list"

type_synonym 'a push_tx = "(site_media, 'a) tx"

record push_settings =
  ps_vault :: vault
  ps_storage_env :: storage_env
  ps_storage_token :: string
  ps_transfer_block_bytes :: int
  ps_retry_base_seconds :: rat
  ps_chunks :: "bytes \<Rightarrow> bytes list"
  ps_codec :: codec
  ps_central :: replication_settings

definition http_reply :: "'a outcome \<Rightarrow> 'a reply" where
  "http_reply r =
     (case r of
        Inr x \<Rightarrow> Response 200 [] (Inr x)
      | Inl (HTTPException status detail) \<Rightarrow> Response status detail (Inl (ValueError ''body''))
      | Inl e \<Rightarrow> Response 500 ''Internal Server Error'' (Inl (ValueError ''body'')))"

text \<open>What the network does with the next request, and whether Central's commit succeeds.\<close>

definition next_carriage :: "site_media \<Rightarrow> fault \<times> bool" where
  "next_carriage s = (case sm_faults s of [] \<Rightarrow> (Deliver, True) | f # fs \<Rightarrow> f)"

definition central_call :: "'a central_media_tx \<Rightarrow> 'a push_tx" where
  "central_call m s =
     (let s' = s\<lparr>sm_faults := tl (sm_faults s)\<rparr>; commits = snd (next_carriage s) in
      case fst (next_carriage s) of
        Lose_request \<Rightarrow> (Inl (TransportError ''connection failed''), s')
      | Lose_reply \<Rightarrow> (Inl (TransportError ''connection failed''),
                       s'\<lparr>sm_central := snd (with_session commits m (sm_central s))\<rparr>)
      | Deliver \<Rightarrow> (case with_session commits m (sm_central s) of (r, c) \<Rightarrow>
          (checked (http_reply r), s'\<lparr>sm_central := c\<rparr>)))"

definition on_site_storage :: "'a storage_call \<Rightarrow> 'a push_tx" where
  "on_site_storage m s = (case m (sm_storage s) of (r, w) \<Rightarrow> (r, s\<lparr>sm_storage := w\<rparr>))"

section \<open>The push\<close>

definition replication_row :: "site_media \<Rightarrow> uuid \<Rightarrow> site_media_replication_session option" where
  "replication_row s i = row_get smr_replication_session_id (sd_replication_sessions (sm_db s)) i"

definition put_replication ::
  "uuid \<Rightarrow> (site_media_replication_session \<Rightarrow> site_media_replication_session) \<Rightarrow> unit push_tx" where
  "put_replication i f = tx_write (\<lambda>s. s\<lparr>sm_db := (sm_db s)\<lparr>sd_replication_sessions :=
     row_put smr_replication_session_id i f (sd_replication_sessions (sm_db s))\<rparr>\<rparr>)"

definition put_job :: "uuid \<Rightarrow> (job \<Rightarrow> job) \<Rightarrow> unit push_tx" where
  "put_job i f = tx_write (\<lambda>s. s\<lparr>sm_db := (sm_db s)\<lparr>sd_queue := (sd_queue (sm_db s))\<lparr>
     q_transfer := row_put j_id i f (q_transfer (sd_queue (sm_db s)))\<rparr>\<rparr>\<rparr>)"

record push_source =
  pu_replication :: site_media_replication_session
  pu_media :: site_media_object
  pu_presentation :: site_presentation
  pu_authorization :: string

definition load_push_source :: "push_settings \<Rightarrow> uuid \<Rightarrow> push_source push_tx" where
  "load_push_source st job_id =
     tx_bind (tx_read (\<lambda>s. replication_row s job_id)) (\<lambda>replication.
     case replication of
       None \<Rightarrow> tx_raise (ValueError ''replication session does not exist'')
     | Some r \<Rightarrow>
         tx_bind (tx_read (\<lambda>s.
           let media = row_get smo_media_object_id (sd_media_objects (sm_db s)) (smr_media_object_id r)
           in (media,
               Option.bind media (\<lambda>m. row_get stg_storage_target_id (sm_targets s) (smo_storage_target_id m)),
               row_get spr_presentation_id (sd_presentations (sm_db s)) (smr_presentation_id r),
               row_get scg_site_id (sd_registrations (sm_db s)) (smr_site_id r)))) (\<lambda>rows.
         case rows of
           (Some media, Some target, Some presentation, Some registration) \<Rightarrow>
             tx_bind (tx_lift (decrypt_secret (ps_vault st) (scg_credential_encrypted registration))) (\<lambda>token.
             case (given token, given (scg_central_url registration)) of
               (Some token, Some central_url) \<Rightarrow>
                 tx_return \<lparr>pu_replication = r, pu_media = media, pu_presentation = presentation,
                   pu_authorization = ''Bearer '' @ token\<rparr>
             | _ \<Rightarrow> tx_raise (RuntimeError ''Central registration is unavailable''))
         | _ \<Rightarrow> tx_raise (ValueError ''replication source metadata is unavailable'')))"

definition push_manifest :: "push_source \<Rightarrow> replication_create" where
  "push_manifest u =
     (let r = pu_replication u in
      \<lparr>rc_replication_session_id = smr_replication_session_id r, rc_event_id = smr_event_id r,
       rc_presentation_id = smr_presentation_id r, rc_presentation_version_id = smr_presentation_version_id r,
       rc_media_object_id = smr_media_object_id r,
       rc_presentation_identifier = spr_presentation_identifier (pu_presentation u),
       rc_original_filename = smr_original_filename r, rc_canonical_filename = smr_canonical_filename r,
       rc_expected_size = smr_expected_size r, rc_sha256 = smr_sha256 r, rc_media_type = smr_media_type r\<rparr>)"

text \<open>The two requests of a turn of the loop, and the turn: a block, Central's answer, the new offset.\<close>

abbreviation read_block :: "push_settings \<Rightarrow> push_source \<Rightarrow> int \<Rightarrow> bytes push_tx" where
  "read_block st u confirmed \<equiv>
     on_site_storage (sync_read_object (ps_storage_env st) (ps_storage_token st)
       (smo_storage_target_id (pu_media u)) (smo_object_key (pu_media u)) confirmed
       (min (ps_transfer_block_bytes st) (smr_expected_size (pu_replication u) - confirmed)))"

abbreviation put_block :: "datetime \<Rightarrow> push_settings \<Rightarrow> push_source \<Rightarrow> int \<Rightarrow> bytes \<Rightarrow> replication_view central_media_tx" where
  "put_block now st u confirmed block \<equiv>
     replication_content now (ps_central st) (smr_replication_session_id (pu_replication u)) confirmed
       \<lparr>rb_chunks = ps_chunks st block, rb_complete = True\<rparr> (Some (smr_site_id (pu_replication u)))
       (Some (pu_authorization u))"

definition push_block :: "datetime \<Rightarrow> push_settings \<Rightarrow> push_source \<Rightarrow> int \<Rightarrow> int push_tx" where
  "push_block now st u confirmed =
     (let r = pu_replication u; i = smr_replication_session_id r; expected = smr_expected_size r in
      tx_bind (read_block st u confirmed) (\<lambda>block.
      if block = [] then tx_raise (RuntimeError ''Site media ended before expected size'')
      else
        tx_bind (central_call (put_block now st u confirmed block)) (\<lambda>remote.
        if rv_confirmed_offset remote \<noteq> confirmed + int (length block)
        then tx_raise (ValueError ''Central acknowledgment does not match uploaded block'')
        else
          tx_then (put_replication i (\<lambda>r. r\<lparr>smr_confirmed_offset := rv_confirmed_offset remote, smr_last_progress_at := Some now\<rparr>))
            (tx_then (put_job i (\<lambda>j. j\<lparr>j_progress := (if expected = 0 then 100
                else of_int (rv_confirmed_offset remote * 100) / of_int expected)\<rparr>))
              (tx_return (rv_confirmed_offset remote))))))"

lemma row_put_ids:
  "(\<And>r. key (f r) = key r) \<Longrightarrow> map key (row_put key i f rows) = map key rows"
  by (induction rows) auto

lemma push_blockE:
  assumes "push_block now st u confirmed s = (Inr n, s')"
  obtains block s1 remote s2 where
    "read_block st u confirmed s = (Inr block, s1)" "block \<noteq> []"
    "central_call (put_block now st u confirmed block) s1 = (Inr remote, s2)"
    "n = rv_confirmed_offset remote" "n = confirmed + int (length block)"
    "sm_central s' = sm_central s2" "sm_storage s' = sm_storage s2" "sm_faults s' = sm_faults s2"
    "map smr_replication_session_id (sd_replication_sessions (sm_db s'))
      = map smr_replication_session_id (sd_replication_sessions (sm_db s2))"
  using assms
  by (auto simp: push_block_def Let_def tx_bind_def tx_then_def put_replication_def put_job_def row_put_ids
      split: prod.splits sum.splits if_splits)

lemma push_block_advances:
  assumes "push_block now st u confirmed s = (Inr n, s')"
  shows "confirmed < n"
  using assms by (rule push_blockE) (metis length_greater_0_conv less_add_same_cancel1 of_nat_0_less_iff)

function push_blocks :: "datetime \<Rightarrow> push_settings \<Rightarrow> push_source \<Rightarrow> int \<Rightarrow> unit push_tx" where
  "push_blocks now st u confirmed s =
     (if confirmed < smr_expected_size (pu_replication u)
      then case push_block now st u confirmed s of
             (Inl e, s') \<Rightarrow> (Inl e, s')
           | (Inr next, s') \<Rightarrow> push_blocks now st u next s'
      else (Inr (), s))"
  by pat_completeness auto

termination
  by (relation "measure (\<lambda>(now, st, u, confirmed, s). nat (smr_expected_size (pu_replication u) - confirmed))")
    (auto dest: push_block_advances [OF sym])

declare push_blocks.simps [simp del]

definition execute_central_push :: "datetime \<Rightarrow> push_settings \<Rightarrow> uuid \<Rightarrow> bool push_tx" where
  "execute_central_push now st job_id =
     tx_bind (load_push_source st job_id) (\<lambda>u.
     let r = pu_replication u; i = smr_replication_session_id r in
     tx_bind (central_call (create_replication now (ps_central st) (push_manifest u) (Some (smr_site_id r))
        (Some (pu_authorization u)))) (\<lambda>remote.
     if rv_confirmed_offset remote < 0 \<or> smr_expected_size r < rv_confirmed_offset remote
     then tx_raise (ValueError ''Central returned an invalid confirmed offset'')
     else
       tx_then (put_replication i (\<lambda>r. r\<lparr>smr_confirmed_offset := rv_confirmed_offset remote, smr_state := Repl_SYNCING\<rparr>))
         (tx_then (push_blocks now st u (rv_confirmed_offset remote))
           (tx_bind (central_call (finalize_replication_endpoint (ps_codec st) now (ps_central st) i (Some (smr_site_id r))
              (Some (pu_authorization u)))) (\<lambda>result.
            case rv_central_media_object_id result of
              None \<Rightarrow> tx_raise (ValueError ''Central did not return a finalized replication result'')
            | Some media_id \<Rightarrow>
                if rv_replication_state result \<noteq> Repl_SYNCED
                   \<or> rv_presentation_version_id result \<noteq> smr_presentation_version_id r
                then tx_raise (ValueError ''Central did not return a finalized replication result'')
                else
                  tx_then (put_replication i (\<lambda>r. r\<lparr>smr_central_media_object_id := Some media_id,
                      smr_state := Repl_SYNCED, smr_last_error := None, smr_last_progress_at := Some now\<rparr>))
                    (tx_return True))))))"

section \<open>The worker\<close>

text \<open>\<open>str(error)\<close>\<close>

fun error_str :: "error \<Rightarrow> string" where
  "error_str (KeyError k) = [CHR 0x27] @ k @ [CHR 0x27]"
| "error_str (ValueError t) = t" | "error_str (TypeError t) = t" | "error_str (LookupError t) = t"
| "error_str (PermissionError t) = t" | "error_str (OverflowError t) = t" | "error_str (RuntimeError t) = t"
| "error_str (OSError t) = t" | "error_str (IntegrityError t) = t" | "error_str (AttributeError t) = t"
| "error_str (TransportError t) = t" | "error_str (MediaStorageUnavailable t) = t"
| "error_str (MediaStorageOperationError t status code) = t" | "error_str (MediaStagingError t code) = t"
| "error_str (DeliveryFailure code detail retryable) = detail"
| "error_str (HTTPException status detail) = str_int (int status) @ '': '' @ detail"

definition push_failure :: "push_settings \<Rightarrow> string \<Rightarrow> error \<Rightarrow> failure" where
  "push_failure st code e =
     \<lparr>f_error_code = code, f_message = error_str e, f_retryable = True,
      f_base_delay = ps_retry_base_seconds st, f_jitter = 0, f_metadata = None\<rparr>"

definition transfer_job :: "site_media \<Rightarrow> uuid \<Rightarrow> job option" where
  "transfer_job s i = row_get j_id (q_transfer (sd_queue (sm_db s))) i"

definition settle_job :: "uuid \<Rightarrow> (job \<Rightarrow> job outcome) \<Rightarrow> job push_tx" where
  "settle_job i f =
     tx_bind (tx_read (\<lambda>s. transfer_job s i)) (\<lambda>job.
     case job of
       None \<Rightarrow> tx_raise (AttributeError ''job'')
     | Some j \<Rightarrow> tx_bind (tx_lift (f j)) (\<lambda>j'. tx_then (put_job i (\<lambda>_. j')) (tx_return j')))"

definition run_central_push :: "datetime \<Rightarrow> push_settings \<Rightarrow> string \<Rightarrow> uuid \<Rightarrow> unit push_tx" where
  "run_central_push now st worker_id job_id =
     tx_try (execute_central_push now st job_id) (\<lambda>r.
       case r of
         Inr ok \<Rightarrow>
           if ok then tx_then (settle_job job_id (\<lambda>j. site_complete j worker_id now)) (tx_return ())
           else put_job job_id (\<lambda>j. j\<lparr>j_status := Job_PENDING, j_claimed_by := None, j_lease_expires_at := None\<rparr>)
       | Inl e \<Rightarrow>
           tx_then (put_replication job_id (\<lambda>r. r\<lparr>smr_retry_count := smr_retry_count r + 1,
               smr_last_error := Some (take 2048 (error_str e))\<rparr>))
             (tx_bind (settle_job job_id (\<lambda>j. site_fail j worker_id (push_failure st ''media_push_failed'' e) now)) (\<lambda>j.
              put_replication job_id (\<lambda>r. r\<lparr>smr_state := (if j_status j = Job_RETRY_WAIT then Repl_RETRY_WAIT
                else Repl_FAILED)\<rparr>))))"

section \<open>What a successful push means\<close>

lemma with_session_Inr: "with_session commits m s = (Inr x, s') \<Longrightarrow> m s = (Inr x, s')"
  by (auto simp: with_session_def tx_bind_def tx_then_def receive_flush_def split: prod.splits sum.splits if_splits)

lemma checked_reply: "checked (http_reply r) = Inr x \<longleftrightarrow> r = Inr x"
  by (auto simp: http_reply_def split: sum.split error.split)

lemma central_call_Inr:
  assumes "central_call m s = (Inr x, s')"
  shows "m (sm_central s) = (Inr x, sm_central s')"
    and "\<exists>commits. sm_central s' = snd (with_session commits m (sm_central s))"
    and "sm_db s' = sm_db s" "sm_storage s' = sm_storage s" "sm_targets s' = sm_targets s"
proof -
  obtain c where c: "with_session (snd (next_carriage s)) m (sm_central s) = (Inr x, c)"
    and s': "s' = s\<lparr>sm_faults := tl (sm_faults s), sm_central := c\<rparr>"
    using assms by (auto simp: central_call_def Let_def checked_reply split: fault.splits prod.splits)
  show "m (sm_central s) = (Inr x, sm_central s')" using with_session_Inr [OF c] s' by simp
  show "\<exists>commits. sm_central s' = snd (with_session commits m (sm_central s))"
    by (rule exI [of _ "snd (next_carriage s)"]) (simp add: c s')
  show "sm_db s' = sm_db s" "sm_storage s' = sm_storage s" "sm_targets s' = sm_targets s" using s' by simp_all
qed

lemma on_site_storage_frame:
  "on_site_storage m s = (r, s') \<Longrightarrow> sm_central s' = sm_central s \<and> sm_db s' = sm_db s \<and> sm_faults s' = sm_faults s"
  by (auto simp: on_site_storage_def split: prod.splits)

lemma receiver_put_same:
  "(\<And>r. crs_replication_session_id (f r) = crs_replication_session_id r) \<Longrightarrow>
     row_get crs_replication_session_id (row_put crs_replication_session_id i f rows) i
     = map_option f (row_get crs_replication_session_id rows i)"
  by (induction rows) auto

lemma create_receiver:
  assumes "create_replication now st payload site auth s = (Inr v, s')"
  shows "\<exists>r. receiver s' (rc_replication_session_id payload) = Some r \<and> crs_sha256 r = rc_sha256 payload"
proof (cases "receiver s (rc_replication_session_id payload)")
  case (Some r)
  then show ?thesis
    using assms receiver_mem [OF Some]
    by (auto simp: create_replication_def resume_replication_def same_replication_def tx_bind_def tx_then_def
        put_receiver_def Let_def receiver_def receiver_put_same on_storage_def site_request_def
        split: sum.splits option.splits if_splits prod.splits)
next
  case None
  then show ?thesis
    using assms
    by (auto simp: create_replication_def tx_bind_def tx_then_def Let_def receiver_def row_get_append
        on_storage_def site_request_def receive_flush_def new_receiver_def allocate_receiver_def tx_try_def
        split: sum.splits option.splits if_splits prod.splits error.splits)
qed

lemma content_receiver:
  assumes "replication_content now st k off body site auth s = (x, s')" "receiver s i = Some r"
  shows "\<exists>r'. receiver s' i = Some r' \<and> crs_sha256 r' = crs_sha256 r"
proof (cases rule: replication_content_cases [OF assms(1)])
  case 1
  then show ?thesis using assms(2) by simp
next
  case (2 q target y s1)
  have s1: "cm_db s1 = cm_db s" using 2(5) by (auto simp: on_storage_def split: prod.splits)
  show ?thesis
  proof (cases y)
    case (Inl e)
    then show ?thesis using 2(6) s1 assms(2) by (simp add: receiver_def)
  next
    case (Inr z)
    then show ?thesis using 2(7) [OF Inr] s1 assms(2)
      by (cases "k = i") (simp_all add: put_receiver_run receiver_def receiver_put_same receiver_put_other received_def)
  qed
qed

lemma finalize_receiver:
  assumes "finalize_replication_endpoint cx now st i site auth s = (Inr v, s')" "receiver s i = Some r"
  shows "\<exists>r'. receiver s' i = Some r' \<and> crs_sha256 r' = crs_sha256 r \<and> v = receiver_view r'"
proof -
  have view: "\<exists>r'. receiver s' i = Some r' \<and> v = receiver_view r'"
    using assms(1)
    by (auto simp: finalize_replication_endpoint_def tx_bind_def tx_then_def split: prod.splits sum.splits option.splits if_splits)
  have "\<exists>r'. receiver s' i = Some r' \<and> crs_sha256 r' = crs_sha256 r"
  proof (cases rule: finalize_endpoint_cases [OF assms(1)])
    case 1
    then show ?thesis using assms(2) by simp
  next
    case (2 q target y s1)
    have s1: "cm_db s1 = cm_db s" using 2(4) by (auto simp: on_storage_def split: prod.splits)
    obtain co z where ref: "finalize_replication_reference cx now q co s1 = (z, s')" using 2(5,6) by (cases y) auto
    then show ?thesis
      using finalize_reference_run(2) [OF ref] s1 assms(2)
      by (cases "crs_replication_session_id q = i")
        (auto simp: receiver_def receiver_put_same receiver_put_other finalized_def)
  qed
  with view show ?thesis by auto
qed

lemma push_block_central:
  assumes blk: "push_block now st u confirmed s = (Inr n, s')"
    and inv: "media_inv (ps_central st) ts (sm_central s)" and rec: "receiver (sm_central s) i = Some r"
    and sep: "separate_targets ts" "distinct_uuids (rs_storage_env (ps_central st))"
  shows "media_inv (ps_central st) ts (sm_central s')"
    "\<exists>r'. receiver (sm_central s') i = Some r' \<and> crs_sha256 r' = crs_sha256 r"
    "map smr_replication_session_id (sd_replication_sessions (sm_db s'))
      = map smr_replication_session_id (sd_replication_sessions (sm_db s))"
proof -
  obtain block s1 remote s2 where read: "read_block st u confirmed s = (Inr block, s1)"
    and call: "central_call (put_block now st u confirmed block) s1 = (Inr remote, s2)"
    and s': "sm_central s' = sm_central s2"
      "map smr_replication_session_id (sd_replication_sessions (sm_db s'))
      = map smr_replication_session_id (sd_replication_sessions (sm_db s2))"
    using push_blockE [OF blk] by metis
  note fr = on_site_storage_frame [OF read] and cc = central_call_Inr [OF call]
  obtain commits where c: "sm_central s' = snd (with_session commits (put_block now st u confirmed block) (sm_central s))"
    using cc(2) s'(1) fr by auto
  show "media_inv (ps_central st) ts (sm_central s')"
    unfolding c by (rule with_session_media [OF content_keeps [OF sep] inv TrueI])
  show "\<exists>r'. receiver (sm_central s') i = Some r' \<and> crs_sha256 r' = crs_sha256 r"
    using content_receiver [OF cc(1)] rec fr s'(1) by simp
  show "map smr_replication_session_id (sd_replication_sessions (sm_db s'))
      = map smr_replication_session_id (sd_replication_sessions (sm_db s))"
    using s'(2) cc(3) fr by simp
qed

lemma push_blocks_central:
  assumes "push_blocks now st u confirmed s = (Inr x, s')"
    and "media_inv (ps_central st) ts (sm_central s)" "receiver (sm_central s) i = Some r"
    and "separate_targets ts" "distinct_uuids (rs_storage_env (ps_central st))"
  shows "media_inv (ps_central st) ts (sm_central s')
    \<and> (\<exists>r'. receiver (sm_central s') i = Some r' \<and> crs_sha256 r' = crs_sha256 r)
    \<and> map smr_replication_session_id (sd_replication_sessions (sm_db s'))
      = map smr_replication_session_id (sd_replication_sessions (sm_db s))"
  using assms
proof (induction now st u confirmed s arbitrary: r rule: push_blocks.induct)
  case (1 now st u confirmed s)
  show ?case
  proof (cases "confirmed < smr_expected_size (pu_replication u)")
    case False
    then show ?thesis using "1.prems" by (simp add: push_blocks.simps)
  next
    case True
    then obtain n s1 where blk: "push_block now st u confirmed s = (Inr n, s1)"
      and rest: "push_blocks now st u n s1 = (Inr x, s')"
      using "1.prems"(1) by (auto simp: push_blocks.simps [of now st u confirmed] split: prod.splits sum.splits)
    note one = push_block_central [OF blk "1.prems"(2-5)]
    obtain r1 where r1: "receiver (sm_central s1) i = Some r1" "crs_sha256 r1 = crs_sha256 r" using one(2) by blast
    show ?thesis
      using "1.IH" [OF True blk [symmetric] refl rest one(1) r1(1) "1.prems"(4,5)] r1(2) one(3) by simp
  qed
qed

lemma push_source_run:
  assumes "load_push_source st i s = (Inr u, s')"
  shows "s' = s" "replication_row s i = Some (pu_replication u)"
  using assms
  by (auto simp: load_push_source_def tx_bind_def Let_def split: option.splits prod.splits sum.splits)

lemma replication_row_ids:
  "map smr_replication_session_id (sd_replication_sessions (sm_db s'))
     = map smr_replication_session_id (sd_replication_sessions (sm_db s)) \<Longrightarrow>
   replication_row s i \<noteq> None \<Longrightarrow> replication_row s' i \<noteq> None"
  unfolding replication_row_def row_get_None_iff by (metis list.set_map)

text \<open>The requests and states of a push that returned.\<close>

definition synced_row :: "datetime \<Rightarrow> uuid \<Rightarrow> site_media_replication_session \<Rightarrow> site_media_replication_session" where
  "synced_row now m r = r\<lparr>smr_central_media_object_id := Some m, smr_state := Repl_SYNCED, smr_last_error := None,
     smr_last_progress_at := Some now\<rparr>"

interpretation synced: row_update smr_replication_session_id "synced_row now m" for now m
  by unfold_locales (simp add: synced_row_def)

lemma execute_central_pushE:
  assumes "execute_central_push now st i s = (Inr ok, s')"
  obtains u view s1 s2 s3 result s4 m where "load_push_source st i s = (Inr u, s)"
    "central_call (create_replication now (ps_central st) (push_manifest u) (Some (smr_site_id (pu_replication u)))
       (Some (pu_authorization u))) s = (Inr view, s1)"
    "sm_central s2 = sm_central s1"
    "map smr_replication_session_id (sd_replication_sessions (sm_db s2))
      = map smr_replication_session_id (sd_replication_sessions (sm_db s1))"
    "push_blocks now st u (rv_confirmed_offset view) s2 = (Inr (), s3)"
    "central_call (finalize_replication_endpoint (ps_codec st) now (ps_central st)
       (smr_replication_session_id (pu_replication u)) (Some (smr_site_id (pu_replication u)))
       (Some (pu_authorization u))) s3 = (Inr result, s4)"
    "rv_central_media_object_id result = Some m" "sm_central s' = sm_central s4"
    "sd_replication_sessions (sm_db s') = row_put smr_replication_session_id
       (smr_replication_session_id (pu_replication u)) (synced_row now m) (sd_replication_sessions (sm_db s4))"
proof -
  obtain u where src: "load_push_source st i s = (Inr u, s)"
    using assms push_source_run by (auto simp: execute_central_push_def tx_bind_def split: prod.splits sum.splits)
  let ?i = "smr_replication_session_id (pu_replication u)"
  obtain view s1 where create: "central_call (create_replication now (ps_central st) (push_manifest u)
      (Some (smr_site_id (pu_replication u))) (Some (pu_authorization u))) s = (Inr view, s1)"
    using assms src by (auto simp: execute_central_push_def tx_bind_def Let_def split: prod.splits sum.splits)
  define s2 where "s2 = snd (put_replication ?i (\<lambda>r. r\<lparr>smr_confirmed_offset := rv_confirmed_offset view, smr_state := Repl_SYNCING\<rparr>) s1)"
  obtain s3 where blocks: "push_blocks now st u (rv_confirmed_offset view) s2 = (Inr (), s3)"
    using assms src create
    by (auto simp: execute_central_push_def tx_bind_def tx_then_def Let_def put_replication_def s2_def
        split: prod.splits sum.splits if_splits)
  obtain result s4 where fin: "central_call (finalize_replication_endpoint (ps_codec st) now (ps_central st)
       ?i (Some (smr_site_id (pu_replication u))) (Some (pu_authorization u))) s3 = (Inr result, s4)"
    and s': "\<exists>m. rv_central_media_object_id result = Some m \<and> s' = snd (put_replication ?i (synced_row now m) s4)"
    using assms src create blocks
    by (auto simp: execute_central_push_def tx_bind_def tx_then_def Let_def put_replication_def s2_def synced_row_def [abs_def]
        split: prod.splits sum.splits if_splits option.splits)
  from s' obtain m where m: "rv_central_media_object_id result = Some m" "s' = snd (put_replication ?i (synced_row now m) s4)"
    by blast
  show thesis
    by (rule that [OF src create _ _ blocks fin m(1)]) (simp_all add: s2_def m(2) put_replication_def row_put_ids)
qed

text \<open>
  When a push returns, whatever was lost on the way and however many times the session was resumed,
  Central's object store holds bytes with the digest the Site announced, and Central and the Site
  have recorded it.
\<close>

lemma push_verified:
  assumes run: "execute_central_push now st i s = (Inr ok, s')"
    and inv: "media_inv (ps_central st) ts (sm_central s)" "uuids_left (sm_central s)"
    and sep: "separate_targets ts" "distinct_uuids (rs_storage_env (ps_central st))"
  shows "\<exists>r. replication_row s i = Some r
    \<and> (\<exists>t \<in> set ts. \<exists>b. file_bytes (ms_files (sl_service (cm_storage (sm_central s')))) (object_path t (smr_sha256 r)) = Some b
          \<and> sv_sha256 (rs_storage_env (ps_central st)) b = smr_sha256 r)
    \<and> (\<exists>c \<in> set (lc_replicas (cm_db (sm_central s'))). cmo_object_key c = object_key (smr_sha256 r)
          \<and> cmo_content_hash c = Some (smr_sha256 r))
    \<and> map_option smr_state (replication_row s' (smr_replication_session_id r)) = Some Repl_SYNCED"
proof -
  obtain u view s1 s2 s3 result s4 m where p: "load_push_source st i s = (Inr u, s)"
    "central_call (create_replication now (ps_central st) (push_manifest u) (Some (smr_site_id (pu_replication u)))
       (Some (pu_authorization u))) s = (Inr view, s1)"
    "sm_central s2 = sm_central s1"
    "map smr_replication_session_id (sd_replication_sessions (sm_db s2))
      = map smr_replication_session_id (sd_replication_sessions (sm_db s1))"
    "push_blocks now st u (rv_confirmed_offset view) s2 = (Inr (), s3)"
    "central_call (finalize_replication_endpoint (ps_codec st) now (ps_central st)
       (smr_replication_session_id (pu_replication u)) (Some (smr_site_id (pu_replication u)))
       (Some (pu_authorization u))) s3 = (Inr result, s4)"
    "rv_central_media_object_id result = Some m" "sm_central s' = sm_central s4"
    "sd_replication_sessions (sm_db s') = row_put smr_replication_session_id
       (smr_replication_session_id (pu_replication u)) (synced_row now m) (sd_replication_sessions (sm_db s4))"
    using execute_central_pushE [OF run] by metis
  let ?r = "pu_replication u" and ?c = "ps_central st"
  let ?i = "smr_replication_session_id ?r"
  note row = push_source_run(2) [OF p(1)]
  have i: "?i = i" using row row_get_SomeD unfolding replication_row_def by metis
  note cr = central_call_Inr [OF p(2)] and fi = central_call_Inr [OF p(6)]
  obtain commits where "sm_central s1 = snd (with_session commits (create_replication now ?c (push_manifest u)
      (Some (smr_site_id ?r)) (Some (pu_authorization u))) (sm_central s))" using cr(2) by blast
  then have inv1: "media_inv ?c ts (sm_central s1)" using with_session_media [OF create_keeps inv] by simp
  obtain r1 where r1: "receiver (sm_central s1) ?i = Some r1" "crs_sha256 r1 = smr_sha256 ?r"
    using create_receiver [OF cr(1)] by (auto simp: push_manifest_def Let_def)
  obtain r2 where inv2: "media_inv ?c ts (sm_central s3)" and r2: "receiver (sm_central s3) ?i = Some r2"
      "crs_sha256 r2 = smr_sha256 ?r"
    and ids: "map smr_replication_session_id (sd_replication_sessions (sm_db s3))
      = map smr_replication_session_id (sd_replication_sessions (sm_db s2))"
    using push_blocks_central [OF p(5) _ _ sep, of ?i r1] inv1 r1 p(3) by auto
  obtain commits where "sm_central s4 = snd (with_session commits (finalize_replication_endpoint (ps_codec st) now ?c ?i
      (Some (smr_site_id ?r)) (Some (pu_authorization u))) (sm_central s3))" using fi(2) by blast
  then have inv4: "media_inv ?c ts (sm_central s4)" using with_session_media [OF finalize_keeps [OF sep(1)] inv2 TrueI] by simp
  obtain r4 where r4: "receiver (sm_central s4) ?i = Some r4" "crs_sha256 r4 = smr_sha256 ?r" "result = receiver_view r4"
    using finalize_receiver [OF fi(1) r2(1)] r2(2) by auto
  have "r4 \<in> set (lc_receives (cm_db (sm_central s4)))" "crs_finalized_media_object_id r4 = Some m"
    using receiver_mem [OF r4(1)] p(7) r4(3) by (simp_all add: receiver_view_def)
  note held = media_inv_finalized [OF inv4 this]
  have "replication_row s4 ?i \<noteq> None"
    using replication_row_ids [of s4 s ?i] ids p(4) cr(3) fi(3) row i by (simp add: replication_row_def)
  then have "map_option smr_state (replication_row s' ?i) = Some Repl_SYNCED"
    unfolding replication_row_def p(9) synced.get_same by (auto simp: synced_row_def)
  then show ?thesis using held r4(2) p(8) row i by auto
qed

end
