(* ===== verification/Push_Delivery.thy ===== *)
theory Push_Delivery
  imports Media_Push
begin

text \<open>
  A push that nothing interrupts delivers the file: from a session Central has never seen, and
  from any session whose confirmed offset agrees with the bytes staged for it. One lemma per request
  says that it is accepted and what it leaves; the loop is an induction over them.
\<close>

section \<open>A reachable Central\<close>

definition authorised :: "replication_settings \<Rightarrow> push_source \<Rightarrow> central_db \<Rightarrow> bool" where
  "authorised st u db \<longleftrightarrow>
     (let r = pu_replication u in
      (\<exists>site. authenticated (rs_digest st) (Some (smr_site_id r)) (Some (pu_authorization u)) db = Inr site
         \<and> ccs_site_id site = smr_site_id r)
      \<and> (\<exists>p. authorize_replication_context (smr_site_id r) (smr_event_id r) (smr_presentation_id r)
             (smr_presentation_version_id r) db = Inr p
           \<and> cpr_presentation_identifier p = spr_presentation_identifier (pu_presentation u)))"

text \<open>The storage service answers, its targets are mounted, and no file stands where a directory is needed.\<close>

definition clear_way :: "file_system \<Rightarrow> fs_path \<Rightarrow> bool" where
  "clear_way fs p \<longleftrightarrow> (\<forall>q. prefix q (butlast p) \<longrightarrow> \<not> is_file fs q)"

definition accepting ::
  "replication_settings \<Rightarrow> target_config list \<Rightarrow> target_config \<Rightarrow> target_config \<Rightarrow> string \<Rightarrow> central_media \<Rightarrow> bool" where
  "accepting st ts t m sha c \<longleftrightarrow>
     (let svc = sl_service (cm_storage c); fs = ms_files svc in
      media_inv st ts c \<and> receive_constraints (cm_db c) \<and> sl_faults (cm_storage c) = []
      \<and> rs_storage_token st = sv_service_token (rs_storage_env st)
      \<and> row_get tc_storage_target_id ts (tc_storage_target_id t) = Some t \<and> tc_enabled t
      \<and> row_get tc_storage_target_id ts (ms_assignments svc Media_Role) = Some m \<and> tc_enabled m
      \<and> path_exists fs (tc_internal_path t) \<and> path_exists fs (tc_internal_path m)
      \<and> clear_way fs (staging_path t 0) \<and> clear_way fs (object_path m sha)
      \<and> (\<forall>v. fs_entries fs (partial_path (object_path m sha) v) = None))"

definition staged_bytes :: "file_system \<Rightarrow> fs_path \<Rightarrow> bytes" where
  "staged_bytes fs p = (case file_bytes fs p of None \<Rightarrow> [] | Some b \<Rightarrow> b)"

text \<open>Central has a session for the push whose staged bytes are the first \<open>off\<close> bytes of the file.\<close>

definition holding ::
  "replication_settings \<Rightarrow> target_config \<Rightarrow> push_source \<Rightarrow> bytes \<Rightarrow> int \<Rightarrow> central_media \<Rightarrow> bool" where
  "holding st t u data off c \<longleftrightarrow>
     (\<exists>r. receiver c (smr_replication_session_id (pu_replication u)) = Some r
        \<and> same_replication (smr_site_id (pu_replication u)) (push_manifest u) r
        \<and> crs_presentation_id r = smr_presentation_id (pu_replication u)
        \<and> crs_storage_target_id r = Some (tc_storage_target_id t)
        \<and> crs_finalized_media_object_id r = None \<and> crs_confirmed_offset r = off
        \<and> (let fs = ms_files (sl_service (cm_storage c)); p = file_path t (crs_partial_key r) in
           fs_entries fs p \<noteq> Some Directory \<and> staged_bytes fs p = take (nat off) data))"

lemma push_manifest_simps [simp]:
  "rc_replication_session_id (push_manifest u) = smr_replication_session_id (pu_replication u)"
  "rc_event_id (push_manifest u) = smr_event_id (pu_replication u)"
  "rc_presentation_id (push_manifest u) = smr_presentation_id (pu_replication u)"
  "rc_presentation_version_id (push_manifest u) = smr_presentation_version_id (pu_replication u)"
  "rc_media_object_id (push_manifest u) = smr_media_object_id (pu_replication u)"
  "rc_presentation_identifier (push_manifest u) = spr_presentation_identifier (pu_presentation u)"
  "rc_expected_size (push_manifest u) = smr_expected_size (pu_replication u)"
  "rc_sha256 (push_manifest u) = smr_sha256 (pu_replication u)"
  by (simp_all add: push_manifest_def Let_def)

section \<open>A block\<close>

lemma replication_for_site_authorised:
  assumes "authorised st u (lc_db (cm_db c))" "receiver c i = Some r"
    and "same_replication (smr_site_id (pu_replication u)) (push_manifest u) r"
    and "crs_presentation_id r = smr_presentation_id (pu_replication u)"
  shows "replication_for_site (rs_digest st) i (Some (smr_site_id (pu_replication u))) (Some (pu_authorization u)) c
    = (Inr r, c)"
  using assms
  by (auto simp: replication_for_site_def site_request_def tx_bind_def authorised_def Let_def same_replication_def)

lemma bounded_all:
  "int (length (concat cs)) + w \<le> block \<Longrightarrow> off + w + int (length (concat cs)) \<le> expected \<Longrightarrow>
     bounded block off expected w cs True = (cs, None)"
proof (induction cs arbitrary: w)
  case Nil
  then show ?case by simp
next
  case (Cons x cs)
  then have "bounded block off expected (w + int (length x)) cs True = (cs, None)"
    by (intro Cons.IH) simp_all
  with Cons.prems show ?case by (simp add: Let_def)
qed

lemma append_tail_succeeds:
  assumes wf: "fs_wf (ms_files s)" and way: "clear_way (ms_files s) p" and p: "p \<noteq> []" "fs_entries (ms_files s) p \<noteq> Some Directory"
    and size: "int (length (staged_bytes (ms_files s) p)) = off" and full: "rb_complete body"
  shows "\<exists>fs'. append_tail env i key off body p s =
      (Inr \<lparr>sa_storage_target_id = i, sa_storage_key = key,
         sa_confirmed_offset = off + int (length (concat (rb_chunks body)))\<rparr>, s\<lparr>ms_files := fs'\<rparr>)
    \<and> fs_wf fs' \<and> appended p (concat (rb_chunks body)) (ms_files s) fs'"
proof -
  obtain fs1 where mk: "mkdir_parents (butlast p) (ms_files s) = (Inr (), fs1)"
    using mkdir_parents_succeeds [of "butlast p" "ms_files s"] way unfolding clear_way_def
    by (metis prod.collapse)
  have wf1: "fs_wf fs1" and dir1: "is_dir fs1 (butlast p)"
    using mkdir_parents_run [OF wf, of "butlast p"] mk by auto
  have add: "dirs_added (butlast p) (ms_files s) fs1" using dirs.keeps_run [OF mkdir_parents_added mk] .
  have same: "fs_entries fs1 p = fs_entries (ms_files s) p"
    using dirs_added_entry [OF add, of p] not_prefix_butlast [OF p(1)] by blast
  have st: "stat_size env fs1 p = off"
    using size same p(2) dirs_added_data [OF add]
    by (auto simp: stat_size_def staged_bytes_def file_bytes_def split: option.splits fs_entry.splits)
  have nd: "fs_entries fs1 p \<noteq> Some Directory" using same p(2) by simp
  obtain fs2 where app: "tx_bind (open_append p) (\<lambda>i. write_body i body) fs1 = (Inr (), fs2)"
    and wf2: "fs_wf fs2" and ad: "appended p (concat (rb_chunks body)) fs1 fs2"
    using append_file [OF wf1 dir1 p(1) nd, of body] full by auto
  have "appended p (concat (rb_chunks body)) (ms_files s) fs2" using appended_after_dirs [OF add ad nd] .
  then show ?thesis
    using mk st app wf2 by (intro exI [of _ fs2]) (simp add: append_tail_def tx_then_def tx_bind_def on_files_def)
qed

lemma appended_exists: "appended p b fs fs' \<Longrightarrow> path_exists fs q \<Longrightarrow> path_exists fs' q"
  unfolding appended_def path_exists_def by (cases "q = p") auto

lemma appended_file:
  assumes "appended p b fs fs'" "q \<noteq> p"
  shows "is_file fs' q = is_file fs q"
proof -
  have "is_file g q \<longleftrightarrow> (\<exists>i. fs_entries g q = Some (Inode i))" for g
    by (simp add: is_file_def split: option.split fs_entry.split)
  then show ?thesis using appended_entry [OF assms] by simp
qed

lemma appended_clear:
  assumes "appended p b fs fs'" "clear_way fs q" "\<not> prefix p (butlast q)"
  shows "clear_way fs' q"
  using assms(2,3) appended_file [OF assms(1)] unfolding clear_way_def by metis

lemma partial_not_above:
  assumes "separate_targets ts" "a \<in> set ts" "b \<in> set ts"
  shows "\<not> prefix (partial_path (object_path a s) v) (butlast (staging_path b w))"
proof -
  have "partial_path (object_path a s) v
      = tc_internal_path a @ [''objects'', ''sha256'', take 2 s, ''.'' @ s @ ''.'' @ uuid_str v @ ''.partial'']"
    by (simp add: partial_path_def object_path_def butlast_append)
  then show ?thesis
    using separate_roots [OF assms, of "[''objects'', ''sha256'', take 2 s, ''.'' @ s @ ''.'' @ uuid_str v @ ''.partial'']" "[''staging'']"]
    by (auto simp: butlast_paths)
qed

lemma clear_staging: "clear_way fs (staging_path t u) = clear_way fs (staging_path t v)"
  by (simp add: clear_way_def butlast_paths)

lemma receiver_staging_key:
  assumes acc: "accepting st ts t m sha c" and r: "receiver c i = Some r" "crs_storage_target_id r \<noteq> None"
  obtains w where "crs_partial_key r = staging_key w" "file_path t (crs_partial_key r) = staging_path t w"
proof -
  have "receiver_inv (rs_storage_env st) ts (ms_minted (sl_service (cm_storage c))) (ms_files (sl_service (cm_storage c)))
      (lc_replicas (cm_db c)) r"
    using acc receiver_mem [OF r(1)] by (simp add: accepting_def Let_def media_inv_def store_inv_def)
  then obtain n where "crs_partial_key r = staging_key (sv_uuid4 (rs_storage_env st) n)"
    using r(2) unfolding receiver_inv_def by blast
  then show thesis using that by simp
qed

text \<open>The storage half: the bytes of a block are appended.\<close>

lemma append_accepted:
  assumes acc: "accepting st ts t m sha c" and sep: "separate_targets ts" "is_sha256 sha"
    and r: "receiver c i = Some r" "crs_storage_target_id r = Some (tc_storage_target_id t)"
    and p: "p = file_path t (crs_partial_key r)" "fs_entries (ms_files (sl_service (cm_storage c))) p \<noteq> Some Directory"
    and off: "int (length (staged_bytes (ms_files (sl_service (cm_storage c))) p)) = off"
    and fit: "int (length (concat cs)) \<le> rs_transfer_block_bytes st" "off + int (length (concat cs)) \<le> crs_expected_size r"
  shows "\<exists>fs'. content_call st r (tc_storage_target_id t) off \<lparr>rb_chunks = cs, rb_complete = True\<rparr> c =
      (Inr \<lparr>sa_storage_target_id = tc_storage_target_id t, sa_storage_key = crs_partial_key r,
         sa_confirmed_offset = off + int (length (concat cs))\<rparr>,
       c\<lparr>cm_storage := (cm_storage c)\<lparr>sl_service := (sl_service (cm_storage c))\<lparr>ms_files := fs'\<rparr>\<rparr>\<rparr>)
    \<and> appended p (concat cs) (ms_files (sl_service (cm_storage c))) fs'"
proof -
  let ?svc = "sl_service (cm_storage c)" and ?env = "rs_storage_env st"
  have inv: "media_inv st ts c" using acc by (simp add: accepting_def Let_def)
  then have store: "store_inv ?env ts (ms_minted ?svc) (ms_files ?svc) (cm_db c)" and ts: "ms_targets ?svc = ts"
    by (simp_all add: media_inv_def)
  obtain w where key: "crs_partial_key r = staging_key w" and p': "p = staging_path t w"
    by (rule receiver_staging_key [OF acc r(1)]) (use r(2) p(1) in simp_all)
  have way: "clear_way (ms_files ?svc) p"
    using acc clear_staging p' by (auto simp: accepting_def Let_def)
  obtain fs' where tail: "append_tail ?env (tc_storage_target_id t) (crs_partial_key r) off \<lparr>rb_chunks = cs, rb_complete = True\<rparr> p ?svc
      = (Inr \<lparr>sa_storage_target_id = tc_storage_target_id t, sa_storage_key = crs_partial_key r,
           sa_confirmed_offset = off + int (length (concat cs))\<rparr>, ?svc\<lparr>ms_files := fs'\<rparr>)"
    and app: "appended p (concat cs) (ms_files ?svc) fs'"
    using append_tail_succeeds [OF store_invD(1) [OF store] way _ p(2) off, of "\<lparr>rb_chunks = cs, rb_complete = True\<rparr>"]
    by (force simp: p' staging_path_def)
  have "append_staging ?env (tc_storage_target_id t) (crs_partial_key r) off \<lparr>rb_chunks = cs, rb_complete = True\<rparr> ?svc
      = append_tail ?env (tc_storage_target_id t) (crs_partial_key r) off \<lparr>rb_chunks = cs, rb_complete = True\<rparr> p ?svc"
    unfolding p(1)
    by (rule append_staging_accepts [of _ _ _ _ _ "parse_path (crs_partial_key r)"])
      (use acc off ts key staging_key_segments(1) in \<open>auto simp: accepting_def Let_def\<close>)
  moreover have "bounded (rs_transfer_block_bytes st) off (crs_expected_size r) 0 cs True = (cs, None)"
    using fit by (intro bounded_all) simp_all
  ultimately show ?thesis
    using tail app acc
    by (intro exI [of _ fs'])
      (simp add: on_storage_def async_append_def tx_try_def async_request_def storage_request_def next_fault_def
        authorized_def accepting_def Let_def)
qed

text \<open>The service still accepts requests after the append.\<close>

lemma accepting_appended:
  assumes acc: "accepting st ts t m sha c" and sep: "separate_targets ts" "is_sha256 sha"
    and app: "appended (staging_path t v) b (ms_files (sl_service (cm_storage c))) fs'"
    and c': "media_inv st ts c'" "receive_constraints (cm_db c')"
      "cm_storage c' = (cm_storage c)\<lparr>sl_service := (sl_service (cm_storage c))\<lparr>ms_files := fs'\<rparr>\<rparr>"
  shows "accepting st ts t m sha c'"
proof -
  let ?fs = "ms_files (sl_service (cm_storage c))"
  have t: "t \<in> set ts" "m \<in> set ts"
    using acc row_get_SomeD unfolding accepting_def Let_def by metis+
  have way: "clear_way fs' (staging_path t 0)" "clear_way fs' (object_path m sha)"
    using acc leaf_paths(3,4) [OF sep(1)] t by (auto intro!: appended_clear [OF app] simp: accepting_def Let_def)
  have part: "fs_entries fs' (partial_path (object_path m sha) w) = None" for w
  proof -
    have "fs_entries ?fs (partial_path (object_path m sha) w) = None" using acc by (simp add: accepting_def Let_def)
    moreover have "partial_path (object_path m sha) w \<noteq> staging_path t v" by (rule partial_not_leaf(2) [OF sep(2)])
    ultimately show ?thesis
      using app partial_not_above [OF sep(1) t(2,1), of sha w v] unfolding appended_def by metis
  qed
  show ?thesis
    using acc c' way part appended_exists [OF app] by (simp add: accepting_def Let_def)
qed

lemma with_session_commits:
  "m s = (Inr x, s') \<Longrightarrow> receive_constraints (cm_db s') \<Longrightarrow> with_session True m s = (Inr x, s')"
  by (simp add: with_session_def tx_bind_def tx_then_def receive_flush_def)

lemma keyed_put_other: "(\<And>r. g (f r) = g r) \<Longrightarrow> keyed g (row_put key k f rows) = keyed g rows"
  by (simp add: keyed_def row_put_def comp_def if_distrib [of g] cong: if_cong)

lemma received_constraints:
  assumes "receive_constraints db" "row_get crs_replication_session_id (lc_receives db) i = Some r"
    and "0 \<le> n" "n \<le> crs_expected_size r"
  shows "receive_constraints (db\<lparr>lc_receives := row_put crs_replication_session_id i (received now n) (lc_receives db)\<rparr>)"
proof -
  have "crs_expected_size x = crs_expected_size r" if "x \<in> set (lc_receives db)" "crs_replication_session_id x = i" for x
    using that assms(1,2) row_get_mem [of crs_replication_session_id "lc_receives db" x] by (simp add: receive_constraints_def)
  then show ?thesis
    using assms by (auto simp: receive_constraints_def keyed_put_other list_all_iff received_def dest!: row_put_cases)
qed

text \<open>A block that continues the file is confirmed.\<close>

lemma content_accepted:
  fixes u c
  defines "i \<equiv> smr_replication_session_id (pu_replication u)"
  assumes acc: "accepting st ts t m sha c" and sep: "separate_targets ts" "is_sha256 sha" "distinct_uuids (rs_storage_env st)"
    and auth: "authorised st u (lc_db (cm_db c))" and hold: "holding st t u data off c" "0 \<le> off"
    and cs: "concat cs = take n (drop (nat off) data)" "nat off + n \<le> length data" "int n \<le> rs_transfer_block_bytes st"
    and size: "smr_expected_size (pu_replication u) = int (length data)"
  shows "\<exists>v c'. with_session True (replication_content now st i off \<lparr>rb_chunks = cs, rb_complete = True\<rparr>
        (Some (smr_site_id (pu_replication u))) (Some (pu_authorization u))) c = (Inr v, c')
    \<and> rv_confirmed_offset v = off + int n \<and> accepting st ts t m sha c' \<and> lc_db (cm_db c') = lc_db (cm_db c)
    \<and> lc_replicas (cm_db c') = lc_replicas (cm_db c) \<and> lc_assets (cm_db c') = lc_assets (cm_db c)
    \<and> holding st t u data (off + int n) c' \<and> receiver c' i = map_option (received now (off + int n)) (receiver c i)"
proof -
  let ?svc = "sl_service (cm_storage c)" and ?fs = "ms_files (sl_service (cm_storage c))"
  obtain r where r: "receiver c i = Some r" "same_replication (smr_site_id (pu_replication u)) (push_manifest u) r"
      "crs_presentation_id r = smr_presentation_id (pu_replication u)"
      "crs_storage_target_id r = Some (tc_storage_target_id t)"
      "crs_finalized_media_object_id r = None" "crs_confirmed_offset r = off"
    and f: "fs_entries ?fs (file_path t (crs_partial_key r)) \<noteq> Some Directory"
      "staged_bytes ?fs (file_path t (crs_partial_key r)) = take (nat off) data"
    using hold(1) unfolding holding_def Let_def i_def by blast
  have expected: "crs_expected_size r = int (length data)"
    using r(2) size by (simp add: same_replication_def)
  have len: "length (concat cs) = n" using cs(1,2) by simp
  have fit: "off + int n \<le> int (length data)" using cs(2) hold(2) by linarith
  obtain fs' where call: "content_call st r (tc_storage_target_id t) off \<lparr>rb_chunks = cs, rb_complete = True\<rparr> c =
      (Inr \<lparr>sa_storage_target_id = tc_storage_target_id t, sa_storage_key = crs_partial_key r,
         sa_confirmed_offset = off + int n\<rparr>, c\<lparr>cm_storage := (cm_storage c)\<lparr>sl_service := ?svc\<lparr>ms_files := fs'\<rparr>\<rparr>\<rparr>)"
    and app: "appended (file_path t (crs_partial_key r)) (concat cs) ?fs fs'"
    using append_accepted [OF acc sep(1,2) r(1,4) refl f(1), of off cs] f(2) hold(2) cs(2,3) len fit expected by auto
  define c' where "c' = c\<lparr>cm_storage := (cm_storage c)\<lparr>sl_service := ?svc\<lparr>ms_files := fs'\<rparr>\<rparr>,
      cm_db := (cm_db c)\<lparr>lc_receives := row_put crs_replication_session_id i (received now (off + int n)) (lc_receives (cm_db c))\<rparr>\<rparr>"
  have run: "replication_content now st i off \<lparr>rb_chunks = cs, rb_complete = True\<rparr>
        (Some (smr_site_id (pu_replication u))) (Some (pu_authorization u)) c
      = (Inr (receiver_view (received now (off + int n) r)), c')"
    using replication_for_site_authorised [OF auth r(1-3)] r(4-6) call hold(2)
    by (simp add: replication_content_def tx_then_def tx_bind_def require_def put_receiver_def c'_def)
  have con: "receive_constraints (cm_db c')"
    using received_constraints [of "cm_db c" i r "off + int n" now] acc r(1) expected hold(2) cs(2)
    by (simp add: c'_def accepting_def Let_def receiver_def)
  have done': "with_session True (replication_content now st i off \<lparr>rb_chunks = cs, rb_complete = True\<rparr>
        (Some (smr_site_id (pu_replication u))) (Some (pu_authorization u))) c
      = (Inr (receiver_view (received now (off + int n) r)), c')"
    by (rule with_session_commits [where m = "replication_content now st i off _ _ _", OF run con])
  have "media_inv st ts c" using acc by (simp add: accepting_def Let_def)
  from with_session_media [OF content_keeps [OF sep(1,3)] this TrueI, of True now i off
      "\<lparr>rb_chunks = cs, rb_complete = True\<rparr>" "Some (smr_site_id (pu_replication u))" "Some (pu_authorization u)"]
  have inv: "media_inv st ts c'" using done' by simp
  obtain w where w: "file_path t (crs_partial_key r) = staging_path t w"
    by (rule receiver_staging_key [OF acc r(1)]) (use r(4) in simp_all)
  have acc': "accepting st ts t m sha c'"
    by (rule accepting_appended [OF acc sep(1,2) app [unfolded w] inv con]) (simp add: c'_def)
  have got: "receiver c' i = Some (received now (off + int n) r)"
    using receiver_put_same [of "received now (off + int n)" i "lc_receives (cm_db c)"] r(1)
    by (simp add: c'_def receiver_def received_def)
  have "staged_bytes fs' (file_path t (crs_partial_key r)) = take (nat (off + int n)) data"
    using appended_bytes [OF app] f(2) cs(1) hold(2) by (simp add: staged_bytes_def nat_add_distrib take_add split: option.splits)
  moreover have "fs_entries fs' (file_path t (crs_partial_key r)) \<noteq> Some Directory"
    using app unfolding appended_def by auto
  ultimately have hold': "holding st t u data (off + int n) c'"
    using got r(2-5) unfolding holding_def Let_def i_def [symmetric]
    by (auto simp: received_def same_replication_def c'_def)
  show ?thesis using done' acc' hold' got r(1) by (intro exI) (auto simp: c'_def receiver_view_def received_def)
qed

section \<open>The last request\<close>

lemma publish_succeeds:
  assumes src: "file_bytes fs src = Some b" "sv_sha256 env b = sha" and dst: "dst \<noteq> []" "is_dir fs (butlast dst)"
    and tmp: "tmp \<noteq> []" "butlast tmp = butlast dst" "tmp \<noteq> dst" "fs_entries fs tmp = None"
  shows "fst (publish env same src tmp dst sha fs) = Inr ()"
proof -
  obtain j where "fs_entries fs src = Some (Inode j)"
    using src(1) by (auto simp: file_bytes_def split: option.splits fs_entry.splits)
  moreover have "tmp \<noteq> butlast dst" using tmp(1,2) by (metis length_butlast diff_less length_greater_0_conv less_one nat_less_le)
  ultimately show ?thesis
    using src dst tmp
    by (cases "fs_entries fs dst"; cases same)
      (simp_all add: publish_def copy_verified_def tx_finally_def tx_try_def tx_bind_def tx_then_def create_file_def
        path_exists_def write_chunk_def link_file_def unlink_file_def set_entry_def is_dir_def)
qed

lemma commit_tail_succeeds:
  assumes wf: "fs_wf (ms_files s)" and src: "file_bytes (ms_files s) src = Some b" "sv_sha256 env b = sha"
    and way: "clear_way (ms_files s) (object_path t sha)"
    and part: "\<And>v. fs_entries (ms_files s) (partial_path (object_path t sha) v) = None"
  shows "\<exists>co s'. commit_tail env from src sha t s = (Inr co, s')"
proof -
  define dst where "dst = object_path t sha"
  have dst: "dst \<noteq> []" by (simp add: dst_def object_path_def)
  obtain fs1 where mk: "mkdir_parents (butlast dst) (ms_files s) = (Inr (), fs1)"
    using mkdir_parents_succeeds [of "butlast dst" "ms_files s"] way unfolding clear_way_def dst_def
    by (metis prod.collapse)
  have dir1: "is_dir fs1 (butlast dst)" using mkdir_parents_run [OF wf, of "butlast dst"] mk by auto
  have add: "dirs_added (butlast dst) (ms_files s) fs1" using dirs.keeps_run [OF mkdir_parents_added mk] .
  define tmp where "tmp = partial_path dst (sv_uuid4 env (ms_minted s))"
  have tmp: "tmp \<noteq> []" "butlast tmp = butlast dst" "tmp \<noteq> dst"
    using partial_path_simps [of dst] dst by (simp_all add: tmp_def)
  have "fs_entries fs1 tmp = None"
    using dirs_added_entry [OF add, of tmp] part not_prefix_butlast [OF tmp(1)] tmp(2) by (simp add: tmp_def dst_def)
  moreover have "file_bytes fs1 src = Some b" using src(1) dirs_added_bytes [OF add] by simp
  ultimately have "fst (publish env (sv_same_device env (tc_internal_path from) (tc_internal_path t)) src tmp dst sha fs1) = Inr ()"
    using publish_succeeds [OF _ src(2) dst dir1 tmp] by blast
  then show ?thesis using mk
    by (cases "publish env (sv_same_device env (tc_internal_path from) (tc_internal_path t)) src tmp dst sha fs1")
      (auto simp: commit_tail_def Let_def tx_then_def tx_bind_def on_files_def storage_uuid4_def dst_def tmp_def)
qed

lemma commit_accepted:
  assumes acc: "accepting st ts t m sha c" and sha: "is_sha256 sha"
    and data: "file_bytes (ms_files (sl_service (cm_storage c))) (file_path t (crs_partial_key r)) = Some b"
      "sv_sha256 (rs_storage_env st) b = sha" "crs_sha256 r = sha"
    and r: "receiver c i = Some r" "crs_storage_target_id r \<noteq> None"
  shows "\<exists>co c'. finalize_call st r (tc_storage_target_id t) c = (Inr co, c') \<and> cm_db c' = cm_db c"
proof -
  let ?svc = "sl_service (cm_storage c)" and ?env = "rs_storage_env st"
  obtain w where key: "crs_partial_key r = staging_key w"
    using receiver_staging_key [OF acc r] by metis
  have wf: "fs_wf (ms_files ?svc)" and ts: "ms_targets ?svc = ts"
    using acc by (simp_all add: accepting_def Let_def media_inv_def store_inv_def)
  have "commit ?env (tc_storage_target_id t) (crs_partial_key r) sha ?svc
      = commit_tail ?env t (file_path t (crs_partial_key r)) sha m ?svc"
    by (rule commit_accepts [OF sha])
      (use acc ts data key staging_key_segments(1) in \<open>auto simp: accepting_def Let_def\<close>)
  moreover obtain co s' where "commit_tail ?env t (file_path t (crs_partial_key r)) sha m ?svc = (Inr co, s')"
    using commit_tail_succeeds [OF wf data(1,2), of m t] acc by (auto simp: accepting_def Let_def)
  ultimately show ?thesis
    using acc data(3)
    by (simp add: on_storage_def async_commit_def async_request_def storage_request_def next_fault_def
        authorized_def accepting_def Let_def)
qed

text \<open>No replica and no original of the version is registered yet.\<close>

definition unregistered :: "push_source \<Rightarrow> lifecycle_db \<Rightarrow> bool" where
  "unregistered u db \<longleftrightarrow>
     smr_media_object_id (pu_replication u) \<notin> cmo_media_object_id ` set (lc_replicas db)
     \<and> smr_presentation_version_id (pu_replication u)
         \<notin> cpa_presentation_version_id ` set (filter (\<lambda>a. cpa_kind a = Asset_ORIGINAL) (lc_assets db))"

lemma finalized_constraints:
  assumes "receive_constraints db" "cmo_media_object_id x \<notin> cmo_media_object_id ` set (lc_replicas db)"
    and "cpa_presentation_version_id a \<notin> cpa_presentation_version_id ` set (filter (\<lambda>a. cpa_kind a = Asset_ORIGINAL) (lc_assets db))"
  shows "receive_constraints (db\<lparr>lc_db := d, lc_replicas := lc_replicas db @ [x], lc_assets := lc_assets db @ [a],
      lc_receives := row_put crs_replication_session_id i (finalized now) (lc_receives db)\<rparr>)"
  using assms
  by (auto simp: receive_constraints_def keyed_put_other list_all_iff finalized_def dest!: row_put_cases)

lemma finalize_accepted:
  fixes u c
  defines "i \<equiv> smr_replication_session_id (pu_replication u)"
  assumes acc: "accepting st ts t m sha c" and sha: "is_sha256 sha" "smr_sha256 (pu_replication u) = sha"
      "sv_sha256 (rs_storage_env st) data = sha"
    and auth: "authorised st u (lc_db (cm_db c))" and hold: "holding st t u data (int (length data)) c" "data \<noteq> []"
    and size: "smr_expected_size (pu_replication u) = int (length data)" and new: "unregistered u (cm_db c)"
  shows "\<exists>r c'. with_session True (finalize_replication_endpoint cx now st i
        (Some (smr_site_id (pu_replication u))) (Some (pu_authorization u))) c = (Inr (receiver_view r), c')
    \<and> receiver c' i = Some r \<and> crs_sha256 r = sha \<and> crs_finalized_media_object_id r = Some (smr_media_object_id (pu_replication u))
    \<and> crs_replication_state r = Repl_SYNCED
    \<and> crs_presentation_version_id r = smr_presentation_version_id (pu_replication u)"
proof -
  let ?fs = "ms_files (sl_service (cm_storage c))"
  obtain r where r: "receiver c i = Some r" "same_replication (smr_site_id (pu_replication u)) (push_manifest u) r"
      "crs_presentation_id r = smr_presentation_id (pu_replication u)"
      "crs_storage_target_id r = Some (tc_storage_target_id t)"
      "crs_finalized_media_object_id r = None" "crs_confirmed_offset r = int (length data)"
    and f: "staged_bytes ?fs (file_path t (crs_partial_key r)) = data"
    using hold(1) unfolding holding_def Let_def i_def by auto
  have same: "crs_origin_site_id r = smr_site_id (pu_replication u)" "crs_event_id r = smr_event_id (pu_replication u)"
    "crs_presentation_version_id r = smr_presentation_version_id (pu_replication u)"
    "crs_source_media_object_id r = smr_media_object_id (pu_replication u)"
    "crs_expected_size r = int (length data)" "crs_sha256 r = sha"
    using r(2) size sha by (simp_all add: same_replication_def)
  have bytes: "file_bytes ?fs (file_path t (crs_partial_key r)) = Some data"
    using f hold(2) by (simp add: staged_bytes_def split: option.splits)
  obtain co c1 where call: "finalize_call st r (tc_storage_target_id t) c = (Inr co, c1)" and c1: "cm_db c1 = cm_db c"
    using commit_accepted [OF acc sha(1) bytes sha(3) same(6) r(1)] r(4) by auto
  obtain p where ctx: "authorize_replication_context (crs_origin_site_id r) (crs_event_id r) (crs_presentation_id r)
      (crs_presentation_version_id r) (lc_db (cm_db c)) = Inr p"
    using auth same r(3) by (auto simp: authorised_def Let_def)
  have con: "receive_constraints (cm_db c)" using acc by (simp add: accepting_def Let_def)
  define x where "x = new_replica now r co"
  define a where "a = (default_central_presentation_asset now)
      \<lparr>cpa_presentation_asset_id := central_fresh cx (lc_db (cm_db c)), cpa_presentation_version_id := crs_presentation_version_id r,
       cpa_media_object_id := crs_source_media_object_id r, cpa_original_filename := Some (crs_original_filename r),
       cpa_kind := Asset_ORIGINAL\<rparr>"
  define db' where "db' = (cm_db c)\<lparr>lc_db := central_minted (lc_db (cm_db c)),
      lc_replicas := lc_replicas (cm_db c) @ [x], lc_assets := lc_assets (cm_db c) @ [a],
      lc_receives := row_put crs_replication_session_id i (finalized now) (lc_receives (cm_db c))\<rparr>"
  have con': "receive_constraints db'"
    unfolding db'_def using new same
    by (intro finalized_constraints [OF con]) (simp_all add: unregistered_def x_def new_replica_def a_def)
  have ref: "finalize_replication_reference cx now r co c1 = (Inr x, c1\<lparr>cm_db := db'\<rparr>)"
    using r(5) ctx c1 con' receiver_mem [OF r(1)]
    by (simp add: finalize_replication_reference_def tx_bind_def tx_then_def Let_def put_receiver_def receive_flush_def
        x_def [symmetric] a_def [symmetric] db'_def)
  have got: "receiver (c1\<lparr>cm_db := db'\<rparr>) i = Some (finalized now r)"
    using receiver_put_same [of "finalized now" i "lc_receives (cm_db c)"] r(1)
    by (simp add: db'_def receiver_def finalized_def)
  have run: "finalize_replication_endpoint cx now st i (Some (smr_site_id (pu_replication u))) (Some (pu_authorization u)) c
      = (Inr (receiver_view (finalized now r)), c1\<lparr>cm_db := db'\<rparr>)"
    using replication_for_site_authorised [OF auth r(1-3)] r(4,6) same(5) call ref got
    by (simp add: finalize_replication_endpoint_def tx_bind_def tx_then_def)
  have "with_session True (finalize_replication_endpoint cx now st i (Some (smr_site_id (pu_replication u)))
        (Some (pu_authorization u))) c = (Inr (receiver_view (finalized now r)), c1\<lparr>cm_db := db'\<rparr>)"
    by (rule with_session_commits [where m = "finalize_replication_endpoint cx now st i _ _", OF run]) (simp add: con')
  with got same show ?thesis
    by (intro exI [of _ "finalized now r"] exI [of _ "c1\<lparr>cm_db := db'\<rparr>"]) (simp add: finalized_def)
qed

section \<open>The first request\<close>

text \<open>Central has not seen the session, or holds the first \<open>off\<close> bytes of its file.\<close>

definition startable ::
  "replication_settings \<Rightarrow> target_config \<Rightarrow> push_source \<Rightarrow> bytes \<Rightarrow> int \<Rightarrow> central_media \<Rightarrow> bool" where
  "startable st t u data off c \<longleftrightarrow>
     holding st t u data off c
     \<or> (let svc = sl_service (cm_storage c) in
        off = 0 \<and> receiver c (smr_replication_session_id (pu_replication u)) = None
        \<and> ms_assignments svc Staging_Role = tc_storage_target_id t \<and> uuids_left c
        \<and> smr_expected_size (pu_replication u) \<le> rs_max_upload_bytes st
        \<and> staging_key (sv_uuid4 (rs_storage_env st) (ms_minted svc)) \<notin> crs_partial_key ` set (lc_receives (cm_db c)))"

lemma create_resumes:
  assumes acc: "accepting st ts t m sha c" and auth: "authorised st u (lc_db (cm_db c))"
    and fields: "replication_create_fields (push_manifest u)" and hold: "holding st t u data off c"
  shows "\<exists>v. with_session True (create_replication now st (push_manifest u) (Some (smr_site_id (pu_replication u)))
      (Some (pu_authorization u))) c = (Inr v, c) \<and> rv_confirmed_offset v = off"
proof -
  obtain r where r: "receiver c (smr_replication_session_id (pu_replication u)) = Some r"
    "same_replication (smr_site_id (pu_replication u)) (push_manifest u) r"
    "crs_storage_target_id r = Some (tc_storage_target_id t)" "crs_confirmed_offset r = off"
    using hold unfolding holding_def Let_def by blast
  have run: "create_replication now st (push_manifest u) (Some (smr_site_id (pu_replication u))) (Some (pu_authorization u)) c
      = (Inr (receiver_view r), c)"
    using auth fields r
    by (auto simp: create_replication_def resume_replication_def site_request_def tx_then_def tx_bind_def require_def
        authorised_def Let_def)
  have "with_session True (create_replication now st (push_manifest u) (Some (smr_site_id (pu_replication u)))
      (Some (pu_authorization u))) c = (Inr (receiver_view r), c)"
    by (rule with_session_commits [where m = "create_replication now st _ _ _", OF run])
      (use acc in \<open>simp add: accepting_def Let_def\<close>)
  then show ?thesis using r(4) by (simp add: receiver_view_def)
qed

lemma allocate_accepted:
  assumes acc: "accepting st ts t m sha c" and role: "ms_assignments (sl_service (cm_storage c)) Staging_Role = tc_storage_target_id t"
  shows "allocate_receiver st c =
    (Inr \<lparr>al_storage_target_id = tc_storage_target_id t,
        al_storage_key = staging_key (sv_uuid4 (rs_storage_env st) (ms_minted (sl_service (cm_storage c)))),
        al_name = tc_name t, al_internal_path = tc_internal_path t\<rparr>,
     c\<lparr>cm_storage := (cm_storage c)\<lparr>sl_service := (sl_service (cm_storage c))\<lparr>ms_minted := Suc (ms_minted (sl_service (cm_storage c)))\<rparr>\<rparr>\<rparr>)"
  using acc role
  by (simp add: allocate_receiver_def tx_try_def on_storage_def async_allocate_def async_request_def storage_request_def
      next_fault_def authorized_def allocate_def active_def storage_target_run tx_bind_def storage_uuid4_def accepting_def
      Let_def media_inv_def)

lemma create_fresh:
  fixes u c
  defines "i \<equiv> smr_replication_session_id (pu_replication u)"
  assumes acc: "accepting st ts t m sha c" and auth: "authorised st u (lc_db (cm_db c))"
    and fields: "replication_create_fields (push_manifest u)"
    and new: "receiver c i = None" "ms_assignments (sl_service (cm_storage c)) Staging_Role = tc_storage_target_id t"
      "uuids_left c" "smr_expected_size (pu_replication u) \<le> rs_max_upload_bytes st"
      "staging_key (sv_uuid4 (rs_storage_env st) (ms_minted (sl_service (cm_storage c)))) \<notin> crs_partial_key ` set (lc_receives (cm_db c))"
  shows "\<exists>v c'. with_session True (create_replication now st (push_manifest u) (Some (smr_site_id (pu_replication u)))
      (Some (pu_authorization u))) c = (Inr v, c') \<and> rv_confirmed_offset v = 0
    \<and> accepting st ts t m sha c' \<and> lc_db (cm_db c') = lc_db (cm_db c) \<and> lc_replicas (cm_db c') = lc_replicas (cm_db c)
    \<and> lc_assets (cm_db c') = lc_assets (cm_db c) \<and> holding st t u data 0 c'"
proof -
  let ?svc = "sl_service (cm_storage c)" and ?env = "rs_storage_env st"
  let ?w = "sv_uuid4 ?env (ms_minted ?svc)" and ?site = "smr_site_id (pu_replication u)"
  define a where "a = \<lparr>al_storage_target_id = tc_storage_target_id t, al_storage_key = staging_key ?w,
      al_name = tc_name t, al_internal_path = tc_internal_path t\<rparr>"
  define r where "r = new_receiver now ?site (push_manifest u) a"
  define c' where "c' = c\<lparr>cm_storage := (cm_storage c)\<lparr>sl_service := ?svc\<lparr>ms_minted := Suc (ms_minted ?svc)\<rparr>\<rparr>,
      cm_db := (cm_db c)\<lparr>lc_receives := lc_receives (cm_db c) @ [r]\<rparr>\<rparr>"
  have r: "crs_replication_session_id r = i" "crs_partial_key r = staging_key ?w" "crs_confirmed_offset r = 0"
    "crs_expected_size r = smr_expected_size (pu_replication u)" "crs_storage_target_id r = Some (tc_storage_target_id t)"
    "crs_finalized_media_object_id r = None" "crs_presentation_id r = smr_presentation_id (pu_replication u)"
    "same_replication ?site (push_manifest u) r"
    by (simp_all add: r_def new_receiver_def default_central_media_replication_receive_session_def a_def i_def same_replication_def)
  have con: "receive_constraints (cm_db c')"
    using acc new(1,5) r fields
    by (simp add: c'_def accepting_def Let_def receive_constraints_def receiver_def row_get_None_iff
        replication_create_fields_def)
  have run: "create_replication now st (push_manifest u) (Some ?site) (Some (pu_authorization u)) c = (Inr (receiver_view r), c')"
    using auth fields new(1,4) allocate_accepted [OF acc new(2), folded a_def] con
    by (auto simp: create_replication_def site_request_def tx_then_def tx_bind_def require_def authorised_def Let_def
        i_def r_def [symmetric] receive_flush_def c'_def)
  have ok: "with_session True (create_replication now st (push_manifest u) (Some ?site) (Some (pu_authorization u))) c
      = (Inr (receiver_view r), c')"
    by (rule with_session_commits [where m = "create_replication now st _ _ _", OF run con])
  have old: "media_inv st ts c" using acc by (simp add: accepting_def Let_def)
  from with_session_media [OF create_keeps old new(3), of True now "push_manifest u" "Some ?site" "Some (pu_authorization u)"]
  have inv: "media_inv st ts c'" using ok by simp
  have acc': "accepting st ts t m sha c'" using acc inv con by (simp add: accepting_def Let_def c'_def)
  have t: "t \<in> set ts" using acc row_get_SomeD unfolding accepting_def Let_def by metis
  have none: "fs_entries (ms_files ?svc) (staging_path t ?w) = None"
    using old t new(3) by (simp add: media_inv_def store_inv_def unused_keys_def uuids_left_def)
  have hold: "holding st t u data 0 c'"
    using r new(1) none
    by (simp add: holding_def i_def [symmetric] c'_def receiver_def row_get_append staged_bytes_def file_bytes_def)
  show ?thesis using ok acc' hold r(3) by (intro exI [of _ "receiver_view r"] exI [of _ c'])
      (simp add: receiver_view_def c'_def)
qed

section \<open>The push\<close>

text \<open>The Site's storage service answers and has the file.\<close>

definition site_ready :: "push_settings \<Rightarrow> push_source \<Rightarrow> bytes \<Rightarrow> storage_link \<Rightarrow> bool" where
  "site_ready st u data w \<longleftrightarrow>
     sl_faults w = [] \<and> ps_storage_token st = sv_service_token (ps_storage_env st)
     \<and> (\<exists>t. row_get tc_storage_target_id (ms_targets (sl_service w)) (smo_storage_target_id (pu_media u)) = Some t
          \<and> tc_enabled t \<and> path_exists (ms_files (sl_service w)) (tc_internal_path t)
          \<and> \<not> isl (safe_key (smo_object_key (pu_media u)))
          \<and> file_bytes (ms_files (sl_service w)) (file_path t (smo_object_key (pu_media u))) = Some data)"

text \<open>
  The Site's block fits Central's limit and the storage service's, the body arrives whole, and the
  row describes the file.
\<close>

definition sendable :: "push_settings \<Rightarrow> push_source \<Rightarrow> bytes \<Rightarrow> bool" where
  "sendable st u data \<longleftrightarrow>
     0 < ps_transfer_block_bytes st \<and> ps_transfer_block_bytes st \<le> 67108864
     \<and> ps_transfer_block_bytes st \<le> rs_transfer_block_bytes (ps_central st)
     \<and> (\<forall>b. concat (ps_chunks st b) = b) \<and> replication_create_fields (push_manifest u)
     \<and> data \<noteq> [] \<and> smr_expected_size (pu_replication u) = int (length data)
     \<and> sv_sha256 (rs_storage_env (ps_central st)) data = smr_sha256 (pu_replication u)"

text \<open>A push under way with \<open>off\<close> bytes confirmed and nothing to interrupt it.\<close>

definition delivering ::
  "push_settings \<Rightarrow> target_config list \<Rightarrow> target_config \<Rightarrow> target_config \<Rightarrow> push_source \<Rightarrow> bytes \<Rightarrow> int \<Rightarrow> site_media \<Rightarrow> bool" where
  "delivering st ts t m u data off s \<longleftrightarrow>
     accepting (ps_central st) ts t m (smr_sha256 (pu_replication u)) (sm_central s)
     \<and> authorised (ps_central st) u (lc_db (cm_db (sm_central s)))
     \<and> holding (ps_central st) t u data off (sm_central s) \<and> unregistered u (cm_db (sm_central s))
     \<and> site_ready st u data (sm_storage s) \<and> sm_faults s = []"

lemma central_call_delivered:
  assumes "sm_faults s = []" "with_session True m (sm_central s) = (Inr x, c)"
  shows "central_call m s = (Inr x, s\<lparr>sm_central := c\<rparr>)"
  using assms by (cases s) (simp add: central_call_def next_carriage_def http_reply_def)

lemma read_block_succeeds:
  assumes "site_ready st u data (sm_storage s)" "0 \<le> off" "off < int (length data)"
    and "0 < ps_transfer_block_bytes st" "ps_transfer_block_bytes st \<le> 67108864"
    and size: "smr_expected_size (pu_replication u) = int (length data)"
  shows "read_block st u off s
    = (Inr (take (nat (min (ps_transfer_block_bytes st) (int (length data) - off))) (drop (nat off) data)), s)"
proof -
  obtain t where t: "row_get tc_storage_target_id (ms_targets (sl_service (sm_storage s))) (smo_storage_target_id (pu_media u)) = Some t"
    "tc_enabled t" "path_exists (ms_files (sl_service (sm_storage s))) (tc_internal_path t)"
    "\<not> isl (safe_key (smo_object_key (pu_media u)))"
    "file_bytes (ms_files (sl_service (sm_storage s))) (file_path t (smo_object_key (pu_media u))) = Some data"
    and w: "sl_faults (sm_storage s) = []" "ps_storage_token st = sv_service_token (ps_storage_env st)"
    using assms(1) unfolding site_ready_def by blast
  let ?n = "min (ps_transfer_block_bytes st) (int (length data) - off)"
  have "read_object (smo_storage_target_id (pu_media u)) (smo_object_key (pu_media u)) off (Some ?n) (sl_service (sm_storage s))
      = (Inr (take (nat ?n) (drop (nat off) data)), sl_service (sm_storage s))"
    using t assms(2-5)
    by (cases "safe_key (smo_object_key (pu_media u))")
      (auto simp: read_object_def read_range_def tx_bind_def storage_target_run on_files_def storage_path_run Let_def
        split: option.splits)
  then show ?thesis
    using w size
    by (cases "sm_storage s", cases s)
      (simp add: on_site_storage_def sync_read_object_def sync_request_def storage_request_def next_fault_def authorized_def)
qed

lemma push_block_delivers:
  assumes d: "delivering st ts t m u data off s" and send: "sendable st u data"
    and sep: "separate_targets ts" "distinct_uuids (rs_storage_env (ps_central st))"
    and off: "0 \<le> off" "off < int (length data)"
  shows "\<exists>n s'. push_block now st u off s = (Inr n, s') \<and> delivering st ts t m u data n s'
    \<and> off < n \<and> n \<le> int (length data)
    \<and> map smr_replication_session_id (sd_replication_sessions (sm_db s'))
      = map smr_replication_session_id (sd_replication_sessions (sm_db s))"
proof -
  define k where "k = nat (min (ps_transfer_block_bytes st) (int (length data) - off))"
  let ?block = "take k (drop (nat off) data)"
  have lim: "0 < k" "nat off + k \<le> length data" "int k \<le> rs_transfer_block_bytes (ps_central st)"
    "concat (ps_chunks st ?block) = ?block"
    using send off by (auto simp: sendable_def k_def)
  have block: "?block \<noteq> []" "length ?block = k" using lim off by auto
  have read: "read_block st u off s = (Inr ?block, s)"
    unfolding k_def by (rule read_block_succeeds) (use d send off in \<open>simp_all add: delivering_def sendable_def\<close>)
  have acc: "accepting (ps_central st) ts t m (smr_sha256 (pu_replication u)) (sm_central s)"
    and auth: "authorised (ps_central st) u (lc_db (cm_db (sm_central s)))"
    and hold: "holding (ps_central st) t u data off (sm_central s)"
    using d by (simp_all add: delivering_def)
  have sha: "is_sha256 (smr_sha256 (pu_replication u))" and size: "smr_expected_size (pu_replication u) = int (length data)"
    using send by (simp_all add: sendable_def replication_create_fields_def)
  obtain v c where call: "with_session True (put_block now st u off ?block) (sm_central s) = (Inr v, c)"
    and v: "rv_confirmed_offset v = off + int k"
    and c: "accepting (ps_central st) ts t m (smr_sha256 (pu_replication u)) c" "lc_db (cm_db c) = lc_db (cm_db (sm_central s))"
      "lc_replicas (cm_db c) = lc_replicas (cm_db (sm_central s))" "lc_assets (cm_db c) = lc_assets (cm_db (sm_central s))"
      "holding (ps_central st) t u data (off + int k) c"
    using content_accepted [OF acc sep(1) sha sep(2) auth hold off(1) lim(4,2,3) size, of now] by blast
  have put: "central_call (put_block now st u off ?block) s = (Inr v, s\<lparr>sm_central := c\<rparr>)"
    by (rule central_call_delivered [OF _ call]) (use d in \<open>simp add: delivering_def\<close>)
  define s' where "s' = snd (push_block now st u off s)"
  have run: "push_block now st u off s = (Inr (off + int k), s')"
    using read put block v
    by (simp add: s'_def push_block_def Let_def tx_bind_def tx_then_def put_replication_def put_job_def)
  have s': "sm_central s' = c" "sm_storage s' = sm_storage s" "sm_faults s' = sm_faults s"
    "map smr_replication_session_id (sd_replication_sessions (sm_db s'))
      = map smr_replication_session_id (sd_replication_sessions (sm_db s))"
    using read put block v
    by (simp_all add: s'_def push_block_def Let_def tx_bind_def tx_then_def put_replication_def put_job_def row_put_ids)
  have "delivering st ts t m u data (off + int k) s'"
    using d c s' by (simp add: delivering_def unregistered_def)
  then show ?thesis using run s'(4) lim(1,2) off by (intro exI [of _ "off + int k"] exI [of _ s']) auto
qed

lemma push_blocks_deliver:
  assumes "delivering st ts t m u data off s" "sendable st u data"
    and "separate_targets ts" "distinct_uuids (rs_storage_env (ps_central st))"
    and "0 \<le> off" "off \<le> int (length data)"
  shows "\<exists>s'. push_blocks now st u off s = (Inr (), s') \<and> delivering st ts t m u data (int (length data)) s'
    \<and> map smr_replication_session_id (sd_replication_sessions (sm_db s'))
      = map smr_replication_session_id (sd_replication_sessions (sm_db s))"
  using assms
proof (induction now st u off s rule: push_blocks.induct)
  case (1 now st u off s)
  have size: "smr_expected_size (pu_replication u) = int (length data)" using "1.prems"(2) by (simp add: sendable_def)
  show ?case
  proof (cases "off < int (length data)")
    case False
    then have "push_blocks now st u off s = (Inr (), s)" by (subst push_blocks.simps) (simp add: size)
    moreover have "off = int (length data)" using False "1.prems"(6) by simp
    ultimately show ?thesis using "1.prems"(1) by blast
  next
    case True
    obtain n s1 where blk: "push_block now st u off s = (Inr n, s1)" "delivering st ts t m u data n s1"
      "off < n" "n \<le> int (length data)"
      "map smr_replication_session_id (sd_replication_sessions (sm_db s1))
        = map smr_replication_session_id (sd_replication_sessions (sm_db s))"
      using push_block_delivers [OF "1.prems"(1-5) True, of now] by blast
    have "\<exists>s'. push_blocks now st u n s1 = (Inr (), s') \<and> delivering st ts t m u data (int (length data)) s'
      \<and> map smr_replication_session_id (sd_replication_sessions (sm_db s'))
        = map smr_replication_session_id (sd_replication_sessions (sm_db s1))"
      using "1.IH" [OF _ blk(1) [symmetric] refl blk(2) "1.prems"(2-4) _ blk(4)] True size blk(3) "1.prems"(5) by simp
    then show ?thesis using blk(1,5) True size by (simp add: push_blocks.simps [of now st u off])
  qed
qed

text \<open>A push that can start and is not interrupted.\<close>

definition pushable ::
  "push_settings \<Rightarrow> target_config list \<Rightarrow> target_config \<Rightarrow> target_config \<Rightarrow> push_source \<Rightarrow> bytes \<Rightarrow> site_media \<Rightarrow> bool" where
  "pushable st ts t m u data s \<longleftrightarrow>
     accepting (ps_central st) ts t m (smr_sha256 (pu_replication u)) (sm_central s)
     \<and> authorised (ps_central st) u (lc_db (cm_db (sm_central s)))
     \<and> (\<exists>off. startable (ps_central st) t u data off (sm_central s)) \<and> unregistered u (cm_db (sm_central s))
     \<and> site_ready st u data (sm_storage s) \<and> sm_faults s = [] \<and> sendable st u data
     \<and> separate_targets ts \<and> distinct_uuids (rs_storage_env (ps_central st))"

lemma holding_offset:
  assumes "holding st t u data off c" "accepting st ts t m sha c"
  shows "0 \<le> off \<and> off \<le> smr_expected_size (pu_replication u)"
proof -
  obtain r where r: "receiver c (smr_replication_session_id (pu_replication u)) = Some r"
    "same_replication (smr_site_id (pu_replication u)) (push_manifest u) r" "crs_confirmed_offset r = off"
    using assms(1) unfolding holding_def Let_def by blast
  then show ?thesis
    using assms(2) receiver_mem [OF r(1)]
    by (auto simp: accepting_def Let_def receive_constraints_def list_all_iff same_replication_def)
qed

lemma create_delivers:
  assumes p: "pushable st ts t m u data s"
  shows "\<exists>v s1. central_call (create_replication now (ps_central st) (push_manifest u) (Some (smr_site_id (pu_replication u)))
      (Some (pu_authorization u))) s = (Inr v, s1) \<and> delivering st ts t m u data (rv_confirmed_offset v) s1
    \<and> 0 \<le> rv_confirmed_offset v \<and> rv_confirmed_offset v \<le> int (length data) \<and> sm_db s1 = sm_db s"
proof -
  let ?c = "sm_central s" and ?st = "ps_central st"
  have acc: "accepting ?st ts t m (smr_sha256 (pu_replication u)) ?c" and auth: "authorised ?st u (lc_db (cm_db ?c))"
    and fields: "replication_create_fields (push_manifest u)" and size: "smr_expected_size (pu_replication u) = int (length data)"
    using p by (simp_all add: pushable_def sendable_def)
  obtain v c where call: "with_session True (create_replication now ?st (push_manifest u) (Some (smr_site_id (pu_replication u)))
      (Some (pu_authorization u))) ?c = (Inr v, c)"
    and c: "accepting ?st ts t m (smr_sha256 (pu_replication u)) c" "lc_db (cm_db c) = lc_db (cm_db ?c)"
      "lc_replicas (cm_db c) = lc_replicas (cm_db ?c)" "lc_assets (cm_db c) = lc_assets (cm_db ?c)"
      "holding ?st t u data (rv_confirmed_offset v) c"
  proof -
    obtain off where "startable ?st t u data off ?c" using p by (auto simp: pushable_def)
    then consider "holding ?st t u data off ?c"
      | "receiver ?c (smr_replication_session_id (pu_replication u)) = None"
        "ms_assignments (sl_service (cm_storage ?c)) Staging_Role = tc_storage_target_id t" "uuids_left ?c"
        "smr_expected_size (pu_replication u) \<le> rs_max_upload_bytes ?st"
        "staging_key (sv_uuid4 (rs_storage_env ?st) (ms_minted (sl_service (cm_storage ?c))))
          \<notin> crs_partial_key ` set (lc_receives (cm_db ?c))"
      unfolding startable_def Let_def by metis
    then show thesis
    proof cases
      case 1
      then show thesis using create_resumes [OF acc auth fields 1, of now] acc by (auto intro: that)
    next
      case 2
      then show thesis using create_fresh [OF acc auth fields 2, of now data] by (auto intro: that)
    qed
  qed
  have "central_call (create_replication now ?st (push_manifest u) (Some (smr_site_id (pu_replication u)))
      (Some (pu_authorization u))) s = (Inr v, s\<lparr>sm_central := c\<rparr>)"
    by (rule central_call_delivered [OF _ call]) (use p in \<open>simp add: pushable_def\<close>)
  moreover have "delivering st ts t m u data (rv_confirmed_offset v) (s\<lparr>sm_central := c\<rparr>)"
    using p c by (simp add: delivering_def pushable_def unregistered_def)
  ultimately show ?thesis using holding_offset [OF c(5,1)] size by auto
qed

lemma finalize_delivers:
  assumes d: "delivering st ts t m u data (int (length data)) s" and send: "sendable st u data"
    and sep: "separate_targets ts"
  shows "\<exists>r s1. central_call (finalize_replication_endpoint (ps_codec st) now (ps_central st)
      (smr_replication_session_id (pu_replication u)) (Some (smr_site_id (pu_replication u)))
      (Some (pu_authorization u))) s = (Inr (receiver_view r), s1)
    \<and> sm_db s1 = sm_db s \<and> media_inv (ps_central st) ts (sm_central s1)
    \<and> r \<in> set (lc_receives (cm_db (sm_central s1))) \<and> crs_sha256 r = smr_sha256 (pu_replication u)
    \<and> crs_finalized_media_object_id r = Some (smr_media_object_id (pu_replication u))
    \<and> crs_replication_state r = Repl_SYNCED
    \<and> crs_presentation_version_id r = smr_presentation_version_id (pu_replication u)"
proof -
  let ?c = "sm_central s" and ?st = "ps_central st" and ?i = "smr_replication_session_id (pu_replication u)"
  have acc: "accepting ?st ts t m (smr_sha256 (pu_replication u)) ?c" and auth: "authorised ?st u (lc_db (cm_db ?c))"
    and hold: "holding ?st t u data (int (length data)) ?c" and new: "unregistered u (cm_db ?c)"
    using d by (simp_all add: delivering_def)
  have sha: "is_sha256 (smr_sha256 (pu_replication u))" "data \<noteq> []" "smr_expected_size (pu_replication u) = int (length data)"
    "sv_sha256 (rs_storage_env ?st) data = smr_sha256 (pu_replication u)"
    using send by (simp_all add: sendable_def replication_create_fields_def)
  obtain r c where call: "with_session True (finalize_replication_endpoint (ps_codec st) now ?st ?i
        (Some (smr_site_id (pu_replication u))) (Some (pu_authorization u))) ?c = (Inr (receiver_view r), c)"
    and r: "receiver c ?i = Some r" "crs_sha256 r = smr_sha256 (pu_replication u)"
      "crs_finalized_media_object_id r = Some (smr_media_object_id (pu_replication u))" "crs_replication_state r = Repl_SYNCED"
      "crs_presentation_version_id r = smr_presentation_version_id (pu_replication u)"
    using finalize_accepted [OF acc sha(1) refl sha(4) auth hold sha(2,3) new, of "ps_codec st" now] by blast
  have old: "media_inv ?st ts ?c" using acc by (simp add: accepting_def Let_def)
  from with_session_media [OF finalize_keeps [OF sep] old TrueI, of True "ps_codec st" now ?i
      "Some (smr_site_id (pu_replication u))" "Some (pu_authorization u)"]
  have inv: "media_inv ?st ts c" using call by simp
  have "central_call (finalize_replication_endpoint (ps_codec st) now ?st ?i (Some (smr_site_id (pu_replication u)))
      (Some (pu_authorization u))) s = (Inr (receiver_view r), s\<lparr>sm_central := c\<rparr>)"
    by (rule central_call_delivered [OF _ call]) (use d in \<open>simp add: delivering_def\<close>)
  then show ?thesis using r inv receiver_mem [OF r(1)] by (intro exI [of _ r] exI [of _ "s\<lparr>sm_central := c\<rparr>"]) simp
qed

text \<open>The push returns, and what it leaves at Central and in the Site's row.\<close>

lemma push_delivers:
  assumes src: "load_push_source st i s = (Inr u, s)" and p: "pushable st ts t m u data s"
  shows "\<exists>s' r. execute_central_push now st i s = (Inr True, s')
    \<and> media_inv (ps_central st) ts (sm_central s')
    \<and> r \<in> set (lc_receives (cm_db (sm_central s'))) \<and> crs_sha256 r = smr_sha256 (pu_replication u)
    \<and> crs_finalized_media_object_id r = Some (smr_media_object_id (pu_replication u))
    \<and> map_option smr_state (replication_row s' i) = Some Repl_SYNCED"
proof -
  let ?r = "pu_replication u" and ?i = "smr_replication_session_id (pu_replication u)"
  have send: "sendable st u data" and sep: "separate_targets ts" "distinct_uuids (rs_storage_env (ps_central st))"
    and size: "smr_expected_size ?r = int (length data)"
    using p by (simp_all add: pushable_def sendable_def)
  have row: "replication_row s i = Some ?r" by (rule push_source_run(2) [OF src])
  then have i: "?i = i" using row_get_SomeD unfolding replication_row_def by metis
  obtain v s1 where create: "central_call (create_replication now (ps_central st) (push_manifest u) (Some (smr_site_id ?r))
      (Some (pu_authorization u))) s = (Inr v, s1)"
    and d1: "delivering st ts t m u data (rv_confirmed_offset v) s1"
    and v: "0 \<le> rv_confirmed_offset v" "rv_confirmed_offset v \<le> int (length data)" and db1: "sm_db s1 = sm_db s"
    using create_delivers [OF p, of now] by blast
  define s2 where "s2 = snd (put_replication ?i (\<lambda>r. r\<lparr>smr_confirmed_offset := rv_confirmed_offset v, smr_state := Repl_SYNCING\<rparr>) s1)"
  have d2: "delivering st ts t m u data (rv_confirmed_offset v) s2"
    and ids2: "map smr_replication_session_id (sd_replication_sessions (sm_db s2))
      = map smr_replication_session_id (sd_replication_sessions (sm_db s))"
    using d1 db1 by (simp_all add: s2_def put_replication_def delivering_def row_put_ids)
  obtain s3 where blocks: "push_blocks now st u (rv_confirmed_offset v) s2 = (Inr (), s3)"
    and d3: "delivering st ts t m u data (int (length data)) s3"
    and ids3: "map smr_replication_session_id (sd_replication_sessions (sm_db s3))
      = map smr_replication_session_id (sd_replication_sessions (sm_db s2))"
    using push_blocks_deliver [OF d2 send sep v, of now] by blast
  obtain r s4 where fin: "central_call (finalize_replication_endpoint (ps_codec st) now (ps_central st) ?i
      (Some (smr_site_id ?r)) (Some (pu_authorization u))) s3 = (Inr (receiver_view r), s4)"
    and s4: "sm_db s4 = sm_db s3" "media_inv (ps_central st) ts (sm_central s4)"
      "r \<in> set (lc_receives (cm_db (sm_central s4)))" "crs_sha256 r = smr_sha256 ?r"
      "crs_finalized_media_object_id r = Some (smr_media_object_id ?r)" "crs_replication_state r = Repl_SYNCED"
      "crs_presentation_version_id r = smr_presentation_version_id ?r"
    using finalize_delivers [OF d3 send sep(1), of now] by blast
  define s' where "s' = snd (put_replication ?i (synced_row now (smr_media_object_id ?r)) s4)"
  have run: "execute_central_push now st i s = (Inr True, s')"
    using src create v size blocks fin s4(5-7)
    by (simp add: execute_central_push_def tx_bind_def tx_then_def Let_def put_replication_def s2_def s'_def
        receiver_view_def synced_row_def [abs_def])
  have "replication_row s4 i \<noteq> None"
    using replication_row_ids [of s4 s i] ids2 ids3 s4(1) row by simp
  then have "map_option smr_state (replication_row s' i) = Some Repl_SYNCED"
    unfolding s'_def put_replication_def replication_row_def i by (auto simp: synced.get_same synced_row_def)
  moreover have "sm_central s' = sm_central s4" by (simp add: s'_def put_replication_def)
  ultimately show ?thesis using run s4 by (intro exI [of _ s'] exI [of _ r]) simp
qed

end
