(* ===== verification/Push_Outcomes.thy ===== *)
theory Push_Outcomes
  imports Push_Delivery
begin

text \<open>
  What the replication of presentation files guarantees: the files Central registers have the
  digests the Sites announced, in every state that requests can reach; a push that is not interrupted
  delivers its file; and a block whose confirmation is lost blocks its session for good.
\<close>

section \<open>Where a deployment starts\<close>

text \<open>Only the roots of the targets and the directories above them exist, and nothing was received.\<close>

definition empty_storage :: "target_config list \<Rightarrow> central_media \<Rightarrow> bool" where
  "empty_storage ts c \<longleftrightarrow>
     ms_targets (sl_service (cm_storage c)) = ts \<and> lc_receives (cm_db c) = [] \<and> fs_wf (ms_files (sl_service (cm_storage c)))
     \<and> (\<forall>p e. fs_entries (ms_files (sl_service (cm_storage c))) p = Some e \<longrightarrow>
          e = Directory \<and> (\<exists>t \<in> set ts. prefix p (tc_internal_path t)))"

lemma empty_storage_inv:
  assumes "empty_storage ts c" "separate_targets ts"
  shows "media_inv st ts c"
proof -
  let ?fs = "ms_files (sl_service (cm_storage c))"
  have none: "fs_entries ?fs (tc_internal_path t @ x) = None" if "t \<in> set ts" "x \<noteq> []" for t x
  proof (rule ccontr)
    assume "fs_entries ?fs (tc_internal_path t @ x) \<noteq> None"
    then obtain t' where t': "t' \<in> set ts" "prefix (tc_internal_path t @ x) (tc_internal_path t')"
      using assms(1) unfolding empty_storage_def by blast
    show False using separate_roots [OF assms(2) that(1) t'(1), of x "[]"] t'(2) that(2) by simp
  qed
  then have "fs_entries ?fs (object_path t s) = None" "fs_entries ?fs (staging_path t u) = None" if "t \<in> set ts" for t s u
    using that by (simp_all add: object_path_def staging_path_def)
  then show ?thesis
    using assms(1)
    by (simp add: media_inv_def store_inv_def content_addressed_def unused_keys_def own_inodes_def empty_storage_def file_bytes_def)
qed

lemma reachable_inv:
  assumes "empty_storage ts c0" "(receiver_step cx st)\<^sup>*\<^sup>* c0 c" "separate_targets ts" "distinct_uuids (rs_storage_env st)"
  shows "media_inv st ts c"
  using receiver_steps_inv [OF assms(2) empty_storage_inv [OF assms(1,3)] assms(3,4)] .

text \<open>
  C12: Every file Central registers is verified: in every state reached from an empty storage by any
  requests of any Sites, with any failures of the storage network and of commits, a receive session
  that is finalized has an object below its digest whose bytes have that digest, and a replica row
  that names this object.
\<close>

theorem finalized_media_is_verified:
  assumes "empty_storage ts c0" "(receiver_step cx st)\<^sup>*\<^sup>* c0 c"
    and "separate_targets ts" "distinct_uuids (rs_storage_env st)"
    and "receiver c i = Some r" "crs_finalized_media_object_id r = Some m"
  shows "\<exists>t b x. t \<in> set ts \<and> file_bytes (ms_files (sl_service (cm_storage c))) (object_path t (crs_sha256 r)) = Some b
    \<and> sv_sha256 (rs_storage_env st) b = crs_sha256 r
    \<and> x \<in> set (lc_replicas (cm_db c)) \<and> cmo_media_object_id x = m
    \<and> cmo_object_key x = object_key (crs_sha256 r) \<and> cmo_content_hash x = Some (crs_sha256 r)"
  using media_inv_finalized [OF reachable_inv [OF assms(1-4)] _ assms(6)] receiver_mem [OF assms(5)] by blast

section \<open>A push as a sequence of requests\<close>

lemma central_call_steps:
  assumes "central_call m s = (r, s')" "\<And>commits. receiver_step cx st (sm_central s) (snd (with_session commits m (sm_central s)))"
  shows "(receiver_step cx st)\<^sup>*\<^sup>* (sm_central s) (sm_central s')"
  using assms(1) assms(2) [of "snd (next_carriage s)"]
  by (cases "fst (next_carriage s)") (auto simp: central_call_def Let_def split: prod.splits)

lemma push_block_steps:
  assumes "push_block now st u confirmed s = (x, s')"
  shows "(receiver_step cx (ps_central st))\<^sup>*\<^sup>* (sm_central s) (sm_central s')"
proof -
  obtain b s1 where read: "read_block st u confirmed s = (b, s1)" by fastforce
  have s1: "sm_central s1 = sm_central s" using on_site_storage_frame [OF read] by simp
  show ?thesis
  proof (cases "b = Inl (projl b) \<or> b = Inr []")
    case True
    then have "s' = s1" using assms read by (cases b) (auto simp: push_block_def Let_def tx_bind_def)
    then show ?thesis using s1 by simp
  next
    case False
    then obtain block where b: "b = Inr block" "block \<noteq> []" by (cases b) auto
    obtain y s2 where call: "central_call (put_block now st u confirmed block) s1 = (y, s2)" by fastforce
    have "sm_central s' = sm_central s2"
      using assms read b call
      by (auto simp: push_block_def Let_def tx_bind_def tx_then_def put_replication_def put_job_def
          split: sum.splits if_splits)
    then show ?thesis using central_call_steps [OF call receiver_step.content] s1 by simp
  qed
qed

lemma push_blocks_steps:
  "push_blocks now st u confirmed s = (x, s') \<Longrightarrow>
     (receiver_step cx (ps_central st))\<^sup>*\<^sup>* (sm_central s) (sm_central s')"
proof (induction now st u confirmed s rule: push_blocks.induct)
  case (1 now st u confirmed s)
  obtain y s1 where blk: "push_block now st u confirmed s = (y, s1)" by fastforce
  note first = push_block_steps [OF blk, of cx]
  show ?case
  proof (cases "confirmed < smr_expected_size (pu_replication u)")
    case False
    then show ?thesis using "1.prems" by (simp add: push_blocks.simps [of now st u confirmed])
  next
    case True
    show ?thesis
    proof (cases y)
      case (Inl e)
      then show ?thesis using "1.prems" True blk first by (simp add: push_blocks.simps [of now st u confirmed])
    next
      case (Inr n)
      then have "push_blocks now st u n s1 = (x, s')"
        using "1.prems" True blk by (simp add: push_blocks.simps [of now st u confirmed])
      then show ?thesis using "1.IH" [OF True blk [symmetric] Inr] first by (meson rtranclp_trans)
    qed
  qed
qed

lemma push_source_frame: "snd (load_push_source st i s) = s"
  by (auto simp: load_push_source_def tx_bind_def Let_def split: option.splits prod.splits sum.splits)

text \<open>Every push, also one that fails, reaches Central as requests of the receiver.\<close>

lemma execute_central_push_steps:
  assumes run: "execute_central_push now st i s = (x, s')" and left: "uuids_left (sm_central s)"
  shows "(receiver_step (ps_codec st) (ps_central st))\<^sup>*\<^sup>* (sm_central s) (sm_central s')"
proof (cases "fst (load_push_source st i s)")
  case (Inl e)
  then have "s' = s" using run push_source_frame [of st i s]
    by (cases "load_push_source st i s") (auto simp: execute_central_push_def tx_bind_def)
  then show ?thesis by simp
next
  case (Inr u)
  then have src: "load_push_source st i s = (Inr u, s)" using push_source_frame [of st i s] by (cases "load_push_source st i s") auto
  let ?r = "pu_replication u" and ?steps = "(receiver_step (ps_codec st) (ps_central st))\<^sup>*\<^sup>*"
  let ?i = "smr_replication_session_id ?r"
  obtain y s1 where create: "central_call (create_replication now (ps_central st) (push_manifest u) (Some (smr_site_id ?r))
      (Some (pu_authorization u))) s = (y, s1)" by fastforce
  have step1: "?steps (sm_central s) (sm_central s1)" by (rule central_call_steps [OF create receiver_step.create [OF left]])
  show ?thesis
  proof (cases "\<exists>v. y = Inr v \<and> 0 \<le> rv_confirmed_offset v \<and> rv_confirmed_offset v \<le> smr_expected_size ?r")
    case False
    then have "s' = s1" using run src create by (cases y) (auto simp: execute_central_push_def tx_bind_def Let_def)
    then show ?thesis using step1 by simp
  next
    case True
    then obtain v where v: "y = Inr v" "0 \<le> rv_confirmed_offset v" "rv_confirmed_offset v \<le> smr_expected_size ?r" by blast
    define s2 where "s2 = snd (put_replication ?i (\<lambda>r. r\<lparr>smr_confirmed_offset := rv_confirmed_offset v, smr_state := Repl_SYNCING\<rparr>) s1)"
    have s2: "sm_central s2 = sm_central s1" by (simp add: s2_def put_replication_def)
    obtain z s3 where blocks: "push_blocks now st u (rv_confirmed_offset v) s2 = (z, s3)" by fastforce
    have step2: "?steps (sm_central s1) (sm_central s3)" using push_blocks_steps [OF blocks] s2 by metis
    obtain w s4 where fin: "central_call (finalize_replication_endpoint (ps_codec st) now (ps_central st) ?i (Some (smr_site_id ?r))
        (Some (pu_authorization u))) s3 = (w, s4)" by fastforce
    have step3: "?steps (sm_central s3) (sm_central s4)" by (rule central_call_steps [OF fin receiver_step.finalize])
    have "sm_central s' = sm_central s3 \<or> sm_central s' = sm_central s4"
      using run src create v blocks fin
      by (cases z; cases w)
        (auto simp: execute_central_push_def tx_bind_def tx_then_def Let_def put_replication_def s2_def
          split: option.splits if_splits)
    then show ?thesis using step1 step2 step3 by (metis rtranclp_trans)
  qed
qed

section \<open>Pushes that return\<close>


text \<open>
  C14: A push that nothing interrupts, for a session Central has not seen or one it holds the
  first bytes of, returns and delivers: if no other byte string has the digest of the file, Central's
  object store holds exactly the file, Central has its replica row, and the Site's row says it is
  synchronised.
\<close>

theorem uninterrupted_push_delivers:
  assumes "load_push_source st i s = (Inr u, s)" "pushable st ts t m u data s"
    and "\<And>b. sv_sha256 (rs_storage_env (ps_central st)) b = smr_sha256 (pu_replication u) \<Longrightarrow> b = data"
  shows "\<exists>s'. execute_central_push now st i s = (Inr True, s')
    \<and> (\<exists>d \<in> set ts. file_bytes (ms_files (sl_service (cm_storage (sm_central s'))))
          (object_path d (smr_sha256 (pu_replication u))) = Some data)
    \<and> smr_media_object_id (pu_replication u) \<in> cmo_media_object_id ` set (lc_replicas (cm_db (sm_central s')))
    \<and> map_option smr_state (replication_row s' i) = Some Repl_SYNCED"
proof -
  obtain s' r where run: "execute_central_push now st i s = (Inr True, s')"
    and s': "media_inv (ps_central st) ts (sm_central s')" "r \<in> set (lc_receives (cm_db (sm_central s')))"
      "crs_finalized_media_object_id r = Some (smr_media_object_id (pu_replication u))"
    and sha: "crs_sha256 r = smr_sha256 (pu_replication u)"
    and row: "map_option smr_state (replication_row s' i) = Some Repl_SYNCED"
    using push_delivers [OF assms(1,2), of now] by blast
  from media_inv_finalized [OF s'] obtain d b where "d \<in> set ts"
    "file_bytes (ms_files (sl_service (cm_storage (sm_central s')))) (object_path d (smr_sha256 (pu_replication u))) = Some b"
    "b = data"
    using assms(3) sha by metis
  moreover have "smr_media_object_id (pu_replication u) \<in> cmo_media_object_id ` set (lc_replicas (cm_db (sm_central s')))"
    using media_inv_finalized [OF s'] by (metis imageI)
  ultimately show ?thesis using run row by blast
qed


section \<open>A confirmation that is lost\<close>

lemma lost_commit_staged_ahead:
  assumes d: "delivering st ts t m u data off s" and send: "sendable st u data"
    and sep: "separate_targets ts" "distinct_uuids (rs_storage_env (ps_central st))"
    and blk: "0 \<le> off" "block = take n (drop (nat off) data)" "0 < n" "nat off + n \<le> length data"
      "int n \<le> rs_transfer_block_bytes (ps_central st)"
    and c: "c = snd (with_session False (put_block now st u off block) (sm_central s))"
  shows "staged_ahead ts (smr_replication_session_id (pu_replication u)) off c \<and> media_inv (ps_central st) ts c"
proof -
  let ?st = "ps_central st" and ?c = "sm_central s" and ?i = "smr_replication_session_id (pu_replication u)"
  have acc: "accepting ?st ts t m (smr_sha256 (pu_replication u)) ?c" and auth: "authorised ?st u (lc_db (cm_db ?c))"
    and hold: "holding ?st t u data off ?c"
    using d by (simp_all add: delivering_def)
  have sha: "is_sha256 (smr_sha256 (pu_replication u))" and size: "smr_expected_size (pu_replication u) = int (length data)"
    and chunks: "concat (ps_chunks st block) = take n (drop (nat off) data)"
    using send blk(2) by (simp_all add: sendable_def replication_create_fields_def)
  obtain v c' where ok: "with_session True (put_block now st u off block) ?c = (Inr v, c')"
    and c': "holding ?st t u data (off + int n) c'" "receiver c' ?i = map_option (received now (off + int n)) (receiver ?c ?i)"
    using content_accepted [OF acc sep(1) sha sep(2) auth hold blk(1) chunks blk(4,5) size, of now] by blast
  have run: "put_block now st u off block ?c = (Inr v, c')" and con: "receive_constraints (cm_db c')"
    using ok by (auto simp: with_session_def tx_bind_def tx_then_def receive_flush_def split: prod.splits sum.splits if_splits)
  have cc: "c = c'\<lparr>cm_db := cm_db ?c\<rparr>"
    using c run con by (simp add: with_session_def tx_bind_def tx_then_def receive_flush_def)
  obtain r where r: "receiver ?c ?i = Some r" "crs_confirmed_offset r = off" "crs_finalized_media_object_id r = None"
      "crs_storage_target_id r = Some (tc_storage_target_id t)" "same_replication (smr_site_id (pu_replication u)) (push_manifest u) r"
    using hold unfolding holding_def Let_def by blast
  have "staged_bytes (ms_files (sl_service (cm_storage c'))) (file_path t (crs_partial_key r)) = take (nat (off + int n)) data"
    using c' r(1) unfolding holding_def Let_def by (auto simp: received_def)
  then obtain b where b: "file_bytes (ms_files (sl_service (cm_storage c'))) (file_path t (crs_partial_key r)) = Some b"
    "off < int (length b)"
    using blk(1,3,4) by (auto simp: staged_bytes_def split: option.splits)
  have "receiver_path ts r = Some (file_path t (crs_partial_key r))"
    using acc r(4) by (simp add: receiver_path_def accepting_def Let_def)
  moreover have "off < crs_expected_size r" using r(5) size blk(1,3,4) by (simp add: same_replication_def)
  ultimately have "staged_ahead ts ?i off c"
    using r b unfolding staged_ahead_def cc by (intro exI [of _ r]) (auto simp: receiver_def)
  moreover have "media_inv ?st ts c"
    unfolding c by (rule with_session_media [OF content_keeps [OF sep] _ TrueI]) (use acc in \<open>simp add: accepting_def Let_def\<close>)
  ultimately show ?thesis by blast
qed

lemma content_returned:
  assumes run: "replication_content now st i k body site auth c = (Inr v, c')"
    and r: "receiver c i = Some r" "crs_finalized_media_object_id r = None"
  shows "\<exists>target z c1. crs_storage_target_id r = Some target \<and> k = crs_confirmed_offset r
    \<and> content_call st r target k body c = (Inr z, c1)"
proof -
  obtain q c0 where site: "replication_for_site (rs_digest st) i site auth c = (q, c0)" by fastforce
  have c0: "c0 = c" using replication_for_site_run(1) [OF site] .
  have q: "q = Inr r"
    using replication_for_site_run(2) [OF site] run site r(1)
    by (cases q) (auto simp: replication_content_def tx_then_def tx_bind_def require_def split: if_splits)
  show ?thesis
    using run site c0 q r(2)
    by (auto simp: replication_content_def tx_then_def tx_bind_def require_def split: if_splits option.splits sum.splits prod.splits)
qed

text \<open>
  C15: A block that Central's storage service wrote and whose commit in Central's database is lost
  blocks its session for good: whatever requests follow, the session's confirmed offset stays where it
  was before the block, the session is never finalized, and every later block is refused.
\<close>

theorem lost_commit_blocks_session:
  assumes "delivering st ts t m u data off s" "sendable st u data"
    and "separate_targets ts" "distinct_uuids (rs_storage_env (ps_central st))"
    and "0 \<le> off" "block = take n (drop (nat off) data)" "0 < n" "nat off + n \<le> length data"
      "int n \<le> rs_transfer_block_bytes (ps_central st)"
    and "(receiver_step cx (ps_central st))\<^sup>*\<^sup>* (snd (with_session False (put_block now st u off block) (sm_central s))) c"
  shows "\<exists>r. receiver c (smr_replication_session_id (pu_replication u)) = Some r \<and> crs_confirmed_offset r = off
    \<and> crs_finalized_media_object_id r = None
    \<and> isl (fst (replication_content later (ps_central st) (smr_replication_session_id (pu_replication u)) k body site auth c))"
proof -
  let ?i = "smr_replication_session_id (pu_replication u)"
  note first = lost_commit_staged_ahead [OF assms(1-9) refl, of now]
  have inv: "media_inv (ps_central st) ts c" and ahead: "staged_ahead ts ?i off c"
    using receiver_steps_inv [OF assms(10) _ assms(3,4)] receiver_steps_ahead [OF assms(10) _ assms(3,4)] first by blast+
  then obtain r p b where r: "receiver c ?i = Some r" "crs_confirmed_offset r = off" "crs_finalized_media_object_id r = None"
    "receiver_path ts r = Some p" "file_bytes (ms_files (sl_service (cm_storage c))) p = Some b" "off < int (length b)"
    unfolding staged_ahead_def by blast
  obtain x c' where run: "replication_content later (ps_central st) ?i k body site auth c = (x, c')" by fastforce
  have "isl x"
  proof (rule ccontr)
    assume "\<not> isl x"
    then obtain v where x: "x = Inr v" by (cases x) auto
    obtain target z c1 where "crs_storage_target_id r = Some target" "k = crs_confirmed_offset r"
      "content_call (ps_central st) r target k body c = (Inr z, c1)"
      using content_returned [OF run [unfolded x] r(1,3)] by blast
    then show False using append_spares(2) [OF inv assms(3) r(1,4,5,1), of target k body] r(2,6) by auto
  qed
  then show ?thesis using r run by auto
qed

end
