(* ===== verification/Push_Example.thy ===== *)
theory Push_Example
  imports Push_Outcomes
begin

text \<open>
  A deployment with one Site and one presentation file of four bytes, sent in blocks of three: the
  hypotheses of the properties of \<open>Push_Outcomes\<close> hold for it.
\<close>

section \<open>The deployment\<close>

definition demo_deck :: bytes where
  "demo_deck = ''deck''"

definition demo_digest :: string where
  "demo_digest = replicate 64 (CHR ''1'')"

definition demo_sha256 :: "bytes \<Rightarrow> string" where
  "demo_sha256 b = (if b = demo_deck then demo_digest else replicate 64 (CHR ''0''))"

definition demo_storage_env :: storage_env where
  "demo_storage_env =
     \<lparr>sv_sha256 = demo_sha256,
      sv_disk = (\<lambda>_. \<lparr>dk_readable = True, dk_writable = True, dk_probe = Probe_ok, dk_total = 100, dk_used = 10, dk_free = 90\<rparr>),
      sv_same_device = (\<lambda>_ _. True), sv_directory_size = 4096, sv_uuid4 = (\<lambda>n. n), sv_service_token = ''token'',
      sv_warning_free_percent = 15, sv_critical_free_percent = 5\<rparr>"

definition demo_target :: target_config where
  "demo_target = \<lparr>tc_storage_target_id = 1, tc_name = ''main'', tc_internal_path = [''data''],
     tc_roles = [Staging_Role, Media_Role], tc_enabled = True\<rparr>"

definition demo_service :: "file_system \<Rightarrow> storage_link" where
  "demo_service fs =
     \<lparr>sl_service = \<lparr>ms_targets = [demo_target], ms_assignments = (\<lambda>_. 1), ms_saved = None, ms_files = fs, ms_minted = 0\<rparr>,
      sl_faults = []\<rparr>"

definition demo_empty_files :: file_system where
  "demo_empty_files =
     \<lparr>fs_entries = (\<lambda>p. if p = [] \<or> p = [''data''] then Some Directory else None), fs_data = (\<lambda>_. []), fs_next = 0\<rparr>"

definition demo_site_files :: file_system where
  "demo_site_files =
     \<lparr>fs_entries = (\<lambda>p. if prefix p (butlast (object_path demo_target demo_digest)) then Some Directory
        else if p = object_path demo_target demo_digest then Some (Inode 0) else None),
      fs_data = (\<lambda>_. demo_deck), fs_next = 1\<rparr>"

definition demo_push_db :: central_db where
  "demo_push_db = empty_central_db
     \<lparr>cd_sites := [(default_central_site 0)\<lparr>ccs_site_id := 7, ccs_enrollment_state := Enroll_ACTIVE\<rparr>],
      cd_credentials := [(default_central_site_credential 0)\<lparr>ccr_site_id := 7, ccr_token_hash := ''secret''\<rparr>],
      cd_deployments := [(default_central_event_deployment 0)\<lparr>ced_event_id := 9, ced_site_id := 7, ced_status := Dep_DEPLOYED\<rparr>],
      cd_presentations := [(default_central_presentation 0)\<lparr>cpr_presentation_id := 5, cpr_event_id := 9,
         cpr_presentation_identifier := ''P1''\<rparr>],
      cd_versions := [(default_central_presentation_version 0)\<lparr>cpv_presentation_version_id := 6, cpv_presentation_id := 5\<rparr>]\<rparr>"

definition demo_central :: central_media where
  "demo_central = \<lparr>cm_db = demo_lifecycle_db\<lparr>lc_db := demo_push_db\<rparr>, cm_storage = demo_service demo_empty_files\<rparr>"

definition demo_replication :: site_media_replication_session where
  "demo_replication = (default_site_media_replication_session 0)
     \<lparr>smr_replication_session_id := 4, smr_site_id := 7, smr_event_id := 9, smr_presentation_id := 5,
      smr_presentation_version_id := 6, smr_media_object_id := 8, smr_expected_size := 4, smr_sha256 := demo_digest,
      smr_original_filename := ''deck.pptx''\<rparr>"

definition demo_media :: site_media_object where
  "demo_media = (default_site_media_object 0)
     \<lparr>smo_media_object_id := 8, smo_storage_target_id := 1, smo_object_key := object_key demo_digest\<rparr>"

definition demo_presentation :: site_presentation where
  "demo_presentation = (default_site_presentation 0)\<lparr>spr_presentation_id := 5, spr_presentation_identifier := ''P1''\<rparr>"

definition demo_site_media :: site_media where
  "demo_site_media =
     \<lparr>sm_db = empty_site_db\<lparr>sd_replication_sessions := [demo_replication], sd_media_objects := [demo_media],
        sd_presentations := [demo_presentation],
        sd_registrations := [default_site_central_registration\<lparr>scg_site_id := 7, scg_central_url := Some ''https://central'',
          scg_credential_encrypted := Some ''secret''\<rparr>]\<rparr>,
      sm_targets = [(default_site_storage_target 0)\<lparr>stg_storage_target_id := 1\<rparr>],
      sm_storage = demo_service demo_site_files, sm_central = demo_central, sm_faults = []\<rparr>"

definition demo_push_settings :: push_settings where
  "demo_push_settings =
     \<lparr>ps_vault = \<lparr>encrypt_secret = Inr, decrypt_token = Inr\<rparr>, ps_storage_env = demo_storage_env, ps_storage_token = ''token'',
      ps_transfer_block_bytes = 3, ps_retry_base_seconds = 1, ps_chunks = (\<lambda>b. [b]), ps_codec = demo_codec,
      ps_central = \<lparr>rs_storage_env = demo_storage_env, rs_storage_token = ''token'', rs_max_upload_bytes = 1000,
        rs_transfer_block_bytes = 3, rs_digest = (\<lambda>s. s)\<rparr>\<rparr>"

definition demo_source :: push_source where
  "demo_source = \<lparr>pu_replication = demo_replication, pu_media = demo_media, pu_presentation = demo_presentation,
     pu_authorization = ''Bearer secret''\<rparr>"

lemmas demo_rows = demo_replication_def demo_media_def demo_presentation_def demo_site_media_def demo_push_settings_def
  demo_source_def demo_central_def demo_service_def demo_lifecycle_db_def demo_push_db_def demo_storage_env_def

section \<open>What holds for it\<close>

lemma demo_sha: "is_sha256 demo_digest" "demo_sha256 b = demo_digest \<longleftrightarrow> b = demo_deck"
  by (auto simp: is_sha256_def demo_digest_def demo_sha256_def)

lemma demo_separate: "separate_targets [demo_target]"
  by (simp add: separate_targets_def)

lemma demo_distinct: "distinct_uuids demo_storage_env"
  unfolding distinct_uuids_def
proof (rule inj_onI)
  fix m n assume mn: "m \<in> {..<uuid_supply}" "n \<in> {..<uuid_supply}"
    and "uuid_str (sv_uuid4 demo_storage_env m) = uuid_str (sv_uuid4 demo_storage_env n)"
  then have "uuid_str m = uuid_str n" by (simp add: demo_storage_env_def)
  moreover have "m < 2 ^ 128" "n < 2 ^ 128" using mn by (simp_all add: uuid_supply_def)
  ultimately show "m = n" using parse_uuid_str by (metis sum.inject(2))
qed

lemma demo_empty: "empty_storage [demo_target] demo_central"
  by (auto simp: empty_storage_def demo_central_def demo_service_def demo_empty_files_def demo_lifecycle_db_def
      demo_target_def fs_wf_def)

lemma demo_push_source: "load_push_source demo_push_settings 4 demo_site_media = (Inr demo_source, demo_site_media)"
  by (simp add: load_push_source_def tx_bind_def replication_row_def demo_rows Let_def decrypt_secret_def given_def
      default_site_media_replication_session_def default_site_media_object_def default_site_presentation_def
      default_site_central_registration_def default_site_storage_target_def)

lemma demo_sendable: "sendable demo_push_settings demo_source demo_deck"
  by (simp add: sendable_def replication_create_fields_def push_manifest_def Let_def demo_rows demo_sha demo_deck_def
      default_site_media_replication_session_def default_site_presentation_def)

lemma demo_object: "smo_object_key (pu_media demo_source) = object_key demo_digest" "smo_storage_target_id (pu_media demo_source) = 1"
  by (simp_all add: demo_source_def demo_media_def)

lemma demo_site_ready: "site_ready demo_push_settings demo_source demo_deck (sm_storage demo_site_media)"
proof -
  let ?fs = "demo_site_files"
  have "path_exists ?fs [''data'']"
    by (simp add: path_exists_def demo_site_files_def butlast_paths demo_target_def)
  moreover have "file_bytes ?fs (object_path demo_target demo_digest) = Some demo_deck"
    using not_prefix_butlast [of "object_path demo_target demo_digest"]
    by (simp add: file_bytes_def demo_site_files_def object_path_def)
  ultimately show ?thesis
    using object_key_segments(1) [OF demo_sha(1)] demo_sha(1)
    by (simp add: site_ready_def demo_object demo_site_media_def demo_service_def demo_push_settings_def demo_storage_env_def
        demo_target_def)
qed

lemma demo_authorised: "authorised (ps_central demo_push_settings) demo_source (lc_db (cm_db demo_central))"
  by (simp add: authorised_def Let_def authenticated_def authenticate_site_def bearer_token_def starts_with_def secrets_match_def
      authorize_replication_context_def demo_rows empty_central_db_def default_central_site_def
      default_central_site_credential_def default_central_event_deployment_def default_central_presentation_def
      default_central_presentation_version_def default_site_media_replication_session_def default_site_presentation_def)

lemma demo_accepting: "accepting (ps_central demo_push_settings) [demo_target] demo_target demo_target demo_digest demo_central"
proof -
  let ?fs = "ms_files (sl_service (cm_storage demo_central))"
  have files: "fs_entries ?fs p = (if p = [] \<or> p = [''data''] then Some Directory else None)" for p
    by (simp add: demo_central_def demo_service_def demo_empty_files_def)
  have way: "clear_way ?fs p" for p by (simp add: clear_way_def is_file_def files)
  have "media_inv (ps_central demo_push_settings) [demo_target] demo_central"
    by (rule empty_storage_inv [OF demo_empty demo_separate])
  moreover have "receive_constraints (cm_db demo_central)"
    by (simp add: receive_constraints_def demo_central_def demo_lifecycle_db_def)
  moreover have "fs_entries ?fs (partial_path (object_path demo_target demo_digest) v) = None" for v
    by (simp add: files partial_path_def object_path_def butlast_append demo_target_def)
  ultimately show ?thesis
    using way
    by (simp add: accepting_def Let_def path_exists_def files demo_push_settings_def)
       (simp add: demo_central_def demo_service_def demo_target_def demo_storage_env_def)
qed

lemma demo_pushable: "pushable demo_push_settings [demo_target] demo_target demo_target demo_source demo_deck demo_site_media"
proof -
  have c: "sm_central demo_site_media = demo_central" "sm_faults demo_site_media = []"
    "smr_sha256 (pu_replication demo_source) = demo_digest"
    "rs_storage_env (ps_central demo_push_settings) = demo_storage_env"
    by (simp_all add: demo_site_media_def demo_source_def demo_replication_def demo_push_settings_def)
  have "startable (ps_central demo_push_settings) demo_target demo_source demo_deck 0 demo_central"
    by (simp add: startable_def Let_def receiver_def uuids_left_def uuid_supply_def demo_rows demo_target_def)
  moreover have "unregistered demo_source (cm_db demo_central)"
    by (simp add: unregistered_def demo_central_def demo_lifecycle_db_def)
  ultimately show ?thesis
    using demo_accepting demo_authorised demo_site_ready demo_sendable demo_separate demo_distinct
    unfolding pushable_def c by blast
qed

section \<open>Witnesses\<close>

theorem uninterrupted_push_delivers_witness:
  "\<exists>s'. execute_central_push 10 demo_push_settings 4 demo_site_media = (Inr True, s')
    \<and> file_bytes (ms_files (sl_service (cm_storage (sm_central s')))) (object_path demo_target demo_digest) = Some ''deck''
    \<and> map_option smr_state (replication_row s' 4) = Some Repl_SYNCED"
proof -
  have "b = demo_deck" if "sv_sha256 (rs_storage_env (ps_central demo_push_settings)) b = smr_sha256 (pu_replication demo_source)" for b
    using that by (simp add: demo_push_settings_def demo_storage_env_def demo_source_def demo_replication_def demo_sha)
  from uninterrupted_push_delivers [OF demo_push_source demo_pushable this, of 10]
  show ?thesis by (auto simp: demo_deck_def demo_source_def demo_replication_def)
qed

lemma demo_settings: "rs_storage_env (ps_central demo_push_settings) = demo_storage_env" "ps_codec demo_push_settings = demo_codec"
  "sm_central demo_site_media = demo_central" "uuids_left demo_central"
  by (simp_all add: demo_push_settings_def demo_site_media_def uuids_left_def uuid_supply_def demo_central_def demo_service_def)

theorem finalized_media_is_verified_witness:
  "\<exists>s' r t b x. execute_central_push 10 demo_push_settings 4 demo_site_media = (Inr True, s')
    \<and> r \<in> set (lc_receives (cm_db (sm_central s'))) \<and> t \<in> set [demo_target]
    \<and> file_bytes (ms_files (sl_service (cm_storage (sm_central s')))) (object_path t (crs_sha256 r)) = Some b
    \<and> demo_sha256 b = crs_sha256 r \<and> x \<in> set (lc_replicas (cm_db (sm_central s'))) \<and> cmo_media_object_id x = 8"
proof -
  obtain s' r where run: "execute_central_push 10 demo_push_settings 4 demo_site_media = (Inr True, s')"
    and inv: "media_inv (ps_central demo_push_settings) [demo_target] (sm_central s')"
    and r: "r \<in> set (lc_receives (cm_db (sm_central s')))" "crs_finalized_media_object_id r = Some 8"
    using push_delivers [OF demo_push_source demo_pushable, of 10] by (auto simp: demo_source_def demo_replication_def)
  have reach: "(receiver_step demo_codec (ps_central demo_push_settings))\<^sup>*\<^sup>* demo_central (sm_central s')"
    using execute_central_push_steps [OF run] by (simp add: demo_settings)
  have rec: "receiver (sm_central s') (crs_replication_session_id r) = Some r"
    using inv r(1) by (simp add: receiver_def media_inv_def store_inv_def row_get_mem)
  have "distinct_uuids (rs_storage_env (ps_central demo_push_settings))" by (simp add: demo_settings demo_distinct)
  from finalized_media_is_verified [OF demo_empty reach demo_separate this rec r(2)]
  obtain t b x where "t \<in> set [demo_target]"
    "file_bytes (ms_files (sl_service (cm_storage (sm_central s')))) (object_path t (crs_sha256 r)) = Some b"
    "demo_sha256 b = crs_sha256 r" "x \<in> set (lc_replicas (cm_db (sm_central s')))" "cmo_media_object_id x = 8"
    by (auto simp: demo_settings demo_storage_env_def)
  with run r(1) show ?thesis by blast
qed


text \<open>Central after the first request of the push.\<close>

definition demo_created :: central_media where
  "demo_created = snd (with_session True (create_replication 10 (ps_central demo_push_settings) (push_manifest demo_source)
     (Some 7) (Some ''Bearer secret'')) demo_central)"

lemma demo_delivering:
  "delivering demo_push_settings [demo_target] demo_target demo_target demo_source demo_deck 0
     (demo_site_media\<lparr>sm_central := demo_created\<rparr>)"
proof -
  let ?st = "ps_central demo_push_settings"
  have u: "smr_site_id (pu_replication demo_source) = 7" "pu_authorization demo_source = ''Bearer secret''"
    "smr_sha256 (pu_replication demo_source) = demo_digest" "sm_faults demo_site_media = []"
    by (simp_all add: demo_source_def demo_replication_def demo_site_media_def)
  have fresh: "receiver demo_central (smr_replication_session_id (pu_replication demo_source)) = None"
    "ms_assignments (sl_service (cm_storage demo_central)) Staging_Role = tc_storage_target_id demo_target"
    "smr_expected_size (pu_replication demo_source) \<le> rs_max_upload_bytes ?st"
    "staging_key (sv_uuid4 (rs_storage_env ?st) (ms_minted (sl_service (cm_storage demo_central))))
      \<notin> crs_partial_key ` set (lc_receives (cm_db demo_central))"
    by (simp_all add: receiver_def demo_rows demo_target_def)
  have fields: "replication_create_fields (push_manifest demo_source)" using demo_sendable by (simp add: sendable_def)
  have "unregistered demo_source (cm_db demo_central)"
    by (simp add: unregistered_def demo_central_def demo_lifecycle_db_def)
  then show ?thesis
    using create_fresh [OF demo_accepting demo_authorised fields fresh(1,2) demo_settings(4) fresh(3,4), of 10 demo_deck]
      demo_authorised demo_site_ready
    by (auto simp: delivering_def u demo_created_def unregistered_def)
qed

theorem lost_commit_blocks_session_witness:
  "\<exists>c r. c = snd (with_session False (put_block 11 demo_push_settings demo_source 0 ''dec'') demo_created)
    \<and> receiver c 4 = Some r \<and> crs_confirmed_offset r = 0
    \<and> isl (fst (replication_content 12 (ps_central demo_push_settings) 4 0 \<lparr>rb_chunks = [''dec''], rb_complete = True\<rparr>
        (Some 7) (Some ''Bearer secret'') c))"
proof -
  let ?s = "demo_site_media\<lparr>sm_central := demo_created\<rparr>"
  have "distinct_uuids (rs_storage_env (ps_central demo_push_settings))" by (simp add: demo_settings demo_distinct)
  from lost_commit_blocks_session [OF demo_delivering demo_sendable demo_separate this, of "''dec''" 3 demo_codec 11
      "snd (with_session False (put_block 11 demo_push_settings demo_source 0 ''dec'') demo_created)" 12 0
      "\<lparr>rb_chunks = [''dec''], rb_complete = True\<rparr>" "Some 7" "Some ''Bearer secret''"]
  show ?thesis by (auto simp: demo_deck_def demo_source_def demo_replication_def demo_push_settings_def)
qed

end
