(* ===== verification/Spec2Isabelle.thy ===== *)
theory Spec2Isabelle
  imports Site_Transport Site_Users Presentation_Matching Central_Enrollment Central_Lifecycle Retry_Bound Push_Example
begin

text \<open>
  A verification development for Universal Presentation Management: a \<^emph>\<open>Central\<close> server that owns
  events and their programs, and \<^emph>\<open>Sites\<close> that run the events. Central publishes snapshots of an
  event's program to the Sites it is deployed to; Sites report back; both directions are durable
  outboxes whose messages carry consecutive sequence numbers, are delivered at least once, and are
  recorded by receipts. Both servers run background work on a lease-based job queue in their
  database. Media files are named by rules both servers share, kept by a storage service each server
  has, and pushed by the Sites to Central in blocks.

  \<^bold>\<open>What models what\<close>
  \<^item> \<open>Prelude\<close>, \<open>Py_Text\<close>, \<open>Py_Time\<close>, \<open>Json\<close>: results and exceptions, tables as lists of rows, and what
    the code uses of Python's strings, dates, JSON values and UUIDs. \<open>Transaction\<close>: code that writes
    to a database session and may raise in the middle.
  \<^item> \<open>Enums\<close>: \<open>upm_shared/enums.py\<close>. \<open>Contracts\<close>: \<open>upm_shared/contracts/\<close>. \<open>Central_Tables\<close>,
    \<open>Central_Archive_Tables\<close>, \<open>Site_Tables\<close>: the rows of \<open>persistence/models.py\<close> of both servers;
    \<open>Central_Db\<close>, \<open>Site_Db\<close>: the databases. \<open>Program_Forms\<close>: the request bodies of \<open>program_api.py\<close>.
  \<^item> \<open>Jobs\<close>, \<open>Lease_Queue\<close>, \<open>Central_Queue\<close>, \<open>Site_Queue\<close>, \<open>Retry_Bound\<close>: \<open>upm_shared/jobs.py\<close> and the two
    \<open>persistence/queue.py\<close>. The locales \<open>lease_queue\<close> and \<open>retry_queue\<close> are the contract of a queue;
    both queues interpret them. The lemmas: rows stay well formed, a live lease is exclusive, a
    finished job stays finished, retries end, and the two queues are one.
  \<^item> \<open>Sync_Channel\<close>: the locale of a receiver that applies messages once and in order.
    \<open>Central_Sync\<close> (\<open>upm_central/sync.py\<close>, the synchronisation routes of \<open>api.py\<close>) and \<open>Site_Sync\<close>
    (\<open>upm_site/sync.py\<close>) interpret it. \<open>Site_Transport\<close> (\<open>sync_transport.py\<close>) is the Site's round of
    HTTP requests and transactions; its lemmas say what survives a lost answer.
  \<^item> \<open>Central_Enrollment\<close> (the enrollment routes of \<open>api.py\<close>): a step relation of registrations and
    administrator decisions, and who can authenticate. \<open>Central_Deployments\<close>
    (\<open>upm_central/event_deployments.py\<close>): the deployment state machine and the snapshot.
  \<^item> \<open>Site_Rooms\<close> (\<open>room_operations.py\<close>), \<open>Site_Deployments\<close> and \<open>Site_Users\<close>
    (\<open>upm_site/event_deployments.py\<close>): what a Site does with a snapshot, a revocation or a deletion.
  \<^item> \<open>Central_Program\<close> (\<open>program.py\<close> and the writing routes of \<open>program_api.py\<close>): every request as one
    transaction, sequences of requests, and the invariant that references stay inside an event.
    \<open>Central_Lifecycle\<close> (\<open>lifecycle.py\<close>): deletions, statement by statement, and the specification they
    implement.
  \<^item> \<open>Media_Paths\<close>, \<open>Presentation_Naming\<close>, \<open>Presentation_Matching\<close>: \<open>presentation_media.py\<close>,
    \<open>domain/media.py\<close>, \<open>smb_intake.py\<close>, \<open>media/storage.py\<close> and the key check of the storage service.
  \<^item> \<open>File_System\<close>: files, directories and hard links. \<open>Media_Storage\<close>: the storage service
    (\<open>upm_media_storage\<close>) and its clients (\<open>media_storage_client.py\<close>). \<open>Media_Replication\<close>: the routes of
    \<open>presentation_media_api.py\<close> that receive a file, and \<open>media_replication.py\<close>. \<open>Media_Push\<close>:
    \<open>upm_site/media/replication.py\<close> and the branch of \<open>worker.py\<close> that runs it. \<open>Replication_Integrity\<close>: the
    invariant of the objects, the staged files and the receive sessions, kept by every request in any
    order. \<open>Push_Delivery\<close>: what each request of an undisturbed push does. \<open>Push_Outcomes\<close> and
    \<open>Push_Example\<close>: what the pushes guarantee, and a deployment they are evaluated on.
  \<^item> This theory: the deletion of an event from Central's statement to the Site's purge.

  \<^bold>\<open>State, errors and order\<close>
  A table is the list of its rows in insertion order; the key of a row is found by \<open>row_get\<close> and a
  row is changed by \<open>row_put\<close>. A handler is a function of the database that returns an exception or a
  value; where the code commits after it has caught an exception the state is returned with the
  exception as well. A transaction that ends in an exception changes nothing. Concurrency of the
  queue is explicit: a run is a list of actions of any workers, and the rows another transaction has
  locked are an argument of a claim. Loops over rows are recursion over lists; the loop of a push ends
  because a block that is acknowledged advances the offset. Every definition is total and no fuel is
  needed. A request to the storage service or to Central may be lost, or its answer, or the commit at
  its end: the faults to come are part of the state. The database of a request that fails is restored,
  the files are not.

  \<^bold>\<open>Parameters\<close>
  What the repository does not contain is an argument: SHA-256, HMAC, Fernet, random tokens, the
  UUID generator, Unicode normalisation, the time-zone database, pydantic's decoding and encoding
  (\<open>codec\<close>), the HTTP client, and the mounts of the storage service. The properties of the media push
  assume that the generator does not repeat itself in its first \<open>2 ^ 122\<close> values (the number of random
  UUIDs) and that no storage target lies below another.

  \<^bold>\<open>Idealisations\<close>
  One operation reads the clock once. Floats are exact rationals. Case mapping is ASCII. CHECK and
  UNIQUE constraints are checked on the state a flush leaves; foreign keys and the widths of text
  columns are not. \<open>updated_at\<close> stamps are left out. Request times are instants, so the check that a
  time has an offset has nothing to reject. Statements without \<open>ORDER BY\<close> see insertion order. There
  are no symbolic links below a storage target, and writes to it do not fail for want of space.

  \<^bold>\<open>Not modelled\<close>
  Program imports (\<open>imports.py\<close>), the upload, promotion and download of media at both servers, SMB
  account management and materialisation, administrator and operator sessions, the worker loops
  around the modelled steps, read-only routes, the web interface, migrations and scripts: file and
  process input and output, third-party readers, or display. The import rules, the staging state
  machine of presentation media and the download of files to a Site would be the next parts.

  \<^bold>\<open>Where the code does not do what it means to\<close>
  Some theorems state a defect, because that is how the code behaves: a late report reopens a revoked
  deployment, a refused Site event blocks its channel, ending the assignment of a future session
  breaks a constraint, a snapshot with a new user fails, a withdrawn user blocks later snapshots, a
  leading \<open>./\<close> hides a drive letter, no update of the program is ever committed, and a block whose
  confirmation is lost blocks the replication of its file.
\<close>

section \<open>A deletion travels from Central to the Sites\<close>

lemma uuid_of_str: "u < 2 ^ 128 \<Longrightarrow> uuid_of rp (JStr (uuid_str u)) = Inr u"
  unfolding uuid_of_def py_str_def json.case by (rule parse_uuid_str)

lemma site_understands_event_tombstone:
  assumes "e < 2 ^ 128"
  shows "central_event_effect cx now (central_envelope (new_outbox_event i t (event_tombstone op e site n))) sdb
     = (Inr (Inr None), purge_event now e sdb)"
  using assms
  by (simp add: central_event_effect_def central_envelope_def new_outbox_event_def event_tombstone_def deletion_branch_def
      apply_event_deletion_def dict_item_def uuid_of_str tx_try_def tx_bind_def tx_then_def)

lemma purge_outbox:
  "q_outbox (cd_queue (lc_db (purge_central_event e transfers s))) =
     map (\<lambda>x. if o_event_id x = Some e then x\<lparr>o_event_id := None\<rparr> else x) (q_outbox (cd_queue (lc_db s)))"
  by (simp add: purge_central_event_def purge_central_program_def on_db_def release_sync_events_def drop_assets_def
      drop_receives_def drop_defs)



end
